(* ===== verification/Prelude.thy ===== *)
theory Prelude
  imports Main "HOL-Library.Word" "HOL-Library.Code_Target_Nat"
begin

text \<open>
  Shared vocabulary of the development.
  \<^item> Names for the fixed-width C integers the sources use, the result type of code that may
    stop in \<open>crash()\<close> and the named collections of rewrite rules the components fill.
  \<^item> The alignment macros \<open>TRUNC\<close> and \<open>ROUND\<close> of \<open>startup.h\<close> with their arithmetic
    meaning for power-of-two alignments.
  \<^item> Generic facts that move word arithmetic to the natural numbers.
  \<^item> The contract of an allocator and what follows for sequences of its calls.
\<close>

unbundle bit_operations_syntax

type_synonym u8 = "8 word"
type_synonym u16 = "16 word"
type_synonym u32 = "32 word"
type_synonym u64 = "64 word"

text \<open>
  Startup code has no error returns for internal failures: it calls \<open>crash()\<close> with a message,
  which never returns. \<open>Inl msg\<close> is such a stop, \<open>Inr x\<close> a normal return.
\<close>

type_synonym 'a fallible = "string + 'a"

definition bindf :: "'a fallible \<Rightarrow> ('a \<Rightarrow> 'b fallible) \<Rightarrow> 'b fallible" where
  "bindf m f = (case m of Inl e \<Rightarrow> Inl e | Inr x \<Rightarrow> f x)"

named_theorems word_nat \<open>moving word comparisons and arithmetic to nat\<close>
named_theorems io_simps \<open>evaluation of register accesses\<close>

lemma bindf_simps [simp]:
  "bindf (Inl e) f = Inl e"
  "bindf (Inr x) f = f x"
  by (simp_all add: bindf_def)

lemma bindf_Inr_iff: "bindf m f = Inr y \<longleftrightarrow> (\<exists>x. m = Inr x \<and> f x = Inr y)"
  by (cases m) auto

section \<open>Words as natural numbers\<close>

declare word_le_nat_alt [word_nat] word_less_nat_alt [word_nat]

lemma unat_add_exact:
  fixes x y :: "'a::len word"
  shows "unat x + unat y < 2 ^ LENGTH('a) \<Longrightarrow> unat (x + y) = unat x + unat y"
  by (simp add: unat_add_lem)

lemma unat_add_u64: "unat (x::u64) + unat y < 2 ^ 64 \<Longrightarrow> unat (x + y) = unat x + unat y"
  by (rule unat_add_exact) simp

lemma unat_add_u32: "unat (x::u32) + unat y < 2 ^ 32 \<Longrightarrow> unat (x + y) = unat x + unat y"
  by (rule unat_add_exact) simp

lemma unat_succ_less:
  fixes x y :: "'a::len word"
  assumes "x < y"
  shows "unat (x + 1) = unat x + 1"
proof -
  have "unat x + 1 \<le> unat y" using assms by (simp add: word_less_nat_alt)
  then have "unat x + unat (1::'a word) < 2 ^ LENGTH('a)" by (simp add: le_less_trans [OF _ unsigned_less])
  then show ?thesis by (simp add: unat_add_exact)
qed

lemma unat_sub_nat:
  fixes x y :: "'a::len word"
  shows "unat y \<le> unat x \<Longrightarrow> unat (x - y) = unat x - unat y"
  by (simp add: unat_sub word_le_nat_alt)

lemma unat_u64_bound [simp]: "unat (x::u64) < 2 ^ 64" "unat x < 18446744073709551616"
  using unsigned_less [of x] by simp_all

lemma unat_u32_bound [simp]: "unat (x::u32) < 2 ^ 32" "unat x < 4294967296"
  using unsigned_less [of x] by simp_all

lemma unat_ucast_u32_u64 [simp]: "unat (ucast (x::u32) :: u64) = unat x"
proof -
  have "unat x < 2 ^ 64" by (rule less_trans [OF unat_u32_bound(1)]) simp
  then show ?thesis by (simp add: unsigned_ucast_eq take_bit_nat_eq_self)
qed

lemma word_neq_nat: "(x :: 'a::len word) \<noteq> y \<longleftrightarrow> unat x \<noteq> unat y"
  by (simp add: word_unat_eq_iff)

lemma word_gt0_nat: "(0 < (x :: 'a::len word)) = (0 < unat x)"
  by (simp add: word_less_nat_alt)

section \<open>Alignment\<close>

text \<open>\<open>#define TRUNC(_x,_a)\<close> and \<open>#define ROUND(_x,_a)\<close>: both cast their operands to
  \<open>paddr_t\<close>, which is 64 bits wide on this platform.\<close>

definition TRUNC :: "u64 \<Rightarrow> u64 \<Rightarrow> u64" where
  "TRUNC x a = x AND NOT (a - 1)"

definition ROUND :: "u64 \<Rightarrow> u64 \<Rightarrow> u64" where
  "ROUND x a = TRUNC (x + (a - 1)) a"

lemma and_not_mask_eq: "x AND NOT (mask k) = x - take_bit k (x :: 'a::len word)"
proof -
  have "x AND NOT (mask k) = push_bit k (drop_bit k x)"
    by (rule bit_eqI) (auto simp: bit_simps)
  also have "\<dots> = x - take_bit k x"
    using bits_ident [of k x] by (metis add_diff_cancel_right')
  finally show ?thesis .
qed

lemma unat_trunc_pow2: "unat (TRUNC x (2 ^ k)) = unat x - unat x mod 2 ^ k"
proof -
  have eq: "TRUNC x (2 ^ k) = x - take_bit k x"
    by (simp add: TRUNC_def and_not_mask_eq flip: mask_eq_exp_minus_1)
  have m: "unat (take_bit k x) = unat x mod 2 ^ k"
    unfolding unsigned_take_bit_eq by (simp add: take_bit_eq_mod)
  then have "unat (take_bit k x) \<le> unat x" by simp
  with eq m show ?thesis by (simp add: unat_sub_nat)
qed

lemma trunc_pow2_le: "unat (TRUNC x (2 ^ k)) \<le> unat x"
  by (simp add: unat_trunc_pow2)

lemma trunc_pow2_dvd: "2 ^ k dvd unat (TRUNC x (2 ^ k))"
  by (simp add: unat_trunc_pow2 minus_mod_eq_mult_div)

lemma unat_pow2_u64:
  assumes "k < 64"
  shows "unat ((2::u64) ^ k) = 2 ^ k"
proof -
  have "unat (of_nat (2 ^ k) :: u64) = 2 ^ k mod 2 ^ 64"
    by (simp only: unat_of_nat) simp
  moreover have "(2::nat) ^ k < 2 ^ 64" using assms by (intro power_strict_increasing) auto
  ultimately show ?thesis by simp
qed

lemma ucast_pow2: "k < 32 \<Longrightarrow> ucast ((2::u32) ^ k) = (2::u64) ^ k"
  by (rule bit_eqI) (auto simp: bit_simps)

lemma unat_pow2_minus1: "k < 64 \<Longrightarrow> unat ((2::u64) ^ k - 1) = 2 ^ k - 1"
  by (simp add: unat_sub_nat unat_pow2_u64)

lemma unat_round_pow2:
  assumes "k < 64" "unat x + 2 ^ k \<le> 2 ^ 64"
  shows "unat (ROUND x (2 ^ k)) = (unat x + (2 ^ k - 1)) - (unat x + (2 ^ k - 1)) mod 2 ^ k"
proof -
  have pos: "(0::nat) < 2 ^ k" by simp
  with assms(2) have "unat x + (2 ^ k - 1) < 2 ^ 64" by linarith
  then have "unat (x + (2 ^ k - 1)) = unat x + (2 ^ k - 1)"
    using assms(1) by (simp add: unat_add_u64 unat_pow2_minus1)
  then show ?thesis by (simp add: ROUND_def unat_trunc_pow2)
qed

text \<open>Rounding up returns the least multiple of the alignment that is not below its argument.\<close>

lemma round_pow2_ge:
  assumes "k < 64" "unat x + 2 ^ k \<le> 2 ^ 64"
  shows "unat x \<le> unat (ROUND x (2 ^ k))"
proof -
  have "(unat x + (2 ^ k - 1)) mod 2 ^ k < 2 ^ k" by simp
  then show ?thesis unfolding unat_round_pow2 [OF assms] by linarith
qed

lemma round_pow2_lt:
  assumes "k < 64" "unat x + 2 ^ k \<le> 2 ^ 64"
  shows "unat (ROUND x (2 ^ k)) < unat x + 2 ^ k"
proof -
  have "(0::nat) < 2 ^ k" by simp
  then show ?thesis unfolding unat_round_pow2 [OF assms] by linarith
qed

lemma round_pow2_dvd: "2 ^ k dvd unat (ROUND x (2 ^ k))"
  by (simp add: ROUND_def trunc_pow2_dvd)

section \<open>Windows of a list\<close>

text \<open>A window of a memory image around an insertion point: the window that ends there, one that
  ends earlier, one that starts later, and a window next to an overwritten range.\<close>

lemma window_insert_at:
  assumes "lo + sz \<le> length m"
  shows "take (sz + length z) (drop lo (take (lo + sz) m @ z @ r)) = take sz (drop lo m) @ z"
proof -
  have "drop lo (take (lo + sz) m @ z @ r) = take sz (drop lo m) @ z @ r"
    using assms by (simp add: drop_take)
  then show ?thesis using assms by simp
qed

lemma window_insert_behind:
  assumes "lo + sz \<le> p" "p \<le> length m"
  shows "take sz (drop lo (take p m @ r)) = take sz (drop lo m)"
  using assms by (intro nth_equalityI) (auto simp: nth_append)

lemma window_insert_before:
  assumes "p \<le> lo" "p \<le> length m"
  shows "drop (lo + length z) (take p m @ z @ drop p m) = drop lo m"
  using assms by (simp add: drop_append)

lemma window_overwrite:
  assumes "p + length z \<le> length m" "lo + sz \<le> p \<or> p + length z \<le> lo"
  shows "take sz (drop lo (take p m @ z @ drop (p + length z) m)) = take sz (drop lo m)"
  using assms(2)
proof
  assume "lo + sz \<le> p"
  then show ?thesis using assms(1) by (intro window_insert_behind) auto
next
  assume "p + length z \<le> lo"
  then have "drop lo (take p m @ z @ drop (p + length z) m) = drop lo m"
    using assms(1) by (simp add: drop_append)
  then show ?thesis by simp
qed

lemma window_overwrite_inside:
  assumes "lo + i + length z \<le> lo + sz" "lo + sz \<le> length m"
  shows "take sz (drop lo (take (lo + i) m @ z @ drop (lo + i + length z) m)) =
         take i (take sz (drop lo m)) @ z @ drop (i + length z) (take sz (drop lo m))"
  using assms by (intro nth_equalityI) (auto simp: nth_append)

section \<open>Allocators\<close>

text \<open>The contract of an operation that takes blocks out of a pool of free bytes, and what follows
  for every sequence of calls. A run lists its blocks from the last one back.\<close>

inductive alloc_run :: "('s \<Rightarrow> 'q \<Rightarrow> 's \<Rightarrow> nat set \<Rightarrow> bool) \<Rightarrow> 's \<Rightarrow> nat set list \<Rightarrow> 's \<Rightarrow> bool"
  for alloc where
  start: "alloc_run alloc s [] s"
| step: "alloc_run alloc s bs s1 \<Longrightarrow> alloc s1 q s2 b \<Longrightarrow> alloc_run alloc s (b # bs) s2"

locale block_allocator =
  fixes inv :: "'s \<Rightarrow> bool"
    and free :: "'s \<Rightarrow> nat set"
    and alloc :: "'s \<Rightarrow> 'q \<Rightarrow> 's \<Rightarrow> nat set \<Rightarrow> bool"
  assumes alloc_inv: "inv s \<Longrightarrow> alloc s q s' b \<Longrightarrow> inv s'"
    and alloc_block: "inv s \<Longrightarrow> alloc s q s' b \<Longrightarrow> b \<subseteq> free s \<and> free s' = free s - b"
begin

lemma run_inv: "alloc_run alloc s bs s' \<Longrightarrow> inv s \<Longrightarrow> inv s'"
  by (induction rule: alloc_run.induct) (auto dest: alloc_inv)

lemma run_free: "alloc_run alloc s bs s' \<Longrightarrow> inv s \<Longrightarrow> free s' = free s - \<Union> (set bs) \<and> \<Union> (set bs) \<subseteq> free s"
proof (induction rule: alloc_run.induct)
  case (step s bs s1 q s2 b)
  then show ?case using alloc_block [OF run_inv [OF step.hyps(1)] step.hyps(2)] by auto
qed simp

lemma run_disjoint: "alloc_run alloc s bs s' \<Longrightarrow> inv s \<Longrightarrow> sorted_wrt (\<lambda>a b. a \<inter> b = {}) bs"
proof (induction rule: alloc_run.induct)
  case (step s bs s1 q s2 b)
  then show ?case using alloc_block [OF run_inv [OF step.hyps(1)] step.hyps(2)] run_free [OF step.hyps(1)] by auto
qed simp

end

end
