(* ===== verification/Ram_List.thy ===== *)
theory Ram_List
  imports Prelude
begin

text \<open>
  The free-memory list of \<open>startup/lib/ram.c\<close>: the array \<open>ram_list\<close> of
  \<open>(addr, size)\<close> blocks, the array \<open>avoid_list\<close> of ranges that must not be handed out, and
  the searches over both.

  An array is the list of its entries without the terminator that the C code keeps behind the last
  one (\<open>size == 0\<close>, respectively \<open>end == 0\<close>); every loop also stops at an entry that looks like
  the terminator, as the code does. \<open>ram_list_size\<close> is the byte count the code keeps beside the
  array. All addresses are 64-bit words and wrap around like the C expressions.
\<close>

record ram_entry =
  ram_addr :: u64
  ram_size :: u64

record avoid_entry =
  av_start :: u64
  av_end :: u64

definition sizeof_ram_entry :: nat where
  "sizeof_ram_entry = 16"

definition MAX_RAM_LIST_SIZE :: nat where
  "MAX_RAM_LIST_SIZE = 3 * 1024"

definition ram_list_size :: "ram_entry list \<Rightarrow> nat" where
  "ram_list_size l = sizeof_ram_entry * (length l + 1)"

section \<open>\<open>add_mem\<close>\<close>

text \<open>The first loop of \<open>add_mem\<close> with the \<open>memmove\<close> that opens a slot.\<close>

fun add_mem_insert :: "u64 \<Rightarrow> u64 \<Rightarrow> ram_entry list \<Rightarrow> ram_entry list" where
  "add_mem_insert start sz [] = [\<lparr>ram_addr = start, ram_size = sz\<rparr>]"
| "add_mem_insert start sz (r # rs) =
     (if ram_size r = 0 \<or> ram_addr r > start
      then \<lparr>ram_addr = start, ram_size = sz\<rparr> # r # rs
      else r # add_mem_insert start sz rs)"

text \<open>The second loop: \<open>p\<close> is \<open>r[-1]\<close>. A block that starts inside its predecessor or right
  behind it is folded into the predecessor and removed from the array.\<close>

fun add_mem_merge :: "ram_entry \<Rightarrow> ram_entry list \<Rightarrow> ram_entry list" where
  "add_mem_merge p [] = [p]"
| "add_mem_merge p (r # rs) =
     (if ram_size r = 0 then p # r # rs
      else let e = ram_addr p + ram_size p; s = ram_addr r
           in if s \<le> e
              then let e' = (if s + ram_size r > e then s + ram_size r else e)
                   in add_mem_merge (p\<lparr>ram_size := e' - ram_addr p\<rparr>) rs
              else p # add_mem_merge r rs)"

definition add_mem :: "u64 \<Rightarrow> u64 \<Rightarrow> ram_entry list \<Rightarrow> ram_entry list fallible" where
  "add_mem start sz l =
     (if sz > 0
      then if ram_list_size l > MAX_RAM_LIST_SIZE - sizeof_ram_entry
           then Inl ''RAM entry array overflow''
           else (case add_mem_insert start sz l of
                   [] \<Rightarrow> Inr []
                 | r # rs \<Rightarrow> Inr (add_mem_merge r rs))
      else Inr l)"

section \<open>\<open>fix_size\<close> and the searches\<close>

text \<open>\<open>None\<close> is the return value 0: nothing is left of the candidate block \<open>[s, e)\<close>.\<close>

definition fix_size :: "u64 \<Rightarrow> u64 \<Rightarrow> u64 \<Rightarrow> u64 \<Rightarrow> (u64 \<times> u64) option" where
  "fix_size s e as ae =
     (if s \<ge> ae \<or> e \<le> as then Some (s, e)
      else if s \<ge> as then (if e \<le> ae then None else Some (ae, e))
      else if e < ae then Some (s, as)
      else if as - s > e - ae then Some (s, as)
      else Some (ae, e))"

fun fix_size_all :: "u64 \<Rightarrow> u64 \<Rightarrow> avoid_entry list \<Rightarrow> (u64 \<times> u64) option" where
  "fix_size_all s e [] = Some (s, e)"
| "fix_size_all s e (a # as) =
     (if av_end a = 0 then Some (s, e)
      else case fix_size s e (av_start a) (av_end a) of
             None \<Rightarrow> None
           | Some (s', e') \<Rightarrow> fix_size_all s' e' as)"

definition NULL_PADDR :: u64 where
  "NULL_PADDR = NOT 0"

fun find_top_loop :: "avoid_entry list \<Rightarrow> u64 \<Rightarrow> u64 \<Rightarrow> u64 \<Rightarrow> u64 \<Rightarrow> ram_entry list \<Rightarrow> u64" where
  "find_top_loop av sz align limit best [] = best"
| "find_top_loop av sz align limit best (r # rs) =
     (if ram_size r = 0 then best
      else case fix_size_all (ram_addr r) (ram_addr r + ram_size r) av of
             None \<Rightarrow> find_top_loop av sz align limit best rs
           | Some (s, e) \<Rightarrow>
               if e - s \<ge> sz
               then let chk = (if align \<noteq> 0 then TRUNC (e - sz) align else e - sz)
                    in if chk \<ge> s \<and> chk > best
                       then if chk + sz \<ge> limit
                            then let t = limit - sz in (if t < s then best else t)
                            else find_top_loop av sz align limit chk rs
                       else find_top_loop av sz align limit best rs
               else find_top_loop av sz align limit best rs)"

definition find_top_ram_aligned_limit ::
    "ram_entry list \<Rightarrow> avoid_entry list \<Rightarrow> u64 \<Rightarrow> u32 \<Rightarrow> u32 \<Rightarrow> u64 \<Rightarrow> u64" where
  "find_top_ram_aligned_limit l av sz align pagesize limit =
     (if limit < sz then NULL_PADDR
      else let sz' = ROUND sz (ucast pagesize);
               best = find_top_loop av sz' (ucast align) limit 0 l
           in if best = 0 then NULL_PADDR else best)"

definition find_top_ram_aligned ::
    "ram_entry list \<Rightarrow> avoid_entry list \<Rightarrow> u64 \<Rightarrow> u32 \<Rightarrow> u32 \<Rightarrow> u64" where
  "find_top_ram_aligned l av sz align pagesize =
     find_top_ram_aligned_limit l av sz align pagesize (NOT 0)"

definition find_top_ram :: "ram_entry list \<Rightarrow> avoid_entry list \<Rightarrow> u64 \<Rightarrow> u32 \<Rightarrow> u64" where
  "find_top_ram l av sz pagesize = find_top_ram_aligned l av sz 0 pagesize"

text \<open>
  The cache-colour adjustment of \<open>find_ram_in_range\<close>. \<open>mask\<close>, \<open>colour\<close> and \<open>incr\<close> are
  \<open>unsigned\<close>, so \<open>~mask\<close> is a 32-bit value that is zero-extended before the \<open>&\<close>.
\<close>

definition colour_adjust :: "u64 \<Rightarrow> u32 \<Rightarrow> u32 \<Rightarrow> u64" where
  "colour_adjust addr colour cmask =
     (if addr AND ucast cmask \<noteq> ucast colour
      then let incr = ((cmask - 1) OR cmask) + 1
           in ((addr + ucast incr) AND ucast (NOT cmask)) OR ucast colour
      else addr)"

fun find_ram_in_range :: "ram_entry list \<Rightarrow> avoid_entry list \<Rightarrow> u64 \<Rightarrow> u64 \<Rightarrow> u64 \<Rightarrow> u32 \<Rightarrow>
    u32 \<Rightarrow> u32 \<Rightarrow> u64" where
  "find_ram_in_range [] av range_start range_end sz align colour cmask = NULL_PADDR"
| "find_ram_in_range (r # rs) av range_start range_end sz align colour cmask =
     (if ram_size r = 0 then NULL_PADDR
      else case fix_size_all (ram_addr r) (ram_addr r + ram_size r) av of
             None \<Rightarrow> find_ram_in_range rs av range_start range_end sz align colour cmask
           | Some (s, e) \<Rightarrow>
               let a1 = colour_adjust (ROUND s (ucast align)) colour cmask;
                   a2 = (if range_start \<noteq> 0 \<and> a1 < range_start then range_start else a1);
                   e2 = (if range_end \<noteq> 0 \<and> e > range_end then range_end else e)
               in if a2 \<ge> e2
                  then find_ram_in_range rs av range_start range_end sz align colour cmask
                  else if sz \<le> e2 - a2 then a2
                  else find_ram_in_range rs av range_start range_end sz align colour cmask)"

text \<open>\<open>PADDR_T\<close> is \<open>paddr_t\<close> on a 64-bit target, so the narrowing in \<open>find_ram\<close> is the
  identity and \<open>NULL_PADDR_STARTUP\<close> is \<open>NULL_PADDR\<close>.\<close>

definition find_ram :: "ram_entry list \<Rightarrow> avoid_entry list \<Rightarrow> u64 \<Rightarrow> u32 \<Rightarrow> u32 \<Rightarrow> u32 \<Rightarrow> u64" where
  "find_ram l av sz align colour cmask = find_ram_in_range l av 0 (NOT 0) sz align colour cmask"

section \<open>Removing a range: the loop of \<open>alloc_ram\<close>\<close>

definition alloc_overlaps :: "u64 \<Rightarrow> u64 \<Rightarrow> u64 \<Rightarrow> u64 \<Rightarrow> bool" where
  "alloc_overlaps addr end s e \<longleftrightarrow>
     (addr \<le> s \<and> end > s) \<or> (addr \<ge> s \<and> addr < e) \<or> (end \<ge> s \<and> end < e)"

lemma length_add_mem_insert: "length (add_mem_insert start sz l) = Suc (length l)"
  by (induction l) auto

lemma length_add_mem_merge: "length (add_mem_merge p rs) \<le> Suc (length rs)"
  by (induction p rs rule: add_mem_merge.induct) (auto simp: Let_def intro: le_SucI)

lemma length_add_mem:
  assumes "add_mem start sz l = Inr l'"
  shows "length l' \<le> Suc (length l)"
proof (cases "add_mem_insert start sz l")
  case Nil
  with assms show ?thesis by (auto simp: add_mem_def split: if_splits)
next
  case (Cons r rs)
  then have "length rs = length l" using length_add_mem_insert [of start sz l] by simp
  with assms Cons length_add_mem_merge [of r rs] show ?thesis
    by (auto simp: add_mem_def split: if_splits)
qed

lemma length_add_mem_room:
  assumes "add_mem start sz l = Inr l'" "length l' = Suc (length l)"
  shows "length l < 191"
  using assms by (auto simp: add_mem_def ram_list_size_def sizeof_ram_entry_def
      MAX_RAM_LIST_SIZE_def split: if_splits)

text \<open>One round of the loop at index \<open>i\<close>: the index of the next round and the new array.\<close>

definition alloc_entry :: "u64 \<Rightarrow> u64 \<Rightarrow> nat \<Rightarrow> ram_entry list \<Rightarrow> (nat \<times> ram_entry list) fallible" where
  "alloc_entry addr end i l =
     (let r = l ! i; s0 = ram_addr r; e0 = s0 + ram_size r
      in if alloc_overlaps addr end s0 e0
         then let e = (if end > e0 then end else e0);
                  s = (if addr < s0 then addr else s0)
              in if addr = s \<and> end = e then Inr (i, take i l @ drop (Suc i) l)
                 else if addr = s
                 then Inr (Suc i, l[i := r\<lparr>ram_size := e - end, ram_addr := end\<rparr>])
                 else let l1 = l[i := r\<lparr>ram_size := addr - s\<rparr>]
                      in if e \<noteq> end
                         then bindf (add_mem end (e - end) l1) (\<lambda>l2. Inr (Suc i, l2))
                         else Inr (Suc i, l1)
         else Inr (Suc i, l))"

lemma alloc_entry_progress:
  assumes "alloc_entry addr end i l = Inr (j, l')" "i < length l"
  shows "length l' - j < length l - i \<or> length l' - j = length l - i \<and> length l < length l' \<and> length l < 191"
proof -
  define r where "r = l ! i"
  define e where "e = (let e0 = ram_addr r + ram_size r in if end > e0 then end else e0)"
  define l1 where "l1 = l[i := r\<lparr>ram_size := addr - ram_addr r\<rparr>]"
  have [simp]: "length l1 = length l" by (simp add: l1_def)
  consider "j = i" "l' = take i l @ drop (Suc i) l" | "j = Suc i" "length l' = length l"
    | "j = Suc i" "add_mem end (e - end) l1 = Inr l'"
    using assms(1)
    by (auto simp: alloc_entry_def Let_def bindf_Inr_iff r_def e_def l1_def split: if_splits)
  then show ?thesis
  proof cases
    case 3
    then show ?thesis
      using assms(2) length_add_mem [OF 3(2)] length_add_mem_room [OF 3(2)]
      by (cases "length l' = Suc (length l1)") auto
  qed (use assms(2) in auto)
qed

text \<open>
  The loop walks the array by index while it removes and inserts entries. It ends because each
  round either brings the index nearer to the end of the array or lengthens the array, and the
  array has room for 191 entries.
\<close>

function alloc_loop :: "u64 \<Rightarrow> u64 \<Rightarrow> nat \<Rightarrow> ram_entry list \<Rightarrow> ram_entry list fallible" where
  "alloc_loop addr end i l =
     (if i \<ge> length l \<or> ram_size (l ! i) = 0 then Inr l
      else case alloc_entry addr end i l of
             Inl err \<Rightarrow> Inl err
           | Inr (j, l') \<Rightarrow> alloc_loop addr end j l')"
  by pat_completeness auto
termination
proof (relation "measures [\<lambda>(addr, end, i, l). length l - i, \<lambda>(addr, end, i, l). 192 - length l]",
    goal_cases)
  case (2 addr "end" i l _ j l')
  with alloc_entry_progress [of addr "end" i l j l'] show ?case by auto
qed simp

declare alloc_loop.simps [simp del]

section \<open>The set of free bytes\<close>

text \<open>
  The abstract view: a list stands for a set of byte addresses. A well-formed list has non-empty
  blocks that do not run past the top of the address space, in ascending order and with a gap
  between any two of them, so that no two entries could be one.
\<close>

abbreviation ram_lo :: "ram_entry \<Rightarrow> nat" where
  "ram_lo r \<equiv> unat (ram_addr r)"

abbreviation ram_hi :: "ram_entry \<Rightarrow> nat" where
  "ram_hi r \<equiv> unat (ram_addr r) + unat (ram_size r)"

abbreviation ram_span :: "ram_entry \<Rightarrow> nat set" where
  "ram_span r \<equiv> {ram_lo r ..< ram_hi r}"

definition ram_bytes :: "ram_entry list \<Rightarrow> nat set" where
  "ram_bytes l = (\<Union>r \<in> set l. ram_span r)"

definition ram_entry_ok :: "ram_entry \<Rightarrow> bool" where
  "ram_entry_ok r \<longleftrightarrow> ram_size r \<noteq> 0 \<and> ram_hi r < 2 ^ 64"

definition ram_ok :: "ram_entry list \<Rightarrow> bool" where
  "ram_ok l \<longleftrightarrow> list_all ram_entry_ok l \<and> sorted_wrt (\<lambda>a b. ram_hi a < ram_lo b) l"

lemma ram_bytes_simps [simp]:
  "ram_bytes [] = {}"
  "ram_bytes (r # rs) = ram_span r \<union> ram_bytes rs"
  "ram_bytes (xs @ ys) = ram_bytes xs \<union> ram_bytes ys"
  by (auto simp: ram_bytes_def)

lemma ram_ok_simps [simp]:
  "ram_ok []"
  "ram_ok (r # rs) \<longleftrightarrow> ram_entry_ok r \<and> (\<forall>x \<in> set rs. ram_hi r < ram_lo x) \<and> ram_ok rs"
  by (auto simp: ram_ok_def)

lemma ram_ok_append [simp]:
  "ram_ok (xs @ ys) \<longleftrightarrow> ram_ok xs \<and> ram_ok ys \<and> (\<forall>x \<in> set xs. \<forall>y \<in> set ys. ram_hi x < ram_lo y)"
  by (auto simp: ram_ok_def sorted_wrt_append)

lemma ram_ok_entry: "ram_ok l \<Longrightarrow> r \<in> set l \<Longrightarrow> ram_entry_ok r"
  by (auto simp: ram_ok_def list_all_iff)

lemma unat_ram_end: "ram_entry_ok r \<Longrightarrow> unat (ram_addr r + ram_size r) = ram_hi r"
  by (simp add: ram_entry_ok_def unat_add_u64)

lemma ram_entry_ok_pos: "ram_entry_ok r \<Longrightarrow> 0 < unat (ram_size r)"
  by (simp add: ram_entry_ok_def unat_gt_0)

section \<open>\<open>add_mem\<close> adds a range\<close>

lemma set_add_mem_insert:
  "set (add_mem_insert start sz l) = insert \<lparr>ram_addr = start, ram_size = sz\<rparr> (set l)"
  by (induction l) auto

lemma add_mem_insert_sorted:
  assumes "sorted_wrt (\<lambda>a b. ram_lo a \<le> ram_lo b) l" "list_all ram_entry_ok l"
  shows "sorted_wrt (\<lambda>a b. ram_lo a \<le> ram_lo b) (add_mem_insert start sz l)"
  using assms
proof (induction l)
  case Nil
  then show ?case by simp
next
  case (Cons r rs)
  then show ?case
    by (auto simp: set_add_mem_insert ram_entry_ok_def word_less_nat_alt)
qed

declare add_mem_merge.simps(2) [simp del]

definition ram_fold :: "ram_entry \<Rightarrow> ram_entry \<Rightarrow> ram_entry" where
  "ram_fold p r = p\<lparr>ram_size := (if ram_addr r + ram_size r > ram_addr p + ram_size p
     then ram_addr r + ram_size r else ram_addr p + ram_size p) - ram_addr p\<rparr>"

lemma ram_addr_fold [simp]: "ram_addr (ram_fold p r) = ram_addr p"
  by (simp add: ram_fold_def)

lemma add_mem_merge_Cons:
  "ram_size r = 0 \<Longrightarrow> add_mem_merge p (r # rs) = p # r # rs"
  "ram_size r \<noteq> 0 \<Longrightarrow> ram_addr r \<le> ram_addr p + ram_size p \<Longrightarrow>
     add_mem_merge p (r # rs) = add_mem_merge (ram_fold p r) rs"
  "ram_size r \<noteq> 0 \<Longrightarrow> \<not> ram_addr r \<le> ram_addr p + ram_size p \<Longrightarrow>
     add_mem_merge p (r # rs) = p # add_mem_merge r rs"
  by (simp_all add: add_mem_merge.simps(2) Let_def ram_fold_def)

lemma add_mem_merge_addrs: "ram_addr ` set (add_mem_merge p rs) \<subseteq> ram_addr ` set (p # rs)"
proof (induction rs arbitrary: p)
  case Nil
  show ?case by simp
next
  case (Cons r rs)
  consider "ram_size r = 0" | "ram_size r \<noteq> 0" "ram_addr r \<le> ram_addr p + ram_size p"
    | "ram_size r \<noteq> 0" "\<not> ram_addr r \<le> ram_addr p + ram_size p" by blast
  then show ?case
  proof cases
    case 2
    with Cons.IH [of "ram_fold p r"] show ?thesis by (auto simp: add_mem_merge_Cons)
  next
    case 3
    with Cons.IH [of r] show ?thesis by (auto simp: add_mem_merge_Cons)
  qed (simp add: add_mem_merge_Cons)
qed

lemma ram_fold_ok:
  assumes "ram_entry_ok p" "ram_entry_ok r" "ram_lo p \<le> ram_lo r"
    and "ram_addr r \<le> ram_addr p + ram_size p"
  shows "ram_entry_ok (ram_fold p r)" and "ram_span (ram_fold p r) = ram_span p \<union> ram_span r"
proof -
  let ?q = "ram_fold p r"
  let ?e = "if ram_addr r + ram_size r > ram_addr p + ram_size p
            then ram_addr r + ram_size r else ram_addr p + ram_size p"
  have e: "unat ?e = max (ram_hi p) (ram_hi r)"
    using assms(1,2) by (auto simp: word_less_nat_alt unat_ram_end)
  have le: "ram_lo r \<le> ram_hi p"
    using assms(1,4) by (simp add: word_le_nat_alt unat_ram_end)
  have pos: "0 < unat (ram_size p)" "0 < unat (ram_size r)"
    using assms(1,2) by (simp_all add: ram_entry_ok_pos)
  have sz: "unat (ram_size ?q) = max (ram_hi p) (ram_hi r) - ram_lo p"
    using e by (simp add: ram_fold_def unat_sub_nat)
  have hi: "ram_hi ?q = max (ram_hi p) (ram_hi r)"
    using sz by simp
  have "unat (ram_size ?q) \<noteq> 0" using sz pos by auto
  then have "ram_size ?q \<noteq> 0" by (metis unat_0)
  moreover have "ram_hi ?q < 2 ^ 64" using hi assms(1,2) by (auto simp: ram_entry_ok_def)
  ultimately show "ram_entry_ok ?q" unfolding ram_entry_ok_def by blast
  have "ram_span ?q = {ram_lo p ..< max (ram_hi p) (ram_hi r)}" using hi by simp
  then show "ram_span ?q = ram_span p \<union> ram_span r"
    using le assms(3) pos by (auto simp: max_def)
qed

lemma add_mem_merge_ok:
  assumes "sorted_wrt (\<lambda>a b. ram_lo a \<le> ram_lo b) (p # rs)" "list_all ram_entry_ok (p # rs)"
  shows "ram_ok (add_mem_merge p rs) \<and> ram_bytes (add_mem_merge p rs) = ram_bytes (p # rs)"
  using assms
proof (induction rs arbitrary: p)
  case Nil
  then show ?case by simp
next
  case (Cons r rs)
  then have ok: "ram_entry_ok p" "ram_entry_ok r" "ram_lo p \<le> ram_lo r" and nz: "ram_size r \<noteq> 0"
    by (auto simp: ram_entry_ok_def)
  show ?case
  proof (cases "ram_addr r \<le> ram_addr p + ram_size p")
    case True
    note fold = ram_fold_ok [OF ok True]
    from Cons.prems fold(1)
    have "ram_ok (add_mem_merge (ram_fold p r) rs) \<and>
      ram_bytes (add_mem_merge (ram_fold p r) rs) = ram_bytes (ram_fold p r # rs)"
      by (intro Cons.IH) auto
    moreover have "add_mem_merge p (r # rs) = add_mem_merge (ram_fold p r) rs"
      using nz True by (simp add: add_mem_merge_Cons)
    moreover have "ram_bytes (ram_fold p r # rs) = ram_bytes (p # r # rs)"
      unfolding ram_bytes_simps fold(2) by blast
    ultimately show ?thesis by metis
  next
    case False
    then have gap: "ram_hi p < ram_lo r"
      using ok by (simp add: word_le_nat_alt unat_ram_end)
    have "ram_hi p < ram_lo x" if "x \<in> set (add_mem_merge r rs)" for x
    proof -
      from that add_mem_merge_addrs [of r rs] obtain y where "y \<in> set (r # rs)" "ram_addr x = ram_addr y"
        by blast
      with gap Cons.prems(1) show ?thesis by auto
    qed
    with False nz ok Cons show ?thesis by (simp add: add_mem_merge_Cons)
  qed
qed

lemma ram_ok_sorted: "ram_ok l \<Longrightarrow> sorted_wrt (\<lambda>a b. ram_lo a \<le> ram_lo b) l"
  unfolding ram_ok_def by (auto elim!: sorted_wrt_mono_rel [rotated])

lemma add_mem_spec:
  assumes "ram_ok l" "unat start + unat sz < 2 ^ 64" "add_mem start sz l = Inr l'"
  shows "ram_ok l' \<and> ram_bytes l' = ram_bytes l \<union> {unat start ..< unat start + unat sz}"
proof (cases "sz = 0")
  case True
  with assms show ?thesis by (simp add: add_mem_def)
next
  case False
  let ?new = "\<lparr>ram_addr = start, ram_size = sz\<rparr>"
  obtain r rs where ins: "add_mem_insert start sz l = r # rs"
    by (cases "add_mem_insert start sz l") (use length_add_mem_insert [of start sz l] in auto)
  have set: "set (r # rs) = insert ?new (set l)"
    using set_add_mem_insert [of start sz l] ins by simp
  have "list_all ram_entry_ok l" using assms(1) by (simp add: ram_ok_def)
  moreover have "ram_entry_ok ?new" using assms(2) False by (simp add: ram_entry_ok_def)
  ultimately have "list_all ram_entry_ok (r # rs)" using set by (simp only: list_all_iff) blast
  moreover have "sorted_wrt (\<lambda>a b. ram_lo a \<le> ram_lo b) (r # rs)"
    using add_mem_insert_sorted [OF ram_ok_sorted [OF assms(1)] \<open>list_all ram_entry_ok l\<close>] ins by metis
  ultimately have ok: "ram_ok (add_mem_merge r rs)"
    and bytes: "ram_bytes (add_mem_merge r rs) = ram_bytes (r # rs)"
    using add_mem_merge_ok by blast+
  have "l' = add_mem_merge r rs"
    using assms(3) False ins by (auto simp: add_mem_def word_gt_0 split: if_splits)
  moreover have "ram_bytes (r # rs) = ram_span ?new \<union> ram_bytes l"
    unfolding ram_bytes_def set by simp
  ultimately show ?thesis using ok bytes by auto
qed

section \<open>\<open>fix_size\<close> keeps clear of the avoided ranges\<close>

definition avoid_bytes :: "avoid_entry list \<Rightarrow> nat set" where
  "avoid_bytes av = (\<Union>a \<in> set (takeWhile (\<lambda>a. av_end a \<noteq> 0) av). {unat (av_start a) ..< unat (av_end a)})"

lemma avoid_bytes_simps [simp]:
  "avoid_bytes [] = {}"
  "avoid_bytes (a # av) =
     (if av_end a = 0 then {} else {unat (av_start a) ..< unat (av_end a)} \<union> avoid_bytes av)"
  by (auto simp: avoid_bytes_def)

lemma fix_size_spec:
  assumes "fix_size s e as ae = Some (s', e')" "s < e"
  shows "s \<le> s' \<and> s' < e' \<and> e' \<le> e \<and> {unat s' ..< unat e'} \<inter> {unat as ..< unat ae} = {}"
proof -
  have sub: "unat (as - s) = unat as - unat s" if "s < as"
    using that by (simp add: unat_sub_nat word_less_nat_alt)
  have "\<not> as - s > e - ae \<Longrightarrow> e \<noteq> ae \<or> as \<le> s"
    using sub by (cases "as \<le> s") (auto simp: word_less_nat_alt word_le_nat_alt)
  with assms show ?thesis
    by (auto simp: fix_size_def word_less_nat_alt word_le_nat_alt word_unat_eq_iff split: if_splits)
qed

lemma fix_size_all_spec:
  assumes "fix_size_all s e av = Some (s', e')" "s < e"
  shows "s \<le> s' \<and> s' < e' \<and> e' \<le> e \<and> {unat s' ..< unat e'} \<inter> avoid_bytes av = {}"
  using assms
proof (induction av arbitrary: s e)
  case Nil
  then show ?case by simp
next
  case (Cons a av)
  show ?case
  proof (cases "av_end a = 0")
    case True
    with Cons.prems show ?thesis by simp
  next
    case False
    with Cons.prems obtain s1 e1 where fs: "fix_size s e (av_start a) (av_end a) = Some (s1, e1)"
      and rest: "fix_size_all s1 e1 av = Some (s', e')"
      by (auto split: option.splits)
    have one: "s \<le> s1 \<and> s1 < e1 \<and> e1 \<le> e \<and>
        {unat s1 ..< unat e1} \<inter> {unat (av_start a) ..< unat (av_end a)} = {}"
      by (rule fix_size_spec [OF fs Cons.prems(2)])
    then have two: "s1 \<le> s' \<and> s' < e' \<and> e' \<le> e1 \<and> {unat s' ..< unat e'} \<inter> avoid_bytes av = {}"
      using Cons.IH [OF rest] by blast
    then have sub: "{unat s' ..< unat e'} \<subseteq> {unat s1 ..< unat e1}"
      by (simp add: word_le_nat_alt)
    have "s \<le> s'" "s' < e'" "e' \<le> e" using one two by auto
    moreover have "{unat s' ..< unat e'} \<inter> {unat (av_start a) ..< unat (av_end a)} = {}"
      using one sub by blast
    ultimately show ?thesis using two False by (simp add: Int_Un_distrib)
  qed
qed

lemma fix_size_all_entry:
  assumes "ram_entry_ok r" "fix_size_all (ram_addr r) (ram_addr r + ram_size r) av = Some (s, e)"
  shows "{unat s ..< unat e} \<subseteq> ram_span r - avoid_bytes av" and "unat s < unat e"
    and "unat e < 2 ^ 64" and "unat e \<le> ram_hi r" and "ram_lo r \<le> unat s"
proof -
  have hi: "unat (ram_addr r + ram_size r) = ram_hi r" by (rule unat_ram_end [OF assms(1)])
  then have "ram_addr r < ram_addr r + ram_size r"
    using ram_entry_ok_pos [OF assms(1)] by (simp add: word_less_nat_alt)
  from fix_size_all_spec [OF assms(2) this] hi
  show "{unat s ..< unat e} \<subseteq> ram_span r - avoid_bytes av" "unat s < unat e" "unat e < 2 ^ 64"
    "unat e \<le> ram_hi r" "ram_lo r \<le> unat s"
    by (auto simp: word_le_nat_alt word_less_nat_alt)
qed

lemma fix_size_all_block:
  assumes "ram_entry_ok r" "fix_size_all (ram_addr r) (ram_addr r + ram_size r) av = Some (s, e)"
    and "unat s \<le> a" "b \<le> unat e"
  shows "{a ..< b} \<subseteq> ram_span r - avoid_bytes av"
proof -
  have "{a ..< b} \<subseteq> {unat s ..< unat e}" using assms(3,4) by auto
  then show ?thesis using fix_size_all_entry(1) [OF assms(1,2)] by (rule subset_trans)
qed

section \<open>The searches return free blocks\<close>

text \<open>
  Blocks that end early enough for the rounding not to wrap: rounding adds less than \<open>2 ^ 32\<close>,
  the range of the \<open>unsigned\<close> alignment argument.
\<close>

definition ram_below_top :: "ram_entry list \<Rightarrow> bool" where
  "ram_below_top l \<longleftrightarrow> list_all (\<lambda>r. ram_hi r + 2 ^ 32 \<le> 2 ^ 64) l"

lemma find_ram_in_range_spec:
  assumes "ram_ok l" "ram_below_top l" "k < 32" "align = 2 ^ k"
    and "find_ram_in_range l av 0 rend sz align 0 0 = a" "a \<noteq> NULL_PADDR"
  shows "{unat a ..< unat a + unat sz} \<subseteq> ram_bytes l - avoid_bytes av \<and> 2 ^ k dvd unat a
         \<and> unat a + unat sz < 2 ^ 64"
  using assms(1,2,5)
proof (induction l)
  case Nil
  with assms(6) show ?case by simp
next
  case (Cons r rs)
  let ?rest = "find_ram_in_range rs av 0 rend sz align 0 0"
  have rest: "{unat a ..< unat a + unat sz} \<subseteq> ram_bytes (r # rs) - avoid_bytes av \<and> 2 ^ k dvd unat a
      \<and> unat a + unat sz < 2 ^ 64" if "?rest = a"
    using Cons.IH that Cons.prems(1,2) by (auto simp: ram_below_top_def)
  have okr: "ram_entry_ok r" and nz: "ram_size r \<noteq> 0"
    using Cons.prems(1) by (auto simp: ram_entry_ok_def)
  show ?case
  proof (cases "?rest = a")
    case True
    then show ?thesis by (rule rest)
  next
    case False
    with Cons.prems(3) nz obtain s e where
      fsz: "fix_size_all (ram_addr r) (ram_addr r + ram_size r) av = Some (s, e)"
      by (auto split: option.splits)
    define e2 where "e2 = (if rend \<noteq> 0 \<and> rend < e then rend else e)"
    have here: "a = ROUND s (ucast align)" "a < e2" "sz \<le> e2 - a"
      using False Cons.prems(3) nz fsz
      by (auto simp: colour_adjust_def Let_def not_le e2_def split: if_splits)
    have "e2 \<le> e" by (auto simp: e2_def)
    note ent = fix_size_all_entry [OF okr fsz]
    have al: "ucast align = (2::u64) ^ k" using assms(3,4) by (simp add: ucast_pow2)
    have "(2::nat) ^ k \<le> 2 ^ 32" using assms(3) by (intro power_increasing) auto
    moreover have "ram_hi r + 2 ^ 32 \<le> 2 ^ 64" using Cons.prems(2) by (simp add: ram_below_top_def)
    ultimately have ge: "unat s \<le> unat a" and dv: "2 ^ k dvd unat a"
      using round_pow2_ge [of k s] round_pow2_dvd [of k s] ent(2,4) assms(3) here(1) al by auto
    from here(2,3) \<open>e2 \<le> e\<close> have "unat a + unat sz \<le> unat e"
      by (auto simp: word_le_nat_alt word_less_nat_alt unat_sub_nat)
    with ge have "{unat a ..< unat a + unat sz} \<subseteq> ram_span r - avoid_bytes av"
      using \<open>unat a + unat sz \<le> unat e\<close> by (intro fix_size_all_block [OF okr fsz])
    moreover have "unat a + unat sz < 2 ^ 64"
      using \<open>unat a + unat sz \<le> unat e\<close> ent(3) by (rule le_less_trans)
    ultimately show ?thesis using dv by auto
  qed
qed

lemmas find_ram_spec =
  find_ram_in_range_spec [where rend = "NOT 0", folded find_ram_def]

lemma trunc_le: "unat (TRUNC x a) \<le> unat x"
  unfolding TRUNC_def by (rule word_and_le2 [THEN word_le_nat_alt [THEN iffD1]])

lemma find_top_loop_spec:
  assumes "ram_ok l" "unat sz \<le> unat limit"
    and "find_top_loop av sz align limit best l = t"
  shows "t = best \<or> ({unat t ..< unat t + unat sz} \<subseteq> ram_bytes l - avoid_bytes av
           \<and> unat t + unat sz \<le> unat limit)"
  using assms(1,3)
proof (induction l arbitrary: best)
  case Nil
  then show ?case by simp
next
  case (Cons r rs)
  have okr: "ram_entry_ok r" and nz: "ram_size r \<noteq> 0"
    using Cons.prems(1) by (auto simp: ram_entry_ok_def)
  have skip: ?case if "find_top_loop av sz align limit best rs = t"
    using Cons.IH [OF _ that] Cons.prems(1) by auto
  show ?case
  proof (cases "fix_size_all (ram_addr r) (ram_addr r + ram_size r) av")
    case None
    with Cons.prems(2) nz show ?thesis by (intro skip) simp
  next
    case (Some se)
    obtain s e where se: "se = (s, e)" by (cases se)
    note ent = fix_size_all_entry [OF okr Some [unfolded se]]
    note block = fix_size_all_block [OF okr Some [unfolded se]]
    define chk where "chk = (if align \<noteq> 0 then TRUNC (e - sz) align else e - sz)"
    show ?thesis
    proof (cases "sz \<le> e - s \<and> s \<le> chk \<and> best < chk")
      case False
      with Cons.prems(2) nz Some se show ?thesis
        by (intro skip) (auto simp: Let_def chk_def split: if_splits)
    next
      case True
      then have sz: "unat sz \<le> unat e - unat s" using ent(2)
        by (simp add: word_le_nat_alt unat_sub_nat)
      have "unat chk \<le> unat (e - sz)" by (simp add: chk_def trunc_le)
      then have hi: "unat chk + unat sz \<le> unat e" using sz ent(2) by (simp add: unat_sub_nat)
      then have sum: "unat (chk + sz) = unat chk + unat sz"
        using ent(3) by (intro unat_add_u64) (rule le_less_trans)
      have lo: "unat s \<le> unat chk" using True by (simp add: word_le_nat_alt)
      have good: "{unat chk ..< unat chk + unat sz} \<subseteq> ram_bytes (r # rs) - avoid_bytes av"
        using block [OF lo hi] by auto
      have lim: "unat (limit - sz) = unat limit - unat sz" using assms(2) by (simp add: unat_sub_nat)
      show ?thesis
      proof (cases "limit \<le> chk + sz")
        case above: True
        then have t: "t = (if limit - sz < s then best else limit - sz)"
          using True Cons.prems(2) nz Some se by (simp add: Let_def chk_def)
        show ?thesis
        proof (cases "limit - sz < s")
          case False
          then have "unat s \<le> unat t" "unat t + unat sz = unat limit"
            using t lim assms(2) by (simp_all add: word_less_nat_alt)
          moreover have "unat limit \<le> unat e" using above sum hi by (simp add: word_le_nat_alt)
          ultimately show ?thesis using block [of "unat t" "unat t + unat sz"] by auto
        qed (simp add: t)
      next
        case False
        then have "find_top_loop av sz align limit chk rs = t"
          using True Cons.prems(2) nz Some se by (simp add: Let_def chk_def)
        with Cons.IH [OF _ this] Cons.prems(1) good False sum show ?thesis
          by (auto simp: word_le_nat_alt)
      qed
    qed
  qed
qed

section \<open>\<open>alloc_ram\<close> removes a range\<close>

lemma alloc_overlaps_disjoint:
  assumes "\<not> alloc_overlaps addr end s e" "s < e" "addr \<le> end"
  shows "{unat s ..< unat e} \<inter> {unat addr ..< unat end} = {}"
  using assms by (auto simp: alloc_overlaps_def word_le_nat_alt word_less_nat_alt)

text \<open>
  One round keeps the list well-formed, changes it by nothing but bytes of the range, and leaves
  everything before the next index clear of the range.
\<close>

definition clear_before :: "nat \<Rightarrow> nat set \<Rightarrow> ram_entry list \<Rightarrow> bool" where
  "clear_before i X l \<longleftrightarrow> ram_bytes (take i l) \<inter> X = {}"

lemma alloc_entry_split:
  assumes "l = xs @ r # ys" "i = length xs" "ram_ok l" "unat addr \<le> unat end"
    and "alloc_entry addr end i l = Inr (j, l')" "clear_before i X l"
    and "X = {unat addr ..< unat end}"
  shows "ram_ok l' \<and> ram_bytes l' - X = ram_bytes l - X \<and> clear_before j X l'"
proof -
  let ?s = "ram_addr r" and ?e = "ram_addr r + ram_size r"
  have okr: "ram_entry_ok r" using assms(1,3) by simp
  have e: "unat ?e = ram_hi r" by (rule unat_ram_end [OF okr])
  have lt: "unat ?s < unat ?e" using e ram_entry_ok_pos [OF okr] by simp
  have nth: "l ! i = r" and tk: "take i l = xs" "drop (Suc i) l = ys"
    using assms(1,2) by simp_all
  have pre: "ram_bytes xs \<inter> X = {}" using assms(6) tk by (simp add: clear_before_def)
  have upd: "l[i := r'] = xs @ r' # ys" "take (Suc i) (xs @ r' # ys) = xs @ [r']" for r'
    using assms(1,2) by simp_all
  consider (apart) "\<not> alloc_overlaps addr end ?s ?e" "j = Suc i" "l' = l"
    | (whole) "unat addr \<le> unat ?s" "unat ?e \<le> unat end" "j = i" "l' = xs @ ys"
    | (headpart) "unat addr \<le> unat ?s" "unat end < unat ?e" "unat ?s \<le> unat end" "j = Suc i"
        "l' = xs @ r\<lparr>ram_size := ?e - end, ram_addr := end\<rparr> # ys"
    | (tailpart) "unat ?s < unat addr" "unat addr < unat ?e" "unat ?e \<le> unat end" "j = Suc i"
        "l' = xs @ r\<lparr>ram_size := addr - ?s\<rparr> # ys"
    | (inside) "unat ?s < unat addr" "unat end < unat ?e"
        "add_mem end (?e - end) (xs @ r\<lparr>ram_size := addr - ?s\<rparr> # ys) = Inr l'" "j = Suc i"
    using assms(4,5) lt unfolding alloc_entry_def nth Let_def tk upd alloc_overlaps_def
    by (auto simp: bindf_Inr_iff word_le_nat_alt word_less_nat_alt word_unat_eq_iff not_less
        split: if_splits)
  then show ?thesis
  proof cases
    case apart
    have "ram_span r \<inter> X = {}"
      using alloc_overlaps_disjoint [OF apart(1)] lt assms(4,7) e
      by (auto simp: word_less_nat_alt word_le_nat_alt)
    with apart pre assms show ?thesis by (auto simp: clear_before_def)
  next
    case whole
    then have "ram_span r \<subseteq> X" using e assms(7) by auto
    with whole pre assms(1,2,3) show ?thesis by (auto simp: clear_before_def)
  next
    case headpart
    let ?r = "r\<lparr>ram_size := ?e - end, ram_addr := end\<rparr>"
    have sz: "unat (?e - end) = unat ?e - unat end" using headpart by (simp add: unat_sub_nat)
    then have "?e - end \<noteq> 0" using headpart(2) by (metis unat_0 zero_less_diff less_irrefl)
    then have "ram_entry_ok ?r" using sz headpart(2) e okr by (simp add: ram_entry_ok_def)
    moreover have "ram_lo r \<le> ram_lo ?r" "ram_hi ?r = ram_hi r" using sz headpart e by simp_all
    ultimately have "ram_ok l'" using headpart assms(1,3) by auto
    moreover have "ram_span ?r = ram_span r - X" using sz headpart e assms(7) by auto
    ultimately show ?thesis using headpart pre assms(1,2) by (auto simp: clear_before_def)
  next
    case tailpart
    let ?r = "r\<lparr>ram_size := addr - ?s\<rparr>"
    have sz: "unat (addr - ?s) = unat addr - unat ?s" using tailpart by (simp add: unat_sub_nat)
    then have "addr - ?s \<noteq> 0" using tailpart(1) by (metis unat_0 zero_less_diff less_irrefl)
    then have "ram_entry_ok ?r" using sz tailpart(1) by (simp add: ram_entry_ok_def)
    moreover have "ram_hi ?r \<le> ram_hi r" using sz tailpart e by simp
    ultimately have "ram_ok l'" using tailpart assms(1,3) by auto
    moreover have "ram_span ?r = ram_span r - X" using sz tailpart e assms(7) by auto
    ultimately show ?thesis using tailpart pre assms(1,2) by (auto simp: clear_before_def)
  next
    case inside
    let ?r = "r\<lparr>ram_size := addr - ?s\<rparr>"
    have sz: "unat (addr - ?s) = unat addr - unat ?s" "unat (?e - end) = unat ?e - unat end"
      using inside by (simp_all add: unat_sub_nat)
    then have "addr - ?s \<noteq> 0" using inside(1) by (metis unat_0 zero_less_diff less_irrefl)
    then have "ram_entry_ok ?r" using sz inside(1) by (simp add: ram_entry_ok_def)
    moreover have "ram_hi ?r \<le> ram_hi r" using sz inside assms(4) e by simp
    ultimately have ok1: "ram_ok (xs @ ?r # ys)" using assms(1,3) by auto
    have "unat end + unat (?e - end) < 2 ^ 64" using sz(2) inside(2) e okr by (simp add: ram_entry_ok_def)
    from add_mem_spec [OF ok1 this inside(3)] sz(2) inside(2)
    have "ram_ok l'" and b: "ram_bytes l' = ram_bytes (xs @ ?r # ys) \<union> {unat end ..< unat ?e}"
      by auto
    moreover have "ram_span r \<inter> (ram_bytes xs \<union> ram_bytes ys) = {}"
      using assms(1,3) by (fastforce simp: ram_bytes_def)
    moreover have "X \<subseteq> ram_span r" using inside e assms(7) by auto
    moreover have "ram_span ?r \<union> {unat end ..< unat ?e} = ram_span r - X"
      using sz inside e assms(4,7) by auto
    ultimately have "ram_bytes l' = ram_bytes l - X" using assms(1) by auto
    moreover have "ram_bytes (take j l') \<subseteq> ram_bytes l'"
      by (auto simp: ram_bytes_def dest: in_set_takeD)
    ultimately show ?thesis using \<open>ram_ok l'\<close> by (auto simp: clear_before_def)
  qed
qed

lemma alloc_loop_spec:
  assumes "alloc_loop addr end i l = Inr l'" "ram_ok l" "unat addr \<le> unat end"
    and "clear_before i {unat addr ..< unat end} l"
  shows "ram_ok l' \<and> ram_bytes l' = ram_bytes l - {unat addr ..< unat end}"
  using assms
proof (induction addr "end" i l rule: alloc_loop.induct)
  case (1 addr "end" i l)
  let ?X = "{unat addr ..< unat end}"
  show ?case
  proof (cases "i < length l")
    case False
    then have "l' = l" using "1.prems"(1) by (simp add: alloc_loop.simps)
    with False "1.prems" show ?thesis by (auto simp: clear_before_def)
  next
    case True
    then have "ram_entry_ok (l ! i)" using "1.prems"(2) ram_ok_entry by fastforce
    then have go: "\<not> (length l \<le> i \<or> ram_size (l ! i) = 0)" using True by (simp add: ram_entry_ok_def)
    then obtain j l1 where one: "alloc_entry addr end i l = Inr (j, l1)"
      and rest: "alloc_loop addr end j l1 = Inr l'"
      using "1.prems"(1) by (subst (asm) alloc_loop.simps) (auto split: sum.splits)
    have "l = take i l @ l ! i # drop (Suc i) l" "i = length (take i l)"
      using True by (simp_all add: id_take_nth_drop [symmetric])
    from alloc_entry_split [OF this "1.prems"(2,3) one "1.prems"(4) refl]
    have "ram_ok l1" "ram_bytes l1 - ?X = ram_bytes l - ?X" "clear_before j ?X l1" by auto
    with "1.IH" [OF go one refl rest] "1.prems"(3) show ?thesis by auto
  qed
qed

end
