(* ===== verification/Syspage.thy ===== *)
theory Syspage
  imports Prelude
begin

text \<open>
  The system page while it is built (\<open>startup/lib/syspage_memory.c\<close> and the registration
  list of \<open>callouts.c\<close>): one contiguous memory area, cut into sections that grow in place by
  moving everything behind them.

  Addresses are natural numbers; the sizes the code keeps in \<open>unsigned\<close> variables are 32-bit
  words. \<open>sp_mem\<close> holds the bytes from \<open>lsp.syspage.p\<close> on. The header fields
  \<open>total_size\<close> and \<open>size\<close> (the limit while the page is built) are components of their own.
  \<open>sp_sects\<close> is the structure \<open>lsp\<close> read as an array of \<open>local_section\<close>, as
  \<open>SECTION_START\<close> and \<open>SECTION_END\<close> do. \<open>sp_patch\<close> is the list \<open>patch_data\<close>
  of registered callout slots with their data.
\<close>

record local_section =
  sect_p :: nat
  sect_size :: u32

record syspage =
  sp_base :: nat
  sp_mem :: "u8 list"
  sp_total_size :: u32
  sp_max_size :: u32
  sp_sects :: "local_section list"
  sp_patch :: "(nat \<times> nat) list"
  sp_fixed_size :: u32

text \<open>\<open>ROUND(add, n)\<close> in an assignment to an \<open>unsigned\<close> variable.\<close>

definition round32 :: "u32 \<Rightarrow> u64 \<Rightarrow> u32" where
  "round32 x a = ucast (ROUND (ucast x) a)"

fun callout_reloc_data :: "nat \<Rightarrow> nat \<Rightarrow> int \<Rightarrow> (nat \<times> nat) list \<Rightarrow> (nat \<times> nat) list" where
  "callout_reloc_data base len diff [] = []"
| "callout_reloc_data base len diff ((owner, data) # pds) =
     (if base \<le> owner \<and> base + len > owner then (nat (int owner + diff), data) else (owner, data))
     # callout_reloc_data base len diff pds"

text \<open>Registering a slot. \<open>has_patcher\<close> is the test that the slot holds a routine with a
  patcher; a slot that is registered already keeps its data.\<close>

definition callout_register_data :: "nat \<Rightarrow> nat option \<Rightarrow> bool \<Rightarrow> (nat \<times> nat) list \<Rightarrow> (nat \<times> nat) list" where
  "callout_register_data rp data has_patcher pds =
     (case data of
        None \<Rightarrow> pds
      | Some d \<Rightarrow> if has_patcher then (if rp \<in> fst ` set pds then pds else (rp, d) # pds) else pds)"

definition grow_syspage_section :: "syspage \<Rightarrow> nat \<Rightarrow> u32 \<Rightarrow> syspage fallible" where
  "grow_syspage_section sp k add0 =
     (if add0 > 0
      then let add = round32 add0 8;
               new_size = sp_total_size sp + add;
               sect = sp_sects sp ! k;
               bottom = sect_p sect + unat (sect_size sect);
               off = bottom - sp_base sp;
               len = unat (sp_total_size sp) - off
           in if new_size > sp_max_size sp
              then Inl ''Syspage memory request exceeds maximum''
              else Inr (sp\<lparr>
                sp_mem := take off (sp_mem sp) @ replicate (unat add) 0 @ drop off (sp_mem sp),
                sp_total_size := new_size,
                sp_sects := (map (\<lambda>s. if sect_p s \<ge> bottom
                                      then s\<lparr>sect_p := sect_p s + unat add\<rparr> else s)
                               (sp_sects sp)) [k := sect\<lparr>sect_size := sect_size sect + add\<rparr>],
                sp_patch := callout_reloc_data bottom len (int (unat add)) (sp_patch sp)\<rparr>)
      else Inr sp)"

definition set_syspage_section :: "syspage \<Rightarrow> nat \<Rightarrow> u32 \<Rightarrow> syspage fallible" where
  "set_syspage_section sp k size0 =
     (let size = round32 size0 8
      in grow_syspage_section
           (sp\<lparr>sp_sects := (sp_sects sp)[k := (sp_sects sp ! k)\<lparr>sect_p := sp_base sp + unat (sp_fixed_size sp)\<rparr>],
               sp_fixed_size := sp_fixed_size sp + size\<rparr>) k size)"

definition reloc_syspage_memory :: "syspage \<Rightarrow> nat \<Rightarrow> u32 \<Rightarrow> syspage" where
  "reloc_syspage_memory sp base max_size =
     (let diff = int base - int (sp_base sp)
      in sp\<lparr>sp_patch := callout_reloc_data (sp_base sp) (unat (sp_total_size sp)) diff (sp_patch sp),
            sp_sects := map (\<lambda>s. s\<lparr>sect_p := nat (int (sect_p s) + diff)\<rparr>) (sp_sects sp),
            sp_base := base,
            sp_max_size := max_size\<rparr>)"

text \<open>The sections in the order of \<open>struct local_syspage\<close>: fourteen common ones and the three of
  \<open>struct cpu_local_syspage\<close> for this CPU.\<close>

definition SECT_SYSPAGE :: nat where "SECT_SYSPAGE = 0"
definition SECT_ASINFO :: nat where "SECT_ASINFO = 2"
definition SECT_HWINFO :: nat where "SECT_HWINFO = 3"
definition SECT_CALLOUT :: nat where "SECT_CALLOUT = 7"
definition SECT_TYPED_STRINGS :: nat where "SECT_TYPED_STRINGS = 8"
definition SECT_STRINGS :: nat where "SECT_STRINGS = 9"
definition NUM_SECTS :: nat where "NUM_SECTS = 17"

text \<open>
  The sizes of structures that are declared outside this repository (\<open>struct syspage_entry\<close>,
  \<open>struct callout_entry\<close> and \<open>struct hwi_prefix\<close>) are parameters. The initialisation ends
  with \<open>cpu_init_syspage_memory()\<close> and \<open>hwi_default()\<close>, which are calls into other parts.
\<close>

definition init_syspage_sections :: "nat \<Rightarrow> u32 \<Rightarrow> u32 \<Rightarrow> syspage" where
  "init_syspage_sections base max_size sizeof_syspage =
     (let spsize = round32 sizeof_syspage 8
      in \<lparr>sp_base = base,
          sp_mem = replicate (unat spsize) 0,
          sp_total_size = spsize,
          sp_max_size = max_size,
          sp_sects = (replicate NUM_SECTS \<lparr>sect_p = base + unat spsize, sect_size = 0\<rparr>)
                       [SECT_SYSPAGE := \<lparr>sect_p = base, sect_size = spsize\<rparr>],
          sp_patch = [],
          sp_fixed_size = spsize\<rparr>)"

definition init_syspage_memory :: "nat \<Rightarrow> u32 \<Rightarrow> u32 \<Rightarrow> u32 \<Rightarrow> u32 \<Rightarrow> syspage fallible" where
  "init_syspage_memory base max_size sizeof_syspage sizeof_callout sizeof_hwi_prefix =
     bindf (set_syspage_section (init_syspage_sections base max_size sizeof_syspage)
              SECT_CALLOUT sizeof_callout)
       (\<lambda>sp1. bindf (grow_syspage_section sp1 SECT_TYPED_STRINGS 4)
         (\<lambda>sp2. bindf (grow_syspage_section sp2 SECT_STRINGS 1)
           (\<lambda>sp3. grow_syspage_section sp3 SECT_HWINFO sizeof_hwi_prefix)))"

section \<open>Section contents\<close>

text \<open>The bytes of a section, and a store into a section through its pointer.\<close>

definition sect_bytes :: "syspage \<Rightarrow> nat \<Rightarrow> u8 list" where
  "sect_bytes sp k = (let s = sp_sects sp ! k
     in take (unat (sect_size s)) (drop (sect_p s - sp_base sp) (sp_mem sp)))"

definition write_sect :: "syspage \<Rightarrow> nat \<Rightarrow> nat \<Rightarrow> u8 list \<Rightarrow> syspage" where
  "write_sect sp k i bs =
     (let off = sect_p (sp_sects sp ! k) - sp_base sp + i
      in sp\<lparr>sp_mem := take off (sp_mem sp) @ bs @ drop (off + length bs) (sp_mem sp)\<rparr>)"

abbreviation sect_lo :: "local_section \<Rightarrow> nat" where
  "sect_lo s \<equiv> sect_p s"

abbreviation sect_hi :: "local_section \<Rightarrow> nat" where
  "sect_hi s \<equiv> sect_p s + unat (sect_size s)"

text \<open>The layout invariant: the recorded total size is the size of the memory, every section lies
  inside it, and of two sections one ends before the other begins.\<close>

definition sects_apart :: "local_section list \<Rightarrow> bool" where
  "sects_apart ss \<longleftrightarrow> (\<forall>i < length ss. \<forall>j < length ss. i \<noteq> j \<longrightarrow>
     sect_hi (ss ! i) \<le> sect_lo (ss ! j) \<or> sect_hi (ss ! j) \<le> sect_lo (ss ! i))"

definition syspage_ok :: "syspage \<Rightarrow> bool" where
  "syspage_ok sp \<longleftrightarrow> length (sp_mem sp) = unat (sp_total_size sp) \<and>
     (\<forall>s \<in> set (sp_sects sp). sp_base sp \<le> sect_lo s \<and> sect_hi s \<le> sp_base sp + length (sp_mem sp)) \<and>
     sects_apart (sp_sects sp)"

text \<open>A request that cannot wrap the 32-bit size arithmetic.\<close>

definition grow_fits :: "syspage \<Rightarrow> u32 \<Rightarrow> bool" where
  "grow_fits sp add \<longleftrightarrow> unat (sp_total_size sp) + unat add + 8 \<le> 2 ^ 32"

lemma unat_round32_8:
  assumes "unat x + 8 \<le> 2 ^ 32"
  shows "unat (round32 x 8) = (unat x + 7) div 8 * 8"
proof -
  have r: "unat (ROUND (ucast x) 8) = unat x + 7 - (unat x + 7) mod 8"
    using unat_round_pow2 [of 3 "ucast x"] assms by (simp add: unsigned_ucast_eq take_bit_nat_eq_self)
  have "unat (round32 x 8) = unat (ROUND (ucast x) 8) mod 2 ^ 32"
    by (simp add: round32_def unsigned_ucast_eq take_bit_eq_mod)
  also have "\<dots> = unat x + 7 - (unat x + 7) mod 8" using r assms by simp
  also have "\<dots> = (unat x + 7) div 8 * 8" by (simp add: minus_mod_eq_mult_div mult.commute)
  finally show ?thesis .
qed

lemma round32_pow2_bounds:
  assumes "k < 32" "unat x + 2 ^ k \<le> 2 ^ 32"
  shows "unat x \<le> unat (round32 x (2 ^ k))" and "unat (round32 x (2 ^ k)) < unat x + 2 ^ k"
proof -
  have u: "unat (ucast x :: u64) = unat x" by simp
  have le: "unat (ucast x :: u64) + 2 ^ k \<le> 2 ^ 64" using assms(2) u by simp
  have "unat x \<le> unat (ROUND (ucast x) (2 ^ k))" "unat (ROUND (ucast x) (2 ^ k)) < unat x + 2 ^ k"
    using round_pow2_ge [OF _ le] round_pow2_lt [OF _ le] assms(1) u by simp_all
  moreover from this(2) assms(2) have "unat (ROUND (ucast x) (2 ^ k)) < 2 ^ 32" by (rule less_le_trans)
  then have "unat (round32 x (2 ^ k)) = unat (ROUND (ucast x) (2 ^ k))"
    by (simp add: round32_def unsigned_ucast_eq take_bit_nat_eq_self)
  ultimately show "unat x \<le> unat (round32 x (2 ^ k))" "unat (round32 x (2 ^ k)) < unat x + 2 ^ k"
    by simp_all
qed

lemma length_grow: "grow_syspage_section sp k add = Inr sp' \<Longrightarrow> length (sp_sects sp') = length (sp_sects sp)"
  by (auto simp: grow_syspage_section_def Let_def split: if_splits)

text \<open>What growing does, with the sizes read as natural numbers.\<close>

lemma grow_shape:
  assumes ok: "syspage_ok sp" and k: "k < length (sp_sects sp)" and fits: "grow_fits sp add0"
    and grow: "grow_syspage_section sp k add0 = Inr sp'"
  defines "n \<equiv> (unat add0 + 7) div 8 * 8"
    and "b \<equiv> sect_hi (sp_sects sp ! k)"
  shows "unat (sp_total_size sp') = unat (sp_total_size sp) + n"
    and "sp_mem sp' = take (b - sp_base sp) (sp_mem sp) @ replicate n 0 @ drop (b - sp_base sp) (sp_mem sp)"
    and "sp_base sp' = sp_base sp"
    and "j < length (sp_sects sp) \<Longrightarrow> sect_lo (sp_sects sp' ! j) =
           sect_lo (sp_sects sp ! j) + (if j \<noteq> k \<and> b \<le> sect_lo (sp_sects sp ! j) then n else 0)"
    and "j < length (sp_sects sp) \<Longrightarrow> unat (sect_size (sp_sects sp' ! j)) =
           unat (sect_size (sp_sects sp ! j)) + (if j = k then n else 0)"
proof -
  have lim: "unat (sp_total_size sp) + unat add0 + 8 \<le> 2 ^ 32" using fits by (simp add: grow_fits_def)
  have le: "n \<le> unat add0 + 7" by (simp add: n_def)
  have rnd: "unat (round32 add0 8) = n" using lim by (simp add: n_def unat_round32_8)
  have tot: "unat (sp_total_size sp + round32 add0 8) = unat (sp_total_size sp) + n"
    using rnd le lim by (intro trans [OF unat_add_u32]) simp_all
  have "sp_sects sp ! k \<in> set (sp_sects sp)" using k by simp
  then have "b \<le> sp_base sp + unat (sp_total_size sp)"
    and "unat (sect_size (sp_sects sp ! k)) \<le> unat (sp_total_size sp)"
    using ok by (auto simp: syspage_ok_def b_def)
  then have sz: "unat (sect_size (sp_sects sp ! k) + round32 add0 8) = unat (sect_size (sp_sects sp ! k)) + n"
    using rnd le lim by (intro trans [OF unat_add_u32]) simp_all
  note defs = grow_syspage_section_def Let_def b_def
  have zero: "add0 = 0 \<Longrightarrow> n = 0" by (simp add: n_def)
  show "unat (sp_total_size sp') = unat (sp_total_size sp) + n"
    using grow tot zero by (auto simp: defs word_gt_0 split: if_splits)
  show "sp_mem sp' = take (b - sp_base sp) (sp_mem sp) @ replicate n 0 @ drop (b - sp_base sp) (sp_mem sp)"
    using grow rnd zero by (auto simp: defs word_gt_0 split: if_splits)
  show "sp_base sp' = sp_base sp"
    using grow by (auto simp: defs split: if_splits)
  show "j < length (sp_sects sp) \<Longrightarrow> sect_lo (sp_sects sp' ! j) =
      sect_lo (sp_sects sp ! j) + (if j \<noteq> k \<and> b \<le> sect_lo (sp_sects sp ! j) then n else 0)"
    using grow rnd zero by (cases "j = k") (auto simp: defs word_gt_0 split: if_splits)
  show "j < length (sp_sects sp) \<Longrightarrow> unat (sect_size (sp_sects sp' ! j)) =
      unat (sect_size (sp_sects sp ! j)) + (if j = k then n else 0)"
    using grow sz zero by (cases "j = k") (auto simp: defs word_gt_0 split: if_splits)
qed

lemma sects_apartD:
  "sects_apart ss \<Longrightarrow> i < length ss \<Longrightarrow> j < length ss \<Longrightarrow> i \<noteq> j \<Longrightarrow>
     sect_hi (ss ! i) \<le> sect_lo (ss ! j) \<or> sect_hi (ss ! j) \<le> sect_lo (ss ! i)"
  by (simp add: sects_apart_def)

lemma syspage_ok_sect:
  assumes "syspage_ok sp" "j < length (sp_sects sp)"
  shows "sp_base sp \<le> sect_lo (sp_sects sp ! j)"
    and "sect_hi (sp_sects sp ! j) \<le> sp_base sp + length (sp_mem sp)"
  using assms by (auto simp: syspage_ok_def)

lemma grow_ok:
  assumes ok: "syspage_ok sp" and k: "k < length (sp_sects sp)" and fits: "grow_fits sp add0"
    and grow: "grow_syspage_section sp k add0 = Inr sp'"
  shows "syspage_ok sp'"
proof -
  note shape = grow_shape [OF ok k fits grow]
  note len = length_grow [OF grow]
  define n where "n = (unat add0 + 7) div 8 * 8"
  define b where "b = sect_hi (sp_sects sp ! k)"
  have mem: "length (sp_mem sp') = length (sp_mem sp) + n" unfolding shape(2) n_def by simp
  have inside: "sp_base sp' \<le> sect_lo s \<and> sect_hi s \<le> sp_base sp' + length (sp_mem sp')"
    if "s \<in> set (sp_sects sp')" for s
  proof -
    from that obtain j where j: "j < length (sp_sects sp)" and s: "s = sp_sects sp' ! j"
      by (metis in_set_conv_nth len)
    from syspage_ok_sect [OF ok j] shape(3) shape(4,5) [OF j] mem show ?thesis
      unfolding s n_def by (auto split: if_splits)
  qed
  have "sects_apart (sp_sects sp')"
    unfolding sects_apart_def len
  proof (intro allI impI)
    fix i j assume ij: "i < length (sp_sects sp)" "j < length (sp_sects sp)" "i \<noteq> j"
    have apart: "sects_apart (sp_sects sp)" using ok by (simp add: syspage_ok_def)
    show "sect_hi (sp_sects sp' ! i) \<le> sect_lo (sp_sects sp' ! j) \<or>
        sect_hi (sp_sects sp' ! j) \<le> sect_lo (sp_sects sp' ! i)"
      unfolding shape(4) [OF ij(1)] shape(4) [OF ij(2)] shape(5) [OF ij(1)] shape(5) [OF ij(2)]
      using sects_apartD [OF apart ij] sects_apartD [OF apart ij(1) k] sects_apartD [OF apart ij(2) k] ij(3)
      by (cases "i = k"; cases "j = k") auto
  qed
  moreover have "length (sp_mem sp') = unat (sp_total_size sp')"
    using ok mem shape(1) by (simp add: syspage_ok_def n_def)
  ultimately show ?thesis using inside by (simp add: syspage_ok_def)
qed

lemma grow_bytes_same:
  assumes ok: "syspage_ok sp" and k: "k < length (sp_sects sp)" and fits: "grow_fits sp add0"
    and grow: "grow_syspage_section sp k add0 = Inr sp'"
  shows "sect_bytes sp' k = sect_bytes sp k @ replicate ((unat add0 + 7) div 8 * 8) 0"
proof -
  note shape = grow_shape [OF ok k fits grow]
  let ?s = "sp_sects sp ! k"
  have "sect_hi ?s - sp_base sp = sect_p ?s - sp_base sp + unat (sect_size ?s)"
    and "sect_p ?s - sp_base sp + unat (sect_size ?s) \<le> length (sp_mem sp)"
    using syspage_ok_sect [OF ok k] by auto
  then show ?thesis
    using window_insert_at [of "sect_p ?s - sp_base sp" "unat (sect_size ?s)" "sp_mem sp"
        "replicate ((unat add0 + 7) div 8 * 8) 0"]
    unfolding sect_bytes_def Let_def shape(2,3) shape(4,5) [OF k] by simp
qed

lemma grow_bytes_other:
  assumes ok: "syspage_ok sp" and k: "k < length (sp_sects sp)" and fits: "grow_fits sp add0"
    and grow: "grow_syspage_section sp k add0 = Inr sp'"
    and j: "j < length (sp_sects sp)" "j \<noteq> k"
  shows "sect_bytes sp' j = sect_bytes sp j"
proof -
  note shape = grow_shape [OF ok k fits grow]
  let ?b = "sect_hi (sp_sects sp ! k)" and ?s = "sp_sects sp ! j"
  have apart: "sects_apart (sp_sects sp)" using ok by (simp add: syspage_ok_def)
  have b: "sp_base sp \<le> ?b" "?b - sp_base sp \<le> length (sp_mem sp)"
    using syspage_ok_sect [OF ok k] by auto
  show ?thesis
  proof (cases "?b \<le> sect_lo ?s")
    case True
    then have lo: "?b - sp_base sp \<le> sect_p ?s - sp_base sp" by (rule diff_le_mono)
    let ?n = "(unat add0 + 7) div 8 * 8"
    have "sect_p ?s + ?n - sp_base sp = (sect_p ?s - sp_base sp) + ?n"
      using True b by simp
    then show ?thesis
      using True j(2) window_insert_before [OF lo b(2), of "replicate ?n 0"]
      unfolding sect_bytes_def Let_def shape(2,3) shape(4,5) [OF j(1)] by simp
  next
    case False
    then have "sect_hi ?s \<le> ?b" using sects_apartD [OF apart j(1) k j(2)] by auto
    then have "sect_lo ?s - sp_base sp + unat (sect_size ?s) \<le> ?b - sp_base sp"
      using syspage_ok_sect [OF ok j(1)] by auto
    note keep = window_insert_behind [OF this b(2)]
    from False show ?thesis
      unfolding sect_bytes_def Let_def shape(2,3) shape(4,5) [OF j(1)]
      by (simp only: keep if_False HOL.simp_thms add_0_right j(2))
  qed
qed

lemma sect_bytes_length:
  assumes "syspage_ok sp" "k < length (sp_sects sp)"
  shows "length (sect_bytes sp k) = unat (sect_size (sp_sects sp ! k))"
  using syspage_ok_sect [OF assms] by (simp add: sect_bytes_def Let_def)

lemma write_sect_simps [simp]:
  "sp_sects (write_sect sp k i bs) = sp_sects sp"
  "sp_base (write_sect sp k i bs) = sp_base sp"
  "sp_total_size (write_sect sp k i bs) = sp_total_size sp"
  "sp_max_size (write_sect sp k i bs) = sp_max_size sp"
  by (simp_all add: write_sect_def Let_def)

lemma write_sect_ok:
  assumes "syspage_ok sp" "k < length (sp_sects sp)" "i + length bs \<le> length (sect_bytes sp k)"
  shows "syspage_ok (write_sect sp k i bs)"
proof -
  let ?s = "sp_sects sp ! k"
  have "sect_p ?s - sp_base sp + i + length bs \<le> length (sp_mem sp)"
    using syspage_ok_sect [OF assms(1,2)] assms(3) sect_bytes_length [OF assms(1,2)] by auto
  then have "length (sp_mem (write_sect sp k i bs)) = length (sp_mem sp)"
    by (simp add: write_sect_def Let_def)
  then show ?thesis using assms(1) by (auto simp: syspage_ok_def)
qed

lemma write_sect_same:
  assumes "syspage_ok sp" "k < length (sp_sects sp)" "i + length bs \<le> length (sect_bytes sp k)"
  shows "sect_bytes (write_sect sp k i bs) k =
         take i (sect_bytes sp k) @ bs @ drop (i + length bs) (sect_bytes sp k)"
proof -
  let ?s = "sp_sects sp ! k"
  have "sect_p ?s - sp_base sp + i + length bs \<le> sect_p ?s - sp_base sp + unat (sect_size ?s)"
    and "sect_p ?s - sp_base sp + unat (sect_size ?s) \<le> length (sp_mem sp)"
    using syspage_ok_sect [OF assms(1,2)] assms(3) sect_bytes_length [OF assms(1,2)] by auto
  from window_overwrite_inside [OF this] show ?thesis
    by (simp add: write_sect_def sect_bytes_def Let_def)
qed

lemma write_sect_other:
  assumes "syspage_ok sp" "k < length (sp_sects sp)" "i + length bs \<le> length (sect_bytes sp k)"
    and "j < length (sp_sects sp)" "j \<noteq> k"
  shows "sect_bytes (write_sect sp k i bs) j = sect_bytes sp j"
proof -
  let ?s = "sp_sects sp ! k" and ?t = "sp_sects sp ! j"
  have len: "i + length bs \<le> unat (sect_size ?s)"
    using assms(3) sect_bytes_length [OF assms(1,2)] by simp
  have apart: "sect_hi ?t \<le> sect_lo ?s \<or> sect_hi ?s \<le> sect_lo ?t"
    using assms sects_apartD by (auto simp: syspage_ok_def)
  have "sect_p ?s - sp_base sp + i + length bs \<le> length (sp_mem sp)"
    using syspage_ok_sect [OF assms(1,2)] len by auto
  moreover have "sect_p ?t - sp_base sp + unat (sect_size ?t) \<le> sect_p ?s - sp_base sp + i \<or>
      sect_p ?s - sp_base sp + i + length bs \<le> sect_p ?t - sp_base sp"
    using apart len syspage_ok_sect [OF assms(1,2)] syspage_ok_sect [OF assms(1,4)] by auto
  ultimately have "take (unat (sect_size ?t)) (drop (sect_p ?t - sp_base sp)
      (take (sect_p ?s - sp_base sp + i) (sp_mem sp) @ bs @
       drop (sect_p ?s - sp_base sp + i + length bs) (sp_mem sp))) =
      take (unat (sect_size ?t)) (drop (sect_p ?t - sp_base sp) (sp_mem sp))"
    by (rule window_overwrite)
  then show ?thesis by (simp add: write_sect_def sect_bytes_def Let_def)
qed

section \<open>The interface the sections' clients rely on\<close>

text \<open>
  String table, hardware tree and address-space list each live in one section. What they need to
  know of the layout is only this: growing appends zero bytes to one section, storing inside a
  section changes the bytes stored to, and nothing else changes.
\<close>

locale section_store =
  fixes grow :: "'s \<Rightarrow> nat \<Rightarrow> u32 \<Rightarrow> 's fallible"
    and store :: "'s \<Rightarrow> nat \<Rightarrow> nat \<Rightarrow> u8 list \<Rightarrow> 's"
    and content :: "'s \<Rightarrow> nat \<Rightarrow> u8 list"
    and nsects :: "'s \<Rightarrow> nat"
    and invar :: "'s \<Rightarrow> bool"
    and fits :: "'s \<Rightarrow> u32 \<Rightarrow> bool"
  assumes grow_invar: "invar s \<Longrightarrow> k < nsects s \<Longrightarrow> fits s n \<Longrightarrow> grow s k n = Inr s' \<Longrightarrow> invar s'"
    and grow_nsects: "grow s k n = Inr s' \<Longrightarrow> nsects s' = nsects s"
    and grow_content: "invar s \<Longrightarrow> k < nsects s \<Longrightarrow> fits s n \<Longrightarrow> grow s k n = Inr s' \<Longrightarrow>
           content s' k = content s k @ replicate ((unat n + 7) div 8 * 8) 0"
    and grow_frame: "invar s \<Longrightarrow> k < nsects s \<Longrightarrow> fits s n \<Longrightarrow> grow s k n = Inr s' \<Longrightarrow>
           j < nsects s \<Longrightarrow> j \<noteq> k \<Longrightarrow> content s' j = content s j"
    and store_invar: "invar s \<Longrightarrow> k < nsects s \<Longrightarrow> i + length bs \<le> length (content s k) \<Longrightarrow>
           invar (store s k i bs)"
    and store_nsects: "nsects (store s k i bs) = nsects s"
    and store_content: "invar s \<Longrightarrow> k < nsects s \<Longrightarrow> i + length bs \<le> length (content s k) \<Longrightarrow>
           content (store s k i bs) k = take i (content s k) @ bs @ drop (i + length bs) (content s k)"
    and store_frame: "invar s \<Longrightarrow> k < nsects s \<Longrightarrow> i + length bs \<le> length (content s k) \<Longrightarrow>
           j < nsects s \<Longrightarrow> j \<noteq> k \<Longrightarrow> content (store s k i bs) j = content s j"
begin

text \<open>Growing a section and then storing into it, the pattern of every client: everything before
  the stored bytes is kept, everything behind them is kept or zero.\<close>

lemma grow_store:
  assumes "invar s" "k < nsects s" "fits s n" "grow s k n = Inr s'"
    and "i + length bs \<le> length (content s k) + (unat n + 7) div 8 * 8"
  shows "invar (store s' k i bs) \<and>
         content (store s' k i bs) k =
           (let c = content s k @ replicate ((unat n + 7) div 8 * 8) 0
            in take i c @ bs @ drop (i + length bs) c) \<and>
         (\<forall>j < nsects s. j \<noteq> k \<longrightarrow> content (store s' k i bs) j = content s j)"
proof -
  have k': "k < nsects s'" using grow_nsects [OF assms(4)] assms(2) by simp
  have inv: "invar s'" using assms grow_invar by blast
  have c: "content s' k = content s k @ replicate ((unat n + 7) div 8 * 8) 0"
    using assms grow_content by blast
  have b: "i + length bs \<le> length (content s' k)" using assms(5) c by simp
  have "content (store s' k i bs) j = content s j" if "j < nsects s" "j \<noteq> k" for j
    using store_frame [OF inv k' b] grow_frame [OF assms(1-4)] that grow_nsects [OF assms(4)] by simp
  then show ?thesis
    using store_invar [OF inv k' b] store_content [OF inv k' b] c by (simp add: Let_def)
qed

end

interpretation lsp: section_store grow_syspage_section write_sect sect_bytes
  "\<lambda>sp. length (sp_sects sp)" syspage_ok grow_fits
  by unfold_locales (simp_all add: grow_ok length_grow grow_bytes_same grow_bytes_other
    write_sect_ok write_sect_same write_sect_other)

section \<open>Initialisation and relocation\<close>

lemma nat_shift: "b \<le> p \<Longrightarrow> nat (int p + (int base - int b)) = p - b + base"
  by simp

lemma reloc_sect:
  assumes "syspage_ok sp" "j < length (sp_sects sp)"
  shows "sp_sects (reloc_syspage_memory sp base mx) ! j =
         (sp_sects sp ! j)\<lparr>sect_p := sect_p (sp_sects sp ! j) - sp_base sp + base\<rparr>"
  using assms syspage_ok_sect(1) [OF assms]
  by (simp only: reloc_syspage_memory_def Let_def) (simp add: nat_shift)

lemma reloc_bytes:
  assumes "syspage_ok sp" "j < length (sp_sects sp)"
  shows "sect_bytes (reloc_syspage_memory sp base mx) j = sect_bytes sp j"
  unfolding sect_bytes_def Let_def reloc_sect [OF assms]
  by (simp add: reloc_syspage_memory_def Let_def)

lemma reloc_ok:
  assumes "syspage_ok sp"
  shows "syspage_ok (reloc_syspage_memory sp base mx)"
proof -
  let ?r = "reloc_syspage_memory sp base mx"
  have len: "length (sp_sects ?r) = length (sp_sects sp)" and flat: "sp_mem ?r = sp_mem sp"
    "sp_base ?r = base" "sp_total_size ?r = sp_total_size sp"
    by (simp_all add: reloc_syspage_memory_def Let_def)
  have "base \<le> sect_lo s \<and> sect_hi s \<le> base + length (sp_mem sp)" if "s \<in> set (sp_sects ?r)" for s
  proof -
    from that obtain j where j: "j < length (sp_sects sp)" and s: "s = sp_sects ?r ! j"
      by (metis in_set_conv_nth len)
    from syspage_ok_sect [OF assms j] show ?thesis unfolding s reloc_sect [OF assms j] by auto
  qed
  moreover have "sects_apart (sp_sects ?r)"
    unfolding sects_apart_def len
  proof (intro allI impI)
    fix i j assume ij: "i < length (sp_sects sp)" "j < length (sp_sects sp)" "i \<noteq> j"
    have "sects_apart (sp_sects sp)" using assms by (simp add: syspage_ok_def)
    from sects_apartD [OF this ij] syspage_ok_sect [OF assms ij(1)] syspage_ok_sect [OF assms ij(2)]
    show "sect_hi (sp_sects ?r ! i) \<le> sect_lo (sp_sects ?r ! j) \<or>
        sect_hi (sp_sects ?r ! j) \<le> sect_lo (sp_sects ?r ! i)"
      unfolding reloc_sect [OF assms ij(1)] reloc_sect [OF assms ij(2)] by auto
  qed
  ultimately show ?thesis using assms flat by (simp add: syspage_ok_def)
qed

text \<open>A registered slot that lies in the moved memory follows it.\<close>

lemma callout_reloc_map:
  "callout_reloc_data base len diff pds =
   map (\<lambda>(ow, d). (if base \<le> ow \<and> ow < base + len then nat (int ow + diff) else ow, d)) pds"
  by (induction pds) auto

lemma init_sections_ok: "syspage_ok (init_syspage_sections base mx sz)"
  unfolding syspage_ok_def sects_apart_def init_syspage_sections_def Let_def
  by (auto simp: NUM_SECTS_def SECT_SYSPAGE_def nth_list_update dest!: set_update_subset_insert [THEN subsetD])

lemma init_sections_bytes:
  "j < NUM_SECTS \<Longrightarrow> j \<noteq> SECT_SYSPAGE \<Longrightarrow> sect_bytes (init_syspage_sections base mx sz) j = []"
  by (simp add: sect_bytes_def init_syspage_sections_def Let_def)

section \<open>Properties\<close>

text \<open>Claim C8. \<open>grow_syspage_section\<close> appends zero bytes, as many as the request rounded up to a
  multiple of eight, to the section it grows; it moves what lies behind, and after it every other
  section reads as before through its relocated pointer. The sections stay disjoint and inside the
  page.\<close>

theorem grow_section_preserves_contents:
  assumes "syspage_ok sp" "k < length (sp_sects sp)" "grow_fits sp add" "grow_syspage_section sp k add = Inr sp'"
  shows "syspage_ok sp' \<and>
         sect_bytes sp' k = sect_bytes sp k @ replicate ((unat add + 7) div 8 * 8) 0 \<and>
         (\<forall>j < length (sp_sects sp). j \<noteq> k \<longrightarrow> sect_bytes sp' j = sect_bytes sp j)"
  using grow_ok [OF assms] grow_bytes_same [OF assms] grow_bytes_other [OF assms] by blast

theorem grow_section_preserves_contents_witness:
  "\<exists>sp'. grow_syspage_section (init_syspage_sections 16 0x1000 8) SECT_STRINGS 5 = Inr sp' \<and>
         sect_bytes sp' SECT_STRINGS = replicate 8 0"
proof -
  let ?sp = "init_syspage_sections 16 0x1000 8"
  have "\<not> isl (grow_syspage_section ?sp SECT_STRINGS 5)" by code_simp
  then obtain sp' where sp': "grow_syspage_section ?sp SECT_STRINGS 5 = Inr sp'"
    by (cases "grow_syspage_section ?sp SECT_STRINGS 5") auto
  have "SECT_STRINGS < length (sp_sects ?sp)" "sect_bytes ?sp SECT_STRINGS = []" by code_simp+
  moreover have "grow_fits ?sp 5"
    by (simp add: grow_fits_def init_syspage_sections_def Let_def round32_def ROUND_def TRUNC_def)
  ultimately show ?thesis
    using grow_section_preserves_contents [OF init_sections_ok _ _ sp'] sp' by simp
qed

text \<open>Claim C11. \<open>reloc_syspage_memory\<close> moves the page: every section keeps its contents, the
  invariant holds at the new address, and the registered callout slots inside the page follow it.\<close>

theorem reloc_preserves_contents:
  assumes "syspage_ok sp"
  shows "syspage_ok (reloc_syspage_memory sp base mx) \<and>
         (\<forall>j < length (sp_sects sp). sect_bytes (reloc_syspage_memory sp base mx) j = sect_bytes sp j) \<and>
         sp_patch (reloc_syspage_memory sp base mx) =
           map (\<lambda>(ow, d). (if sp_base sp \<le> ow \<and> ow < sp_base sp + unat (sp_total_size sp)
                           then ow - sp_base sp + base else ow, d)) (sp_patch sp)"
proof -
  have "sp_patch (reloc_syspage_memory sp base mx) =
           map (\<lambda>(ow, d). (if sp_base sp \<le> ow \<and> ow < sp_base sp + unat (sp_total_size sp)
                           then ow - sp_base sp + base else ow, d)) (sp_patch sp)"
    by (auto simp: reloc_syspage_memory_def Let_def callout_reloc_map nat_shift intro!: map_cong)
  with reloc_ok [OF assms] reloc_bytes [OF assms] show ?thesis by blast
qed

theorem reloc_preserves_contents_witness:
  "syspage_ok (reloc_syspage_memory (init_syspage_sections 16 0x1000 8) 0x5000 0xC000)"
  using reloc_preserves_contents [OF init_sections_ok] by blast

end
