(* ===== verification/Strings.thy ===== *)
theory Strings
  imports Syspage
begin

text \<open>
  The string table of the system page (\<open>add_string\<close> of \<open>startup/lib/strings.c\<close> and
  \<open>__hwi_find_string\<close> of \<open>hwi_alloc.c\<close>). Names are byte strings without the terminating
  zero. The table is a section of the system page, so its operations take and return the whole
  page.
\<close>

definition cname :: "string \<Rightarrow> u8 list" where
  "cname s = map of_char s"

text \<open>The C string that starts at offset \<open>i\<close> of a memory area.\<close>

definition cstr :: "u8 list \<Rightarrow> nat \<Rightarrow> u8 list" where
  "cstr p i = takeWhile (\<lambda>b. b \<noteq> 0) (drop i p)"

definition hwi_find_string :: "syspage \<Rightarrow> nat \<Rightarrow> u8 list" where
  "hwi_find_string sp off = cstr (sect_bytes sp SECT_STRINGS) off"

text \<open>The search loop of \<open>add_string\<close>: the offset of the string with a flag that says it is there
  already, or \<open>None\<close> where the loop would read past the section.\<close>

function string_slot :: "u8 list \<Rightarrow> u8 list \<Rightarrow> nat \<Rightarrow> (nat \<times> bool) option" where
  "string_slot name p i =
     (if i \<ge> length p then None
      else if p ! i = 0 then Some (i, False)
      else if name = cstr p i then Some (i, True)
      else string_slot name p (i + (length (cstr p i) + 1)))"
  by pat_completeness auto
termination
  by (relation "measure (\<lambda>(name, p, i). length p - i)") auto

declare string_slot.simps [simp del]

text \<open>The bytes \<open>strlcpy(dst, name, n)\<close> stores.\<close>

definition strlcpy_bytes :: "u8 list \<Rightarrow> nat \<Rightarrow> u8 list" where
  "strlcpy_bytes name n = (if n = 0 then [] else take (n - 1) name @ [0])"

definition add_string :: "syspage \<Rightarrow> u8 list \<Rightarrow> (syspage \<times> nat) fallible" where
  "add_string sp name =
     (case string_slot name (sect_bytes sp SECT_STRINGS) 0 of
        None \<Rightarrow> Inl ''read past the strings section''
      | Some (i, True) \<Rightarrow> Inr (sp, i)
      | Some (i, False) \<Rightarrow>
          let len = length name + 2;
              spare = length (sect_bytes sp SECT_STRINGS) - i
          in bindf (if len > spare
                    then grow_syspage_section sp SECT_STRINGS (round32 (of_nat (len - spare)) 128)
                    else Inr sp)
               (\<lambda>sp'. Inr (write_sect sp' SECT_STRINGS i
                  (strlcpy_bytes name (length (sect_bytes sp' SECT_STRINGS) - i)), i)))"

section \<open>The table as a list of names\<close>

text \<open>
  The section holds the names one after the other, each with its terminating zero, and at least one
  more zero byte, which the search loop takes for the end of the table.
\<close>

definition enc :: "u8 list list \<Rightarrow> u8 list" where
  "enc ss = concat (map (\<lambda>s. s @ [0]) ss)"

definition is_name :: "u8 list \<Rightarrow> bool" where
  "is_name s \<longleftrightarrow> s \<noteq> [] \<and> 0 \<notin> set s"

definition strings_rep :: "u8 list \<Rightarrow> u8 list list \<Rightarrow> bool" where
  "strings_rep p ss \<longleftrightarrow> list_all is_name ss \<and> distinct ss \<and> (\<exists>n. p = enc ss @ replicate (Suc n) 0)"

text \<open>The offset a name has in the table.\<close>

definition str_off :: "u8 list list \<Rightarrow> u8 list \<Rightarrow> nat" where
  "str_off ss s = length (enc (takeWhile (\<lambda>t. t \<noteq> s) ss))"

lemma enc_simps [simp]:
  "enc [] = []"
  "enc (s # ss) = s @ 0 # enc ss"
  "enc (xs @ ys) = enc xs @ enc ys"
  by (simp_all add: enc_def)

lemma cstr_at:
  assumes "is_name s"
  shows "cstr (xs @ s @ 0 # ys) (length xs) = s"
  using assms by (auto simp: cstr_def is_name_def takeWhile_append)

lemma takeWhile_stop: "s \<in> set ss \<Longrightarrow> \<exists>ys. ss = takeWhile (\<lambda>t. t \<noteq> s) ss @ s # ys"
  by (induction ss) auto

lemma cstr_str_off:
  assumes "strings_rep p ss" "s \<in> set ss"
  shows "cstr p (str_off ss s) = s"
proof -
  obtain n where p: "p = enc ss @ replicate (Suc n) 0" and nm: "is_name s"
    using assms by (auto simp: strings_rep_def list_all_iff)
  obtain ys where ss: "ss = takeWhile (\<lambda>t. t \<noteq> s) ss @ s # ys"
    using takeWhile_stop [OF assms(2)] by blast
  have "p = enc (takeWhile (\<lambda>t. t \<noteq> s) ss) @ s @ 0 # (enc ys @ replicate (Suc n) 0)"
    unfolding p by (subst ss) simp
  then show ?thesis using cstr_at [OF nm] by (simp add: str_off_def)
qed

lemma str_off_append: "s \<in> set ss \<Longrightarrow> str_off (ss @ ts) s = str_off ss s"
  by (auto simp: str_off_def takeWhile_append)

lemma str_off_new: "s \<notin> set ss \<Longrightarrow> str_off (ss @ s # ts) s = length (enc ss)"
  by (simp add: str_off_def takeWhile_append)

text \<open>The search finds the name or the end of the table.\<close>

lemma string_slot_from:
  assumes "list_all is_name ts" "is_name name"
  shows "string_slot name (xs @ enc ts @ replicate (Suc n) 0) (length xs) =
         Some (length xs + length (enc (takeWhile (\<lambda>t. t \<noteq> name) ts)), name \<in> set ts)"
  using assms(1)
proof (induction ts arbitrary: xs)
  case Nil
  show ?case by (subst string_slot.simps) (simp add: nth_append)
next
  case (Cons t ts)
  let ?p = "xs @ enc (t # ts) @ replicate (Suc n) 0"
  have nm: "is_name t" using Cons.prems by simp
  have c: "cstr ?p (length xs) = t" using cstr_at [OF nm, of xs "enc ts @ replicate (Suc n) 0"] by simp
  have nz: "?p ! length xs \<noteq> 0" using nm by (cases t) (auto simp: is_name_def nth_append)
  have step: "string_slot name ?p (length xs) =
      (if name = t then Some (length xs, True) else string_slot name ?p (length xs + (length t + 1)))"
    using nz c by (subst string_slot.simps) simp
  have p: "?p = (xs @ t @ [0]) @ enc ts @ replicate (Suc n) 0" by simp
  have "string_slot name ((xs @ t @ [0]) @ enc ts @ replicate (Suc n) 0) (length (xs @ t @ [0])) =
      Some (length (xs @ t @ [0]) + length (enc (takeWhile (\<lambda>t. t \<noteq> name) ts)), name \<in> set ts)"
    using Cons.prems by (intro Cons.IH) simp
  then show ?case unfolding step p [symmetric] by auto
qed

lemma string_slot_rep:
  assumes "strings_rep p ss" "is_name name"
  shows "string_slot name p 0 = Some (str_off ss name, name \<in> set ss)"
  using string_slot_from [where xs = "[]", OF _ assms(2)] assms(1)
  by (auto simp: strings_rep_def str_off_def)

lemma takeWhile_notin: "x \<notin> set xs \<Longrightarrow> takeWhile (\<lambda>t. t \<noteq> x) xs = xs"
  by (induction xs) auto

text \<open>The stored bytes turn a table into the table with one more name.\<close>

lemma strings_rep_store:
  assumes "strings_rep p ss" "is_name name" "name \<notin> set ss" "length (enc ss) + length name + 2 \<le> length p + m"
  defines "c \<equiv> p @ replicate m 0"
  shows "strings_rep (take (length (enc ss)) c @ strlcpy_bytes name (length c - length (enc ss)) @
           drop (length (enc ss) + length (strlcpy_bytes name (length c - length (enc ss)))) c) (ss @ [name])"
    and "length (enc ss) + length (strlcpy_bytes name (length c - length (enc ss))) \<le> length c"
proof -
  obtain n where p: "p = enc ss @ replicate (Suc n) 0" and ok: "list_all is_name ss" "distinct ss"
    using assms(1) by (auto simp: strings_rep_def)
  let ?N = "length c - length (enc ss)"
  have c: "c = enc ss @ replicate (Suc n + m) 0" by (simp add: c_def p replicate_add)
  have N: "?N = Suc n + m" "length name + 2 \<le> ?N" using assms(4) c by (auto simp: c_def p)
  have st: "strlcpy_bytes name ?N = name @ [0]"
    using N(2) by (auto simp: strlcpy_bytes_def)
  show "length (enc ss) + length (strlcpy_bytes name ?N) \<le> length c"
    using st N c by simp
  have d: "drop (length (enc ss) + length (name @ [0])) c = replicate (?N - Suc (length name)) 0"
    using c N(1) by simp
  obtain q where q: "?N - Suc (length name) = Suc q"
    using N(2) by (cases "?N - Suc (length name)") auto
  have "take (length (enc ss)) c @ (name @ [0]) @ drop (length (enc ss) + length (name @ [0])) c =
      enc (ss @ [name]) @ replicate (Suc q) 0"
    unfolding d q by (simp add: c)
  then show "strings_rep (take (length (enc ss)) c @ strlcpy_bytes name ?N @
      drop (length (enc ss) + length (strlcpy_bytes name ?N)) c) (ss @ [name])"
    unfolding st strings_rep_def using ok assms(2,3) by auto
qed

definition string_fits :: "syspage \<Rightarrow> u8 list \<Rightarrow> bool" where
  "string_fits sp name \<longleftrightarrow> unat (sp_total_size sp) + length name + 256 \<le> 2 ^ 32"

definition strings_of :: "syspage \<Rightarrow> u8 list list \<Rightarrow> bool" where
  "strings_of sp ss \<longleftrightarrow> syspage_ok sp \<and> SECT_STRINGS < length (sp_sects sp) \<and>
     strings_rep (sect_bytes sp SECT_STRINGS) ss"

lemma add_string_spec:
  assumes "strings_of sp ss" "is_name name" "string_fits sp name" "add_string sp name = Inr (sp', i)"
  defines "ss' \<equiv> (if name \<in> set ss then ss else ss @ [name])"
  shows "strings_of sp' ss' \<and> i = str_off ss' name \<and> length (sp_sects sp') = length (sp_sects sp) \<and>
         (\<forall>j < length (sp_sects sp). j \<noteq> SECT_STRINGS \<longrightarrow> sect_bytes sp' j = sect_bytes sp j)"
proof (cases "name \<in> set ss")
  case True
  with assms show ?thesis by (auto simp: add_string_def strings_of_def string_slot_rep)
next
  case False
  let ?p = "sect_bytes sp SECT_STRINGS"
  have ok: "syspage_ok sp" and k: "SECT_STRINGS < length (sp_sects sp)" and rep: "strings_rep ?p ss"
    using assms(1) by (auto simp: strings_of_def)
  have off: "str_off ss name = length (enc ss)" using False by (simp add: str_off_def takeWhile_notin)
  have i: "i = length (enc ss)" and slot: "string_slot name ?p 0 = Some (length (enc ss), False)"
    using assms(4) string_slot_rep [OF rep assms(2)] False off
    by (auto simp: add_string_def Let_def bindf_Inr_iff split: if_splits)
  have ss': "ss' = ss @ [name]" "str_off ss' name = length (enc ss)"
    using False by (simp_all add: ss'_def str_off_new)
  let ?need = "length name + 2 - (length ?p - length (enc ss))"
  show ?thesis
  proof (cases "length name + 2 > length ?p - length (enc ss)")
    case True
    define add where "add = round32 (of_nat ?need) 128"
    have "?need + 256 \<le> 2 ^ 32 + 2" using assms(3) by (simp add: string_fits_def)
    then have un: "unat (of_nat ?need :: u32) = ?need" by (simp add: unat_of_nat)
    have "unat (of_nat ?need :: u32) + 2 ^ 7 \<le> 2 ^ 32" unfolding un using \<open>?need + 256 \<le> _\<close> by simp
    from round32_pow2_bounds [OF _ this] have add: "?need \<le> unat add" "unat add < ?need + 128"
      unfolding un by (simp_all add: add_def)
    have fits: "grow_fits sp add"
      using add(2) assms(3) by (simp add: grow_fits_def string_fits_def)
    obtain sp1 where g: "grow_syspage_section sp SECT_STRINGS add = Inr sp1"
      and sp': "sp' = write_sect sp1 SECT_STRINGS (length (enc ss))
          (strlcpy_bytes name (length (sect_bytes sp1 SECT_STRINGS) - length (enc ss)))"
      using assms(4) slot True by (auto simp: add_string_def Let_def bindf_Inr_iff add_def)
    let ?m = "(unat add + 7) div 8 * 8"
    have c1: "sect_bytes sp1 SECT_STRINGS = ?p @ replicate ?m 0"
      by (rule lsp.grow_content [OF ok k fits g])
    have "unat add \<le> ?m" by linarith
    then have room: "length (enc ss) + length name + 2 \<le> length ?p + ?m"
      using add(1) True rep by (auto simp: strings_rep_def)
    note st = strings_rep_store [OF rep assms(2) False room]
    from lsp.grow_store [OF ok k fits g, of "length (enc ss)"] st c1
    show ?thesis
      unfolding sp' strings_of_def using ss' i length_grow [OF g] k by (simp add: Let_def)
  next
    case enough: False
    then have sp': "sp' = write_sect sp SECT_STRINGS (length (enc ss))
        (strlcpy_bytes name (length ?p - length (enc ss)))"
      using assms(4) slot by (auto simp: add_string_def Let_def)
    have room: "length (enc ss) + length name + 2 \<le> length ?p + 0" using enough by linarith
    note st = strings_rep_store [OF rep assms(2) False room]
    from lsp.store_invar [OF ok k] lsp.store_content [OF ok k] lsp.store_frame [OF ok k] st
    show ?thesis
      unfolding sp' strings_of_def using ss' i k by simp
  qed
qed

section \<open>Properties\<close>

text \<open>Claim C9. \<open>add_string\<close> returns an offset at which \<open>__hwi_find_string\<close> reads the name back.
  It stores a name only once, names stored earlier keep their offsets, and no other section
  changes.\<close>

theorem add_string_find_string:
  assumes "strings_of sp ss" "is_name name" "string_fits sp name" "add_string sp name = Inr (sp', i)"
  shows "hwi_find_string sp' i = name \<and>
         strings_of sp' (if name \<in> set ss then ss else ss @ [name]) \<and>
         (\<forall>s \<in> set ss. hwi_find_string sp' (str_off ss s) = s) \<and>
         (\<forall>j < length (sp_sects sp). j \<noteq> SECT_STRINGS \<longrightarrow> sect_bytes sp' j = sect_bytes sp j)"
proof -
  let ?ss = "if name \<in> set ss then ss else ss @ [name]"
  note spec = add_string_spec [OF assms]
  then have rep: "strings_rep (sect_bytes sp' SECT_STRINGS) ?ss" by (auto simp: strings_of_def)
  have "hwi_find_string sp' (str_off ss s) = s" if "s \<in> set ss" for s
  proof -
    have "str_off ?ss s = str_off ss s" "s \<in> set ?ss" using that by (simp_all add: str_off_append)
    with cstr_str_off [OF rep, of s] show ?thesis by (simp add: hwi_find_string_def)
  qed
  moreover have "hwi_find_string sp' i = name"
    using cstr_str_off [OF rep, of name] spec by (simp add: hwi_find_string_def)
  ultimately show ?thesis using spec by blast
qed

definition demo_strings :: syspage where
  "demo_strings = projr (grow_syspage_section (init_syspage_sections 16 0x1000 8) SECT_STRINGS 5)"

lemma demo_strings_of: "strings_of demo_strings []"
proof -
  let ?sp = "init_syspage_sections 16 0x1000 8"
  have g: "grow_syspage_section ?sp SECT_STRINGS 5 = Inr demo_strings" by code_simp
  have l: "SECT_STRINGS < length (sp_sects ?sp)" "sect_bytes ?sp SECT_STRINGS = []" by code_simp+
  have f: "grow_fits ?sp 5"
    by (simp add: grow_fits_def init_syspage_sections_def Let_def round32_def ROUND_def TRUNC_def)
  have "sect_bytes demo_strings SECT_STRINGS = replicate (Suc 7) 0"
    using grow_bytes_same [OF init_sections_ok l(1) f g] l(2) by simp
  then have "strings_rep (sect_bytes demo_strings SECT_STRINGS) []" 
    unfolding strings_rep_def by (intro conjI exI [of _ 7]) simp_all
  with grow_ok [OF init_sections_ok l(1) f g] length_grow [OF g] l(1) show ?thesis by (simp add: strings_of_def)
qed

theorem add_string_find_string_witness:
  "\<exists>sp' i. add_string demo_strings (cname ''ram'') = Inr (sp', i) \<and> hwi_find_string sp' i = cname ''ram''"
proof -
  have "\<not> isl (add_string demo_strings (cname ''ram''))" by code_simp
  then obtain sp' i where a: "add_string demo_strings (cname ''ram'') = Inr (sp', i)"
    by (cases "add_string demo_strings (cname ''ram'')") auto
  have "is_name (cname ''ram'')" by code_simp
  moreover have "sp_total_size demo_strings = 16" by code_simp
  then have "string_fits demo_strings (cname ''ram'')" by (simp add: string_fits_def cname_def)
  ultimately show ?thesis using add_string_find_string [OF demo_strings_of _ _ a] a by blast
qed

end
