(* ===== verification/Asinfo.thy ===== *)
theory Asinfo
  imports Strings
begin

text \<open>
  The address-space list of the system page (\<open>startup/lib/as_*.c\<close>): a tree of named address
  ranges, each entry with the offset of its owner.

  An asinfo offset is always a multiple of \<open>sizeof(struct asinfo_entry)\<close>; the model keeps the
  index, and \<open>None\<close> is \<open>AS_NULL_OFF\<close>. The structure itself and the constants
  \<open>AS_ATTR_KIDS\<close>, \<open>AS_ATTR_CONTINUED\<close> and \<open>AS_PRIORITY_DEFAULT\<close> are declared in a system
  header outside this repository, so they are fields of the state that no operation writes.
  The names live in the string table of the system page, which is part of the state, as is the
  space the section takes there.
\<close>

record asinfo_entry =
  as_start :: u64
  as_end :: u64
  as_owner :: "nat option"
  as_name :: nat
  as_attr :: u32
  as_priority :: u32

record asinfo =
  ai_sp :: syspage
  ai_list :: "asinfo_entry list"
  AS_ATTR_KIDS :: u32
  AS_ATTR_CONTINUED :: u32
  AS_PRIORITY_DEFAULT :: u32
  sizeof_asinfo_entry :: u32

definition AS_OVERLAY_IO :: u32 where "AS_OVERLAY_IO = 0x80000000"

definition AS_ATTR_RAM :: u32 where "AS_ATTR_RAM = 0"

section \<open>Adding entries\<close>

text \<open>\<open>as_add64\<close> without its last step.\<close>

definition as_add_entry :: "asinfo \<Rightarrow> u64 \<Rightarrow> u64 \<Rightarrow> u32 \<Rightarrow> u8 list \<Rightarrow> nat option \<Rightarrow> (asinfo \<times> nat) fallible" where
  "as_add_entry ai start end attr name owner =
     bindf (add_string (ai_sp ai) name) (\<lambda>(sp1, name_off).
     bindf (grow_syspage_section sp1 SECT_ASINFO (sizeof_asinfo_entry ai)) (\<lambda>sp2.
       let new = \<lparr>as_start = start, as_end = end, as_owner = owner, as_name = name_off,
                  as_attr = attr AND 0xffff, as_priority = AS_PRIORITY_DEFAULT ai\<rparr>;
           l1 = ai_list ai @ [new];
           l2 = (case owner of
                   None \<Rightarrow> l1
                 | Some o1 \<Rightarrow> l1[o1 := (l1 ! o1)\<lparr>as_attr := as_attr (l1 ! o1) OR AS_ATTR_KIDS ai\<rparr>])
       in Inr (ai\<lparr>ai_sp := sp2, ai_list := l2\<rparr>, length (ai_list ai))))"

text \<open>The recursive call for an I/O overlay clears the flag that led to it, so it is one level deep.\<close>

definition as_add64 :: "asinfo \<Rightarrow> u64 \<Rightarrow> u64 \<Rightarrow> u32 \<Rightarrow> u8 list \<Rightarrow> nat option \<Rightarrow> (asinfo \<times> nat) fallible" where
  "as_add64 ai start end attr name owner =
     bindf (as_add_entry ai start end attr name owner) (\<lambda>(ai1, off).
       if attr AND AS_OVERLAY_IO \<noteq> 0
       then bindf (as_add_entry ai1 start end (attr AND NOT AS_OVERLAY_IO) (cname ''io'') (Some off))
              (\<lambda>(ai2, _). Inr (ai2, off))
       else Inr (ai1, off))"

definition as_add :: "asinfo \<Rightarrow> u64 \<Rightarrow> u64 \<Rightarrow> u32 \<Rightarrow> u8 list \<Rightarrow> nat option \<Rightarrow> (asinfo \<times> nat) fallible" where
  "as_add ai start end attr name owner = as_add64 ai start end attr name owner"

section \<open>Finding entries\<close>

text \<open>
  \<open>match_name\<close>: does the entry or one of its owners have the name? The loop follows the owner
  links; \<open>None\<close> is a chain longer than the fuel. A chain that does not loop visits no entry twice,
  so with fuel for every entry of the list, \<open>None\<close> means that the loop does not return.
\<close>

fun match_name_fuel :: "nat \<Rightarrow> syspage \<Rightarrow> asinfo_entry list \<Rightarrow> u8 list \<Rightarrow> nat \<Rightarrow> bool option" where
  "match_name_fuel 0 sp l name i = None"
| "match_name_fuel (Suc fuel) sp l name i =
     (if hwi_find_string sp (as_name (l ! i)) = name then Some True
      else case as_owner (l ! i) of
             None \<Rightarrow> Some False
           | Some j \<Rightarrow> match_name_fuel fuel sp l name j)"

definition match_name :: "asinfo \<Rightarrow> u8 list \<Rightarrow> nat \<Rightarrow> bool" where
  "match_name ai name i = (match_name_fuel (length (ai_list ai)) (ai_sp ai) (ai_list ai) name i = Some True)"

definition ranges_meet :: "u64 \<Rightarrow> u64 \<Rightarrow> asinfo_entry \<Rightarrow> bool" where
  "ranges_meet start end as \<longleftrightarrow>
     (start \<ge> as_start as \<and> start \<le> as_end as) \<or>
     (end \<ge> as_start as \<and> end \<le> as_end as) \<or>
     (start \<le> as_start as \<and> end \<ge> as_end as)"

text \<open>The scan from index \<open>i\<close> on.\<close>

function as_scan :: "asinfo \<Rightarrow> u64 \<Rightarrow> u64 \<Rightarrow> u8 list \<Rightarrow> nat \<Rightarrow> nat option" where
  "as_scan ai start end container i =
     (if i \<ge> length (ai_list ai) then None
      else if match_name ai container i \<and> ranges_meet start end (ai_list ai ! i) then Some i
      else as_scan ai start end container (Suc i))"
  by pat_completeness auto
termination
  by (relation "measure (\<lambda>(ai, start, end, container, i). length (ai_list ai) - i)") auto

declare as_scan.simps [simp del]

definition as_find_containing :: "asinfo \<Rightarrow> nat option \<Rightarrow> u64 \<Rightarrow> u64 \<Rightarrow> u8 list \<Rightarrow> nat option" where
  "as_find_containing ai off start end container =
     as_scan ai start end container (case off of None \<Rightarrow> 0 | Some i \<Rightarrow> Suc i)"

text \<open>\<open>as_find\<close> takes a path of names from the root down; \<open>match_item\<close> compares it from its last
  name up the owner links.\<close>

fun match_item :: "asinfo \<Rightarrow> u8 list list \<Rightarrow> nat \<Rightarrow> bool" where
  "match_item ai [] i = True"
| "match_item ai (n # ns) i =
     (if hwi_find_string (ai_sp ai) (as_name (ai_list ai ! i)) \<noteq> n then False
      else if ns = [] then True
      else case as_owner (ai_list ai ! i) of None \<Rightarrow> False | Some j \<Rightarrow> match_item ai ns j)"

function as_find_scan :: "asinfo \<Rightarrow> u8 list list \<Rightarrow> nat \<Rightarrow> nat option" where
  "as_find_scan ai rnames i =
     (if i \<ge> length (ai_list ai) then None
      else if match_item ai rnames i then Some i
      else as_find_scan ai rnames (Suc i))"
  by pat_completeness auto
termination
  by (relation "measure (\<lambda>(ai, rnames, i). length (ai_list ai) - i)") auto

declare as_find_scan.simps [simp del]

definition as_find :: "asinfo \<Rightarrow> nat option \<Rightarrow> u8 list list \<Rightarrow> nat option fallible" where
  "as_find ai start names =
     (if names = [] then Inl ''as_find: NULL name argument''
      else Inr (as_find_scan ai (rev names) (case start of None \<Rightarrow> 0 | Some i \<Rightarrow> Suc i)))"

text \<open>\<open>as_set_priority\<close>: the entry and the following pieces of the same range. The last piece of
  a range never carries the flag, so the loop ends inside the list; the model stops at its end.\<close>

function as_set_priority :: "asinfo \<Rightarrow> nat \<Rightarrow> u32 \<Rightarrow> asinfo" where
  "as_set_priority ai i priority =
     (if i \<ge> length (ai_list ai) then ai
      else let as = ai_list ai ! i;
               ai' = ai\<lparr>ai_list := (ai_list ai)[i := as\<lparr>as_priority := priority\<rparr>]\<rparr>
           in if as_attr as AND AS_ATTR_CONTINUED ai = 0 then ai' else as_set_priority ai' (Suc i) priority)"
  by pat_completeness auto
termination
  by (relation "measure (\<lambda>(ai, i, priority). length (ai_list ai) - i)") auto

declare as_set_priority.simps [simp del]

section \<open>\<open>as_add_containing\<close>\<close>

record as_range =
  rg_start :: u64
  rg_end :: u64
  rg_owner :: nat

text \<open>The inner loop: put one piece into the list of ranges, splitting the range it starts in.\<close>

fun insert_piece :: "u64 \<Rightarrow> u64 \<Rightarrow> nat \<Rightarrow> as_range list \<Rightarrow> as_range list" where
  "insert_piece ps pe ow [] = [\<lparr>rg_start = ps, rg_end = pe, rg_owner = ow\<rparr>]"
| "insert_piece ps pe ow (c # cs) =
     (let new = \<lparr>rg_start = ps, rg_end = pe, rg_owner = ow\<rparr>
      in if rg_start c \<le> ps \<and> rg_end c \<ge> ps
         then if rg_start c = ps \<and> rg_end c = pe then c\<lparr>rg_owner := ow\<rparr> # cs
              else if rg_start c = ps then new # c\<lparr>rg_start := pe + 1\<rparr> # cs
              else if rg_end c \<noteq> pe
              then c\<lparr>rg_end := ps - 1\<rparr> # new #
                   \<lparr>rg_start = pe + 1, rg_end = rg_end c, rg_owner = rg_owner c\<rparr> # cs
              else c\<lparr>rg_end := ps - 1\<rparr> # new # cs
         else c # insert_piece ps pe ow cs)"

text \<open>The outer loop: every entry below the container that meets the range contributes the part of
  the range it covers.\<close>

lemma as_scan_bounds: "as_scan ai start end container i = Some j \<Longrightarrow> i \<le> j \<and> j < length (ai_list ai)"
proof (induction ai start "end" container i rule: as_scan.induct)
  case (1 ai start "end" container i)
  then show ?case
    by (subst (asm) (2) as_scan.simps) (auto split: if_splits)
qed

lemma as_find_containing_next:
  assumes "as_find_containing ai off start end container = Some j"
  shows "j < length (ai_list ai) \<and> (case off of None \<Rightarrow> True | Some i \<Rightarrow> i < j)"
  using as_scan_bounds [of ai start "end" container] assms
  by (fastforce simp: as_find_containing_def split: option.splits)

function as_pieces :: "asinfo \<Rightarrow> u64 \<Rightarrow> u64 \<Rightarrow> u8 list \<Rightarrow> nat option \<Rightarrow> as_range list \<Rightarrow> as_range list" where
  "as_pieces ai start end container off rs =
     (case as_find_containing ai off start end container of
        None \<Rightarrow> rs
      | Some j \<Rightarrow>
          let as = ai_list ai ! j;
              ps = (if as_start as > start then as_start as else start);
              pe = (if as_end as < end then as_end as else end)
          in as_pieces ai start end container (Some j) (insert_piece ps pe j rs))"
  by pat_completeness auto
termination
proof (relation "measure (\<lambda>(ai, start, end, container, off, rs).
    length (ai_list ai) - (case off of None \<Rightarrow> 0 | Some i \<Rightarrow> Suc i))", goal_cases)
  case (2 ai start "end" container off rs j)
  with as_find_containing_next [of ai off start "end" container j] show ?case
    by (auto split: option.splits)
qed simp

declare as_pieces.simps [simp del]

text \<open>The loop that adds the pieces, with the offsets of the first and of the last added entry.\<close>

fun as_add_pieces :: "asinfo \<Rightarrow> u32 \<Rightarrow> u8 list \<Rightarrow> as_range list \<Rightarrow> nat option \<Rightarrow> nat \<Rightarrow>
    (asinfo \<times> nat option \<times> nat) fallible" where
  "as_add_pieces ai attr name [] first off = Inr (ai, first, off)"
| "as_add_pieces ai attr name (r # rs) first off =
     (if rg_start r \<le> rg_end r
      then bindf (as_add ai (rg_start r) (rg_end r) attr name (Some (rg_owner r))) (\<lambda>(ai1, off1).
             as_add_pieces ai1 attr name rs (case first of None \<Rightarrow> Some off1 | Some f \<Rightarrow> Some f) off1)
      else as_add_pieces ai attr name rs first off)"

text \<open>The overlay entries below the added pieces, from the first to the one that is not continued;
  the last piece has index \<open>last\<close>.\<close>

fun as_add_overlays :: "asinfo \<Rightarrow> u32 \<Rightarrow> u8 list \<Rightarrow> nat list \<Rightarrow> asinfo fallible" where
  "as_add_overlays ai attr name [] = Inr ai"
| "as_add_overlays ai attr name (off # offs) =
     (let as = ai_list ai ! off
      in bindf (as_add ai (as_start as) (as_end as) (attr AND NOT AS_OVERLAY_IO) name (Some off)) (\<lambda>(ai1, _).
           if as_attr (ai_list ai1 ! off) AND AS_ATTR_CONTINUED ai = 0 then Inr ai1
           else as_add_overlays ai1 attr name offs))"

definition as_add_containing :: "asinfo \<Rightarrow> u64 \<Rightarrow> u64 \<Rightarrow> u32 \<Rightarrow> u8 list \<Rightarrow> u8 list \<Rightarrow>
    (asinfo \<times> nat option) fallible" where
  "as_add_containing ai start end attr name container =
     (let rs = as_pieces ai start end container None [];
          piece_attr = (attr AND NOT AS_OVERLAY_IO) OR AS_ATTR_CONTINUED ai
      in bindf (as_add_pieces ai piece_attr name rs None 0) (\<lambda>(ai1, first, off).
           case first of
             None \<Rightarrow> Inr (ai1, None)
           | Some f \<Rightarrow>
               let as = ai_list ai1 ! off;
                   ai2 = ai1\<lparr>ai_list := (ai_list ai1)[off :=
                            as\<lparr>as_attr := as_attr as AND NOT (AS_ATTR_CONTINUED ai1)\<rparr>]\<rparr>
               in if attr AND AS_OVERLAY_IO \<noteq> 0
                  then bindf (as_add_overlays ai2 attr name [f ..< Suc off]) (\<lambda>ai3. Inr (ai3, Some f))
                  else Inr (ai2, Some f)))"

section \<open>What the searches find\<close>

text \<open>The tree invariant: every owner link points to an earlier entry.\<close>

definition owners_ok :: "asinfo_entry list \<Rightarrow> bool" where
  "owners_ok l \<longleftrightarrow> (\<forall>i < length l. case as_owner (l ! i) of None \<Rightarrow> True | Some j \<Rightarrow> j < i)"

lemma match_name_fuel_enough:
  assumes "owners_ok l" "i < length l" "i < fuel"
  shows "\<exists>b. match_name_fuel fuel sp l name i = Some b"
  using assms(2,3)
proof (induction fuel arbitrary: i)
  case 0
  then show ?case by simp
next
  case (Suc fuel)
  have "\<exists>b. match_name_fuel fuel sp l name j = Some b" if "as_owner (l ! i) = Some j" for j
  proof -
    have "j < i" using assms(1) Suc.prems(1) that by (auto simp: owners_ok_def split: option.splits)
    then show ?thesis using Suc by auto
  qed
  then show ?case by (auto split: option.splits)
qed

text \<open>The scan returns the first entry from \<open>i\<close> on that lies below the container and meets the
  range, and fails only if there is none.\<close>

abbreviation as_hit :: "asinfo \<Rightarrow> u64 \<Rightarrow> u64 \<Rightarrow> u8 list \<Rightarrow> nat \<Rightarrow> bool" where
  "as_hit ai start end container j \<equiv> match_name ai container j \<and> ranges_meet start end (ai_list ai ! j)"

lemma as_scan_Some:
  "as_scan ai start end container i = Some j \<Longrightarrow>
     as_hit ai start end container j \<and> (\<forall>m. i \<le> m \<and> m < j \<longrightarrow> \<not> as_hit ai start end container m)"
proof (induction ai start "end" container i rule: as_scan.induct)
  case (1 ai start "end" container i)
  show ?case
  proof (cases "i < length (ai_list ai) \<and> \<not> as_hit ai start end container i")
    case True
    then have "as_scan ai start end container (Suc i) = Some j"
      using "1.prems" by (subst (asm) as_scan.simps) (auto split: if_splits)
    from "1.IH" [OF _ _ this] True show ?thesis
      by (metis not_le le_antisym not_less_eq_eq)
  next
    case False
    then have "j = i" "as_hit ai start end container i"
      using "1.prems" by (subst (asm) as_scan.simps, auto split: if_splits)+
    then show ?thesis by auto
  qed
qed

lemma as_scan_None:
  "as_scan ai start end container i = None \<Longrightarrow> i \<le> m \<Longrightarrow> m < length (ai_list ai) \<Longrightarrow>
     \<not> as_hit ai start end container m"
proof (induction ai start "end" container i rule: as_scan.induct)
  case (1 ai start "end" container i)
  then have step: "i < length (ai_list ai)" by simp
  then have no: "\<not> as_hit ai start end container i"
    and rest: "as_scan ai start end container (Suc i) = None"
    using "1.prems"(1) by (subst (asm) as_scan.simps, auto split: if_splits)+
  show ?case
  proof (cases "m = i")
    case False
    with "1.prems" have "Suc i \<le> m" by simp
    with "1.IH" [OF _ no rest] step "1.prems"(3) show ?thesis by simp
  qed (use no in simp)
qed

section \<open>The pieces cover the range below the container\<close>

abbreviation rg_span :: "as_range \<Rightarrow> nat set" where
  "rg_span r \<equiv> {unat (rg_start r) .. unat (rg_end r)}"

abbreviation as_span :: "asinfo_entry \<Rightarrow> nat set" where
  "as_span a \<equiv> {unat (as_start a) .. unat (as_end a)}"

definition rgs_bytes :: "as_range list \<Rightarrow> nat set" where
  "rgs_bytes rs = (\<Union>r \<in> set rs. rg_span r)"

lemma rgs_bytes_simps [simp]:
  "rgs_bytes [] = {}"
  "rgs_bytes (r # rs) = rg_span r \<union> rgs_bytes rs"
  by (simp_all add: rgs_bytes_def)

lemma unat_succ: "(x::u64) \<noteq> NOT 0 \<Longrightarrow> unat (x + 1) = unat x + 1"
proof -
  assume "x \<noteq> NOT 0"
  then have "unat x \<noteq> unat (NOT 0 :: u64)" by (simp only: word_unat_eq_iff not_False_eq_True)
  moreover have "unat (NOT 0 :: u64) = 2 ^ 64 - 1" by (simp add: unsigned_minus_1_eq_mask mask_eq_exp_minus_1)
  moreover have "unat x < 2 ^ 64" by (rule unat_u64_bound)
  ultimately have "unat x + 1 < 2 ^ 64" by linarith
  then have "unat x + unat (1::u64) < 2 ^ 64" by simp
  from unat_add_u64 [OF this] show ?thesis by simp
qed

lemma unat_pred: "(0::u64) < x \<Longrightarrow> unat (x - 1) = unat x - 1"
  by (simp add: unat_sub_nat word_less_nat_alt)

lemma insert_piece_bytes:
  assumes "unat ps \<le> unat pe" "pe \<noteq> NOT 0"
  shows "rgs_bytes (insert_piece ps pe ow rs) = rgs_bytes rs \<union> {unat ps .. unat pe}"
proof (induction rs)
  case Nil
  show ?case by simp
next
  case (Cons c cs)
  have pe: "unat (pe + 1) = unat pe + 1" using assms(2) by (rule unat_succ)
  show ?case
  proof (cases "rg_start c \<le> ps \<and> rg_end c \<ge> ps")
    case False
    with Cons show ?thesis by (auto simp: Let_def)
  next
    case True
    then have le: "unat (rg_start c) \<le> unat ps" "unat ps \<le> unat (rg_end c)"
      by (simp_all add: word_le_nat_alt)
    show ?thesis
    proof (cases "rg_start c = ps")
      case eq: True
      then show ?thesis using True assms(1) le by (auto simp: Let_def pe)
    next
      case False
      then have "unat (rg_start c) < unat ps" using le by (simp add: word_unat_eq_iff)
      then have pos: "0 < ps" "0 < unat ps" by (simp_all add: word_less_nat_alt)
      then have "unat (ps - 1) = unat ps - 1" by (intro unat_pred)
      then show ?thesis using True False assms(1) le pos by (auto simp: Let_def pe)
    qed
  qed
qed

lemma insert_piece_owner:
  assumes "unat ps \<le> unat pe" "pe \<noteq> NOT 0" "{unat ps .. unat pe} \<subseteq> F ow"
    and "\<forall>r \<in> set rs. rg_span r \<subseteq> F (rg_owner r)"
  shows "\<forall>r \<in> set (insert_piece ps pe ow rs). rg_span r \<subseteq> F (rg_owner r)"
  using assms(4)
proof (induction rs)
  case Nil
  with assms(3) show ?case by simp
next
  case (Cons c cs)
  have pe: "unat (pe + 1) = unat pe + 1" using assms(2) by (rule unat_succ)
  have c: "rg_span c \<subseteq> F (rg_owner c)" using Cons.prems by simp
  show ?case
  proof (cases "rg_start c \<le> ps \<and> rg_end c \<ge> ps")
    case False
    with Cons show ?thesis by (auto simp: Let_def)
  next
    case True
    then have le: "unat (rg_start c) \<le> unat ps" "unat ps \<le> unat (rg_end c)"
      by (simp_all add: word_le_nat_alt)
    have high: "{unat (pe + 1) .. unat (rg_end c)} \<subseteq> F (rg_owner c)"
      using c le assms(1) pe by (intro subset_trans [OF _ c]) auto
    have low: "{unat (rg_start c) .. unat (ps - 1)} \<subseteq> F (rg_owner c)" if "rg_start c \<noteq> ps"
    proof -
      have "0 < ps" using that le(1) by (simp add: word_less_nat_alt word_unat_eq_iff)
      then have "unat (ps - 1) = unat ps - 1" by (rule unat_pred)
      then show ?thesis using le by (intro subset_trans [OF _ c]) auto
    qed
    show ?thesis using Cons.prems assms(3) True high low by (auto simp: Let_def)
  qed
qed

definition as_wf :: "asinfo \<Rightarrow> bool" where
  "as_wf ai \<longleftrightarrow> list_all (\<lambda>a. as_start a \<le> as_end a) (ai_list ai)"

text \<open>The bytes of \<open>[start, end]\<close> below the container, from entry \<open>i\<close> on.\<close>

definition container_bytes :: "asinfo \<Rightarrow> u8 list \<Rightarrow> nat \<Rightarrow> nat set" where
  "container_bytes ai container i =
     (\<Union>j \<in> {j. i \<le> j \<and> j < length (ai_list ai) \<and> match_name ai container j}. as_span (ai_list ai ! j))"

lemma ranges_meet_iff:
  assumes "unat (as_start a) \<le> unat (as_end a)" "unat start \<le> unat end"
  shows "ranges_meet start end a \<longleftrightarrow> {unat start .. unat end} \<inter> as_span a \<noteq> {}"
  using assms by (auto simp: ranges_meet_def word_le_nat_alt)

lemma container_bytes_step:
  assumes "as_scan ai start end container i = Some j" "as_wf ai" "unat start \<le> unat end"
  shows "{unat start .. unat end} \<inter> container_bytes ai container i =
         ({unat start .. unat end} \<inter> as_span (ai_list ai ! j)) \<union>
         ({unat start .. unat end} \<inter> container_bytes ai container (Suc j))"
proof -
  let ?X = "{unat start .. unat end}"
  have j: "i \<le> j" "j < length (ai_list ai)" using as_scan_bounds [OF assms(1)] by auto
  have hit: "match_name ai container j" using as_scan_Some [OF assms(1)] by blast
  have wf: "unat (as_start (ai_list ai ! m)) \<le> unat (as_end (ai_list ai ! m))" if "m < length (ai_list ai)" for m
    using assms(2) that by (simp add: as_wf_def list_all_length word_le_nat_alt)
  have skip: "?X \<inter> as_span (ai_list ai ! m) = {}"
    if "i \<le> m" "m < j" "match_name ai container m" for m
  proof -
    have "\<not> ranges_meet start end (ai_list ai ! m)"
      using as_scan_Some [OF assms(1)] that by blast
    with ranges_meet_iff [OF wf assms(3), of m] that(2) j(2) show ?thesis by simp
  qed
  have "x \<in> container_bytes ai container i \<longleftrightarrow>
      x \<in> as_span (ai_list ai ! j) \<or> x \<in> container_bytes ai container (Suc j)" if "x \<in> ?X" for x
  proof
    assume "x \<in> container_bytes ai container i"
    then obtain m where m: "i \<le> m" "m < length (ai_list ai)" "match_name ai container m"
      "x \<in> as_span (ai_list ai ! m)" by (auto simp: container_bytes_def)
    then have "\<not> m < j" using skip that by blast
    then show "x \<in> as_span (ai_list ai ! j) \<or> x \<in> container_bytes ai container (Suc j)"
      using m by (cases "m = j") (auto simp: container_bytes_def)
  next
    assume "x \<in> as_span (ai_list ai ! j) \<or> x \<in> container_bytes ai container (Suc j)"
    then show "x \<in> container_bytes ai container i"
    proof
      assume "x \<in> as_span (ai_list ai ! j)"
      then show ?thesis using j hit unfolding container_bytes_def by blast
    next
      assume "x \<in> container_bytes ai container (Suc j)"
      then obtain m where "Suc j \<le> m" "m < length (ai_list ai)" "match_name ai container m"
        "x \<in> as_span (ai_list ai ! m)" unfolding container_bytes_def by blast
      moreover from this(1) j(1) have "i \<le> m" by linarith
      ultimately show ?thesis unfolding container_bytes_def by blast
    qed
  qed
  then show ?thesis by blast
qed

text \<open>The loop over the containers collects exactly the requested bytes that lie below the
  container, and every range it keeps lies inside its owner.\<close>

lemma as_pieces_spec:
  assumes "as_wf ai" "unat start \<le> unat end" "end \<noteq> NOT 0"
    and "\<forall>r \<in> set rs. rg_span r \<subseteq> as_span (ai_list ai ! rg_owner r)"
  shows "rgs_bytes (as_pieces ai start end container off rs) =
           rgs_bytes rs \<union> ({unat start .. unat end} \<inter>
             container_bytes ai container (case off of None \<Rightarrow> 0 | Some i \<Rightarrow> Suc i)) \<and>
         (\<forall>r \<in> set (as_pieces ai start end container off rs). rg_span r \<subseteq> as_span (ai_list ai ! rg_owner r))"
  using assms
proof (induction ai start "end" container off rs rule: as_pieces.induct)
  case (1 ai start "end" container off rs)
  let ?i = "case off of None \<Rightarrow> 0 | Some i \<Rightarrow> Suc i"
  show ?case
  proof (cases "as_find_containing ai off start end container")
    case None
    then have scan: "as_scan ai start end container ?i = None" by (simp add: as_find_containing_def)
    have "\<not> ranges_meet start end (ai_list ai ! m)"
      if "?i \<le> m" "m < length (ai_list ai)" "match_name ai container m" for m
      using as_scan_None [OF scan that(1,2)] that(3) by blast
    then have "{unat start .. unat end} \<inter> as_span (ai_list ai ! m) = {}"
      if "?i \<le> m" "m < length (ai_list ai)" "match_name ai container m" for m
      using ranges_meet_iff [of "ai_list ai ! m" start "end"] that "1.prems"(1,2)
      by (simp add: as_wf_def list_all_length word_le_nat_alt)
    then have "{unat start .. unat end} \<inter> container_bytes ai container ?i = {}"
      unfolding container_bytes_def by blast
    with None "1.prems"(4) show ?thesis by (simp add: as_pieces.simps)
  next
    case (Some j)
    let ?a = "ai_list ai ! j"
    define ps where "ps = (if as_start ?a > start then as_start ?a else start)"
    define pe where "pe = (if as_end ?a < end then as_end ?a else end)"
    have scan: "as_scan ai start end container ?i = Some j" using Some by (simp add: as_find_containing_def)
    have wf: "unat (as_start ?a) \<le> unat (as_end ?a)"
      using "1.prems"(1) as_scan_bounds [OF scan] by (simp add: as_wf_def list_all_length word_le_nat_alt)
    have meet: "{unat start .. unat end} \<inter> as_span ?a \<noteq> {}"
      using as_scan_Some [OF scan] ranges_meet_iff [OF wf "1.prems"(2)] by blast
    have sp: "{unat ps .. unat pe} = {unat start .. unat end} \<inter> as_span ?a"
      by (auto simp: ps_def pe_def word_less_nat_alt)
    then have le: "unat ps \<le> unat pe" using meet by auto
    have "unat pe \<le> unat end" by (auto simp: pe_def word_less_nat_alt)
    then have ne: "pe \<noteq> NOT 0" using "1.prems"(3)
      by (metis word_and_max word_le_nat_alt word_order.extremum_uniqueI bit.compl_zero)
    have own: "\<forall>r \<in> set (insert_piece ps pe j rs). rg_span r \<subseteq> as_span (ai_list ai ! rg_owner r)"
      using insert_piece_owner [OF le ne, of "\<lambda>i. as_span (ai_list ai ! i)" j rs] sp "1.prems"(4) by blast
    have unf: "as_pieces ai start end container off rs =
        as_pieces ai start end container (Some j) (insert_piece ps pe j rs)"
      using Some by (subst as_pieces.simps) (simp add: Let_def ps_def pe_def)
    from "1.IH" [OF Some refl ps_def pe_def "1.prems"(1-3) own]
      container_bytes_step [OF scan "1.prems"(1,2)] insert_piece_bytes [OF le ne, of j rs] sp
    show ?thesis unfolding unf by auto
  qed
qed

section \<open>What the additions leave behind\<close>

text \<open>The part of an entry that only its creation writes.\<close>

definition as_range_view :: "asinfo_entry \<Rightarrow> u64 \<times> u64 \<times> nat option" where
  "as_range_view a = (as_start a, as_end a, as_owner a)"

definition same_consts :: "asinfo \<Rightarrow> asinfo \<Rightarrow> bool" where
  "same_consts a b \<longleftrightarrow> AS_ATTR_KIDS a = AS_ATTR_KIDS b \<and> AS_ATTR_CONTINUED a = AS_ATTR_CONTINUED b \<and>
     AS_PRIORITY_DEFAULT a = AS_PRIORITY_DEFAULT b \<and> sizeof_asinfo_entry a = sizeof_asinfo_entry b"

lemma map_update_same:
  assumes "f y = f (xs ! i)"
  shows "map f (xs[i := y]) = map f xs"
  using assms by (cases "i < length xs") (simp_all add: map_update list_update_same_conv list_update_beyond)

lemma as_add_entry_view:
  assumes "as_add_entry ai start end attr name owner = Inr (ai', off)"
  shows "off = length (ai_list ai)" and "same_consts ai' ai"
    and "map as_range_view (ai_list ai') = map as_range_view (ai_list ai) @ [(start, end, owner)]"
  using assms
  by (auto simp: as_add_entry_def bindf_Inr_iff Let_def map_update_same same_consts_def as_range_view_def
      simp del: list_update_append map_append split: option.splits)
     (simp_all add: as_range_view_def)

lemma as_add_no_overlay:
  "attr AND AS_OVERLAY_IO = 0 \<Longrightarrow> as_add ai start end attr name owner = as_add_entry ai start end attr name owner"
  by (simp add: as_add_def as_add64_def bindf_def split: sum.splits)

lemma as_add_pieces_view:
  assumes "as_add_pieces ai attr name rs first off = Inr (ai', first', off')" "attr AND AS_OVERLAY_IO = 0"
  shows "map as_range_view (ai_list ai') = map as_range_view (ai_list ai) @
           map (\<lambda>r. (rg_start r, rg_end r, Some (rg_owner r))) (filter (\<lambda>r. rg_start r \<le> rg_end r) rs)
         \<and> same_consts ai' ai"
  using assms(1)
proof (induction rs arbitrary: ai first off)
  case Nil
  then show ?case by (simp add: same_consts_def)
next
  case (Cons r rs)
  show ?case
  proof (cases "rg_start r \<le> rg_end r")
    case False
    with Cons show ?thesis by auto
  next
    case True
    with Cons.prems obtain ai1 off1 f1 where
      one: "as_add_entry ai (rg_start r) (rg_end r) attr name (Some (rg_owner r)) = Inr (ai1, off1)"
      and rest: "as_add_pieces ai1 attr name rs f1 off1 = Inr (ai', first', off')"
      by (auto simp: as_add_no_overlay [OF assms(2)] bindf_Inr_iff)
    from as_add_entry_view [OF one] Cons.IH [OF rest] True show ?thesis
      by (auto simp: same_consts_def)
  qed
qed

lemma as_add_containing_view:
  assumes "as_add_containing ai start end attr name container = Inr (ai', first)"
    and "attr AND AS_OVERLAY_IO = 0" "AS_ATTR_CONTINUED ai AND AS_OVERLAY_IO = 0"
  shows "map as_range_view (ai_list ai') = map as_range_view (ai_list ai) @
           map (\<lambda>r. (rg_start r, rg_end r, Some (rg_owner r)))
             (filter (\<lambda>r. rg_start r \<le> rg_end r) (as_pieces ai start end container None []))"
    and "same_consts ai' ai"
proof -
  let ?rs = "as_pieces ai start end container None []"
  let ?pa = "(attr AND NOT AS_OVERLAY_IO) OR AS_ATTR_CONTINUED ai"
  have pa: "?pa AND AS_OVERLAY_IO = 0"
    using assms(3) by (simp add: bit.conj_disj_distrib2 and.assoc)
  obtain ai1 f off where one: "as_add_pieces ai ?pa name ?rs None 0 = Inr (ai1, f, off)"
    and ai': "map as_range_view (ai_list ai') = map as_range_view (ai_list ai1)" "same_consts ai' ai1"
    using assms(1,2)
    by (auto simp: as_add_containing_def bindf_Inr_iff Let_def map_update_same as_range_view_def same_consts_def
        split: option.splits)
  from as_add_pieces_view [OF one pa] ai'
  show "map as_range_view (ai_list ai') = map as_range_view (ai_list ai) @
      map (\<lambda>r. (rg_start r, rg_end r, Some (rg_owner r))) (filter (\<lambda>r. rg_start r \<le> rg_end r) ?rs)"
    and "same_consts ai' ai"
    by (auto simp: same_consts_def)
qed

section \<open>Properties\<close>

text \<open>Claim C4. \<open>as_add_containing\<close> leaves the ranges and owners of all entries as they are and
  appends new ones. Together these cover exactly the bytes of the requested range that lie below
  the container, and each of them lies inside the entry that owns it.\<close>

theorem as_add_containing_covers:
  assumes "as_wf ai" "unat start \<le> unat end" "end \<noteq> NOT 0"
    and "attr AND AS_OVERLAY_IO = 0" "AS_ATTR_CONTINUED ai AND AS_OVERLAY_IO = 0"
    and "as_add_containing ai start end attr name container = Inr (ai', first)"
  shows "\<exists>new. map as_range_view (ai_list ai') = map as_range_view (ai_list ai) @ new \<and>
           (\<Union>(s, e, ow) \<in> set new. {unat s .. unat e}) =
             {unat start .. unat end} \<inter> container_bytes ai container 0 \<and>
           (\<forall>(s, e, ow) \<in> set new. \<exists>j. ow = Some j \<and> {unat s .. unat e} \<subseteq> as_span (ai_list ai ! j))"
proof -
  let ?rs = "as_pieces ai start end container None []"
  let ?new = "map (\<lambda>r. (rg_start r, rg_end r, Some (rg_owner r))) (filter (\<lambda>r. rg_start r \<le> rg_end r) ?rs)"
  have p: "rgs_bytes ?rs = {unat start .. unat end} \<inter> container_bytes ai container 0"
    "\<forall>r \<in> set ?rs. rg_span r \<subseteq> as_span (ai_list ai ! rg_owner r)"
    using as_pieces_spec [OF assms(1-3), of "[]" container None] by simp_all
  have u: "(\<Union>(s, e, ow) \<in> set ?new. {unat s .. unat e}) = rgs_bytes ?rs"
    by (auto simp: rgs_bytes_def word_le_nat_alt)
  have ow: "\<forall>(s, e, ow) \<in> set ?new. \<exists>j. ow = Some j \<and> {unat s .. unat e} \<subseteq> as_span (ai_list ai ! j)"
    using p(2) by auto
  show ?thesis
    by (intro exI [of _ ?new] conjI as_add_containing_view(1) [OF assms(6,4,5)] ow u [THEN trans] p(1))
qed

definition demo_asinfo :: asinfo where
  "demo_asinfo = \<lparr>ai_sp = demo_strings,
     ai_list = [\<lparr>as_start = 0, as_end = 0xffff, as_owner = None, as_name = 0, as_attr = 0, as_priority = 0\<rparr>],
     AS_ATTR_KIDS = 0x20, AS_ATTR_CONTINUED = 0x10, AS_PRIORITY_DEFAULT = 100, sizeof_asinfo_entry = 0x20\<rparr>"

theorem as_add_containing_covers_witness:
  "\<exists>ai' f. as_add_containing demo_asinfo 0x100 0x1ff 0 (cname ''ram'') [] = Inr (ai', f) \<and>
     (\<exists>new. map as_range_view (ai_list ai') = map as_range_view (ai_list demo_asinfo) @ new \<and>
        (\<Union>(s, e, ow) \<in> set new. {unat s .. unat e}) =
          {0x100 .. 0x1ff} \<inter> container_bytes demo_asinfo [] 0)"
proof -
  have "\<not> isl (as_add_containing demo_asinfo 0x100 0x1ff 0 (cname ''ram'') [])" by code_simp
  then obtain ai' f where a: "as_add_containing demo_asinfo 0x100 0x1ff 0 (cname ''ram'') [] = Inr (ai', f)"
    by (cases "as_add_containing demo_asinfo 0x100 0x1ff 0 (cname ''ram'') []") auto
  have "as_wf demo_asinfo" "AS_ATTR_CONTINUED demo_asinfo AND AS_OVERLAY_IO = 0"
    by (simp_all add: as_wf_def demo_asinfo_def AS_OVERLAY_IO_def)
  from as_add_containing_covers [OF this(1) _ _ _ this(2) a] a show ?thesis by fastforce
qed

end
