(* ===== verification/Ram.thy ===== *)
theory Ram
  imports Ram_List Asinfo
begin

text \<open>
  The memory manager of the startup program, \<open>startup/lib/ram.c\<close>, over the lists of
  \<open>Ram_List\<close> and the address-space tree of \<open>Asinfo\<close>: working storage before any RAM is
  known, the list of ranges to avoid, allocation, the \<open>sysram\<close> entries that have to follow an
  allocation, and the watchers that are told of new RAM.

  The file's static variables and the globals it reads are one record. Effects on memory contents
  are recorded: \<open>rm_zeroed\<close> lists the ranges that \<open>memset\<close> cleared and \<open>rm_calls\<close> the
  calls of watchers. A watcher is a number, and what a watcher does is not modelled.
\<close>

record ram_state =
  rm_ram :: "ram_entry list"
  rm_avoid :: "avoid_entry list option"
  rm_ws_early_next :: u64
  rm_temp_syspage :: u64
  rm_sysram_added :: bool
  rm_watch_list :: "nat list"
  rm_calls :: "(nat \<times> u64 \<times> u64) list"
  rm_zeroed :: "(u64 \<times> u64) list"
  rm_as :: asinfo
  full_ram_paddr :: u64
  shdr_ram_size :: u32
  shdr_startup_size :: u32
  secure_system :: bool
  rm_pagesize :: u32
  id_aa64mmfr0 :: u64

definition sizeof_avoid_entry :: nat where
  "sizeof_avoid_entry = 16"

definition MAX_AVOID_LIST_SIZE :: nat where
  "MAX_AVOID_LIST_SIZE = 1024"

definition TEMP_SYSPAGE_SIZE :: u64 where
  "TEMP_SYSPAGE_SIZE = 48 * 1024"

section \<open>Avoided ranges and working storage\<close>

text \<open>\<open>avoid_ram\<close> once the list exists: extend the last range or append a new one. The C code
  tests the size after it has written the entry; \<open>crash()\<close> does not return.\<close>

definition avoid_add :: "avoid_entry list \<Rightarrow> u64 \<Rightarrow> u64 \<Rightarrow> avoid_entry list fallible" where
  "avoid_add av start sz =
     (let av' = (if av \<noteq> [] \<and> av_end (last av) = start
                 then butlast av @ [(last av)\<lparr>av_end := av_end (last av) + sz\<rparr>]
                 else av @ [\<lparr>av_start = start, av_end = start + sz\<rparr>])
      in if sizeof_avoid_entry * (length av' + 1) > MAX_AVOID_LIST_SIZE
         then Inl ''Avoid RAM entry array overflow''
         else Inr av')"

text \<open>\<open>ws_init\<close>: the avoid list, then the RAM list, are carved out of the memory behind the
  startup program; both are avoided, and so is the startup program itself.\<close>

definition ws_init :: "ram_state \<Rightarrow> ram_state fallible" where
  "ws_init st =
     (let n0 = ROUND (full_ram_paddr st + ucast (shdr_ram_size st)) 8;
          n1 = n0 + ROUND (of_nat MAX_AVOID_LIST_SIZE) 8;
          ramsz = ROUND (of_nat MAX_RAM_LIST_SIZE) 8
      in bindf (avoid_add [\<lparr>av_start = n0, av_end = n1\<rparr>] n1 ramsz) (\<lambda>av1.
         bindf (avoid_add av1 (full_ram_paddr st) (ucast (shdr_startup_size st))) (\<lambda>av2.
           Inr (st\<lparr>rm_ws_early_next := n1 + ramsz, rm_ram := [], rm_avoid := Some av2\<rparr>))))"

definition ws_ready :: "ram_state \<Rightarrow> ram_state fallible" where
  "ws_ready st = (case rm_avoid st of None \<Rightarrow> ws_init st | Some _ \<Rightarrow> Inr st)"

definition rm_avoids :: "ram_state \<Rightarrow> avoid_entry list" where
  "rm_avoids st = (case rm_avoid st of None \<Rightarrow> [] | Some av \<Rightarrow> av)"

definition avoid_ram :: "ram_state \<Rightarrow> u64 \<Rightarrow> u64 \<Rightarrow> ram_state fallible" where
  "avoid_ram st start sz =
     bindf (ws_ready st) (\<lambda>st1.
     bindf (avoid_add (rm_avoids st1) start sz) (\<lambda>av. Inr (st1\<lparr>rm_avoid := Some av\<rparr>)))"

text \<open>\<open>None\<close> is the return value \<open>NULL\<close>.\<close>

definition ws_alloc :: "ram_state \<Rightarrow> u64 \<Rightarrow> (ram_state \<times> u64 option) fallible" where
  "ws_alloc st sz0 =
     bindf (ws_ready st) (\<lambda>st1.
       let sz = ROUND sz0 8
       in if rm_ram st1 = []
          then let paddr = rm_ws_early_next st1
               in bindf (avoid_ram (st1\<lparr>rm_ws_early_next := rm_ws_early_next st1 + sz\<rparr>) paddr sz)
                    (\<lambda>st2. Inr (st2, Some paddr))
          else let paddr = find_ram (rm_ram st1) (rm_avoids st1) sz 8 0 0
               in if paddr = NULL_PADDR then Inr (st1, None)
                  else bindf (avoid_ram st1 paddr sz) (\<lambda>st2. Inr (st2, Some paddr)))"

definition watch_add_ram :: "ram_state \<Rightarrow> nat \<Rightarrow> ram_state fallible" where
  "watch_add_ram st func =
     bindf (ws_alloc st 16) (\<lambda>(st1, p).
       case p of
         None \<Rightarrow> Inl ''No memory for watcher''
       | Some _ \<Rightarrow> Inr (st1\<lparr>rm_watch_list := func # rm_watch_list st1\<rparr>))"

section \<open>Allocation\<close>

text \<open>
  The loop that takes the block out of the \<open>sysram\<close> entries; \<open>end\<close> is the last byte of the block.
  \<open>alloc_sysram_entry\<close> is its body for the entry found. The loop goes on from the entry it has
  changed, and it may append entries, so it runs on fuel; the outer \<open>None\<close> is a loop that has used
  it up.
\<close>

definition alloc_sysram_entry :: "asinfo \<Rightarrow> nat \<Rightarrow> u64 \<Rightarrow> u64 \<Rightarrow> asinfo fallible" where
  "alloc_sysram_entry ai j addr end =
     (let as = ai_list ai ! j;
          e = (if end > as_end as then end else as_end as);
          s = (if addr < as_start as then addr else as_start as)
      in if addr = s \<and> end = e then Inl ''Can't remove whole sysram entry.''
         else if addr = s then Inr (ai\<lparr>ai_list := (ai_list ai)[j := as\<lparr>as_start := end + 1\<rparr>]\<rparr>)
         else let ai1 = ai\<lparr>ai_list := (ai_list ai)[j := as\<lparr>as_end := addr - 1\<rparr>]\<rparr>
              in if e \<noteq> end
                 then bindf (as_add ai1 (end + 1) e AS_ATTR_RAM (cname ''sysram'') (as_owner as))
                        (\<lambda>(ai2, _). Inr ai2)
                 else Inr ai1)"

fun alloc_sysram :: "nat \<Rightarrow> asinfo \<Rightarrow> nat option \<Rightarrow> u64 \<Rightarrow> u64 \<Rightarrow> asinfo fallible option" where
  "alloc_sysram 0 ai off addr end = None"
| "alloc_sysram (Suc fuel) ai off addr end =
     (case as_find_containing ai off addr end (cname ''sysram'') of
        None \<Rightarrow> Some (Inr ai)
      | Some j \<Rightarrow>
          (case alloc_sysram_entry ai j addr end of
             Inl err \<Rightarrow> Some (Inl err)
           | Inr ai' \<Rightarrow> alloc_sysram fuel ai' (Some j) addr end))"

text \<open>With fuel for every entry, using it up means that the loop does not return.\<close>

definition alloc_sysram_all :: "asinfo \<Rightarrow> u64 \<Rightarrow> u64 \<Rightarrow> asinfo fallible" where
  "alloc_sysram_all ai addr end =
     (case alloc_sysram (Suc (length (ai_list ai))) ai None addr end of
        None \<Rightarrow> Inl ''the sysram loop does not return''
      | Some r \<Rightarrow> r)"

text \<open>\<open>alloc_ram\<close>: the block to remove is given, or it is searched for.\<close>

definition alloc_ram_at :: "ram_state \<Rightarrow> u64 \<Rightarrow> u64 \<Rightarrow> (ram_state \<times> u64) fallible" where
  "alloc_ram_at st addr sz =
     (let end = addr + sz
      in bindf (alloc_loop addr end 0 (rm_ram st)) (\<lambda>l.
         let st1 = st\<lparr>rm_ram := l\<rparr>
         in if rm_sysram_added st
            then bindf (alloc_sysram_all (rm_as st1) addr (end - 1)) (\<lambda>ai. Inr (st1\<lparr>rm_as := ai\<rparr>, addr))
            else Inr (st1, addr)))"

definition alloc_ram :: "ram_state \<Rightarrow> u64 \<Rightarrow> u64 \<Rightarrow> u32 \<Rightarrow> (ram_state \<times> u64) fallible" where
  "alloc_ram st addr sz align =
     (if addr = NULL_PADDR
      then let a = find_ram (rm_ram st) (rm_avoids st) sz align 0 0
           in if a = NULL_PADDR then Inr (st, NULL_PADDR)
              else let st1 = (if secure_system st
                              then st\<lparr>rm_zeroed := (ucast (ucast a :: u32), sz) # rm_zeroed st\<rparr> else st)
                   in alloc_ram_at st1 a sz
      else alloc_ram_at st addr sz)"

definition calloc_ram :: "ram_state \<Rightarrow> u64 \<Rightarrow> u32 \<Rightarrow> (ram_state \<times> u64) fallible" where
  "calloc_ram st sz align =
     bindf (alloc_ram st NULL_PADDR sz align) (\<lambda>(st1, a).
       if a \<noteq> NULL_PADDR \<and> \<not> secure_system st1
       then Inr (st1\<lparr>rm_zeroed := (a, sz) # rm_zeroed st1\<rparr>, a)
       else Inr (st1, a))"

definition reserve_ram :: "ram_state \<Rightarrow> u32 \<Rightarrow> u32 \<Rightarrow> u8 list \<Rightarrow> u32 \<Rightarrow> u32 \<Rightarrow> ram_state fallible" where
  "reserve_ram st sz align name pagesize low_region =
     (if sz = 0 then Inr st
      else let al = (if align \<noteq> 0 then align else pagesize);
               r0 = (if low_region = 0
                     then find_top_ram_aligned (rm_ram st) (rm_avoids st) (ucast sz) al pagesize
                     else NULL_PADDR)
           in if low_region = 0 \<and> r0 = NULL_PADDR then Inl ''Could not reserve bytes from top of memory.''
              else bindf (alloc_ram st r0 (ucast sz) al) (\<lambda>(st1, reserved).
                if reserved = NULL_PADDR then Inl ''Could not reserve bytes of memory.''
                else bindf (as_add_containing (rm_as st1) reserved (reserved + ucast sz - 1) AS_ATTR_RAM
                              (if name = [] then cname ''reserved'' else name) (cname ''ram''))
                       (\<lambda>(ai, _). Inr (st1\<lparr>rm_as := ai\<rparr>))))"

section \<open>Adding RAM\<close>

text \<open>\<open>as_default\<close> of \<open>startup/lib/aarch64\<close>: the address bits the CPU reports bound the root
  entry. \<open>init_asinfo\<close> of this board does nothing.\<close>

definition as_default_bits :: "nat list" where
  "as_default_bits = [32, 36, 40, 42, 44, 48, 48, 48]"

definition as_default :: "ram_state \<Rightarrow> (asinfo \<times> nat) fallible" where
  "as_default st =
     as_add (rm_as st) 0 ((push_bit (as_default_bits ! unat (id_aa64mmfr0 st AND 7)) 1) - 1) 0
       (cname ''memory'') None"

definition GIG4 :: u64 where "GIG4 = 0x100000000"

definition call_watchers :: "ram_state \<Rightarrow> u64 \<Rightarrow> u64 \<Rightarrow> ram_state" where
  "call_watchers st start sz = st\<lparr>rm_calls := rm_calls st @ map (\<lambda>w. (w, start, sz)) (rm_watch_list st)\<rparr>"

text \<open>The step of \<open>add_ram\<close> that finds room for the temporary system page. \<open>TEMP_SYSPAGE_SIZE\<close> is
  rounded to nothing: it is a multiple of the page size already.\<close>

definition place_syspage :: "ram_state \<Rightarrow> ram_state fallible" where
  "place_syspage st =
     (if rm_temp_syspage st = NULL_PADDR
      then let p = find_ram (rm_ram st) (rm_avoids st) TEMP_SYSPAGE_SIZE (rm_pagesize st) 0 0;
               st1 = st\<lparr>rm_temp_syspage := p\<rparr>
           in if p \<noteq> NULL_PADDR
              then bindf (avoid_ram st1 p TEMP_SYSPAGE_SIZE) (\<lambda>st2.
                     Inr (st2\<lparr>rm_as := (rm_as st2)\<lparr>ai_sp :=
                       reloc_syspage_memory (ai_sp (rm_as st2)) (unat p) (ucast TEMP_SYSPAGE_SIZE)\<rparr>\<rparr>))
              else Inr st1
      else Inr st)"

definition add_ram :: "ram_state \<Rightarrow> u64 \<Rightarrow> u64 \<Rightarrow> ram_state fallible" where
  "add_ram st start sz =
     bindf (if ai_list (rm_as st) = []
            then bindf (as_default st) (\<lambda>(ai1, mem).
                 bindf (as_add ai1 0 (GIG4 - 1) 0 (cname ''below4G'') (Some mem)) (\<lambda>(ai2, _).
                   Inr (st\<lparr>rm_as := ai2\<rparr>)))
            else Inr st) (\<lambda>st1.
     bindf (as_add_containing (rm_as st1) start (start + sz - 1) AS_ATTR_RAM (cname ''ram'') (cname ''memory''))
       (\<lambda>(ai, _).
     let st2 = st1\<lparr>rm_as := ai\<rparr>
     in bindf (add_mem start sz (rm_ram st2)) (\<lambda>l.
        let st3 = st2\<lparr>rm_ram := l\<rparr>
        in bindf (alloc_ram st3 (full_ram_paddr st3 + ucast (shdr_startup_size st3))
                    (ucast (shdr_ram_size st3 - shdr_startup_size st3)) 1) (\<lambda>(st4, _).
           bindf (place_syspage st4) (\<lambda>st5. Inr (call_watchers st5 start sz))))))"

fun add_sysram_entries :: "asinfo \<Rightarrow> ram_entry list \<Rightarrow> asinfo fallible" where
  "add_sysram_entries ai [] = Inr ai"
| "add_sysram_entries ai (r # rs) =
     (if ram_size r = 0 then Inr ai
      else bindf (as_add_containing ai (ram_addr r) (ram_addr r + ram_size r - 1) AS_ATTR_RAM
                    (cname ''sysram'') (cname ''ram''))
             (\<lambda>(ai1, _). add_sysram_entries ai1 rs))"

definition add_sysram :: "ram_state \<Rightarrow> ram_state fallible" where
  "add_sysram st =
     (let st1 = call_watchers st 0 0
      in bindf (add_sysram_entries (rm_as st1) (rm_ram st1)) (\<lambda>ai.
           Inr (st1\<lparr>rm_as := ai, rm_sysram_added := True\<rparr>)))"

section \<open>The board's memory: \<open>bcm2712_init_raminfo\<close>\<close>

text \<open>The decoders of the board revision word (\<open>init_board_type.c\<close>). The size of the VideoCore's
  memory and the revision come from the firmware's mailbox; both are arguments of
  \<open>bcm2712_init_raminfo\<close>.\<close>

definition board_field :: "u32 \<Rightarrow> nat \<Rightarrow> u32 \<Rightarrow> nat" where
  "board_field board_rev shift msk = unat ((drop_bit shift board_rev) AND msk)"

definition table_or :: "'a list \<Rightarrow> 'a \<Rightarrow> nat \<Rightarrow> 'a" where
  "table_or xs d idx = (if idx < length xs then xs ! idx else d)"

definition get_soc_name :: "u32 \<Rightarrow> string" where
  "get_soc_name board_rev =
     table_or [''BCM2835'', ''BCM2836'', ''BCM2837'', ''BCM2711'', ''BCM2712''] ''Unknown''
       (board_field board_rev 12 0xF)"

definition get_memory_size :: "u32 \<Rightarrow> u32" where
  "get_memory_size board_rev =
     table_or [256, 512, 1024, 2048, 4096, 8192, 16384] 0 (board_field board_rev 20 0x7)"

definition get_mfr_name :: "u32 \<Rightarrow> string" where
  "get_mfr_name board_rev =
     table_or [''Sony UK'', ''Egoman'', ''Embest'', ''Sony Japan'', ''Embest'', ''Stadium''] ''Unknown''
       (board_field board_rev 16 0xF)"

definition get_board_name :: "u32 \<Rightarrow> string" where
  "get_board_name board_rev =
     table_or [''RaspberryPi1A'', ''RaspberryPi1B'', ''RaspberryPi1A+'', ''RaspberryPi1B+'',
       ''RaspberryPi2B'', ''RaspberryPiAlpha'', ''RaspberryPiCM1'', ''Unknown'', ''RaspberryPi3B'',
       ''RaspberryPi0'', ''RaspberryPiCM3'', ''Unknown'', ''RaspberryPi0W'', ''RaspberryPi3B+'',
       ''RaspberryPi3A+'', ''Unknown'', ''RaspberryPiCM3+'', ''RaspberryPi4B'', ''RaspberryPi02W'',
       ''RaspberryPi400'', ''RaspberryPiCM4'', ''RaspberryPiCM4S'', ''RaspberryPi--'', ''RaspberryPi5'',
       ''RaspberryPiCM5'', ''RaspberryPi500'', ''RaspberryPiCM5Lite''] ''Unknown''
       (board_field board_rev 4 0xFF)"

definition MEG :: "u64 \<Rightarrow> u64" where "MEG n = n * 1024 * 1024"
definition GIG :: "u64 \<Rightarrow> u64" where "GIG n = n * 1024 * 1024 * 1024"

definition add_board_ram :: "ram_state \<Rightarrow> u64 \<Rightarrow> ram_state fallible" where
  "add_board_ram st ramsize =
     (if ramsize \<ge> GIG 4
      then bindf (add_ram st 0 (GIG 4 - MEG 64)) (\<lambda>st1.
           bindf (if ramsize \<ge> GIG 8 then add_ram st1 0x100000000 (GIG 4) else Inr st1) (\<lambda>st2.
             if ramsize \<ge> GIG 16 then add_ram st2 0x200000000 (GIG 8) else Inr st2))
      else add_ram st 0 ramsize)"

definition bcm2712_init_raminfo :: "ram_state \<Rightarrow> u32 \<Rightarrow> u32 \<Rightarrow> ram_state fallible" where
  "bcm2712_init_raminfo st vcram_size board_rev =
     (let vcram_start = GIG 1 - ucast vcram_size
      in bindf (avoid_ram st 0 (512 * 1024)) (\<lambda>st1.
         bindf (avoid_ram st1 vcram_start (ucast vcram_size)) (\<lambda>st2.
         let size_mb = ucast (get_memory_size board_rev); ramsize = (if MEG size_mb = 0 then MEG 256 else MEG size_mb)
         in bindf (add_board_ram st2 ramsize) (\<lambda>st3.
            bindf (alloc_ram st3 vcram_start (ucast vcram_size) 0) (\<lambda>(st4, _).
            bindf (as_add_containing (rm_as st4) vcram_start (vcram_start + ucast vcram_size - 1) AS_ATTR_RAM
                     (cname ''vcram'') (cname ''ram'')) (\<lambda>(ai5, _).
              let st5 = st4\<lparr>rm_as := ai5\<rparr>
              in if ramsize > GIG 1
                 then bindf (as_add_containing (rm_as st5) 0 (vcram_start - 1) AS_ATTR_RAM
                               (cname ''below1G'') (cname ''ram''))
                        (\<lambda>(ai6, _). Inr (st5\<lparr>rm_as := ai6\<rparr>))
                 else Inr st5))))))"

section \<open>Allocation takes exactly the block out of the free memory\<close>

definition ram_inv :: "ram_state \<Rightarrow> bool" where
  "ram_inv st \<longleftrightarrow> ram_ok (rm_ram st) \<and> ram_below_top (rm_ram st)"

definition ram_block :: "u64 \<Rightarrow> u64 \<Rightarrow> nat set" where
  "ram_block a sz = (if a = NULL_PADDR then {} else {unat a ..< unat a + unat sz})"

lemma ram_below_top_bytes:
  assumes "ram_ok l"
  shows "ram_below_top l \<longleftrightarrow> (\<forall>b \<in> ram_bytes l. b + 2 ^ 32 < 2 ^ 64)"
proof -
  have "ram_hi r + 2 ^ 32 \<le> 2 ^ 64 \<longleftrightarrow> (\<forall>b \<in> ram_span r. b + 2 ^ 32 < 2 ^ 64)" if "r \<in> set l" for r
  proof -
    have "ram_entry_ok r" using assms that by (auto simp: ram_ok_def list_all_iff)
    then have "0 < unat (ram_size r)" by (simp add: ram_entry_ok_def unat_gt_0)
    then have "ram_hi r - 1 \<in> ram_span r" by auto
    with \<open>0 < unat (ram_size r)\<close> show ?thesis by fastforce
  qed
  then show ?thesis by (auto simp: ram_below_top_def list_all_iff ram_bytes_def)
qed

lemma alloc_ram_at_spec:
  assumes "ram_ok (rm_ram st)" "unat addr + unat sz < 2 ^ 64" "alloc_ram_at st addr sz = Inr (st', a)"
  shows "a = addr \<and> ram_ok (rm_ram st') \<and>
         ram_bytes (rm_ram st') = ram_bytes (rm_ram st) - {unat addr ..< unat addr + unat sz} \<and>
         rm_avoid st' = rm_avoid st"
proof -
  have e: "unat (addr + sz) = unat addr + unat sz" using assms(2) by (simp add: unat_add_u64)
  obtain l where l: "alloc_loop addr (addr + sz) 0 (rm_ram st) = Inr l"
    and st': "rm_ram st' = l" "a = addr" "rm_avoid st' = rm_avoid st"
    using assms(3) by (auto simp: alloc_ram_at_def Let_def bindf_Inr_iff split: if_splits)
  from alloc_loop_spec [OF l assms(1)] e have "ram_ok l \<and> ram_bytes l = ram_bytes (rm_ram st) - {unat addr ..< unat addr + unat sz}"
    by (simp add: clear_before_def)
  with st' show ?thesis by simp
qed

lemma alloc_ram_found:
  assumes "ram_inv st" "k < 32" "alloc_ram st NULL_PADDR sz (2 ^ k) = Inr (st', a)"
  shows "ram_inv st' \<and> rm_avoid st' = rm_avoid st \<and>
         ram_bytes (rm_ram st') = ram_bytes (rm_ram st) - ram_block a sz \<and>
         ram_block a sz \<subseteq> ram_bytes (rm_ram st) - avoid_bytes (rm_avoids st) \<and>
         (a \<noteq> NULL_PADDR \<longrightarrow> 2 ^ k dvd unat a)"
proof -
  let ?f = "find_ram (rm_ram st) (rm_avoids st) sz (2 ^ k) 0 0"
  show ?thesis
  proof (cases "?f = NULL_PADDR")
    case True
    with assms(1,3) show ?thesis by (simp add: alloc_ram_def ram_block_def)
  next
    case False
    have ok: "ram_ok (rm_ram st)" "ram_below_top (rm_ram st)" using assms(1) by (simp_all add: ram_inv_def)
    from find_ram_spec [OF ok assms(2) refl refl False]
    have f: "{unat ?f ..< unat ?f + unat sz} \<subseteq> ram_bytes (rm_ram st) - avoid_bytes (rm_avoids st)"
      "2 ^ k dvd unat ?f" "unat ?f + unat sz < 2 ^ 64" by auto
    define st1 where "st1 = (if secure_system st
      then st\<lparr>rm_zeroed := (ucast (ucast ?f :: u32), sz) # rm_zeroed st\<rparr> else st)"
    have "alloc_ram_at st1 ?f sz = Inr (st', a)"
      using assms(3) False by (simp add: alloc_ram_def Let_def st1_def)
    from alloc_ram_at_spec [OF _ f(3) this] ok
    have r: "a = ?f" "ram_ok (rm_ram st')" "rm_avoid st' = rm_avoid st"
      "ram_bytes (rm_ram st') = ram_bytes (rm_ram st) - {unat ?f ..< unat ?f + unat sz}"
      by (simp_all add: st1_def split: if_splits)
    moreover have "ram_below_top (rm_ram st')"
      using r ok by (simp add: ram_below_top_bytes)
    ultimately show ?thesis using f False by (simp add: ram_inv_def ram_block_def)
  qed
qed

text \<open>The allocator as a relation: a request is a size and the exponent of the alignment.\<close>

definition ram_alloc :: "ram_state \<Rightarrow> u64 \<times> nat \<Rightarrow> ram_state \<Rightarrow> nat set \<Rightarrow> bool" where
  "ram_alloc st q st' b \<longleftrightarrow>
     snd q < 32 \<and> (\<exists>a. alloc_ram st NULL_PADDR (fst q) (2 ^ snd q) = Inr (st', a) \<and> b = ram_block a (fst q))"

interpretation rma: block_allocator ram_inv "\<lambda>st. ram_bytes (rm_ram st)" ram_alloc
proof unfold_locales
  fix st q st' b
  assume "ram_inv st" "ram_alloc st q st' b"
  then show "ram_inv st'" "b \<subseteq> ram_bytes (rm_ram st) \<and> ram_bytes (rm_ram st') = ram_bytes (rm_ram st) - b"
    unfolding ram_alloc_def by (blast dest: alloc_ram_found)+
qed


text \<open>Claim C2. A block that \<open>alloc_ram\<close> finds is aligned, lies in free memory outside every
  avoided range, and is removed from the free memory; when there is none, \<open>NULL_PADDR\<close> is returned
  and nothing changes.\<close>

theorem alloc_ram_finds_block:
  assumes "ram_inv st" "k < 32" "alloc_ram st NULL_PADDR sz (2 ^ k) = Inr (st', a)"
  shows "(a = NULL_PADDR \<longrightarrow> st' = st) \<and>
         (a \<noteq> NULL_PADDR \<longrightarrow> 2 ^ k dvd unat a \<and>
            {unat a ..< unat a + unat sz} \<subseteq> ram_bytes (rm_ram st) - avoid_bytes (rm_avoids st) \<and>
            ram_bytes (rm_ram st') = ram_bytes (rm_ram st) - {unat a ..< unat a + unat sz})"
proof (cases "find_ram (rm_ram st) (rm_avoids st) sz (2 ^ k) 0 0 = NULL_PADDR")
  case True
  with assms(3) show ?thesis by (simp add: alloc_ram_def)
next
  case False
  then have "a \<noteq> NULL_PADDR"
    using assms(3) by (auto simp: alloc_ram_def alloc_ram_at_def Let_def bindf_Inr_iff split: if_splits)
  with alloc_ram_found [OF assms] show ?thesis by (simp add: ram_block_def)
qed

text \<open>Only the list of free memory and the address space change.\<close>

lemma alloc_ram_at_update:
  assumes "alloc_ram_at st addr sz = Inr (st', a)"
  obtains l ai where "st' = st\<lparr>rm_ram := l, rm_as := ai\<rparr>" "a = addr"
proof -
  obtain l where l: "(let st1 = st\<lparr>rm_ram := l\<rparr>
      in if rm_sysram_added st
         then bindf (alloc_sysram_all (rm_as st1) addr (addr + sz - 1)) (\<lambda>ai. Inr (st1\<lparr>rm_as := ai\<rparr>, addr))
         else Inr (st1, addr)) = Inr (st', a)"
    using assms unfolding alloc_ram_at_def Let_def bindf_Inr_iff by blast
  show thesis
  proof (cases "rm_sysram_added st")
    case True
    then obtain ai where "Inr (st\<lparr>rm_ram := l, rm_as := ai\<rparr>, addr) = (Inr (st', a) :: (ram_state \<times> u64) fallible)"
      using l unfolding Let_def if_P [OF True] bindf_Inr_iff by blast
    then show thesis using that by blast
  next
    case False
    then have e: "st' = st\<lparr>rm_ram := l\<rparr>" "a = addr" using l by (auto simp: Let_def)
    have "st' = st\<lparr>rm_ram := l, rm_as := rm_as st\<rparr>" unfolding e(1) by simp
    then show thesis using e(2) by (rule that)
  qed
qed

lemma alloc_ram_at_zeroed:
  assumes "alloc_ram_at st addr sz = Inr (st', a)"
  shows "a = addr" "rm_zeroed st' = rm_zeroed st" "secure_system st' = secure_system st"
  by (rule alloc_ram_at_update [OF assms]; simp; fail)+

lemma alloc_ram_clears:
  assumes "alloc_ram st NULL_PADDR sz align = Inr (st', a)" "a \<noteq> NULL_PADDR"
  shows "secure_system st' = secure_system st \<and>
         (secure_system st \<longrightarrow> (ucast (ucast a :: u32), sz) \<in> set (rm_zeroed st'))"
proof -
  let ?f = "find_ram (rm_ram st) (rm_avoids st) sz align 0 0"
  let ?st1 = "if secure_system st then st\<lparr>rm_zeroed := (ucast (ucast ?f :: u32), sz) # rm_zeroed st\<rparr> else st"
  have "?f \<noteq> NULL_PADDR" using assms by (auto simp: alloc_ram_def)
  then have "alloc_ram_at ?st1 ?f sz = Inr (st', a)" using assms(1) by (simp add: alloc_ram_def Let_def)
  from alloc_ram_at_zeroed [OF this] show ?thesis by (simp split: if_splits)
qed

text \<open>The block \<open>calloc_ram\<close> returns has been cleared, provided that it starts below 4 GB or
  the system is not a secure one (on a secure system \<open>alloc_ram\<close> clears it through a 32-bit
  address).\<close>

theorem calloc_ram_clears:
  assumes "calloc_ram st sz align = Inr (st', a)" "a \<noteq> NULL_PADDR" "secure_system st \<longrightarrow> unat a < 2 ^ 32"
  shows "(a, sz) \<in> set (rm_zeroed st')"
proof -
  obtain st1 b where al0: "alloc_ram st NULL_PADDR sz align = Inr (st1, b)"
    using assms(1) by (auto simp: calloc_ram_def bindf_Inr_iff)
  have ba: "b = a" using assms(1) al0 by (simp add: calloc_ram_def bindf_def split: if_splits)
  then have al: "alloc_ram st NULL_PADDR sz align = Inr (st1, a)" using al0 by simp
  have st': "secure_system st1 \<or> (a, sz) \<in> set (rm_zeroed st')" "secure_system st1 \<Longrightarrow> st' = st1"
    using assms(1,2) al by (cases "secure_system st1", auto simp: calloc_ram_def bindf_def)+
  note alloc_ram_clears [OF al assms(2)]
  moreover have "ucast (ucast a :: u32) = a" if "unat a < 2 ^ 32"
    using that by (simp add: word_unat_eq_iff unsigned_ucast_eq unsigned_take_bit_eq take_bit_nat_eq_self)
  ultimately show ?thesis using st' assms(3) by (auto split: if_splits)
qed

section \<open>Avoided ranges\<close>

definition avoid_ok :: "avoid_entry list \<Rightarrow> bool" where
  "avoid_ok av \<longleftrightarrow> list_all (\<lambda>a. av_start a \<le> av_end a \<and> av_end a \<noteq> 0) av"

lemma avoid_bytes_all:
  "avoid_ok av \<Longrightarrow> avoid_bytes av = (\<Union>a \<in> set av. {unat (av_start a) ..< unat (av_end a)})"
  by (induction av) (auto simp: avoid_ok_def)

lemma avoid_add_spec:
  assumes "avoid_ok av" "sz \<noteq> 0" "unat start + unat sz < 2 ^ 64" "avoid_add av start sz = Inr av'"
  shows "avoid_ok av' \<and> avoid_bytes av' = avoid_bytes av \<union> {unat start ..< unat start + unat sz}"
proof -
  have s: "unat (start + sz) = unat start + unat sz" using assms(3) by (simp add: unat_add_u64)
  have nz: "start + sz \<noteq> 0" using s assms(2) by (metis add_is_0 unat_0 unat_eq_zero)
  have le: "start \<le> start + sz" by (simp add: word_le_nat_alt s)
  show ?thesis
  proof (cases "av \<noteq> [] \<and> av_end (last av) = start")
    case True
    then obtain as a where av: "av = as @ [a]" "av_end a = start" by (cases av rule: rev_cases) auto
    then have av': "av' = as @ [a\<lparr>av_end := start + sz\<rparr>]"
      using assms(4) by (auto simp: avoid_add_def Let_def split: if_splits)
    have a: "av_start a \<le> start" using assms(1) av by (auto simp: avoid_ok_def)
    then have ok: "avoid_ok av'" using assms(1) av av' nz le by (auto simp: avoid_ok_def)
    moreover have "{unat (av_start a) ..< unat start} \<union> {unat start ..< unat start + unat sz} =
        {unat (av_start a) ..< unat start + unat sz}"
      using a by (intro ivl_disj_un_two) (simp_all add: word_le_nat_alt)
    ultimately show ?thesis using assms(1) av av' s by (auto simp: avoid_bytes_all)
  next
    case False
    then have av': "av' = av @ [\<lparr>av_start = start, av_end = start + sz\<rparr>]"
      using assms(4) by (auto simp: avoid_add_def Let_def split: if_splits)
    have "avoid_ok av'" using assms(1) av' nz le by (auto simp: avoid_ok_def)
    then show ?thesis using assms(1) av' s by (auto simp: avoid_bytes_all)
  qed
qed

text \<open>Once \<open>avoid_ram\<close> has been told of a range, no later search for memory
  (with the automatic address) returns a block that touches it, and earlier avoided ranges stay
  avoided.\<close>

theorem avoid_ram_respected:
  assumes "rm_avoid st = Some av" "avoid_ok av" "sz \<noteq> 0" "unat start + unat sz < 2 ^ 64"
    and "avoid_ram st start sz = Inr st1"
    and "ram_inv st1" "k < 32" "alloc_ram st1 NULL_PADDR n (2 ^ k) = Inr (st2, a)" "a \<noteq> NULL_PADDR"
  shows "{unat a ..< unat a + unat n} \<inter> ({unat start ..< unat start + unat sz} \<union> avoid_bytes av) = {}"
proof -
  obtain av' where av': "avoid_add av start sz = Inr av'" "rm_avoids st1 = av'"
    using assms(1,5) by (auto simp: avoid_ram_def ws_ready_def rm_avoids_def bindf_Inr_iff)
  from avoid_add_spec [OF assms(2-4) av'(1)] alloc_ram_found [OF assms(6-8)] assms(9) av'(2)
  show ?thesis by (auto simp: ram_block_def)
qed

section \<open>The \<open>sysram\<close> loop returns\<close>

text \<open>Entries behind the first \<open>n\<close> never meet the block: this is kept by the loop, so that it
  visits each of the first \<open>n\<close> entries at most once.\<close>

definition tail_clear :: "nat \<Rightarrow> u64 \<Rightarrow> u64 \<Rightarrow> asinfo \<Rightarrow> bool" where
  "tail_clear n addr end ai \<longleftrightarrow>
     (\<forall>j. n \<le> j \<and> j < length (ai_list ai) \<longrightarrow> end < as_start (ai_list ai ! j) \<and> as_start (ai_list ai ! j) \<le> as_end (ai_list ai ! j))"

lemma tail_clear_not_found:
  assumes "tail_clear n addr end ai" "addr \<le> end"
    and "as_find_containing ai off addr end container = Some j"
  shows "j < n"
proof (rule ccontr)
  assume "\<not> j < n"
  moreover have "j < length (ai_list ai)" using as_find_containing_next [OF assms(3)] by simp
  ultimately have c: "end < as_start (ai_list ai ! j)" "as_start (ai_list ai ! j) \<le> as_end (ai_list ai ! j)"
    using assms(1) by (auto simp: tail_clear_def)
  have "ranges_meet addr end (ai_list ai ! j)"
    using assms(3) as_scan_Some by (auto simp: as_find_containing_def)
  with c assms(2) show False by (auto simp: ranges_meet_def)
qed

lemma as_add_entry_nth:
  assumes "as_add_entry ai start end attr name owner = Inr (ai', off)" "j \<le> length (ai_list ai)"
  shows "length (ai_list ai') = Suc (length (ai_list ai))"
    and "as_start (ai_list ai' ! j) = (if j < length (ai_list ai) then as_start (ai_list ai ! j) else start)"
    and "as_end (ai_list ai' ! j) = (if j < length (ai_list ai) then as_end (ai_list ai ! j) else end)"
proof -
  have m: "map as_range_view (ai_list ai') = map as_range_view (ai_list ai) @ [(start, end, owner)]"
    by (rule as_add_entry_view [OF assms(1)])
  show len: "length (ai_list ai') = Suc (length (ai_list ai))" using arg_cong [OF m, of length] by simp
  have "as_range_view (ai_list ai' ! j) = map as_range_view (ai_list ai') ! j" using assms(2) len by simp
  also have "\<dots> = (if j < length (ai_list ai) then as_range_view (ai_list ai ! j) else (start, end, owner))"
    using assms(2) by (auto simp: m nth_append)
  finally show "as_start (ai_list ai' ! j) = (if j < length (ai_list ai) then as_start (ai_list ai ! j) else start)"
    "as_end (ai_list ai' ! j) = (if j < length (ai_list ai) then as_end (ai_list ai ! j) else end)"
    by (auto simp: as_range_view_def split: if_splits)
qed

lemma alloc_sysram_entry_tail:
  assumes "alloc_sysram_entry ai j addr end = Inr ai'" "tail_clear n addr end ai" "j < n" "n \<le> length (ai_list ai)"
    and "end \<noteq> NOT 0"
  shows "tail_clear n addr end ai' \<and> n \<le> length (ai_list ai')"
proof -
  let ?as = "ai_list ai ! j"
  let ?e = "if end > as_end ?as then end else as_end ?as"
  have keep: "tail_clear n addr end (ai\<lparr>ai_list := (ai_list ai)[j := x]\<rparr>)" for x
    using assms(2,3) by (auto simp: tail_clear_def)
  define ai1 where "ai1 = ai\<lparr>ai_list := (ai_list ai)[j := ?as\<lparr>as_end := addr - 1\<rparr>]\<rparr>"
  consider x where "ai' = ai\<lparr>ai_list := (ai_list ai)[j := x]\<rparr>"
    | m where "as_add_entry ai1 (end + 1) ?e AS_ATTR_RAM (cname ''sysram'') (as_owner ?as) = Inr (ai', m)" "?e \<noteq> end"
    using assms(1)
    by (auto simp: alloc_sysram_entry_def Let_def bindf_Inr_iff as_add_no_overlay AS_ATTR_RAM_def ai1_def
        split: if_splits)
  then show ?thesis
  proof cases
    case 1
    with keep assms(4) show ?thesis by simp
  next
    case 2
    have "end + 1 \<le> ?e" "end < end + 1"
      using 2(2) unat_succ [OF assms(5)] by (auto simp: word_le_nat_alt word_less_nat_alt word_unat_eq_iff split: if_splits)
    moreover note as_add_entry_nth [OF 2(1)]
    moreover have "tail_clear n addr end ai1" "length (ai_list ai1) = length (ai_list ai)"
      using keep by (simp_all add: ai1_def)
    ultimately show ?thesis using assms(4) by (auto simp: tail_clear_def less_Suc_eq_le)
  qed
qed

lemma alloc_sysram_enough:
  assumes "tail_clear n addr end ai" "n \<le> length (ai_list ai)" "addr \<le> end" "end \<noteq> NOT 0"
    and "n < fuel + (case off of None \<Rightarrow> 0 | Some i \<Rightarrow> Suc i)"
    and "case off of None \<Rightarrow> True | Some i \<Rightarrow> i < n"
  shows "\<exists>r. alloc_sysram fuel ai off addr end = Some r"
  using assms
proof (induction fuel ai off addr "end" rule: alloc_sysram.induct)
  case (1 ai off addr "end")
  then show ?case by (auto split: option.splits)
next
  case (2 fuel ai off addr "end")
  show ?case
  proof (cases "as_find_containing ai off addr end (cname ''sysram'')")
    case (Some j)
    have j: "j < n" by (rule tail_clear_not_found [OF "2.prems"(1,3) Some])
    have next_j: "n < fuel + Suc j" using "2.prems"(5) as_find_containing_next [OF Some] by (auto split: option.splits)
    show ?thesis
    proof (cases "alloc_sysram_entry ai j addr end")
      case (Inr ai')
      from alloc_sysram_entry_tail [OF Inr "2.prems"(1) j "2.prems"(2,4)]
      have "\<exists>r. alloc_sysram fuel ai' (Some j) addr end = Some r"
        using "2.IH" [OF Some Inr] "2.prems"(3,4) j next_j by simp
      with Some Inr show ?thesis by simp
    qed (simp add: Some)
  qed simp
qed

text \<open>Claim C10. The loop of \<open>alloc_ram\<close> that takes the block out of the \<open>sysram\<close> entries always
  returns, although it appends entries to the list it walks over: the pieces it appends lie behind
  the block.\<close>

theorem alloc_sysram_returns:
  assumes "addr \<le> end" "end \<noteq> NOT 0"
  shows "\<exists>r. alloc_sysram (Suc (length (ai_list ai))) ai None addr end = Some r"
  by (rule alloc_sysram_enough [of "length (ai_list ai)"]) (use assms in \<open>auto simp: tail_clear_def\<close>)

section \<open>Adding and reserving memory\<close>

text \<open>The fields that no operation of this file changes; the avoid list exists once RAM is added.\<close>

definition ram_frame :: "ram_state \<Rightarrow> ram_state \<Rightarrow> bool" where
  "ram_frame st st' \<longleftrightarrow> full_ram_paddr st' = full_ram_paddr st \<and> shdr_ram_size st' = shdr_ram_size st \<and>
     shdr_startup_size st' = shdr_startup_size st \<and> rm_watch_list st' = rm_watch_list st"

lemma avoid_ram_keeps:
  assumes "avoid_ram st start sz = Inr st'"
  shows "rm_avoid st' \<noteq> None \<and> ram_frame st st' \<and> rm_calls st' = rm_calls st \<and>
         rm_ram st' = (if rm_avoid st = None then [] else rm_ram st)"
  using assms
  by (auto simp: avoid_ram_def ws_ready_def ws_init_def Let_def bindf_Inr_iff ram_frame_def split: option.splits)

lemma alloc_ram_at_keeps:
  assumes "alloc_ram_at st addr sz = Inr (st', a)"
  shows "rm_avoid st' = rm_avoid st \<and> rm_calls st' = rm_calls st \<and> ram_frame st st'"
  by (rule alloc_ram_at_update [OF assms]) (simp add: ram_frame_def)

lemma place_syspage_keeps:
  assumes "place_syspage st = Inr st'" "rm_avoid st \<noteq> None"
  shows "rm_avoid st' \<noteq> None \<and> rm_ram st' = rm_ram st \<and> rm_calls st' = rm_calls st \<and> ram_frame st st'"
  using assms
  by (auto simp: place_syspage_def Let_def bindf_Inr_iff ram_frame_def split: if_splits dest: avoid_ram_keeps)

definition image_start :: "ram_state \<Rightarrow> u64" where
  "image_start st = full_ram_paddr st + ucast (shdr_startup_size st)"

definition image_size :: "ram_state \<Rightarrow> u64" where
  "image_size st = ucast (shdr_ram_size st - shdr_startup_size st)"

definition image_ok :: "ram_state \<Rightarrow> bool" where
  "image_ok st \<longleftrightarrow> image_start st \<noteq> NULL_PADDR \<and> unat (image_start st) + unat (image_size st) < 2 ^ 64"

definition image_bytes :: "ram_state \<Rightarrow> nat set" where
  "image_bytes st = {unat (image_start st) ..< unat (image_start st) + unat (image_size st)}"

lemma ram_frame_image:
  assumes "ram_frame st st'"
  shows "image_ok st' = image_ok st" "image_bytes st' = image_bytes st"
  using assms by (simp_all add: ram_frame_def image_ok_def image_bytes_def image_start_def image_size_def)

lemma ram_frame_trans: "ram_frame a b \<Longrightarrow> ram_frame b c \<Longrightarrow> ram_frame a c"
  by (simp add: ram_frame_def)

lemma add_ram_spec:
  assumes "ram_ok (rm_ram st)" "rm_avoid st \<noteq> None" "unat start + unat sz < 2 ^ 64" "image_ok st"
    and "add_ram st start sz = Inr st'"
  shows "ram_ok (rm_ram st') \<and> rm_avoid st' \<noteq> None \<and> ram_frame st st' \<and>
         ram_bytes (rm_ram st') =
           (ram_bytes (rm_ram st) \<union> {unat start ..< unat start + unat sz}) - image_bytes st \<and>
         rm_calls st' = rm_calls st @ map (\<lambda>w. (w, start, sz)) (rm_watch_list st)"
proof -
  obtain ai l st4 a st5 where l: "add_mem start sz (rm_ram st) = Inr l"
    and al: "alloc_ram (st\<lparr>rm_as := ai, rm_ram := l\<rparr>) (image_start st) (image_size st) 1 = Inr (st4, a)"
    and sp: "place_syspage st4 = Inr st5" and st': "st' = call_watchers st5 start sz"
    using assms(5) unfolding image_start_def image_size_def
    by (fastforce simp: add_ram_def bindf_Inr_iff Let_def split: if_splits)
  let ?st3 = "st\<lparr>rm_as := ai, rm_ram := l\<rparr>"
  have at: "alloc_ram_at ?st3 (image_start st) (image_size st) = Inr (st4, a)"
    using al assms(4) by (simp add: alloc_ram_def image_ok_def)
  from add_mem_spec [OF assms(1,3) l]
  have l_ok: "ram_ok l" "ram_bytes l = ram_bytes (rm_ram st) \<union> {unat start ..< unat start + unat sz}" by auto
  from alloc_ram_at_spec [OF _ _ at] l_ok assms(4)
  have b4: "ram_ok (rm_ram st4)" "ram_bytes (rm_ram st4) = ram_bytes l - image_bytes st"
    by (auto simp: image_ok_def image_bytes_def)
  have k4: "rm_avoid st4 \<noteq> None" "rm_calls st4 = rm_calls st" "ram_frame st st4"
    using alloc_ram_at_keeps [OF at] assms(2) by (simp_all add: ram_frame_def)
  from place_syspage_keeps [OF sp k4(1)] k4 b4 l_ok st' show ?thesis
    by (simp add: call_watchers_def ram_frame_def)
qed

text \<open>\<open>add_ram\<close> makes the new range free memory, except for the part that holds the boot
  image (the bytes of \<open>full_ram_paddr\<close> from the startup program's end up to \<open>ram_size\<close>), keeps the
  list well formed, and tells every watcher once.\<close>

theorem add_ram_free_memory:
  assumes "ram_ok (rm_ram st)" "rm_avoid st \<noteq> None" "unat start + unat sz < 2 ^ 64" "image_ok st"
    and "add_ram st start sz = Inr st'"
  shows "ram_ok (rm_ram st') \<and>
         ram_bytes (rm_ram st') =
           (ram_bytes (rm_ram st) \<union> {unat start ..< unat start + unat sz}) - image_bytes st \<and>
         rm_calls st' = rm_calls st @ map (\<lambda>w. (w, start, sz)) (rm_watch_list st)"
  using add_ram_spec [OF assms] by blast

lemma find_top_ram_aligned_spec:
  assumes "ram_ok l" "p < 32" "find_top_ram_aligned l av (ucast (sz :: u32)) align (2 ^ p) = a" "a \<noteq> NULL_PADDR"
  shows "{unat a ..< unat a + unat sz} \<subseteq> ram_bytes l - avoid_bytes av \<and> unat a + unat sz < 2 ^ 64"
proof -
  let ?lim = "NOT 0 :: u64"
  let ?sz = "ROUND (ucast sz :: u64) (ucast (2 ^ p :: u32))"
  have lim: "unat ?lim = 2 ^ 64 - 1" by (simp add: unsigned_minus_1_eq_mask mask_eq_exp_minus_1)
  have "unat (ucast sz :: u64) = unat sz" by (rule unat_ucast_u32_u64)
  moreover have small: "unat sz < 2 ^ 32" using unsigned_less [of sz] by simp
  moreover have "(2::nat) ^ p < 2 ^ 32" using assms(2) by (intro power_strict_increasing) simp_all
  moreover have wide: "(2::nat) ^ 32 + 2 ^ 32 < 2 ^ 64" by simp
  ultimately have "unat (ucast sz :: u64) + 2 ^ p < 2 ^ 64" by linarith
  with assms(2) have r: "unat sz \<le> unat ?sz" "unat ?sz < unat sz + 2 ^ p"
    using round_pow2_ge [of p "ucast sz :: u64"] round_pow2_lt [of p "ucast sz :: u64"]
    by (simp_all add: ucast_pow2 unat_ucast_u32_u64)
  then have "unat ?sz \<le> unat ?lim" using small \<open>(2::nat) ^ p < 2 ^ 32\<close> lim wide by linarith
  moreover have "find_top_loop av ?sz (ucast align) ?lim 0 l = a" "a \<noteq> 0"
    using assms(3,4) by (auto simp: find_top_ram_aligned_def find_top_ram_aligned_limit_def Let_def split: if_splits)
  ultimately have "{unat a ..< unat a + unat ?sz} \<subseteq> ram_bytes l - avoid_bytes av" "unat a + unat ?sz \<le> unat ?lim"
    using find_top_loop_spec [OF assms(1)] by blast+
  with r lim show ?thesis by fastforce
qed

text \<open>\<open>reserve_ram\<close> takes the block from the top of the free memory: it lies in free
  memory outside the avoided ranges, and afterwards exactly this block is no longer free.\<close>

theorem reserve_ram_takes_free_block:
  assumes "ram_inv st" "p < 32" "sz \<noteq> 0" "reserve_ram st sz align name (2 ^ p) 0 = Inr st'"
  shows "\<exists>a. {unat a ..< unat a + unat sz} \<subseteq> ram_bytes (rm_ram st) - avoid_bytes (rm_avoids st) \<and>
             ram_bytes (rm_ram st') = ram_bytes (rm_ram st) - {unat (a :: u64) ..< unat a + unat sz} \<and>
             ram_ok (rm_ram st')"
proof -
  define al where "al = (if align \<noteq> 0 then align else 2 ^ p)"
  define a where "a = find_top_ram_aligned (rm_ram st) (rm_avoids st) (ucast sz) al (2 ^ p)"
  obtain st1 r where nn: "a \<noteq> NULL_PADDR" and al1: "alloc_ram st a (ucast sz) al = Inr (st1, r)"
    and st': "rm_ram st' = rm_ram st1"
    using assms(3,4) by (auto simp: reserve_ram_def Let_def bindf_Inr_iff a_def al_def split: if_splits)
  have ok: "ram_ok (rm_ram st)" using assms(1) by (simp add: ram_inv_def)
  have f: "{unat a ..< unat a + unat sz} \<subseteq> ram_bytes (rm_ram st) - avoid_bytes (rm_avoids st)" "unat a + unat sz < 2 ^ 64"
    using find_top_ram_aligned_spec [OF ok assms(2) a_def [symmetric] nn] by auto
  have "alloc_ram_at st a (ucast sz) = Inr (st1, r)" using al1 nn by (simp add: alloc_ram_def)
  from alloc_ram_at_spec [OF ok _ this] f st' show ?thesis by (auto simp: unat_ucast_u32_u64)
qed

text \<open>The board: what \<open>bcm2712_init_raminfo\<close> adds, by the size that the revision word reports.\<close>

definition board_bytes :: "u64 \<Rightarrow> nat set" where
  "board_bytes ramsize =
     (if ramsize \<ge> GIG 4
      then {0 ..< 0xfc000000} \<union> (if ramsize \<ge> GIG 8 then {0x100000000 ..< 0x200000000} else {}) \<union>
           (if ramsize \<ge> GIG 16 then {0x200000000 ..< 0x400000000} else {})
      else {0 ..< unat ramsize})"

lemma add_board_ram_spec:
  assumes "rm_ram st = []" "rm_avoid st \<noteq> None" "image_ok st" "add_board_ram st ramsize = Inr st'"
  shows "ram_ok (rm_ram st') \<and> ram_bytes (rm_ram st') = board_bytes ramsize - image_bytes st"
proof (cases "ramsize \<ge> GIG 4")
  case False
  with assms(4) have "add_ram st 0 ramsize = Inr st'" by (simp add: add_board_ram_def)
  from add_ram_spec [OF _ assms(2) _ assms(3) this] assms(1) False show ?thesis
    by (simp add: board_bytes_def ram_ok_def)
next
  case True
  define P where "P X s \<longleftrightarrow> ram_ok (rm_ram s) \<and> rm_avoid s \<noteq> None \<and> ram_frame st s \<and>
    ram_bytes (rm_ram s) = X - image_bytes st" for X s
  have step: "P (X \<union> {unat a ..< unat a + unat n}) s'"
    if "P X s" "unat a + unat n < 2 ^ 64" "add_ram s a n = Inr s'" for X s s' a n
    using add_ram_spec [of s a n s'] that assms(3) ram_frame_image [of st s] ram_frame_trans [of st s s']
    by (auto simp: P_def)
  obtain st1 st2 where s1: "add_ram st 0 (GIG 4 - MEG 64) = Inr st1"
    and s2: "(if ramsize \<ge> GIG 8 then add_ram st1 0x100000000 (GIG 4) else Inr st1) = Inr st2"
    and s3: "(if ramsize \<ge> GIG 16 then add_ram st2 0x200000000 (GIG 8) else Inr st2) = Inr st'"
    using assms(4) True by (auto simp: add_board_ram_def bindf_Inr_iff)
  have P1: "P {0 ..< 0xfc000000} st1"
    using step [of "{}" st, OF _ _ s1] assms(1,2) by (simp add: P_def ram_ok_def ram_frame_def GIG_def MEG_def)
  have P2: "P ({0 ..< 0xfc000000} \<union> (if ramsize \<ge> GIG 8 then {0x100000000 ..< 0x200000000} else {})) st2"
    using step [OF P1, of "0x100000000" "GIG 4" st2] s2 P1 by (simp add: GIG_def split: if_splits)
  have "P (board_bytes ramsize) st'"
    using step [OF P2, of "0x200000000" "GIG 8" st'] s3 P2 True
    by (simp add: GIG_def board_bytes_def split: if_splits)
  then show ?thesis by (simp add: P_def)
qed

lemma get_memory_size_range: "get_memory_size r \<in> {0, 256, 512, 1024, 2048, 4096, 8192, 16384}"
proof -
  have "table_or xs d i \<in> insert d (set xs)" for xs :: "u32 list" and d i by (simp add: table_or_def)
  then show ?thesis unfolding get_memory_size_def by fastforce
qed


end
