(* ===== verification/Ram_Witness.thy ===== *)
theory Ram_Witness
  imports Ram
begin

text \<open>
  A concrete machine for the theorems of \<open>Ram\<close>: their hypotheses hold there, and the operations are
  evaluated on it.
\<close>

text \<open>A small state at which the hypotheses of the theorems hold: a system page as
  \<open>init_syspage_memory\<close> leaves it, one root entry, one page of RAM whose start is avoided.\<close>

definition demo_sp :: syspage where
  "demo_sp = \<lparr>sp_base = 16, sp_mem = replicate 40 0, sp_total_size = 40, sp_max_size = 65536,
     sp_sects = [\<lparr>sect_p = 16, sect_size = 8\<rparr>, \<lparr>sect_p = 56, sect_size = 0\<rparr>, \<lparr>sect_p = 56, sect_size = 0\<rparr>,
       \<lparr>sect_p = 48, sect_size = 8\<rparr>, \<lparr>sect_p = 56, sect_size = 0\<rparr>, \<lparr>sect_p = 56, sect_size = 0\<rparr>,
       \<lparr>sect_p = 56, sect_size = 0\<rparr>, \<lparr>sect_p = 24, sect_size = 8\<rparr>, \<lparr>sect_p = 32, sect_size = 8\<rparr>,
       \<lparr>sect_p = 40, sect_size = 8\<rparr>, \<lparr>sect_p = 56, sect_size = 0\<rparr>, \<lparr>sect_p = 56, sect_size = 0\<rparr>,
       \<lparr>sect_p = 56, sect_size = 0\<rparr>, \<lparr>sect_p = 56, sect_size = 0\<rparr>, \<lparr>sect_p = 56, sect_size = 0\<rparr>,
       \<lparr>sect_p = 56, sect_size = 0\<rparr>, \<lparr>sect_p = 56, sect_size = 0\<rparr>],
     sp_patch = [], sp_fixed_size = 16\<rparr>"

definition demo_as :: asinfo where
  "demo_as = \<lparr>ai_sp = demo_sp,
     ai_list = [\<lparr>as_start = 0, as_end = 0xffffffffff, as_owner = None, as_name = 0, as_attr = 0, as_priority = 0\<rparr>],
     AS_ATTR_KIDS = 0x20, AS_ATTR_CONTINUED = 0x10, AS_PRIORITY_DEFAULT = 100, sizeof_asinfo_entry = 0x20\<rparr>"

definition demo_avoid :: "avoid_entry list" where
  "demo_avoid = [\<lparr>av_start = 0x1000, av_end = 0x1100\<rparr>]"

definition demo_ram :: ram_state where
  "demo_ram = \<lparr>rm_ram = [\<lparr>ram_addr = 0x1000, ram_size = 0x1000\<rparr>], rm_avoid = Some demo_avoid,
     rm_ws_early_next = 0, rm_temp_syspage = 0x7000, rm_sysram_added = False, rm_watch_list = [7], rm_calls = [],
     rm_zeroed = [], rm_as = demo_as, full_ram_paddr = 0x80000, shdr_ram_size = 0x3000, shdr_startup_size = 0x1000,
     secure_system = True, rm_pagesize = 0x1000, id_aa64mmfr0 = 2\<rparr>"

lemma demo_inv: "ram_inv demo_ram" "ram_ok (rm_ram demo_ram)" "avoid_ok demo_avoid" "rm_avoid demo_ram = Some demo_avoid"
  by (simp_all add: demo_ram_def demo_avoid_def avoid_ok_def ram_inv_def ram_ok_def ram_entry_ok_def ram_below_top_def)

definition demo_ram1 :: ram_state where
  "demo_ram1 = demo_ram\<lparr>rm_ram := [\<lparr>ram_addr = 0x1000, ram_size = 0x100\<rparr>, \<lparr>ram_addr = 0x1200, ram_size = 0xe00\<rparr>],
     rm_zeroed := [(0x1100, 0x100)]\<rparr>"

lemma demo_alloc: "alloc_ram demo_ram NULL_PADDR 0x100 (2 ^ 4) = Inr (demo_ram1, 0x1100)"
  by code_simp

lemma demo_run: "alloc_run ram_alloc demo_ram [ram_block 0x1100 0x100] demo_ram1"
  by (rule alloc_run.step [OF alloc_run.start, where q = "(0x100, 4)"])
     (use demo_alloc in \<open>auto simp: ram_alloc_def\<close>)


theorem alloc_ram_finds_block_witness:
  "{unat (0x1100 :: u64) ..< unat (0x1100 :: u64) + unat (0x100 :: u64)} \<subseteq>
     ram_bytes (rm_ram demo_ram) - avoid_bytes (rm_avoids demo_ram)"
  using alloc_ram_finds_block [OF demo_inv(1) _ demo_alloc] by (simp add: NULL_PADDR_def)

lemma demo_avoid_ram:
  "avoid_ram demo_ram 0x1100 0x80 = Inr (demo_ram\<lparr>rm_avoid := Some [\<lparr>av_start = 0x1000, av_end = 0x1180\<rparr>]\<rparr>)"
  by code_simp

theorem calloc_ram_clears_witness:
  "\<exists>st'. calloc_ram demo_ram 0x100 (2 ^ 4) = Inr (st', 0x1100) \<and> (0x1100, 0x100) \<in> set (rm_zeroed st')"
proof -
  have "calloc_ram demo_ram 0x100 (2 ^ 4) = Inr (demo_ram1, 0x1100)"
    using demo_alloc by (simp add: calloc_ram_def demo_ram1_def demo_ram_def)
  from calloc_ram_clears [OF this] this show ?thesis by (simp add: NULL_PADDR_def)
qed

text \<open>On a secure system a block that \<open>calloc_ram\<close> finds above 4 GB is returned uncleared:
  \<open>alloc_ram\<close> clears the memory at the truncated address in its place.\<close>

theorem secure_calloc_above_4G:
  "map_sum id (\<lambda>(st, a). (a, rm_zeroed st))
     (calloc_ram (demo_ram\<lparr>rm_ram := [\<lparr>ram_addr = 0x100000000, ram_size = 0x1000\<rparr>]\<rparr>) 0x100 (2 ^ 4)) =
   Inr (0x100000000, [(0, 0x100)])"
  by code_simp

theorem avoid_ram_respected_witness:
  "\<exists>st1 st2 a. avoid_ram demo_ram 0x1100 0x80 = Inr st1 \<and> alloc_ram st1 NULL_PADDR 0x100 (2 ^ 4) = Inr (st2, a) \<and>
     {unat a ..< unat a + unat (0x100 :: u64)} \<inter> ({0x1100 ..< 0x1180} \<union> avoid_bytes demo_avoid) = {}"
proof -
  let ?st1 = "demo_ram\<lparr>rm_avoid := Some [\<lparr>av_start = 0x1000, av_end = 0x1180\<rparr>]\<rparr>"
  obtain st2 where al: "alloc_ram ?st1 NULL_PADDR 0x100 (2 ^ 4) = Inr (st2, 0x1180)"
  proof
    show "alloc_ram ?st1 NULL_PADDR 0x100 (2 ^ 4) =
      Inr (?st1\<lparr>rm_ram := [\<lparr>ram_addr = 0x1000, ram_size = 0x180\<rparr>, \<lparr>ram_addr = 0x1280, ram_size = 0xd80\<rparr>],
                 rm_zeroed := [(0x1180, 0x100)]\<rparr>, 0x1180)"
      by code_simp
  qed
  have "ram_inv ?st1" using demo_inv(1) by (simp add: ram_inv_def)
  from avoid_ram_respected [OF demo_inv(4,3) _ _ demo_avoid_ram this _ al] al demo_avoid_ram
  show ?thesis by (intro exI [of _ ?st1] exI [of _ st2] exI [of _ "0x1180"]) (simp add: NULL_PADDR_def)
qed

theorem alloc_sysram_returns_witness:
  "\<exists>r. alloc_sysram (Suc (length (ai_list demo_as))) demo_as None 0x1000 0x1fff = Some r"
  by (rule alloc_sysram_returns) simp_all

theorem add_ram_free_memory_witness:
  "\<exists>st'. add_ram demo_ram 0 0x10000000 = Inr st' \<and>
     ram_bytes (rm_ram st') = {0 ..< 0x10000000} - {0x81000 ..< 0x83000} \<and> rm_calls st' = [(7, 0, 0x10000000)]"
proof -
  have "\<not> isl (add_ram demo_ram 0 0x10000000)" by code_simp
  then obtain st' where st': "add_ram demo_ram 0 0x10000000 = Inr st'" by (cases "add_ram demo_ram 0 0x10000000") auto
  have "ram_bytes (rm_ram st') = ({0x1000 ..< 0x2000} \<union> {0 ..< 0x10000000}) - {0x81000 ..< 0x83000}"
    "rm_calls st' = [(7, 0, 0x10000000)]"
    using add_ram_free_memory [OF demo_inv(2) _ _ _ st']
    by (simp_all add: demo_ram_def image_ok_def image_bytes_def image_start_def image_size_def NULL_PADDR_def)
  moreover have "{0x1000 ..< 0x2000} \<union> {0 ..< 0x10000000} = {0 ..< (0x10000000 :: nat)}" by auto
  ultimately show ?thesis using st' by simp
qed

theorem reserve_ram_takes_free_block_witness:
  "\<exists>st'. reserve_ram demo_ram 0x100 0 [] (2 ^ 8) 0 = Inr st' \<and>
     ram_bytes (rm_ram st') \<subset> ram_bytes (rm_ram demo_ram)"
proof -
  have "\<not> isl (reserve_ram demo_ram 0x100 0 [] (2 ^ 8) 0)" by code_simp
  then obtain st' where st': "reserve_ram demo_ram 0x100 0 [] (2 ^ 8) 0 = Inr st'"
    by (cases "reserve_ram demo_ram 0x100 0 [] (2 ^ 8) 0") auto
  then obtain a where a: "{unat a ..< unat (a :: u64) + 0x100} \<subseteq> ram_bytes (rm_ram demo_ram)"
    "ram_bytes (rm_ram st') = ram_bytes (rm_ram demo_ram) - {unat a ..< unat a + 0x100}"
    using reserve_ram_takes_free_block [OF demo_inv(1) _ _ st'] by auto
  then have "unat a \<in> ram_bytes (rm_ram demo_ram)" "unat a \<notin> ram_bytes (rm_ram st')" by auto
  with a st' show ?thesis by blast
qed

definition demo_board :: ram_state where
  "demo_board = demo_ram\<lparr>rm_ram := [], rm_avoid := None\<rparr>"


end
