(* ===== verification/Mmio.thy ===== *)
theory Mmio
  imports Prelude
begin

text \<open>
  Memory-mapped I/O as the drivers see it. A driver's state extends \<open>bus\<close>, the log of all register
  accesses so far, newest first. A device is a function of that log: what a register reads depends
  on everything that happened on the bus before. Nothing else is assumed of a device here; what a
  driver relies on is a hypothesis of the theorem that needs it.
\<close>

datatype io = RD u32 u32 | WR u32 u32

type_synonym device = "io list \<Rightarrow> u32 \<Rightarrow> u32"

record bus =
  iolog :: "io list"

definition mmio_read :: "device \<Rightarrow> u32 \<Rightarrow> 'a bus_scheme \<Rightarrow> 'a bus_scheme \<times> u32" where
  "mmio_read hw r s = (let v = hw (iolog s) r in (s\<lparr>iolog := RD r v # iolog s\<rparr>, v))"

definition mmio_write :: "u32 \<Rightarrow> u32 \<Rightarrow> 'a bus_scheme \<Rightarrow> 'a bus_scheme" where
  "mmio_write r v s = s\<lparr>iolog := WR r v # iolog s\<rparr>"

text \<open>The values written to and read from a register, oldest first.\<close>

fun writes_of :: "u32 \<Rightarrow> io list \<Rightarrow> u32 list" where
  "writes_of r [] = []"
| "writes_of r (RD _ _ # l) = writes_of r l"
| "writes_of r (WR r' v # l) = writes_of r l @ (if r' = r then [v] else [])"

fun reads_of :: "u32 \<Rightarrow> io list \<Rightarrow> u32 list" where
  "reads_of r [] = []"
| "reads_of r (WR _ _ # l) = reads_of r l"
| "reads_of r (RD r' v # l) = reads_of r l @ (if r' = r then [v] else [])"

lemma writes_of_append [simp]: "writes_of r (a @ b) = writes_of r b @ writes_of r a"
proof (induction a)
  case (Cons x a)
  then show ?case by (cases x) auto
qed simp

lemma reads_of_append [simp]: "reads_of r (a @ b) = reads_of r b @ reads_of r a"
proof (induction a)
  case (Cons x a)
  then show ?case by (cases x) auto
qed simp

lemma mmio_read_simps [simp]:
  "fst (mmio_read hw r s) = s\<lparr>iolog := RD r (hw (iolog s) r) # iolog s\<rparr>"
  "snd (mmio_read hw r s) = hw (iolog s) r"
  by (simp_all add: mmio_read_def Let_def)

lemma mmio_log [io_simps]:
  "iolog (mmio_write r v s) = WR r v # iolog s"
  by (simp add: mmio_write_def)

lemma mmio_more [io_simps]:
  "bus.more (mmio_write r v s) = bus.more s"
  by (simp add: mmio_write_def)

end
