(* ===== verification/Clib.thy ===== *)
theory Clib
  imports Prelude
begin

text \<open>
  The parts of the C library that the option parsers use: \<open>strtoul\<close> with base 0, and \<open>getsubopt\<close>.
  Strings are lists of characters without the terminating zero.
\<close>

section \<open>\<open>strtoul\<close>\<close>

definition is_space :: "char \<Rightarrow> bool" where
  "is_space c \<longleftrightarrow> c \<in> {CHR '' '', CHR 0x09, CHR 0x0A, CHR 0x0B, CHR 0x0C, CHR 0x0D}"

text \<open>The value of a digit in any base up to 16; 16 for a character that is none.\<close>

definition digit_val :: "char \<Rightarrow> nat" where
  "digit_val c =
     (let n = of_char c :: nat
      in if 48 \<le> n \<and> n \<le> 57 then n - 48
         else if 97 \<le> n \<and> n \<le> 102 then n - 87
         else if 65 \<le> n \<and> n \<le> 70 then n - 55
         else 16)"

fun digits :: "nat \<Rightarrow> nat \<Rightarrow> string \<Rightarrow> nat \<times> string" where
  "digits base acc [] = (acc, [])"
| "digits base acc (c # cs) = (if digit_val c < base then digits base (acc * base + digit_val c) cs else (acc, c # cs))"

text \<open>The base that base 0 selects, and the digits.\<close>

definition auto_base :: "string \<Rightarrow> nat \<times> string" where
  "auto_base s =
     (case s of
        z # x # d # cs \<Rightarrow>
          if z = CHR ''0'' \<and> (x = CHR ''x'' \<or> x = CHR ''X'') \<and> digit_val d < 16 then (16, d # cs)
          else if z = CHR ''0'' then (8, s) else (10, s)
      | z # cs \<Rightarrow> if z = CHR ''0'' then (8, s) else (10, s)
      | [] \<Rightarrow> (10, s))"

text \<open>The value, the rest of the string and whether \<open>errno\<close> is set to \<open>ERANGE\<close>. Without digits the
  value is zero and nothing is consumed.\<close>

definition strtoul0 :: "string \<Rightarrow> u64 \<times> string \<times> bool" where
  "strtoul0 s =
     (let s1 = dropWhile is_space s;
          (neg, s2) = (case s1 of c # cs \<Rightarrow> if c = CHR ''-'' then (True, cs)
                                            else if c = CHR ''+'' then (False, cs) else (False, s1)
                       | [] \<Rightarrow> (False, s1));
          (base, s3) = auto_base s2;
          (v, rest) = digits base 0 s3
      in if rest = s3 then (0, s, False)
         else if v \<ge> 2 ^ 64 then (- 1, rest, True)
         else ((if neg then - of_nat v else of_nat v), rest, False))"

section \<open>\<open>getsubopt\<close>\<close>

text \<open>The next suboption: its name, its value if it has one, and the rest behind the comma.\<close>

definition subopt_split :: "string \<Rightarrow> string \<times> string option \<times> string" where
  "subopt_split s =
     (let tok = takeWhile (\<lambda>c. c \<noteq> CHR '','') s;
          rest = drop (length tok + 1) s;
          nm = takeWhile (\<lambda>c. c \<noteq> CHR ''='') tok
      in (nm, if length nm < length tok then Some (drop (length nm + 1) tok) else None, rest))"

lemma subopt_split_shorter: "s \<noteq> [] \<Longrightarrow> length (snd (snd (subopt_split s))) < length s"
  by (simp add: subopt_split_def Let_def)

text \<open>All suboptions, as repeated calls return them.\<close>

function subopts :: "string \<Rightarrow> (string \<times> string option) list" where
  "subopts s = (if s = [] then [] else let (nm, v, rest) = subopt_split s in (nm, v) # subopts rest)"
  by pat_completeness auto
termination
  by (relation "measure length") (auto, metis snd_conv subopt_split_shorter)

declare subopts.simps [simp del]

section \<open>\<open>getopt\<close>\<close>

text \<open>
  The outcomes of a call of \<open>getopt\<close>: an option with its argument, an unknown one (\<open>'?'\<close>) with
  \<open>optopt\<close>, a missing argument (\<open>':'\<close>), or the end of the options (\<open>-1\<close>), with whether \<open>optind\<close> was
  moved and with \<open>argv[optind]\<close>. A parser is a function of the list of outcomes.
\<close>

datatype getopt_ev = GOpt char string | GUnknown char | GMissing | GEnd bool "string option"

text \<open>The scan itself, for a parser that goes on behind the options: the outcomes up to the first
  argument that is no option, and the arguments from there on. The first argument is the list of
  option letters, each followed by a colon if it takes an argument.\<close>

fun opt_kind :: "string \<Rightarrow> char \<Rightarrow> bool option" where
  "opt_kind [] c = None"
| "opt_kind (o1 # os) c =
     (if o1 = c \<and> c \<noteq> CHR '':'' then Some (os \<noteq> [] \<and> hd os = CHR '':'') else opt_kind os c)"

function (sequential) getopt_scan :: "string \<Rightarrow> string \<Rightarrow> string list \<Rightarrow> getopt_ev list \<times> string list" where
  "getopt_scan opts (c # cs) args =
     (case opt_kind opts c of
        None \<Rightarrow> let r = getopt_scan opts cs args in (GUnknown c # fst r, snd r)
      | Some False \<Rightarrow> let r = getopt_scan opts cs args in (GOpt c [] # fst r, snd r)
      | Some True \<Rightarrow>
          if cs \<noteq> [] then let r = getopt_scan opts [] args in (GOpt c cs # fst r, snd r)
          else case args of [] \<Rightarrow> ([GUnknown c], [])
               | a # rest \<Rightarrow> let r = getopt_scan opts [] rest in (GOpt c a # fst r, snd r))"
| "getopt_scan opts [] [] = ([], [])"
| "getopt_scan opts [] (a # rest) =
     (if a = [CHR ''-'', CHR ''-''] then ([], rest)
      else if a = [] \<or> hd a \<noteq> CHR ''-'' \<or> a = [CHR ''-''] then ([], a # rest)
      else getopt_scan opts (tl a) rest)"
  by pat_completeness auto
termination
  by (relation "measure (\<lambda>(opts, cur, args). length cur + sum_list (map (\<lambda>a. Suc (length a)) args))") auto

section \<open>\<open>strtoul\<close> with base 16\<close>

definition hex_prefix :: "string \<Rightarrow> string" where
  "hex_prefix s =
     (case s of
        z # x # d # cs \<Rightarrow>
          if z = CHR ''0'' \<and> (x = CHR ''x'' \<or> x = CHR ''X'') \<and> digit_val d < 16 then d # cs else s
      | _ \<Rightarrow> s)"

definition strtoul16 :: "string \<Rightarrow> u64 \<times> string \<times> bool" where
  "strtoul16 s =
     (let s1 = dropWhile is_space s;
          (neg, s2) = (case s1 of c # cs \<Rightarrow> if c = CHR ''-'' then (True, cs)
                                            else if c = CHR ''+'' then (False, cs) else (False, s1)
                       | [] \<Rightarrow> (False, s1));
          s3 = hex_prefix s2;
          (v, rest) = digits 16 0 s3
      in if rest = s3 then (0, s, False)
         else if v \<ge> 2 ^ 64 then (- 1, rest, True)
         else ((if neg then - of_nat v else of_nat v), rest, False))"

end
