(* ===== verification/I2c.thy ===== *)
theory I2c
  imports Mmio Clib
begin

text \<open>
  The driver for the DesignWare I2C controller, \<open>i2c/dwc\<close>: adapter control, timing registers,
  the interrupt service routine that feeds the command FIFO and drains the receive FIFO, and the
  transactions built on it.

  \<^item> \<open>dwc_dev\<close> is \<open>dwc_dev_t\<close> on top of the log of register accesses. \<open>txbuf\<close> is the list of
    bytes from the moving transmit pointer on and \<open>rxbuf\<close> the bytes stored through the moving
    receive pointer since the transaction began.
  \<^item> The \<open>I2C_STATUS_*\<close> codes come from a system header, so they are a record that no operation
    changes. Return codes \<open>0\<close> and \<open>-ETIMEDOUT\<close> are \<open>True\<close> and \<open>False\<close>.
  \<^item> \<open>InterruptWait\<close> is outside: the outcomes of the waits are an argument, \<open>True\<close> for an interrupt
    and \<open>False\<close> for a time-out. Sleeping, logging and unmasking the interrupt have no effect on
    the modelled state.
\<close>

section \<open>Registers\<close>

abbreviation (input) DW_IC_CON :: u32 where "DW_IC_CON \<equiv> 0x00"
abbreviation (input) DW_IC_TAR :: u32 where "DW_IC_TAR \<equiv> 0x04"
abbreviation (input) DW_IC_DATA_CMD :: u32 where "DW_IC_DATA_CMD \<equiv> 0x10"
abbreviation (input) DW_IC_SS_SCL_HCNT :: u32 where "DW_IC_SS_SCL_HCNT \<equiv> 0x14"
abbreviation (input) DW_IC_SS_SCL_LCNT :: u32 where "DW_IC_SS_SCL_LCNT \<equiv> 0x18"
abbreviation (input) DW_IC_FS_SCL_HCNT :: u32 where "DW_IC_FS_SCL_HCNT \<equiv> 0x1c"
abbreviation (input) DW_IC_FS_SCL_LCNT :: u32 where "DW_IC_FS_SCL_LCNT \<equiv> 0x20"
abbreviation (input) DW_IC_INTR_STAT :: u32 where "DW_IC_INTR_STAT \<equiv> 0x2c"
abbreviation (input) DW_IC_INTR_MASK :: u32 where "DW_IC_INTR_MASK \<equiv> 0x30"
abbreviation (input) DW_IC_RX_TL :: u32 where "DW_IC_RX_TL \<equiv> 0x38"
abbreviation (input) DW_IC_TX_TL :: u32 where "DW_IC_TX_TL \<equiv> 0x3c"
abbreviation (input) DW_IC_CLR_INTR :: u32 where "DW_IC_CLR_INTR \<equiv> 0x40"
abbreviation (input) DW_IC_CLR_TX_ABRT :: u32 where "DW_IC_CLR_TX_ABRT \<equiv> 0x54"
abbreviation (input) DW_IC_CLR_STOP_DET :: u32 where "DW_IC_CLR_STOP_DET \<equiv> 0x60"
abbreviation (input) DW_IC_ENABLE :: u32 where "DW_IC_ENABLE \<equiv> 0x6c"
abbreviation (input) DW_IC_STATUS :: u32 where "DW_IC_STATUS \<equiv> 0x70"
abbreviation (input) DW_IC_RXFLR :: u32 where "DW_IC_RXFLR \<equiv> 0x78"
abbreviation (input) DW_IC_SDA_HOLD :: u32 where "DW_IC_SDA_HOLD \<equiv> 0x7c"
abbreviation (input) DW_IC_TX_ABRT_SOURCE :: u32 where "DW_IC_TX_ABRT_SOURCE \<equiv> 0x80"
abbreviation (input) DW_IC_ENABLE_STATUS :: u32 where "DW_IC_ENABLE_STATUS \<equiv> 0x9c"
abbreviation (input) DW_IC_COMP_PARAM_1 :: u32 where "DW_IC_COMP_PARAM_1 \<equiv> 0xf4"
abbreviation (input) DW_IC_COMP_VERSION :: u32 where "DW_IC_COMP_VERSION \<equiv> 0xf8"
abbreviation (input) DW_IC_COMP_TYPE :: u32 where "DW_IC_COMP_TYPE \<equiv> 0xfc"
abbreviation (input) DW_IC_SOFT_RESET :: u32 where "DW_IC_SOFT_RESET \<equiv> 0x204"

abbreviation (input) DW_IC_DATA_CMD_WRITE :: u32 where "DW_IC_DATA_CMD_WRITE \<equiv> 0"
abbreviation (input) DW_IC_DATA_CMD_READ :: u32 where "DW_IC_DATA_CMD_READ \<equiv> 0x100"
abbreviation (input) DW_IC_DATA_CMD_STOP :: u32 where "DW_IC_DATA_CMD_STOP \<equiv> 0x200"
abbreviation (input) DW_IC_DATA_CMD_RESTART :: u32 where "DW_IC_DATA_CMD_RESTART \<equiv> 0x400"

abbreviation (input) DW_IC_INTR_RX_FULL :: u32 where "DW_IC_INTR_RX_FULL \<equiv> 0x004"
abbreviation (input) DW_IC_INTR_TX_EMPTY :: u32 where "DW_IC_INTR_TX_EMPTY \<equiv> 0x010"
abbreviation (input) DW_IC_INTR_TX_ABRT :: u32 where "DW_IC_INTR_TX_ABRT \<equiv> 0x040"
abbreviation (input) DW_IC_INTR_STOP_DET :: u32 where "DW_IC_INTR_STOP_DET \<equiv> 0x200"

abbreviation (input) DW_IC_STATUS_ACTIVITY :: u32 where "DW_IC_STATUS_ACTIVITY \<equiv> 0x01"
abbreviation (input) DW_IC_STATUS_TFNF :: u32 where "DW_IC_STATUS_TFNF \<equiv> 0x02"
abbreviation (input) DW_IC_STATUS_TFE :: u32 where "DW_IC_STATUS_TFE \<equiv> 0x04"
abbreviation (input) DW_IC_STATUS_RFNE :: u32 where "DW_IC_STATUS_RFNE \<equiv> 0x08"

definition DW_IC_INTR_DEFAULT_MASK :: u32 where
  "DW_IC_INTR_DEFAULT_MASK = DW_IC_INTR_RX_FULL OR DW_IC_INTR_TX_EMPTY OR DW_IC_INTR_TX_ABRT OR DW_IC_INTR_STOP_DET"

definition DW_IC_TX_ABRT_ADDR_NOACK :: u32 where
  "DW_IC_TX_ABRT_ADDR_NOACK = 0x1 OR 0x2 OR 0x4"

section \<open>State\<close>

record i2c_codes =
  I2C_STATUS_DONE :: u32
  I2C_STATUS_ERROR :: u32
  I2C_STATUS_ADDR_NACK :: u32
  I2C_STATUS_DATA_NACK :: u32
  I2C_STATUS_ARBL :: u32
  I2C_STATUS_BUSY :: u32
  I2C_STATUS_ABORT :: u32

datatype i2c_addrfmt = I2C_ADDRFMT_7BIT | I2C_ADDRFMT_10BIT | I2C_ADDRFMT_OTHER

record scl_timing_param =
  high :: u32
  low :: u32
  fall :: u32

record dwc_dev = bus +
  codes :: i2c_codes
  pbase :: u64
  irq :: int
  iid :: int
  slave_addr :: u32
  slave_addr_fmt :: i2c_addrfmt
  fast :: scl_timing_param
  std :: scl_timing_param
  clock_khz :: u32
  ss_hcnt :: u32
  ss_lcnt :: u32
  fs_hcnt :: u32
  fs_lcnt :: u32
  scl_freq :: u32
  sda_hold_time :: u32
  txbuf :: "u8 list"
  rxbuf :: "u8 list"
  xlen :: u32
  txlen :: u32
  rxlen :: u32
  wrlen :: u32
  rdlen :: u32
  stop :: u32
  active_no_stop :: u32
  restart :: u32
  active_slave_addr :: u32
  active_slave_addr_fmt :: i2c_addrfmt
  verbose :: u32
  master_cfg :: u32
  status :: u32
  abort_source :: u32
  fifo_depth :: u32
  fixed_scl :: u32

definition i2c_reg_read32 :: "device \<Rightarrow> dwc_dev \<Rightarrow> u32 \<Rightarrow> dwc_dev \<times> u32" where
  "i2c_reg_read32 hw dev offset = mmio_read hw offset dev"

definition i2c_reg_write32 :: "dwc_dev \<Rightarrow> u32 \<Rightarrow> u32 \<Rightarrow> dwc_dev" where
  "i2c_reg_write32 dev offset v = mmio_write offset v dev"

section \<open>Speed and address\<close>

text \<open>\<open>None\<close> is the return value \<open>-1\<close>; the second component is what \<open>*ospeed\<close> receives.\<close>

definition dwc_i2c_set_bus_speed :: "dwc_dev \<Rightarrow> u32 \<Rightarrow> (dwc_dev \<times> u32) option" where
  "dwc_i2c_set_bus_speed dev speed =
     (if speed = scl_freq dev then Some (dev, scl_freq dev)
      else if speed = 100000
      then Some (dev\<lparr>scl_freq := 100000, master_cfg := (master_cfg dev AND NOT 0x06) OR 0x02\<rparr>, 100000)
      else if speed = 400000
      then Some (dev\<lparr>scl_freq := 400000, master_cfg := (master_cfg dev AND NOT 0x06) OR 0x04\<rparr>, 400000)
      else None)"

definition dwc_i2c_set_slave_addr :: "dwc_dev \<Rightarrow> u32 \<Rightarrow> i2c_addrfmt \<Rightarrow> dwc_dev option" where
  "dwc_i2c_set_slave_addr dev addr fmt =
     (case fmt of
        I2C_ADDRFMT_7BIT \<Rightarrow>
          if addr > 0x7F then None
          else Some (dev\<lparr>master_cfg := master_cfg dev AND NOT 0x10, slave_addr := addr, slave_addr_fmt := fmt\<rparr>)
      | I2C_ADDRFMT_10BIT \<Rightarrow>
          if addr > 0x3FF then None
          else Some (dev\<lparr>master_cfg := master_cfg dev OR 0x10, slave_addr := addr, slave_addr_fmt := fmt\<rparr>)
      | I2C_ADDRFMT_OTHER \<Rightarrow> None)"

section \<open>Adapter control\<close>

text \<open>The loop of \<open>dwc_i2c_enable\<close>; the argument counts the iterations that are left, from
  \<open>timeout = 1000\<close>, which is tested after the body and before the decrement.\<close>

fun dwc_i2c_enable_loop :: "device \<Rightarrow> nat \<Rightarrow> u32 \<Rightarrow> dwc_dev \<Rightarrow> dwc_dev \<times> bool" where
  "dwc_i2c_enable_loop hw 0 enable dev = (dev, False)"
| "dwc_i2c_enable_loop hw (Suc n) enable dev =
     (let (dev1, v) = i2c_reg_read32 hw (i2c_reg_write32 dev DW_IC_ENABLE enable) DW_IC_ENABLE_STATUS
      in if v AND 0x01 = enable then (dev1, True) else dwc_i2c_enable_loop hw n enable dev1)"

definition dwc_i2c_enable :: "device \<Rightarrow> dwc_dev \<Rightarrow> u32 \<Rightarrow> dwc_dev \<times> bool" where
  "dwc_i2c_enable hw dev enable = dwc_i2c_enable_loop hw 1001 enable dev"

fun wait_bus_loop :: "device \<Rightarrow> nat \<Rightarrow> dwc_dev \<Rightarrow> dwc_dev \<times> bool" where
  "wait_bus_loop hw n dev =
     (let (dev1, v) = i2c_reg_read32 hw dev DW_IC_STATUS
      in if v AND DW_IC_STATUS_ACTIVITY = 0 then (dev1, True)
         else (case n of 0 \<Rightarrow> (dev1, False) | Suc m \<Rightarrow> wait_bus_loop hw m dev1))"

declare wait_bus_loop.simps [simp del]

definition dwc_i2c_wait_bus_not_busy :: "device \<Rightarrow> dwc_dev \<Rightarrow> dwc_dev \<times> bool" where
  "dwc_i2c_wait_bus_not_busy hw dev = wait_bus_loop hw 200 dev"

definition i2c_dw_scl_hcnt :: "u32 \<Rightarrow> u32 \<Rightarrow> u32 \<Rightarrow> bool \<Rightarrow> u32 \<Rightarrow> u32" where
  "i2c_dw_scl_hcnt ic_clk tsymbol tf cond offset =
     (if cond then ((ic_clk * tsymbol) + 500000) div 1000000 - 8 + offset
      else ((ic_clk * (tsymbol + tf)) + 500000) div 1000000 - 3 + offset)"

definition i2c_dw_scl_lcnt :: "u32 \<Rightarrow> u32 \<Rightarrow> u32 \<Rightarrow> u32 \<Rightarrow> u32" where
  "i2c_dw_scl_lcnt ic_clk tlow tf offset = ((ic_clk * (tlow + tf)) + 500000) div 1000000 - 1 + offset"

definition dwc_i2c_get_input_clock :: "dwc_dev \<Rightarrow> u32" where
  "dwc_i2c_get_input_clock dev = 200000000 div 1000"

definition dwc_i2c_set_fifo_threshold :: "device \<Rightarrow> dwc_dev \<Rightarrow> dwc_dev" where
  "dwc_i2c_set_fifo_threshold hw dev =
     (let (dev1, reg) = i2c_reg_read32 hw dev DW_IC_COMP_PARAM_1;
          tx_fifo_depth = (drop_bit 16 reg AND 0xff) + 1;
          rx_fifo_depth = (drop_bit 8 reg AND 0xff) + 1;
          dev2 = dev1\<lparr>fifo_depth := min tx_fifo_depth rx_fifo_depth\<rparr>;
          dev3 = i2c_reg_write32 dev2 DW_IC_TX_TL (fifo_depth dev2 div 2)
      in i2c_reg_write32 dev3 DW_IC_RX_TL (fifo_depth dev2 div 2))"

text \<open>The steps of \<open>dwc_i2c_init_registers\<close>. This board's build does not define
  \<open>DWC_SUPPORT_FIXED_SCL\<close>.\<close>

definition init_ss_timing :: "dwc_dev \<Rightarrow> dwc_dev" where
  "init_ss_timing dev =
     (let dev1 = dev\<lparr>ss_hcnt := i2c_dw_scl_hcnt (clock_khz dev) (high (std dev)) (fall (std dev)) False 0,
                     ss_lcnt := i2c_dw_scl_lcnt (clock_khz dev) (low (std dev)) (fall (std dev)) 0\<rparr>
      in i2c_reg_write32 (i2c_reg_write32 dev1 DW_IC_SS_SCL_HCNT (ss_hcnt dev1)) DW_IC_SS_SCL_LCNT (ss_lcnt dev1))"

definition init_fs_timing :: "dwc_dev \<Rightarrow> dwc_dev" where
  "init_fs_timing dev =
     (let dev1 = dev\<lparr>fs_hcnt := i2c_dw_scl_hcnt (clock_khz dev) (high (fast dev)) (fall (fast dev)) False 0,
                     fs_lcnt := i2c_dw_scl_lcnt (clock_khz dev) (low (fast dev)) (fall (fast dev)) 0\<rparr>
      in i2c_reg_write32 (i2c_reg_write32 dev1 DW_IC_FS_SCL_HCNT (fs_hcnt dev1)) DW_IC_FS_SCL_LCNT (fs_lcnt dev1))"

definition init_sda_hold :: "device \<Rightarrow> dwc_dev \<Rightarrow> dwc_dev" where
  "init_sda_hold hw dev =
     (let (dev1, reg) = i2c_reg_read32 hw dev DW_IC_COMP_VERSION;
          hold = max (sda_hold_time dev1) (((clock_khz dev1 * 350) + 500000) div 1000000)
      in if reg \<ge> 0x3131312A \<and> hold < fs_lcnt dev1 then i2c_reg_write32 dev1 DW_IC_SDA_HOLD hold else dev1)"

definition dwc_i2c_init_registers :: "device \<Rightarrow> dwc_dev \<Rightarrow> dwc_dev" where
  "dwc_i2c_init_registers hw dev0 =
     (let dev1 = (if clock_khz dev0 = 0 then dev0\<lparr>clock_khz := dwc_i2c_get_input_clock dev0\<rparr> else dev0);
          dev2 = init_sda_hold hw (init_fs_timing (init_ss_timing dev1));
          dev3 = dwc_i2c_set_fifo_threshold hw dev2;
          dev4 = (case dwc_i2c_set_bus_speed dev3 100000 of None \<Rightarrow> dev3 | Some (d, _) \<Rightarrow> d);
          (dev5, _) = i2c_reg_read32 hw dev4 DW_IC_CLR_INTR
      in i2c_reg_write32 dev5 DW_IC_INTR_MASK 0)"

text \<open>\<open>dwc_i2c_reset\<close>: the \<open>do\<close> loop runs at most three times.\<close>

fun reset_loop :: "device \<Rightarrow> nat \<Rightarrow> dwc_dev \<Rightarrow> dwc_dev" where
  "reset_loop hw 0 dev = dev"
| "reset_loop hw (Suc n) dev =
     (let dev1 = i2c_reg_write32 dev DW_IC_SOFT_RESET 0x00;
          dev2 = i2c_reg_write32 dev1 DW_IC_SOFT_RESET 0x03;
          (dev3, ok) = dwc_i2c_enable hw dev2 0
      in if ok then dwc_i2c_init_registers hw dev3 else reset_loop hw n dev3)"

definition dwc_i2c_reset :: "device \<Rightarrow> dwc_dev \<Rightarrow> dwc_dev" where
  "dwc_i2c_reset hw dev =
     (let dev1 = (i2c_reg_write32 dev DW_IC_ENABLE (0x02 OR 0x01))\<lparr>active_no_stop := 0, restart := 0\<rparr>;
          (dev2, _) = dwc_i2c_enable hw dev1 0
      in reset_loop hw 3 dev2)"

text \<open>The busy loop of \<open>dwc_i2c_bus_active\<close>, with \<open>busy_retry = n - 1\<close>.\<close>

fun busy_loop :: "device \<Rightarrow> nat \<Rightarrow> dwc_dev \<times> bool \<Rightarrow> dwc_dev \<times> bool" where
  "busy_loop hw 0 r = r"
| "busy_loop hw (Suc n) r =
     (if snd r then r
      else let dev1 = (if n = 0 then dwc_i2c_reset hw (fst r) else fst r)
           in busy_loop hw n (dwc_i2c_wait_bus_not_busy hw dev1))"

text \<open>The returned flag is \<open>True\<close> for \<open>0\<close> and \<open>False\<close> for \<open>I2C_STATUS_BUSY\<close>.\<close>

definition dwc_i2c_bus_active :: "device \<Rightarrow> dwc_dev \<Rightarrow> dwc_dev \<times> bool" where
  "dwc_i2c_bus_active hw dev =
     (if active_no_stop dev \<noteq> 0
      then if slave_addr dev \<noteq> active_slave_addr dev \<or> slave_addr_fmt dev \<noteq> active_slave_addr_fmt dev
           then (dwc_i2c_reset hw dev, False)
           else (i2c_reg_write32 (dev\<lparr>restart := 1\<rparr>) DW_IC_INTR_MASK 0, True)
      else let dev1 = dev\<lparr>restart := 0\<rparr>;
               (dev2, ok) = busy_loop hw 4 (dwc_i2c_wait_bus_not_busy hw dev1)
           in if \<not> ok then (dev2, False)
              else let (dev3, ok3) = dwc_i2c_enable hw dev2 0
                   in if \<not> ok3 then (dwc_i2c_reset hw dev3, False)
                      else let dev4 = i2c_reg_write32 dev3 DW_IC_TAR
                                 (if slave_addr_fmt dev3 = I2C_ADDRFMT_7BIT then slave_addr dev3
                                  else slave_addr dev3 OR 0x1000);
                               dev5 = dev4\<lparr>active_slave_addr := slave_addr dev4,
                                           active_slave_addr_fmt := slave_addr_fmt dev4\<rparr>;
                               dev6 = i2c_reg_write32 dev5 DW_IC_CON (master_cfg dev5);
                               dev7 = i2c_reg_write32 dev6 DW_IC_INTR_MASK 0;
                               (dev8, ok8) = dwc_i2c_enable hw dev7 1
                           in if \<not> ok8 then (dwc_i2c_reset hw dev8, False) else (dev8, True))"

section \<open>The interrupt routine\<close>

datatype intr_result = EOK | EAGAIN

text \<open>Read one byte from the receive FIFO into the buffer, and \<open>n\<close> bytes.\<close>

definition rx_byte :: "device \<Rightarrow> dwc_dev \<Rightarrow> dwc_dev" where
  "rx_byte hw dev =
     (let (dev1, reg) = i2c_reg_read32 hw dev DW_IC_DATA_CMD
      in dev1\<lparr>rxbuf := rxbuf dev1 @ [ucast (reg AND 0x00FF)], rdlen := rdlen dev1 + 1\<rparr>)"

fun rx_drain :: "device \<Rightarrow> nat \<Rightarrow> dwc_dev \<Rightarrow> dwc_dev" where
  "rx_drain hw 0 dev = dev"
| "rx_drain hw (Suc n) dev = rx_drain hw n (rx_byte hw dev)"

definition xmit_FIFO_is_full :: "device \<Rightarrow> dwc_dev \<Rightarrow> dwc_dev \<times> bool" where
  "xmit_FIFO_is_full hw dev =
     (let (dev1, v) = i2c_reg_read32 hw dev DW_IC_STATUS in (dev1, v AND DW_IC_STATUS_TFNF = 0))"

definition mask_off :: "device \<Rightarrow> dwc_dev \<Rightarrow> u32 \<Rightarrow> dwc_dev" where
  "mask_off hw dev b =
     (let (dev1, v) = i2c_reg_read32 hw dev DW_IC_INTR_MASK
      in i2c_reg_write32 dev1 DW_IC_INTR_MASK (v AND NOT b))"

text \<open>The four parts of \<open>dwc_i2c_process_intr\<close>, in its order.\<close>

definition intr_abort :: "device \<Rightarrow> dwc_dev \<Rightarrow> dwc_dev" where
  "intr_abort hw dev =
     (let (dev1, src) = i2c_reg_read32 hw dev DW_IC_TX_ABRT_SOURCE;
          (dev2, _) = i2c_reg_read32 hw (dev1\<lparr>abort_source := src\<rparr>) DW_IC_CLR_TX_ABRT;
          c = codes dev2;
          why = (if src AND 0x1000 \<noteq> 0 then I2C_STATUS_ARBL c
                 else if src AND DW_IC_TX_ABRT_ADDR_NOACK \<noteq> 0 then I2C_STATUS_ADDR_NACK c
                 else if src AND 0x8 \<noteq> 0 then I2C_STATUS_DATA_NACK c
                 else I2C_STATUS_ABORT c)
      in i2c_reg_write32 (dev2\<lparr>status := I2C_STATUS_DONE c OR why\<rparr>) DW_IC_INTR_MASK 0)"

definition intr_stop_det :: "device \<Rightarrow> dwc_dev \<Rightarrow> dwc_dev" where
  "intr_stop_det hw dev =
     (let (dev1, _) = i2c_reg_read32 hw dev DW_IC_CLR_STOP_DET;
          dev2 = (if rdlen dev1 < rxlen dev1
                  then let (d, numbers) = i2c_reg_read32 hw dev1 DW_IC_RXFLR
                       in if rdlen d + numbers \<noteq> rxlen d
                          then d\<lparr>status := I2C_STATUS_ERROR (codes d)\<rparr>
                          else rx_drain hw (unat numbers) d
                  else dev1);
          dev3 = dev2\<lparr>status := status dev2 OR I2C_STATUS_DONE (codes dev2)\<rparr>
      in i2c_reg_write32 dev3 DW_IC_INTR_MASK 0)"

definition intr_rx_full :: "device \<Rightarrow> dwc_dev \<Rightarrow> dwc_dev" where
  "intr_rx_full hw dev =
     (if rdlen dev < rxlen dev
      then let (d, numbers) = i2c_reg_read32 hw dev DW_IC_RXFLR
           in if rdlen d + numbers > rxlen d
              then let d1 = d\<lparr>status := status d OR I2C_STATUS_ERROR (codes d)\<rparr>
                   in rx_drain hw (unat (rxlen d - rdlen d)) (mask_off hw d1 DW_IC_INTR_RX_FULL)
              else rx_drain hw (unat numbers) d
      else mask_off hw dev DW_IC_INTR_RX_FULL)"

text \<open>The command word for position \<open>wrlen\<close>.\<close>

definition tx_command :: "dwc_dev \<Rightarrow> u32" where
  "tx_command dev =
     (let last = (stop dev \<noteq> 0 \<and> wrlen dev = xlen dev - 1);
          reg = (if wrlen dev < txlen dev
                 then if last then ucast (hd (txbuf dev)) OR DW_IC_DATA_CMD_WRITE OR DW_IC_DATA_CMD_STOP
                      else ucast (hd (txbuf dev)) OR DW_IC_DATA_CMD_WRITE
                 else if wrlen dev = txlen dev \<and> 0 \<noteq> txlen dev
                 then if last then DW_IC_DATA_CMD_READ OR DW_IC_DATA_CMD_RESTART OR DW_IC_DATA_CMD_STOP
                      else DW_IC_DATA_CMD_READ OR DW_IC_DATA_CMD_RESTART
                 else if last then DW_IC_DATA_CMD_READ OR DW_IC_DATA_CMD_STOP
                 else DW_IC_DATA_CMD_READ)
      in if restart dev \<noteq> 0 \<and> wrlen dev = 0 then reg OR DW_IC_DATA_CMD_RESTART else reg)"

definition tx_one :: "dwc_dev \<Rightarrow> dwc_dev" where
  "tx_one dev =
     (let dev1 = i2c_reg_write32 (if wrlen dev < txlen dev then dev\<lparr>txbuf := tl (txbuf dev)\<rparr> else dev)
                   DW_IC_DATA_CMD (tx_command dev)
      in dev1\<lparr>wrlen := wrlen dev1 + 1\<rparr>)"

definition tx_done :: "device \<Rightarrow> dwc_dev \<Rightarrow> dwc_dev" where
  "tx_done hw dev =
     (if stop dev \<noteq> 0 \<or> rxlen dev \<noteq> 0 then mask_off hw dev DW_IC_INTR_TX_EMPTY
      else let (d, v) = i2c_reg_read32 hw dev DW_IC_STATUS
           in if v AND DW_IC_STATUS_TFE \<noteq> 0 then mask_off hw d DW_IC_INTR_TX_EMPTY else d)"

fun intr_tx_empty :: "device \<Rightarrow> nat \<Rightarrow> dwc_dev \<Rightarrow> dwc_dev" where
  "intr_tx_empty hw 0 dev = dev"
| "intr_tx_empty hw (Suc n) dev =
     (if wrlen dev \<ge> xlen dev then tx_done hw dev
      else let (dev1, full) = xmit_FIFO_is_full hw dev
           in if full then dev1 else intr_tx_empty hw n (tx_one dev1))"

text \<open>The polling loop of a transfer without STOP. Each iteration reads a byte, so it runs at most
  \<open>rxlen - rdlen\<close> times, which is the count it is started with.\<close>

fun rx_poll :: "device \<Rightarrow> nat \<Rightarrow> dwc_dev \<Rightarrow> dwc_dev" where
  "rx_poll hw 0 dev = dev"
| "rx_poll hw (Suc n) dev =
     (if rdlen dev < rxlen dev
      then let (d, v) = i2c_reg_read32 hw dev DW_IC_STATUS
           in if v AND DW_IC_STATUS_RFNE \<noteq> 0 then rx_poll hw n (rx_byte hw d) else d
      else dev)"

definition intr_no_stop :: "device \<Rightarrow> dwc_dev \<Rightarrow> dwc_dev \<times> intr_result" where
  "intr_no_stop hw dev =
     (let dev1 = rx_poll hw (unat (rxlen dev) - unat (rdlen dev)) dev
      in if wrlen dev1 \<ge> xlen dev1 \<and> rdlen dev1 \<ge> rxlen dev1
         then let (d, v) = i2c_reg_read32 hw dev1 DW_IC_STATUS
              in if v AND DW_IC_STATUS_TFE \<noteq> 0
                 then (i2c_reg_write32 (d\<lparr>status := status d OR I2C_STATUS_DONE (codes d)\<rparr>)
                         DW_IC_INTR_MASK 0, EOK)
                 else (d, EAGAIN)
         else (dev1, EAGAIN))"

definition dwc_i2c_process_intr :: "device \<Rightarrow> dwc_dev \<Rightarrow> dwc_dev \<times> intr_result" where
  "dwc_i2c_process_intr hw dev0 =
     (let (dev, st) = i2c_reg_read32 hw dev0 DW_IC_INTR_STAT
      in if st AND DW_IC_INTR_TX_ABRT \<noteq> 0 then (intr_abort hw dev, EOK)
         else if st AND DW_IC_INTR_STOP_DET \<noteq> 0 then (intr_stop_det hw dev, EOK)
         else let dev1 = (if st AND DW_IC_INTR_RX_FULL \<noteq> 0 then intr_rx_full hw dev else dev);
                  dev2 = (if st AND DW_IC_INTR_TX_EMPTY \<noteq> 0
                          then intr_tx_empty hw (unat (fifo_depth dev1)) dev1 else dev1)
              in if stop dev2 = 0 then intr_no_stop hw dev2 else (dev2, EAGAIN))"

text \<open>The time-out of a wait, in ns. C leaves the division undefined when \<open>scl_freq\<close> is zero.\<close>

definition xtime_us :: "dwc_dev \<Rightarrow> u32" where
  "xtime_us dev = max 2500 (max 1 (10 * 1000 * 1000 div scl_freq dev) * xlen dev)"

definition to_ns :: "dwc_dev \<Rightarrow> u64" where
  "to_ns dev = ucast (xtime_us dev) * 1000 * 50"

text \<open>\<open>dwc_i2c_wait_complete\<close>: \<open>None\<close> while the outcomes run out before the transfer is over.\<close>

fun dwc_i2c_wait_complete :: "device \<Rightarrow> bool list \<Rightarrow> dwc_dev \<Rightarrow> (dwc_dev \<times> u32) option" where
  "dwc_i2c_wait_complete hw [] dev = None"
| "dwc_i2c_wait_complete hw (False # evs) dev =
     (let (dev1, _) = i2c_reg_read32 hw dev DW_IC_STATUS;
          dev2 = dwc_i2c_reset hw dev1
      in Some (dev2, I2C_STATUS_DONE (codes dev2) OR I2C_STATUS_ERROR (codes dev2)))"
| "dwc_i2c_wait_complete hw (True # evs) dev =
     (case dwc_i2c_process_intr hw dev of
        (dev1, EAGAIN) \<Rightarrow> dwc_i2c_wait_complete hw evs dev1
      | (dev1, EOK) \<Rightarrow>
          let dev2 = (if status dev1 AND (I2C_STATUS_ARBL (codes dev1) OR I2C_STATUS_ERROR (codes dev1)) \<noteq> 0
                      then dwc_i2c_reset hw dev1 else dev1);
              dev3 = i2c_reg_write32 dev2 DW_IC_INTR_MASK 0
          in Some (dev3, status dev3))"

section \<open>Transactions\<close>

text \<open>What \<open>dwc_i2c_send\<close>, \<open>dwc_i2c_recv\<close> and \<open>dwc_i2c_sendrecv\<close> do once their fields are set.\<close>

definition transact :: "device \<Rightarrow> bool list \<Rightarrow> dwc_dev \<Rightarrow> (dwc_dev \<times> u32) option" where
  "transact hw evs dev =
     (let (dev1, ok) = dwc_i2c_bus_active hw dev
      in if \<not> ok then Some (dev1, I2C_STATUS_BUSY (codes dev1))
         else let dev2 = i2c_reg_write32 dev1 DW_IC_RX_TL 0;
                  (dev3, _) = i2c_reg_read32 hw dev2 DW_IC_CLR_INTR;
                  dev4 = i2c_reg_write32 dev3 DW_IC_INTR_MASK DW_IC_INTR_DEFAULT_MASK
              in case dwc_i2c_wait_complete hw evs dev4 of
                   None \<Rightarrow> None
                 | Some (dev5, ret) \<Rightarrow>
                     let dev6 = i2c_reg_write32 dev5 DW_IC_INTR_MASK 0;
                         dev7 = dev6\<lparr>active_no_stop :=
                           (if ret = I2C_STATUS_DONE (codes dev6) \<and> stop dev6 = 0 then 1 else 0)\<rparr>;
                         dev8 = (if stop dev7 \<noteq> 0 then fst (dwc_i2c_enable hw dev7 0) else dev7)
                     in Some (dev8, ret))"

definition dwc_i2c_send :: "device \<Rightarrow> bool list \<Rightarrow> dwc_dev \<Rightarrow> u8 list \<Rightarrow> u32 \<Rightarrow> u32 \<Rightarrow> (dwc_dev \<times> u32) option" where
  "dwc_i2c_send hw evs dev buf len stp =
     (if len \<le> 0 then Some (dev, I2C_STATUS_DONE (codes dev))
      else transact hw evs (dev\<lparr>txlen := len, rxlen := 0, xlen := len + 0, wrlen := 0, rdlen := 0,
             txbuf := buf, rxbuf := [], stop := stp, status := 0\<rparr>))"

definition dwc_i2c_recv :: "device \<Rightarrow> bool list \<Rightarrow> dwc_dev \<Rightarrow> u32 \<Rightarrow> u32 \<Rightarrow> (dwc_dev \<times> u32) option" where
  "dwc_i2c_recv hw evs dev len stp =
     (if len \<le> 0 then Some (dev, I2C_STATUS_DONE (codes dev))
      else transact hw evs (dev\<lparr>txlen := 0, rxlen := len, xlen := 0 + len, wrlen := 0, rdlen := 0,
             rxbuf := [], stop := stp, status := 0\<rparr>))"

definition dwc_i2c_sendrecv :: "device \<Rightarrow> bool list \<Rightarrow> dwc_dev \<Rightarrow> u8 list \<Rightarrow> u32 \<Rightarrow> u32 \<Rightarrow> u32 \<Rightarrow>
    (dwc_dev \<times> u32) option" where
  "dwc_i2c_sendrecv hw evs dev tbuf tlen rlen stp =
     (if tlen > 0xFFFFFFFF - rlen then Some (dev, I2C_STATUS_ERROR (codes dev))
      else let dev1 = dev\<lparr>txlen := tlen, rxlen := rlen, xlen := tlen + rlen, wrlen := 0, rdlen := 0,
                 txbuf := tbuf, rxbuf := [], stop := stp, status := 0\<rparr>
           in if xlen dev1 \<le> 0 then Some (dev1, I2C_STATUS_DONE (codes dev1)) else transact hw evs dev1)"

section \<open>The resource manager's combined transfer\<close>

text \<open>
  \<open>_i2c_master_sendrecv\<close>. The message has \<open>nbytes\<close> bytes of input that begin with a header and go on
  with the data to send. \<open>size_t\<close> arithmetic is on natural numbers: no sum of sizes here comes near
  \<open>2\<^sup>6\<^sup>4\<close>. \<open>malloc_ok\<close> and the result of \<open>resmgr_msgread\<close> (a status and the bytes) come from the
  system. The resource manager copies a reply from where the receive buffer was chosen.
\<close>

datatype errno = EINVAL | ENOMEM | EFAULT | EIO | ERRNO int

datatype buf_place = MsgBuf | DevBuf

record i2c_sendrecv_hdr =
  h_addr :: u32
  h_fmt :: i2c_addrfmt
  h_send_len :: u32
  h_recv_len :: u32
  h_stop :: u32

record i2c_dev =
  d_buf :: bool
  d_buflen :: u32
  d_bus_speed :: u32
  d_hdl :: dwc_dev
  d_times :: bool

record i2c_ocb =
  o_bus_speed :: u32
  o_status :: u32

record i2c_msg =
  m_nbytes :: u32
  m_max_size :: nat
  m_data :: "u8 list"
  sizeof_msg :: nat
  sizeof_hdr :: nat

datatype i2c_reply = Reply_empty | Reply_data u32 "u8 list"

text \<open>Where the data to send is read from and where the received data goes.\<close>

definition sendrecv_buffers :: "i2c_dev \<Rightarrow> i2c_msg \<Rightarrow> i2c_sendrecv_hdr \<Rightarrow> bool \<Rightarrow>
    (errno \<times> i2c_dev) + (i2c_dev \<times> buf_place \<times> buf_place)" where
  "sendrecv_buffers dev msg hdr malloc_ok =
     (let maxbuflen = (if h_send_len hdr < h_recv_len hdr then h_recv_len hdr else h_send_len hdr);
          head = sizeof_msg msg + sizeof_hdr msg;
          place = (\<lambda>len. if head + unat len > m_max_size msg then DevBuf else MsgBuf)
      in if head + unat maxbuflen > m_max_size msg \<and> maxbuflen > d_buflen dev
         then if malloc_ok
              then Inr (dev\<lparr>d_buf := True, d_buflen := maxbuflen\<rparr>, place (h_send_len hdr), place (h_recv_len hdr))
              else Inl (ENOMEM, dev\<lparr>d_buf := False, d_buflen := 0\<rparr>)
         else Inr (dev, place (h_send_len hdr), place (h_recv_len hdr)))"

definition sendrecv_run :: "device \<Rightarrow> bool list \<Rightarrow> i2c_dev \<Rightarrow> i2c_ocb \<Rightarrow> i2c_sendrecv_hdr \<Rightarrow> u8 list \<Rightarrow>
    (i2c_dev \<times> i2c_ocb \<times> (errno + i2c_reply)) option" where
  "sendrecv_run hw evs dev ocb hdr tx =
     (case (if d_bus_speed dev \<noteq> o_bus_speed ocb
            then map_option (\<lambda>(h, _). dev\<lparr>d_hdl := h, d_bus_speed := o_bus_speed ocb\<rparr>)
                   (dwc_i2c_set_bus_speed (d_hdl dev) (o_bus_speed ocb))
            else Some dev) of
        None \<Rightarrow> Some (dev, ocb, Inl EIO)
      | Some dev1 \<Rightarrow>
          (case dwc_i2c_set_slave_addr (d_hdl dev1) (h_addr hdr) (h_fmt hdr) of
             None \<Rightarrow> Some (dev1, ocb, Inl EIO)
           | Some h2 \<Rightarrow>
               let dev2 = dev1\<lparr>d_hdl := h2\<rparr>;
                   ocb2 = ocb\<lparr>o_status := I2C_STATUS_DONE (codes h2)\<rparr>
               in if h_send_len hdr > 0xFFFFFFFF - h_recv_len hdr then Some (dev2, ocb2, Inl EINVAL)
                  else if h_send_len hdr + h_recv_len hdr > 0
                  then (case dwc_i2c_sendrecv hw evs h2 tx (h_send_len hdr) (h_recv_len hdr) (h_stop hdr) of
                          None \<Rightarrow> None
                        | Some (h3, mstatus) \<Rightarrow>
                            let dev3 = dev2\<lparr>d_hdl := h3\<rparr>; ocb3 = ocb2\<lparr>o_status := mstatus\<rparr>
                            in if mstatus \<noteq> I2C_STATUS_DONE (codes h3) then Some (dev3, ocb3, Inl EIO)
                               else Some (dev3\<lparr>d_times := True\<rparr>, ocb3, Inr (Reply_data (h_recv_len hdr) (rxbuf h3))))
                  else Some (dev2, ocb2, Inr (Reply_data (h_recv_len hdr) []))))"

definition i2c_master_sendrecv :: "device \<Rightarrow> bool list \<Rightarrow> i2c_dev \<Rightarrow> i2c_ocb \<Rightarrow> i2c_msg \<Rightarrow> i2c_sendrecv_hdr \<Rightarrow>
    bool \<Rightarrow> int \<times> u8 list \<Rightarrow> (i2c_dev \<times> i2c_ocb \<times> (errno + i2c_reply)) option" where
  "i2c_master_sendrecv hw evs dev ocb msg hdr malloc_ok msgread =
     (if unat (m_nbytes msg) < sizeof_hdr msg then Some (dev, ocb, Inl EINVAL)
      else if h_send_len hdr = 0 \<and> h_recv_len hdr = 0 then Some (dev, ocb, Inr Reply_empty)
      else if sizeof_hdr msg + unat (h_send_len hdr) > unat (m_nbytes msg) then Some (dev, ocb, Inl EINVAL)
      else case sendrecv_buffers dev msg hdr malloc_ok of
             Inl (e, dev1) \<Rightarrow> Some (dev1, ocb, Inl e)
           | Inr (dev1, DevBuf, rx) \<Rightarrow>
               if fst msgread < 0 then Some (dev1, ocb, Inl (ERRNO (fst msgread)))
               else if fst msgread < int (unat (h_send_len hdr)) then Some (dev1, ocb, Inl EFAULT)
               else sendrecv_run hw evs dev1 ocb hdr (snd msgread)
           | Inr (dev1, MsgBuf, rx) \<Rightarrow> sendrecv_run hw evs dev1 ocb hdr (m_data msg))"

section \<open>Options\<close>

text \<open>\<open>None\<close> is the return value \<open>-1\<close>; a parameter set is written only when all three numbers are
  read.\<close>

definition parse_scl_timing :: "string \<Rightarrow> scl_timing_param option" where
  "parse_scl_timing popt =
     (case strtoul0 popt of
        (h, CHR '':'' # r1, False) \<Rightarrow>
          (case strtoul0 r1 of
             (l, CHR '':'' # r2, False) \<Rightarrow>
               (case strtoul0 r2 of
                  (f, _, False) \<Rightarrow> Some \<lparr>high = ucast h, low = ucast l, fall = ucast f\<rparr>
                | _ \<Rightarrow> None)
           | _ \<Rightarrow> None)
      | _ \<Rightarrow> None)"

text \<open>The device as the option handler leaves it, and whether it returns \<open>0\<close>. \<open>-c\<close> and \<open>-h\<close> store the
  number even when they fail.\<close>

definition dwc_i2c_handle_common_option :: "dwc_dev \<Rightarrow> char \<Rightarrow> string \<Rightarrow> dwc_dev \<times> bool" where
  "dwc_i2c_handle_common_option dev opt optarg =
     (if opt = CHR ''c''
      then let (v, _, erange) = strtoul0 optarg in (dev\<lparr>clock_khz := ucast v div 1000\<rparr>, \<not> erange)
      else if opt = CHR ''f''
      then (case parse_scl_timing optarg of None \<Rightarrow> (dev, False) | Some p \<Rightarrow> (dev\<lparr>fast := p\<rparr>, True))
      else if opt = CHR ''h''
      then let (v, _, erange) = strtoul0 optarg in (dev\<lparr>sda_hold_time := ucast v\<rparr>, \<not> erange)
      else if opt = CHR ''s''
      then (case parse_scl_timing optarg of None \<Rightarrow> (dev, False) | Some p \<Rightarrow> (dev\<lparr>std := p\<rparr>, True))
      else if opt = CHR ''v'' then (dev\<lparr>verbose := verbose dev + 1\<rparr>, True)
      else (dev, False))"

fun parseopts_loop :: "dwc_dev \<Rightarrow> getopt_ev list \<Rightarrow> dwc_dev \<times> bool" where
  "parseopts_loop dev [] = (dev, False)"
| "parseopts_loop dev (ev # evs) =
     (case ev of
        GOpt c arg \<Rightarrow>
          if c = CHR ''p''
          then let (v, _, erange) = strtoul0 arg; dev1 = dev\<lparr>pbase := v\<rparr>
               in if erange then (dev1, False) else parseopts_loop dev1 evs
          else if c = CHR ''q''
          then let (v, _, erange) = strtoul0 arg; dev1 = dev\<lparr>irq := sint (ucast v :: u32)\<rparr>
               in if erange then (dev1, False) else parseopts_loop dev1 evs
          else let (dev1, ok) = dwc_i2c_handle_common_option dev c arg
               in if ok then parseopts_loop dev1 evs else (dev1, False)
      | GUnknown optopt \<Rightarrow> if optopt = CHR ''-'' then parseopts_loop dev evs else (dev, False)
      | GMissing \<Rightarrow> (dev, False)
      | GEnd moved arg \<Rightarrow>
          if moved then (dev, False)
          else (case arg of
                  None \<Rightarrow> (dev, True)
                | Some a \<Rightarrow> if a = [] \<or> hd a \<noteq> CHR ''-'' then parseopts_loop dev evs else (dev, False)))"

text \<open>\<open>slog_error\<close> is the value of \<open>_SLOG_ERROR\<close>; the timing defaults are those of this board.\<close>

definition dwc_i2c_parseopts :: "dwc_dev \<Rightarrow> u32 \<Rightarrow> getopt_ev list \<Rightarrow> dwc_dev \<times> bool" where
  "dwc_i2c_parseopts dev slog_error evs =
     parseopts_loop (dev\<lparr>master_cfg := 0x01 OR 0x40 OR 0x20 OR 0x02 OR 0, scl_freq := 0, clock_khz := 0,
       verbose := slog_error, irq := -1, iid := -1, sda_hold_time := 0, fixed_scl := 0,
       fast := \<lparr>high = 600, low = 1300, fall = 300\<rparr>, std := \<lparr>high = 4700, low = 4700, fall = 100\<rparr>\<rparr>) evs"

definition dwc_i2c_probe_device :: "dwc_dev \<Rightarrow> dwc_dev" where
  "dwc_i2c_probe_device dev = (if irq dev < 0 then dev\<lparr>irq := 0xa8\<rparr> else dev)"

text \<open>Initialisation behind the mapping of the registers. \<open>None\<close> is the return value \<open>NULL\<close>;
  \<open>attach\<close> is what \<open>InterruptAttachEvent\<close> returns.\<close>

definition dwc_i2c_init :: "device \<Rightarrow> dwc_dev \<Rightarrow> u32 \<Rightarrow> getopt_ev list \<Rightarrow> int \<Rightarrow> dwc_dev option" where
  "dwc_i2c_init hw dev slog_error evs attach =
     (let (dev1, ok) = dwc_i2c_parseopts dev slog_error evs
      in if \<not> ok then None
         else let (dev2, reg) = i2c_reg_read32 hw (dwc_i2c_probe_device dev1) DW_IC_COMP_TYPE
              in if reg \<noteq> 0x44570140 then None
                 else let dev3 = dev2\<lparr>iid := attach\<rparr>
                      in if attach = -1 then None
                         else Some (dwc_i2c_init_registers hw (fst (dwc_i2c_enable hw dev3 0))))"

definition dwc_i2c_fini :: "device \<Rightarrow> dwc_dev \<Rightarrow> dwc_dev" where
  "dwc_i2c_fini hw dev = fst (dwc_i2c_enable hw dev 0)"

record i2c_driver_info_rec =
  info_speed_mode :: u32
  info_addr_mode :: u32
  info_verbosity :: u32

definition dwc_i2c_driver_info :: "dwc_dev \<Rightarrow> u32 \<Rightarrow> u32 \<Rightarrow> u32 \<Rightarrow> u32 \<Rightarrow> i2c_driver_info_rec" where
  "dwc_i2c_driver_info dev speed_std speed_fast fmt_7bit fmt_10bit =
     \<lparr>info_speed_mode = speed_std OR speed_fast, info_addr_mode = fmt_7bit OR fmt_10bit,
      info_verbosity = verbose dev\<rparr>"

end
