(* ===== verification/I2c_Proofs.thy ===== *)
theory I2c_Proofs
  imports I2c
begin

text \<open>
  What an I2C transaction does on the bus: the commands the driver feeds to the controller are the
  reference sequence of the transaction, in order, and the bytes it stores are those it read, never
  more than the caller's buffer holds.
\<close>

section \<open>The reference command sequence\<close>

text \<open>Command \<open>i\<close> of a transaction that sends \<open>tx\<close> and then receives \<open>rlen\<close> bytes. The first command
  after the direction changes carries RESTART, and so does the first of a transaction that
  continues one without STOP; the last one carries STOP if asked for.\<close>

definition i2c_cmd :: "u8 list \<Rightarrow> nat \<Rightarrow> bool \<Rightarrow> bool \<Rightarrow> nat \<Rightarrow> u32" where
  "i2c_cmd tx rlen stp rst i =
     (if i < length tx then ucast (tx ! i) else DW_IC_DATA_CMD_READ)
     OR (if stp \<and> i + 1 = length tx + rlen then DW_IC_DATA_CMD_STOP else 0)
     OR (if (tx \<noteq> [] \<and> i = length tx) \<or> (rst \<and> i = 0) then DW_IC_DATA_CMD_RESTART else 0)"

definition low_byte :: "u32 \<Rightarrow> u8" where
  "low_byte v = ucast (v AND 0x00FF)"

text \<open>The invariant of a running transaction; \<open>W\<close> and \<open>R\<close> are the commands and bytes of earlier
  ones.\<close>

definition xfer_inv :: "u8 list \<Rightarrow> u32 list \<Rightarrow> u8 list \<Rightarrow> dwc_dev \<Rightarrow> bool" where
  "xfer_inv tx W R dev \<longleftrightarrow>
     length tx = unat (txlen dev) \<and>
     unat (xlen dev) = unat (txlen dev) + unat (rxlen dev) \<and>
     wrlen dev \<le> xlen dev \<and> rdlen dev \<le> rxlen dev \<and>
     (wrlen dev < txlen dev \<longrightarrow> txbuf dev = drop (unat (wrlen dev)) tx) \<and>
     length (rxbuf dev) = unat (rdlen dev) \<and>
     writes_of DW_IC_DATA_CMD (iolog dev) =
       W @ map (i2c_cmd tx (unat (rxlen dev)) (stop dev \<noteq> 0) (restart dev \<noteq> 0)) [0 ..< unat (wrlen dev)] \<and>
     map low_byte (reads_of DW_IC_DATA_CMD (iolog dev)) = R @ rxbuf dev"

definition xfer_frame :: "dwc_dev \<Rightarrow> dwc_dev \<Rightarrow> bool" where
  "xfer_frame dev dev' \<longleftrightarrow> codes dev' = codes dev \<and> txlen dev' = txlen dev \<and> rxlen dev' = rxlen dev \<and>
     xlen dev' = xlen dev \<and> stop dev' = stop dev \<and> restart dev' = restart dev \<and> fifo_depth dev' = fifo_depth dev"

lemma xfer_frame_refl [simp]: "xfer_frame dev dev"
  by (simp add: xfer_frame_def)

lemma xfer_frame_trans: "xfer_frame a b \<Longrightarrow> xfer_frame b c \<Longrightarrow> xfer_frame a c"
  by (simp add: xfer_frame_def)

lemmas reg_defs = i2c_reg_read32_def i2c_reg_write32_def mmio_read_def mmio_write_def Let_def

lemma inv_read:
  assumes "xfer_inv tx W R dev" "r \<noteq> DW_IC_DATA_CMD"
  shows "xfer_inv tx W R (fst (i2c_reg_read32 hw dev r))" "xfer_frame dev (fst (i2c_reg_read32 hw dev r))"
    "rdlen (fst (i2c_reg_read32 hw dev r)) = rdlen dev" "wrlen (fst (i2c_reg_read32 hw dev r)) = wrlen dev"
    "status (fst (i2c_reg_read32 hw dev r)) = status dev"
  using assms by (auto simp: reg_defs xfer_inv_def xfer_frame_def)

lemma inv_write:
  assumes "xfer_inv tx W R dev" "r \<noteq> DW_IC_DATA_CMD"
  shows "xfer_inv tx W R (i2c_reg_write32 dev r v)" "xfer_frame dev (i2c_reg_write32 dev r v)"
    "rdlen (i2c_reg_write32 dev r v) = rdlen dev" "wrlen (i2c_reg_write32 dev r v) = wrlen dev"
    "status (i2c_reg_write32 dev r v) = status dev"
  using assms by (auto simp: reg_defs xfer_inv_def xfer_frame_def)

lemma inv_status:
  assumes "xfer_inv tx W R dev"
  shows "xfer_inv tx W R (dev\<lparr>status := s\<rparr>)" "xfer_inv tx W R (dev\<lparr>abort_source := s\<rparr>)"
  using assms by (auto simp: xfer_inv_def)

lemma inv_mask_off:
  assumes "xfer_inv tx W R dev"
  shows "xfer_inv tx W R (mask_off hw dev b)" "xfer_frame dev (mask_off hw dev b)"
    "rdlen (mask_off hw dev b) = rdlen dev" "status (mask_off hw dev b) = status dev"
  using assms by (auto simp: mask_off_def reg_defs xfer_inv_def xfer_frame_def)

section \<open>Receiving\<close>

lemma rx_byte_inv:
  assumes "xfer_inv tx W R dev" "rdlen dev < rxlen dev"
  shows "xfer_inv tx W R (rx_byte hw dev)" "xfer_frame dev (rx_byte hw dev)"
    "unat (rdlen (rx_byte hw dev)) = unat (rdlen dev) + 1" "status (rx_byte hw dev) = status dev"
  using assms unat_succ_less [OF assms(2)]
  by (auto simp: rx_byte_def reg_defs xfer_inv_def xfer_frame_def low_byte_def word_le_nat_alt word_less_nat_alt)

lemma rx_drain_inv:
  assumes "xfer_inv tx W R dev" "unat (rdlen dev) + n \<le> unat (rxlen dev)"
  shows "xfer_inv tx W R (rx_drain hw n dev) \<and> xfer_frame dev (rx_drain hw n dev) \<and>
         unat (rdlen (rx_drain hw n dev)) = unat (rdlen dev) + n \<and> status (rx_drain hw n dev) = status dev"
  using assms
proof (induction n arbitrary: dev)
  case (Suc n)
  then have lt: "rdlen dev < rxlen dev" by (simp add: word_less_nat_alt)
  note b = rx_byte_inv [OF Suc.prems(1) lt, of hw]
  have "unat (rdlen (rx_byte hw dev)) + n \<le> unat (rxlen (rx_byte hw dev))"
    using b(2,3) Suc.prems(2) by (simp add: xfer_frame_def)
  from Suc.IH [OF b(1) this] b(2-4) show ?case by (auto intro: xfer_frame_trans)
qed simp

section \<open>Sending\<close>

lemma tx_command_ref:
  assumes "xfer_inv tx W R dev" "wrlen dev < xlen dev"
  shows "tx_command dev = i2c_cmd tx (unat (rxlen dev)) (stop dev \<noteq> 0) (restart dev \<noteq> 0) (unat (wrlen dev))"
proof -
  have len: "length tx = unat (txlen dev)" "unat (xlen dev) = unat (txlen dev) + unat (rxlen dev)"
    using assms(1) by (auto simp: xfer_inv_def)
  have nz: "0 < unat (xlen dev)" using assms(2) by (simp add: word_less_nat_alt)
  then have "unat (xlen dev - 1) = unat (xlen dev) - 1" by (simp add: unat_sub_nat)
  then have last: "wrlen dev = xlen dev - 1 \<longleftrightarrow> unat (wrlen dev) + 1 = unat (xlen dev)"
    using nz by (auto simp: word_unat_eq_iff)
  have byte: "hd (txbuf dev) = tx ! unat (wrlen dev)" if "wrlen dev < txlen dev"
    using that assms(1) len by (simp add: xfer_inv_def hd_drop_conv_nth word_less_nat_alt)
  have dir: "wrlen dev < txlen dev \<longleftrightarrow> unat (wrlen dev) < length tx"
    "wrlen dev = txlen dev \<longleftrightarrow> unat (wrlen dev) = length tx" "0 \<noteq> txlen dev \<longleftrightarrow> tx \<noteq> []"
    "wrlen dev = 0 \<longleftrightarrow> unat (wrlen dev) = 0"
    using len by (auto simp: word_less_nat_alt word_unat_eq_iff simp flip: length_greater_0_conv)
  show ?thesis
    unfolding tx_command_def i2c_cmd_def Let_def last len(2) [symmetric] len(1) [symmetric]
    using byte dir len by (auto simp: or.assoc or.left_commute)
qed

lemma tx_one_inv:
  assumes "xfer_inv tx W R dev" "wrlen dev < xlen dev"
  shows "xfer_inv tx W R (tx_one dev)" "xfer_frame dev (tx_one dev)" "rdlen (tx_one dev) = rdlen dev"
    "status (tx_one dev) = status dev"
proof -
  have s: "unat (wrlen dev + 1) = unat (wrlen dev) + 1" by (rule unat_succ_less [OF assms(2)])
  show "xfer_inv tx W R (tx_one dev)"
    using assms s tx_command_ref [OF assms]
    by (auto simp: tx_one_def reg_defs xfer_inv_def word_le_nat_alt word_less_nat_alt drop_Suc tl_drop)
  show "xfer_frame dev (tx_one dev)" "rdlen (tx_one dev) = rdlen dev" "status (tx_one dev) = status dev"
    by (simp_all add: tx_one_def reg_defs xfer_frame_def)
qed

lemma tx_done_inv:
  assumes "xfer_inv tx W R dev"
  shows "xfer_inv tx W R (tx_done hw dev)" "xfer_frame dev (tx_done hw dev)" "rdlen (tx_done hw dev) = rdlen dev"
    "status (tx_done hw dev) = status dev"
  using inv_mask_off [OF assms] inv_mask_off [OF inv_read(1) [OF assms, of DW_IC_STATUS hw]]
    inv_read [OF assms, of DW_IC_STATUS hw]
  by (auto simp: tx_done_def case_prod_beta Let_def intro: xfer_frame_trans)

lemma intr_tx_empty_inv:
  assumes "xfer_inv tx W R dev"
  shows "xfer_inv tx W R (intr_tx_empty hw n dev) \<and> xfer_frame dev (intr_tx_empty hw n dev) \<and>
         rdlen (intr_tx_empty hw n dev) = rdlen dev \<and> status (intr_tx_empty hw n dev) = status dev"
  using assms
proof (induction n arbitrary: dev)
  case (Suc n)
  let ?d = "fst (i2c_reg_read32 hw dev DW_IC_STATUS)"
  have r: "xfer_inv tx W R ?d" "xfer_frame dev ?d" "rdlen ?d = rdlen dev" "wrlen ?d = wrlen dev" "status ?d = status dev"
    using inv_read [OF Suc.prems, of DW_IC_STATUS hw] by simp_all
  show ?case
  proof (cases "wrlen dev \<ge> xlen dev")
    case True
    with tx_done_inv [OF Suc.prems] show ?thesis by simp
  next
    case False
    then have "wrlen ?d < xlen ?d" using r(2,4) by (simp add: xfer_frame_def)
    note one = tx_one_inv [OF r(1) this]
    from Suc.IH [OF one(1)] one r False show ?thesis
      by (auto simp: xmit_FIFO_is_full_def case_prod_beta Let_def intro: xfer_frame_trans)
  qed
qed simp

section \<open>The interrupt routine\<close>

text \<open>What the routine relies on: the receive FIFO level is at most the largest FIFO of the
  controller, and the length of the transfer leaves room for that in 32 bits.\<close>

definition rxflr_small :: "device \<Rightarrow> bool" where
  "rxflr_small hw \<longleftrightarrow> (\<forall>log. unat (hw log DW_IC_RXFLR) \<le> 256)"

definition xfer_small :: "dwc_dev \<Rightarrow> bool" where
  "xfer_small dev \<longleftrightarrow> unat (rxlen dev) + 256 < 2 ^ 32"

text \<open>The documented status codes are separate bits.\<close>

definition codes_ok :: "i2c_codes \<Rightarrow> bool" where
  "codes_ok c \<longleftrightarrow>
     (\<forall>x \<in> {I2C_STATUS_ERROR c, I2C_STATUS_ADDR_NACK c, I2C_STATUS_DATA_NACK c, I2C_STATUS_ARBL c, I2C_STATUS_ABORT c}.
        I2C_STATUS_DONE c OR x \<noteq> I2C_STATUS_DONE c) \<and> I2C_STATUS_BUSY c \<noteq> I2C_STATUS_DONE c"

lemma rx_poll_inv:
  assumes "xfer_inv tx W R dev"
  shows "xfer_inv tx W R (rx_poll hw n dev) \<and> xfer_frame dev (rx_poll hw n dev)"
  using assms
proof (induction n arbitrary: dev)
  case (Suc n)
  let ?d = "fst (i2c_reg_read32 hw dev DW_IC_STATUS)"
  have r: "xfer_inv tx W R ?d" "xfer_frame dev ?d" "rdlen ?d = rdlen dev"
    using inv_read [OF Suc.prems, of DW_IC_STATUS hw] by simp_all
  show ?case
  proof (cases "rdlen dev < rxlen dev")
    case True
    then have "rdlen ?d < rxlen ?d" using r(2,3) by (simp add: xfer_frame_def)
    note b = rx_byte_inv [OF r(1) this, of hw]
    from Suc.IH [OF b(1)] b(2) r True show ?thesis
      by (auto simp: case_prod_beta Let_def intro: xfer_frame_trans)
  qed (use Suc.prems in simp)
qed simp

lemma intr_rx_full_inv:
  assumes "xfer_inv tx W R dev" "rxflr_small hw" "xfer_small dev"
  shows "xfer_inv tx W R (intr_rx_full hw dev) \<and> xfer_frame dev (intr_rx_full hw dev)"
proof (cases "rdlen dev < rxlen dev")
  case False
  with inv_mask_off [OF assms(1)] show ?thesis by (simp add: intr_rx_full_def)
next
  case True
  define d where "d = fst (i2c_reg_read32 hw dev DW_IC_RXFLR)"
  define k where "k = snd (i2c_reg_read32 hw dev DW_IC_RXFLR)"
  have d: "xfer_inv tx W R d" "xfer_frame dev d" "rdlen d = rdlen dev"
    using inv_read [OF assms(1), of DW_IC_RXFLR hw] by (simp_all add: d_def)
  have k: "unat k \<le> 256" using assms(2) by (simp add: k_def reg_defs rxflr_small_def)
  have lt: "unat (rdlen d) < unat (rxlen d)" using True d(2,3) by (simp add: word_less_nat_alt xfer_frame_def)
  show ?thesis
  proof (cases "rdlen d + k > rxlen d")
    case over: True
    let ?d1 = "mask_off hw (d\<lparr>status := status d OR I2C_STATUS_ERROR (codes d)\<rparr>) DW_IC_INTR_RX_FULL"
    note m = inv_mask_off [OF inv_status(1) [OF d(1), of "status d OR I2C_STATUS_ERROR (codes d)"], of hw DW_IC_INTR_RX_FULL]
    have "unat (rxlen d - rdlen d) = unat (rxlen d) - unat (rdlen d)" using lt by (simp add: unat_sub_nat)
    then have "unat (rdlen ?d1) + unat (rxlen d - rdlen d) \<le> unat (rxlen ?d1)"
      using m(2,3) lt by (simp add: xfer_frame_def)
    from rx_drain_inv [OF m(1) this, of hw] m(2) over True d(2) show ?thesis
      by (simp add: intr_rx_full_def case_prod_beta Let_def d_def [symmetric] k_def [symmetric] xfer_frame_def)
  next
    case under: False
    have "unat (rdlen d) + unat k < 2 ^ 32" using k lt assms(3) d(2) by (simp add: xfer_small_def xfer_frame_def)
    then have "unat (rdlen d + k) = unat (rdlen d) + unat k" by (rule unat_add_u32)
    then have "unat (rdlen d) + unat k \<le> unat (rxlen d)" using under by (simp add: word_less_nat_alt)
    from rx_drain_inv [OF d(1) this, of hw] under True d(2) show ?thesis
      by (auto simp: intr_rx_full_def case_prod_beta Let_def d_def [symmetric] k_def [symmetric] intro: xfer_frame_trans)
  qed
qed

lemma intr_abort_inv:
  assumes "xfer_inv tx W R dev"
  shows "xfer_inv tx W R (intr_abort hw dev) \<and> xfer_frame dev (intr_abort hw dev)"
  using assms by (auto simp: intr_abort_def reg_defs xfer_inv_def xfer_frame_def)

lemma intr_abort_status:
  assumes "codes_ok (codes dev)"
  shows "status (intr_abort hw dev) \<noteq> I2C_STATUS_DONE (codes dev)"
  using assms by (auto simp: intr_abort_def reg_defs codes_ok_def)

lemma intr_stop_det_inv:
  assumes "xfer_inv tx W R dev"
  shows "xfer_inv tx W R (intr_stop_det hw dev) \<and> xfer_frame dev (intr_stop_det hw dev) \<and>
         (codes_ok (codes dev) \<and> status (intr_stop_det hw dev) = I2C_STATUS_DONE (codes dev) \<longrightarrow>
            rdlen (intr_stop_det hw dev) = rxlen dev)"
proof -
  define a where "a = fst (i2c_reg_read32 hw dev DW_IC_CLR_STOP_DET)"
  define d where "d = fst (i2c_reg_read32 hw a DW_IC_RXFLR)"
  define k where "k = snd (i2c_reg_read32 hw a DW_IC_RXFLR)"
  define e where "e = (if rdlen a < rxlen a
      then if rdlen d + k \<noteq> rxlen d then d\<lparr>status := I2C_STATUS_ERROR (codes d)\<rparr> else rx_drain hw (unat k) d
      else a)"
  have a: "xfer_inv tx W R a" "xfer_frame dev a"
    using inv_read [OF assms, of DW_IC_CLR_STOP_DET hw] by (simp_all add: a_def)
  have d: "xfer_inv tx W R d" "xfer_frame a d" "rdlen d = rdlen a"
    using inv_read [OF a(1), of DW_IC_RXFLR hw] by (simp_all add: d_def)
  have e: "intr_stop_det hw dev =
      i2c_reg_write32 (e\<lparr>status := status e OR I2C_STATUS_DONE (codes e)\<rparr>) DW_IC_INTR_MASK 0"
    by (simp add: intr_stop_det_def case_prod_beta Let_def a_def d_def k_def e_def)
  have step: "xfer_inv tx W R e \<and> xfer_frame a e \<and> (rdlen e = rxlen e \<or> status e = I2C_STATUS_ERROR (codes e))"
  proof (cases "rdlen a < rxlen a \<and> rdlen d + k = rxlen d")
    case True
    have lt: "unat (rdlen d) \<le> unat (rxlen d)" using d(1) by (simp add: xfer_inv_def word_le_nat_alt)
    have "k = rxlen d - rdlen d" using True by (metis add_diff_cancel_left')
    then have k: "unat k = unat (rxlen d) - unat (rdlen d)" using lt by (simp add: unat_sub_nat)
    then have "unat (rdlen d) + unat k \<le> unat (rxlen d)" using lt by simp
    note dr = rx_drain_inv [OF d(1) this, of hw]
    have e': "e = rx_drain hw (unat k) d" using True by (simp add: e_def)
    have "unat (rdlen e) = unat (rxlen e)" using dr k lt unfolding e' by (simp add: xfer_frame_def)
    then have "rdlen e = rxlen e" by (rule unsigned_word_eqI)
    then show ?thesis using dr xfer_frame_trans [OF d(2)] unfolding e' by blast
  next
    case False
    show ?thesis
    proof (cases "rdlen a < rxlen a")
      case lt: True
      then have e': "e = d\<lparr>status := I2C_STATUS_ERROR (codes d)\<rparr>" using False by (simp add: e_def)
      show ?thesis unfolding e' using inv_status(1) [OF d(1)] d(2) by (simp add: xfer_frame_def)
    next
      case ge: False
      then have "rdlen a = rxlen a" using a(1) by (simp add: xfer_inv_def)
      then show ?thesis using ge a(1) by (simp add: e_def)
    qed
  qed
  have "xfer_inv tx W R (intr_stop_det hw dev) \<and> xfer_frame e (intr_stop_det hw dev)
      \<and> rdlen (intr_stop_det hw dev) = rdlen e \<and> status (intr_stop_det hw dev) = status e OR I2C_STATUS_DONE (codes e)"
    unfolding e using inv_status(1) [of tx W R e] step inv_write [of tx W R "e\<lparr>status := status e OR I2C_STATUS_DONE (codes e)\<rparr>" DW_IC_INTR_MASK 0]
    by (simp add: xfer_frame_def)
  with step a(2) show ?thesis by (auto simp: xfer_frame_def codes_ok_def or.commute)
qed

lemma intr_no_stop_inv:
  assumes "xfer_inv tx W R dev"
  shows "xfer_inv tx W R (fst (intr_no_stop hw dev)) \<and> xfer_frame dev (fst (intr_no_stop hw dev)) \<and>
         (snd (intr_no_stop hw dev) = EOK \<longrightarrow> rdlen (fst (intr_no_stop hw dev)) = rxlen dev \<and>
            wrlen (fst (intr_no_stop hw dev)) = xlen dev)"
proof -
  let ?p = "rx_poll hw (unat (rxlen dev) - unat (rdlen dev)) dev"
  let ?d = "fst (i2c_reg_read32 hw ?p DW_IC_STATUS)"
  let ?s = "?d\<lparr>status := status ?d OR I2C_STATUS_DONE (codes ?d)\<rparr>"
  have p: "xfer_inv tx W R ?p" "xfer_frame dev ?p" using rx_poll_inv [OF assms] by auto
  note d = inv_read [OF p(1), of DW_IC_STATUS hw, simplified]
  note s = inv_write [OF inv_status(1) [OF d(1), of "status ?d OR I2C_STATUS_DONE (codes ?d)"], of DW_IC_INTR_MASK 0, simplified]
  have le: "wrlen ?p \<le> xlen ?p" "rdlen ?p \<le> rxlen ?p" using p(1) by (simp_all add: xfer_inv_def)
  show ?thesis
    using p d s le by (auto simp: intr_no_stop_def case_prod_beta Let_def xfer_frame_def)
qed

lemma process_intr_inv:
  assumes "xfer_inv tx W R dev" "rxflr_small hw" "xfer_small dev" "codes_ok (codes dev)"
    and "dwc_i2c_process_intr hw dev = (dev', r)"
  shows "xfer_inv tx W R dev' \<and> xfer_frame dev dev' \<and>
         (r = EOK \<and> status dev' = I2C_STATUS_DONE (codes dev) \<longrightarrow> rdlen dev' = rxlen dev)"
proof -
  define d where "d = fst (i2c_reg_read32 hw dev DW_IC_INTR_STAT)"
  define st where "st = snd (i2c_reg_read32 hw dev DW_IC_INTR_STAT)"
  define d1 where "d1 = (if st AND DW_IC_INTR_RX_FULL \<noteq> 0 then intr_rx_full hw d else d)"
  define d2 where "d2 = (if st AND DW_IC_INTR_TX_EMPTY \<noteq> 0 then intr_tx_empty hw (unat (fifo_depth d1)) d1 else d1)"
  have d: "xfer_inv tx W R d" "xfer_frame dev d"
    using inv_read [OF assms(1), of DW_IC_INTR_STAT hw] by (simp_all add: d_def)
  have small: "xfer_small d" and ok: "codes_ok (codes d)"
    using d(2) assms(3,4) by (simp_all add: xfer_frame_def xfer_small_def)
  have r: "(dev', r) =
      (if st AND DW_IC_INTR_TX_ABRT \<noteq> 0 then (intr_abort hw d, EOK)
       else if st AND DW_IC_INTR_STOP_DET \<noteq> 0 then (intr_stop_det hw d, EOK)
       else if stop d2 = 0 then intr_no_stop hw d2 else (d2, EAGAIN))"
    unfolding assms(5) [symmetric]
    by (simp add: dwc_i2c_process_intr_def case_prod_beta Let_def d_def st_def d1_def d2_def)
  show ?thesis
  proof (cases "st AND DW_IC_INTR_TX_ABRT \<noteq> 0 \<or> st AND DW_IC_INTR_STOP_DET \<noteq> 0")
    case True
    with r intr_abort_inv [OF d(1), of hw] intr_abort_status [OF ok, of hw] intr_stop_det_inv [OF d(1), of hw] ok d(2)
    show ?thesis by (auto simp: xfer_frame_def split: if_splits)
  next
    case False
    have d1: "xfer_inv tx W R d1" "xfer_frame d d1"
      using intr_rx_full_inv [OF d(1) assms(2) small] d(1) by (auto simp: d1_def)
    have d2: "xfer_inv tx W R d2" "xfer_frame d1 d2"
      using intr_tx_empty_inv [OF d1(1)] d1(1) by (auto simp: d2_def)
    from r False have e: "(dev', r) = (if stop d2 = 0 then intr_no_stop hw d2 else (d2, EAGAIN))" by simp
    then show ?thesis
      using intr_no_stop_inv [OF d2(1), of hw] d2 d1(2) d(2)
      by (cases "intr_no_stop hw d2") (auto simp: xfer_frame_def split: if_splits)
  qed
qed

section \<open>Control operations do not touch the data\<close>

definition quiet :: "dwc_dev \<Rightarrow> dwc_dev \<Rightarrow> bool" where
  "quiet dev dev' \<longleftrightarrow> codes dev' = codes dev \<and> txlen dev' = txlen dev \<and> rxlen dev' = rxlen dev \<and>
     xlen dev' = xlen dev \<and> stop dev' = stop dev \<and> wrlen dev' = wrlen dev \<and> rdlen dev' = rdlen dev \<and>
     txbuf dev' = txbuf dev \<and> rxbuf dev' = rxbuf dev \<and> status dev' = status dev \<and>
     writes_of DW_IC_DATA_CMD (iolog dev') = writes_of DW_IC_DATA_CMD (iolog dev) \<and>
     reads_of DW_IC_DATA_CMD (iolog dev') = reads_of DW_IC_DATA_CMD (iolog dev) \<and>
     (restart dev = 0 \<longrightarrow> restart dev' = 0) \<and>
     slave_addr dev' = slave_addr dev \<and> slave_addr_fmt dev' = slave_addr_fmt dev"

lemma quiet_refl [simp]: "quiet dev dev"
  by (simp add: quiet_def)

lemma quiet_trans [trans]: "quiet a b \<Longrightarrow> quiet b c \<Longrightarrow> quiet a c"
  by (simp add: quiet_def)

lemma quiet_read: "r \<noteq> DW_IC_DATA_CMD \<Longrightarrow> quiet dev (fst (i2c_reg_read32 hw dev r))"
  by (simp add: quiet_def reg_defs)

lemma quiet_write: "r \<noteq> DW_IC_DATA_CMD \<Longrightarrow> quiet dev (i2c_reg_write32 dev r v)"
  by (simp add: quiet_def reg_defs)

lemma quiet_enable_loop: "quiet dev (fst (dwc_i2c_enable_loop hw n en dev))"
proof (induction n arbitrary: dev)
  case (Suc n)
  let ?d = "fst (i2c_reg_read32 hw (i2c_reg_write32 dev DW_IC_ENABLE en) DW_IC_ENABLE_STATUS)"
  have "quiet dev ?d" by (rule quiet_trans [OF quiet_write quiet_read]) simp_all
  with Suc.IH [of ?d] show ?case by (auto simp: case_prod_beta Let_def intro: quiet_trans)
qed simp

lemma quiet_enable: "quiet dev (fst (dwc_i2c_enable hw dev en))"
  by (simp add: dwc_i2c_enable_def quiet_enable_loop)

lemma quiet_wait_bus: "quiet dev (fst (wait_bus_loop hw n dev))"
proof (induction n arbitrary: dev)
  case 0
  show ?case using quiet_read [of DW_IC_STATUS dev hw] by (simp add: wait_bus_loop.simps case_prod_beta Let_def)
next
  case (Suc n)
  have "quiet dev (fst (i2c_reg_read32 hw dev DW_IC_STATUS))" by (rule quiet_read) simp
  with Suc.IH show ?case
    by (subst wait_bus_loop.simps) (auto simp: case_prod_beta Let_def intro: quiet_trans)
qed

lemma quiet_timing: "quiet dev (init_ss_timing dev)" "quiet dev (init_fs_timing dev)" "quiet dev (init_sda_hold hw dev)"
  by (simp_all add: init_ss_timing_def init_fs_timing_def init_sda_hold_def reg_defs quiet_def)

lemma quiet_fifo_threshold: "quiet dev (dwc_i2c_set_fifo_threshold hw dev)"
  by (simp add: dwc_i2c_set_fifo_threshold_def reg_defs quiet_def)

lemma quiet_bus_speed: "dwc_i2c_set_bus_speed dev s = Some (dev', o') \<Longrightarrow> quiet dev dev'"
  by (auto simp: dwc_i2c_set_bus_speed_def quiet_def split: if_splits)

lemma quiet_init_registers: "quiet dev (dwc_i2c_init_registers hw dev)"
proof -
  define d1 where "d1 = (if clock_khz dev = 0 then dev\<lparr>clock_khz := dwc_i2c_get_input_clock dev\<rparr> else dev)"
  define d2 where "d2 = init_sda_hold hw (init_fs_timing (init_ss_timing d1))"
  define d3 where "d3 = dwc_i2c_set_fifo_threshold hw d2"
  define d4 where "d4 = (case dwc_i2c_set_bus_speed d3 100000 of None \<Rightarrow> d3 | Some (d, _) \<Rightarrow> d)"
  have "quiet dev d1" by (simp add: d1_def quiet_def)
  also have "quiet d1 d2" unfolding d2_def by (blast intro: quiet_trans quiet_timing)
  also have "quiet d2 d3" unfolding d3_def by (rule quiet_fifo_threshold)
  also have "quiet d3 d4" unfolding d4_def by (auto split: option.splits intro: quiet_bus_speed)
  also have "quiet d4 (i2c_reg_write32 (fst (i2c_reg_read32 hw d4 DW_IC_CLR_INTR)) DW_IC_INTR_MASK 0)"
    by (rule quiet_trans [OF quiet_read quiet_write]) simp_all
  finally show ?thesis
    unfolding dwc_i2c_init_registers_def d4_def d3_def d2_def d1_def Let_def case_prod_beta .
qed

lemma quiet_reset_loop: "quiet dev (reset_loop hw n dev)"
proof (induction n arbitrary: dev)
  case (Suc n)
  let ?w = "i2c_reg_write32 (i2c_reg_write32 dev DW_IC_SOFT_RESET 0x00) DW_IC_SOFT_RESET 0x03"
  have w: "quiet dev ?w" by (rule quiet_trans [OF quiet_write quiet_write]) simp_all
  have "quiet dev (fst (dwc_i2c_enable hw ?w 0))" by (rule quiet_trans [OF w quiet_enable])
  with Suc.IH quiet_init_registers show ?case
    by (auto simp: case_prod_beta Let_def intro: quiet_trans)
qed simp

lemma quiet_reset: "quiet dev (dwc_i2c_reset hw dev)"
proof -
  let ?w = "(i2c_reg_write32 dev DW_IC_ENABLE (0x02 OR 0x01))\<lparr>active_no_stop := 0, restart := 0\<rparr>"
  have "quiet dev ?w" by (simp add: quiet_def reg_defs)
  from quiet_trans [OF quiet_trans [OF this quiet_enable] quiet_reset_loop] show ?thesis
    by (simp add: dwc_i2c_reset_def case_prod_beta Let_def)
qed

lemma quiet_busy_loop: "quiet (fst r) (fst (busy_loop hw n r))"
proof (induction n arbitrary: r)
  case (Suc n)
  let ?d = "if n = 0 then dwc_i2c_reset hw (fst r) else fst r"
  have "quiet (fst r) ?d" using quiet_reset by simp
  then have "quiet (fst r) (fst (dwc_i2c_wait_bus_not_busy hw ?d))"
    unfolding dwc_i2c_wait_bus_not_busy_def by (rule quiet_trans) (rule quiet_wait_bus)
  with Suc.IH [of "dwc_i2c_wait_bus_not_busy hw ?d"] show ?case
    by (auto simp: Let_def intro: quiet_trans)
qed simp

text \<open>Which commands and bytes a transaction has left on the bus, whatever the adapter's state is
  afterwards; \<open>rst\<close> says that the first command had to carry RESTART.\<close>

definition xfer_post :: "u8 list \<Rightarrow> u32 list \<Rightarrow> u8 list \<Rightarrow> bool \<Rightarrow> dwc_dev \<Rightarrow> bool" where
  "xfer_post tx W R rst dev \<longleftrightarrow> xfer_inv tx W R (dev\<lparr>restart := (if rst then 1 else 0)\<rparr>)"

lemma xfer_inv_post: "xfer_inv tx W R dev \<Longrightarrow> xfer_post tx W R (restart dev \<noteq> 0) dev"
  by (auto simp: xfer_inv_def xfer_post_def)

lemma xfer_post_quiet: "xfer_post tx W R rst dev \<Longrightarrow> quiet dev dev' \<Longrightarrow> xfer_post tx W R rst dev'"
  by (auto simp: xfer_post_def xfer_inv_def quiet_def)

lemma wait_complete_post:
  assumes "xfer_inv tx W R dev" "rxflr_small hw" "xfer_small dev" "codes_ok (codes dev)"
    and "dwc_i2c_wait_complete hw evs dev = Some (dev', ret)"
  shows "xfer_post tx W R (restart dev \<noteq> 0) dev' \<and> codes dev' = codes dev \<and> rxlen dev' = rxlen dev \<and>
         stop dev' = stop dev \<and> (ret = I2C_STATUS_DONE (codes dev) \<longrightarrow> rdlen dev' = rxlen dev)"
  using assms(1,3-5)
proof (induction evs arbitrary: dev)
  case Nil
  then show ?case by simp
next
  case (Cons ev evs)
  show ?case
  proof (cases ev)
    case False
    let ?d = "fst (i2c_reg_read32 hw dev DW_IC_STATUS)"
    have q: "quiet dev (dwc_i2c_reset hw ?d)" by (rule quiet_trans [OF quiet_read quiet_reset]) simp
    have e: "dev' = dwc_i2c_reset hw ?d" "ret = I2C_STATUS_DONE (codes dev') OR I2C_STATUS_ERROR (codes dev')"
      using Cons.prems(4) False by (auto simp: case_prod_beta Let_def)
    have c: "codes dev' = codes dev" "rxlen dev' = rxlen dev" "stop dev' = stop dev" using q e(1) by (simp_all add: quiet_def)
    moreover have "ret \<noteq> I2C_STATUS_DONE (codes dev)"
      using e(2) c(1) Cons.prems(3) by (simp add: codes_ok_def)
    ultimately show ?thesis using xfer_post_quiet [OF xfer_inv_post [OF Cons.prems(1)] q] e(1) by simp
  next
    case True
    obtain d r where pr: "dwc_i2c_process_intr hw dev = (d, r)" by (cases "dwc_i2c_process_intr hw dev")
    note inv = process_intr_inv [OF Cons.prems(1) assms(2) Cons.prems(2,3) pr]
    then have fr: "codes d = codes dev" "rxlen d = rxlen dev" "restart d = restart dev" "stop d = stop dev" by (simp_all add: xfer_frame_def)
    show ?thesis
    proof (cases r)
      case EAGAIN
      then have w: "dwc_i2c_wait_complete hw evs d = Some (dev', ret)" using Cons.prems(4) True pr by simp
      have "xfer_small d" "codes_ok (codes d)" using Cons.prems(2,3) fr by (simp_all add: xfer_small_def)
      from Cons.IH [OF _ this w] inv fr show ?thesis by simp
    next
      case EOK
      let ?e = "if status d AND (I2C_STATUS_ARBL (codes d) OR I2C_STATUS_ERROR (codes d)) \<noteq> 0
                then dwc_i2c_reset hw d else d"
      have "quiet d ?e" using quiet_reset by simp
      then have "quiet d (i2c_reg_write32 ?e DW_IC_INTR_MASK 0)" by (rule quiet_trans) (rule quiet_write, simp)
      moreover have "dev' = i2c_reg_write32 ?e DW_IC_INTR_MASK 0" and e: "ret = status dev'"
        using Cons.prems(4) True pr EOK by (auto simp: Let_def)
      ultimately have q: "quiet d dev'" by simp
      have "codes dev' = codes dev" "rxlen dev' = rxlen dev" "rdlen dev' = rdlen d" "ret = status d" "stop dev' = stop dev"
        using q e fr by (simp_all add: quiet_def)
      then show ?thesis using xfer_post_quiet [OF xfer_inv_post q] inv fr(3) EOK by simp
    qed
  qed
qed

lemma bus_active_quiet:
  assumes "dwc_i2c_bus_active hw dev = (dev', ok)"
  shows "quiet (dev\<lparr>restart := (if active_no_stop dev \<noteq> 0 then 1 else 0)\<rparr>) dev' \<or> \<not> ok \<and> quiet dev dev'"
    and "ok \<Longrightarrow> (restart dev' \<noteq> 0) = (active_no_stop dev \<noteq> 0)"
proof -
  let ?d1 = "dev\<lparr>restart := 0\<rparr>"
  let ?b = "busy_loop hw 4 (dwc_i2c_wait_bus_not_busy hw ?d1)"
  let ?e = "dwc_i2c_enable hw (fst ?b) 0"
  let ?t = "i2c_reg_write32 (fst ?e) DW_IC_TAR
     (if slave_addr_fmt (fst ?e) = I2C_ADDRFMT_7BIT then slave_addr (fst ?e) else slave_addr (fst ?e) OR 0x1000)"
  let ?a = "?t\<lparr>active_slave_addr := slave_addr ?t, active_slave_addr_fmt := slave_addr_fmt ?t\<rparr>"
  let ?c = "i2c_reg_write32 (i2c_reg_write32 ?a DW_IC_CON (master_cfg ?a)) DW_IC_INTR_MASK 0"
  let ?f = "dwc_i2c_enable hw ?c 1"
  have "quiet ?d1 (fst (dwc_i2c_wait_bus_not_busy hw ?d1))"
    unfolding dwc_i2c_wait_bus_not_busy_def by (rule quiet_wait_bus)
  then have b: "quiet ?d1 (fst ?b)" by (rule quiet_trans) (rule quiet_busy_loop)
  then have e: "quiet ?d1 (fst ?e)" by (rule quiet_trans) (rule quiet_enable)
  have "quiet (fst ?e) ?t" by (rule quiet_write) simp
  also have "quiet ?t ?a" by (simp add: quiet_def)
  also have "quiet ?a (i2c_reg_write32 ?a DW_IC_CON (master_cfg ?a))" by (rule quiet_write) simp
  also have "quiet \<dots> ?c" by (rule quiet_write) simp
  also have "quiet ?c (fst ?f)" by (rule quiet_enable)
  finally have f: "quiet ?d1 (fst ?f)" using e quiet_trans by blast
  have dev': "(dev', ok) =
    (if active_no_stop dev \<noteq> 0
     then if slave_addr dev \<noteq> active_slave_addr dev \<or> slave_addr_fmt dev \<noteq> active_slave_addr_fmt dev
          then (dwc_i2c_reset hw dev, False)
          else (i2c_reg_write32 (dev\<lparr>restart := 1\<rparr>) DW_IC_INTR_MASK 0, True)
     else if \<not> snd ?b then (fst ?b, False)
     else if \<not> snd ?e then (dwc_i2c_reset hw (fst ?e), False)
     else if \<not> snd ?f then (dwc_i2c_reset hw (fst ?f), False) else (fst ?f, True))"
    unfolding assms [symmetric] dwc_i2c_bus_active_def Let_def case_prod_beta by simp
  have w: "quiet (dev\<lparr>restart := 1\<rparr>) (i2c_reg_write32 (dev\<lparr>restart := 1\<rparr>) DW_IC_INTR_MASK 0)"
    "restart (i2c_reg_write32 (dev\<lparr>restart := 1\<rparr>) DW_IC_INTR_MASK 0) = 1"
    by (rule quiet_write) (simp_all add: reg_defs)
  show "quiet (dev\<lparr>restart := (if active_no_stop dev \<noteq> 0 then 1 else 0)\<rparr>) dev' \<or> \<not> ok \<and> quiet dev dev'"
    using dev' w(1) b quiet_trans [OF e quiet_reset] quiet_trans [OF f quiet_reset] f quiet_reset
    by (simp split: if_splits)
  have "restart (fst ?f) = 0" using f by (simp add: quiet_def)
  then show "ok \<Longrightarrow> (restart dev' \<noteq> 0) = (active_no_stop dev \<noteq> 0)"
    using dev' w(2) by (simp split: if_splits)
qed

section \<open>Transactions\<close>

definition xfer_start :: "u8 list \<Rightarrow> dwc_dev \<Rightarrow> bool" where
  "xfer_start tx dev \<longleftrightarrow> length tx = unat (txlen dev) \<and> unat (xlen dev) = unat (txlen dev) + unat (rxlen dev) \<and>
     wrlen dev = 0 \<and> rdlen dev = 0 \<and> rxbuf dev = [] \<and> (0 < txlen dev \<longrightarrow> txbuf dev = tx)"

abbreviation cmds_of :: "dwc_dev \<Rightarrow> u32 list" where
  "cmds_of dev \<equiv> writes_of DW_IC_DATA_CMD (iolog dev)"

abbreviation bytes_of :: "dwc_dev \<Rightarrow> u8 list" where
  "bytes_of dev \<equiv> map low_byte (reads_of DW_IC_DATA_CMD (iolog dev))"

lemma xfer_start_inv:
  assumes "xfer_start tx dev" "quiet (dev\<lparr>restart := r\<rparr>) dev' \<or> quiet dev dev'"
  shows "xfer_inv tx (cmds_of dev) (bytes_of dev) dev'"
  using assms by (auto simp: xfer_start_def xfer_inv_def quiet_def word_gt_0)

lemma transact_post:
  assumes "xfer_start tx dev" "rxflr_small hw" "xfer_small dev" "codes_ok (codes dev)"
    and "transact hw evs dev = Some (dev', ret)"
  shows "\<exists>rst. (rst \<longrightarrow> active_no_stop dev \<noteq> 0) \<and> xfer_post tx (cmds_of dev) (bytes_of dev) rst dev' \<and>
         ((\<exists>d. dwc_i2c_bus_active hw dev = (d, True)) \<longrightarrow> rst = (active_no_stop dev \<noteq> 0)) \<and>
         rxlen dev' = rxlen dev \<and> stop dev' = stop dev \<and> codes dev' = codes dev \<and>
         (ret = I2C_STATUS_DONE (codes dev) \<longrightarrow> rdlen dev' = rxlen dev)"
proof -
  obtain d1 ok where act: "dwc_i2c_bus_active hw dev = (d1, ok)" by (cases "dwc_i2c_bus_active hw dev")
  note q = bus_active_quiet [OF act]
  have same: "codes d1 = codes dev" "rxlen d1 = rxlen dev" "stop d1 = stop dev"
    using q(1) by (auto simp: quiet_def)
  have start: "xfer_inv tx (cmds_of dev) (bytes_of dev) d1"
    using xfer_start_inv [OF assms(1)] q(1) by blast
  show ?thesis
  proof (cases ok)
    case False
    then have e: "dev' = d1" "ret = I2C_STATUS_BUSY (codes d1)"
      using assms(5) act by (auto simp: transact_def Let_def)
    have z: "wrlen d1 = 0" using q(1) assms(1) by (auto simp: quiet_def xfer_start_def)
    have "xfer_post tx (cmds_of dev) (bytes_of dev) False d1"
      using start z by (simp add: xfer_post_def xfer_inv_def)
    moreover have "ret \<noteq> I2C_STATUS_DONE (codes dev)" using e(2) same(1) assms(4) by (simp add: codes_ok_def)
    ultimately show ?thesis using e(1) same act False by auto
  next
    case True
    define d2 where "d2 = i2c_reg_write32 d1 DW_IC_RX_TL 0"
    define d3 where "d3 = fst (i2c_reg_read32 hw d2 DW_IC_CLR_INTR)"
    define d4 where "d4 = i2c_reg_write32 d3 DW_IC_INTR_MASK DW_IC_INTR_DEFAULT_MASK"
    have i2: "xfer_inv tx (cmds_of dev) (bytes_of dev) d2" "xfer_frame d1 d2"
      using inv_write [OF start, of DW_IC_RX_TL 0] by (simp_all add: d2_def)
    have i3: "xfer_inv tx (cmds_of dev) (bytes_of dev) d3" "xfer_frame d2 d3"
      using inv_read [OF i2(1), of DW_IC_CLR_INTR hw] by (simp_all add: d3_def)
    have i4: "xfer_inv tx (cmds_of dev) (bytes_of dev) d4" "xfer_frame d3 d4"
      using inv_write [OF i3(1), of DW_IC_INTR_MASK DW_IC_INTR_DEFAULT_MASK] by (simp_all add: d4_def)
    have fr: "codes d4 = codes dev" "rxlen d4 = rxlen dev" "restart d4 = restart d1" "stop d4 = stop dev"
      using i2(2) i3(2) i4(2) same by (simp_all add: xfer_frame_def)
    obtain d5 where w: "dwc_i2c_wait_complete hw evs d4 = Some (d5, ret)" and
      dev': "dev' = (let d7 = (i2c_reg_write32 d5 DW_IC_INTR_MASK 0)\<lparr>active_no_stop :=
          (if ret = I2C_STATUS_DONE (codes (i2c_reg_write32 d5 DW_IC_INTR_MASK 0)) \<and>
              stop (i2c_reg_write32 d5 DW_IC_INTR_MASK 0) = 0 then 1 else 0)\<rparr>
        in if stop d7 \<noteq> 0 then fst (dwc_i2c_enable hw d7 0) else d7)"
      using assms(5) act True
      by (auto simp: transact_def Let_def case_prod_beta d2_def d3_def d4_def split: option.splits)
    have "xfer_small d4" "codes_ok (codes d4)" using assms(3,4) fr by (simp_all add: xfer_small_def)
    note post = wait_complete_post [OF i4(1) assms(2) this w]
    have x: "quiet d5 ((i2c_reg_write32 d5 DW_IC_INTR_MASK 0)\<lparr>active_no_stop := x\<rparr>)" for x
      by (simp add: quiet_def reg_defs)
    have "quiet d5 dev'" unfolding dev' Let_def by (rule if_split [THEN iffD2]) (intro conjI impI x quiet_trans [OF x quiet_enable])
    then have "xfer_post tx (cmds_of dev) (bytes_of dev) (restart d4 \<noteq> 0) dev'" "rdlen dev' = rdlen d5" "rxlen dev' = rxlen d5" "stop dev' = stop d5" "codes dev' = codes d5"
      using post xfer_post_quiet by (auto simp: quiet_def)
    moreover have "(restart d4 \<noteq> 0) = (active_no_stop dev \<noteq> 0)" using fr(3) q(2) True by simp
    ultimately show ?thesis using post fr by auto
  qed
qed

lemma xfer_post_facts:
  assumes "xfer_post tx W R rst dev"
  shows "cmds_of dev = W @ map (i2c_cmd tx (unat (rxlen dev)) (stop dev \<noteq> 0) rst) [0 ..< unat (wrlen dev)]"
    "unat (wrlen dev) \<le> length tx + unat (rxlen dev)" "bytes_of dev = R @ rxbuf dev"
    "length (rxbuf dev) = unat (rdlen dev)" "unat (rdlen dev) \<le> unat (rxlen dev)"
  using assms by (auto simp: xfer_post_def xfer_inv_def word_le_nat_alt)

lemma unat_checked_sum:
  fixes tlen rlen :: u32
  assumes "tlen \<le> 0xFFFFFFFF - rlen"
  shows "unat (tlen + rlen) = unat tlen + unat rlen"
proof (rule unat_add_u32)
  have b: "unat rlen \<le> 4294967295" using unat_u32_bound(2) [of rlen] by linarith
  then have "unat (0xFFFFFFFF - rlen) = 4294967295 - unat rlen" by (subst unat_sub_nat) simp_all
  then have "unat tlen \<le> 4294967295 - unat rlen" using assms by (simp add: word_le_nat_alt)
  with b show "unat tlen + unat rlen < 2 ^ 32" by simp
qed

lemma sendrecv_post:
  assumes "rxflr_small hw" "codes_ok (codes dev)" "unat rlen + 256 < 2 ^ 32" "length tx = unat tlen" "0 < tlen + rlen"
    and "dwc_i2c_sendrecv hw evs dev tx tlen rlen stp = Some (dev', ret)" "tlen \<le> 0xFFFFFFFF - rlen"
  shows "\<exists>n rst. n \<le> length tx + unat rlen \<and> (rst \<longrightarrow> active_no_stop dev \<noteq> 0) \<and>
           cmds_of dev' = cmds_of dev @ map (i2c_cmd tx (unat rlen) (stp \<noteq> 0) rst) [0 ..< n] \<and>
           bytes_of dev' = bytes_of dev @ rxbuf dev' \<and> length (rxbuf dev') \<le> unat rlen \<and>
           (ret = I2C_STATUS_DONE (codes dev) \<longrightarrow> length (rxbuf dev') = unat rlen) \<and> codes dev' = codes dev"
proof -
  define d where "d = dev\<lparr>txlen := tlen, rxlen := rlen, xlen := tlen + rlen, wrlen := 0, rdlen := 0,
                 txbuf := tx, rxbuf := [], stop := stp, status := 0\<rparr>"
  have sum: "unat (tlen + rlen) = unat tlen + unat rlen" by (rule unat_checked_sum [OF assms(7)])
  have tr: "transact hw evs d = Some (dev', ret)"
    using assms(5-7) by (auto simp: dwc_i2c_sendrecv_def d_def Let_def split: if_splits)
  have "xfer_start tx d" using assms(4) sum by (simp add: xfer_start_def d_def)
  from transact_post [OF this assms(1) _ _ tr] assms(2,3)
  obtain rst where rst: "rst \<longrightarrow> active_no_stop d \<noteq> 0" "xfer_post tx (cmds_of d) (bytes_of d) rst dev'"
    "rxlen dev' = rxlen d" "stop dev' = stop d" "codes dev' = codes d" "ret = I2C_STATUS_DONE (codes d) \<longrightarrow> rdlen dev' = rxlen d"
    by (auto simp: d_def xfer_small_def)
  from xfer_post_facts [OF rst(2)] rst show ?thesis
    by (intro exI [of _ "unat (wrlen dev')"] exI [of _ rst]) (simp add: d_def)
qed


lemma wait_complete_returns:
  "False \<in> set evs \<Longrightarrow> \<exists>r. dwc_i2c_wait_complete hw evs dev = Some r"
proof (induction evs arbitrary: dev)
  case (Cons ev evs)
  then show ?case
    by (cases ev) (auto simp: case_prod_beta Let_def split: prod.splits intr_result.splits)
qed simp

text \<open>A transfer always comes back: if one of the waits for an interrupt times out, as it
  does at the latest after the estimated time, the transaction has returned.\<close>

theorem sendrecv_returns:
  assumes "False \<in> set evs"
  shows "\<exists>r. dwc_i2c_sendrecv hw evs dev tx tlen rlen stp = Some r"
proof -
  have "\<exists>r. transact hw evs d = Some r" for d
  proof -
    obtain f where "\<And>d. dwc_i2c_wait_complete hw evs d = Some (f d)"
      using wait_complete_returns [OF assms] by metis
    then show ?thesis by (simp add: transact_def Let_def case_prod_beta)
  qed
  then show ?thesis by (auto simp: dwc_i2c_sendrecv_def Let_def)
qed

text \<open>The buffers the combined transfer of the resource manager works on are large
  enough for what is sent and for what is received, wherever they are: in the message buffer behind
  the headers, or in the buffer of the device, which has been enlarged if necessary.\<close>

theorem sendrecv_buffers_fit:
  assumes "sendrecv_buffers dev msg hdr malloc_ok = Inr (dev', tx, rx)"
  shows "(tx = DevBuf \<longrightarrow> h_send_len hdr \<le> d_buflen dev') \<and> (rx = DevBuf \<longrightarrow> h_recv_len hdr \<le> d_buflen dev') \<and>
         (tx = MsgBuf \<longrightarrow> sizeof_msg msg + sizeof_hdr msg + unat (h_send_len hdr) \<le> m_max_size msg) \<and>
         (rx = MsgBuf \<longrightarrow> sizeof_msg msg + sizeof_hdr msg + unat (h_recv_len hdr) \<le> m_max_size msg)"
  using assms
  by (auto simp: sendrecv_buffers_def Let_def word_le_nat_alt word_less_nat_alt split: if_splits)

lemma set_addr_same:
  assumes "dwc_i2c_set_slave_addr h addr fmt = Some h'"
  shows "iolog h' = iolog h \<and> codes h' = codes h"
  using assms by (auto simp: dwc_i2c_set_slave_addr_def split: i2c_addrfmt.splits if_splits)

lemma set_speed_same:
  assumes "dwc_i2c_set_bus_speed h s = Some (h', os)"
  shows "iolog h' = iolog h \<and> codes h' = codes h"
  using assms by (auto simp: dwc_i2c_set_bus_speed_def split: if_splits)

lemma sendrecv_run_reply:
  assumes "sendrecv_run hw evs dev ocb hdr tx = Some (dev', ocb', Inr (Reply_data n bs))"
    and "rxflr_small hw" "codes_ok (codes (d_hdl dev))" "unat (h_recv_len hdr) + 256 < 2 ^ 32"
    and "length tx = unat (h_send_len hdr)" "h_send_len hdr \<noteq> 0 \<or> h_recv_len hdr \<noteq> 0"
  shows "n = h_recv_len hdr \<and> length bs = unat (h_recv_len hdr) \<and>
         bytes_of (d_hdl dev') = bytes_of (d_hdl dev) @ bs"
proof -
  define sp where "sp = (if d_bus_speed dev \<noteq> o_bus_speed ocb
      then map_option (\<lambda>(h, _). dev\<lparr>d_hdl := h, d_bus_speed := o_bus_speed ocb\<rparr>)
             (dwc_i2c_set_bus_speed (d_hdl dev) (o_bus_speed ocb)) else Some dev)"
  obtain dev1 where dev1: "sp = Some dev1"
    using assms(1) by (cases sp) (simp_all add: sendrecv_run_def sp_def [symmetric])
  have same1: "iolog (d_hdl dev1) = iolog (d_hdl dev)" "codes (d_hdl dev1) = codes (d_hdl dev)"
    using dev1 set_speed_same by (fastforce simp: sp_def split: if_splits)+
  obtain h2 where h2: "dwc_i2c_set_slave_addr (d_hdl dev1) (h_addr hdr) (h_fmt hdr) = Some h2"
    using assms(1) dev1
    by (cases "dwc_i2c_set_slave_addr (d_hdl dev1) (h_addr hdr) (h_fmt hdr)")
       (simp_all add: sendrecv_run_def sp_def [symmetric])
  note same2 = set_addr_same [OF h2]
  have run: "h_send_len hdr \<le> 0xFFFFFFFF - h_recv_len hdr"
    using assms(1) dev1 h2 by (auto simp: sendrecv_run_def sp_def [symmetric] Let_def split: if_splits)
  show ?thesis
  proof (cases "h_send_len hdr + h_recv_len hdr > 0")
    case True
    obtain h3 where sr: "dwc_i2c_sendrecv hw evs h2 tx (h_send_len hdr) (h_recv_len hdr) (h_stop hdr) =
        Some (h3, I2C_STATUS_DONE (codes h3))" and out: "n = h_recv_len hdr" "bs = rxbuf h3" "d_hdl dev' = h3"
      using assms(1) dev1 h2 run True
      by (auto simp: sendrecv_run_def sp_def [symmetric] Let_def split: option.splits if_splits)
    from sendrecv_post [OF assms(2) _ assms(4,5) True sr run] same1 same2 assms(3) out
    show ?thesis by auto
  next
    case False
    then have "unat (h_send_len hdr + h_recv_len hdr) = 0" by (simp add: word_gt_0)
    then show ?thesis using unat_checked_sum [OF run] assms(6) by (simp add: unat_eq_zero)
  qed
qed

text \<open>Claim C13. A successful combined transfer replies with exactly the requested number of bytes, and
  they are bytes that were read from the controller during the transfer.\<close>

theorem master_sendrecv_reply:
  assumes "i2c_master_sendrecv hw evs dev ocb msg hdr malloc_ok msgread = Some (dev', ocb', Inr (Reply_data n bs))"
    and "rxflr_small hw" "codes_ok (codes (d_hdl dev))" "unat (h_recv_len hdr) + 256 < 2 ^ 32"
    and "length (m_data msg) = unat (h_send_len hdr)" "length (snd msgread) = unat (h_send_len hdr)"
  shows "n = h_recv_len hdr \<and> length bs = unat (h_recv_len hdr) \<and>
         bytes_of (d_hdl dev') = bytes_of (d_hdl dev) @ bs"
proof -
  obtain dev1 tx where run: "sendrecv_run hw evs dev1 ocb hdr tx = Some (dev', ocb', Inr (Reply_data n bs))"
    and tx: "length tx = unat (h_send_len hdr)" and nz: "h_send_len hdr \<noteq> 0 \<or> h_recv_len hdr \<noteq> 0"
    and same: "d_hdl dev1 = d_hdl dev"
    using assms(1,5,6)
    by (auto simp: i2c_master_sendrecv_def sendrecv_buffers_def Let_def split: if_splits sum.splits)
  show ?thesis using sendrecv_run_reply [OF run assms(2) _ assms(4) tx nz] assms(3) same by simp
qed

section \<open>Addressing and timing\<close>

lemma enable_loop_log:
  "\<exists>L. fst (dwc_i2c_enable_loop hw n en dev) = dev\<lparr>iolog := L @ iolog dev\<rparr> \<and>
       (\<forall>r. r \<noteq> DW_IC_ENABLE \<longrightarrow> writes_of r L = []) \<and>
       (snd (dwc_i2c_enable_loop hw n en dev) \<longrightarrow>
          writes_of DW_IC_ENABLE L \<noteq> [] \<and> last (writes_of DW_IC_ENABLE L) = en \<and>
          reads_of DW_IC_ENABLE_STATUS L \<noteq> [] \<and> last (reads_of DW_IC_ENABLE_STATUS L) AND 1 = en)"
proof (induction n arbitrary: dev)
  case 0
  show ?case by (intro exI [of _ "[]"]) simp
next
  case (Suc n)
  let ?v = "hw (WR DW_IC_ENABLE en # iolog dev) DW_IC_ENABLE_STATUS"
  let ?A = "[RD DW_IC_ENABLE_STATUS ?v, WR DW_IC_ENABLE en]"
  let ?d = "dev\<lparr>iolog := ?A @ iolog dev\<rparr>"
  have st: "i2c_reg_read32 hw (i2c_reg_write32 dev DW_IC_ENABLE en) DW_IC_ENABLE_STATUS = (?d, ?v)"
    by (simp add: reg_defs)
  show ?case
  proof (cases "?v AND 1 = en")
    case True
    then show ?thesis using st by (intro exI [of _ ?A]) simp
  next
    case False
    from Suc.IH [of ?d] obtain L where L: "fst (dwc_i2c_enable_loop hw n en ?d) = ?d\<lparr>iolog := L @ iolog ?d\<rparr>"
      "\<forall>r. r \<noteq> DW_IC_ENABLE \<longrightarrow> writes_of r L = []"
      "snd (dwc_i2c_enable_loop hw n en ?d) \<longrightarrow> writes_of DW_IC_ENABLE L \<noteq> [] \<and> last (writes_of DW_IC_ENABLE L) = en \<and>
          reads_of DW_IC_ENABLE_STATUS L \<noteq> [] \<and> last (reads_of DW_IC_ENABLE_STATUS L) AND 1 = en" by blast
    have e: "dwc_i2c_enable_loop hw (Suc n) en dev = dwc_i2c_enable_loop hw n en ?d" using st False by simp
    show ?thesis unfolding e using L by (intro exI [of _ "L @ ?A"]) auto
  qed
qed

lemmas enable_log = enable_loop_log [of hw 1001, folded dwc_i2c_enable_def] for hw

text \<open>When a transaction that does not continue another one has got the bus, the
  controller has been told the slave address in the format asked for, the configuration in
  \<open>master_cfg\<close>, no interrupt is enabled, and the adapter has reported that it is on.\<close>

theorem bus_active_programs_target:
  assumes "dwc_i2c_bus_active hw dev = (dev', True)" "active_no_stop dev = 0"
  shows "last (writes_of DW_IC_TAR (iolog dev')) =
           (if slave_addr_fmt dev = I2C_ADDRFMT_7BIT then slave_addr dev else slave_addr dev OR 0x1000) \<and>
         active_slave_addr dev' = slave_addr dev \<and> active_slave_addr_fmt dev' = slave_addr_fmt dev \<and>
         last (writes_of DW_IC_CON (iolog dev')) = master_cfg dev' \<and>
         last (writes_of DW_IC_INTR_MASK (iolog dev')) = 0 \<and>
         last (reads_of DW_IC_ENABLE_STATUS (iolog dev')) AND 1 = 1"
proof -
  let ?d1 = "dev\<lparr>restart := 0\<rparr>"
  define b where "b = busy_loop hw 4 (dwc_i2c_wait_bus_not_busy hw ?d1)"
  define e where "e = dwc_i2c_enable hw (fst b) 0"
  define v where "v = (if slave_addr_fmt (fst e) = I2C_ADDRFMT_7BIT then slave_addr (fst e) else slave_addr (fst e) OR 0x1000)"
  define c where "c = (fst e)\<lparr>active_slave_addr := slave_addr (fst e), active_slave_addr_fmt := slave_addr_fmt (fst e),
     iolog := WR DW_IC_INTR_MASK 0 # WR DW_IC_CON (master_cfg (fst e)) # WR DW_IC_TAR v # iolog (fst e)\<rparr>"
  define f where "f = dwc_i2c_enable hw c 1"
  have "quiet ?d1 (fst (dwc_i2c_wait_bus_not_busy hw ?d1))"
    unfolding dwc_i2c_wait_bus_not_busy_def by (rule quiet_wait_bus)
  then have "quiet ?d1 (fst b)" unfolding b_def by (rule quiet_trans) (rule quiet_busy_loop)
  then have "quiet ?d1 (fst e)" unfolding e_def by (rule quiet_trans) (rule quiet_enable)
  then have ad: "slave_addr (fst e) = slave_addr dev" "slave_addr_fmt (fst e) = slave_addr_fmt dev"
    by (simp_all add: quiet_def)
  have "(dev', True) = (if \<not> snd b then (fst b, False) else if \<not> snd e then (dwc_i2c_reset hw (fst e), False)
     else if \<not> snd f then (dwc_i2c_reset hw (fst f), False) else (fst f, True))"
    unfolding assms(1) [symmetric] f_def c_def v_def e_def b_def
    using assms(2) by (simp add: dwc_i2c_bus_active_def Let_def case_prod_beta reg_defs)
  then have f: "dev' = fst f" "snd f" by (auto split: if_splits)
  from enable_log [where hw = hw and en = 1 and dev = c] f obtain L where L: "dev' = c\<lparr>iolog := L @ iolog c\<rparr>"
    "\<forall>r. r \<noteq> DW_IC_ENABLE \<longrightarrow> writes_of r L = []" "reads_of DW_IC_ENABLE_STATUS L \<noteq> []"
    "last (reads_of DW_IC_ENABLE_STATUS L) AND 1 = 1"
    by (auto simp: f_def)
  show ?thesis using L ad by (simp add: c_def v_def)
qed

text \<open>An address is accepted exactly if it fits the format; the format bit of the
  configuration follows it, and a refused call changes nothing.\<close>

theorem set_slave_addr_valid:
  "(\<exists>dev'. dwc_i2c_set_slave_addr dev addr fmt = Some dev' \<and> slave_addr dev' = addr \<and> slave_addr_fmt dev' = fmt \<and>
      (bit (master_cfg dev') 4 \<longleftrightarrow> fmt = I2C_ADDRFMT_10BIT) \<and>
      unset_bit 4 (master_cfg dev') = unset_bit 4 (master_cfg dev))
   \<longleftrightarrow> fmt = I2C_ADDRFMT_7BIT \<and> unat addr < 128 \<or> fmt = I2C_ADDRFMT_10BIT \<and> unat addr < 1024"
proof -
  have m: "x AND - 17 = unset_bit 4 x" "x OR 16 = set_bit 4 x" for x :: u32
    by (simp_all add: unset_bit_eq_and_not set_bit_eq_or)
  have "i < 32" if "bit (master_cfg dev) i" for i using bit_imp_le_length [OF that] by simp
  moreover have "unset_bit 4 (unset_bit 4 x) = unset_bit 4 x" "unset_bit 4 (set_bit 4 x) = unset_bit 4 x" for x :: u32
    by (rule bit_eqI, auto simp: bit_unset_bit_iff bit_set_bit_iff)+
  ultimately show ?thesis
    by (cases fmt)
       (auto simp: dwc_i2c_set_slave_addr_def word_less_nat_alt m bit_unset_bit_iff bit_set_bit_iff)
qed

text \<open>Claim C14. The SCL counters: without 32-bit overflow, the high period that the controller makes
  of the computed count (the count plus three cycles) is the requested time within half a clock
  cycle, and likewise the low period (the count plus one cycle). Times are in units of 1 ns at a
  clock in kHz, that is, scaled by a million.\<close>

theorem scl_counts_accurate:
  assumes "unat clk * (unat t + unat tf) + 500000 < 2 ^ 32" "3000000 \<le> unat clk * (unat t + unat tf)"
  defines "want \<equiv> unat clk * (unat t + unat tf)"
  shows "(unat (i2c_dw_scl_hcnt clk t tf False 0) + 3) * 1000000 \<le> want + 500000 \<and>
         want < (unat (i2c_dw_scl_hcnt clk t tf False 0) + 3) * 1000000 + 500000 \<and>
         (unat (i2c_dw_scl_lcnt clk t tf 0) + 1) * 1000000 \<le> want + 500000 \<and>
         want < (unat (i2c_dw_scl_lcnt clk t tf 0) + 1) * 1000000 + 500000"
proof -
  have pos: "1 \<le> unat clk" using assms(2) by (cases "unat clk") auto
  then have "unat t + unat tf \<le> unat clk * (unat t + unat tf)" by (cases "unat clk") auto
  then have s: "unat (t + tf) = unat t + unat tf" using assms(1) by (intro unat_add_u32) linarith
  have "unat clk * unat (t + tf) < 2 ^ 32" using assms(1) unfolding s by linarith
  then have p: "unat (clk * (t + tf)) = want"
    using s by (simp add: want_def unat_mult_lem [where ?'a = 32, THEN iffD1])
  then have q: "unat (clk * (t + tf) + 500000) = want + 500000"
    using assms(1) by (subst unat_add_u32) (simp_all add: want_def)
  let ?q = "(want + 500000) div 1000000"
  have d: "unat ((clk * (t + tf) + 500000) div 1000000) = ?q" by (simp add: unat_div q)
  have "3 \<le> ?q" using assms(2) by (simp add: want_def)
  then have h: "unat (i2c_dw_scl_hcnt clk t tf False 0) + 3 = ?q" "unat (i2c_dw_scl_lcnt clk t tf 0) + 1 = ?q"
    by (simp_all add: i2c_dw_scl_hcnt_def i2c_dw_scl_lcnt_def unat_sub_nat d)
  have "?q * 1000000 \<le> want + 500000" "want + 500000 < ?q * 1000000 + 1000000"
    using div_mult_mod_eq [of "want + 500000" 1000000] mod_less_divisor [of 1000000 "want + 500000"] by linarith+
  with h show ?thesis by simp
qed

end
