(* ===== verification/I2c_Witness.thy ===== *)
theory I2c_Witness
  imports I2c_Proofs
begin

text \<open>
  A controller that works: it follows the enable bit, raises TX_EMPTY until commands have been
  written and STOP_DET afterwards, and has one received byte to offer.
\<close>

definition demo_hw :: device where
  "demo_hw log r =
     (if r = 0x9c then (case writes_of 0x6c log of [] \<Rightarrow> 0 | vs \<Rightarrow> last vs AND 1)
      else if r = 0x2c then (if writes_of 0x10 log = [] then 0x10 else 0x200)
      else if r = 0x70 then 0x6
      else if r = 0x78 then 1
      else if r = 0x10 then 0x5A
      else 0)"

definition demo_codes :: i2c_codes where
  "demo_codes = \<lparr>I2C_STATUS_DONE = 1, I2C_STATUS_ERROR = 2, I2C_STATUS_ADDR_NACK = 4, I2C_STATUS_DATA_NACK = 8,
     I2C_STATUS_ARBL = 16, I2C_STATUS_BUSY = 32, I2C_STATUS_ABORT = 64\<rparr>"

definition demo_dev :: dwc_dev where
  "demo_dev = \<lparr>iolog = [], codes = demo_codes, pbase = 0, irq = 0xa8, iid = 1, slave_addr = 0x50,
     slave_addr_fmt = I2C_ADDRFMT_7BIT, fast = \<lparr>high = 600, low = 1300, fall = 300\<rparr>,
     std = \<lparr>high = 4700, low = 4700, fall = 100\<rparr>, clock_khz = 200000, ss_hcnt = 0, ss_lcnt = 0, fs_hcnt = 0,
     fs_lcnt = 0, scl_freq = 100000, sda_hold_time = 0, txbuf = [], rxbuf = [], xlen = 0, txlen = 0, rxlen = 0,
     wrlen = 0, rdlen = 0, stop = 0, active_no_stop = 0, restart = 0, active_slave_addr = 0,
     active_slave_addr_fmt = I2C_ADDRFMT_7BIT, verbose = 0, master_cfg = 0x63, status = 0, abort_source = 0,
     fifo_depth = 16, fixed_scl = 0\<rparr>"

lemma demo_hw_small: "rxflr_small demo_hw"
  by (simp add: rxflr_small_def demo_hw_def)

lemma demo_codes_ok: "codes_ok (codes demo_dev)"
  by (simp add: codes_ok_def demo_dev_def demo_codes_def)

definition demo_result :: "(dwc_dev \<times> u32) option" where
  "demo_result = dwc_i2c_sendrecv demo_hw [True, True] demo_dev [0x12] 1 1 1"

lemma demo_done: "map_option (\<lambda>(d, r). (rxbuf d, cmds_of d, r)) demo_result = Some ([0x5A], [0x12, 0x700], 1)"
  by code_simp


theorem sendrecv_returns_witness:
  "\<exists>r. dwc_i2c_sendrecv demo_hw [True, False] demo_dev [0x12] 1 1 1 = Some r"
  by (rule sendrecv_returns) simp

definition demo_i2c :: i2c_dev where
  "demo_i2c = \<lparr>d_buf = False, d_buflen = 0, d_bus_speed = 100000, d_hdl = demo_dev, d_times = False\<rparr>"

definition demo_msg :: i2c_msg where
  "demo_msg = \<lparr>m_nbytes = 21, m_max_size = 100, m_data = [0x12], sizeof_msg = 16, sizeof_hdr = 20\<rparr>"

definition demo_hdr :: i2c_sendrecv_hdr where
  "demo_hdr = \<lparr>h_addr = 0x50, h_fmt = I2C_ADDRFMT_7BIT, h_send_len = 1, h_recv_len = 1, h_stop = 1\<rparr>"

theorem sendrecv_buffers_fit_witness:
  "sendrecv_buffers demo_i2c demo_msg demo_hdr True = Inr (demo_i2c, MsgBuf, MsgBuf) \<and>
   sizeof_msg demo_msg + sizeof_hdr demo_msg + unat (h_recv_len demo_hdr) \<le> m_max_size demo_msg"
proof -
  have e: "sendrecv_buffers demo_i2c demo_msg demo_hdr True = Inr (demo_i2c, MsgBuf, MsgBuf)"
    by (simp add: sendrecv_buffers_def demo_i2c_def demo_msg_def demo_hdr_def)
  with sendrecv_buffers_fit [OF e] show ?thesis by blast
qed

lemma demo_reply:
  "map_option (\<lambda>(_, _, r). r) (i2c_master_sendrecv demo_hw [True, True] demo_i2c \<lparr>o_bus_speed = 100000, o_status = 0\<rparr>
     demo_msg demo_hdr True (0, [0])) = Some (Inr (Reply_data 1 [0x5A]))"
  by code_simp

theorem master_sendrecv_reply_witness:
  "\<exists>dev' ocb'. i2c_master_sendrecv demo_hw [True, True] demo_i2c \<lparr>o_bus_speed = 100000, o_status = 0\<rparr>
     demo_msg demo_hdr True (0, [0]) = Some (dev', ocb', Inr (Reply_data 1 [0x5A])) \<and>
     bytes_of (d_hdl dev') = [0x5A]"
proof -
  obtain dev' ocb' where e: "i2c_master_sendrecv demo_hw [True, True] demo_i2c \<lparr>o_bus_speed = 100000, o_status = 0\<rparr>
      demo_msg demo_hdr True (0, [0]) = Some (dev', ocb', Inr (Reply_data 1 [0x5A]))"
    using demo_reply by (cases "i2c_master_sendrecv demo_hw [True, True] demo_i2c
      \<lparr>o_bus_speed = 100000, o_status = 0\<rparr> demo_msg demo_hdr True (0, [0])") auto
  have "codes_ok (codes (d_hdl demo_i2c))" "iolog (d_hdl demo_i2c) = []"
    using demo_codes_ok by (simp_all add: demo_i2c_def demo_dev_def)
  from master_sendrecv_reply [OF e demo_hw_small this(1)] this(2) e show ?thesis
    by (simp add: demo_hdr_def demo_msg_def)
qed

theorem bus_active_programs_target_witness:
  "\<exists>dev'. dwc_i2c_bus_active demo_hw demo_dev = (dev', True) \<and> last (writes_of DW_IC_TAR (iolog dev')) = 0x50"
proof -
  have "snd (dwc_i2c_bus_active demo_hw demo_dev)" by code_simp
  then obtain dev' where e: "dwc_i2c_bus_active demo_hw demo_dev = (dev', True)"
    by (cases "dwc_i2c_bus_active demo_hw demo_dev") auto
  with bus_active_programs_target [OF e] show ?thesis by (simp add: demo_dev_def)
qed

text \<open>The standard-mode timing of this board: 200 MHz, 4.7 us and 0.1 us.\<close>

theorem scl_counts_accurate_witness:
  "960000000 < (unat (i2c_dw_scl_hcnt 200000 4700 100 False 0) + 3) * 1000000 + 500000"
  using scl_counts_accurate [of 200000 4700 100] by simp

end
