(* ===== verification/Spi.thy ===== *)
theory Spi
  imports Mmio Clib
begin

text \<open>
  The driver for the DesignWare SPI controller, \<open>spi/dwc\<close>: configuration, the FIFO routines, the
  interrupt routine and the exchange.

  \<^item> \<open>dw_spi\<close> is \<open>dw_spi_t\<close> on top of the log of register accesses. \<open>pbuf\<close> is the transfer buffer as
    an array of data items of the width that \<open>dscale\<close> selects; it is read for sending and written
    with what is received. A store behind its end sets \<open>overrun\<close>, a read behind its end \<open>overread\<close>.
  \<^item> The build for this board has no DMA. Waiting for the semaphore is outside: the outcomes are an
    argument, \<open>True\<close> for a posted event and \<open>False\<close> for a time-out.
  \<^item> The bits of \<open>cfg->mode\<close> are declared in a system header: the word width and the two mode flags
    are fields of the configuration.
\<close>

section \<open>Registers and state\<close>

abbreviation (input) DW_SPI_CTRLR0 :: u32 where "DW_SPI_CTRLR0 \<equiv> 0x00"
abbreviation (input) DW_SPI_CTRLR1 :: u32 where "DW_SPI_CTRLR1 \<equiv> 0x04"
abbreviation (input) DW_SPI_SSIENR :: u32 where "DW_SPI_SSIENR \<equiv> 0x08"
abbreviation (input) DW_SPI_SER :: u32 where "DW_SPI_SER \<equiv> 0x10"
abbreviation (input) DW_SPI_BAUDR :: u32 where "DW_SPI_BAUDR \<equiv> 0x14"
abbreviation (input) DW_SPI_TXFTLR :: u32 where "DW_SPI_TXFTLR \<equiv> 0x18"
abbreviation (input) DW_SPI_RXFTLR :: u32 where "DW_SPI_RXFTLR \<equiv> 0x1c"
abbreviation (input) DW_SPI_RXFLR :: u32 where "DW_SPI_RXFLR \<equiv> 0x24"
abbreviation (input) DW_SPI_SR :: u32 where "DW_SPI_SR \<equiv> 0x28"
abbreviation (input) DW_SPI_IMR :: u32 where "DW_SPI_IMR \<equiv> 0x2c"
abbreviation (input) DW_SPI_TXOICR :: u32 where "DW_SPI_TXOICR \<equiv> 0x38"
abbreviation (input) DW_SPI_RXOICR :: u32 where "DW_SPI_RXOICR \<equiv> 0x3c"
abbreviation (input) DW_SPI_RXUICR :: u32 where "DW_SPI_RXUICR \<equiv> 0x40"
abbreviation (input) DW_SPI_ICR :: u32 where "DW_SPI_ICR \<equiv> 0x48"
abbreviation (input) DW_SPI_DMACR :: u32 where "DW_SPI_DMACR \<equiv> 0x4c"
abbreviation (input) DW_SPI_VERSION :: u32 where "DW_SPI_VERSION \<equiv> 0x5c"
abbreviation (input) DW_SPI_DR :: u32 where "DW_SPI_DR \<equiv> 0x60"

record dw_spi = bus +
  input_clk :: u64
  pbuf :: "u32 list"
  xlen :: u32
  tlen :: u32
  rlen :: u32
  dlen :: u32
  dscale :: u32
  xtime_us :: u64
  loopback :: bool
  cr0 :: u32
  cs_max :: u32
  sste :: bool
  fifo_len :: u32
  overrun :: bool
  overread :: bool

record spi_cfg =
  cfg_nbits :: u32
  cfg_cpol :: bool
  cfg_cpha :: bool
  cfg_clock_rate :: u32

record spi_devinfo =
  devno :: int
  cfg :: spi_cfg
  current_clkrate :: u32

datatype spi_status = EOK | EINVAL | EBUSY | EIO | ETIMEDOUT

datatype spi_intr = SPI_INTR_DONE | SPI_INTR_CONTINUE | SPI_INTR_ERR

definition dw_read32 :: "device \<Rightarrow> dw_spi \<Rightarrow> u32 \<Rightarrow> dw_spi \<times> u32" where
  "dw_read32 hw spi offset = mmio_read hw offset spi"

definition dw_write32 :: "dw_spi \<Rightarrow> u32 \<Rightarrow> u32 \<Rightarrow> dw_spi" where
  "dw_write32 spi offset v = mmio_write offset v spi"

section \<open>Basic control\<close>

definition dw_spi_busy :: "device \<Rightarrow> dw_spi \<Rightarrow> dw_spi \<times> bool" where
  "dw_spi_busy hw spi = (let (spi1, v) = dw_read32 hw spi DW_SPI_SR in (spi1, v AND 1 \<noteq> 0))"

definition dw_spi_enable :: "dw_spi \<Rightarrow> u32 \<Rightarrow> dw_spi" where
  "dw_spi_enable spi v = dw_write32 spi DW_SPI_SSIENR v"

definition dw_spi_deselect_slave :: "device \<Rightarrow> dw_spi \<Rightarrow> dw_spi \<times> bool" where
  "dw_spi_deselect_slave hw spi =
     (let (spi1, busy) = dw_spi_busy hw spi
      in if busy then (spi1, False) else (dw_write32 spi1 DW_SPI_SER 0, True))"

definition dw_spi_select_slave :: "device \<Rightarrow> dw_spi \<Rightarrow> nat \<Rightarrow> dw_spi \<times> bool" where
  "dw_spi_select_slave hw spi slv =
     (let (spi1, busy) = dw_spi_busy hw spi
      in if busy then (spi1, False) else (dw_write32 spi1 DW_SPI_SER (ucast (push_bit slv (1 :: u64))), True))"

definition dw_device_reset :: "dw_spi \<Rightarrow> dw_spi" where
  "dw_device_reset spi = dw_spi_enable (dw_spi_enable spi 0) 1"

section \<open>The FIFO\<close>

text \<open>Item \<open>i\<close> of the buffer to the data register, and the other way round.\<close>

definition put_item :: "dw_spi \<Rightarrow> nat \<Rightarrow> dw_spi" where
  "put_item spi i =
     (if i < length (pbuf spi) then dw_write32 spi DW_SPI_DR (pbuf spi ! i) else spi\<lparr>overread := True\<rparr>)"

definition get_item :: "device \<Rightarrow> (u32 \<Rightarrow> u32) \<Rightarrow> dw_spi \<Rightarrow> nat \<Rightarrow> dw_spi" where
  "get_item hw cast spi i =
     (let (spi1, v) = dw_read32 hw spi DW_SPI_DR
      in if i < length (pbuf spi1) then spi1\<lparr>pbuf := (pbuf spi1)[i := cast v]\<rparr> else spi1\<lparr>overrun := True\<rparr>)"

fun write_loop :: "dw_spi \<Rightarrow> nat \<Rightarrow> nat \<Rightarrow> dw_spi" where
  "write_loop spi i 0 = spi"
| "write_loop spi i (Suc n) = write_loop (put_item spi i) (Suc i) n"

fun read_loop :: "device \<Rightarrow> (u32 \<Rightarrow> u32) \<Rightarrow> dw_spi \<Rightarrow> nat \<Rightarrow> nat \<Rightarrow> dw_spi" where
  "read_loop hw cast spi i 0 = spi"
| "read_loop hw cast spi i (Suc n) = read_loop hw cast (get_item hw cast spi i) (Suc i) n"

definition dw_read_fifo_uint8 :: "device \<Rightarrow> dw_spi \<Rightarrow> nat \<Rightarrow> u32 \<Rightarrow> dw_spi" where
  "dw_read_fifo_uint8 hw spi i len = read_loop hw (\<lambda>v. v AND 0xFF) spi i (unat len)"

definition dw_write_fifo_uint8 :: "dw_spi \<Rightarrow> nat \<Rightarrow> u32 \<Rightarrow> dw_spi" where
  "dw_write_fifo_uint8 spi i len = write_loop spi i (unat len)"

definition dw_read_fifo_uint16 :: "device \<Rightarrow> dw_spi \<Rightarrow> nat \<Rightarrow> u32 \<Rightarrow> dw_spi" where
  "dw_read_fifo_uint16 hw spi i len = read_loop hw (\<lambda>v. v AND 0xFFFF) spi i (unat len)"

definition dw_write_fifo_uint16 :: "dw_spi \<Rightarrow> nat \<Rightarrow> u32 \<Rightarrow> dw_spi" where
  "dw_write_fifo_uint16 spi i len = write_loop spi i (unat len)"

definition dw_read_fifo_uint32 :: "device \<Rightarrow> dw_spi \<Rightarrow> nat \<Rightarrow> u32 \<Rightarrow> dw_spi" where
  "dw_read_fifo_uint32 hw spi i len = read_loop hw (\<lambda>v. v) spi i (unat len)"

definition dw_write_fifo_uint32 :: "dw_spi \<Rightarrow> nat \<Rightarrow> u32 \<Rightarrow> dw_spi" where
  "dw_write_fifo_uint32 spi i len = write_loop spi i (unat len)"

definition dw_write_fifo :: "dw_spi \<Rightarrow> u32 \<Rightarrow> dw_spi" where
  "dw_write_fifo spi len =
     (if dscale spi = 0 then dw_write_fifo_uint8 spi (unat (tlen spi)) len
      else if dscale spi = 1 then dw_write_fifo_uint16 spi (unat (tlen spi)) len
      else if dscale spi = 2 then dw_write_fifo_uint32 spi (unat (tlen spi)) len
      else spi)"

definition dw_read_fifo :: "device \<Rightarrow> dw_spi \<Rightarrow> u32 \<Rightarrow> dw_spi" where
  "dw_read_fifo hw spi len =
     (if dscale spi = 0 then dw_read_fifo_uint8 hw spi (unat (rlen spi)) len
      else if dscale spi = 1 then dw_read_fifo_uint16 hw spi (unat (rlen spi)) len
      else if dscale spi = 2 then dw_read_fifo_uint32 hw spi (unat (rlen spi)) len
      else spi)"

section \<open>The interrupt routine\<close>

definition intr_stop :: "dw_spi \<Rightarrow> dw_spi" where
  "intr_stop spi = dw_write32 (dw_spi_enable spi 0) DW_SPI_IMR 0"

definition intr_refill :: "dw_spi \<Rightarrow> u32 \<Rightarrow> dw_spi" where
  "intr_refill spi len =
     (if tlen spi < xlen spi
      then let n = min len (xlen spi - tlen spi); spi1 = dw_write_fifo spi n
           in spi1\<lparr>tlen := tlen spi1 + n\<rparr>
      else spi)"

definition intr_thresholds :: "device \<Rightarrow> dw_spi \<Rightarrow> dw_spi" where
  "intr_thresholds hw spi =
     (if tlen spi \<ge> xlen spi
      then let (spi1, im) = dw_read32 hw spi DW_SPI_IMR;
               spi2 = dw_write32 spi1 DW_SPI_IMR (im AND NOT 1 AND NOT 2);
               minlen = min (xlen spi2 - rlen spi2) (fifo_len spi2 div 2)
           in dw_write32 spi2 DW_SPI_RXFTLR (minlen - 1)
      else spi)"

definition dw_process_interrupts :: "device \<Rightarrow> dw_spi \<Rightarrow> dw_spi \<times> spi_intr" where
  "dw_process_interrupts hw spi =
     (let (spi1, v) = dw_read32 hw spi DW_SPI_SR
      in if v AND 0x20 \<noteq> 0 then (intr_stop spi1, SPI_INTR_ERR)
         else if v AND 0x40 \<noteq> 0 then (intr_stop spi1, SPI_INTR_ERR)
         else let (spi2, len) = dw_read32 hw spi1 DW_SPI_RXFLR;
                  spi3 = dw_read_fifo hw spi2 len;
                  spi4 = spi3\<lparr>rlen := rlen spi3 + len\<rparr>
              in if rlen spi4 = xlen spi4 then (intr_stop spi4, SPI_INTR_DONE)
                 else (intr_thresholds hw (intr_refill spi4 len), SPI_INTR_CONTINUE))"

fun dw_wait :: "device \<Rightarrow> bool list \<Rightarrow> dw_spi \<Rightarrow> (dw_spi \<times> spi_status) option" where
  "dw_wait hw [] spi = None"
| "dw_wait hw (False # evs) spi = Some (spi, ETIMEDOUT)"
| "dw_wait hw (True # evs) spi =
     (case dw_process_interrupts hw spi of
        (spi1, SPI_INTR_CONTINUE) \<Rightarrow> dw_wait hw evs spi1
      | (spi1, SPI_INTR_DONE) \<Rightarrow> Some (spi1, EOK)
      | (spi1, SPI_INTR_ERR) \<Rightarrow> Some (spi1, EIO))"

section \<open>Configuration and transfer\<close>

definition dw_cfg :: "dw_spi \<Rightarrow> spi_devinfo \<Rightarrow> spi_devinfo \<times> spi_status" where
  "dw_cfg spi dev =
     (let nbits = cfg_nbits (cfg dev)
      in if devno dev \<ge> sint (cs_max spi) then (dev, EINVAL)
         else if nbits < 4 \<or> nbits > 32 then (dev, EINVAL)
         else if cfg_clock_rate (cfg dev) = 0 then (dev, EINVAL)
         else let rate = (if ucast (cfg_clock_rate (cfg dev)) > input_clk spi div 2
                          then ucast (input_clk spi) else cfg_clock_rate (cfg dev));
                  dev1 = dev\<lparr>cfg := (cfg dev)\<lparr>cfg_clock_rate := rate\<rparr>\<rparr>
              in if current_clkrate dev1 \<noteq> rate
                 then let d0 = ucast ((input_clk spi + ucast rate - 1) div ucast rate) :: u32;
                          d1 = min d0 0xffff;
                          d2 = max d1 2;
                          best = ucast (input_clk spi div ucast d2)
                      in (dev1\<lparr>cfg := (cfg dev1)\<lparr>cfg_clock_rate := best\<rparr>, current_clkrate := best\<rparr>, EOK)
                 else (dev1, EOK))"

definition dw_setcfg :: "dw_spi \<Rightarrow> spi_devinfo \<Rightarrow> spi_cfg \<Rightarrow> spi_devinfo \<times> spi_status" where
  "dw_setcfg spi dev c = dw_cfg spi (dev\<lparr>cfg := c\<rparr>)"

definition dscales :: "u32 list" where
  "dscales = [0, 0, 1, 2, 2]"

text \<open>The data frame size field (\<open>DW_PSSI_CTRLR0_DFS_CONFIG\<close>).\<close>

definition dfs_config :: "u32 \<Rightarrow> u32" where
  "dfs_config n = (if n < 2 then (8 * n - 1) else push_bit 16 (8 * n - 1))"

definition make_cr0 :: "dw_spi \<Rightarrow> spi_cfg \<Rightarrow> u32" where
  "make_cr0 spi c =
     dfs_config (dlen spi)
     OR (if cfg_cpol c then push_bit 7 1 else 0)
     OR (if cfg_cpha c then push_bit 6 1 else 0)
     OR (if loopback spi then push_bit 11 1 else 0)
     OR (if sste spi then push_bit 24 1 else 0)"

definition dw_prepare_for_transfer :: "device \<Rightarrow> dw_spi \<Rightarrow> spi_cfg \<Rightarrow> u32 \<Rightarrow> u32 \<Rightarrow> dw_spi \<times> spi_status" where
  "dw_prepare_for_transfer hw spi c tnbytes rnbytes =
     (let nbits = cfg_nbits c
      in if nbits \<le> 3 \<or> nbits > 32 then (spi, EINVAL)
         else let spi1 = dw_spi_enable spi 0;
                  n = (nbits + 7) div 8;
                  sc = dscales ! unat n;
                  nbytes = max tnbytes rnbytes;
                  spi2 = spi1\<lparr>dlen := (if n = 3 then 4 else n), dscale := sc, xlen := drop_bit (unat sc) nbytes\<rparr>
              in if xlen spi2 \<le> 0 \<or> nbytes \<noteq> push_bit (unat sc) (xlen spi2) then (spi2, EINVAL)
                 else if cfg_clock_rate c = 0 then (spi2, EINVAL)
                 else let spi3 = spi2\<lparr>cr0 := make_cr0 spi2 c\<rparr>;
                          (spi4, ver) = dw_read32 hw spi3 DW_SPI_VERSION;
                          spi5 = (if ver \<ge> 0x3130322A then spi4\<lparr>cr0 := cr0 spi4 OR push_bit 31 1\<rparr> else spi4);
                          spi6 = dw_write32 spi5 DW_SPI_BAUDR (ucast (input_clk spi5 div ucast (cfg_clock_rate c)));
                          spi7 = dw_write32 spi6 DW_SPI_CTRLR0 (cr0 spi6);
                          spi8 = dw_write32 spi7 DW_SPI_CTRLR1 0
                      in (spi8\<lparr>xtime_us := max 1 (ucast nbits * 1000 * 1000 * ucast (xlen spi8) div ucast (cfg_clock_rate c)),
                               rlen := 0, tlen := 0\<rparr>, EOK))"

text \<open>\<open>dw_xfer\<close>: the part up to the wait, and the whole. \<open>buf\<close> holds the caller's items.\<close>

definition xfer_begin :: "device \<Rightarrow> dw_spi \<Rightarrow> spi_devinfo \<Rightarrow> dw_spi" where
  "xfer_begin hw spi dev =
     (let spi1 = dw_device_reset (dw_write32 spi DW_SPI_DMACR 0);
          len = min (xlen spi1) (fifo_len spi1 div 2);
          spi2 = dw_write_fifo spi1 len;
          spi3 = spi2\<lparr>tlen := tlen spi2 + len\<rparr>;
          spi4 = (if tlen spi3 < xlen spi3
                  then dw_write32 (dw_write32 (dw_write32 spi3 DW_SPI_IMR 0x1f) DW_SPI_RXFTLR (len - 1)) DW_SPI_TXFTLR len
                  else dw_write32 (dw_write32 spi3 DW_SPI_IMR (4 OR 8 OR 16)) DW_SPI_RXFTLR (len - 1))
      in fst (dw_spi_select_slave hw spi4 (nat (devno dev))))"

definition dw_xfer :: "device \<Rightarrow> bool list \<Rightarrow> dw_spi \<Rightarrow> spi_devinfo \<Rightarrow> u32 list \<Rightarrow> u32 \<Rightarrow> u32 \<Rightarrow>
    (dw_spi \<times> spi_status) option" where
  "dw_xfer hw evs spi dev buf tnbytes rnbytes =
     (let (spi1, busy) = dw_spi_busy hw spi
      in if busy then Some (spi1, EBUSY)
         else case dw_prepare_for_transfer hw (spi1\<lparr>pbuf := buf, overrun := False, overread := False\<rparr>)
                     (cfg dev) tnbytes rnbytes of
                (spi2, EOK) \<Rightarrow>
                  map_option (\<lambda>(spi3, st). (dw_spi_enable spi3 0, st)) (dw_wait hw evs (xfer_begin hw spi2 dev))
              | (spi2, st) \<Rightarrow> Some (spi2, st))"

section \<open>Initialisation\<close>

text \<open>The FIFO length is the first threshold that the controller does not take.\<close>

fun fifo_len_loop :: "device \<Rightarrow> nat \<Rightarrow> u32 \<Rightarrow> dw_spi \<Rightarrow> dw_spi \<times> u32" where
  "fifo_len_loop hw 0 i spi = (spi, i)"
| "fifo_len_loop hw (Suc n) i spi =
     (let (spi1, v) = dw_read32 hw (dw_write32 spi DW_SPI_TXFTLR i) DW_SPI_TXFTLR
      in if v \<noteq> i then (spi1, i) else fifo_len_loop hw n (i + 1) spi1)"

definition dw_spi_get_fifo_len :: "device \<Rightarrow> dw_spi \<Rightarrow> dw_spi \<times> u32" where
  "dw_spi_get_fifo_len hw spi =
     (let (spi1, hold) = dw_read32 hw spi DW_SPI_TXFTLR;
          left = (if hold \<noteq> 0 then hold else 2);
          (spi2, i) = fifo_len_loop hw (258 - unat left) left spi1
      in (dw_write32 spi2 DW_SPI_TXFTLR hold, i))"

text \<open>The board-specific options; \<open>None\<close> is \<open>EINVAL\<close>.\<close>

definition spi_option :: "dw_spi \<Rightarrow> string \<Rightarrow> string option \<Rightarrow> dw_spi option" where
  "spi_option spi nm v =
     (if nm = ''cs_max''
      then (case v of
              None \<Rightarrow> None
            | Some s \<Rightarrow> let m = ucast (fst (strtoul0 s)) :: u32
                        in if m < 1 \<or> m > 32 then None else Some (spi\<lparr>cs_max := m\<rparr>))
      else if nm = ''sste'' then Some (spi\<lparr>sste := True\<rparr>)
      else if nm = ''loopback'' then Some (spi\<lparr>loopback := True\<rparr>)
      else None)"

fun spi_options :: "dw_spi \<Rightarrow> (string \<times> string option) list \<Rightarrow> dw_spi option" where
  "spi_options spi [] = Some spi"
| "spi_options spi ((nm, v) # os) = (case spi_option spi nm v of None \<Rightarrow> None | Some spi1 \<Rightarrow> spi_options spi1 os)"

definition dw_process_args :: "dw_spi \<Rightarrow> string \<Rightarrow> dw_spi option" where
  "dw_process_args spi options = spi_options spi (subopts options)"

fun cfg_all :: "dw_spi \<Rightarrow> spi_devinfo list \<Rightarrow> spi_devinfo list \<times> spi_status" where
  "cfg_all spi [] = ([], EOK)"
| "cfg_all spi (d # ds) =
     (case dw_cfg spi d of
        (d1, EOK) \<Rightarrow> (let (ds1, st) = cfg_all spi ds in (d1 # ds1, st))
      | (d1, st) \<Rightarrow> (d1 # ds, st))"

text \<open>The register part of \<open>dw_init_device\<close>; \<open>attach\<close> is the result of attaching the interrupt.\<close>

definition dw_init_device :: "device \<Rightarrow> dw_spi \<Rightarrow> spi_devinfo list \<Rightarrow> spi_status \<Rightarrow>
    dw_spi \<times> spi_devinfo list \<times> spi_status" where
  "dw_init_device hw spi devs attach =
     (case cfg_all spi devs of
        (devs1, EOK) \<Rightarrow>
          (let (spi1, _) = dw_read32 hw spi DW_SPI_ICR;
               spi2 = dw_write32 (dw_write32 spi1 DW_SPI_IMR 0x1f) DW_SPI_CTRLR1 0;
               spi3 = fst (dw_spi_deselect_slave hw spi2);
               (spi4, n) = dw_spi_get_fifo_len hw spi3
           in (spi4\<lparr>fifo_len := n\<rparr>, devs1, attach))
      | (devs1, st) \<Rightarrow> (spi, devs1, st))"

definition dw_fini :: "device \<Rightarrow> dw_spi \<Rightarrow> dw_spi" where
  "dw_fini hw spi =
     (let spi1 = dw_spi_enable spi 0;
          spi2 = fst (dw_read32 hw spi1 DW_SPI_TXOICR);
          spi3 = fst (dw_read32 hw spi2 DW_SPI_RXOICR);
          spi4 = fst (dw_read32 hw spi3 DW_SPI_RXUICR)
      in fst (dw_spi_deselect_slave hw spi4))"

end
