(* ===== verification/Spi_Proofs.thy ===== *)
theory Spi_Proofs
  imports Spi
begin

text \<open>
  What an SPI exchange does: it sends the caller's items in order and leaves the received items in
  the same buffer, although sending and receiving share it and the driver never checks how much the
  receive FIFO holds.
\<close>

lemmas spi_reg_defs = dw_read32_def dw_write32_def mmio_read_def mmio_write_def Let_def

section \<open>The controller\<close>

text \<open>The accesses since the controller was last disabled, which empties the FIFOs. What is relied on:
  the receive FIFO holds at most one item for each item sent that has not been read yet.\<close>

definition since_disable :: "io list \<Rightarrow> io list" where
  "since_disable log = takeWhile (\<lambda>a. a \<noteq> WR DW_SPI_SSIENR 0) log"

abbreviation sent :: "dw_spi \<Rightarrow> u32 list" where
  "sent spi \<equiv> writes_of DW_SPI_DR (since_disable (iolog spi))"

abbreviation received :: "dw_spi \<Rightarrow> u32 list" where
  "received spi \<equiv> reads_of DW_SPI_DR (since_disable (iolog spi))"

definition full_duplex :: "device \<Rightarrow> bool" where
  "full_duplex hw \<longleftrightarrow>
     (\<forall>log. unat (hw log DW_SPI_RXFLR) \<le>
            length (writes_of DW_SPI_DR (since_disable log)) - length (reads_of DW_SPI_DR (since_disable log)))"

lemma since_disable_simps [simp]:
  "since_disable [] = []"
  "since_disable (RD r v # l) = RD r v # since_disable l"
  "since_disable (WR r v # l) = (if r = DW_SPI_SSIENR \<and> v = 0 then [] else WR r v # since_disable l)"
  by (simp_all add: since_disable_def)

text \<open>How the driver narrows an item.\<close>

definition item_cast :: "u32 \<Rightarrow> u32 \<Rightarrow> u32" where
  "item_cast sc v = (if sc = 0 then v AND 0xFF else if sc = 1 then v AND 0xFFFF else v)"

section \<open>The invariant of an exchange\<close>

text \<open>\<open>B\<close> is the buffer at the start; \<open>W\<close> and \<open>R\<close> are the items of earlier exchanges.\<close>

definition ex_inv :: "u32 \<Rightarrow> u32 list \<Rightarrow> u32 list \<Rightarrow> u32 list \<Rightarrow> dw_spi \<Rightarrow> bool" where
  "ex_inv sc B W R spi \<longleftrightarrow>
     dscale spi = sc \<and> sc \<le> 2 \<and> length B = unat (xlen spi) \<and> rlen spi \<le> tlen spi \<and> tlen spi \<le> xlen spi \<and>
     sent spi = take (unat (tlen spi)) B \<and> length (received spi) = unat (rlen spi) \<and>
     pbuf spi = map (item_cast sc) (received spi) @ drop (unat (rlen spi)) B \<and>
     \<not> overrun spi \<and> \<not> overread spi \<and>
     writes_of DW_SPI_DR (iolog spi) = W @ sent spi \<and> reads_of DW_SPI_DR (iolog spi) = R @ received spi"

definition ex_frame :: "dw_spi \<Rightarrow> dw_spi \<Rightarrow> bool" where
  "ex_frame a b \<longleftrightarrow> xlen b = xlen a \<and> dscale b = dscale a \<and> fifo_len b = fifo_len a"

lemma ex_inv_read:
  assumes "ex_inv sc B W R spi" "r \<noteq> DW_SPI_DR"
  shows "ex_inv sc B W R (fst (dw_read32 hw spi r))" "ex_frame spi (fst (dw_read32 hw spi r))"
  using assms by (simp_all add: ex_inv_def ex_frame_def spi_reg_defs)

lemma ex_inv_write:
  assumes "ex_inv sc B W R spi" "r \<noteq> DW_SPI_DR" "r \<noteq> DW_SPI_SSIENR"
  shows "ex_inv sc B W R (dw_write32 spi r v)" "ex_frame spi (dw_write32 spi r v)"
  using assms by (simp_all add: ex_inv_def ex_frame_def spi_reg_defs)

lemma write_loop_spec:
  assumes "i + n \<le> length (pbuf spi)" "\<not> overread spi"
  shows "write_loop spi i n =
         spi\<lparr>iolog := rev (map (WR DW_SPI_DR) (take n (drop i (pbuf spi)))) @ iolog spi\<rparr>"
  using assms
proof (induction n arbitrary: spi i)
  case 0
  show ?case by simp
next
  case (Suc n)
  then have i: "i < length (pbuf spi)" by simp
  have p: "put_item spi i = spi\<lparr>iolog := WR DW_SPI_DR (pbuf spi ! i) # iolog spi\<rparr>"
    using i by (simp add: put_item_def spi_reg_defs)
  have t: "take (Suc n) (drop i (pbuf spi)) = pbuf spi ! i # take n (drop (Suc i) (pbuf spi))"
    using i by (simp add: Cons_nth_drop_Suc [symmetric])
  show ?case using Suc.IH [of "Suc i" "put_item spi i"] Suc.prems unfolding t by (simp add: p)
qed

lemma writes_of_rev [simp]: "writes_of r (rev (map (WR r) vs)) = vs"
  by (induction vs) simp_all

lemma reads_of_rev_wr [simp]: "reads_of r (rev (map (WR r') vs)) = []"
  by (induction vs) simp_all

lemma since_disable_data: "since_disable (rev (map (WR DW_SPI_DR) vs) @ l) = rev (map (WR DW_SPI_DR) vs) @ since_disable l"
  by (induction vs arbitrary: l) simp_all

lemma write_fifo_inv:
  assumes "ex_inv sc B W R spi" "unat (tlen spi) + unat n \<le> unat (xlen spi)"
  shows "ex_inv sc B W R ((dw_write_fifo spi n)\<lparr>tlen := tlen (dw_write_fifo spi n) + n\<rparr>)"
    "ex_frame spi ((dw_write_fifo spi n)\<lparr>tlen := tlen (dw_write_fifo spi n) + n\<rparr>)"
    "rlen (dw_write_fifo spi n) = rlen spi" "tlen (dw_write_fifo spi n) = tlen spi"
proof -
  let ?t = "unat (tlen spi)" and ?r = "unat (rlen spi)"
  have le: "?r \<le> ?t" "?t + unat n \<le> length B" and lenr: "length (received spi) = ?r"
    using assms by (auto simp: ex_inv_def word_le_nat_alt)
  have buf: "length (pbuf spi) = length B" "drop ?t (pbuf spi) = drop ?t B"
    using assms(1) le lenr by (auto simp: ex_inv_def)
  have scs: "dscale spi = 0 \<or> dscale spi = 1 \<or> dscale spi = 2"
    using assms(1) by (auto simp: ex_inv_def word_le_nat_alt word_unat_eq_iff)
  have "dw_write_fifo spi n = write_loop spi ?t (unat n)"
    using scs by (auto simp: dw_write_fifo_def dw_write_fifo_uint8_def dw_write_fifo_uint16_def dw_write_fifo_uint32_def)
  also have "\<dots> = spi\<lparr>iolog := rev (map (WR DW_SPI_DR) (take (unat n) (drop ?t B))) @ iolog spi\<rparr>"
    using write_loop_spec [of ?t "unat n" spi] buf le assms(1) by (simp add: ex_inv_def)
  finally have w: "dw_write_fifo spi n = \<dots>" .
  have s: "unat (tlen spi + n) = ?t + unat n"
    using assms(2) by (intro unat_add_u32) (rule le_less_trans [OF _ unat_u32_bound(1)])
  have "take (?t + unat n) B = take ?t B @ take (unat n) (drop ?t B)" by (rule take_add)
  then show "ex_inv sc B W R ((dw_write_fifo spi n)\<lparr>tlen := tlen (dw_write_fifo spi n) + n\<rparr>)"
    using assms s le unfolding w by (auto simp: ex_inv_def since_disable_data word_le_nat_alt)
  show "ex_frame spi ((dw_write_fifo spi n)\<lparr>tlen := tlen (dw_write_fifo spi n) + n\<rparr>)"
    "rlen (dw_write_fifo spi n) = rlen spi" "tlen (dw_write_fifo spi n) = tlen spi"
    unfolding w by (simp_all add: ex_frame_def)
qed

section \<open>Receiving\<close>

text \<open>While items are read, the buffer holds the received items in front of index \<open>i\<close>.\<close>

definition rx_inv :: "u32 list \<Rightarrow> u32 list \<Rightarrow> nat \<Rightarrow> dw_spi \<Rightarrow> bool" where
  "rx_inv B R i spi \<longleftrightarrow> length (received spi) = i \<and> i \<le> length B \<and>
     pbuf spi = map (item_cast (dscale spi)) (received spi) @ drop i B \<and> \<not> overrun spi \<and>
     reads_of DW_SPI_DR (iolog spi) = R @ received spi"

definition rx_same :: "dw_spi \<Rightarrow> dw_spi \<Rightarrow> bool" where
  "rx_same a b \<longleftrightarrow> sent b = sent a \<and> dscale b = dscale a \<and> xlen b = xlen a \<and> tlen b = tlen a \<and> rlen b = rlen a \<and>
     overread b = overread a \<and> fifo_len b = fifo_len a \<and>
     writes_of DW_SPI_DR (iolog b) = writes_of DW_SPI_DR (iolog a)"

lemma get_item_inv:
  assumes "rx_inv B R i spi" "i < length B" "cast = item_cast (dscale spi)"
  shows "rx_inv B R (Suc i) (get_item hw cast spi i) \<and> rx_same spi (get_item hw cast spi i)"
proof -
  have d: "drop i B = B ! i # drop (Suc i) B" using assms(2) by (simp add: Cons_nth_drop_Suc)
  have "length (pbuf spi) = length B" using assms(1) by (simp add: rx_inv_def)
  with assms d show ?thesis
    by (auto simp: rx_inv_def rx_same_def get_item_def spi_reg_defs list_update_append)
qed

lemma read_loop_inv:
  assumes "rx_inv B R i spi" "i + n \<le> length B" "cast = item_cast (dscale spi)"
  shows "rx_inv B R (i + n) (read_loop hw cast spi i n) \<and> rx_same spi (read_loop hw cast spi i n)"
  using assms
proof (induction n arbitrary: i spi)
  case 0
  then show ?case by (simp add: rx_same_def)
next
  case (Suc n)
  from get_item_inv [OF Suc.prems(1) _ Suc.prems(3), of hw] Suc.prems(2)
  have g: "rx_inv B R (Suc i) (get_item hw cast spi i)" "rx_same spi (get_item hw cast spi i)" by auto
  with Suc.IH [OF g(1)] Suc.prems(2,3) show ?case by (auto simp: rx_same_def)
qed

lemma read_fifo_inv:
  assumes "ex_inv sc B W R spi" "unat (rlen spi) + unat n \<le> unat (tlen spi)"
  shows "ex_inv sc B W R ((dw_read_fifo hw spi n)\<lparr>rlen := rlen (dw_read_fifo hw spi n) + n\<rparr>)"
    "ex_frame spi ((dw_read_fifo hw spi n)\<lparr>rlen := rlen (dw_read_fifo hw spi n) + n\<rparr>)"
    "tlen (dw_read_fifo hw spi n) = tlen spi" "rlen (dw_read_fifo hw spi n) = rlen spi"
proof -
  let ?r = "unat (rlen spi)"
  have le: "?r + unat n \<le> length B" using assms by (auto simp: ex_inv_def word_le_nat_alt)
  have scs: "dscale spi = 0 \<or> dscale spi = 1 \<or> dscale spi = 2"
    using assms(1) by (auto simp: ex_inv_def word_le_nat_alt word_unat_eq_iff)
  then have e: "dw_read_fifo hw spi n = read_loop hw (item_cast (dscale spi)) spi ?r (unat n)"
    by (auto simp: dw_read_fifo_def dw_read_fifo_uint8_def dw_read_fifo_uint16_def dw_read_fifo_uint32_def
        item_cast_def [abs_def])
  have "rx_inv B R ?r spi" using assms(1) le by (simp add: ex_inv_def rx_inv_def)
  from read_loop_inv [OF this le refl, of hw]
  have r: "rx_inv B R (?r + unat n) (dw_read_fifo hw spi n)" "rx_same spi (dw_read_fifo hw spi n)" unfolding e by auto
  have s: "unat (rlen spi + n) = ?r + unat n"
    using assms(2) by (intro unat_add_u32) (rule le_less_trans [OF _ unat_u32_bound(1)])
  show "ex_inv sc B W R ((dw_read_fifo hw spi n)\<lparr>rlen := rlen (dw_read_fifo hw spi n) + n\<rparr>)"
    using assms r s by (auto simp: ex_inv_def rx_inv_def rx_same_def word_le_nat_alt)
  show "ex_frame spi ((dw_read_fifo hw spi n)\<lparr>rlen := rlen (dw_read_fifo hw spi n) + n\<rparr>)"
    "tlen (dw_read_fifo hw spi n) = tlen spi" "rlen (dw_read_fifo hw spi n) = rlen spi"
    using r(2) by (simp_all add: rx_same_def ex_frame_def)
qed

section \<open>The interrupt routine and the wait\<close>

definition ex_done :: "u32 \<Rightarrow> u32 list \<Rightarrow> u32 list \<Rightarrow> u32 list \<Rightarrow> dw_spi \<Rightarrow> bool" where
  "ex_done sc B W R spi \<longleftrightarrow>
     writes_of DW_SPI_DR (iolog spi) = W @ B \<and>
     (\<exists>items. length items = length B \<and> reads_of DW_SPI_DR (iolog spi) = R @ items \<and>
        pbuf spi = map (item_cast sc) items)"

definition ex_safe :: "dw_spi \<Rightarrow> bool" where
  "ex_safe spi \<longleftrightarrow> \<not> overrun spi \<and> \<not> overread spi"

lemma ex_inv_safe: "ex_inv sc B W R spi \<Longrightarrow> ex_safe spi"
  by (simp add: ex_inv_def ex_safe_def)

lemma intr_stop_facts [simp]:
  "overrun (intr_stop spi) = overrun spi" "overread (intr_stop spi) = overread spi" "pbuf (intr_stop spi) = pbuf spi"
  "dscale (intr_stop spi) = dscale spi"
  "writes_of DW_SPI_DR (iolog (intr_stop spi)) = writes_of DW_SPI_DR (iolog spi)"
  "reads_of DW_SPI_DR (iolog (intr_stop spi)) = reads_of DW_SPI_DR (iolog spi)"
  by (simp_all add: intr_stop_def dw_spi_enable_def spi_reg_defs)

lemma intr_refill_inv:
  assumes "ex_inv sc B W R spi"
  shows "ex_inv sc B W R (intr_refill spi len)"
proof (cases "tlen spi < xlen spi")
  case True
  let ?n = "min len (xlen spi - tlen spi)"
  have "unat (xlen spi - tlen spi) = unat (xlen spi) - unat (tlen spi)"
    using True by (simp add: unat_sub_nat word_less_nat_alt)
  moreover have "unat ?n \<le> unat (xlen spi - tlen spi)" by (simp add: word_le_nat_alt [symmetric])
  ultimately have "unat (tlen spi) + unat ?n \<le> unat (xlen spi)" using True by (simp add: word_less_nat_alt)
  from write_fifo_inv(1) [OF assms this] True show ?thesis by (simp add: intr_refill_def Let_def)
qed (use assms in \<open>simp add: intr_refill_def\<close>)

lemma intr_thresholds_inv:
  assumes "ex_inv sc B W R spi"
  shows "ex_inv sc B W R (intr_thresholds hw spi)"
proof -
  let ?a = "fst (dw_read32 hw spi DW_SPI_IMR)" and ?v = "snd (dw_read32 hw spi DW_SPI_IMR)"
  let ?b = "dw_write32 ?a DW_SPI_IMR (?v AND NOT 1 AND NOT 2)"
  have a: "ex_inv sc B W R ?a" by (rule ex_inv_read(1) [OF assms]) simp
  have b: "ex_inv sc B W R ?b" by (rule ex_inv_write(1) [OF a]) simp_all
  have "ex_inv sc B W R (dw_write32 ?b DW_SPI_RXFTLR v)" for v by (rule ex_inv_write(1) [OF b]) simp_all
  with assms show ?thesis by (simp add: intr_thresholds_def Let_def case_prod_beta)
qed

lemma process_interrupts_spec:
  assumes "ex_inv sc B W R spi" "full_duplex hw" "dw_process_interrupts hw spi = (spi', r)"
  shows "ex_safe spi' \<and> (r = SPI_INTR_CONTINUE \<longrightarrow> ex_inv sc B W R spi') \<and> (r = SPI_INTR_DONE \<longrightarrow> ex_done sc B W R spi')"
proof -
  define a where "a = fst (dw_read32 hw spi DW_SPI_SR)"
  define v where "v = snd (dw_read32 hw spi DW_SPI_SR)"
  define b where "b = fst (dw_read32 hw a DW_SPI_RXFLR)"
  define n where "n = snd (dw_read32 hw a DW_SPI_RXFLR)"
  define c where "c = (dw_read_fifo hw b n)\<lparr>rlen := rlen (dw_read_fifo hw b n) + n\<rparr>"
  have a: "ex_inv sc B W R a" unfolding a_def by (rule ex_inv_read(1) [OF assms(1)]) simp
  have b: "ex_inv sc B W R b" unfolding b_def by (rule ex_inv_read(1) [OF a]) simp
  have same: "sent b = sent a" "received b = received a" by (simp_all add: b_def spi_reg_defs)
  have "unat n \<le> length (sent b) - length (received b)"
    using assms(2) same by (simp add: full_duplex_def n_def spi_reg_defs)
  moreover have "unat (rlen b) \<le> unat (tlen b)" "length (sent b) \<le> unat (tlen b)" "length (received b) = unat (rlen b)"
    using b by (auto simp: ex_inv_def word_le_nat_alt)
  ultimately have "unat (rlen b) + unat n \<le> unat (tlen b)" by linarith
  note c = read_fifo_inv(1) [OF b this, of hw, folded c_def]
  have e: "(spi', r) = (if v AND 0x20 \<noteq> 0 \<or> v AND 0x40 \<noteq> 0 then (intr_stop a, SPI_INTR_ERR)
      else if rlen c = xlen c then (intr_stop c, SPI_INTR_DONE)
      else (intr_thresholds hw (intr_refill c n), SPI_INTR_CONTINUE))"
    unfolding assms(3) [symmetric] a_def v_def b_def n_def c_def
    by (simp add: dw_process_interrupts_def Let_def case_prod_beta)
  have fin: "ex_done sc B W R (intr_stop c)" if "rlen c = xlen c"
  proof -
    have "tlen c = xlen c" using c that by (auto simp: ex_inv_def)
    then show ?thesis using c that by (auto simp: ex_inv_def ex_done_def)
  qed
  have "ex_safe (intr_stop a)" "ex_safe (intr_stop c)" using a c by (simp_all add: ex_inv_def ex_safe_def)
  moreover have "ex_inv sc B W R (intr_thresholds hw (intr_refill c n))"
    by (intro intr_thresholds_inv intr_refill_inv c)
  ultimately show ?thesis using e fin ex_inv_safe by (auto split: if_splits)
qed

lemma dw_wait_spec:
  assumes "ex_inv sc B W R spi" "full_duplex hw" "dw_wait hw evs spi = Some (spi', st)"
  shows "ex_safe spi' \<and> (st = EOK \<longrightarrow> ex_done sc B W R spi')"
  using assms(1,3)
proof (induction evs arbitrary: spi)
  case Nil
  then show ?case by simp
next
  case (Cons ev evs)
  show ?case
  proof (cases ev)
    case False
    with Cons.prems show ?thesis by (auto dest: ex_inv_safe)
  next
    case True
    obtain d r where pr: "dw_process_interrupts hw spi = (d, r)" by (cases "dw_process_interrupts hw spi")
    note spec = process_interrupts_spec [OF Cons.prems(1) assms(2) pr]
    show ?thesis
    proof (cases r)
      case SPI_INTR_CONTINUE
      with Cons.IH [of d] Cons.prems(2) True pr spec show ?thesis by simp
    qed (use Cons.prems(2) True pr spec in auto)
  qed
qed

section \<open>The exchange\<close>

text \<open>The shift that turns a byte count into a count of items.\<close>

definition cfg_scale :: "spi_cfg \<Rightarrow> u32" where
  "cfg_scale c = dscales ! unat ((cfg_nbits c + 7) div 8)"

lemma cfg_scale_le: "cfg_nbits c \<le> 32 \<Longrightarrow> cfg_scale c \<le> 2"
proof -
  assume "cfg_nbits c \<le> 32"
  then have u: "unat (cfg_nbits c) \<le> 32" by (simp add: word_le_nat_alt)
  then have "unat (cfg_nbits c + 7) = unat (cfg_nbits c) + 7" by (subst unat_add_u32) simp_all
  then have "unat ((cfg_nbits c + 7) div 8) = (unat (cfg_nbits c) + 7) div 8" by (simp add: unat_div)
  also have "\<dots> \<le> 4" using u by simp
  finally have "unat ((cfg_nbits c + 7) div 8) < length dscales" by (simp add: dscales_def)
  then have "cfg_scale c \<in> set dscales" unfolding cfg_scale_def by (rule nth_mem)
  then show ?thesis by (auto simp: dscales_def)
qed

lemma prepare_spec:
  assumes "dw_prepare_for_transfer hw spi c tn rn = (spi', EOK)"
  shows "cfg_nbits c \<le> 32 \<and> dscale spi' = cfg_scale c \<and> xlen spi' = drop_bit (unat (cfg_scale c)) (max tn rn) \<and>
         rlen spi' = 0 \<and> tlen spi' = 0 \<and> pbuf spi' = pbuf spi \<and> overrun spi' = overrun spi \<and> overread spi' = overread spi \<and>
         writes_of DW_SPI_DR (iolog spi') = writes_of DW_SPI_DR (iolog spi) \<and>
         reads_of DW_SPI_DR (iolog spi') = reads_of DW_SPI_DR (iolog spi)"
  using assms
  by (auto simp: dw_prepare_for_transfer_def cfg_scale_def Let_def dw_spi_enable_def dw_write32_def dw_read32_def
      mmio_read_def mmio_write_def not_less split: if_splits)

lemma reset_begin:
  assumes "dscale spi \<le> 2" "length (pbuf spi) = unat (xlen spi)" "rlen spi = 0" "tlen spi = 0" "ex_safe spi"
  shows "ex_inv (dscale spi) (pbuf spi) (writes_of DW_SPI_DR (iolog spi)) (reads_of DW_SPI_DR (iolog spi))
           (dw_device_reset (dw_write32 spi DW_SPI_DMACR 0))"
  using assms by (simp add: ex_inv_def ex_safe_def dw_device_reset_def dw_spi_enable_def spi_reg_defs)

lemma select_slave_inv:
  assumes "ex_inv sc B W R spi"
  shows "ex_inv sc B W R (fst (dw_spi_select_slave hw spi n))"
proof -
  have a: "ex_inv sc B W R (fst (dw_read32 hw spi DW_SPI_SR))" by (rule ex_inv_read(1) [OF assms]) simp
  have "ex_inv sc B W R (dw_write32 (fst (dw_read32 hw spi DW_SPI_SR)) DW_SPI_SER v)" for v
    by (rule ex_inv_write(1) [OF a]) simp_all
  with a show ?thesis by (simp add: dw_spi_select_slave_def dw_spi_busy_def Let_def case_prod_beta)
qed

lemma xfer_begin_inv:
  assumes "dscale spi \<le> 2" "length (pbuf spi) = unat (xlen spi)" "rlen spi = 0" "tlen spi = 0" "ex_safe spi"
  shows "ex_inv (dscale spi) (pbuf spi) (writes_of DW_SPI_DR (iolog spi)) (reads_of DW_SPI_DR (iolog spi)) (xfer_begin hw spi dev)"
proof -
  let ?I = "ex_inv (dscale spi) (pbuf spi) (writes_of DW_SPI_DR (iolog spi)) (reads_of DW_SPI_DR (iolog spi))"
  define a where "a = dw_device_reset (dw_write32 spi DW_SPI_DMACR 0)"
  define n where "n = min (xlen a) (fifo_len a div 2)"
  define b where "b = (dw_write_fifo a n)\<lparr>tlen := tlen (dw_write_fifo a n) + n\<rparr>"
  have a: "?I a" "tlen a = 0"
    using reset_begin [OF assms] assms(4) by (simp_all add: a_def dw_device_reset_def dw_spi_enable_def spi_reg_defs)
  have "n \<le> xlen a" by (simp add: n_def)
  then have "unat (tlen a) + unat n \<le> unat (xlen a)" using a(2) by (simp add: word_le_nat_alt)
  then have b: "?I b" unfolding b_def by (rule write_fifo_inv(1) [OF a(1)])
  have w: "?I (dw_write32 s r v)" if "?I s" "r \<noteq> DW_SPI_DR" "r \<noteq> DW_SPI_SSIENR" for s r v
    by (rule ex_inv_write(1) [OF that])
  have 1: "?I (dw_write32 (dw_write32 (dw_write32 b DW_SPI_IMR 0x1f) DW_SPI_RXFTLR (n - 1)) DW_SPI_TXFTLR n)"
    by (intro w b) simp_all
  have 2: "?I (dw_write32 (dw_write32 b DW_SPI_IMR (4 OR 8 OR 16)) DW_SPI_RXFTLR (n - 1))"
    by (intro w b) simp_all
  have "xfer_begin hw spi dev = fst (dw_spi_select_slave hw
     (if tlen b < xlen b
      then dw_write32 (dw_write32 (dw_write32 b DW_SPI_IMR 0x1f) DW_SPI_RXFTLR (n - 1)) DW_SPI_TXFTLR n
      else dw_write32 (dw_write32 b DW_SPI_IMR (4 OR 8 OR 16)) DW_SPI_RXFTLR (n - 1)) (nat (devno dev)))"
    unfolding xfer_begin_def a_def b_def n_def Let_def by simp
  also have "?I \<dots>" by (rule select_slave_inv) (use 1 2 in simp)
  finally show ?thesis .
qed

lemma busy_facts:
  assumes "dw_spi_busy hw spi = (spi1, b)"
  shows "writes_of DW_SPI_DR (iolog spi1) = writes_of DW_SPI_DR (iolog spi)"
    "reads_of DW_SPI_DR (iolog spi1) = reads_of DW_SPI_DR (iolog spi)"
  using assms by (auto simp: dw_spi_busy_def spi_reg_defs)

lemma enable_facts [simp]:
  "ex_safe (dw_spi_enable spi v) = ex_safe spi" "ex_done sc B W R (dw_spi_enable spi v) = ex_done sc B W R spi"
  by (simp_all add: ex_safe_def ex_done_def dw_spi_enable_def spi_reg_defs)

lemma prepare_safe:
  assumes "dw_prepare_for_transfer hw spi c tn rn = (spi', st)"
  shows "ex_safe spi' = ex_safe spi"
  using assms
  by (auto simp: ex_safe_def dw_prepare_for_transfer_def Let_def dw_spi_enable_def dw_write32_def dw_read32_def
      mmio_read_def mmio_write_def split: if_splits)

lemma dw_xfer_spec:
  assumes "full_duplex hw" "length buf = unat (drop_bit (unat (cfg_scale (cfg dev))) (max tn rn))"
    and "dw_xfer hw evs spi dev buf tn rn = Some (spi', st)"
  shows "(st \<noteq> EBUSY \<longrightarrow> ex_safe spi') \<and>
         (st = EOK \<longrightarrow> ex_done (cfg_scale (cfg dev)) buf (writes_of DW_SPI_DR (iolog spi))
                        (reads_of DW_SPI_DR (iolog spi)) spi')"
proof -
  obtain s1 busy where b: "dw_spi_busy hw spi = (s1, busy)" by (cases "dw_spi_busy hw spi")
  define s where "s = s1\<lparr>pbuf := buf, overrun := False, overread := False\<rparr>"
  obtain s2 st2 where p: "dw_prepare_for_transfer hw s (cfg dev) tn rn = (s2, st2)"
    by (cases "dw_prepare_for_transfer hw s (cfg dev) tn rn")
  have x: "(if busy then Some (s1, EBUSY) else case (s2, st2) of
       (spi2, EOK) \<Rightarrow> map_option (\<lambda>(spi3, st). (dw_spi_enable spi3 0, st)) (dw_wait hw evs (xfer_begin hw spi2 dev))
     | (spi2, st) \<Rightarrow> Some (spi2, st)) = Some (spi', st)"
    using assms(3) unfolding dw_xfer_def b Let_def p [symmetric] s_def by simp
  have safe: "ex_safe s2" using prepare_safe [OF p] by (simp add: s_def ex_safe_def)
  show ?thesis
  proof (cases "busy \<or> st2 \<noteq> EOK")
    case True
    then show ?thesis using x safe by (cases st2) (auto split: if_splits)
  next
    case False
    then have ok: "st2 = EOK" "\<not> busy" by auto
    note pre = prepare_spec [OF p [unfolded ok]]
    let ?I = "ex_inv (cfg_scale (cfg dev)) buf (writes_of DW_SPI_DR (iolog spi)) (reads_of DW_SPI_DR (iolog spi))"
    have "?I (xfer_begin hw s2 dev)"
      using xfer_begin_inv [of s2 hw dev] pre safe cfg_scale_le [of "cfg dev"] assms(2) busy_facts [OF b]
      by (simp add: s_def)
    moreover obtain s3 where "dw_wait hw evs (xfer_begin hw s2 dev) = Some (s3, st)" "spi' = dw_spi_enable s3 0"
      using x ok by auto
    ultimately show ?thesis using dw_wait_spec [OF _ assms(1)] by simp
  qed
qed

text \<open>Claim C22. An SPI exchange stays inside the caller's buffer, for reading and for writing,
  whatever happens. When it succeeds, the items of the buffer have been sent, all of them in order,
  and the buffer holds the items that were received in the same exchange, narrowed to the item
  width. That sending and receiving use the same buffer does no harm.\<close>

theorem dw_xfer_exchanges:
  assumes "full_duplex hw" "length buf = unat (drop_bit (unat (cfg_scale (cfg dev))) (max tn rn))"
    and "dw_xfer hw evs spi dev buf tn rn = Some (spi', st)"
  shows "(st \<noteq> EBUSY \<longrightarrow> ex_safe spi') \<and>
         (st = EOK \<longrightarrow>
            writes_of DW_SPI_DR (iolog spi') = writes_of DW_SPI_DR (iolog spi) @ buf \<and>
            (\<exists>items. length items = length buf \<and>
               reads_of DW_SPI_DR (iolog spi') = reads_of DW_SPI_DR (iolog spi) @ items \<and>
               pbuf spi' = map (item_cast (cfg_scale (cfg dev))) items))"
  using dw_xfer_spec [OF assms] by (simp add: ex_done_def)

end
