(* ===== verification/Spi_Config.thy ===== *)
theory Spi_Config
  imports Spi_Proofs
begin

text \<open>
  Configuration of the SPI controller: the clock divider that \<open>dw_cfg\<close> chooses, and the depth of the
  FIFO that \<open>dw_spi_get_fifo_len\<close> measures.
\<close>

section \<open>The clock\<close>

lemma cfg_div_nat:
  fixes f r :: nat
  assumes "0 < r" "2 \<le> f" "r \<le> f"
  defines "d \<equiv> (f + r - 1) div r"
  shows "0 < f div max d 2" "f div max d 2 \<le> r" "2 \<le> k \<Longrightarrow> f \<le> k * r \<Longrightarrow> f div k \<le> f div max d 2"
proof -
  have up: "d \<le> k" if "f \<le> k * r" for k
  proof -
    have "f + r - 1 < (k + 1) * r" using that assms(1) by (simp add: algebra_simps)
    then show ?thesis unfolding d_def using assms(1) by (metis Suc_eq_plus1 less_mult_imp_div_less less_Suc_eq_le)
  qed
  have "f + r - 1 < (d + 1) * r"
    using dividend_less_div_times [OF assms(1), of "f + r - 1"] by (simp add: d_def)
  then have lo: "f \<le> d * r" using assms(1) by (simp add: algebra_simps)
  have "d \<le> f" using up [of f] assms(1) by simp
  then show "0 < f div max d 2" using assms(2) by (simp add: div_greater_zero_iff)
  have "f \<le> max d 2 * r" using lo by (rule order_trans) simp
  then have "f div max d 2 \<le> max d 2 * r div max d 2" by (rule div_le_mono)
  then show "f div max d 2 \<le> r" by simp
  show "f div k \<le> f div max d 2" if "2 \<le> k" "f \<le> k * r"
    using up [OF that(2)] that(1) by (intro div_le_mono2) auto
qed

lemma dw_cfg_post:
  assumes "dw_cfg spi dev = (dev', EOK)" "unat (input_clk spi) < 2 ^ 32" "2 \<le> unat (input_clk spi)"
    and "current_clkrate dev \<noteq> cfg_clock_rate (cfg dev)" "current_clkrate dev \<noteq> ucast (input_clk spi)"
    and "unat (input_clk spi) \<le> 0xffff * unat (cfg_clock_rate (cfg dev))"
  shows "let f = unat (input_clk spi); r = unat (cfg_clock_rate (cfg dev)); q = unat (cfg_clock_rate (cfg dev'))
         in 0 < q \<and> q \<le> r \<and> q \<le> f div 2 \<and> current_clkrate dev' = cfg_clock_rate (cfg dev') \<and>
            (\<forall>k\<ge>2. f \<le> k * r \<longrightarrow> f div k \<le> q)"
proof -
  define f where "f = unat (input_clk spi)"
  define r where "r = unat (cfg_clock_rate (cfg dev))"
  define rate where "rate = (if ucast (cfg_clock_rate (cfg dev)) > input_clk spi div 2
                          then ucast (input_clk spi) else cfg_clock_rate (cfg dev))"
  define d where "d = (f + unat rate - 1) div unat rate"
  define w where "w = (ucast ((input_clk spi + ucast rate - 1) div ucast rate) :: u32)"
  have r0: "cfg_clock_rate (cfg dev) \<noteq> 0" using assms(1) by (auto simp: dw_cfg_def Let_def split: if_splits)
  then have r: "0 < r" by (simp add: r_def unat_gt_0)
  have f: "f < 2 ^ 32" "2 \<le> f" "f \<le> 0xffff * r" using assms by (simp_all add: f_def r_def)
  have uf: "unat (ucast (input_clk spi) :: u32) = f" using f(1) by (simp add: f_def unsigned_ucast_eq take_bit_nat_eq_self)
  have ur: "unat rate = (if f div 2 < r then f else r)"
    by (simp add: rate_def uf r_def f_def word_less_nat_alt unat_div)
  then have rate: "0 < unat rate" "unat rate \<le> f" using r f(2) by (auto split: if_splits)
  have rr: "min (unat rate) (f div 2) \<le> r" unfolding ur by simp
  note q = cfg_div_nat [OF rate(1) f(2) rate(2), folded d_def]
  have "f \<le> 0xffff * unat rate" unfolding ur using f by simp
  then have d: "d \<le> 0xffff" unfolding d_def using rate(1)
    by (simp add: less_mult_imp_div_less flip: less_Suc_eq_le)
  have s: "unat (input_clk spi + ucast rate) = f + unat rate"
    using f(1) by (subst unat_add_u64) (auto simp: f_def intro: order_less_trans [OF add_strict_mono [OF _ unat_u32_bound(1)]])
  then have "unat (input_clk spi + ucast rate - 1) = f + unat rate - 1" using f(2) by (subst unat_sub_nat) simp_all
  then have w: "unat w = d" using d by (simp add: w_def unsigned_ucast_eq unat_div d_def take_bit_nat_eq_self)
  define m where "m = max (min w 0xffff) 2"
  have m: "unat m = max d 2" using w d by (simp add: m_def max_def min_def word_le_nat_alt)
  have q': "unat (ucast (input_clk spi div ucast m) :: u32) = f div max d 2"
  proof -
    have "f div max d 2 < 2 ^ 32" using f(1) by (rule le_less_trans [OF div_le_dividend])
    then show ?thesis using m by (simp add: unsigned_ucast_eq unat_div f_def take_bit_nat_eq_self)
  qed
  have "current_clkrate dev \<noteq> rate" using assms(4,5) by (simp add: rate_def)
  then have "cfg_clock_rate (cfg dev') = ucast (input_clk spi div ucast m)" "current_clkrate dev' = cfg_clock_rate (cfg dev')"
    using assms(1) unfolding m_def w_def rate_def
    by (auto simp: dw_cfg_def Let_def split: if_splits)
  moreover have "f div max d 2 \<le> r"
    using q(2) rr div_le_mono2 [of 2 "max d 2" f] by (simp add: min_def split: if_splits)
  moreover have "f div k \<le> f div max d 2" if "2 \<le> k" "f \<le> k * r" for k
    using q(3) [of k] that f(2) by (cases "f div 2 < r") (auto simp: ur intro: trans_le_add1)
  ultimately show ?thesis using q(1) q' div_le_mono2 [of 2 "max d 2" f] by (simp add: f_def r_def)
qed
text \<open>Configuring a device chooses the best clock the controller has: the new rate is not
  zero, does not exceed the requested rate nor half the input clock, and is at least what any other
  divider gives that respects the request. (The request must be reachable with a 16-bit divider and
  differ from the rate already set.)\<close>

theorem dw_cfg_best_rate:
  assumes "dw_cfg spi dev = (dev', EOK)" "unat (input_clk spi) < 2 ^ 32" "2 \<le> unat (input_clk spi)"
    and "current_clkrate dev \<noteq> cfg_clock_rate (cfg dev)" "current_clkrate dev \<noteq> ucast (input_clk spi)"
    and "unat (input_clk spi) \<le> 0xffff * unat (cfg_clock_rate (cfg dev))"
  shows "let f = unat (input_clk spi); r = unat (cfg_clock_rate (cfg dev)); q = unat (cfg_clock_rate (cfg dev'))
         in 0 < q \<and> q \<le> r \<and> q \<le> f div 2 \<and> current_clkrate dev' = cfg_clock_rate (cfg dev') \<and>
            (\<forall>k\<ge>2. f \<le> k * r \<longrightarrow> f div k \<le> q)"
  using assms by (rule dw_cfg_post)

section \<open>The FIFO depth\<close>

text \<open>The threshold register keeps the last value written that is smaller than the depth (the
  comment above \<open>dw_spi_get_fifo_len\<close> quotes this behaviour of the controller).\<close>

definition threshold_law :: "device \<Rightarrow> u32 \<Rightarrow> u32 \<Rightarrow> bool" where
  "threshold_law hw depth h0 \<longleftrightarrow> h0 < depth \<and>
     (\<forall>log. hw log DW_SPI_TXFTLR = last (h0 # filter (\<lambda>v. v < depth) (writes_of DW_SPI_TXFTLR log)))"

lemma threshold_law_wr:
  assumes "threshold_law hw depth h0"
  shows "hw (WR DW_SPI_TXFTLR v # log) DW_SPI_TXFTLR = (if v < depth then v else hw log DW_SPI_TXFTLR)"
    "hw (RD r x # log) DW_SPI_TXFTLR = hw log DW_SPI_TXFTLR" "hw log DW_SPI_TXFTLR < depth"
proof -
  have "hw log DW_SPI_TXFTLR \<in> insert h0 {v. v < depth}"
    using assms last_in_set [of "h0 # filter (\<lambda>v. v < depth) (writes_of DW_SPI_TXFTLR log)"]
    by (auto simp: threshold_law_def)
  with assms show "hw log DW_SPI_TXFTLR < depth" by (auto simp: threshold_law_def)
qed (use assms in \<open>simp_all add: threshold_law_def\<close>)

lemma fifo_len_loop_spec:
  assumes "threshold_law hw depth h0" "i \<le> depth" "unat depth \<le> unat i + n"
  shows "snd (fifo_len_loop hw n i spi) = depth"
  using assms(2,3)
proof (induction n arbitrary: i spi)
  case 0
  then show ?case by (simp add: word_le_nat_alt word_unat_eq_iff)
next
  case (Suc n)
  let ?s = "fst (dw_read32 hw (dw_write32 spi DW_SPI_TXFTLR i) DW_SPI_TXFTLR)"
  have v: "snd (dw_read32 hw (dw_write32 spi DW_SPI_TXFTLR i) DW_SPI_TXFTLR) = (if i < depth then i else hw (iolog spi) DW_SPI_TXFTLR)"
    by (simp add: spi_reg_defs threshold_law_wr [OF assms(1)])
  show ?case
  proof (cases "i < depth")
    case True
    then have "unat (i + 1) = Suc (unat i)" by (simp add: unat_succ_less)
    then have "i + 1 \<le> depth" "unat depth \<le> unat (i + 1) + n"
      using Suc.prems True by (simp_all add: word_le_nat_alt word_less_nat_alt)
    from Suc.IH [OF this] True v show ?thesis by (simp add: Let_def case_prod_beta)
  next
    case False
    then have "i = depth" using Suc.prems(1) by simp
    then show ?thesis using v threshold_law_wr(3) [OF assms(1), of "iolog spi"]
      by (auto simp: Let_def case_prod_beta)
  qed
qed

lemma fifo_len_post:
  assumes "threshold_law hw depth h0" "2 \<le> depth" "depth \<le> 0x101"
  shows "snd (dw_spi_get_fifo_len hw spi) = depth \<and>
         (let log = iolog (fst (dw_spi_get_fifo_len hw spi)) in hw log DW_SPI_TXFTLR = hw (iolog spi) DW_SPI_TXFTLR)"
proof -
  define hold where "hold = snd (dw_read32 hw spi DW_SPI_TXFTLR)"
  define left where "left = (if hold \<noteq> 0 then hold else 2)"
  have h: "hold = hw (iolog spi) DW_SPI_TXFTLR" "hold < depth"
    using threshold_law_wr(3) [OF assms(1)] by (simp_all add: hold_def spi_reg_defs)
  then have l: "left \<le> depth" "unat depth \<le> unat left + (258 - unat left)"
    using assms(2,3) by (auto simp: left_def word_le_nat_alt word_less_nat_alt)
  have e: "dw_spi_get_fifo_len hw spi =
     (dw_write32 (fst (fifo_len_loop hw (258 - unat left) left (fst (dw_read32 hw spi DW_SPI_TXFTLR)))) DW_SPI_TXFTLR hold,
      snd (fifo_len_loop hw (258 - unat left) left (fst (dw_read32 hw spi DW_SPI_TXFTLR))))"
    unfolding left_def hold_def by (simp add: dw_spi_get_fifo_len_def Let_def case_prod_beta)
  show ?thesis unfolding e using fifo_len_loop_spec [OF assms(1) l] h
    by (simp add: dw_write32_def mmio_write_def threshold_law_wr [OF assms(1)])
qed
text \<open>The probe for the FIFO depth finds the depth, for every depth from 2 to 257 and every
  initial threshold, and leaves the threshold register as it was.\<close>

theorem fifo_len_measured:
  assumes "threshold_law hw depth h0" "2 \<le> depth" "depth \<le> 0x101"
  shows "snd (dw_spi_get_fifo_len hw spi) = depth \<and>
         (let log = iolog (fst (dw_spi_get_fifo_len hw spi)) in hw log DW_SPI_TXFTLR = hw (iolog spi) DW_SPI_TXFTLR)"
  using assms by (rule fifo_len_post)

end
