(* ===== verification/Spi_Witness.thy ===== *)
theory Spi_Witness
  imports Spi_Config
begin

text \<open>
  A controller with a FIFO of sixteen items whose slave answers each item, and the clock of this board (200 MHz).
\<close>

definition demo_spi_hw :: device where
  "demo_spi_hw log r =
     (if r = DW_SPI_RXFLR
      then (if length (reads_of DW_SPI_DR (since_disable log)) < length (writes_of DW_SPI_DR (since_disable log)) then 1 else 0)
      else if r = DW_SPI_DR then 0x15A
      else if r = DW_SPI_TXFTLR then last (0 # filter (\<lambda>v. v < 16) (writes_of DW_SPI_TXFTLR log))
      else 0)"

definition demo_spi :: dw_spi where
  "demo_spi = \<lparr>iolog = [], input_clk = 200000000, pbuf = [], xlen = 0, tlen = 0, rlen = 0, dlen = 0, dscale = 0,
     xtime_us = 0, loopback = True, cr0 = 0, cs_max = 4, sste = False, fifo_len = 4, overrun = False, overread = False\<rparr>"

definition demo_spi_dev :: "u32 \<Rightarrow> spi_devinfo" where
  "demo_spi_dev rate = \<lparr>devno = 0, cfg = \<lparr>cfg_nbits = 8, cfg_cpol = False, cfg_cpha = False, cfg_clock_rate = rate\<rparr>,
     current_clkrate = 0\<rparr>"

lemma demo_full_duplex: "full_duplex demo_spi_hw"
  by (auto simp: full_duplex_def demo_spi_hw_def)

definition demo_xfer :: "(dw_spi \<times> spi_status) option" where
  "demo_xfer = dw_xfer demo_spi_hw [True, True] demo_spi (demo_spi_dev 1000000) [1, 2] 2 2"

lemma demo_xfer_done: "map_option (\<lambda>(s, st). (pbuf s, writes_of DW_SPI_DR (iolog s), st)) demo_xfer
    = Some ([0x5A, 0x5A], [1, 2], EOK)"
  by code_simp

theorem dw_xfer_exchanges_witness:
  "\<exists>s. demo_xfer = Some (s, EOK) \<and> ex_safe s \<and> writes_of DW_SPI_DR (iolog s) = [1, 2]"
proof -
  obtain s where s: "dw_xfer demo_spi_hw [True, True] demo_spi (demo_spi_dev 1000000) [1, 2] 2 2 = Some (s, EOK)"
    using demo_xfer_done unfolding demo_xfer_def
    by (cases "dw_xfer demo_spi_hw [True, True] demo_spi (demo_spi_dev 1000000) [1, 2] 2 2") auto
  have l: "length [1, 2 :: u32] = unat (drop_bit (unat (cfg_scale (cfg (demo_spi_dev 1000000)))) (max 2 (2 :: u32)))"
    by code_simp
  show ?thesis using dw_xfer_exchanges [OF demo_full_duplex l s] s by (simp add: demo_xfer_def demo_spi_def)
qed

theorem dw_cfg_best_rate_witness:
  "\<exists>dev'. dw_cfg demo_spi (demo_spi_dev 3000000) = (dev', EOK) \<and> cfg_clock_rate (cfg dev') \<le> 3000000"
proof -
  have "snd (dw_cfg demo_spi (demo_spi_dev 3000000)) = EOK" by code_simp
  then obtain dev' where d: "dw_cfg demo_spi (demo_spi_dev 3000000) = (dev', EOK)"
    by (cases "dw_cfg demo_spi (demo_spi_dev 3000000)") auto
  have f: "unat (input_clk demo_spi) = 200000000" by (simp add: demo_spi_def)
  show ?thesis using dw_cfg_best_rate [OF d] d f
    by (simp add: demo_spi_def demo_spi_dev_def Let_def word_le_nat_alt)
qed

theorem fifo_len_measured_witness: "snd (dw_spi_get_fifo_len demo_spi_hw demo_spi) = 16"
proof -
  have "threshold_law demo_spi_hw 16 0" by (simp add: threshold_law_def demo_spi_hw_def)
  from fifo_len_measured [OF this, of demo_spi] show ?thesis by simp
qed

text \<open>With the 200 MHz input clock of this board a slow rate is configured wrongly: a
  request for 3 kHz is accepted and rounded to 3051 Hz, and the next transfer then writes 0x10010,
  which does not fit the 16-bit divider whose maximum \<open>dw_cfg\<close> has applied.\<close>

theorem slow_clock_overflows_divider:
  "snd (dw_cfg demo_spi (demo_spi_dev 3000)) = EOK \<and>
   writes_of DW_SPI_BAUDR (iolog (fst (dw_prepare_for_transfer demo_spi_hw demo_spi
      (cfg (fst (dw_cfg demo_spi (demo_spi_dev 3000)))) 4 4))) = [0x10010]"
  by code_simp

end
