(* ===== verification/Mmu.thy ===== *)
theory Mmu
  imports Ram
begin

text \<open>
  The page tables of the startup program (\<open>startup/lib/aarch64/aarch64_map.c\<close>): \<open>aarch64_map_init\<close>
  allocates the top-level tables, \<open>aarch64_map\<close> enters a mapping, \<open>elf_vaddr_to_paddr\<close> walks the
  tables.

  \<^item> The tables live in physical memory, which the startup program addresses directly: \<open>mm_mem\<close> is
    the doubleword at each address, and a C array access \<open>L2[i]\<close> is an access to \<open>L2 + 8 * i\<close>. The
    memory for tables comes from \<open>calloc_ram\<close> of the memory manager, whose state is part of
    \<open>mm_state\<close>; what it has cleared is cleared in \<open>mm_mem\<close>.
  \<^item> \<open>aarch64/mmu.h\<close> is a header of the system: its constants and index macros are the fields of
    \<open>mmu_h\<close>, an argument of every definition.
  \<^item> The protection flags are booleans.
\<close>

section \<open>State\<close>

record mmu_h =
  PTE_VALID :: u64
  PTE_AF :: u64
  PTE_URW :: u64
  PTE_KRW :: u64
  PTE_URO :: u64
  PTE_KRO :: u64
  PTE_UXN :: u64
  PTE_PXN :: u64
  PTE_SODEV :: u64
  PTE_DEV :: u64
  PTE_NC :: u64
  PTE_WBWA :: u64
  PTE_ISH :: u64
  PTE_nG :: u64
  PTE_CONTIG :: u64
  PTP_VALID :: u64
  PTP_TYPE :: "u64 \<Rightarrow> u64"
  PTP_BLOCK :: u64
  L1_IDX :: "u64 \<Rightarrow> nat"
  L2_IDX :: "u64 \<Rightarrow> nat"
  L3_IDX :: "u64 \<Rightarrow> nat"
  L2_IDX_64K :: "u64 \<Rightarrow> nat"
  L3_IDX_64K :: "u64 \<Rightarrow> nat"
  L1_VOFF :: "u64 \<Rightarrow> u64"
  L2_VOFF :: "u64 \<Rightarrow> u64"
  L3_VOFF :: "u64 \<Rightarrow> u64"
  L2_VOFF_64K :: "u64 \<Rightarrow> u64"
  L3_VOFF_64K :: "u64 \<Rightarrow> u64"
  L1_L1_IDX :: nat
  L1_L2_IDX :: nat
  L2_L2_IDX :: nat
  USER_END :: u64
  STARTUP_BASE :: u64
  STARTUP_BASE_64K :: u64

record prot =
  PROT_WRITE :: bool
  PROT_EXEC :: bool
  PROT_USER :: bool
  PROT_DEVICE :: bool
  PROT_NOCACHE :: bool

record mm_state =
  mm_ram :: ram_state
  mm_mem :: "u64 \<Rightarrow> u64"
  L1_ttbr0 :: u64
  L1_ttbr1 :: u64
  free_vaddr :: u64
  ttbr0 :: u64
  ttbr1 :: "u64 list"
  L0_vaddr :: u64
  page_size :: u64
  hdr_virtual :: bool
  num_cpu :: u32
  meltdown_active :: int

definition PROCESSORS_MAX :: nat where
  "PROCESSORS_MAX = 64"

definition PTP_PADDR :: "u64 \<Rightarrow> u64 \<Rightarrow> u64" where
  "PTP_PADDR psz ptp = (ptp AND 0x0000fffffffff000) AND NOT (psz - 1)"

definition USE_LARGE_PAGE :: "mm_state \<Rightarrow> bool" where
  "USE_LARGE_PAGE st \<longleftrightarrow> page_size st > 0x1000"

definition NPTE_PTBL :: "mm_state \<Rightarrow> nat" where
  "NPTE_PTBL st = unat (page_size st) div 8"

definition USE_CONTIG :: "u64 \<Rightarrow> u64 \<Rightarrow> u64 \<Rightarrow> u64 \<Rightarrow> bool" where
  "USE_CONTIG v p s c \<longleftrightarrow> s \<ge> c \<and> (v OR p) AND (c - 1) = 0"

text \<open>An element of a table, and a store to it.\<close>

definition slot :: "u64 \<Rightarrow> nat \<Rightarrow> u64" where
  "slot t i = t + 8 * of_nat i"

section \<open>Descriptors\<close>

definition pte_access :: "mmu_h \<Rightarrow> prot \<Rightarrow> u64" where
  "pte_access h flags =
     (if PROT_WRITE flags then (if PROT_USER flags then PTE_URW h else PTE_KRW h)
      else (if PROT_USER flags then PTE_URO h else PTE_KRO h))"

definition pte_attr :: "mmu_h \<Rightarrow> mm_state \<Rightarrow> prot \<Rightarrow> u64" where
  "pte_attr h st flags =
     (if PROT_DEVICE flags then (if PROT_NOCACHE flags then PTE_SODEV h else PTE_DEV h)
      else (if PROT_NOCACHE flags then PTE_NC h else PTE_WBWA h)
           OR (if num_cpu st > 1 then PTE_ISH h else 0))"

definition set_pte :: "mmu_h \<Rightarrow> mm_state \<Rightarrow> u64 \<Rightarrow> prot \<Rightarrow> u64" where
  "set_pte h st paddr flags =
     paddr OR PTE_VALID h OR PTE_AF h
     OR pte_access h flags
     OR (if PROT_EXEC flags then 0 else PTE_UXN h OR PTE_PXN h)
     OR pte_attr h st flags
     OR (if meltdown_active st > 0 then PTE_nG h else 0)"

section \<open>Memory for tables\<close>

definition clear_block :: "u64 \<times> u64 \<Rightarrow> (u64 \<Rightarrow> u64) \<Rightarrow> u64 \<Rightarrow> u64" where
  "clear_block b m = (\<lambda>x. if x - fst b < snd b then 0 else m x)"

text \<open>A call of \<open>calloc_ram\<close>: the blocks it has cleared are the new ones in \<open>rm_zeroed\<close>.\<close>

definition mm_calloc :: "mm_state \<Rightarrow> u64 \<Rightarrow> u32 \<Rightarrow> (mm_state \<times> u64) fallible" where
  "mm_calloc st sz align =
     bindf (calloc_ram (mm_ram st) sz align) (\<lambda>(ram, pa).
       let new = take (length (rm_zeroed ram) - length (rm_zeroed (mm_ram st))) (rm_zeroed ram)
       in Inr (st\<lparr>mm_ram := ram, mm_mem := fold clear_block new (mm_mem st)\<rparr>, pa))"

definition prot_rw :: prot where
  "prot_rw = \<lparr>PROT_WRITE = True, PROT_EXEC = False, PROT_USER = False, PROT_DEVICE = False, PROT_NOCACHE = False\<rparr>"

definition pt_alloc :: "mmu_h \<Rightarrow> mm_state \<Rightarrow> (mm_state \<times> u64) fallible" where
  "pt_alloc h st =
     bindf (mm_calloc st (page_size st) (ucast (page_size st))) (\<lambda>(st1, pa).
       if pa = NULL_PADDR then Inl ''pt_alloc: calloc_ram failed''
       else Inr (st1, set_pte h st1 pa prot_rw))"

section \<open>Entering a mapping\<close>

text \<open>The innermost loops: \<open>n\<close> consecutive entries, and the entries of one level 3 table. The state of
  the loops is the memory, the index, the virtual address and the descriptor.\<close>

fun l3_put :: "u64 \<Rightarrow> u64 \<Rightarrow> nat \<Rightarrow> (u64 \<Rightarrow> u64) \<times> nat \<times> u64 \<times> u64 \<Rightarrow> (u64 \<Rightarrow> u64) \<times> nat \<times> u64 \<times> u64" where
  "l3_put psz L3 0 s = s"
| "l3_put psz L3 (Suc n) s =
     (case s of (m, i, va, pte) \<Rightarrow> l3_put psz L3 n (m(slot L3 i := pte), Suc i, va + psz, pte + psz))"

definition contig_pages :: "bool \<Rightarrow> nat" where
  "contig_pages large = (if large then 32 else 16)"

definition l3_step :: "mmu_h \<Rightarrow> bool \<Rightarrow> u64 \<Rightarrow> u64 \<Rightarrow> u64 \<Rightarrow> (u64 \<Rightarrow> u64) \<times> nat \<times> u64 \<times> u64 \<Rightarrow>
    (u64 \<Rightarrow> u64) \<times> nat \<times> u64 \<times> u64" where
  "l3_step h large psz end L3 = (\<lambda>(m, i, va, pte).
     let c = contig_pages large;
         use = USE_CONTIG va (TRUNC pte psz) (end - va) (of_nat c * psz);
         n = (if use then c else 1);
         (m1, i1, va1, pte1) = l3_put psz L3 n (m, i, va, if use then pte OR PTE_CONTIG h else pte)
     in (m1, i1, va1, if n = c then pte1 AND NOT (PTE_CONTIG h) else pte1))"

lemma l3_put_index: "fst (snd (l3_put psz L3 n (m, i, va, pte))) = i + n"
  by (induction n arbitrary: m i va pte) auto

lemma l3_step_index: "i < fst (snd (l3_step h large psz end L3 (m, i, va, pte)))"
  unfolding l3_step_def by (simp add: case_prod_beta l3_put_index contig_pages_def Let_def)

function l3_loop :: "mmu_h \<Rightarrow> bool \<Rightarrow> u64 \<Rightarrow> nat \<Rightarrow> u64 \<Rightarrow> u64 \<Rightarrow> (u64 \<Rightarrow> u64) \<times> nat \<times> u64 \<times> u64 \<Rightarrow>
    (u64 \<Rightarrow> u64) \<times> nat \<times> u64 \<times> u64" where
  "l3_loop h large psz npte end L3 (m, i, va, pte) =
     (if i < npte \<and> va < end then l3_loop h large psz npte end L3 (l3_step h large psz end L3 (m, i, va, pte))
      else (m, i, va, pte))"
  by pat_completeness auto
termination
  by (relation "measure (\<lambda>(h, large, psz, npte, end, L3, m, i, va, pte). npte - i)")
     (use l3_step_index in \<open>auto simp: case_prod_beta intro!: diff_less_mono2\<close>)

text \<open>A table entry, allocated if it is empty.\<close>

definition get_table :: "mmu_h \<Rightarrow> mm_state \<Rightarrow> u64 \<Rightarrow> nat \<Rightarrow> (mm_state \<times> u64) fallible" where
  "get_table h st t i =
     bindf (if mm_mem st (slot t i) = 0
            then bindf (pt_alloc h st) (\<lambda>(st1, e). Inr (st1\<lparr>mm_mem := (mm_mem st1)(slot t i := e)\<rparr>))
            else Inr st)
       (\<lambda>st1. Inr (st1, PTP_PADDR (page_size st1) (mm_mem st1 (slot t i))))"

text \<open>The loops over the entries of a level 2 table and of the level 1 table. The first argument is
  the number of entries from the index to the end of the table, the bound of the C loop.\<close>

fun l2_loop :: "nat \<Rightarrow> mmu_h \<Rightarrow> u64 \<Rightarrow> u64 \<Rightarrow> mm_state \<Rightarrow> nat \<Rightarrow> u64 \<Rightarrow> u64 \<Rightarrow> (mm_state \<times> u64 \<times> u64) fallible" where
  "l2_loop 0 h end L2 st L2i va pte = Inr (st, va, pte)"
| "l2_loop (Suc n) h end L2 st L2i va pte =
     (if va < end
      then bindf (get_table h st L2 L2i) (\<lambda>(st1, L3).
             let large = USE_LARGE_PAGE st1;
                 L3i = (if large then L3_IDX_64K h va else L3_IDX h va);
                 (m, _, va1, pte1) = l3_loop h large (page_size st1) (NPTE_PTBL st1) end L3 (mm_mem st1, L3i, va, pte)
             in l2_loop n h end L2 (st1\<lparr>mm_mem := m\<rparr>) (Suc L2i) va1 pte1)
      else Inr (st, va, pte))"

fun l1_loop :: "nat \<Rightarrow> mmu_h \<Rightarrow> u64 \<Rightarrow> u64 \<Rightarrow> mm_state \<Rightarrow> nat \<Rightarrow> u64 \<Rightarrow> u64 \<Rightarrow> (mm_state \<times> u64 \<times> u64) fallible" where
  "l1_loop 0 h end L1 st L1i va pte = Inr (st, va, pte)"
| "l1_loop (Suc n) h end L1 st L1i va pte =
     (if va < end
      then bindf (if USE_LARGE_PAGE st then Inr (st, L1, L2_IDX_64K h va)
                  else bindf (get_table h st L1 L1i) (\<lambda>(st1, L2). Inr (st1, L2, L2_IDX h va)))
             (\<lambda>(st1, L2, L2i).
           bindf (l2_loop (NPTE_PTBL st1 - L2i) h end L2 st1 L2i va pte) (\<lambda>(st2, va1, pte1).
             l1_loop n h end L1 st2 (Suc L1i) va1 pte1))
      else Inr (st, va, pte))"

text \<open>Which level 1 table an address belongs to; \<open>None\<close> where the code stops.\<close>

definition which_L1 :: "mmu_h \<Rightarrow> mm_state \<Rightarrow> u64 \<Rightarrow> u64 option" where
  "which_L1 h st va =
     (if va < USER_END h then Some (L1_ttbr0 st)
      else if va < (if USE_LARGE_PAGE st then STARTUP_BASE_64K h else STARTUP_BASE h) then None
      else Some (L1_ttbr1 st))"

definition aarch64_map :: "mmu_h \<Rightarrow> mm_state \<Rightarrow> u64 \<Rightarrow> u64 \<Rightarrow> u64 \<Rightarrow> prot \<Rightarrow> (mm_state \<times> u64) fallible" where
  "aarch64_map h st0 vaddr0 paddr0 size0 flags =
     (if \<not> hdr_virtual st0 then Inr (st0, paddr0)
      else let psz = page_size st0;
               off = paddr0 AND (psz - 1);
               paddr = paddr0 AND NOT (psz - 1);
               sz = ROUND (size0 + off) psz;
               assigned = (vaddr0 = NOT 0);
               vaddr = (if assigned then free_vaddr st0 else vaddr0);
               st = (if assigned then st0\<lparr>free_vaddr := free_vaddr st0 + sz\<rparr> else st0)
           in if \<not> assigned \<and> vaddr AND (psz - 1) \<noteq> off then Inl ''aarch64_map: bad alignment''
              else let va = TRUNC vaddr psz; end = va + sz
                   in if end < va then Inl ''aarch64_map: end below start''
                      else if va < USER_END h \<and> end \<ge> USER_END h then Inl ''aarch64_map: end of user addresses''
                      else case which_L1 h st va of
                             None \<Rightarrow> Inl ''aarch64_map: below startup base''
                           | Some L1 \<Rightarrow>
                               let L1i = (if USE_LARGE_PAGE st then 0 else L1_IDX h va)
                               in bindf (l1_loop (NPTE_PTBL st - L1i) h end L1 st L1i va (set_pte h st paddr flags))
                                    (\<lambda>(st1, _, _). Inr (st1, vaddr + off)))"

section \<open>The walk\<close>

definition elf_vaddr_to_paddr :: "mmu_h \<Rightarrow> mm_state \<Rightarrow> u64 \<Rightarrow> u64 fallible" where
  "elf_vaddr_to_paddr h st vaddr =
     (case which_L1 h st vaddr of
        None \<Rightarrow> Inl ''elf_vaddr_to_paddr: bad address''
      | Some L1 \<Rightarrow>
          let large = USE_LARGE_PAGE st; m = mm_mem st; psz = page_size st;
              l2 = (\<lambda>L2.
                let pa = m (slot L2 (if large then L2_IDX_64K h vaddr else L2_IDX h vaddr))
                in if pa AND PTP_VALID h = 0 then NULL_PADDR
                   else if PTP_TYPE h pa = PTP_BLOCK h
                   then PTP_PADDR psz pa OR (if large then L2_VOFF_64K h vaddr else L2_VOFF h vaddr)
                   else let L3 = PTP_PADDR psz pa;
                            pa3 = m (slot L3 (if large then L3_IDX_64K h vaddr else L3_IDX h vaddr))
                        in if pa3 AND PTE_VALID h \<noteq> PTE_VALID h then NULL_PADDR
                           else PTP_PADDR psz pa3 OR (if large then L3_VOFF_64K h vaddr else L3_VOFF h vaddr))
          in Inr (if large then l2 L1
                  else let pa = m (slot L1 (L1_IDX h vaddr))
                       in if pa AND PTP_VALID h = 0 then NULL_PADDR
                          else if PTP_TYPE h pa = PTP_BLOCK h then PTP_PADDR psz pa OR L1_VOFF h vaddr
                          else l2 (PTP_PADDR psz pa)))"

section \<open>Initial tables\<close>

text \<open>\<open>ttbr0\<close> is used as it comes from \<open>calloc_ram\<close>. The loop over the CPUs fills one slot of 64 bytes
  each.\<close>

fun init_cpus :: "nat \<Rightarrow> u64 \<Rightarrow> u64 \<Rightarrow> mm_state \<Rightarrow> mm_state" where
  "init_cpus 0 L0 L1pte st = st"
| "init_cpus (Suc n) L0 L1pte st =
     init_cpus n (L0 + 64) L1pte (st\<lparr>ttbr1 := ttbr1 st @ [L0], mm_mem := (mm_mem st)(slot L0 1 := L1pte)\<rparr>)"

text \<open>The tables for \<open>TTBR0\<close> and \<open>TTBR1\<close>, the latter mapped into themselves; the result carries the
  descriptor of the level 1 table.\<close>

definition init_tables :: "mmu_h \<Rightarrow> mm_state \<Rightarrow> (mm_state \<times> u64) fallible" where
  "init_tables h st =
     (let psz = page_size st
      in bindf (mm_calloc st psz (ucast psz)) (\<lambda>(st1, t0).
         let st2 = st1\<lparr>ttbr0 := t0, L1_ttbr0 := PTP_PADDR psz t0\<rparr>
         in bindf (pt_alloc h st2) (\<lambda>(st3, L1pte).
            let L1 = PTP_PADDR psz L1pte;
                st4 = st3\<lparr>L1_ttbr1 := L1, mm_mem := (mm_mem st3)(slot L1 (L1_L1_IDX h) := L1pte)\<rparr>
            in if USE_LARGE_PAGE st then Inr (st4\<lparr>free_vaddr := STARTUP_BASE_64K h\<rparr>, L1pte)
               else bindf (pt_alloc h st4) (\<lambda>(st5, L2pte).
                 let m1 = (mm_mem st5)(slot L1 (L1_L2_IDX h) := L2pte);
                     m2 = m1(slot (PTP_PADDR psz L2pte) (L2_L2_IDX h) := L1pte)
                 in Inr (st5\<lparr>mm_mem := m2, free_vaddr := STARTUP_BASE h\<rparr>, L1pte)))))"

definition aarch64_map_init :: "mmu_h \<Rightarrow> mm_state \<Rightarrow> mm_state fallible" where
  "aarch64_map_init h st =
     bindf (init_tables h st) (\<lambda>(st6, L1pte).
       let psz = page_size st6; l0size = ROUND (64 * of_nat PROCESSORS_MAX) psz
       in bindf (mm_calloc st6 l0size (ucast psz)) (\<lambda>(st7, L0).
          bindf (aarch64_map h st7 (NOT 0) L0 l0size prot_rw) (\<lambda>(st8, v).
            Inr (init_cpus PROCESSORS_MAX L0 L1pte (st8\<lparr>L0_vaddr := v, ttbr1 := []\<rparr>)))))"

section \<open>Users\<close>

definition elf_map :: "mmu_h \<Rightarrow> mm_state \<Rightarrow> u64 \<Rightarrow> u64 \<Rightarrow> u64 \<Rightarrow> bool \<Rightarrow> bool \<Rightarrow> mm_state fallible" where
  "elf_map h st vaddr paddr sz pf_w pf_x =
     bindf (aarch64_map h st vaddr paddr sz
              \<lparr>PROT_WRITE = pf_w, PROT_EXEC = pf_x, PROT_USER = False, PROT_DEVICE = False, PROT_NOCACHE = False\<rparr>)
       (\<lambda>(st1, _). Inr st1)"

definition callout_io_map :: "mmu_h \<Rightarrow> mm_state \<Rightarrow> u32 \<Rightarrow> u64 \<Rightarrow> (mm_state \<times> u64) fallible" where
  "callout_io_map h st sz phys = aarch64_map h st (NOT 0) phys (ucast sz)
     \<lparr>PROT_WRITE = True, PROT_EXEC = False, PROT_USER = False, PROT_DEVICE = True, PROT_NOCACHE = True\<rparr>"

definition callout_memory_map :: "mmu_h \<Rightarrow> mm_state \<Rightarrow> u32 \<Rightarrow> u64 \<Rightarrow> prot \<Rightarrow> (mm_state \<times> u64) fallible" where
  "callout_memory_map h st sz phys flags = aarch64_map h st (NOT 0) phys (ucast sz) flags"

end
