(* ===== verification/Mmu_Proofs.thy ===== *)
theory Mmu_Proofs
  imports Mmu
begin

text \<open>
  What the page table code does with 4 KB pages: a mapping that \<open>aarch64_map\<close> has entered is found
  by the walk of \<open>elf_vaddr_to_paddr\<close>, every other address keeps its translation, and the tables stay
  a tree of separate pages.
\<close>

section \<open>Tables in memory\<close>

text \<open>A table is a page below 2^48; its bytes.\<close>

definition is_page :: "u64 \<Rightarrow> bool" where
  "is_page t \<longleftrightarrow> 4096 dvd unat t \<and> unat t < 2 ^ 48"

definition page_bytes :: "u64 \<Rightarrow> nat set" where
  "page_bytes t = {unat t ..< unat t + 4096}"

lemma unat_slot: "is_page t \<Longrightarrow> i < 512 \<Longrightarrow> unat (slot t i) = unat t + 8 * i"
proof -
  assume a: "is_page t" "i < 512"
  have "unat (of_nat i :: u64) = i" using a(2) by (simp add: unat_of_nat take_bit_nat_eq_self)
  then have "unat (8 * of_nat i :: u64) = 8 * i" using a(2) by (subst unat_mult_lem [THEN iffD1]) simp_all
  then show ?thesis using a unfolding slot_def by (subst unat_add_u64) (simp_all add: is_page_def)
qed

lemma slot_in_page: "is_page t \<Longrightarrow> i < 512 \<Longrightarrow> unat (slot t i) \<in> page_bytes t"
  by (simp add: unat_slot page_bytes_def)

lemma page_of_byte: "is_page t \<Longrightarrow> b \<in> page_bytes t \<Longrightarrow> b div 4096 = unat t div 4096"
  by (auto simp: is_page_def page_bytes_def elim!: dvdE)

lemma pages_disjoint: "is_page t \<Longrightarrow> is_page u \<Longrightarrow> t \<noteq> u \<Longrightarrow> page_bytes t \<inter> page_bytes u = {}"
proof (rule ccontr)
  assume a: "is_page t" "is_page u" "t \<noteq> u" "page_bytes t \<inter> page_bytes u \<noteq> {}"
  then obtain b where "b \<in> page_bytes t" "b \<in> page_bytes u" by auto
  then have "unat t div 4096 = unat u div 4096" using page_of_byte a(1,2) by metis
  then have "unat t = unat u" using a(1,2) by (auto simp: is_page_def elim!: dvdE)
  then show False using a(3) by (simp add: word_unat_eq_iff)
qed

lemma slot_eq_iff:
  assumes "is_page t" "is_page u" "i < 512" "j < 512"
  shows "slot t i = slot u j \<longleftrightarrow> t = u \<and> i = j"
proof
  assume e: "slot t i = slot u j"
  then have "t = u"
    using slot_in_page [OF assms(1,3)] slot_in_page [OF assms(2,4)] pages_disjoint [OF assms(1,2)] by auto
  then show "t = u \<and> i = j" using e unat_slot assms by (metis add_left_cancel mult_left_cancel zero_neq_numeral)
qed simp

section \<open>The tree of tables\<close>

text \<open>The table a path of indices leads to.\<close>

fun tab :: "(u64 \<Rightarrow> u64) \<Rightarrow> u64 \<Rightarrow> nat list \<Rightarrow> u64 option" where
  "tab m t [] = Some t"
| "tab m t (i # p) = (if m (slot t i) = 0 then None else tab m (PTP_PADDR 0x1000 (m (slot t i))) p)"

lemma tab_snoc:
  "tab m t (p @ [i]) = (case tab m t p of None \<Rightarrow> None
     | Some u \<Rightarrow> if m (slot u i) = 0 then None else Some (PTP_PADDR 0x1000 (m (slot u i))))"
  by (induction p arbitrary: t) (auto split: option.splits)

text \<open>The paths under consideration: the indices are in range, and the path does not run into a slot
  through which the tables are mapped into themselves (\<open>ok\<close> is closed under prefixes).\<close>

definition path :: "(nat list \<Rightarrow> bool) \<Rightarrow> nat list \<Rightarrow> bool" where
  "path ok p \<longleftrightarrow> length p \<le> 2 \<and> (\<forall>i\<in>set p. i < 512) \<and> ok p"

definition prefix_closed :: "(nat list \<Rightarrow> bool) \<Rightarrow> bool" where
  "prefix_closed ok \<longleftrightarrow> (\<forall>p i. ok (p @ [i]) \<longrightarrow> ok p)"

definition is_desc :: "u64 \<Rightarrow> bool" where
  "is_desc e \<longleftrightarrow> e AND 3 = 3"

text \<open>The tables are separate pages outside the free memory \<open>F\<close>, each reached by one path; the
  entries of the upper levels are empty or table descriptors.\<close>

definition pt_inv :: "(nat list \<Rightarrow> bool) \<Rightarrow> nat set \<Rightarrow> (u64 \<Rightarrow> u64) \<Rightarrow> u64 \<Rightarrow> bool" where
  "pt_inv ok F m root \<longleftrightarrow>
     (\<forall>p t. path ok p \<longrightarrow> tab m root p = Some t \<longrightarrow> is_page t \<and> page_bytes t \<inter> F = {}) \<and>
     (\<forall>p q t. path ok p \<longrightarrow> path ok q \<longrightarrow> tab m root p = Some t \<longrightarrow> tab m root q = Some t \<longrightarrow> p = q) \<and>
     (\<forall>p i t. path ok (p @ [i]) \<longrightarrow> tab m root p = Some t \<longrightarrow> m (slot t i) = 0 \<or> is_desc (m (slot t i)))"

lemma pt_invD:
  assumes "pt_inv ok F m root" "path ok p" "tab m root p = Some t"
  shows "is_page t" "page_bytes t \<inter> F = {}"
    "path ok q \<Longrightarrow> tab m root q = Some t \<Longrightarrow> p = q"
    "path ok (p @ [i]) \<Longrightarrow> m (slot t i) = 0 \<or> is_desc (m (slot t i))"
  using assms unfolding pt_inv_def by blast+

lemma path_snoc: "prefix_closed ok \<Longrightarrow> path ok (p @ [i]) \<Longrightarrow> path ok p \<and> i < 512"
  by (auto simp: path_def prefix_closed_def)

text \<open>A store outside the upper-level tables changes no path.\<close>

lemma tab_unchanged:
  assumes "prefix_closed ok" "path ok p"
    and "\<And>q i t. path ok (q @ [i]) \<Longrightarrow> tab m root q = Some t \<Longrightarrow> m' (slot t i) = m (slot t i)"
  shows "tab m' root p = tab m root p"
  using assms(2)
proof (induction p rule: rev_induct)
  case (snoc i p)
  then have "tab m' root p = tab m root p" using path_snoc [OF assms(1)] by blast
  moreover have "m' (slot t i) = m (slot t i)" if "tab m root p = Some t" for t
    using assms(3) [OF snoc.prems that] .
  ultimately show ?case by (simp add: tab_snoc split: option.splits)
qed simp

section \<open>Entries of the last level\<close>

text \<open>The indices of an address, and the entry it selects (zero where there is no table).\<close>

definition vpath :: "u64 \<Rightarrow> nat list" where
  "vpath v = [unat v div 2 ^ 30 mod 512, unat v div 2 ^ 21 mod 512]"

definition l3i :: "u64 \<Rightarrow> nat" where
  "l3i v = unat v div 2 ^ 12 mod 512"

definition leaf :: "(u64 \<Rightarrow> u64) \<Rightarrow> u64 \<Rightarrow> u64 \<Rightarrow> u64" where
  "leaf m root v = (case tab m root (vpath v) of None \<Rightarrow> 0 | Some t \<Rightarrow> m (slot t (l3i v)))"

lemma l3i_less [simp]: "l3i v < 512"
  by (simp add: l3i_def)

lemma length_vpath [simp]: "length (vpath v) = 2"
  by (simp add: vpath_def)

lemma path_vpath: "path ok (vpath v) \<longleftrightarrow> ok (vpath v)"
  by (auto simp: path_def vpath_def)

lemma leaf_write:
  fixes e :: u64
  assumes inv: "pt_inv ok F m root" and pc: "prefix_closed ok"
    and p: "path ok (vpath va)" and t: "tab m root (vpath va) = Some t"
  defines "m' \<equiv> m(slot t (l3i va) := e)"
  shows "pt_inv ok F m' root"
    and "\<And>q. path ok q \<Longrightarrow> tab m' root q = tab m root q"
    and "\<And>v. ok (vpath v) \<Longrightarrow> leaf m' root v = (if vpath v = vpath va \<and> l3i v = l3i va then e else leaf m root v)"
proof -
  note T = pt_invD [OF inv p t]
  have up: "m' (slot s i) = m (slot s i)" if q: "path ok (q @ [i])" "tab m root q = Some s" for q i s
  proof -
    have q': "path ok q" "i < 512" using path_snoc [OF pc q(1)] by auto
    have "length q \<le> 1" using q(1) by (simp add: path_def)
    then have "q \<noteq> vpath va" by (metis length_vpath not_one_le_zero numeral_le_one_iff semiring_norm(69))
    then have "s \<noteq> t" using T(3) [OF q'(1)] q(2) by metis
    then show ?thesis
      using slot_eq_iff [OF pt_invD(1) [OF inv q'(1) q(2)] T(1) q'(2) l3i_less] by (simp add: m'_def)
  qed
  show tab: "tab m' root q = tab m root q" if "path ok q" for q
    using pc that by (rule tab_unchanged) (rule up)
  show "pt_inv ok F m' root"
    unfolding pt_inv_def using inv tab up path_snoc [OF pc] by (auto simp: pt_inv_def)
  show "leaf m' root v = (if vpath v = vpath va \<and> l3i v = l3i va then e else leaf m root v)" if v: "ok (vpath v)" for v
  proof (cases "tab m root (vpath v)")
    case None
    then show ?thesis using t tab v by (auto simp: leaf_def path_vpath)
  next
    case (Some s)
    note S = pt_invD [OF inv _ Some]
    have "s = t \<longleftrightarrow> vpath v = vpath va" using S(3) v p t Some by (auto simp: path_vpath)
    then show ?thesis using Some tab v slot_eq_iff [OF S(1) T(1) l3i_less l3i_less, of v va]
      by (auto simp: leaf_def path_vpath m'_def)
  qed
qed

text \<open>A new table, cleared and taken out of the free memory, is linked into an empty entry.\<close>

lemma link_table:
  assumes inv: "pt_inv ok F m root" and pc: "prefix_closed ok"
    and p: "path ok (p @ [i])" and t: "tab m root p = Some t" and z: "m (slot t i) = 0"
    and u: "is_page u" "page_bytes u \<subseteq> F" and e: "e \<noteq> 0" "is_desc e" "PTP_PADDR 0x1000 e = u"
    and m0: "\<And>x. m0 x = (if unat x \<in> page_bytes u then 0 else m x)"
  defines "m' \<equiv> m0(slot t i := e)"
  shows "pt_inv ok (F - page_bytes u) m' root"
    and "\<And>q s. path ok q \<Longrightarrow> tab m root q = Some s \<Longrightarrow> tab m' root q = Some s"
    and "tab m' root (p @ [i]) = Some u"
    and "\<And>v. ok (vpath v) \<Longrightarrow> leaf m' root v = leaf m root v"
proof -
  have p': "path ok p" "i < 512" using path_snoc [OF pc p] by auto
  note T = pt_invD [OF inv p'(1) t]
  have keep: "m' (slot s j) = (if s = t \<and> j = i then e else m (slot s j))"
    if "path ok q" "tab m root q = Some s" "j < 512" for q s j
  proof -
    note S = pt_invD [OF inv that(1,2)]
    have "unat (slot s j) \<notin> page_bytes u" using slot_in_page [OF S(1) that(3)] S(2) u(2) by auto
    then show ?thesis using slot_eq_iff [OF S(1) T(1) that(3) p'(2)] by (auto simp: m'_def m0)
  qed
  have zero: "m' (slot u j) = 0" if "j < 512" for j
  proof -
    have "u \<noteq> t" using T(2) u slot_in_page [OF T(1), of 0] by auto
    then show ?thesis using slot_eq_iff [OF u(1) T(1) that p'(2)] slot_in_page [OF u(1) that] by (simp add: m'_def m0)
  qed
  show old: "tab m' root q = Some s" if "path ok q" "tab m root q = Some s" for q s
    using that
  proof (induction q arbitrary: s rule: rev_induct)
    case (snoc j q)
    then obtain s0 where s0: "tab m root q = Some s0" "m (slot s0 j) \<noteq> 0" "s = PTP_PADDR 0x1000 (m (slot s0 j))"
      by (auto simp: tab_snoc split: option.splits if_splits)
    have q: "path ok q" "j < 512" using path_snoc [OF pc snoc.prems(1)] by auto
    have "m' (slot s0 j) = m (slot s0 j)" using keep [OF q(1) s0(1) q(2)] z s0(2) by auto
    then show ?case using snoc.IH [OF q(1) s0(1)] s0 by (simp add: tab_snoc)
  qed simp
  show new: "tab m' root (p @ [i]) = Some u"
    using old [OF p'(1) t] e by (simp add: tab_snoc m'_def)
  have from_old: "tab m root q = Some s \<or> q = p @ [i] \<and> s = u" if "path ok q" "tab m' root q = Some s" for q s
    using that
  proof (induction q arbitrary: s rule: rev_induct)
    case (snoc j q)
    then obtain s0 where s0: "tab m' root q = Some s0" "m' (slot s0 j) \<noteq> 0" "s = PTP_PADDR 0x1000 (m' (slot s0 j))"
      by (auto simp: tab_snoc split: option.splits if_splits)
    have q: "path ok q" "j < 512" using path_snoc [OF pc snoc.prems(1)] by auto
    from snoc.IH [OF q(1) s0(1)] have m0: "tab m root q = Some s0" using zero [OF q(2)] s0(2) by auto
    show ?case
    proof (cases "s0 = t \<and> j = i")
      case True
      then have "q = p" using T(3) [OF q(1)] m0 by auto
      then show ?thesis using True s0(3) e by (simp add: m'_def)
    next
      case False
      then have "m' (slot s0 j) = m (slot s0 j)" using keep [OF q(1) m0 q(2)] by auto
      then show ?thesis using s0 m0 by (auto simp: tab_snoc)
    qed
  qed simp
  have fresh: "tab m root q \<noteq> Some u" if "path ok q" for q
    using pt_invD(2) [OF inv that] u slot_in_page [OF u(1), of 0] by auto
  show "pt_inv ok (F - page_bytes u) m' root"
    unfolding pt_inv_def
  proof (intro conjI allI impI)
    fix q s assume "path ok q" "tab m' root q = Some s"
    then show "is_page s" "page_bytes s \<inter> (F - page_bytes u) = {}"
      using from_old pt_invD(1,2) [OF inv] u(1) by blast+
  next
    fix q r s assume a: "path ok q" "path ok r" "tab m' root q = Some s" "tab m' root r = Some s"
    show "q = r" using from_old [OF a(1,3)] from_old [OF a(2,4)] fresh a(1,2) pt_invD(3) [OF inv a(1) _ a(2)] by blast
  next
    fix q j s assume a: "path ok (q @ [j])" "tab m' root q = Some s"
    have q: "path ok q" "j < 512" using path_snoc [OF pc a(1)] by auto
    show "m' (slot s j) = 0 \<or> is_desc (m' (slot s j))"
      using from_old [OF q(1) a(2)] zero [OF q(2)] keep [OF q(1) _ q(2)] e(2) pt_invD(4) [OF inv q(1) _ a(1)] by auto
  qed
  show "leaf m' root v = leaf m root v" if v: "ok (vpath v)" for v
  proof (cases "tab m' root (vpath v)")
    case None
    then show ?thesis using old [of "vpath v"] v by (cases "tab m root (vpath v)") (auto simp: leaf_def path_vpath)
  next
    case (Some s)
    have pv: "path ok (vpath v)" using v by (simp add: path_vpath)
    have "p \<noteq> vpath v" using p by (auto simp: path_def)
    with from_old [OF pv Some] show ?thesis
    proof (elim disjE conjE)
      assume s: "tab m root (vpath v) = Some s"
      then have "s \<noteq> t" using T(3) [OF pv] \<open>p \<noteq> vpath v\<close> by auto
      then show ?thesis using keep [OF pv s l3i_less] Some s by (simp add: leaf_def)
    next
      assume s: "vpath v = p @ [i]" "s = u"
      then have "tab m root (vpath v) = None" using t z by (simp add: tab_snoc)
      then show ?thesis using Some zero [OF l3i_less] s(2) by (simp add: leaf_def)
    qed
  qed
qed

section \<open>Pages by number\<close>

definition pn :: "u64 \<Rightarrow> nat" where
  "pn v = unat v div 4096"

definition fr :: "nat \<Rightarrow> u64" where
  "fr a = of_nat (4096 * a)"

definition pindex :: "nat \<Rightarrow> nat list" where
  "pindex a = [a div 2 ^ 18 mod 512, a div 2 ^ 9 mod 512]"

lemma fr_Suc: "fr a + 0x1000 = fr (Suc a)"
  by (simp add: fr_def)

lemma unat_fr: "a < 2 ^ 52 \<Longrightarrow> unat (fr a) = 4096 * a"
  unfolding fr_def by (subst unat_of_nat) (simp add: take_bit_nat_eq_self)

lemma pn_fr: "a < 2 ^ 52 \<Longrightarrow> pn (fr a) = a"
  by (simp add: pn_def unat_fr)

lemma fr_is_page: "f < 2 ^ 36 \<Longrightarrow> is_page (fr f)"
  by (simp add: is_page_def unat_fr)

lemma is_page_fr: "is_page t \<Longrightarrow> t = fr (pn t) \<and> pn t < 2 ^ 36"
proof -
  assume t: "is_page t"
  then have "pn t < 2 ^ 36" by (auto simp: is_page_def pn_def less_mult_imp_div_less)
  moreover from this have "unat (fr (pn t)) = unat t" using t by (simp add: unat_fr is_page_def pn_def)
  ultimately show ?thesis by (simp add: word_unat_eq_iff)
qed

lemma vpath_pn: "vpath v = pindex (pn v)" "l3i v = pn v mod 512"
  by (simp_all add: vpath_def pindex_def l3i_def pn_def div_mult2_eq [symmetric])

lemma path_pindex: "path ok (pindex a) \<longleftrightarrow> ok (pindex a)"
  by (auto simp: path_def pindex_def)

lemma same_index:
  assumes "a div 2 ^ 27 = b div 2 ^ 27"
  shows "pindex a = pindex b \<and> a mod 512 = b mod 512 \<longleftrightarrow> a = b"
proof
  have d: "x = ((x div 2 ^ 27 * 512 + x div 2 ^ 18 mod 512) * 512 + x div 2 ^ 9 mod 512) * 512 + x mod 512" for x :: nat
  proof -
    have "x div 2 ^ 18 = x div 2 ^ 27 * 512 + x div 2 ^ 18 mod 512"
      using div_mult_mod_eq [of "x div 2 ^ 18" 512] by (simp add: div_mult2_eq [symmetric])
    moreover have "x div 2 ^ 9 = x div 2 ^ 18 * 512 + x div 2 ^ 9 mod 512"
      using div_mult_mod_eq [of "x div 2 ^ 9" 512] by (simp add: div_mult2_eq [symmetric])
    moreover have "x = x div 2 ^ 9 * 512 + x mod 512" using div_mult_mod_eq [of x 512] by simp
    ultimately show ?thesis by presburger
  qed
  assume "pindex a = pindex b \<and> a mod 512 = b mod 512"
  then show "a = b" using d [of a] d [of b] assms by (simp add: pindex_def)
qed simp

lemma next_index:
  assumes "Suc (a mod 512) < 512"
  shows "Suc a mod 512 = Suc (a mod 512)" "pindex (Suc a) = pindex a" "Suc a div 2 ^ 27 = a div 2 ^ 27"
proof -
  show "Suc a mod 512 = Suc (a mod 512)" using assms by (simp add: mod_Suc)
  have "Suc a div 512 = a div 512" using assms by (simp add: div_Suc mod_Suc)
  moreover have "x div 2 ^ 9 = x div 512" "x div 2 ^ 18 = x div 512 div 512" "x div 2 ^ 27 = x div 512 div 512 div 512" for x :: nat
    by (simp_all add: div_mult2_eq [symmetric])
  ultimately show "pindex (Suc a) = pindex a" "Suc a div 2 ^ 27 = a div 2 ^ 27" by (simp_all only: pindex_def)
qed

section \<open>Descriptors\<close>

text \<open>What \<open>aarch64/mmu.h\<close> says, which is the format of the architecture: 512 entries per table, two
  low bits for validity and type, and attributes outside the address field (bits 12 to 47), the two
  low bits and the contiguous bit.\<close>

definition ADDR_FIELD :: u64 where "ADDR_FIELD = 0x0000fffffffff000"
definition CONTIG_BIT :: u64 where "CONTIG_BIT = 0x0010000000000000"

definition attr_ok :: "u64 \<Rightarrow> bool" where
  "attr_ok a \<longleftrightarrow> a AND ADDR_FIELD = 0 \<and> a AND 3 = 0 \<and> a AND CONTIG_BIT = 0"

definition mmu_ok :: "mmu_h \<Rightarrow> bool" where
  "mmu_ok h \<longleftrightarrow>
     PTE_VALID h = 3 \<and> PTP_VALID h = 1 \<and> PTP_BLOCK h = 1 \<and> (\<forall>x. PTP_TYPE h x = x AND 3) \<and>
     PTE_CONTIG h = CONTIG_BIT \<and>
     (\<forall>v. L1_IDX h v = unat v div 2 ^ 30 mod 512 \<and> L2_IDX h v = unat v div 2 ^ 21 mod 512 \<and>
          L3_IDX h v = unat v div 2 ^ 12 mod 512 \<and> L3_VOFF h v = v AND 0xfff) \<and>
     (\<forall>a \<in> {PTE_AF h, PTE_URW h, PTE_KRW h, PTE_URO h, PTE_KRO h, PTE_UXN h, PTE_PXN h, PTE_SODEV h,
              PTE_DEV h, PTE_NC h, PTE_WBWA h, PTE_ISH h, PTE_nG h}. attr_ok a)"

lemma mmu_index:
  assumes "mmu_ok h"
  shows "L1_IDX h v = pn v div 2 ^ 18 mod 512" "L2_IDX h v = pn v div 2 ^ 9 mod 512" "L3_IDX h v = pn v mod 512"
  using assms by (simp_all add: mmu_ok_def pn_def div_mult2_eq [symmetric])

definition attrs :: "mmu_h \<Rightarrow> mm_state \<Rightarrow> prot \<Rightarrow> u64" where
  "attrs h st flags = set_pte h st 0 flags"

lemma attr_ok_or: "attr_ok a \<Longrightarrow> attr_ok b \<Longrightarrow> attr_ok (a OR b)"
  by (simp add: attr_ok_def bit.conj_disj_distrib2)

lemma set_pte_attrs:
  assumes "mmu_ok h"
  shows "set_pte h st pa flags = attrs h st flags OR pa"
    "attrs h st flags AND ADDR_FIELD = 0" "attrs h st flags AND 3 = 3" "attrs h st flags AND CONTIG_BIT = 0"
proof -
  define r where "r = PTE_AF h OR pte_access h flags OR (if PROT_EXEC flags then 0 else PTE_UXN h OR PTE_PXN h)
     OR pte_attr h st flags OR (if meltdown_active st > 0 then PTE_nG h else 0)"
  have ok: "attr_ok 0" by (simp add: attr_ok_def)
  have "attr_ok r" using assms ok unfolding r_def pte_access_def pte_attr_def
    by (intro attr_ok_or) (auto simp: mmu_ok_def intro!: attr_ok_or)
  moreover have a: "attrs h st flags = 3 OR r" using assms by (simp add: attrs_def set_pte_def r_def mmu_ok_def ac_simps)
  ultimately show "attrs h st flags AND ADDR_FIELD = 0" "attrs h st flags AND 3 = 3" "attrs h st flags AND CONTIG_BIT = 0"
    by (simp_all add: attr_ok_def bit.conj_disj_distrib2 ADDR_FIELD_def CONTIG_BIT_def)
  show "set_pte h st pa flags = attrs h st flags OR pa" by (simp add: attrs_def set_pte_def ac_simps)
qed

lemma page_field:
  assumes "is_page p"
  shows "p AND ADDR_FIELD = p" "p AND 3 = 0" "p AND CONTIG_BIT = 0"
proof -
  have "unat (push_bit 12 (take_bit 36 (drop_bit 12 p))) = unat p"
  proof -
    have "unat p div 2 ^ 12 < 2 ^ 36" using assms by (simp add: is_page_def less_mult_imp_div_less)
    then have "unat (take_bit 36 (drop_bit 12 p)) = unat p div 2 ^ 12"
      by (simp add: unsigned_take_bit_eq drop_bit_eq_div unat_div take_bit_nat_eq_self)
    moreover from this have "unat (take_bit 36 (drop_bit 12 p) * 4096) = unat p div 4096 * 4096"
      using assms by (subst unat_mult_lem [THEN iffD1]) (auto simp: is_page_def)
    ultimately show ?thesis using assms by (simp add: push_bit_eq_mult is_page_def)
  qed
  then have p: "p = push_bit 12 (take_bit 36 (drop_bit 12 p))" by (metis word_unat_eq_iff)
  have b: "bit p n \<Longrightarrow> 12 \<le> n \<and> n < 48" for n by (subst (asm) p) (auto simp: bit_simps)
  have f: "ADDR_FIELD = push_bit 12 (mask 36)" by (simp add: ADDR_FIELD_def mask_eq_exp_minus_1)
  show "p AND ADDR_FIELD = p" unfolding f by (rule bit_eqI) (auto simp: bit_simps dest: b)
  have "p AND mask 2 = 0" by (rule bit_eqI) (auto simp: bit_simps dest: b)
  then show "p AND 3 = 0" by (simp add: mask_eq_exp_minus_1)
  show "p AND CONTIG_BIT = 0" using b [of 52] and_exp_eq_0_iff_not_bit [of p 52] by (auto simp: CONTIG_BIT_def)
qed

lemma PTP_PADDR_field: "PTP_PADDR 0x1000 x = x AND ADDR_FIELD"
  by (simp add: PTP_PADDR_def ADDR_FIELD_def and.assoc)

lemma ptp_of_desc: "c AND ADDR_FIELD = 0 \<Longrightarrow> is_page p \<Longrightarrow> PTP_PADDR 0x1000 (c OR p) = p"
  by (simp add: PTP_PADDR_field bit.conj_disj_distrib2 page_field)

lemma desc_next:
  assumes "c AND ADDR_FIELD = 0" "Suc f < 2 ^ 36"
  shows "(c OR fr f) + 0x1000 = c OR fr (Suc f)"
proof -
  have "c AND fr g = 0" if "g < 2 ^ 36" for g
  proof -
    have "c AND fr g = (c AND ADDR_FIELD) AND fr g"
      using page_field(1) [OF fr_is_page [OF that]] by (metis and.assoc and.commute)
    then show ?thesis using assms(1) by simp
  qed
  then have "c OR fr g = c + fr g" if "g < 2 ^ 36" for g using that by (simp add: disjunctive_add_eq_or)
  then show ?thesis using assms(2) by (simp add: fr_Suc add.assoc)
qed

section \<open>The loops\<close>

text \<open>In the 512 GB numbered \<open>W\<close>, from \<open>m\<close> to \<open>m'\<close> the pages \<open>a\<close> up to \<open>b\<close> have been mapped to the frames from \<open>f\<close> on, with the
  attributes \<open>c\<close> (up to the contiguous bit); every other entry is as before. The
  existing tables stay where they are.\<close>

definition strip :: "u64 \<Rightarrow> u64" where
  "strip e = e AND NOT CONTIG_BIT"

definition mapped :: "nat \<Rightarrow> (nat list \<Rightarrow> bool) \<Rightarrow> u64 \<Rightarrow> u64 \<Rightarrow> (u64 \<Rightarrow> u64) \<Rightarrow> (u64 \<Rightarrow> u64) \<Rightarrow>
    nat \<Rightarrow> nat \<Rightarrow> nat \<Rightarrow> bool" where
  "mapped W ok root c m m' a b f \<longleftrightarrow>
     (\<forall>v. pn v div 2 ^ 27 = W \<longrightarrow> ok (vpath v) \<longrightarrow>
        (if a \<le> pn v \<and> pn v < b then strip (leaf m' root v) = c OR fr (f + (pn v - a))
         else leaf m' root v = leaf m root v)) \<and>
     (\<forall>q t. path ok q \<longrightarrow> tab m root q = Some t \<longrightarrow> tab m' root q = Some t)"

lemma mapped_trans:
  assumes "mapped W ok root c m m1 a b f" "mapped W ok root c m1 m2 b d (f + (b - a))" "a \<le> b" "b \<le> d"
  shows "mapped W ok root c m m2 a d f"
  unfolding mapped_def
proof (intro conjI allI impI)
  fix v assume v: "pn v div 2 ^ 27 = W" "ok (vpath v)"
  have 1: "if a \<le> pn v \<and> pn v < b then strip (leaf m1 root v) = c OR fr (f + (pn v - a)) else leaf m1 root v = leaf m root v"
    and 2: "if b \<le> pn v \<and> pn v < d then strip (leaf m2 root v) = c OR fr (f + (b - a) + (pn v - b)) else leaf m2 root v = leaf m1 root v"
    using assms(1,2) v unfolding mapped_def by blast+
  show "if a \<le> pn v \<and> pn v < d then strip (leaf m2 root v) = c OR fr (f + (pn v - a)) else leaf m2 root v = leaf m root v"
    using 1 2 assms(3,4) by (auto split: if_splits)
qed (use assms(1,2) in \<open>auto simp: mapped_def\<close>)

lemma mapped_tab: "mapped W ok root c m m' a b f \<Longrightarrow> path ok q \<Longrightarrow> tab m root q = Some t \<Longrightarrow> tab m' root q = Some t"
  by (simp add: mapped_def)

lemma mapped_refl: "mapped W ok root c m m a a f"
  by (auto simp: mapped_def)

lemma l3_put_spec:
  assumes "pt_inv ok F m root" "prefix_closed ok" "ok (pindex a)" "tab m root (pindex a) = Some L3"
    and "a mod 512 + n \<le> 512" "f + n < 2 ^ 36" "a + n < 2 ^ 52" "c AND ADDR_FIELD = 0"
  shows "\<exists>m'. l3_put 0x1000 L3 n (m, a mod 512, fr a, c OR fr f) = (m', a mod 512 + n, fr (a + n), c OR fr (f + n)) \<and>
           pt_inv ok F m' root \<and> (\<forall>q. path ok q \<longrightarrow> tab m' root q = tab m root q) \<and>
           (\<forall>v. pn v div 2 ^ 27 = a div 2 ^ 27 \<longrightarrow> ok (vpath v) \<longrightarrow>
              leaf m' root v = (if a \<le> pn v \<and> pn v < a + n then c OR fr (f + (pn v - a)) else leaf m root v))"
  using assms
proof (induction n arbitrary: m a f)
  case 0
  then show ?case by auto
next
  case (Suc n)
  note pre = Suc.prems
  define m1 where "m1 = m(slot L3 (a mod 512) := c OR fr f)"
  have va: "vpath (fr a) = pindex a" "l3i (fr a) = a mod 512" using pre(7) by (simp_all add: vpath_pn pn_fr)
  have pa: "path ok (pindex a)" using pre(3) va(1) path_vpath by metis
  note W = leaf_write [OF pre(1,2), where va = "fr a" and t = L3 and e = "c OR fr f", unfolded va, OF pa pre(4), folded m1_def]
  have nx: "(c OR fr f) + 0x1000 = c OR fr (Suc f)" using pre(6,8) by (intro desc_next) auto
  have one: "leaf m1 root v = (if pn v = a then c OR fr f else leaf m root v)"
    if "pn v div 2 ^ 27 = a div 2 ^ 27" "ok (vpath v)" for v
    using W(3) [OF that(2)] same_index [OF that(1)] by (auto simp: vpath_pn)
  show ?case
  proof (cases n)
    case 0
    have "\<forall>v. pn v div 2 ^ 27 = a div 2 ^ 27 \<longrightarrow> ok (vpath v) \<longrightarrow>
        leaf m1 root v = (if a \<le> pn v \<and> pn v < Suc a then c OR fr (f + (pn v - a)) else leaf m root v)"
      using one by (auto simp: less_Suc_eq_le)
    then show ?thesis using 0 W(1,2) nx by (simp add: m1_def [symmetric] fr_Suc)
  next
    case (Suc n')
    then have "Suc (a mod 512) < 512" using pre(5) by simp
    note N = next_index [OF this]
    have "tab m1 root (pindex (Suc a)) = Some L3" using W(2) [OF pa] pre(4) N(2) by simp
    from Suc.IH [OF W(1) pre(2) _ this, of "Suc f"] pre(3,5-8) N
    obtain m' where m': "l3_put 0x1000 L3 n (m1, Suc a mod 512, fr (Suc a), c OR fr (Suc f)) =
        (m', Suc a mod 512 + n, fr (Suc a + n), c OR fr (Suc f + n))" "pt_inv ok F m' root"
      "\<forall>q. path ok q \<longrightarrow> tab m' root q = tab m1 root q"
      "\<forall>v. pn v div 2 ^ 27 = Suc a div 2 ^ 27 \<longrightarrow> ok (vpath v) \<longrightarrow>
         leaf m' root v = (if Suc a \<le> pn v \<and> pn v < Suc a + n then c OR fr (Suc f + (pn v - Suc a)) else leaf m1 root v)"
      by auto
    have "leaf m' root v = (if a \<le> pn v \<and> pn v < a + Suc n then c OR fr (f + (pn v - a)) else leaf m root v)"
      if "pn v div 2 ^ 27 = a div 2 ^ 27" "ok (vpath v)" for v
    proof -
      have "leaf m' root v = (if Suc a \<le> pn v \<and> pn v < Suc a + n then c OR fr (Suc f + (pn v - Suc a)) else leaf m1 root v)"
        using m'(4) that N(3) by simp
      moreover have "Suc f + (pn v - Suc a) = f + (pn v - a)" if "Suc a \<le> pn v" using that by simp
      ultimately show ?thesis using one [OF that] by auto
    qed
    then show ?thesis using m'(1-3) W(2) nx N(1) by (simp add: m1_def [symmetric] fr_Suc)
  qed
qed

lemma strip_id: "x AND CONTIG_BIT = 0 \<Longrightarrow> strip x = x"
  using bit.conj_disj_distrib [of x CONTIG_BIT "NOT CONTIG_BIT"] by (simp add: strip_def)

lemma strip_desc:
  assumes "c AND CONTIG_BIT = 0" "is_page p"
  shows "strip (c OR p) = c OR p" "strip ((c OR CONTIG_BIT) OR p) = c OR p"
proof -
  show "strip (c OR p) = c OR p" using assms by (intro strip_id) (simp add: bit.conj_disj_distrib2 page_field)
  have "strip ((c OR CONTIG_BIT) OR p) = strip (c OR p)" by (simp add: strip_def bit.conj_disj_distrib2)
  then show "strip ((c OR CONTIG_BIT) OR p) = c OR p" using \<open>strip (c OR p) = c OR p\<close> by simp
qed

lemma use_contig_aligned:
  assumes "USE_CONTIG (fr a) p (fr e - fr a) (of_nat 16 * 0x1000)" "a \<le> e" "e < 2 ^ 52"
  shows "a + 16 \<le> e" "a mod 512 + 16 \<le> 512"
proof -
  have ue: "unat (fr e) = 4096 * e" "unat (fr a) = 4096 * a" using assms(2,3) by (simp_all add: unat_fr)
  then have "unat (fr e - fr a) = 4096 * (e - a)" using assms(2) by (subst unat_sub_nat) (simp_all add: diff_mult_distrib2)
  then have "16 \<le> e - a" using assms(1) by (simp add: USE_CONTIG_def word_le_nat_alt)
  then show "a + 16 \<le> e" using assms(2) by linarith
  have "(fr a OR p) AND 0xffff = 0" using assms(1) by (simp add: USE_CONTIG_def)
  then have "fr a AND 0xffff = 0" by (metis bit.conj_disj_distrib2 or_eq_0_iff)
  moreover have "(0xffff :: u64) = mask 16" by (simp add: mask_eq_exp_minus_1)
  ultimately have "take_bit 16 (fr a) = 0" by (simp add: take_bit_eq_mask)
  then have "unat (take_bit 16 (fr a)) = 0" by simp
  then have "take_bit 16 (unat (fr a)) = 0" by (simp only: unsigned_take_bit_eq)
  then have "4096 * a mod 65536 = 0" by (simp add: take_bit_eq_mod ue(2))
  then have "4096 * 16 dvd 4096 * a" by (simp add: dvd_eq_mod_eq_0)
  then obtain k where "a = 16 * k" using nat_mult_dvd_cancel1 [of 4096 16 a] by (auto elim: dvdE)
  then have "a mod 512 = 16 * (k mod 32)" using mult_mod_right [of 16 k 32] by simp
  then show "a mod 512 + 16 \<le> 512" using mod_less_divisor [of 32 k] by linarith
qed

lemma l3_step_spec:
  assumes "pt_inv ok F m root" "prefix_closed ok" "ok (pindex a)" "tab m root (pindex a) = Some L3" "mmu_ok h"
    and "a < e" "f + (e - a) < 2 ^ 36" "e < 2 ^ 52" "c AND ADDR_FIELD = 0" "c AND CONTIG_BIT = 0"
  shows "\<exists>n m'. 1 \<le> n \<and> a + n \<le> e \<and> a mod 512 + n \<le> 512 \<and>
           l3_step h False 0x1000 (fr e) L3 (m, a mod 512, fr a, c OR fr f) = (m', a mod 512 + n, fr (a + n), c OR fr (f + n)) \<and>
           pt_inv ok F m' root \<and> mapped (a div 2 ^ 27) ok root c m m' a (a + n) f"
proof -
  define use where "use = USE_CONTIG (fr a) (TRUNC (c OR fr f) 0x1000) (fr e - fr a) (of_nat 16 * 0x1000)"
  define n where "n = (if use then 16 else 1 :: nat)"
  define c' where "c' = (if use then c OR CONTIG_BIT else c)"
  have n: "1 \<le> n" "a + n \<le> e" "a mod 512 + n \<le> 512"
    using use_contig_aligned [of a _ e] assms(6,8) mod_less_divisor [of 512 a]
    by (auto simp: n_def use_def Suc_le_eq)
  have fn: "f + n < 2 ^ 36" "a + n < 2 ^ 52" using n(2) assms(6-8) by linarith+
  have c': "c' AND ADDR_FIELD = 0" using assms(9)
    by (simp add: c'_def bit.conj_disj_distrib2 ADDR_FIELD_def CONTIG_BIT_def)
  have st: "strip (c' OR fr g) = c OR fr g" if "g < 2 ^ 36" for g
    using strip_desc [OF assms(10) fr_is_page [OF that]] by (simp add: c'_def)
  obtain m' where m': "l3_put 0x1000 L3 n (m, a mod 512, fr a, c' OR fr f) = (m', a mod 512 + n, fr (a + n), c' OR fr (f + n))"
    "pt_inv ok F m' root" "\<forall>q. path ok q \<longrightarrow> tab m' root q = tab m root q"
    "\<forall>v. pn v div 2 ^ 27 = a div 2 ^ 27 \<longrightarrow> ok (vpath v) \<longrightarrow>
        leaf m' root v = (if a \<le> pn v \<and> pn v < a + n then c' OR fr (f + (pn v - a)) else leaf m root v)"
    using l3_put_spec [OF assms(1-4) n(3) fn c'] by blast
  have C: "PTE_CONTIG h = CONTIG_BIT" using assms(5) by (simp add: mmu_ok_def)
  have "(if use then (c OR fr f) OR PTE_CONTIG h else c OR fr f) = c' OR fr f"
    by (simp add: c'_def C ac_simps)
  moreover have "(if n = 16 then (c' OR fr (f + n)) AND NOT (PTE_CONTIG h) else c' OR fr (f + n)) = c OR fr (f + n)"
    using st [OF fn(1)] by (auto simp: n_def c'_def C strip_def)
  ultimately have step: "l3_step h False 0x1000 (fr e) L3 (m, a mod 512, fr a, c OR fr f) =
      (m', a mod 512 + n, fr (a + n), c OR fr (f + n))"
    using m'(1) unfolding l3_step_def contig_pages_def Let_def prod.case if_False
    unfolding use_def [symmetric] n_def [symmetric] by (simp del: l3_put.simps)
  have "mapped (a div 2 ^ 27) ok root c m m' a (a + n) f"
    unfolding mapped_def using m'(3,4) st fn(1) by auto
  with n step m'(2) show ?thesis by blast
qed

lemma fr_less_iff: "a < 2 ^ 52 \<Longrightarrow> e < 2 ^ 52 \<Longrightarrow> fr a < fr e \<longleftrightarrow> a < e"
  by (simp add: word_less_nat_alt unat_fr)

text \<open>The pages \<open>B\<close> to \<open>B + 512\<close> that share a level 3 table.\<close>

lemma in_block:
  assumes "512 dvd B" "B \<le> a" "a < B + 512"
  shows "a mod 512 = a - B" "pindex a = pindex B" "a div 2 ^ 27 = B div 2 ^ 27"
proof -
  obtain k where k: "B = 512 * k" using assms(1) by (rule dvdE)
  then have q: "a div 512 = k" using assms(2,3) by (intro div_nat_eqI) auto
  show "a mod 512 = a - B" using q k by (simp add: modulo_nat_def mult.commute)
  have "a div 512 = B div 512" using q k by simp
  moreover have "x div 2 ^ 9 = x div 512" "x div 2 ^ 18 = x div 512 div 512" "x div 2 ^ 27 = x div 512 div 512 div 512" for x :: nat
    by (simp_all add: div_mult2_eq [symmetric])
  ultimately show "pindex a = pindex B" "a div 2 ^ 27 = B div 2 ^ 27" by (simp_all only: pindex_def)
qed

declare l3_loop.simps [simp del]

lemma l3_loop_spec:
  assumes "pt_inv ok F m root" "prefix_closed ok" "ok (pindex B)" "tab m root (pindex B) = Some L3" "mmu_ok h"
    and "512 dvd B" "B \<le> a" "a \<le> b" "b = min e (B + 512)" "f + (e - a) < 2 ^ 36" "e < 2 ^ 52"
    and "c AND ADDR_FIELD = 0" "c AND CONTIG_BIT = 0"
  shows "\<exists>m'. l3_loop h False 0x1000 512 (fr e) L3 (m, a - B, fr a, c OR fr f) = (m', b - B, fr b, c OR fr (f + (b - a))) \<and>
           pt_inv ok F m' root \<and> mapped (B div 2 ^ 27) ok root c m m' a b f"
  using assms(1,4,7,8,10)
proof (induction "b - a" arbitrary: m a f rule: less_induct)
  case less
  have cond: "a - B < 512 \<and> fr a < fr e \<longleftrightarrow> a < b"
    using less.prems(3,4) assms(9,11) fr_less_iff [of a e] by auto
  show ?case
  proof (cases "a < b")
    case True
    then have ae: "a < e" and bl: "a mod 512 = a - B" "pindex a = pindex B" "a div 2 ^ 27 = B div 2 ^ 27"
      using in_block [OF assms(6) less.prems(3)] assms(9) by auto
    obtain n m1 where n: "1 \<le> n" "a + n \<le> e" "a mod 512 + n \<le> 512"
      and s: "l3_step h False 0x1000 (fr e) L3 (m, a mod 512, fr a, c OR fr f) = (m1, a mod 512 + n, fr (a + n), c OR fr (f + n))"
      and m1: "pt_inv ok F m1 root" "mapped (a div 2 ^ 27) ok root c m m1 a (a + n) f"
      using l3_step_spec [OF less.prems(1) assms(2) _ _ assms(5) ae less.prems(5) assms(11-13), of L3] assms(3) less.prems(2) bl(2)
      by auto
    have idx: "a mod 512 + n = a + n - B" "a + n \<le> b" using bl(1) less.prems(3) n assms(9) by auto
    have "tab m1 root (pindex B) = Some L3"
      using mapped_tab [OF m1(2) _ less.prems(2)] assms(3) by (simp add: path_pindex)
    moreover have "b - (a + n) < b - a" "B \<le> a + n" "f + n + (e - (a + n)) < 2 ^ 36"
      using n idx(2) less.prems(3,5) True by linarith+
    ultimately
    obtain m2 where m2: "l3_loop h False 0x1000 512 (fr e) L3 (m1, a + n - B, fr (a + n), c OR fr (f + n)) =
        (m2, b - B, fr b, c OR fr (f + n + (b - (a + n))))" "pt_inv ok F m2 root"
      "mapped (B div 2 ^ 27) ok root c m1 m2 (a + n) b (f + n)"
      using less.hyps [of "a + n" m1 "f + n"] m1(1) idx(2) by auto
    have fn: "f + n + (b - (a + n)) = f + (b - a)" using idx(2) by simp
    have "mapped (B div 2 ^ 27) ok root c m m2 a b f"
      using mapped_trans [OF m1(2) [unfolded bl(3)]] m2(3) idx(2) by simp
    moreover have "l3_loop h False 0x1000 512 (fr e) L3 (m, a - B, fr a, c OR fr f) =
        l3_loop h False 0x1000 512 (fr e) L3 (m1, a + n - B, fr (a + n), c OR fr (f + n))"
      using True cond s bl(1) idx(1) by (subst l3_loop.simps) simp
    ultimately show ?thesis using m2(1,2) unfolding fn by auto
  next
    case False
    then have "a = b" using less.prems(4) by simp
    moreover from this have "\<not> (b - B < 512 \<and> fr b < fr e)" using cond by simp
    then have "l3_loop h False 0x1000 512 (fr e) L3 (m, b - B, fr b, c OR fr f) = (m, b - B, fr b, c OR fr f)"
      by (subst l3_loop.simps) (simp only: if_False)
    ultimately show ?thesis using less.prems(1) mapped_refl by auto
  qed
qed

section \<open>Memory from the memory manager\<close>

lemma mm_calloc_spec:
  assumes "ram_inv (mm_ram st)" "\<not> secure_system (mm_ram st)" "k < 32" "mm_calloc st sz (2 ^ k) = Inr (st', pa)" "pa \<noteq> NULL_PADDR"
  shows "st' = st\<lparr>mm_ram := mm_ram st', mm_mem := clear_block (pa, sz) (mm_mem st)\<rparr>"
    "ram_inv (mm_ram st')" "\<not> secure_system (mm_ram st')" "2 ^ k dvd unat pa"
    "{unat pa ..< unat pa + unat sz} \<subseteq> ram_bytes (rm_ram (mm_ram st))"
    "ram_bytes (rm_ram (mm_ram st')) = ram_bytes (rm_ram (mm_ram st)) - {unat pa ..< unat pa + unat sz}"
proof -
  obtain ram where c: "calloc_ram (mm_ram st) sz (2 ^ k) = Inr (ram, pa)" and st': "mm_ram st' = ram"
    "st' = st\<lparr>mm_ram := ram, mm_mem := fold clear_block (take (length (rm_zeroed ram) - length (rm_zeroed (mm_ram st)))
             (rm_zeroed ram)) (mm_mem st)\<rparr>"
    using assms(4) by (auto simp: mm_calloc_def bindf_Inr_iff)
  obtain r1 b where a0: "alloc_ram (mm_ram st) NULL_PADDR sz (2 ^ k) = Inr (r1, b)"
    using c by (auto simp: calloc_ram_def bindf_Inr_iff)
  then have "b = pa" and ram: "ram = (if secure_system r1 then r1 else r1\<lparr>rm_zeroed := (pa, sz) # rm_zeroed r1\<rparr>)"
    using c assms(5) by (auto simp: calloc_ram_def split: if_splits)
  with a0 have a: "alloc_ram (mm_ram st) NULL_PADDR sz (2 ^ k) = Inr (r1, pa)" by simp
  have "find_ram (rm_ram (mm_ram st)) (rm_avoids (mm_ram st)) sz (2 ^ k) 0 0 \<noteq> NULL_PADDR"
    using a assms(5) by (auto simp: alloc_ram_def)
  then have "rm_zeroed r1 = rm_zeroed (mm_ram st)" "secure_system r1 = secure_system (mm_ram st)"
    using a assms(2) by (auto simp: alloc_ram_def dest: alloc_ram_at_zeroed)
  then show "st' = st\<lparr>mm_ram := mm_ram st', mm_mem := clear_block (pa, sz) (mm_mem st)\<rparr>" "\<not> secure_system (mm_ram st')"
    using assms(2) ram st' by simp_all
  from alloc_ram_found [OF assms(1,3) a] assms(5) ram st'(1) show "ram_inv (mm_ram st')" "2 ^ k dvd unat pa"
    "{unat pa ..< unat pa + unat sz} \<subseteq> ram_bytes (rm_ram (mm_ram st))"
    "ram_bytes (rm_ram (mm_ram st')) = ram_bytes (rm_ram (mm_ram st)) - {unat pa ..< unat pa + unat sz}"
    by (auto simp: ram_inv_def ram_block_def)
qed

lemma clear_page:
  assumes "is_page u"
  shows "clear_block (u, 0x1000) m x = (if unat x \<in> page_bytes u then 0 else m x)"
proof -
  have "x - u < 0x1000 \<longleftrightarrow> unat x \<in> page_bytes u"
  proof
    assume l: "x - u < 0x1000"
    then have "unat u + unat (x - u) < 2 ^ 64" using assms by (simp add: is_page_def word_less_nat_alt)
    then have "unat (u + (x - u)) = unat u + unat (x - u)" by (rule unat_add_u64)
    then show "unat x \<in> page_bytes u" using l by (simp add: page_bytes_def word_less_nat_alt)
  next
    assume "unat x \<in> page_bytes u"
    then show "x - u < 0x1000" by (auto simp: page_bytes_def word_less_nat_alt unat_sub_nat)
  qed
  then show ?thesis by (simp add: clear_block_def)
qed

text \<open>The state of the page table code with 4 KB pages.\<close>

definition mm_inv :: "(nat list \<Rightarrow> bool) \<Rightarrow> u64 \<Rightarrow> mm_state \<Rightarrow> bool" where
  "mm_inv ok root st \<longleftrightarrow> page_size st = 0x1000 \<and> ram_inv (mm_ram st) \<and> \<not> secure_system (mm_ram st) \<and>
     ram_bytes (rm_ram (mm_ram st)) \<subseteq> {..<2 ^ 48} \<and>
     pt_inv ok (ram_bytes (rm_ram (mm_ram st))) (mm_mem st) root"

text \<open>Fields no operation changes.\<close>

definition mm_frame :: "mm_state \<Rightarrow> mm_state \<Rightarrow> bool" where
  "mm_frame st st' \<longleftrightarrow> st' = st\<lparr>mm_ram := mm_ram st', mm_mem := mm_mem st'\<rparr>"

lemma mm_frame_refl: "mm_frame st st"
  by (simp add: mm_frame_def)

lemma mm_frame_trans: "mm_frame a b \<Longrightarrow> mm_frame b c \<Longrightarrow> mm_frame a c"
  unfolding mm_frame_def by (cases a, cases b, cases c) simp

lemma pt_alloc_spec:
  assumes "page_size st = 0x1000" "ram_inv (mm_ram st)" "\<not> secure_system (mm_ram st)"
    and "ram_bytes (rm_ram (mm_ram st)) \<subseteq> {..<2 ^ 48}" "mmu_ok h" "pt_alloc h st = Inr (st', e)"
  shows "\<exists>u. is_page u \<and> page_bytes u \<subseteq> ram_bytes (rm_ram (mm_ram st)) \<and>
           ram_bytes (rm_ram (mm_ram st')) = ram_bytes (rm_ram (mm_ram st)) - page_bytes u \<and>
           ram_inv (mm_ram st') \<and> \<not> secure_system (mm_ram st') \<and>
           mm_mem st' = (\<lambda>x. if unat x \<in> page_bytes u then 0 else mm_mem st x) \<and> mm_frame st st' \<and>
           PTP_PADDR 0x1000 e = u \<and> is_desc e \<and> e \<noteq> 0"
proof -
  obtain u where c: "mm_calloc st 0x1000 (2 ^ 12) = Inr (st', u)" and u: "u \<noteq> NULL_PADDR" and e: "e = set_pte h st' u prot_rw"
    using assms(1,6) by (auto simp: pt_alloc_def bindf_Inr_iff split: if_splits)
  note M = mm_calloc_spec [OF assms(2,3) _ c u, simplified]
  have "unat u \<in> {unat u ..< unat u + 4096}" by simp
  then have "unat u < 2 ^ 48" using M(5) assms(4) by blast
  then have pg: "is_page u" using M(4) by (simp add: is_page_def)
  have d: "PTP_PADDR 0x1000 e = u" "e AND 3 = 3"
    using set_pte_attrs [OF assms(5)] ptp_of_desc [OF _ pg] page_field [OF pg]
    by (simp_all add: e bit.conj_disj_distrib2)
  have "mm_mem st' = (\<lambda>x. if unat x \<in> page_bytes u then 0 else mm_mem st x)"
    using arg_cong [OF M(1), of mm_mem] by (simp add: clear_page [OF pg] fun_eq_iff)
  moreover have "mm_frame st st'" using M(1) unfolding mm_frame_def by (cases st, cases st') simp
  moreover have "e \<noteq> 0" using d(2) by auto
  ultimately show ?thesis using M(2,3,5,6) pg d by (auto simp: page_bytes_def is_desc_def)
qed

section \<open>The outer loops\<close>

lemma get_table_spec:
  assumes "mm_inv ok root st" "prefix_closed ok" "mmu_ok h" "path ok (p @ [i])" "tab (mm_mem st) root p = Some t"
    and "get_table h st t i = Inr (st', L)"
  shows "mm_inv ok root st'" "mm_frame st st'" "tab (mm_mem st') root (p @ [i]) = Some L"
    "mapped W ok root c (mm_mem st) (mm_mem st') a a f"
proof -
  let ?F = "ram_bytes (rm_ram (mm_ram st))"
  have inv: "page_size st = 0x1000" "pt_inv ok ?F (mm_mem st) root" "ram_inv (mm_ram st)" "\<not> secure_system (mm_ram st)"
    "?F \<subseteq> {..<2 ^ 48}" using assms(1) by (simp_all add: mm_inv_def)
  have all: "mm_inv ok root st' \<and> mm_frame st st' \<and> tab (mm_mem st') root (p @ [i]) = Some L \<and>
      mapped W ok root c (mm_mem st) (mm_mem st') a a f"
  proof (cases "mm_mem st (slot t i) = 0")
    case False
    then show ?thesis using assms(1,5,6) inv(1) mapped_refl
      by (auto simp: get_table_def tab_snoc mm_frame_refl)
  next
    case True
    then obtain st1 e where al: "pt_alloc h st = Inr (st1, e)" and st': "st' = st1\<lparr>mm_mem := (mm_mem st1)(slot t i := e)\<rparr>"
      and L: "L = PTP_PADDR (page_size st') e"
      using assms(6) by (auto simp: get_table_def bindf_Inr_iff)
    from pt_alloc_spec [OF inv(1,3,4,5) assms(3) al] obtain u where u: "is_page u" "page_bytes u \<subseteq> ?F"
      and r: "ram_bytes (rm_ram (mm_ram st1)) = ?F - page_bytes u" "ram_inv (mm_ram st1)" "\<not> secure_system (mm_ram st1)"
      and m: "mm_mem st1 = (\<lambda>x. if unat x \<in> page_bytes u then 0 else mm_mem st x)" "mm_frame st st1"
      and e: "PTP_PADDR 0x1000 e = u" "is_desc e" "e \<noteq> 0"
      by auto
    note K = link_table [OF inv(2) assms(2,4,5) True u e(3,2,1) fun_cong [OF m(1)], folded m(1)]
    have fr: "mm_frame st st'" "page_size st' = 0x1000"
      using m(2) inv(1) unfolding st' mm_frame_def by (cases st, cases st1, simp)+
    have "mm_inv ok root st'" using K(1) r inv(5) fr(2) by (auto simp: mm_inv_def st')
    moreover have "mapped W ok root c (mm_mem st) (mm_mem st') a a f"
      using K(2,4) by (auto simp: mapped_def st')
    ultimately show ?thesis using fr K(3) L e(1) by (auto simp: st')
  qed
  then show "mm_inv ok root st'" "mm_frame st st'" "tab (mm_mem st') root (p @ [i]) = Some L"
    "mapped W ok root c (mm_mem st) (mm_mem st') a a f" by auto
qed

text \<open>The pages \<open>C\<close> to \<open>C + 2 ^ 18\<close> that share a level 2 table.\<close>

lemma in_l2_block:
  assumes "2 ^ 18 dvd C" "C \<le> a" "a < C + 2 ^ 18"
  defines "i \<equiv> (a - C) div 512"
  shows "i < 512" "pindex a = [C div 2 ^ 18 mod 512] @ [i]" "512 dvd C + 512 * i" "C + 512 * i \<le> a" "a < C + 512 * i + 512"
    "a div 2 ^ 27 = C div 2 ^ 27"
proof -
  obtain k where k: "C = 2 ^ 18 * k" using assms(1) by (rule dvdE)
  have a: "a = C + 512 * i + (a - C) mod 512"
    using assms(2) div_mult_mod_eq [of "a - C" 512] unfolding i_def by linarith
  show i: "i < 512" unfolding i_def using assms(2,3) by (simp add: less_mult_imp_div_less)
  have q: "a div 2 ^ 18 = k" using assms(2,3) k by (intro div_nat_eqI) auto
  have "a div 2 ^ 9 = 512 * k + i"
  proof -
    have "512 * (512 * k + i) \<le> a" "a < 512 * Suc (512 * k + i)" using a k mod_less_divisor [of 512 "a - C"] by simp_all
    then show ?thesis by (intro div_nat_eqI) simp_all
  qed
  then have "a div 2 ^ 9 mod 512 = i" using i by simp
  then show "pindex a = [C div 2 ^ 18 mod 512] @ [i]" using q k by (simp add: pindex_def)
  show "512 dvd C + 512 * i" using k by simp
  show "C + 512 * i \<le> a" "a < C + 512 * i + 512" using a mod_less_divisor [of 512 "a - C"] by linarith+
  have "x div 2 ^ 27 = x div 2 ^ 18 div 512" for x :: nat by (simp add: div_mult2_eq [symmetric])
  then show "a div 2 ^ 27 = C div 2 ^ 27" using q k by simp
qed

lemma l2_loop_spec:
  assumes "prefix_closed ok" "mmu_ok h" "2 ^ 18 dvd C" "b = min e (C + 2 ^ 18)" "e < 2 ^ 52"
    and "c AND ADDR_FIELD = 0" "c AND CONTIG_BIT = 0"
    and "mm_inv ok root st" "tab (mm_mem st) root [C div 2 ^ 18 mod 512] = Some L2" "C \<le> a" "a \<le> b"
    and "a < e \<longrightarrow> i = (a - C) div 512" "n + i = 512" "\<forall>x. a \<le> x \<and> x < e \<longrightarrow> ok (pindex x)" "f + (e - a) < 2 ^ 36"
    and "l2_loop n h (fr e) L2 st i (fr a) (c OR fr f) = Inr (st', va', pte')"
  shows "va' = fr b \<and> pte' = c OR fr (f + (b - a)) \<and> mm_inv ok root st' \<and> mm_frame st st' \<and>
         mapped (C div 2 ^ 27) ok root c (mm_mem st) (mm_mem st') a b f"
  using assms(8-)
proof (induction n arbitrary: st i a f)
  case 0
  have "a = b"
  proof (rule ccontr)
    assume "a \<noteq> b"
    then have "a < e" "a < C + 2 ^ 18" using 0 assms(4) by auto
    with in_l2_block(1) [OF assms(3) 0(3) this(2)] 0 show False by simp
  qed
  with 0 show ?case by (simp add: mapped_refl mm_frame_refl)
next
  case (Suc n)
  note pre = Suc.prems
  have ae: "fr a < fr e \<longleftrightarrow> a < e" using pre(4) assms(4,5) by (intro fr_less_iff) auto
  show ?case
  proof (cases "a < e")
    case False
    then have "a = b" using pre(4) assms(4) by auto
    with pre False ae show ?thesis by (simp add: mapped_refl mm_frame_refl)
  next
    case True
    have i: "i = (a - C) div 512" using pre(5) True by simp
    have "a \<noteq> C + 2 ^ 18" using pre(6) i by auto
    then have "a < C + 2 ^ 18" using pre(4) assms(4) by auto
    note blk = in_l2_block [OF assms(3) pre(3) this, folded i]
    define B where "B = C + 512 * i"
    define b1 where "b1 = min e (B + 512)"
    note B = blk(3-5) [folded B_def]
    have pa: "pindex a = pindex B" using in_block(2) [OF B] .
    have ok: "ok (pindex B)" using pre(7) True pa by auto
    obtain st1 L3 where g: "get_table h st L2 i = Inr (st1, L3)"
      and rest: "(let (m, _, va1, pte1) = l3_loop h (USE_LARGE_PAGE st1) (page_size st1) (NPTE_PTBL st1) (fr e) L3
           (mm_mem st1, if USE_LARGE_PAGE st1 then L3_IDX_64K h (fr a) else L3_IDX h (fr a), fr a, c OR fr f)
         in l2_loop n h (fr e) L2 (st1\<lparr>mm_mem := m\<rparr>) (Suc i) va1 pte1) = Inr (st', va', pte')"
      using pre(9) True ae by (auto simp: bindf_Inr_iff Let_def)
    have path: "path ok ([C div 2 ^ 18 mod 512] @ [i])" using ok path_pindex [of ok B] pa blk(2) by simp
    note G = get_table_spec [OF pre(1) assms(1,2) path pre(2) g]
    have tB: "tab (mm_mem st1) root (pindex B) = Some L3" using G(3) by (simp only: pa [symmetric] blk(2))
    have ps: "page_size st1 = 0x1000" "pt_inv ok (ram_bytes (rm_ram (mm_ram st1))) (mm_mem st1) root"
      using G(1) by (simp_all add: mm_inv_def)
    have a52: "a < 2 ^ 52" using True assms(5) by simp
    have idx: "L3_IDX h (fr a) = a - B" using in_block(1) [OF B] a52
      by (simp add: mmu_index [OF assms(2)] pn_fr)
    have st: "\<not> USE_LARGE_PAGE st1" "NPTE_PTBL st1 = 512" using ps(1) by (simp_all add: USE_LARGE_PAGE_def NPTE_PTBL_def)
    have ab1: "a \<le> b1" using B(3) True by (simp add: b1_def)
    obtain m where m: "l3_loop h False 0x1000 512 (fr e) L3 (mm_mem st1, a - B, fr a, c OR fr f) =
        (m, b1 - B, fr b1, c OR fr (f + (b1 - a)))" "pt_inv ok (ram_bytes (rm_ram (mm_ram st1))) m root"
      "mapped (B div 2 ^ 27) ok root c (mm_mem st1) m a b1 f"
      using l3_loop_spec [OF ps(2) assms(1) ok tB assms(2) B(1,2) ab1 b1_def pre(8) assms(5-7)] by blast
    define st2 where "st2 = st1\<lparr>mm_mem := m\<rparr>"
    have next_call: "l2_loop n h (fr e) L2 st2 (Suc i) (fr b1) (c OR fr (f + (b1 - a))) = Inr (st', va', pte')"
      using rest m(1) st ps(1) idx by (simp add: st2_def)
    have inv2: "mm_inv ok root st2" using G(1) m(2) by (simp add: mm_inv_def st2_def)
    have W: "B div 2 ^ 27 = C div 2 ^ 27" using in_block(3) [OF B] blk(6) by simp
    have m12: "mapped (C div 2 ^ 27) ok root c (mm_mem st) (mm_mem st2) a b1 f"
      using mapped_trans [OF G(4) [of "C div 2 ^ 27" c a f]] m(3) W ab1 by (simp add: st2_def)
    have "path ok [C div 2 ^ 18 mod 512]" using path_snoc [OF assms(1) path] by simp
    then have t2: "tab (mm_mem st2) root [C div 2 ^ 18 mod 512] = Some L2" using mapped_tab [OF m12 _ pre(2)] by simp
    have b1: "C \<le> b1" "b1 \<le> b" "b1 < e \<longrightarrow> Suc i = (b1 - C) div 512" "f + (b1 - a) + (e - b1) < 2 ^ 36"
      using ab1 pre(3,8) B(2) assms(4) blk(1) unfolding b1_def min_def by (auto simp: B_def)
    have "\<forall>x. b1 \<le> x \<and> x < e \<longrightarrow> ok (pindex x)" using pre(7) ab1 by auto
    from Suc.IH [OF inv2 t2 b1(1,2,3) _ this b1(4) next_call] pre(6)
    have R: "va' = fr b \<and> pte' = c OR fr (f + (b1 - a) + (b - b1)) \<and> mm_inv ok root st' \<and> mm_frame st2 st' \<and>
         mapped (C div 2 ^ 27) ok root c (mm_mem st2) (mm_mem st') b1 b (f + (b1 - a))"
      by simp
    have fb: "f + (b1 - a) + (b - b1) = f + (b - a)" using ab1 b1(2) by simp
    have "mm_frame st st2" using G(2) unfolding st2_def mm_frame_def by (cases st, cases st1) simp
    then show ?thesis
      using R [unfolded fb] mapped_trans [OF m12 _ ab1 b1(2)] mm_frame_trans [of st st2 st'] by simp
  qed
qed

text \<open>The pages \<open>D\<close> to \<open>D + 2 ^ 27\<close> of a level 1 table.\<close>

lemma in_l1_block:
  fixes D a :: nat
  assumes "2 ^ 27 dvd D" "D \<le> a" "a < D + 2 ^ 27"
  defines "i \<equiv> (a - D) div 2 ^ 18"
  shows "i < 512" "2 ^ 18 dvd D + 2 ^ 18 * i" "D + 2 ^ 18 * i \<le> a" "a < D + 2 ^ 18 * i + 2 ^ 18"
    "(D + 2 ^ 18 * i) div 2 ^ 18 mod 512 = i" "(D + 2 ^ 18 * i) div 2 ^ 27 = D div 2 ^ 27"
proof -
  obtain k where k: "D = 2 ^ 27 * k" using assms(1) by (rule dvdE)
  show i: "i < 512" unfolding i_def using assms(2,3) by (simp add: less_mult_imp_div_less)
  have "a - D = 2 ^ 18 * i + (a - D) mod 2 ^ 18" unfolding i_def by simp
  moreover have "(a - D) mod 2 ^ 18 < 2 ^ 18" by simp
  ultimately show "D + 2 ^ 18 * i \<le> a" "a < D + 2 ^ 18 * i + 2 ^ 18" using assms(2) by linarith+
  have "D + 2 ^ 18 * i = 2 ^ 18 * (512 * k + i)" using k by simp
  then have q: "(D + 2 ^ 18 * i) div 2 ^ 18 = 512 * k + i" by simp
  show "2 ^ 18 dvd D + 2 ^ 18 * i" using \<open>D + 2 ^ 18 * i = 2 ^ 18 * (512 * k + i)\<close> by simp
  show "(D + 2 ^ 18 * i) div 2 ^ 18 mod 512 = i" using q i by simp
  have "x div 2 ^ 27 = x div 2 ^ 18 div 512" for x :: nat by (simp add: div_mult2_eq [symmetric])
  then show "(D + 2 ^ 18 * i) div 2 ^ 27 = D div 2 ^ 27" using q i k by simp
qed

lemma l1_loop_spec:
  assumes "prefix_closed ok" "mmu_ok h" "2 ^ 27 dvd D" "e \<le> D + 2 ^ 27" "e < 2 ^ 52"
    and "c AND ADDR_FIELD = 0" "c AND CONTIG_BIT = 0"
    and "mm_inv ok root st" "D \<le> a" "a \<le> e" "a < e \<longrightarrow> i = (a - D) div 2 ^ 18" "n + i = 512"
    and "\<forall>x. a \<le> x \<and> x < e \<longrightarrow> ok (pindex x)" "f + (e - a) < 2 ^ 36"
    and "l1_loop n h (fr e) root st i (fr a) (c OR fr f) = Inr (st', va', pte')"
  shows "mm_inv ok root st' \<and> mm_frame st st' \<and> mapped (D div 2 ^ 27) ok root c (mm_mem st) (mm_mem st') a e f"
  using assms(8-)
proof (induction n arbitrary: st i a f)
  case 0
  have "\<not> a < e" using in_l1_block(1) [OF assms(3) 0(2)] 0 assms(4) by auto
  with 0 show ?case by (simp add: mapped_refl mm_frame_refl)
next
  case (Suc n)
  note pre = Suc.prems
  have ae: "fr a < fr e \<longleftrightarrow> a < e" using pre(3) assms(5) by (intro fr_less_iff) auto
  show ?case
  proof (cases "a < e")
    case False
    with pre ae show ?thesis by (simp add: mapped_refl mm_frame_refl)
  next
    case True
    have i: "i = (a - D) div 2 ^ 18" using pre(4) True by simp
    have "a < D + 2 ^ 27" using True assms(4) by simp
    note blk = in_l1_block [OF assms(3) pre(2) this, folded i]
    define C where "C = D + 2 ^ 18 * i"
    define b where "b = min e (C + 2 ^ 18)"
    note C = blk(2-6) [folded C_def]
    have pa: "pindex a = [C div 2 ^ 18 mod 512] @ [(a - C) div 512]" using in_l2_block(2) [OF C(1-3)] .
    have ps: "page_size st = 0x1000" using pre(1) by (simp add: mm_inv_def)
    then have lg: "\<not> USE_LARGE_PAGE st" by (simp add: USE_LARGE_PAGE_def)
    obtain st1 L2 st2 va1 pte1 where g: "get_table h st root i = Inr (st1, L2)"
      and l2: "l2_loop (NPTE_PTBL st1 - L2_IDX h (fr a)) h (fr e) L2 st1 (L2_IDX h (fr a)) (fr a) (c OR fr f) = Inr (st2, va1, pte1)"
      and nx: "l1_loop n h (fr e) root st2 (Suc i) va1 pte1 = Inr (st', va', pte')"
      using pre(8) True ae lg by (auto simp: bindf_Inr_iff)
    have "ok (pindex a)" using pre(6) True by auto
    then have "path ok (pindex a)" by (simp add: path_pindex)
    then have path: "path ok ([] @ [i])" using path_snoc [OF assms(1)] pa C(4) by (metis append_Nil)
    note G = get_table_spec [OF pre(1) assms(1,2) path _ g, simplified]
    have ps1: "NPTE_PTBL st1 = 512" using G(1) by (simp add: mm_inv_def NPTE_PTBL_def)
    have a52: "a < 2 ^ 52" using True assms(5) by simp
    have idx: "L2_IDX h (fr a) = (a - C) div 512"
      using pa a52 by (simp add: mmu_index [OF assms(2)] pn_fr pindex_def)
    have t1: "tab (mm_mem st1) root [C div 2 ^ 18 mod 512] = Some L2" using G(3) C(4) by simp
    have ab: "a \<le> b" using C(3) True by (simp add: b_def)
    have n2: "512 - (a - C) div 512 + (a - C) div 512 = 512" using in_l2_block(1) [OF C(1-3)] by simp
    have L: "va1 = fr b \<and> pte1 = c OR fr (f + (b - a)) \<and> mm_inv ok root st2 \<and> mm_frame st1 st2 \<and>
        mapped (C div 2 ^ 27) ok root c (mm_mem st1) (mm_mem st2) a b f"
      using l2_loop_spec [OF assms(1,2) C(1) b_def assms(5-7) G(1) t1 C(2) ab _ n2 pre(6,7)] l2 ps1 idx by simp
    have m02: "mapped (D div 2 ^ 27) ok root c (mm_mem st) (mm_mem st2) a b f"
      using mapped_trans [OF G(4) [of "D div 2 ^ 27" c a f]] L C(5) ab by simp
    have b: "D \<le> b" "b \<le> e" "b < e \<longrightarrow> Suc i = (b - D) div 2 ^ 18" "f + (b - a) + (e - b) < 2 ^ 36"
      using ab pre(2,7) unfolding b_def min_def by (auto simp: C_def)
    have "\<forall>x. b \<le> x \<and> x < e \<longrightarrow> ok (pindex x)" using pre(6) ab by auto
    from Suc.IH [OF _ b(1,2,3) _ this b(4)] nx L pre(5)
    have R: "mm_inv ok root st' \<and> mm_frame st2 st' \<and>
        mapped (D div 2 ^ 27) ok root c (mm_mem st2) (mm_mem st') b e (f + (b - a))" by auto
    then show ?thesis
      using mapped_trans [OF m02 _ ab b(2)] mm_frame_trans [OF mm_frame_trans [OF G(2)]] L by blast
  qed
qed

section \<open>The walk and the mapping\<close>

lemma desc_bits: "is_desc e \<Longrightarrow> e AND 1 \<noteq> 0 \<and> e AND 3 \<noteq> 1"
proof -
  assume "is_desc e"
  then have "e AND 3 = 3" by (simp add: is_desc_def)
  moreover have "e AND 1 = (e AND 3) AND 1" by (simp add: and.assoc)
  ultimately show ?thesis by simp
qed

lemma elf_leaf:
  assumes "mm_inv ok root st" "prefix_closed ok" "mmu_ok h" "which_L1 h st v = Some root" "ok (vpath v)"
  shows "elf_vaddr_to_paddr h st v =
    Inr (let e = leaf (mm_mem st) root v in if e AND 3 \<noteq> 3 then NULL_PADDR else (e AND ADDR_FIELD) OR (v AND 0xfff))"
proof -
  let ?m = "mm_mem st"
  define i1 i2 where "i1 = pn v div 2 ^ 18 mod 512" and "i2 = pn v div 2 ^ 9 mod 512"
  define e1 where "e1 = ?m (slot root i1)"
  define e2 where "e2 = ?m (slot (PTP_PADDR 0x1000 e1) i2)"
  have inv: "pt_inv ok (ram_bytes (rm_ram (mm_ram st))) ?m root" and ps: "page_size st = 0x1000"
    using assms(1) by (simp_all add: mm_inv_def)
  have vp: "vpath v = ([] @ [i1]) @ [i2]" by (simp add: vpath_pn pindex_def i1_def i2_def)
  have p2: "path ok (([] @ [i1]) @ [i2])" using assms(5) vp path_vpath by metis
  then have p1: "path ok ([] @ [i1])" using path_snoc [OF assms(2)] by blast
  then have p0: "path ok []" using path_snoc [OF assms(2)] by blast
  have d1: "e1 = 0 \<or> is_desc e1" using pt_invD(4) [OF inv p0 _ p1] by (simp add: e1_def)
  have d2: "e1 \<noteq> 0 \<Longrightarrow> e2 = 0 \<or> is_desc e2" using pt_invD(4) [OF inv p1 _ p2] by (simp add: e1_def e2_def)
  have lf: "leaf ?m root v = (if e1 = 0 \<or> e2 = 0 then 0 else ?m (slot (PTP_PADDR 0x1000 e2) (l3i v)))"
    unfolding leaf_def vp by (simp add: e1_def e2_def)
  have h: "PTE_VALID h = 3" "PTP_VALID h = 1" "PTP_BLOCK h = 1" "PTP_TYPE h x = x AND 3" "L3_VOFF h v = v AND 0xfff" for x
    using assms(3) by (simp_all add: mmu_ok_def)
  have ix: "L1_IDX h v = i1" "L2_IDX h v = i2" "L3_IDX h v = l3i v"
    by (simp_all add: mmu_index [OF assms(3)] i1_def i2_def vpath_pn)
  have lg: "\<not> USE_LARGE_PAGE st" using ps by (simp add: USE_LARGE_PAGE_def)
  have "elf_vaddr_to_paddr h st v = Inr (if e1 AND 1 = 0 then NULL_PADDR
      else if e1 AND 3 = 1 then PTP_PADDR 0x1000 e1 OR L1_VOFF h v
      else if e2 AND 1 = 0 then NULL_PADDR
      else if e2 AND 3 = 1 then PTP_PADDR 0x1000 e2 OR L2_VOFF h v
      else let e = ?m (slot (PTP_PADDR 0x1000 e2) (l3i v))
           in if e AND 3 \<noteq> 3 then NULL_PADDR else PTP_PADDR 0x1000 e OR (v AND 0xfff))"
    using assms(4) lg by (simp add: elf_vaddr_to_paddr_def ps h ix Let_def e1_def e2_def)
  then show ?thesis unfolding lf using d1 d2 desc_bits by (auto simp: PTP_PADDR_field Let_def)
qed

lemma and_not_fff: "x AND NOT 0xfff = fr (pn x)"
proof -
  have "unat (TRUNC x (2 ^ 12)) = unat x - unat x mod 4096" by (subst unat_trunc_pow2) simp
  also have "\<dots> = 4096 * pn x" by (simp only: pn_def minus_mod_eq_mult_div)
  finally have "unat (x AND NOT 0xfff) = 4096 * pn x" by (simp add: TRUNC_def)
  moreover have "pn x < 2 ^ 52" using unat_u64_bound(1) [of x] by (simp add: pn_def less_mult_imp_div_less)
  ultimately show ?thesis by (simp add: word_unat_eq_iff unat_fr)
qed

lemma and_fff: "unat (x AND 0xfff) = unat x mod 4096"
proof -
  have "x AND 0xfff = take_bit 12 x" by (simp add: take_bit_eq_mask mask_eq_exp_minus_1)
  then have "unat (x AND 0xfff) = take_bit 12 (unat x)" by (simp only: unsigned_take_bit_eq)
  then show ?thesis by (simp add: take_bit_eq_mod)
qed

text \<open>How many pages a block of \<open>sz\<close> bytes at \<open>paddr\<close> meets.\<close>

definition region_pages :: "u64 \<Rightarrow> u64 \<Rightarrow> nat" where
  "region_pages paddr sz = (unat sz + unat paddr mod 4096 + 4095) div 4096"

lemma round_region:
  assumes "unat sz + 4096 < 2 ^ 63"
  shows "ROUND (sz + (paddr AND 0xfff)) 0x1000 = fr (region_pages paddr sz)"
proof -
  let ?s = "unat sz + unat paddr mod 4096"
  have s: "unat (sz + (paddr AND 0xfff)) = ?s"
    using assms mod_less_divisor [of 4096 "unat paddr"] by (subst unat_add_u64) (simp_all add: and_fff)
  have "unat (ROUND (sz + (paddr AND 0xfff)) (2 ^ 12)) = ?s + 4095 - (?s + 4095) mod 4096"
    using assms mod_less_divisor [of 4096 "unat paddr"] by (subst unat_round_pow2) (simp_all add: s)
  also have "\<dots> = 4096 * region_pages paddr sz"
    by (simp only: region_pages_def minus_mod_eq_mult_div)
  finally have u: "unat (ROUND (sz + (paddr AND 0xfff)) (2 ^ 12)) = 4096 * region_pages paddr sz" .
  then have "region_pages paddr sz < 2 ^ 52"
    using unat_u64_bound(1) [of "ROUND (sz + (paddr AND 0xfff)) (2 ^ 12)"] by simp
  with u show ?thesis by (simp add: word_unat_eq_iff unat_fr)
qed

definition map_va :: "mm_state \<Rightarrow> u64 \<Rightarrow> u64" where
  "map_va st vaddr = (if vaddr = NOT 0 then free_vaddr st else vaddr)"

text \<open>The pages of the region lie in one level 1 table and in its ordinary part, the frames below
  2^48.\<close>

definition region_ok :: "(nat list \<Rightarrow> bool) \<Rightarrow> u64 \<Rightarrow> u64 \<Rightarrow> u64 \<Rightarrow> bool" where
  "region_ok ok va paddr sz \<longleftrightarrow>
     (let a = pn va; e = a + region_pages paddr sz
      in e \<le> a div 2 ^ 27 * 2 ^ 27 + 2 ^ 27 \<and> e < 2 ^ 52 \<and> unat paddr + unat sz + 4096 < 2 ^ 48 \<and>
         (\<forall>x. a \<le> x \<and> x < e \<longrightarrow> ok (pindex x)))"

lemma region_frames:
  assumes "unat paddr + unat sz + 4096 < 2 ^ 48"
  shows "pn paddr + region_pages paddr sz < 2 ^ 36" "pn paddr < 2 ^ 36"
proof -
  let ?n = "unat sz + unat paddr mod 4096 + 4095"
  have "4096 * (?n div 4096) \<le> ?n" by (rule times_div_less_eq_dividend)
  moreover have "unat paddr = 4096 * (unat paddr div 4096) + unat paddr mod 4096" by simp
  moreover have "unat paddr + unat sz + 4096 < 281474976710656" using assms by simp
  ultimately have "4096 * (unat paddr div 4096) + 4096 * (?n div 4096) < 281474976710656" by linarith
  then have "4096 * (pn paddr + region_pages paddr sz) < 4096 * 2 ^ 36"
    using assms unfolding pn_def region_pages_def distrib_left by (simp del: mult_div_mod_eq)
  then show "pn paddr + region_pages paddr sz < 2 ^ 36" by simp
  then show "pn paddr < 2 ^ 36" by simp
qed

lemma aarch64_map_unfold:
  assumes "hdr_virtual st" "page_size st = 0x1000" "unat sz + 4096 < 2 ^ 63"
    and "aarch64_map h st vaddr paddr sz flags = Inr (st', r)"
  defines "va \<equiv> map_va st vaddr" and "n \<equiv> region_pages paddr sz"
  obtains st0 root va1 pte1 where "mm_frame (st\<lparr>free_vaddr := free_vaddr st0\<rparr>) st0" "mm_ram st0 = mm_ram st" "mm_mem st0 = mm_mem st"
    "which_L1 h st (fr (pn va)) = Some root" "r = va + (paddr AND 0xfff)"
    "fr (pn va) < USER_END h \<Longrightarrow> fr (pn va + n) < USER_END h"
    "l1_loop (512 - L1_IDX h (fr (pn va))) h (fr (pn va + n)) root st0 (L1_IDX h (fr (pn va))) (fr (pn va))
       (set_pte h st (fr (pn paddr)) flags) = Inr (st', va1, pte1)"
proof -
  define st0 where "st0 = (if vaddr = NOT 0 then st\<lparr>free_vaddr := free_vaddr st + fr n\<rparr> else st)"
  have sp: "set_pte h st0 p flags = set_pte h st p flags" for p by (simp add: st0_def set_pte_def pte_attr_def)
  have w: "which_L1 h st0 v = which_L1 h st v" for v by (simp add: st0_def which_L1_def USE_LARGE_PAGE_def)
  have lg: "\<not> USE_LARGE_PAGE st0" "NPTE_PTBL st0 = 512" using assms(2) by (simp_all add: st0_def USE_LARGE_PAGE_def NPTE_PTBL_def)
  have e: "fr (pn va) + fr n = fr (pn va + n)" by (simp add: fr_def algebra_simps)
  have tr: "TRUNC x 0x1000 = fr (pn x)" for x using and_not_fff [of x] by (simp add: TRUNC_def)
  have v: "(if vaddr = - 1 then free_vaddr st else vaddr) = va"
    "(if vaddr = - 1 then st\<lparr>free_vaddr := free_vaddr st + fr n\<rparr> else st) = st0"
    by (simp_all add: va_def map_va_def st0_def)
  note rr = round_region [OF assms(3), of paddr, folded n_def]
  have cases: "(if vaddr \<noteq> NOT 0 \<and> va AND 0xfff \<noteq> paddr AND 0xfff then Inl ''aarch64_map: bad alignment''
     else if fr (pn va + n) < fr (pn va) then Inl ''aarch64_map: end below start''
     else if fr (pn va) < USER_END h \<and> fr (pn va + n) \<ge> USER_END h then Inl ''aarch64_map: end of user addresses''
     else case which_L1 h st (fr (pn va)) of
            None \<Rightarrow> Inl ''aarch64_map: below startup base''
          | Some L1 \<Rightarrow> bindf (l1_loop (512 - L1_IDX h (fr (pn va))) h (fr (pn va + n)) L1 st0 (L1_IDX h (fr (pn va))) (fr (pn va))
                 (set_pte h st (fr (pn paddr)) flags)) (\<lambda>(st1, _, _). Inr (st1, va + (paddr AND 0xfff)))) = Inr (st', r)"
    using assms(1,4) lg unfolding aarch64_map_def Let_def assms(2)
    by (simp add: rr tr v e w sp and_not_fff [of paddr, simplified] split del: if_split cong: if_cong option.case_cong)
  then obtain root where root: "which_L1 h st (fr (pn va)) = Some root" by (auto split: if_splits option.splits)
  with cases obtain va1 pte1 where "l1_loop (512 - L1_IDX h (fr (pn va))) h (fr (pn va + n)) root st0 (L1_IDX h (fr (pn va)))
      (fr (pn va)) (set_pte h st (fr (pn paddr)) flags) = Inr (st', va1, pte1)" "r = va + (paddr AND 0xfff)"
    "fr (pn va) < USER_END h \<Longrightarrow> fr (pn va + n) < USER_END h"
    by (auto simp: bindf_Inr_iff not_le split: if_splits)
  then show ?thesis using root by (intro that [of st0]) (auto simp: mm_frame_def st0_def)
qed

lemma aarch64_map_mapped:
  assumes "mmu_ok h" "prefix_closed ok" "mm_inv ok root st" "hdr_virtual st"
    and "aarch64_map h st vaddr paddr sz flags = Inr (st', r)"
    and va: "va = map_va st vaddr" and root: "which_L1 h st (fr (pn va)) = Some root"
    and reg: "region_ok ok va paddr sz"
  shows "mm_inv ok root st'" "r = va + (paddr AND 0xfff)" "which_L1 h st' = which_L1 h st"
    "mapped (pn va div 2 ^ 27) ok root (attrs h st flags) (mm_mem st) (mm_mem st') (pn va)
       (pn va + region_pages paddr sz) (pn paddr)"
    "\<And>v. pn va \<le> pn v \<Longrightarrow> pn v < pn va + region_pages paddr sz \<Longrightarrow> which_L1 h st v = Some root"
proof -
  define a n D where "a = pn va" and "n = region_pages paddr sz" and "D = a div 2 ^ 27 * 2 ^ 27"
  have R: "a + n \<le> D + 2 ^ 27" "a + n < 2 ^ 52" "unat paddr + unat sz + 4096 < 2 ^ 48" "\<forall>x. a \<le> x \<and> x < a + n \<longrightarrow> ok (pindex x)"
    using reg by (simp_all add: region_ok_def Let_def a_def n_def D_def)
  have ps: "page_size st = 0x1000" "unat sz + 4096 < 2 ^ 63" using assms(3) R(3) by (simp_all add: mm_inv_def)
  obtain st0 va1 pte1 where st0: "mm_frame (st\<lparr>free_vaddr := free_vaddr st0\<rparr>) st0" "mm_ram st0 = mm_ram st" "mm_mem st0 = mm_mem st"
    and r: "r = va + (paddr AND 0xfff)" and u: "fr a < USER_END h \<Longrightarrow> fr (a + n) < USER_END h"
    and l: "l1_loop (512 - L1_IDX h (fr a)) h (fr (a + n)) root st0 (L1_IDX h (fr a)) (fr a)
       (set_pte h st (fr (pn paddr)) flags) = Inr (st', va1, pte1)"
    using aarch64_map_unfold [OF assms(4) ps assms(5)] root unfolding va [symmetric] a_def n_def by (metis option.inject)
  have ps0: "page_size st0 = page_size st" "L1_ttbr0 st0 = L1_ttbr0 st" "L1_ttbr1 st0 = L1_ttbr1 st"
    using st0(1) unfolding mm_frame_def by (cases st, cases st0, simp)+
  have inv0: "mm_inv ok root st0" using assms(3) st0(2,3) ps0 by (simp add: mm_inv_def)
  note at = set_pte_attrs [OF assms(1), where st = st and flags = flags]
  have D: "2 ^ 27 dvd D" "D \<le> a" "D div 2 ^ 27 = a div 2 ^ 27" by (simp_all add: D_def)
  have a52: "a < 2 ^ 52" using R(2) by simp
  have ltD: "a < D + 2 ^ 27" using dividend_less_div_times [of "2 ^ 27" a] by (simp add: D_def)
  have i: "L1_IDX h (fr a) = (a - D) div 2 ^ 18"
  proof -
    note blk = in_l1_block [OF D(1,2) ltD]
    obtain k where k: "D + 2 ^ 18 * ((a - D) div 2 ^ 18) = 2 ^ 18 * k" using blk(2) by (rule dvdE)
    have "a div 2 ^ 18 = k" using blk(3,4) unfolding k by (intro div_nat_eqI) simp_all
    then have "a div 2 ^ 18 = (D + 2 ^ 18 * ((a - D) div 2 ^ 18)) div 2 ^ 18" unfolding k by simp
    then show ?thesis using blk(5) a52 by (simp add: mmu_index [OF assms(1)] pn_fr)
  qed
  have M: "mm_inv ok root st' \<and> mm_frame st0 st' \<and>
      mapped (D div 2 ^ 27) ok root (attrs h st flags) (mm_mem st0) (mm_mem st') a (a + n) (pn paddr)"
    using l1_loop_spec [OF assms(2,1) D(1) R(1,2) at(2,4) inv0 D(2) _ _ _ R(4) _ l [unfolded at(1)]]
      region_frames [OF R(3)] i in_l1_block(1) [OF D(1,2) ltD] by (simp add: n_def)
  then show "mm_inv ok root st'" "mapped (pn va div 2 ^ 27) ok root (attrs h st flags) (mm_mem st) (mm_mem st') (pn va)
       (pn va + region_pages paddr sz) (pn paddr)"
    using st0(3) D(3) by (simp_all add: a_def n_def)
  show "r = va + (paddr AND 0xfff)" by (rule r)
  have "page_size st' = page_size st" "L1_ttbr0 st' = L1_ttbr0 st" "L1_ttbr1 st' = L1_ttbr1 st"
    using M ps0 unfolding mm_frame_def by (cases st0, cases st', simp)+
  then show "which_L1 h st' = which_L1 h st" by (simp add: fun_eq_iff which_L1_def USE_LARGE_PAGE_def)
  show "which_L1 h st v = Some root" if "pn va \<le> pn v" "pn v < pn va + region_pages paddr sz" for v
  proof -
    have f: "unat (fr a) = 4096 * a" "unat (fr (a + n)) = 4096 * (a + n)" using a52 R(2) by (simp_all only: unat_fr)
    have "4096 * a \<le> 4096 * pn v" "4096 * Suc (pn v) \<le> 4096 * (a + n)"
      using that unfolding a_def n_def by (intro mult_le_mono2, simp)+
    moreover have "4096 * pn v \<le> unat v" "unat v < 4096 * Suc (pn v)"
      using dividend_less_times_div [of 4096 "unat v"] by (simp_all add: pn_def)
    ultimately have "4096 * a \<le> unat v" "unat v < 4096 * (a + n)" by linarith+
    then have "fr a \<le> v" "v < fr (a + n)" using f by (simp_all add: word_le_nat_alt word_less_nat_alt)
    then show ?thesis using root u unfolding a_def [symmetric] which_L1_def by (auto split: if_splits)
  qed
qed

section \<open>What a mapping does\<close>

lemma and_strip: "x AND CONTIG_BIT = 0 \<Longrightarrow> strip e AND x = e AND x"
proof -
  assume "x AND CONTIG_BIT = 0"
  then have "NOT CONTIG_BIT AND x = x" using strip_id [of x] by (simp add: strip_def ac_simps)
  then show ?thesis by (simp add: strip_def and.assoc)
qed

lemma page_plus_offset:
  assumes "g < 2 ^ 36"
  shows "unat (fr g OR (v AND 0xfff)) = 4096 * g + unat v mod 4096"
proof -
  have "fr g AND 0xfff = 0"
  proof -
    have "unat (fr g AND 0xfff) = 0" using assms by (simp add: and_fff unat_fr)
    then show ?thesis by (simp add: unat_eq_zero)
  qed
  then have "fr g AND (v AND 0xfff) = 0" by (metis and.assoc and.commute and_zero_eq)
  then have "fr g OR (v AND 0xfff) = fr g + (v AND 0xfff)" by (simp add: disjunctive_add_eq_or)
  moreover have "unat (fr g) = 4096 * g" using assms by (simp add: unat_fr)
  moreover have "4096 * g + unat v mod 4096 < 2 ^ 64" using assms mod_less_divisor [of 4096 "unat v"] by simp
  ultimately show ?thesis by (simp add: unat_add_u64 and_fff)
qed

lemma aarch64_map_post:
  assumes "mmu_ok h" "prefix_closed ok" "mm_inv ok root st" "hdr_virtual st"
    and "aarch64_map h st vaddr paddr sz flags = Inr (st', r)"
    and va: "va = map_va st vaddr" and root: "which_L1 h st (va AND NOT 0xfff) = Some root"
    and reg: "region_ok ok va paddr sz" and k: "k < unat sz"
  shows "elf_vaddr_to_paddr h st' ((va AND NOT 0xfff) + (paddr AND 0xfff) + of_nat k) = Inr (paddr + of_nat k)"
proof -
  define v where "v = (va AND NOT 0xfff) + (paddr AND 0xfff) + of_nat k"
  define c where "c = attrs h st flags"
  let ?a = "pn va" and ?n = "region_pages paddr sz" and ?o = "unat paddr mod 4096"
  note M = aarch64_map_mapped [OF assms(1-5) va root [unfolded and_not_fff] reg]
  have R: "?a + ?n \<le> ?a div 2 ^ 27 * 2 ^ 27 + 2 ^ 27" "?a + ?n < 2 ^ 52" "unat paddr + unat sz + 4096 < 2 ^ 48"
    "\<forall>x. ?a \<le> x \<and> x < ?a + ?n \<longrightarrow> ok (pindex x)"
    using reg by (simp_all add: region_ok_def Let_def)
  have n: "?o + k < 4096 * ?n"
  proof -
    have "unat sz + ?o + 4095 < 4096 * Suc ?n"
      using dividend_less_times_div [of 4096 "unat sz + ?o + 4095"] by (simp add: region_pages_def)
    then show ?thesis using k by simp
  qed
  have uk: "unat (of_nat k :: u64) = k" using k R(3) by (simp add: unat_of_nat take_bit_nat_eq_self)
  have uv: "unat v = 4096 * ?a + ?o + k"
  proof -
    have "unat (fr ?a) = 4096 * ?a" using R(2) by (simp add: unat_fr)
    moreover have "4096 * ?a + ?o + k < 2 ^ 64" using n R(2) by simp
    ultimately show ?thesis unfolding v_def and_not_fff by (simp add: unat_add_u64 and_fff uk)
  qed
  define q where "q = (?o + k) div 4096"
  have q: "pn v = ?a + q" "q < ?n" using n uv by (simp_all add: pn_def q_def less_mult_imp_div_less mult.commute)
  have vw: "pn v div 2 ^ 27 = ?a div 2 ^ 27"
  proof -
    have "?a div 2 ^ 27 * 2 ^ 27 \<le> ?a" by simp
    then show ?thesis using q R(1) by (intro div_nat_eqI) simp_all
  qed
  have okv: "ok (vpath v)" using R(4) q by (simp add: vpath_pn)
  define e where "e = leaf (mm_mem st') root v"
  have se: "strip e = c OR fr (pn paddr + q)"
    using M(4) vw okv q unfolding mapped_def e_def c_def by auto
  have g: "pn paddr + q < 2 ^ 36" using region_frames [OF R(3)] q(2) by linarith
  note at = set_pte_attrs(2,3) [OF assms(1), where st = st and flags = flags, folded c_def]
  have e3: "e AND 3 = 3" and ea: "e AND ADDR_FIELD = fr (pn paddr + q)"
    using and_strip [of 3 e] and_strip [of ADDR_FIELD e] se at page_field [OF fr_is_page [OF g]]
    by (simp_all add: bit.conj_disj_distrib2 CONTIG_BIT_def ADDR_FIELD_def)
  have "elf_vaddr_to_paddr h st' v = Inr (fr (pn paddr + q) OR (v AND 0xfff))"
    using elf_leaf [OF M(1) assms(2,1) _ okv] M(3,5) q e3 ea by (simp add: e_def Let_def)
  moreover have "fr (pn paddr + q) OR (v AND 0xfff) = paddr + of_nat k"
  proof -
    have "unat v mod 4096 = (?o + k) mod 4096" unfolding uv by (simp add: add.assoc)
    then have "unat (fr (pn paddr + q) OR (v AND 0xfff)) = 4096 * pn paddr + (4096 * q + (?o + k) mod 4096)"
      using page_plus_offset [OF g, of v] by simp
    also have "4096 * q + (?o + k) mod 4096 = ?o + k" by (simp add: q_def)
    also have "4096 * pn paddr + (?o + k) = unat paddr + k" by (simp add: pn_def)
    finally show ?thesis using k R(3) uk by (simp add: word_unat_eq_iff unat_add_u64)
  qed
  ultimately show ?thesis by (simp add: v_def)
qed

lemma aarch64_map_others:
  assumes "mmu_ok h" "prefix_closed ok" "mm_inv ok root st" "hdr_virtual st"
    and "aarch64_map h st vaddr paddr sz flags = Inr (st', r)"
    and va: "va = map_va st vaddr" and root: "which_L1 h st (va AND NOT 0xfff) = Some root"
    and reg: "region_ok ok va paddr sz"
    and v: "pn v div 2 ^ 27 = pn va div 2 ^ 27" "ok (vpath v)" "which_L1 h st v = Some root"
      "pn v < pn va \<or> pn va + region_pages paddr sz \<le> pn v"
  shows "elf_vaddr_to_paddr h st' v = elf_vaddr_to_paddr h st v"
proof -
  note M = aarch64_map_mapped [OF assms(1-5) va root [unfolded and_not_fff] reg]
  have "leaf (mm_mem st') root v = leaf (mm_mem st) root v" using M(4) v unfolding mapped_def by fastforce
  then show ?thesis using elf_leaf [OF M(1) assms(2,1) _ v(2)] elf_leaf [OF assms(3,2,1) v(3,2)] M(3) v(3) by simp
qed

end
