(* ===== verification/Mmu_Map.thy ===== *)
theory Mmu_Map
  imports Mmu_Proofs
begin

text \<open>
  The properties of the page table code: a mapping translates, leaves the rest alone, and starts
  from tables that \<open>aarch64_map_init\<close> has set up; with an example on a small machine.
\<close>

section \<open>Mappings\<close>

text \<open>Claim C5. With 4 KB pages, once \<open>aarch64_map\<close> has mapped a region, the walk of the page tables
  takes every byte of it to the physical byte it was mapped to. The address is the page of the
  virtual address (the caller's, or the next free one) plus the page offset of the physical address.
  The region lies within one level 1 table and does not use the slots that map the tables into
  themselves.\<close>

theorem aarch64_map_translates:
  assumes "mmu_ok h" "prefix_closed ok" "mm_inv ok root st" "hdr_virtual st"
    and "aarch64_map h st vaddr paddr sz flags = Inr (st', r)"
    and "va = map_va st vaddr" and "which_L1 h st (va AND NOT 0xfff) = Some root"
    and "region_ok ok va paddr sz" and "k < unat sz"
  shows "elf_vaddr_to_paddr h st' ((va AND NOT 0xfff) + (paddr AND 0xfff) + of_nat k) = Inr (paddr + of_nat k)"
  using assms by (rule aarch64_map_post)


text \<open>The value \<open>aarch64_map\<close> returns for an address the caller chose is not that address:
  the page offset is added although the address already contains it.\<close>

theorem aarch64_map_returns_shifted:
  assumes "hdr_virtual st" "vaddr \<noteq> NOT 0" "aarch64_map h st vaddr paddr sz flags = Inr (st', r)"
  shows "vaddr AND (page_size st - 1) = paddr AND (page_size st - 1) \<and> r = vaddr + (vaddr AND (page_size st - 1))"
  using assms by (auto simp: aarch64_map_def Let_def bindf_Inr_iff split: if_splits option.splits)

section \<open>The initial tables\<close>

text \<open>The ordinary part of the kernel's tables: everything but the slots of the recursion.\<close>

definition kernel_ok :: "mmu_h \<Rightarrow> nat list \<Rightarrow> bool" where
  "kernel_ok h p \<longleftrightarrow> (p \<noteq> [] \<longrightarrow> hd p \<noteq> L1_L1_IDX h) \<and> take 2 p \<noteq> [L1_L2_IDX h, L2_L2_IDX h]"

definition idx_ok :: "mmu_h \<Rightarrow> bool" where
  "idx_ok h \<longleftrightarrow> L1_L1_IDX h < 512 \<and> L1_L2_IDX h < 512 \<and> L2_L2_IDX h < 512 \<and> L1_L1_IDX h \<noteq> L1_L2_IDX h"

lemma prefix_closed_kernel: "prefix_closed (kernel_ok h)"
  unfolding prefix_closed_def kernel_ok_def
  by (auto simp: take_Cons' hd_append split: if_splits)

lemma prefix_closed_all: "prefix_closed (\<lambda>_. True)"
  by (simp add: prefix_closed_def)

lemma pt_inv_empty:
  assumes "is_page t" "page_bytes t \<inter> F = {}" "\<And>i. i < 512 \<Longrightarrow> m (slot t i) = 0" "prefix_closed ok"
  shows "pt_inv ok F m t"
proof -
  have "p = [] \<and> s = t" if "path ok p" "tab m t p = Some s" for p s
    using that assms(3) by (cases p) (auto simp: path_def split: if_splits)
  then show ?thesis unfolding pt_inv_def using assms path_snoc [OF assms(4)] by metis
qed

text \<open>The kernel's tables as they are set up: a level 1 table with one level 2 table.\<close>

lemma pt_inv_kernel:
  assumes "idx_ok h" "is_page t" "is_page u" "t \<noteq> u" "page_bytes t \<inter> F = {}" "page_bytes u \<inter> F = {}"
    and t: "\<And>i. i < 512 \<Longrightarrow> m (slot t i) = (if i = L1_L1_IDX h then e1 else if i = L1_L2_IDX h then e2 else 0)"
    and u: "\<And>i. i < 512 \<Longrightarrow> m (slot u i) = (if i = L2_L2_IDX h then e1 else 0)"
    and e: "e2 \<noteq> 0" "is_desc e2" "PTP_PADDR 0x1000 e2 = u"
  shows "pt_inv (kernel_ok h) F m t"
proof -
  let ?ok = "kernel_ok h"
  have tabs: "p = [] \<and> s = t \<or> p = [L1_L2_IDX h] \<and> s = u" if "path ?ok p" "tab m t p = Some s" for p s
  proof (cases p)
    case (Cons i q)
    have i: "i < 512" "i \<noteq> L1_L1_IDX h" using that(1) Cons by (auto simp: path_def kernel_ok_def)
    then have im: "i = L1_L2_IDX h" "m (slot t i) = e2" using that(2) Cons t [OF i(1)] by (auto split: if_splits)
    moreover have "q = []"
    proof (rule ccontr)
      assume "q \<noteq> []"
      moreover have "length q \<le> 1" using that(1) unfolding Cons path_def by simp
      ultimately obtain j where q: "q = [j]" by (cases q) auto
      then have "j < 512" "j \<noteq> L2_L2_IDX h" using that(1) Cons im(1) by (auto simp: path_def kernel_ok_def)
      then show False using that(2) Cons q im e(3) u [of j] by (auto split: if_splits)
    qed
    ultimately show ?thesis using Cons that(2) e by (auto split: if_splits)
  qed (use that in auto)
  show ?thesis unfolding pt_inv_def
  proof (intro conjI allI impI)
    fix p s assume "path ?ok p" "tab m t p = Some s"
    then show "is_page s" "page_bytes s \<inter> F = {}" using tabs assms(2,3,5,6) by blast+
  next
    fix p q s assume "path ?ok p" "path ?ok q" "tab m t p = Some s" "tab m t q = Some s"
    then show "p = q" using tabs assms(4) by blast
  next
    fix p i s assume a: "path ?ok (p @ [i])" "tab m t p = Some s"
    have pi: "path ?ok p" "i < 512" using path_snoc [OF prefix_closed_kernel a(1)] by auto
    from tabs [OF pi(1) a(2)] show "m (slot s i) = 0 \<or> is_desc (m (slot s i))"
      using a(1) t [OF pi(2)] u [OF pi(2)] e(2) by (auto simp: path_def kernel_ok_def split: if_splits)
  qed
qed

lemma slot_other: "is_page a \<Longrightarrow> is_page b \<Longrightarrow> a \<noteq> b \<Longrightarrow> i < 512 \<Longrightarrow> unat (slot a i) \<notin> page_bytes b"
  using slot_in_page pages_disjoint by blast

lemma mm_calloc_frame: "mm_calloc st sz align = Inr (st', pa) \<Longrightarrow> mm_frame st st'"
  by (cases st) (auto simp: mm_calloc_def bindf_Inr_iff Let_def mm_frame_def)

lemma pt_alloc_frame: "pt_alloc h st = Inr (st', e) \<Longrightarrow> mm_frame st st'"
  by (auto simp: pt_alloc_def bindf_Inr_iff dest: mm_calloc_frame split: if_splits)

lemma init_tables_post:
  assumes "mmu_ok h" "idx_ok h" "page_size st = 0x1000" "ram_inv (mm_ram st)" "\<not> secure_system (mm_ram st)"
    and "ram_bytes (rm_ram (mm_ram st)) \<subseteq> {..<2 ^ 48}" "init_tables h st = Inr (st', e)" "ttbr0 st' \<noteq> NULL_PADDR"
  shows "mm_inv (\<lambda>_. True) (L1_ttbr0 st') st' \<and> mm_inv (kernel_ok h) (L1_ttbr1 st') st' \<and> free_vaddr st' = STARTUP_BASE h"
proof -
  have lg: "\<not> USE_LARGE_PAGE st" using assms(3) by (simp add: USE_LARGE_PAGE_def)
  obtain st1 t0 where c0: "mm_calloc st 0x1000 (2 ^ 12) = Inr (st1, t0)"
    and i1: "(let st2 = st1\<lparr>ttbr0 := t0, L1_ttbr0 := PTP_PADDR 0x1000 t0\<rparr>
         in bindf (pt_alloc h st2) (\<lambda>(st3, L1pte).
            let L1 = PTP_PADDR 0x1000 L1pte;
                st4 = st3\<lparr>L1_ttbr1 := L1, mm_mem := (mm_mem st3)(slot L1 (L1_L1_IDX h) := L1pte)\<rparr>
            in bindf (pt_alloc h st4) (\<lambda>(st5, L2pte).
                 let m1 = (mm_mem st5)(slot L1 (L1_L2_IDX h) := L2pte);
                     m2 = m1(slot (PTP_PADDR 0x1000 L2pte) (L2_L2_IDX h) := L1pte)
                 in Inr (st5\<lparr>mm_mem := m2, free_vaddr := STARTUP_BASE h\<rparr>, L1pte)))) = Inr (st', e)"
    using assms(3,7) lg by (auto simp: init_tables_def bindf_Inr_iff Let_def)
  define st2 where "st2 = st1\<lparr>ttbr0 := t0, L1_ttbr0 := PTP_PADDR 0x1000 t0\<rparr>"
  obtain st3 e1 where c1: "pt_alloc h st2 = Inr (st3, e1)"
    and i2: "bindf (pt_alloc h (st3\<lparr>L1_ttbr1 := PTP_PADDR 0x1000 e1, mm_mem := (mm_mem st3)(slot (PTP_PADDR 0x1000 e1) (L1_L1_IDX h) := e1)\<rparr>))
        (\<lambda>(st5, L2pte).
                 let m1 = (mm_mem st5)(slot (PTP_PADDR 0x1000 e1) (L1_L2_IDX h) := L2pte);
                     m2 = m1(slot (PTP_PADDR 0x1000 L2pte) (L2_L2_IDX h) := e1)
                 in Inr (st5\<lparr>mm_mem := m2, free_vaddr := STARTUP_BASE h\<rparr>, e1)) = Inr (st', e)"
    using i1 unfolding Let_def st2_def [symmetric] by (auto simp: bindf_Inr_iff)
  define u1 where "u1 = PTP_PADDR 0x1000 e1"
  define st4 where "st4 = st3\<lparr>L1_ttbr1 := u1, mm_mem := (mm_mem st3)(slot u1 (L1_L1_IDX h) := e1)\<rparr>"
  obtain st5 e2 where c2: "pt_alloc h st4 = Inr (st5, e2)"
    and st': "st' = st5\<lparr>mm_mem := (mm_mem st5)(slot u1 (L1_L2_IDX h) := e2, slot (PTP_PADDR 0x1000 e2) (L2_L2_IDX h) := e1),
                free_vaddr := STARTUP_BASE h\<rparr>"
    using i2 unfolding u1_def [symmetric] st4_def [symmetric] by (auto simp: bindf_Inr_iff Let_def)
  have f2: "page_size st2 = 0x1000" "mm_ram st2 = mm_ram st1" "mm_mem st2 = mm_mem st1" "ttbr0 st2 = t0"
    "L1_ttbr0 st2 = PTP_PADDR 0x1000 t0"
    using mm_calloc_frame [OF c0] assms(3) unfolding st2_def mm_frame_def by (cases st, cases st1, simp)+
  note fr3 = pt_alloc_frame [OF c1] and fr5 = pt_alloc_frame [OF c2]
  have f3: "page_size st3 = 0x1000" "ttbr0 st3 = t0" "L1_ttbr0 st3 = PTP_PADDR 0x1000 t0"
    using fr3 f2 unfolding mm_frame_def by (cases st2, cases st3, simp)+
  have f4: "page_size st4 = 0x1000" "ttbr0 st4 = t0" "L1_ttbr0 st4 = PTP_PADDR 0x1000 t0" "L1_ttbr1 st4 = u1"
    "mm_ram st4 = mm_ram st3" "mm_mem st4 = (mm_mem st3)(slot u1 (L1_L1_IDX h) := e1)"
    using f3 by (simp_all add: st4_def)
  have f5: "page_size st5 = 0x1000" "ttbr0 st5 = t0" "L1_ttbr0 st5 = PTP_PADDR 0x1000 t0" "L1_ttbr1 st5 = u1"
    using fr5 f4 unfolding mm_frame_def by (cases st4, cases st5, simp)+
  have nn: "t0 \<noteq> NULL_PADDR" using assms(8) f5(2) by (simp add: st')
  let ?F = "ram_bytes (rm_ram (mm_ram st))"
  note M0 = mm_calloc_spec [OF assms(4,5) _ c0 nn, simplified]
  have "unat t0 \<in> {unat t0 ..< unat t0 + 4096}" by simp
  then have "unat t0 < 2 ^ 48" using M0(5) assms(6) by blast
  then have p0: "is_page t0" using M0(4) by (simp add: is_page_def)
  have m1: "mm_mem st1 = clear_block (t0, 0x1000) (mm_mem st)" using arg_cong [OF M0(1), of mm_mem] by simp
  let ?F1 = "ram_bytes (rm_ram (mm_ram st1))"
  have F1: "?F1 = ?F - page_bytes t0" "?F1 \<subseteq> {..<2 ^ 48}" using M0(6) assms(6) by (auto simp: page_bytes_def)
  obtain p1: "is_page u1" and s1: "page_bytes u1 \<subseteq> ?F1" and
    r3: "ram_bytes (rm_ram (mm_ram st3)) = ?F1 - page_bytes u1" "ram_inv (mm_ram st3)" "\<not> secure_system (mm_ram st3)"
    and m3: "mm_mem st3 = (\<lambda>x. if unat x \<in> page_bytes u1 then 0 else mm_mem st1 x)"
    using pt_alloc_spec [OF f2(1) _ _ _ assms(1) c1, unfolded f2(2,3)] M0(2,3) F1(2) unfolding u1_def by auto
  let ?F3 = "ram_bytes (rm_ram (mm_ram st3))"
  define u2 where "u2 = PTP_PADDR 0x1000 e2"
  obtain p2: "is_page u2" and s2: "page_bytes u2 \<subseteq> ?F3" and
    r5: "ram_bytes (rm_ram (mm_ram st5)) = ?F3 - page_bytes u2" "ram_inv (mm_ram st5)" "\<not> secure_system (mm_ram st5)"
    and m5: "mm_mem st5 = (\<lambda>x. if unat x \<in> page_bytes u2 then 0 else mm_mem st4 x)" and e2: "e2 \<noteq> 0" "is_desc e2"
    using pt_alloc_spec [OF f4(1) _ _ _ assms(1) c2, unfolded f4(5)] r3 F1(2) unfolding u2_def by auto
  have ne: "t0 \<noteq> u1" "t0 \<noteq> u2" "u1 \<noteq> u2"
    using s1 s2 F1(1) r3(1) slot_in_page [OF p1, of 0] slot_in_page [OF p2, of 0] by auto
  have st'_mem: "mm_mem st' = (mm_mem st5)(slot u1 (L1_L2_IDX h) := e2, slot u2 (L2_L2_IDX h) := e1)"
    by (simp add: st' u2_def)
  have ix: "L1_L1_IDX h < 512" "L1_L2_IDX h < 512" "L2_L2_IDX h < 512" "L1_L1_IDX h \<noteq> L1_L2_IDX h"
    using assms(2) by (simp_all add: idx_ok_def)
  note val = st'_mem m5 f4(6) m3 m1 clear_page [OF p0] slot_other slot_in_page slot_eq_iff p0 p1 p2 ne ne [symmetric] ix
  have z0: "mm_mem st' (slot t0 i) = 0" if "i < 512" for i using that by (simp add: val)
  have z1: "mm_mem st' (slot u1 i) = (if i = L1_L1_IDX h then e1 else if i = L1_L2_IDX h then e2 else 0)" if "i < 512" for i
    using that by (simp add: val)
  have z2: "mm_mem st' (slot u2 i) = (if i = L2_L2_IDX h then e1 else 0)" if "i < 512" for i
    using that by (simp add: val)
  have F5: "ram_bytes (rm_ram (mm_ram st')) = ?F - page_bytes t0 - page_bytes u1 - page_bytes u2"
    using r5(1) r3(1) F1(1) by (auto simp: st')
  have "PTP_PADDR 0x1000 t0 = t0" using page_field(1) [OF p0] by (simp add: PTP_PADDR_field)
  then have roots: "L1_ttbr0 st' = t0" "L1_ttbr1 st' = u1" "page_size st' = 0x1000" "free_vaddr st' = STARTUP_BASE h"
    using f5 by (simp_all add: st')
  have "pt_inv (\<lambda>_. True) (ram_bytes (rm_ram (mm_ram st'))) (mm_mem st') t0"
    using p0 by (rule pt_inv_empty) (use F5 z0 prefix_closed_all in auto)
  moreover have "pt_inv (kernel_ok h) (ram_bytes (rm_ram (mm_ram st'))) (mm_mem st') u1"
    using assms(2) p1 p2 ne(3) _ _ z1 z2 e2 u2_def [symmetric] by (rule pt_inv_kernel) (use F5 in auto)
  moreover have "ram_inv (mm_ram st')" "\<not> secure_system (mm_ram st')" using r5 by (simp_all add: st')
  moreover have "ram_bytes (rm_ram (mm_ram st')) \<subseteq> {..<2 ^ 48}" using F5 assms(6) by auto
  ultimately show ?thesis by (simp add: mm_inv_def roots)
qed


end
