(* ===== verification/Mmu_Witness.thy ===== *)
theory Mmu_Witness
  imports Mmu_Map
begin

text \<open>
  A small machine with 1 MB of free memory: the hypotheses of the theorems on page tables hold, and a
  mapping is evaluated.
\<close>

definition arm_mmu :: mmu_h where
  "arm_mmu = \<lparr>PTE_VALID = 3, PTE_AF = 0x400, PTE_URW = 0x40, PTE_KRW = 0, PTE_URO = 0xc0, PTE_KRO = 0x80,
     PTE_UXN = 0x40000000000000, PTE_PXN = 0x20000000000000, PTE_SODEV = 0, PTE_DEV = 4, PTE_NC = 8, PTE_WBWA = 12,
     PTE_ISH = 0x300, PTE_nG = 0x800, PTE_CONTIG = 0x10000000000000, PTP_VALID = 1, PTP_TYPE = (\<lambda>x. x AND 3), PTP_BLOCK = 1,
     L1_IDX = (\<lambda>v. unat v div 2 ^ 30 mod 512), L2_IDX = (\<lambda>v. unat v div 2 ^ 21 mod 512),
     L3_IDX = (\<lambda>v. unat v div 2 ^ 12 mod 512), L2_IDX_64K = (\<lambda>v. unat v div 2 ^ 29 mod 8192),
     L3_IDX_64K = (\<lambda>v. unat v div 2 ^ 16 mod 8192), L1_VOFF = (\<lambda>v. v AND 0x3fffffff), L2_VOFF = (\<lambda>v. v AND 0x1fffff),
     L3_VOFF = (\<lambda>v. v AND 0xfff), L2_VOFF_64K = (\<lambda>v. v AND 0x1fffffff), L3_VOFF_64K = (\<lambda>v. v AND 0xffff),
     L1_L1_IDX = 511, L1_L2_IDX = 510, L2_L2_IDX = 511, USER_END = 0x8000000000,
     STARTUP_BASE = 0xffffffff80000000, STARTUP_BASE_64K = 0xffffffff80000000\<rparr>"

lemma arm_mmu_ok: "mmu_ok arm_mmu" "idx_ok arm_mmu"
  by (simp_all add: mmu_ok_def attr_ok_def arm_mmu_def ADDR_FIELD_def CONTIG_BIT_def idx_ok_def)

definition small_ram :: ram_state where
  "small_ram = \<lparr>rm_ram = [\<lparr>ram_addr = 0x100000, ram_size = 0x100000\<rparr>], rm_avoid = Some [],
     rm_ws_early_next = 0, rm_temp_syspage = 0x7000, rm_sysram_added = False, rm_watch_list = [], rm_calls = [],
     rm_zeroed = [], rm_as = \<lparr>ai_sp = \<lparr>sp_base = 0, sp_mem = [], sp_total_size = 0, sp_max_size = 0, sp_sects = [],
       sp_patch = [], sp_fixed_size = 0\<rparr>, ai_list = [], AS_ATTR_KIDS = 0, AS_ATTR_CONTINUED = 0, AS_PRIORITY_DEFAULT = 0,
       sizeof_asinfo_entry = 0\<rparr>, full_ram_paddr = 0x80000, shdr_ram_size = 0, shdr_startup_size = 0,
     secure_system = False, rm_pagesize = 0x1000, id_aa64mmfr0 = 2\<rparr>"

definition small_mm :: mm_state where
  "small_mm = \<lparr>mm_ram = small_ram, mm_mem = (\<lambda>_. 0), L1_ttbr0 = 0x80000, L1_ttbr1 = 0x81000, free_vaddr = 0xffffffff80000000,
     ttbr0 = 0x80000, ttbr1 = [], L0_vaddr = 0, page_size = 0x1000, hdr_virtual = True, num_cpu = 4, meltdown_active = 0\<rparr>"

lemma small_ram_facts:
  "ram_inv small_ram" "\<not> secure_system small_ram" "ram_bytes (rm_ram small_ram) = {0x100000 ..< 0x200000}"
  by (simp_all add: small_ram_def ram_inv_def ram_ok_def ram_entry_ok_def ram_below_top_def ram_bytes_def)

lemma small_mm_inv: "mm_inv (\<lambda>_. True) 0x80000 small_mm"
proof -
  have "pt_inv (\<lambda>_. True) {0x100000 ..< 0x200000} (\<lambda>_. 0) 0x80000"
    by (rule pt_inv_empty) (auto simp: is_page_def page_bytes_def prefix_closed_all)
  then show ?thesis using small_ram_facts by (auto simp: mm_inv_def small_mm_def)
qed

text \<open>Two pages at 0x40000234, mapped to the frames of 0x3000234: two tables are allocated.\<close>

definition ram_1 :: ram_state where
  "ram_1 = small_ram\<lparr>rm_ram := [\<lparr>ram_addr = 0x101000, ram_size = 0xff000\<rparr>], rm_zeroed := [(0x100000, 0x1000)]\<rparr>"

definition ram_2 :: ram_state where
  "ram_2 = small_ram\<lparr>rm_ram := [\<lparr>ram_addr = 0x102000, ram_size = 0xfe000\<rparr>],
     rm_zeroed := [(0x101000, 0x1000), (0x100000, 0x1000)]\<rparr>"

lemma calloc_1: "calloc_ram small_ram 0x1000 0x1000 = Inr (ram_1, 0x100000)"
  by code_simp

lemma calloc_2: "calloc_ram ram_1 0x1000 0x1000 = Inr (ram_2, 0x101000)"
  by code_simp

definition mm_1 :: mm_state where
  "mm_1 = small_mm\<lparr>mm_ram := ram_1, mm_mem := (\<lambda>_. 0)(slot 0x80000 1 := 0x6000000010070f)\<rparr>"

definition mm_2 :: mm_state where
  "mm_2 = small_mm\<lparr>mm_ram := ram_2, mm_mem := (\<lambda>_. 0)(slot 0x80000 1 := 0x6000000010070f, slot 0x100000 0 := 0x6000000010170f)\<rparr>"

lemma arm_fields:
  "L1_IDX arm_mmu v = unat v div 2 ^ 30 mod 512" "L2_IDX arm_mmu v = unat v div 2 ^ 21 mod 512"
  "L3_IDX arm_mmu v = unat v div 2 ^ 12 mod 512" "USER_END arm_mmu = 0x8000000000" "PTE_CONTIG arm_mmu = 0x10000000000000"
  by (simp_all add: arm_mmu_def)

lemma small_fields:
  "mm_ram small_mm = small_ram" "mm_mem small_mm = (\<lambda>_. 0)" "page_size small_mm = 0x1000" "hdr_virtual small_mm"
  "L1_ttbr0 small_mm = 0x80000"
  "rm_zeroed small_ram = []" "rm_zeroed ram_1 = [(0x100000, 0x1000)]" "rm_zeroed ram_2 = [(0x101000, 0x1000), (0x100000, 0x1000)]"
  by (simp_all add: small_mm_def small_ram_def ram_1_def ram_2_def)

lemma arm_pte: "set_pte arm_mmu (small_mm\<lparr>mm_ram := r, mm_mem := m\<rparr>) p prot_rw = p OR 0x6000000000070f"
  "set_pte arm_mmu small_mm p prot_rw = p OR 0x6000000000070f"
proof -
  have "(1 :: u32) < 4" by (simp add: word_less_nat_alt)
  then show "set_pte arm_mmu (small_mm\<lparr>mm_ram := r, mm_mem := m\<rparr>) p prot_rw = p OR 0x6000000000070f"
    "set_pte arm_mmu small_mm p prot_rw = p OR 0x6000000000070f"
    by (simp_all add: set_pte_def pte_access_def pte_attr_def prot_rw_def arm_mmu_def small_mm_def ac_simps)
qed

text \<open>The loops stop at the end of the region.\<close>

lemma loops_stop: "l2_loop n h x L st i x pte = Inr (st, x, pte)" "l1_loop n h x L st i x pte = Inr (st, x, pte)"
  by (cases n; simp)+

lemma table_1: "get_table arm_mmu small_mm 0x80000 1 = Inr (mm_1, 0x100000)"
proof -
  have "clear_block b (\<lambda>_. 0) = (\<lambda>_. 0)" for b by (simp add: clear_block_def)
  then show ?thesis
    by (simp add: get_table_def pt_alloc_def mm_calloc_def small_fields calloc_1 NULL_PADDR_def arm_pte PTP_PADDR_def mm_1_def)
qed

lemma table_2: "get_table arm_mmu mm_1 0x100000 0 = Inr (mm_2, 0x101000)"
proof -
  have "clear_block (0x101000, 0x1000) ((\<lambda>_. 0)(slot 0x80000 (Suc 0) := v)) = (\<lambda>_. 0)(slot 0x80000 (Suc 0) := v)" for v
    by (rule ext) (auto simp: clear_block_def slot_def)
  moreover have "slot 0x100000 0 \<noteq> slot 0x80000 (Suc 0)" by (simp add: slot_def)
  ultimately show ?thesis
    by (simp add: get_table_def pt_alloc_def mm_calloc_def mm_1_def small_fields calloc_2 NULL_PADDR_def arm_pte PTP_PADDR_def mm_2_def)
qed

lemma l3_done: "\<exists>m. l3_loop arm_mmu False 0x1000 512 0x40002000 0x101000 (mm_mem mm_2, 0, 0x40000000, 0x6000000300070f) =
    (m, 2, 0x40002000, 0x6000000300270f)"
  by (simp add: l3_loop.simps l3_step_def contig_pages_def USE_CONTIG_def)

lemma small_map_done: "\<exists>st'. aarch64_map arm_mmu small_mm 0x40000234 0x3000234 0x1000 prot_rw = Inr (st', 0x40000468)"
proof -
  obtain m where m: "l3_loop arm_mmu False 0x1000 512 0x40002000 0x101000 (mm_mem mm_2, 0, 0x40000000, 0x6000000300070f) =
      (m, 2, 0x40002000, 0x6000000300270f)" using l3_done by blast
  have g: "page_size mm_2 = 0x1000" "page_size mm_1 = 0x1000" by (simp_all add: mm_1_def mm_2_def small_mm_def)
  have "l2_loop (Suc 511) arm_mmu 0x40002000 0x100000 mm_1 0 0x40000000 0x6000000300070f =
      l2_loop (Suc 510) arm_mmu 0x40002000 0x100000 (mm_2\<lparr>mm_mem := m\<rparr>) 1 0x40002000 0x6000000300270f"
    using m by (subst l2_loop.simps) (simp add: table_2 g USE_LARGE_PAGE_def NPTE_PTBL_def arm_fields)
  then have l2: "l2_loop 512 arm_mmu 0x40002000 0x100000 mm_1 0 0x40000000 0x6000000300070f =
      Inr (mm_2\<lparr>mm_mem := m\<rparr>, 0x40002000, 0x6000000300270f)" by (simp add: loops_stop)
  have "l1_loop (Suc 510) arm_mmu 0x40002000 0x80000 small_mm 1 0x40000000 0x6000000300070f =
      l1_loop (Suc 509) arm_mmu 0x40002000 0x80000 (mm_2\<lparr>mm_mem := m\<rparr>) 2 0x40002000 0x6000000300270f"
    using l2 table_1 by (subst l1_loop.simps) (simp add: g USE_LARGE_PAGE_def NPTE_PTBL_def arm_fields small_fields loops_stop)
  then have l1: "l1_loop 511 arm_mmu 0x40002000 0x80000 small_mm 1 0x40000000 0x6000000300070f =
      Inr (mm_2\<lparr>mm_mem := m\<rparr>, 0x40002000, 0x6000000300270f)" by (simp add: loops_stop)
  show ?thesis
    using l1 by (simp add: aarch64_map_def small_fields TRUNC_def ROUND_def which_L1_def arm_fields USE_LARGE_PAGE_def
        NPTE_PTBL_def arm_pte)
qed

lemma small_region: "region_ok (\<lambda>_. True) 0x40000234 0x3000234 0x1000"
  by (simp add: region_ok_def region_pages_def pn_def Let_def)

lemma small_call:
  obtains st' where "aarch64_map arm_mmu small_mm 0x40000234 0x3000234 0x1000 prot_rw = Inr (st', 0x40000468)"
    "0x40000234 = map_va small_mm 0x40000234" "which_L1 arm_mmu small_mm (0x40000234 AND NOT 0xfff) = Some 0x80000"
    "hdr_virtual small_mm"
proof -
  obtain st' where "aarch64_map arm_mmu small_mm 0x40000234 0x3000234 0x1000 prot_rw = Inr (st', 0x40000468)"
    using small_map_done by blast
  moreover have "which_L1 arm_mmu small_mm (0x40000234 AND NOT 0xfff) = Some 0x80000" "hdr_virtual small_mm"
    by (simp_all add: which_L1_def arm_mmu_def small_mm_def)
  ultimately show ?thesis by (intro that) (simp_all add: map_va_def)
qed

theorem aarch64_map_translates_witness:
  "\<exists>st' r. aarch64_map arm_mmu small_mm 0x40000234 0x3000234 0x1000 prot_rw = Inr (st', r) \<and>
     elf_vaddr_to_paddr arm_mmu st' ((0x40000234 AND NOT 0xfff) + (0x3000234 AND 0xfff) + of_nat 0xfff) = Inr (0x3000234 + of_nat 0xfff)"
proof -
  obtain st' where c: "aarch64_map arm_mmu small_mm 0x40000234 0x3000234 0x1000 prot_rw = Inr (st', 0x40000468)"
    "0x40000234 = map_va small_mm 0x40000234" "which_L1 arm_mmu small_mm (0x40000234 AND NOT 0xfff) = Some 0x80000"
    "hdr_virtual small_mm"
    by (rule small_call)
  have "(0xfff :: nat) < unat (0x1000 :: u64)" by simp
  then show ?thesis
    using aarch64_map_translates [OF arm_mmu_ok(1) prefix_closed_all small_mm_inv c(4) c(1-3) small_region, where k = "0xfff"] c(1)
    by blast
qed


theorem aarch64_map_returns_shifted_witness:
  "\<exists>st' r. aarch64_map arm_mmu small_mm 0x40000234 0x3000234 0x1000 prot_rw = Inr (st', r) \<and> r = 0x40000234 + 0x234"
proof -
  obtain st' where c: "aarch64_map arm_mmu small_mm 0x40000234 0x3000234 0x1000 prot_rw = Inr (st', 0x40000468)"
    "hdr_virtual small_mm"
    by (rule small_call)
  show ?thesis using aarch64_map_returns_shifted [OF c(2) _ c(1)] c(1) by (simp add: small_mm_def)
qed

text \<open>The initial tables of this machine are the first three free pages.\<close>

definition ram_3 :: ram_state where
  "ram_3 = small_ram\<lparr>rm_ram := [\<lparr>ram_addr = 0x103000, ram_size = 0xfd000\<rparr>],
     rm_zeroed := [(0x102000, 0x1000), (0x101000, 0x1000), (0x100000, 0x1000)]\<rparr>"

lemma calloc_3: "calloc_ram ram_2 0x1000 0x1000 = Inr (ram_3, 0x102000)"
  by code_simp

lemma pt_alloc_small:
  assumes "calloc_ram (mm_ram st) 0x1000 0x1000 = Inr (r, p)" "page_size st = 0x1000" "p \<noteq> NULL_PADDR"
  shows "\<exists>st' e. pt_alloc h st = Inr (st', e) \<and> mm_ram st' = r \<and> ttbr0 st' = ttbr0 st \<and> page_size st' = 0x1000"
  using assms by (simp add: pt_alloc_def mm_calloc_def Let_def)

lemma init_small: "\<exists>st' e. init_tables arm_mmu small_mm = Inr (st', e) \<and> ttbr0 st' = 0x100000"
proof -
  define st1 where "st1 = small_mm\<lparr>mm_ram := ram_1, mm_mem := fold clear_block [(0x100000, 0x1000)] (\<lambda>_. 0)\<rparr>"
  define st2 where "st2 = st1\<lparr>ttbr0 := 0x100000, L1_ttbr0 := PTP_PADDR 0x1000 0x100000\<rparr>"
  have nn: "(0x101000 :: u64) \<noteq> NULL_PADDR" "(0x102000 :: u64) \<noteq> NULL_PADDR" by (simp_all add: NULL_PADDR_def)
  have c: "mm_calloc small_mm 0x1000 0x1000 = Inr (st1, 0x100000)"
    by (simp add: mm_calloc_def small_fields calloc_1 st1_def)
  have "mm_ram st2 = ram_1" "page_size st2 = 0x1000" "ttbr0 st2 = 0x100000" by (simp_all add: st2_def st1_def small_mm_def)
  then obtain st3 e1 where a1: "pt_alloc arm_mmu st2 = Inr (st3, e1)" "mm_ram st3 = ram_2" "ttbr0 st3 = 0x100000" "page_size st3 = 0x1000"
    using pt_alloc_small [of st2 ram_2 "0x101000" arm_mmu] calloc_2 nn by auto
  define st4 where "st4 = st3\<lparr>L1_ttbr1 := PTP_PADDR 0x1000 e1, mm_mem := (mm_mem st3)(slot (PTP_PADDR 0x1000 e1) (L1_L1_IDX arm_mmu) := e1)\<rparr>"
  have "mm_ram st4 = ram_2" "page_size st4 = 0x1000" "ttbr0 st4 = 0x100000" using a1 by (simp_all add: st4_def)
  then obtain st5 e2 where a2: "pt_alloc arm_mmu st4 = Inr (st5, e2)" "ttbr0 st5 = 0x100000"
    using pt_alloc_small [of st4 ram_3 "0x102000" arm_mmu] calloc_3 nn by auto
  show ?thesis
    using a1 a2 c by (simp add: init_tables_def small_fields USE_LARGE_PAGE_def st2_def [symmetric] st4_def [symmetric])
qed


end
