(* ===== verification/Pl011.thy ===== *)
theory Pl011
  imports Mmio Clib
begin

text \<open>
  The serial driver for the PL011 UART, \<open>devc/serpl011\<close>, in the configuration of this board: without
  DMA, with the MSI-X acknowledge of \<open>aarch64/le.rpi5\<close>.

  \<^item> \<open>serial_h\<close> holds the constants of \<open>arm/pl011.h\<close>, \<open>sys/io-char.h\<close> and \<open>termios.h\<close>, headers of the
    system: register offsets, register bits and flags of a terminal.
  \<^item> \<open>iochar\<close> holds the functions of the io-char library the driver calls. They work on a \<open>tty\<close>: the
    fields of \<open>TTYDEV\<close> that the driver reads or writes itself, and a part of the library's own.
  \<^item> \<open>dev_pl011\<close> is \<open>DEV_PL011\<close> on top of the log of register accesses.
  \<^item> A wait for the transmitter without a limit has a bound, its first argument; \<open>None\<close> means that
    the bound was reached.
\<close>

section \<open>Constants of the system headers\<close>

record pl011_regs =
  PL011_DR :: u32
  PL011_ECR :: u32
  PL011_FR :: u32
  PL011_IBRD :: u32
  PL011_FBRD :: u32
  PL011_LCR_H :: u32
  PL011_CR :: u32
  PL011_IFLS :: u32
  PL011_IMSC :: u32
  PL011_MIS :: u32
  PL011_ICR :: u32
  PL011_DMACR :: u32
  PL011_TIMEOUT :: u32

record pl011_bits = pl011_regs +
  PL011_DR_OE :: u32
  PL011_DR_BE :: u32
  PL011_DR_PE :: u32
  PL011_DR_FE :: u32
  PL011_FR_TXFE :: u32
  PL011_FR_TXFF :: u32
  PL011_FR_RXFE :: u32
  PL011_FR_BUSY :: u32
  PL011_FR_DCD :: u32
  PL011_FR_DSR :: u32
  PL011_FR_CTS :: u32
  PL011_LCR_H_BRK :: u32
  PL011_LCR_H_PEN :: u32
  PL011_LCR_H_EPS :: u32
  PL011_LCR_H_STP2 :: u32
  PL011_LCR_H_FEN :: u32
  PL011_LCR_H_WLEN5 :: u32
  PL011_LCR_H_WLEN6 :: u32
  PL011_LCR_H_WLEN7 :: u32
  PL011_LCR_H_WLEN8 :: u32

record pl011_ctl = pl011_bits +
  PL011_CR_UARTEN :: u32
  PL011_CR_OVSFACT :: u32
  PL011_CR_LBE :: u32
  PL011_CR_TXE :: u32
  PL011_CR_RXE :: u32
  PL011_CR_DTR :: u32
  PL011_CR_RTSEn :: u32
  PL011_CR_CTSEn :: u32
  PL011_IMSC_RXIM :: u32
  PL011_IMSC_TXIM :: u32
  PL011_IMSC_RTIM :: u32
  PL011_MIS_RXMIS :: u32
  PL011_MIS_TXMIS :: u32
  PL011_MIS_RTMIS :: u32
  PL011_MIS_TXFES :: u32

record termios_h = pl011_ctl +
  OHFLOW :: u32
  IHFLOW :: u32
  CSIZE :: u32
  CS5 :: u32
  CS6 :: u32
  CS7 :: u32
  CS8 :: u32
  CSTOPB :: u32
  PARENB :: u32
  PARODD :: u32

record serial_h = termios_h +
  SERCTL_BRK_CHG :: u32
  SERCTL_BRK :: u32
  SERCTL_DTR_CHG :: u32
  SERCTL_DTR :: u32
  LINESTATUS_SER_RTS :: u32
  LINESTATUS_SER_CTS :: u32
  LINESTATUS_SER_CD :: u32
  OHW_PAGED :: u32
  OSW_PAGED :: u32
  OSW_PAGED_OVERRIDE :: u32
  OBAND_DATA :: u32
  EDIT_INSERT :: u32
  LOSES_TX_INTR :: u32
  TTI_OVERRUN :: u32
  TTI_BREAK :: u32
  TTI_PARITY :: u32
  TTI_FRAME :: u32
  IO_CHAR_DEFAULT_BITSIZE :: u32
  NTO_INTR_SPARE :: u32

section \<open>State\<close>

record 'q tty =
  t_flags :: u32
  t_xflags :: u32
  c_cflag :: u32
  t_baud :: u32
  oband_data :: u32
  tx_tmr :: u32
  t_isize :: u32
  t_highwater :: u32
  t_fifo :: u32
  t_io :: 'q

text \<open>The number of characters in the output buffer, the next of them, a received character with its
  error flags, the check for waiting clients, and the ticks of 150 ms.\<close>

record 'q iochar =
  obuf_cnt :: "'q tty \<Rightarrow> nat"
  tto_getchar :: "'q tty \<Rightarrow> 'q tty \<times> u8"
  tti :: "'q tty \<Rightarrow> u32 \<Rightarrow> 'q tty \<times> u32"
  tto_checkclients :: "'q tty \<Rightarrow> 'q tty \<times> u32"
  tick_cnt_150 :: u32

record 'q dev_pl011 = bus +
  d_tty :: "'q tty"
  d_intr :: u32
  port_size :: u32
  iid :: int
  fifosize :: u32
  d_clk :: u32
  d_div :: u32
  d_fifo :: u32
  d_baud :: u32
  d_lcr_h :: u32
  d_ibrd :: u32
  d_fbrd :: u32
  d_cr :: u32
  d_imr :: u32
  d_loopback :: u32
  d_prio :: u32
  is_debug_console :: u32

section \<open>Register access\<close>

definition port_width :: "u32 \<Rightarrow> u32 \<Rightarrow> u32" where
  "port_width psz v = (if psz = 2 then v else if psz = 1 then v AND 0xFFFF else v AND 0xFF)"

definition write_port :: "'q dev_pl011 \<Rightarrow> u32 \<Rightarrow> u32 \<Rightarrow> 'q dev_pl011" where
  "write_port dev reg v = mmio_write reg (port_width (port_size dev) v) dev"

text \<open>What a read returns has the width of the access, whatever the device drives.\<close>

definition read_port :: "device \<Rightarrow> 'q dev_pl011 \<Rightarrow> u32 \<Rightarrow> 'q dev_pl011 \<times> u32" where
  "read_port hw dev reg = mmio_read (\<lambda>l r. port_width (port_size dev) (hw l r)) reg dev"

section \<open>Line settings\<close>

definition stty_cr :: "serial_h \<Rightarrow> 'q dev_pl011 \<Rightarrow> u32" where
  "stty_cr h dev =
     (PL011_CR_RXE h OR PL011_CR_TXE h OR PL011_CR_UARTEN h)
     OR (if c_cflag (d_tty dev) AND OHFLOW h \<noteq> 0 then PL011_CR_CTSEn h else 0)
     OR (if c_cflag (d_tty dev) AND IHFLOW h \<noteq> 0 then PL011_CR_RTSEn h else 0)
     OR (if d_div dev = 8 then PL011_CR_OVSFACT h else 0)
     OR (if d_loopback dev \<noteq> 0 then PL011_CR_LBE h else 0)"

definition stty_wlen :: "serial_h \<Rightarrow> u32 \<Rightarrow> u32" where
  "stty_wlen h cs =
     (if cs = CS8 h then PL011_LCR_H_WLEN8 h
      else if cs = CS7 h then PL011_LCR_H_WLEN7 h
      else if cs = CS6 h then PL011_LCR_H_WLEN6 h
      else if cs = CS5 h then PL011_LCR_H_WLEN5 h
      else 0)"

definition stty_lcr_h :: "serial_h \<Rightarrow> 'q dev_pl011 \<Rightarrow> u32" where
  "stty_lcr_h h dev =
     (let cf = c_cflag (d_tty dev)
      in PL011_LCR_H_FEN h
         OR stty_wlen h (cf AND CSIZE h)
         OR (if cf AND CSTOPB h \<noteq> 0 then PL011_LCR_H_STP2 h else 0)
         OR (if cf AND PARENB h \<noteq> 0
             then PL011_LCR_H_PEN h OR (if cf AND PARODD h = 0 then PL011_LCR_H_EPS h else 0)
             else 0))"

text \<open>The divisor of the clock: its integer part and 64ths, in 32-bit arithmetic. \<open>None\<close> stands for a
  division by zero.\<close>

definition baud_divisor :: "u32 \<Rightarrow> u32 \<Rightarrow> u32 \<Rightarrow> (u32 \<times> u32) option" where
  "baud_divisor clk dv baud =
     (if dv = 0 \<or> baud = 0 then None
      else let clock = clk div dv
           in Some (clock div baud, ((clock mod baud) * 64 + drop_bit 1 (baud + 1)) div baud))"

text \<open>The wait for an idle transmitter: at most \<open>t + 1\<close> reads. The result is the final \<open>t\<close>.\<close>

function (sequential) stty_wait :: "device \<Rightarrow> serial_h \<Rightarrow> nat \<Rightarrow> 'q dev_pl011 \<Rightarrow> 'q dev_pl011 \<times> int" where
  "stty_wait hw h t dev =
     (let r = read_port hw dev (PL011_FR h)
      in if snd r AND PL011_FR_BUSY h \<noteq> 0
         then (if t = 0 then (fst r, - 1) else stty_wait hw h (t - 1) (fst r))
         else (fst r, int t))"
  by pat_completeness auto
termination by (relation "measure (\<lambda>(hw, h, t, dev). t)") auto

declare stty_wait.simps [simp del]

definition stty_idle :: "device \<Rightarrow> serial_h \<Rightarrow> 'q dev_pl011 \<Rightarrow> 'q dev_pl011" where
  "stty_idle hw h dev =
     (if d_loopback dev \<noteq> 0 then dev
      else let w = stty_wait hw h 10000000 dev
           in if snd w \<le> 0 then fst (read_port hw (fst w) (PL011_FR h)) else fst w)"

definition stty_program :: "device \<Rightarrow> serial_h \<Rightarrow> 'q dev_pl011 \<Rightarrow> 'q dev_pl011" where
  "stty_program hw h dev0 =
     (let dev1 = write_port dev0 (PL011_CR h) 0;
          dev2 = write_port dev1 (PL011_DMACR h) 0;
          r = read_port hw dev2 (PL011_LCR_H h);
          dev3 = write_port (fst r) (PL011_LCR_H h) (snd r AND NOT (PL011_LCR_H_FEN h));
          dev4 = (if fifosize dev3 \<noteq> 0 \<and> d_fifo dev3 \<noteq> 0
                  then write_port (write_port dev3 (PL011_IFLS h) (d_fifo dev3)) (PL011_TIMEOUT h) 0x1ff
                  else dev3);
          dev5 = write_port dev4 (PL011_ICR h) 0x7FF;
          dev6 = write_port dev5 (PL011_IBRD h) (d_ibrd dev5);
          dev7 = write_port dev6 (PL011_FBRD h) (d_fbrd dev6);
          dev8 = write_port dev7 (PL011_LCR_H h) (d_lcr_h dev7);
          dev9 = write_port dev8 (PL011_CR h) (d_cr dev8)
      in write_port dev9 (PL011_IMSC h) (d_imr dev9))"

definition ser_stty :: "device \<Rightarrow> serial_h \<Rightarrow> 'q dev_pl011 \<Rightarrow> 'q dev_pl011 option" where
  "ser_stty hw h dev =
     (let cr = stty_cr h dev;
          lcr_h = stty_lcr_h h dev
      in case (if d_baud dev \<noteq> t_baud (d_tty dev) then baud_divisor (d_clk dev) (d_div dev) (t_baud (d_tty dev))
               else Some (d_ibrd dev, d_fbrd dev)) of
           None \<Rightarrow> None
         | Some (ibrd, fbrd) \<Rightarrow>
             let dev1 = dev\<lparr>d_baud := t_baud (d_tty dev)\<rparr>
             in if cr = d_cr dev \<and> lcr_h = d_lcr_h dev \<and> ibrd = d_ibrd dev \<and> fbrd = d_fbrd dev then Some dev1
                else let dev2 = dev1\<lparr>d_imr := PL011_IMSC_RXIM h OR PL011_IMSC_RTIM h, d_lcr_h := lcr_h,
                                     d_ibrd := ibrd, d_fbrd := fbrd, d_cr := cr\<rparr>
                     in Some (stty_program hw h (stty_idle hw h dev2)))"

section \<open>Output\<close>

datatype tto_action = TTO_STTY | TTO_CTRL | TTO_LINESTATUS | TTO_DATA | TTO_EVENT | TTO_OTHER

definition tto_set_bit :: "device \<Rightarrow> 'q dev_pl011 \<Rightarrow> u32 \<Rightarrow> u32 \<Rightarrow> bool \<Rightarrow> 'q dev_pl011" where
  "tto_set_bit hw dev reg b on =
     (let r = read_port hw dev reg
      in write_port (fst r) reg (if on then snd r OR b else snd r AND NOT b))"

definition tto_ctrl :: "device \<Rightarrow> serial_h \<Rightarrow> 'q dev_pl011 \<Rightarrow> u32 \<Rightarrow> 'q dev_pl011" where
  "tto_ctrl hw h dev arg1 =
     (let dev1 = (if arg1 AND SERCTL_BRK_CHG h \<noteq> 0
                  then tto_set_bit hw dev (PL011_LCR_H h) (PL011_LCR_H_BRK h) (arg1 AND SERCTL_BRK h \<noteq> 0) else dev)
      in if arg1 AND SERCTL_DTR_CHG h \<noteq> 0
         then tto_set_bit hw dev1 (PL011_CR h) (PL011_CR_DTR h) (arg1 AND SERCTL_DTR h \<noteq> 0) else dev1)"

definition tto_linestatus :: "device \<Rightarrow> serial_h \<Rightarrow> 'q dev_pl011 \<Rightarrow> 'q dev_pl011 \<times> u32" where
  "tto_linestatus hw h dev =
     (let r = read_port hw dev (PL011_FR h);
          cf = c_cflag (d_tty dev)
      in (fst r,
          (if cf AND IHFLOW h \<noteq> 0 \<and> snd r AND PL011_FR_DSR h \<noteq> 0 then LINESTATUS_SER_RTS h else 0)
          OR (if cf AND OHFLOW h \<noteq> 0 \<and> snd r AND PL011_FR_CTS h \<noteq> 0 then LINESTATUS_SER_CTS h else 0)
          OR (if snd r AND PL011_FR_DCD h \<noteq> 0 then LINESTATUS_SER_CD h else 0)))"

text \<open>One character from the output buffer to the data register.\<close>

definition tx_char :: "serial_h \<Rightarrow> 'q iochar \<Rightarrow> 'q dev_pl011 \<Rightarrow> 'q dev_pl011" where
  "tx_char h io dev =
     (let g = tto_getchar io (d_tty dev)
      in write_port (dev\<lparr>d_tty := (fst g)\<lparr>tx_tmr := tick_cnt_150 io\<rparr>\<rparr>) (PL011_DR h) (ucast (snd g)))"

definition paged_override :: "serial_h \<Rightarrow> 'q dev_pl011 \<Rightarrow> bool" where
  "paged_override h dev \<longleftrightarrow> t_xflags (d_tty dev) AND OSW_PAGED_OVERRIDE h \<noteq> 0"

text \<open>The transmit loop; the first argument is how often \<open>bytes++ < 1024\<close> still holds.\<close>

function (sequential) tx_loop :: "nat \<Rightarrow> device \<Rightarrow> serial_h \<Rightarrow> 'q iochar \<Rightarrow> 'q dev_pl011 \<Rightarrow> 'q dev_pl011" where
  "tx_loop n hw h io dev =
     (let r = read_port hw dev (PL011_FR h)
      in if snd r AND PL011_FR_TXFF h = 0 \<and> 0 < obuf_cnt io (d_tty (fst r)) \<and> 0 < n
         then let dev1 = tx_char h io (fst r)
              in if paged_override h dev1
                 then dev1\<lparr>d_tty := (d_tty dev1)\<lparr>t_xflags := t_xflags (d_tty dev1) AND NOT (OSW_PAGED_OVERRIDE h)\<rparr>\<rparr>
                 else tx_loop (n - 1) hw h io dev1
         else fst r)"
  by pat_completeness auto
termination by (relation "measure fst") auto

declare tx_loop.simps [simp del]

text \<open>The transmit interrupt is on as long as characters are left.\<close>

definition tx_irq_update :: "serial_h \<Rightarrow> 'q iochar \<Rightarrow> 'q dev_pl011 \<Rightarrow> 'q dev_pl011" where
  "tx_irq_update h io dev =
     (let imr = (if 0 < obuf_cnt io (d_tty dev) then d_imr dev OR PL011_IMSC_TXIM h
                 else d_imr dev AND NOT (PL011_IMSC_TXIM h));
          change = (if 0 < obuf_cnt io (d_tty dev) then d_imr dev AND PL011_IMSC_TXIM h = 0
                    else d_imr dev AND PL011_IMSC_TXIM h \<noteq> 0)
      in if change then write_port (dev\<lparr>d_imr := imr\<rparr>) (PL011_IMSC h) imr else dev)"

definition tto_transmit :: "device \<Rightarrow> serial_h \<Rightarrow> 'q iochar \<Rightarrow> 'q dev_pl011 \<Rightarrow> 'q dev_pl011 \<times> u32" where
  "tto_transmit hw h io dev =
     (if t_flags (d_tty dev) AND (OHW_PAGED h OR OSW_PAGED h) \<noteq> 0 \<and> \<not> paged_override h dev then (dev, 0)
      else let dev1 = tx_irq_update h io (tx_loop 1024 hw h io dev);
               c = tto_checkclients io (d_tty dev1)
           in (dev1\<lparr>d_tty := fst c\<rparr>, snd c))"

definition tto :: "device \<Rightarrow> serial_h \<Rightarrow> 'q iochar \<Rightarrow> 'q dev_pl011 \<Rightarrow> tto_action \<Rightarrow> u32 \<Rightarrow> ('q dev_pl011 \<times> u32) option" where
  "tto hw h io dev action arg1 =
     (case action of
        TTO_STTY \<Rightarrow> (case ser_stty hw h dev of None \<Rightarrow> None | Some dev1 \<Rightarrow> Some (dev1, 0))
      | TTO_CTRL \<Rightarrow> Some (tto_ctrl hw h dev arg1, 0)
      | TTO_LINESTATUS \<Rightarrow> Some (tto_linestatus hw h dev)
      | TTO_DATA \<Rightarrow> Some (tto_transmit hw h io dev)
      | TTO_EVENT \<Rightarrow> Some (tto_transmit hw h io dev)
      | TTO_OTHER \<Rightarrow> Some (dev, 0))"

text \<open>Whether the device has drained, and the ticks until the next look (stored only on request).\<close>

definition drain_check :: "device \<Rightarrow> serial_h \<Rightarrow> 'q iochar \<Rightarrow> 'q dev_pl011 \<Rightarrow> 'q dev_pl011 \<times> bool \<times> u32 option" where
  "drain_check hw h io dev =
     (let wait = (if t_baud (d_tty dev) = 0 then 0
                  else (IO_CHAR_DEFAULT_BITSIZE h * 20) div t_baud (d_tty dev) + 1)
      in if obuf_cnt io (d_tty dev) = 0
         then let r = read_port hw dev (PL011_FR h)
              in if snd r AND PL011_FR_TXFE h \<noteq> 0 then (fst r, True, None) else (fst r, False, Some wait)
         else (dev, False, Some wait))"

section \<open>Input\<close>

definition PL011_RX_ERROR :: "serial_h \<Rightarrow> u32" where
  "PL011_RX_ERROR h = PL011_DR_OE h OR PL011_DR_BE h OR PL011_DR_PE h OR PL011_DR_FE h"

text \<open>The key handed to \<open>tti\<close>: the character and at most one error, in the order of the code.\<close>

definition rx_key :: "serial_h \<Rightarrow> u32 \<Rightarrow> u32" where
  "rx_key h v =
     (let rsr = v AND PL011_RX_ERROR h;
          key = v AND 0xFF
      in if rsr AND PL011_DR_OE h \<noteq> 0 then key OR TTI_OVERRUN h
         else if rsr AND PL011_DR_BE h \<noteq> 0 then key OR TTI_BREAK h
         else if rsr AND PL011_DR_PE h \<noteq> 0 then key OR TTI_PARITY h
         else if rsr AND PL011_DR_FE h \<noteq> 0 then key OR TTI_FRAME h
         else key)"

text \<open>An error is saved as out-of-band data before the key is handed over.\<close>

definition rx_oband :: "serial_h \<Rightarrow> u32 \<Rightarrow> 'q tty \<Rightarrow> 'q tty" where
  "rx_oband h v t =
     (let rsr = v AND PL011_RX_ERROR h
      in if rsr \<noteq> 0
         then t\<lparr>oband_data := oband_data t OR drop_bit 8 rsr, t_flags := t_flags t OR OBAND_DATA h\<rparr>
         else t)"

definition rx_char :: "device \<Rightarrow> serial_h \<Rightarrow> 'q iochar \<Rightarrow> 'q dev_pl011 \<times> u32 \<Rightarrow> 'q dev_pl011 \<times> u32" where
  "rx_char hw h io ds =
     (let r = read_port hw (fst ds) (PL011_DR h);
          v = snd r;
          dev1 = (if v AND PL011_RX_ERROR h \<noteq> 0 then write_port (fst r) (PL011_ECR h) 0 else fst r);
          k = tti io (rx_oband h v (d_tty dev1)) (rx_key h v)
      in (dev1\<lparr>d_tty := fst k\<rparr>, snd ds OR snd k))"

text \<open>The receive loop. Its bound is the number of characters; \<open>None\<close> if it is reached.\<close>

fun rx_loop :: "nat \<Rightarrow> device \<Rightarrow> serial_h \<Rightarrow> 'q iochar \<Rightarrow> 'q dev_pl011 \<times> u32 \<Rightarrow> ('q dev_pl011 \<times> u32) option" where
  "rx_loop 0 hw h io ds = None"
| "rx_loop (Suc n) hw h io ds =
     (let r = read_port hw (fst ds) (PL011_FR h)
      in if snd r AND PL011_FR_RXFE h = 0 then rx_loop n hw h io (rx_char hw h io (fst r, snd ds))
         else Some (fst r, snd ds))"

definition rx_interrupt :: "nat \<Rightarrow> device \<Rightarrow> serial_h \<Rightarrow> 'q iochar \<Rightarrow> 'q dev_pl011 \<Rightarrow> ('q dev_pl011 \<times> u32) option" where
  "rx_interrupt n hw h io dev = rx_loop n hw h io (dev, 0)"

section \<open>Interrupts\<close>

definition tx_interrupt :: "device \<Rightarrow> serial_h \<Rightarrow> 'q iochar \<Rightarrow> 'q dev_pl011 \<Rightarrow> ('q dev_pl011 \<times> u32) option" where
  "tx_interrupt hw h io dev = tto hw h io (dev\<lparr>d_tty := (d_tty dev)\<lparr>tx_tmr := 0\<rparr>\<rparr>) TTO_DATA 0x80"

definition do_interrupt :: "nat \<Rightarrow> device \<Rightarrow> serial_h \<Rightarrow> 'q iochar \<Rightarrow> 'q dev_pl011 \<Rightarrow> ('q dev_pl011 \<times> u32) option" where
  "do_interrupt n hw h io dev =
     (let r = read_port hw dev (PL011_MIS h);
          iir = snd r;
          dev1 = write_port (fst r) (PL011_ICR h) iir
      in case (if iir AND (PL011_MIS_RTMIS h OR PL011_MIS_RXMIS h) \<noteq> 0 then rx_interrupt n hw h io dev1
               else Some (dev1, 0)) of
           None \<Rightarrow> None
         | Some (dev2, st) \<Rightarrow>
             if iir AND (PL011_MIS_TXMIS h OR PL011_MIS_TXFES h) \<noteq> 0
             then (case tx_interrupt hw h io dev2 of None \<Rightarrow> None | Some (dev3, st') \<Rightarrow> Some (dev3, st OR st'))
             else Some (dev2, st))"

section \<open>Acknowledging MSI-X interrupts\<close>

text \<open>
  The state of the driver process: the device, the static variables of \<open>variant.c\<close> (whether
  \<open>rpi_msix_cfg_base\<close> is mapped, and \<open>rpi_msix_cfg_set_reg\<close>) and the requests to the system in the
  order they are made, newest first. A write to the MSI-X configuration names its offset and value.
\<close>

datatype sys_req =
    Send_Event
  | Msix_Write u32 u32
  | Interrupt_Unmask u32 int
  | Interrupt_Attach u32
  | Interrupt_Detach int

record 'q ser_state =
  ss_dev :: "'q dev_pl011"
  msix_mapped :: bool
  msix_set_reg :: u32
  ss_reqs :: "sys_req list"

definition BCM2712_RP1_PCIE_MSIX_IRQ :: u32 where
  "BCM2712_RP1_PCIE_MSIX_IRQ = 160"

definition msix_reg_of :: "u32 \<Rightarrow> u32" where
  "msix_reg_of intr =
     (if intr = BCM2712_RP1_PCIE_MSIX_IRQ + 25 then 0x800 + 0x6c
      else if intr = BCM2712_RP1_PCIE_MSIX_IRQ + 42 then 0x800 + 0xb0
      else if intr = BCM2712_RP1_PCIE_MSIX_IRQ + 43 then 0x800 + 0xb4
      else if intr = BCM2712_RP1_PCIE_MSIX_IRQ + 44 then 0x800 + 0xb8
      else if intr = BCM2712_RP1_PCIE_MSIX_IRQ + 45 then 0x800 + 0xbc
      else if intr = BCM2712_RP1_PCIE_MSIX_IRQ + 46 then 0x800 + 0xc0
      else 0)"

text \<open>
  The device tree of the boot loader through libfdt: the result of \<open>walk_asinfo\<close> with \<open>map_fdt\<close> and
  the mapped tree, the offset of a path, a string property of a node and the cells of a property
  with its length in bytes.
\<close>

record 'f fdt_lib =
  fdt_walk :: "int \<times> 'f option"
  fdt_path_offset :: "'f \<Rightarrow> string \<Rightarrow> int"
  fdt_getprop :: "'f \<Rightarrow> int \<Rightarrow> string \<Rightarrow> string option"
  fdt_path_offset_namelen :: "'f \<Rightarrow> string \<Rightarrow> nat \<Rightarrow> int"
  fdt_get_property :: "'f \<Rightarrow> int \<Rightarrow> string \<Rightarrow> (u32 list \<times> int) option"

definition stdout_namelen :: "string \<Rightarrow> nat" where
  "stdout_namelen s = length (takeWhile (\<lambda>c. c \<noteq> CHR '':'') s)"

definition fdt_debug_console_irq_fix :: "'f fdt_lib \<Rightarrow> 'q dev_pl011 \<Rightarrow> 'q dev_pl011 \<times> int" where
  "fdt_debug_console_irq_fix fdt dev =
     (if fst (fdt_walk fdt) \<noteq> 0 then (dev, - 1)
      else case snd (fdt_walk fdt) of
        None \<Rightarrow> (dev, - 2)
      | Some base \<Rightarrow>
          let chosen_offset = fdt_path_offset fdt base ''/chosen''
          in if chosen_offset < 0 then (dev, - 3)
             else case fdt_getprop fdt base chosen_offset ''stdout-path'' of
               None \<Rightarrow> (dev, - 4)
             | Some path \<Rightarrow>
                 let node_offset = fdt_path_offset_namelen fdt base path (stdout_namelen path)
                 in if node_offset < 0 then (dev, - 5)
                    else case fdt_get_property fdt base node_offset ''interrupts'' of
                      None \<Rightarrow> (dev, - 6)
                    | Some (data, prop_len) \<Rightarrow>
                        if prop_len \<noteq> 12 then (dev, - 7)
                        else (dev\<lparr>d_intr := data ! 1 + 32\<rparr>, 0))"

text \<open>\<open>map_ok\<close> is the outcome of mapping the MSI-X configuration.\<close>

definition variant_intr_init :: "'f fdt_lib \<Rightarrow> bool \<Rightarrow> 'q ser_state \<Rightarrow> 'q ser_state" where
  "variant_intr_init fdt map_ok ss =
     (let reg = msix_reg_of (d_intr (ss_dev ss));
          ss1 = ss\<lparr>msix_set_reg := reg, msix_mapped := (if reg \<noteq> 0 then map_ok else msix_mapped ss)\<rparr>
      in if is_debug_console (ss_dev ss1) \<noteq> 0
         then ss1\<lparr>ss_dev := fst (fdt_debug_console_irq_fix fdt (ss_dev ss1))\<rparr>
         else ss1)"

definition sys_req_add :: "sys_req \<Rightarrow> 'q ser_state \<Rightarrow> 'q ser_state" where
  "sys_req_add q ss = ss\<lparr>ss_reqs := q # ss_reqs ss\<rparr>"

definition variant_intr_unmask :: "'q ser_state \<Rightarrow> 'q ser_state" where
  "variant_intr_unmask ss =
     (if msix_mapped ss then sys_req_add (Msix_Write (msix_set_reg ss) 0x4) ss else ss)"

section \<open>The interrupt handler and its installation\<close>

definition interrupt_event_handler ::
    "nat \<Rightarrow> device \<Rightarrow> serial_h \<Rightarrow> 'q iochar \<Rightarrow> 'q ser_state \<Rightarrow> 'q ser_state option" where
  "interrupt_event_handler n hw h io ss =
     (case do_interrupt n hw h io (ss_dev ss) of
        None \<Rightarrow> None
      | Some (dev, st) \<Rightarrow>
          let ss1 = ss\<lparr>ss_dev := dev\<rparr>;
              ss2 = (if st \<noteq> 0 then sys_req_add Send_Event ss1 else ss1);
              ss3 = variant_intr_unmask ss2
          in Some (sys_req_add (Interrupt_Unmask (d_intr (ss_dev ss3)) (iid (ss_dev ss3))) ss3))"

fun busy_wait :: "nat \<Rightarrow> device \<Rightarrow> serial_h \<Rightarrow> 'q dev_pl011 \<Rightarrow> 'q dev_pl011 option" where
  "busy_wait 0 hw h dev = None"
| "busy_wait (Suc n) hw h dev =
     (let r = read_port hw dev (PL011_FR h)
      in if snd r AND PL011_FR_BUSY h \<noteq> 0 then busy_wait n hw h (fst r) else Some (fst r))"

text \<open>\<open>pulse_ok\<close> and \<open>attach\<close> are the outcomes of \<open>pulse_attach\<close> and \<open>InterruptAttachEvent\<close>.\<close>

definition ser_attach_intr ::
    "nat \<Rightarrow> device \<Rightarrow> serial_h \<Rightarrow> 'f fdt_lib \<Rightarrow> bool \<Rightarrow> bool \<Rightarrow> (u32 \<Rightarrow> int) \<Rightarrow> 'q ser_state \<Rightarrow> 'q ser_state option" where
  "ser_attach_intr n hw h fdt map_ok pulse_ok attach ss =
     (case (if d_loopback (ss_dev ss) = 0 then busy_wait n hw h (ss_dev ss) else Some (ss_dev ss)) of
        None \<Rightarrow> None
      | Some dev \<Rightarrow>
          let ss1 = variant_intr_init fdt map_ok (ss\<lparr>ss_dev := dev\<rparr>);
              ss2 = ss1\<lparr>ss_dev := write_port (ss_dev ss1) (PL011_ICR h) 0x7FF\<rparr>
          in if \<not> pulse_ok then Some ss2
             else let ss3 = sys_req_add (Interrupt_Attach (d_intr (ss_dev ss2))) ss2
                  in Some (ss3\<lparr>ss_dev := (ss_dev ss3)\<lparr>iid := attach (d_intr (ss_dev ss3))\<rparr>\<rparr>))"

definition ser_detach_intr :: "nat \<Rightarrow> device \<Rightarrow> serial_h \<Rightarrow> 'q ser_state \<Rightarrow> 'q ser_state option" where
  "ser_detach_intr n hw h ss =
     (case busy_wait n hw h (ss_dev ss) of
        None \<Rightarrow> None
      | Some dev0 \<Rightarrow>
          let dev = write_port (write_port dev0 (PL011_CR h) 0) (PL011_ICR h) 0x7FF
          in Some (sys_req_add (Interrupt_Detach (iid dev)) (ss\<lparr>ss_dev := dev\<lparr>d_intr := NTO_INTR_SPARE h\<rparr>\<rparr>)))"

end
