(* ===== verification/Pl011_Init.thy ===== *)
theory Pl011_Init
  imports Pl011
begin

text \<open>
  Start-up of the serial driver: \<open>create_device\<close>, the default devices and the command line, from
  \<open>devc/serpl011/init.c\<close> and \<open>options.c\<close>.

  \<^item> \<open>ser_proc\<close> is the driver process: its devices, the static variables of \<open>variant.c\<close>, which all
    devices share, and the requests to the system. \<open>proc_state\<close> is the view of one device.
  \<^item> \<open>ser_env\<close> holds what is outside: the registers of each port, the device tree, the outcomes of
    system calls, and the functions \<open>ttc\<close> of the io-char library.
\<close>

text \<open>A function returns, the process exits, a wait does not end, or a division by zero makes the rest
  undefined.\<close>

datatype 'a outcome = Returned 'a | Exited | Stuck | Undefined

definition bindo :: "'a outcome \<Rightarrow> ('a \<Rightarrow> 'b outcome) \<Rightarrow> 'b outcome" where
  "bindo m f = (case m of Returned x \<Rightarrow> f x | Exited \<Rightarrow> Exited | Stuck \<Rightarrow> Stuck | Undefined \<Rightarrow> Undefined)"

lemma bindo_simps [simp]:
  "bindo (Returned x) f = f x"
  "bindo Exited f = Exited"
  "bindo Stuck f = Stuck"
  "bindo Undefined f = Undefined"
  by (simp_all add: bindo_def)

definition of_wait :: "'a option \<Rightarrow> 'a outcome" where
  "of_wait m = (case m of None \<Rightarrow> Stuck | Some x \<Rightarrow> Returned x)"

lemma of_wait_simps [simp]: "of_wait None = Stuck" "of_wait (Some x) = Returned x"
  by (simp_all add: of_wait_def)

record ttyinit =
  i_port :: u64
  i_port_shift :: u32
  i_intr :: u32
  i_baud :: u32
  i_isize :: u32
  i_osize :: u32
  i_csize :: u32
  i_cflag :: u32
  i_fifo :: u32
  i_clk :: u32
  i_div :: u32
  i_unit :: u32
  i_prio :: u32
  i_loopback :: u32
  i_debug_console :: u32

record 'q ser_proc =
  sp_devs :: "'q dev_pl011 list"
  sp_msix_mapped :: bool
  sp_msix_set_reg :: u32
  sp_reqs :: "sys_req list"

record ('q, 'f) ser_env =
  e_h :: serial_h
  e_hw :: "u64 \<Rightarrow> device"
  e_fdt :: "'f fdt_lib"
  e_malloc_dev :: bool
  e_malloc :: "u32 \<Rightarrow> bool"
  e_map_port :: "u64 \<Rightarrow> bool"
  e_map_msix :: bool
  e_pulse_ok :: bool
  e_attach :: "u32 \<Rightarrow> int"
  e_new_io :: "ttyinit \<Rightarrow> 'q"
  e_ttc_init :: "'q tty \<Rightarrow> 'q tty"
  e_ttc_attach :: "'q tty \<Rightarrow> 'q tty"
  e_ttc_raw :: "ttyinit \<Rightarrow> ttyinit"
  e_ttc_option :: "char \<Rightarrow> string \<Rightarrow> ttyinit \<Rightarrow> ttyinit"
  e_optstring :: string
  e_patience :: nat

definition proc_state :: "'q ser_proc \<Rightarrow> 'q dev_pl011 \<Rightarrow> 'q ser_state" where
  "proc_state p dev =
     \<lparr>ss_dev = dev, msix_mapped = sp_msix_mapped p, msix_set_reg = sp_msix_set_reg p, ss_reqs = sp_reqs p\<rparr>"

definition proc_static :: "'q ser_state \<Rightarrow> 'q ser_proc \<Rightarrow> 'q ser_proc" where
  "proc_static ss p =
     p\<lparr>sp_msix_mapped := msix_mapped ss, sp_msix_set_reg := msix_set_reg ss, sp_reqs := ss_reqs ss\<rparr>"

definition FIFOSIZE :: u32 where
  "FIFOSIZE = 32"

definition init_highwater :: "u32 \<Rightarrow> u32" where
  "init_highwater isize = isize - (if isize < 128 then isize div 4 else 100)"

text \<open>The fields of a new device; the others are cleared.\<close>

definition init_device :: "('q, 'f) ser_env \<Rightarrow> ttyinit \<Rightarrow> 'q dev_pl011" where
  "init_device e dip =
     \<lparr>iolog = [],
      d_tty = \<lparr>t_flags = EDIT_INSERT (e_h e) OR LOSES_TX_INTR (e_h e), t_xflags = 0, c_cflag = i_cflag dip,
               t_baud = i_baud dip, oband_data = 0, tx_tmr = 0, t_isize = i_isize dip,
               t_highwater = init_highwater (i_isize dip), t_fifo = i_fifo dip, t_io = e_new_io e dip\<rparr>,
      d_intr = i_intr dip, port_size = i_port_shift dip, iid = 0, fifosize = FIFOSIZE,
      d_clk = i_clk dip, d_div = i_div dip, d_fifo = i_fifo dip, d_baud = 0, d_lcr_h = 0, d_ibrd = 0,
      d_fbrd = 0, d_cr = 0, d_imr = 0, d_loopback = i_loopback dip, d_prio = i_prio dip,
      is_debug_console = i_debug_console dip\<rparr>"

definition create_device :: "('q, 'f) ser_env \<Rightarrow> ttyinit \<Rightarrow> 'q ser_proc \<Rightarrow> 'q ser_proc outcome" where
  "create_device e dip p =
     (if \<not> (e_malloc_dev e \<and> e_malloc e (i_isize dip) \<and> e_malloc e (i_osize dip) \<and> e_malloc e (i_csize dip)) then Exited
      else if \<not> e_map_port e (i_port dip) then Exited
      else let dev0 = init_device e dip;
               dev = dev0\<lparr>d_tty := e_ttc_init e (d_tty dev0)\<rparr>
           in bindo (if i_port dip \<noteq> 0 \<and> i_intr dip \<noteq> NTO_INTR_SPARE (e_h e)
                     then bindo (of_wait (ser_attach_intr (e_patience e) (e_hw e (i_port dip)) (e_h e) (e_fdt e)
                                    (e_map_msix e) (e_pulse_ok e) (e_attach e) (proc_state p dev)))
                            (\<lambda>ss. case ser_stty (e_hw e (i_port dip)) (e_h e) (ss_dev ss) of
                                    None \<Rightarrow> Undefined
                                  | Some d \<Rightarrow> Returned (ss\<lparr>ss_dev := d\<rparr>))
                     else Returned (proc_state p dev))
                (\<lambda>ss. let d = ss_dev ss
                      in Returned ((proc_static ss p)\<lparr>sp_devs := sp_devs p @ [d\<lparr>d_tty := e_ttc_attach e (d_tty d)\<rparr>]\<rparr>)))"

definition query_default_device :: "ttyinit \<Rightarrow> nat \<Rightarrow> (ttyinit \<times> nat) option" where
  "query_default_device dip link =
     (if link = 0 then Some (dip\<lparr>i_port := 0x10009000, i_intr := 36\<rparr>, 1)
      else if link = 1 then Some (dip\<lparr>i_port := 0x1000A000, i_intr := 37\<rparr>, 2)
      else None)"

section \<open>The command line\<close>

record 'q opt_state =
  devinit :: ttyinit
  rx_fifo :: u32
  tx_fifo :: u32
  numports :: nat
  o_proc :: "'q ser_proc"

definition devinit_default :: ttyinit where
  "devinit_default =
     \<lparr>i_port = 0, i_port_shift = 1, i_intr = 0, i_baud = 38400, i_isize = 2048, i_osize = 2048, i_csize = 256,
      i_cflag = 0, i_fifo = 0, i_clk = 24000000, i_div = 16, i_unit = 1, i_prio = 0, i_loopback = 0,
      i_debug_console = 0\<rparr>"

definition trigger_level :: "string \<Rightarrow> u32 \<Rightarrow> u32" where
  "trigger_level arg old =
     (let (v, _, err) = strtoul0 arg; l = ucast v :: u32
      in if err then old else if l > 4 then 2 else l)"

definition opt_event :: "('q, 'f) ser_env \<Rightarrow> getopt_ev \<Rightarrow> 'q opt_state \<Rightarrow> 'q opt_state" where
  "opt_event e ev s =
     (case ev of
        GOpt c arg \<Rightarrow>
          if c = CHR ''t'' then s\<lparr>rx_fifo := trigger_level arg (rx_fifo s)\<rparr>
          else if c = CHR ''T'' then s\<lparr>tx_fifo := trigger_level arg (tx_fifo s)\<rparr>
          else if c = CHR ''D'' then s\<lparr>devinit := (devinit s)\<lparr>i_debug_console := 1\<rparr>\<rparr>
          else s\<lparr>devinit := e_ttc_option e c arg (devinit s)\<rparr>
      | _ \<Rightarrow> s\<lparr>devinit := e_ttc_option e (CHR ''?'') [] (devinit s)\<rparr>)"

definition set_fifo :: "'q opt_state \<Rightarrow> 'q opt_state" where
  "set_fifo s = s\<lparr>devinit := (devinit s)\<lparr>i_fifo := push_bit 3 (rx_fifo s) OR tx_fifo s\<rparr>\<rparr>"

text \<open>A port argument, \<open>address[^shift][,interrupt]\<close>. The flag tells whether it was accepted.\<close>

definition parse_port :: "string \<Rightarrow> ttyinit \<Rightarrow> ttyinit \<times> bool" where
  "parse_port arg d =
     (let (v, rest, err) = strtoul16 arg
      in if err then (d, False)
         else let d1 = d\<lparr>i_port := v\<rparr>;
                  (d2, rest2, err2) =
                    (if rest \<noteq> [] \<and> hd rest = CHR ''^''
                     then let (v2, r2, e2) = strtoul0 (tl rest)
                          in (if e2 then d1 else d1\<lparr>i_port_shift := ucast v2\<rparr>, r2, e2)
                     else (d1, rest, False))
              in if err2 then (d2, False)
                 else if rest2 \<noteq> [] \<and> hd rest2 = CHR '',''
                 then let (v3, _, e3) = strtoul0 (tl rest2)
                      in if e3 then (d2, False) else (d2\<lparr>i_intr := ucast v3\<rparr>, True)
                 else (d2, True))"

definition add_port :: "('q, 'f) ser_env \<Rightarrow> 'q opt_state \<Rightarrow> 'q opt_state outcome" where
  "add_port e s =
     bindo (create_device e (devinit s) (o_proc s)) (\<lambda>p.
       Returned (s\<lparr>o_proc := p, devinit := (devinit s)\<lparr>i_unit := i_unit (devinit s) + 1\<rparr>, numports := numports s + 1\<rparr>))"

text \<open>The loop over the ports up to the next option: the remaining arguments and \<open>port_error\<close>.\<close>

fun ports_loop :: "('q, 'f) ser_env \<Rightarrow> 'q opt_state \<Rightarrow> string list \<Rightarrow> ('q opt_state \<times> string list \<times> bool) outcome" where
  "ports_loop e s [] = Returned (s, [], False)"
| "ports_loop e s (a # args) =
     (if a \<noteq> [] \<and> hd a = CHR ''-'' then Returned (s, a # args, False)
      else let (d, ok) = parse_port a (devinit s);
               s1 = s\<lparr>devinit := d\<rparr>
           in if \<not> ok then Returned (s1, a # args, True)
              else bindo (add_port e s1) (\<lambda>s2. ports_loop e s2 args))"

text \<open>The loop of \<open>options\<close> over the arguments; its first argument bounds the rounds.\<close>

fun options_loop :: "nat \<Rightarrow> ('q, 'f) ser_env \<Rightarrow> 'q opt_state \<Rightarrow> string list \<Rightarrow> 'q opt_state outcome" where
  "options_loop 0 e s args = (if args = [] then Returned s else Stuck)"
| "options_loop (Suc n) e s args =
     (if args = [] then Returned s
      else let (evs, args1) = getopt_scan (e_optstring e @ ''t:T:D'') [] args;
               s1 = set_fifo (fold (opt_event e) evs s)
           in bindo (ports_loop e s1 args1) (\<lambda>(s2, args2, port_error).
                if port_error then Returned s2 else options_loop n e s2 args2))"

text \<open>The two default devices; the third query returns none.\<close>

definition default_ports :: "('q, 'f) ser_env \<Rightarrow> 'q opt_state \<Rightarrow> 'q opt_state outcome" where
  "default_ports e s0 =
     (case query_default_device (devinit (set_fifo s0)) 0 of
        None \<Rightarrow> Returned s0
      | Some (d, l) \<Rightarrow>
          bindo (add_port e ((set_fifo s0)\<lparr>devinit := d\<rparr>)) (\<lambda>s1.
            case query_default_device (devinit s1) l of
              None \<Rightarrow> Returned s1
            | Some (d2, _) \<Rightarrow> add_port e (s1\<lparr>devinit := d2\<rparr>)))"

definition init_options :: "('q, 'f) ser_env \<Rightarrow> 'q opt_state" where
  "init_options e =
     \<lparr>devinit = e_ttc_raw e devinit_default, rx_fifo = 2, tx_fifo = 2, numports = 0,
      o_proc = \<lparr>sp_devs = [], sp_msix_mapped = False, sp_msix_set_reg = 0, sp_reqs = []\<rparr>\<rparr>"

text \<open>\<open>options\<close>, with the arguments behind the program name.\<close>

definition ser_options :: "nat \<Rightarrow> ('q, 'f) ser_env \<Rightarrow> string list \<Rightarrow> 'q opt_state outcome" where
  "ser_options n e args =
     bindo (options_loop n e (init_options e) args) (\<lambda>s.
       if numports s = 0 then default_ports e s else Returned s)"

text \<open>\<open>main\<close>: the driver exits without ports and serves its devices otherwise.\<close>

definition ser_main :: "nat \<Rightarrow> ('q, 'f) ser_env \<Rightarrow> string list \<Rightarrow> 'q ser_proc outcome" where
  "ser_main n e args =
     bindo (ser_options n e args) (\<lambda>s. if numports s = 0 then Exited else Returned (o_proc s))"

end
