(* ===== verification/Pl011_Proofs.thy ===== *)
theory Pl011_Proofs
  imports Pl011_Init
begin

text \<open>
  Properties of the serial driver. The hypotheses about code and hardware outside the driver are
  named predicates: \<open>raw_output\<close> for the io-char library's output buffer, \<open>regs_distinct\<close> for the
  register offsets and \<open>recv_dev\<close> for the receive FIFO.
\<close>

section \<open>Register accesses\<close>

lemma port_width_byte [simp]: "port_width p (ucast (c :: u8)) = ucast c"
proof -
  have "n < 8" if "bit c n" for n using bit_imp_le_length [OF that] by simp
  then have "(ucast c :: u32) AND mask 8 = ucast c" "(ucast c :: u32) AND mask 16 = ucast c"
    by (auto intro!: bit_eqI simp: bit_simps) (meson less_le_trans numeral_le_iff semiring_norm)+
  then show ?thesis by (simp add: port_width_def mask_eq_exp_minus_1)
qed

lemma port_width_0 [simp]: "port_width p 0 = 0"
  by (simp add: port_width_def)

lemma read_port_simps [simp]:
  "fst (read_port hw dev reg) = dev\<lparr>iolog := RD reg (snd (read_port hw dev reg)) # iolog dev\<rparr>"
  by (simp add: read_port_def)

lemma write_port_simps [simp]:
  "iolog (write_port dev reg v) = WR reg (port_width (port_size dev) v) # iolog dev"
  "d_tty (write_port dev reg v) = d_tty dev"
  "d_imr (write_port dev reg v) = d_imr dev"
  "d_cr (write_port dev reg v) = d_cr dev"
  "d_lcr_h (write_port dev reg v) = d_lcr_h dev"
  "d_ibrd (write_port dev reg v) = d_ibrd dev"
  "d_fbrd (write_port dev reg v) = d_fbrd dev"
  "d_baud (write_port dev reg v) = d_baud dev"
  "d_div (write_port dev reg v) = d_div dev"
  "d_loopback (write_port dev reg v) = d_loopback dev"
  "d_fifo (write_port dev reg v) = d_fifo dev"
  "d_intr (write_port dev reg v) = d_intr dev"
  "iid (write_port dev reg v) = iid dev"
  "is_debug_console (write_port dev reg v) = is_debug_console dev"
  "fifosize (write_port dev reg v) = fifosize dev"
  "port_size (write_port dev reg v) = port_size dev"
  by (simp_all add: write_port_def mmio_write_def)

section \<open>Output\<close>

text \<open>The output buffer of the io-char library in raw mode: \<open>out\<close> is what it holds, \<open>tto_getchar\<close>
  takes the first character, and neither the timer nor the flags are part of it.\<close>

definition raw_output :: "'q iochar \<Rightarrow> ('q tty \<Rightarrow> u8 list) \<Rightarrow> bool" where
  "raw_output io out \<longleftrightarrow>
     (\<forall>t. obuf_cnt io t = length (out t) \<and>
          (out t \<noteq> [] \<longrightarrow> snd (tto_getchar io t) = hd (out t) \<and> out (fst (tto_getchar io t)) = tl (out t) \<and>
                         t_xflags (fst (tto_getchar io t)) = t_xflags t) \<and>
          (\<forall>x. out (t\<lparr>tx_tmr := x\<rparr>) = out t) \<and> (\<forall>x. out (t\<lparr>t_xflags := x\<rparr>) = out t))"

lemma raw_outputD:
  assumes "raw_output io out"
  shows "obuf_cnt io t = length (out t)"
    and "out t \<noteq> [] \<Longrightarrow> snd (tto_getchar io t) = hd (out t)"
    and "out t \<noteq> [] \<Longrightarrow> out (fst (tto_getchar io t)) = tl (out t)"
    and "out t \<noteq> [] \<Longrightarrow> t_xflags (fst (tto_getchar io t)) = t_xflags t"
    and "out (t\<lparr>tx_tmr := x\<rparr>) = out t" and "out (t\<lparr>t_xflags := x\<rparr>) = out t"
  using assms unfolding raw_output_def by blast+

text \<open>Every write to the data register directly follows a read of the flags that shows room.\<close>

fun room_seen :: "serial_h \<Rightarrow> io list \<Rightarrow> bool" where
  "room_seen h (RD r v # l) \<longleftrightarrow> r = PL011_FR h \<and> v AND PL011_FR_TXFF h = 0"
| "room_seen h _ \<longleftrightarrow> False"

fun dr_guarded :: "serial_h \<Rightarrow> io list \<Rightarrow> bool" where
  "dr_guarded h [] \<longleftrightarrow> True"
| "dr_guarded h (RD r v # l) \<longleftrightarrow> dr_guarded h l"
| "dr_guarded h (WR r v # l) \<longleftrightarrow> (r = PL011_DR h \<longrightarrow> room_seen h l) \<and> dr_guarded h l"

text \<open>The last access has shown a full FIFO.\<close>

fun full_seen :: "serial_h \<Rightarrow> io list \<Rightarrow> bool" where
  "full_seen h (RD r v # l) \<longleftrightarrow> r = PL011_FR h \<and> v AND PL011_FR_TXFF h \<noteq> 0"
| "full_seen h _ \<longleftrightarrow> False"

text \<open>Why a transmission ends: everything is sent, the FIFO is full, the limit is reached, or only
  one character was allowed.\<close>

definition tx_stops :: "serial_h \<Rightarrow> 'q dev_pl011 \<Rightarrow> nat \<Rightarrow> nat \<Rightarrow> nat \<Rightarrow> 'q dev_pl011 \<Rightarrow> bool" where
  "tx_stops h dev n len k dev' \<longleftrightarrow>
     k = len \<or> k = n \<or> (paged_override h dev \<and> k = 1) \<or> full_seen h (iolog dev')"

lemma tx_char_sends:
  assumes "raw_output io out" "out (d_tty dev) \<noteq> []"
  shows "iolog (tx_char h io dev) = WR (PL011_DR h) (ucast (hd (out (d_tty dev)))) # iolog dev"
    and "out (d_tty (tx_char h io dev)) = tl (out (d_tty dev))"
    and "paged_override h (tx_char h io dev) \<longleftrightarrow> paged_override h dev"
    and "d_imr (tx_char h io dev) = d_imr dev" and "port_size (tx_char h io dev) = port_size dev"
  by (simp_all add: tx_char_def Let_def raw_outputD [OF assms(1)] assms(2) paged_override_def)

lemma tx_loop_sends:
  assumes raw: "raw_output io out"
  shows "\<exists>k \<le> n. k \<le> length (out (d_tty dev)) \<and>
           writes_of (PL011_DR h) (iolog (tx_loop n hw h io dev)) =
             writes_of (PL011_DR h) (iolog dev) @ map ucast (take k (out (d_tty dev))) \<and>
           out (d_tty (tx_loop n hw h io dev)) = drop k (out (d_tty dev)) \<and>
           d_imr (tx_loop n hw h io dev) = d_imr dev \<and> port_size (tx_loop n hw h io dev) = port_size dev \<and>
           (dr_guarded h (iolog dev) \<longrightarrow> dr_guarded h (iolog (tx_loop n hw h io dev))) \<and>
           tx_stops h dev n (length (out (d_tty dev))) k (tx_loop n hw h io dev)"
proof (induction n arbitrary: dev rule: less_induct)
  case (less n)
  let ?o = "out (d_tty dev)"
  let ?fr = "snd (read_port hw dev (PL011_FR h))"
  let ?r = "dev\<lparr>iolog := RD (PL011_FR h) ?fr # iolog dev\<rparr>"
  show ?case
  proof (cases "?fr AND PL011_FR_TXFF h = 0 \<and> ?o \<noteq> [] \<and> 0 < n")
    case False
    then have "tx_loop n hw h io dev = ?r"
      by (subst tx_loop.simps) (auto simp: Let_def raw_outputD [OF raw])
    with False show ?thesis
      by (intro exI [of _ 0]) (auto simp: tx_stops_def)
  next
    case True
    let ?d = "tx_char h io ?r"
    have o: "out (d_tty ?r) \<noteq> []" using True by simp
    note c = tx_char_sends [OF raw o, of h]
    have g: "dr_guarded h (iolog dev) \<longrightarrow> dr_guarded h (iolog ?d)" using True by (simp add: c)
    have w: "writes_of (PL011_DR h) (iolog ?d) = writes_of (PL011_DR h) (iolog dev) @ [ucast (hd ?o)]"
      by (simp add: c)
    have le: "Suc 0 \<le> length ?o" using True by (cases ?o) auto
    show ?thesis
    proof (cases "paged_override h dev")
      case ov: True
      have "tx_loop n hw h io dev =
          ?d\<lparr>d_tty := (d_tty ?d)\<lparr>t_xflags := t_xflags (d_tty ?d) AND NOT (OSW_PAGED_OVERRIDE h)\<rparr>\<rparr>"
        using True ov c(3) by (subst tx_loop.simps) (simp add: Let_def raw_outputD [OF raw] paged_override_def)
      then show ?thesis using True g w c le ov
        by (intro exI [of _ 1]) (auto simp: raw_outputD [OF raw] tx_stops_def drop_Suc take_Suc Suc_leI)
    next
      case False
      have eq: "tx_loop n hw h io dev = tx_loop (n - 1) hw h io ?d"
        using True False c(3) by (subst tx_loop.simps) (simp add: Let_def raw_outputD [OF raw] paged_override_def)
      obtain k where k: "k \<le> n - 1" "k \<le> length (out (d_tty ?d))"
        "writes_of (PL011_DR h) (iolog (tx_loop (n - 1) hw h io ?d)) =
           writes_of (PL011_DR h) (iolog ?d) @ map ucast (take k (out (d_tty ?d)))"
        "out (d_tty (tx_loop (n - 1) hw h io ?d)) = drop k (out (d_tty ?d))"
        "d_imr (tx_loop (n - 1) hw h io ?d) = d_imr ?d" "port_size (tx_loop (n - 1) hw h io ?d) = port_size ?d"
        "dr_guarded h (iolog ?d) \<longrightarrow> dr_guarded h (iolog (tx_loop (n - 1) hw h io ?d))"
        "tx_stops h ?d (n - 1) (length (out (d_tty ?d))) k (tx_loop (n - 1) hw h io ?d)"
        using less [of "n - 1" ?d] True by auto
      have st: "tx_stops h dev n (length ?o) (Suc k) (tx_loop (n - 1) hw h io ?d)"
        using k(8) c(2,3) True False le by (auto simp: tx_stops_def paged_override_def)
      have tk: "map ucast (take (Suc k) ?o) = ucast (hd ?o) # map ucast (take k (tl ?o))"
        using True by (cases ?o) auto
      have w2: "writes_of (PL011_DR h) (iolog (tx_loop (n - 1) hw h io ?d)) =
          writes_of (PL011_DR h) (iolog dev) @ map ucast (take (Suc k) ?o)"
        unfolding k(3) w tk by (simp add: c)
      have d2: "out (d_tty (tx_loop (n - 1) hw h io ?d)) = drop (Suc k) ?o"
        unfolding k(4) by (simp add: c drop_Suc)
      have le2: "Suc k \<le> n" "Suc k \<le> length ?o" using k(1,2) True le by (auto simp: c)
      show ?thesis unfolding eq using le2 w2 d2 st k(5-7) g c(4,5)
        by (intro exI [of _ "Suc k"]) simp
    qed
  qed
qed

section \<open>The registers and their shadows\<close>

fun last_write :: "u32 \<Rightarrow> io list \<Rightarrow> u32 option" where
  "last_write r [] = None"
| "last_write r (RD _ _ # l) = last_write r l"
| "last_write r (WR r' v # l) = (if r' = r then Some v else last_write r l)"

definition regs_distinct :: "serial_h \<Rightarrow> bool" where
  "regs_distinct h \<longleftrightarrow>
     distinct [PL011_DR h, PL011_ECR h, PL011_FR h, PL011_IBRD h, PL011_FBRD h, PL011_LCR_H h, PL011_CR h,
               PL011_IFLS h, PL011_IMSC h, PL011_MIS h, PL011_ICR h, PL011_DMACR h, PL011_TIMEOUT h]"

lemma regs_distinct_pairs:
  assumes "regs_distinct h"
  shows "PL011_DR h \<noteq> PL011_ECR h" "PL011_DR h \<noteq> PL011_IBRD h" "PL011_DR h \<noteq> PL011_FBRD h"
    "PL011_DR h \<noteq> PL011_LCR_H h" "PL011_DR h \<noteq> PL011_CR h" "PL011_DR h \<noteq> PL011_IFLS h"
    "PL011_DR h \<noteq> PL011_IMSC h" "PL011_DR h \<noteq> PL011_ICR h" "PL011_DR h \<noteq> PL011_DMACR h"
    "PL011_DR h \<noteq> PL011_TIMEOUT h" "PL011_ECR h \<noteq> PL011_IBRD h"
    "PL011_ECR h \<noteq> PL011_FBRD h" "PL011_ECR h \<noteq> PL011_LCR_H h" "PL011_ECR h \<noteq> PL011_CR h"
    "PL011_ECR h \<noteq> PL011_IFLS h" "PL011_ECR h \<noteq> PL011_IMSC h" "PL011_ECR h \<noteq> PL011_ICR h"
    "PL011_ECR h \<noteq> PL011_DMACR h" "PL011_ECR h \<noteq> PL011_TIMEOUT h"
    "PL011_IBRD h \<noteq> PL011_FBRD h" "PL011_IBRD h \<noteq> PL011_LCR_H h"
    "PL011_IBRD h \<noteq> PL011_CR h" "PL011_IBRD h \<noteq> PL011_IFLS h"
    "PL011_IBRD h \<noteq> PL011_IMSC h" "PL011_IBRD h \<noteq> PL011_ICR h"
    "PL011_IBRD h \<noteq> PL011_DMACR h" "PL011_IBRD h \<noteq> PL011_TIMEOUT h"
    "PL011_FBRD h \<noteq> PL011_LCR_H h" "PL011_FBRD h \<noteq> PL011_CR h"
    "PL011_FBRD h \<noteq> PL011_IFLS h" "PL011_FBRD h \<noteq> PL011_IMSC h"
    "PL011_FBRD h \<noteq> PL011_ICR h" "PL011_FBRD h \<noteq> PL011_DMACR h"
    "PL011_FBRD h \<noteq> PL011_TIMEOUT h" "PL011_LCR_H h \<noteq> PL011_CR h"
    "PL011_LCR_H h \<noteq> PL011_IFLS h" "PL011_LCR_H h \<noteq> PL011_IMSC h"
    "PL011_LCR_H h \<noteq> PL011_ICR h" "PL011_LCR_H h \<noteq> PL011_DMACR h"
    "PL011_LCR_H h \<noteq> PL011_TIMEOUT h" "PL011_CR h \<noteq> PL011_IFLS h"
    "PL011_CR h \<noteq> PL011_IMSC h" "PL011_CR h \<noteq> PL011_ICR h" "PL011_CR h \<noteq> PL011_DMACR h"
    "PL011_CR h \<noteq> PL011_TIMEOUT h" "PL011_IFLS h \<noteq> PL011_IMSC h"
    "PL011_IFLS h \<noteq> PL011_ICR h" "PL011_IFLS h \<noteq> PL011_DMACR h"
    "PL011_IFLS h \<noteq> PL011_TIMEOUT h" "PL011_IMSC h \<noteq> PL011_ICR h"
    "PL011_IMSC h \<noteq> PL011_DMACR h" "PL011_IMSC h \<noteq> PL011_TIMEOUT h"
    "PL011_ICR h \<noteq> PL011_DMACR h" "PL011_ICR h \<noteq> PL011_TIMEOUT h"
    "PL011_DMACR h \<noteq> PL011_TIMEOUT h"
  using assms unfolding regs_distinct_def by simp_all

lemmas regs_distinctD = regs_distinct_pairs regs_distinct_pairs [THEN not_sym]

text \<open>The device's registers hold what the driver's copies say.\<close>

definition uart_synced :: "serial_h \<Rightarrow> 'q dev_pl011 \<Rightarrow> bool" where
  "uart_synced h dev \<longleftrightarrow>
     (let w = \<lambda>v. Some (port_width (port_size dev) v)
      in last_write (PL011_CR h) (iolog dev) = w (d_cr dev) \<and>
         last_write (PL011_LCR_H h) (iolog dev) = w (d_lcr_h dev) \<and>
         last_write (PL011_IBRD h) (iolog dev) = w (d_ibrd dev) \<and>
         last_write (PL011_FBRD h) (iolog dev) = w (d_fbrd dev) \<and>
         last_write (PL011_IMSC h) (iolog dev) = w (d_imr dev))"

text \<open>The settings of the line are only written while the UART is disabled.\<close>

fun set_while_off :: "serial_h \<Rightarrow> io list \<Rightarrow> bool" where
  "set_while_off h [] \<longleftrightarrow> True"
| "set_while_off h (RD r v # l) \<longleftrightarrow> set_while_off h l"
| "set_while_off h (WR r v # l) \<longleftrightarrow>
     (r \<in> {PL011_IBRD h, PL011_FBRD h, PL011_LCR_H h, PL011_IFLS h} \<longrightarrow> last_write (PL011_CR h) l = Some 0) \<and>
     set_while_off h l"

text \<open>Fields that no register access changes.\<close>

definition same_fields :: "'q dev_pl011 \<Rightarrow> 'q dev_pl011 \<Rightarrow> bool" where
  "same_fields d e \<longleftrightarrow>
     port_size e = port_size d \<and> d_cr e = d_cr d \<and> d_lcr_h e = d_lcr_h d \<and> d_ibrd e = d_ibrd d \<and>
     d_fbrd e = d_fbrd d \<and> d_baud e = d_baud d \<and> d_div e = d_div d \<and> d_loopback e = d_loopback d \<and>
     d_fifo e = d_fifo d \<and> fifosize e = fifosize d \<and> d_intr e = d_intr d \<and> iid e = iid d \<and>
     is_debug_console e = is_debug_console d"

lemma same_fields_refl [simp]: "same_fields d d"
  by (simp add: same_fields_def)

lemma same_fields_trans: "same_fields a b \<Longrightarrow> same_fields b c \<Longrightarrow> same_fields a c"
  by (simp add: same_fields_def)

text \<open>Reads only, all of the flags.\<close>

definition polls :: "serial_h \<Rightarrow> 'q dev_pl011 \<Rightarrow> 'q dev_pl011 \<Rightarrow> bool" where
  "polls h d e \<longleftrightarrow> (\<exists>vs. e = d\<lparr>iolog := map (RD (PL011_FR h)) vs @ iolog d\<rparr>)"

lemma polls_refl [simp]: "polls h d d"
  unfolding polls_def by (rule exI [of _ "[]"]) simp

lemma polls_read: "polls h d e \<Longrightarrow> polls h d (e\<lparr>iolog := RD (PL011_FR h) v # iolog e\<rparr>)"
  unfolding polls_def by (elim exE, rule_tac x = "v # vs" in exI) simp

lemma stty_wait_polls: "polls h d dev \<Longrightarrow> polls h d (fst (stty_wait hw h t dev))"
proof (induction hw h t dev rule: stty_wait.induct)
  case (1 hw h t dev)
  show ?case
    by (subst stty_wait.simps) (use 1 polls_read [OF 1(2)] in \<open>auto simp: Let_def\<close>)
qed

lemma stty_idle_polls: "polls h dev (stty_idle hw h dev)"
proof (cases "d_loopback dev = 0")
  case True
  then show ?thesis
    using stty_wait_polls [OF polls_refl, of h dev hw 10000000]
    by (auto simp: stty_idle_def Let_def intro: polls_read)
qed (simp add: stty_idle_def)

lemma last_write_polls: "last_write r (map (RD q) vs @ l) = last_write r l"
  by (induction vs) auto

lemma set_while_off_polls: "set_while_off h (map (RD q) vs @ l) = set_while_off h l"
  by (induction vs) auto

lemma stty_program_fields:
  "same_fields dev (stty_program hw h dev)" "d_imr (stty_program hw h dev) = d_imr dev"
  "d_tty (stty_program hw h dev) = d_tty dev"
  by (simp_all add: stty_program_def Let_def same_fields_def)

text \<open>The accesses of \<open>stty_program\<close>, newest first.\<close>

lemma stty_program_log:
  "\<exists>v. iolog (stty_program hw h dev) =
     (let w = \<lambda>r x. WR r (port_width (port_size dev) x)
      in [w (PL011_IMSC h) (d_imr dev), w (PL011_CR h) (d_cr dev), w (PL011_LCR_H h) (d_lcr_h dev),
          w (PL011_FBRD h) (d_fbrd dev), w (PL011_IBRD h) (d_ibrd dev), w (PL011_ICR h) 0x7FF] @
         (if fifosize dev \<noteq> 0 \<and> d_fifo dev \<noteq> 0
          then [w (PL011_TIMEOUT h) 0x1ff, w (PL011_IFLS h) (d_fifo dev)] else []) @
         [w (PL011_LCR_H h) (v AND NOT (PL011_LCR_H_FEN h)), RD (PL011_LCR_H h) v, WR (PL011_DMACR h) 0,
          WR (PL011_CR h) 0] @ iolog dev)"
proof -
  have "\<exists>v. v = snd (read_port hw (write_port (write_port dev (PL011_CR h) 0) (PL011_DMACR h) 0) (PL011_LCR_H h))"
    by simp
  then show ?thesis by (elim ex_forward) (simp add: stty_program_def Let_def)
qed

lemma stty_program_synced:
  assumes "regs_distinct h"
  shows "uart_synced h (stty_program hw h dev)"
    and "set_while_off h (iolog dev) \<Longrightarrow> set_while_off h (iolog (stty_program hw h dev))"
proof -
  obtain v where v: "iolog (stty_program hw h dev) =
     (let w = \<lambda>r x. WR r (port_width (port_size dev) x)
      in [w (PL011_IMSC h) (d_imr dev), w (PL011_CR h) (d_cr dev), w (PL011_LCR_H h) (d_lcr_h dev),
          w (PL011_FBRD h) (d_fbrd dev), w (PL011_IBRD h) (d_ibrd dev), w (PL011_ICR h) 0x7FF] @
         (if fifosize dev \<noteq> 0 \<and> d_fifo dev \<noteq> 0
          then [w (PL011_TIMEOUT h) 0x1ff, w (PL011_IFLS h) (d_fifo dev)] else []) @
         [w (PL011_LCR_H h) (v AND NOT (PL011_LCR_H_FEN h)), RD (PL011_LCR_H h) v, WR (PL011_DMACR h) 0,
          WR (PL011_CR h) 0] @ iolog dev)"
    using stty_program_log by blast
  have f: "port_size (stty_program hw h dev) = port_size dev" "d_cr (stty_program hw h dev) = d_cr dev"
    "d_lcr_h (stty_program hw h dev) = d_lcr_h dev" "d_ibrd (stty_program hw h dev) = d_ibrd dev"
    "d_fbrd (stty_program hw h dev) = d_fbrd dev"
    using stty_program_fields(1) [of dev hw h] by (simp_all add: same_fields_def)
  show "uart_synced h (stty_program hw h dev)"
    by (simp add: uart_synced_def f stty_program_fields(2) v Let_def regs_distinctD [OF assms])
  show "set_while_off h (iolog (stty_program hw h dev))" if "set_while_off h (iolog dev)"
    using that by (simp add: v Let_def regs_distinctD [OF assms])
qed

text \<open>What a call of \<open>ser_stty\<close> does: nothing to the device if no setting changes, else it programs
  all registers.\<close>

lemma ser_stty_cases:
  assumes "ser_stty hw h dev = Some dev'"
  obtains (same) "dev' = dev\<lparr>d_baud := t_baud (d_tty dev)\<rparr>" "d_cr dev = stty_cr h dev" "d_lcr_h dev = stty_lcr_h h dev"
      "d_baud dev = t_baud (d_tty dev) \<or>
       baud_divisor (d_clk dev) (d_div dev) (t_baud (d_tty dev)) = Some (d_ibrd dev, d_fbrd dev)"
  | (change) ibrd fbrd where
      "dev' = stty_program hw h (stty_idle hw h (dev\<lparr>d_baud := t_baud (d_tty dev),
         d_imr := PL011_IMSC_RXIM h OR PL011_IMSC_RTIM h, d_lcr_h := stty_lcr_h h dev, d_ibrd := ibrd,
         d_fbrd := fbrd, d_cr := stty_cr h dev\<rparr>))"
      "if d_baud dev = t_baud (d_tty dev) then ibrd = d_ibrd dev \<and> fbrd = d_fbrd dev
       else baud_divisor (d_clk dev) (d_div dev) (t_baud (d_tty dev)) = Some (ibrd, fbrd)"
  using assms unfolding ser_stty_def Let_def
  by (cases "d_baud dev = t_baud (d_tty dev)") (auto split: option.splits if_splits)

lemma stty_cr_upd [simp]:
  "stty_cr h (dev\<lparr>iolog := l\<rparr>) = stty_cr h dev" "stty_lcr_h h (dev\<lparr>iolog := l\<rparr>) = stty_lcr_h h dev"
  "stty_cr h (dev\<lparr>d_baud := b\<rparr>) = stty_cr h dev" "stty_lcr_h h (dev\<lparr>d_baud := b\<rparr>) = stty_lcr_h h dev"
  "stty_cr h (dev\<lparr>d_imr := b\<rparr>) = stty_cr h dev" "stty_lcr_h h (dev\<lparr>d_imr := b\<rparr>) = stty_lcr_h h dev"
  "stty_cr h (dev\<lparr>d_lcr_h := b\<rparr>) = stty_cr h dev" "stty_lcr_h h (dev\<lparr>d_lcr_h := b\<rparr>) = stty_lcr_h h dev"
  "stty_cr h (dev\<lparr>d_ibrd := b\<rparr>) = stty_cr h dev" "stty_lcr_h h (dev\<lparr>d_ibrd := b\<rparr>) = stty_lcr_h h dev"
  "stty_cr h (dev\<lparr>d_fbrd := b\<rparr>) = stty_cr h dev" "stty_lcr_h h (dev\<lparr>d_fbrd := b\<rparr>) = stty_lcr_h h dev"
  "stty_cr h (dev\<lparr>d_cr := b\<rparr>) = stty_cr h dev" "stty_lcr_h h (dev\<lparr>d_cr := b\<rparr>) = stty_lcr_h h dev"
  by (simp_all add: stty_cr_def stty_lcr_h_def)

lemma stty_cr_cong:
  "d_tty e = d_tty d \<Longrightarrow> same_fields d e \<Longrightarrow> stty_cr h e = stty_cr h d \<and> stty_lcr_h h e = stty_lcr_h h d"
  by (simp add: stty_cr_def stty_lcr_h_def same_fields_def)

lemma ser_stty_settled:
  "d_cr dev = stty_cr h dev \<Longrightarrow> d_lcr_h dev = stty_lcr_h h dev \<Longrightarrow> d_baud dev = t_baud (d_tty dev) \<Longrightarrow>
   ser_stty hw h dev = Some dev"
  by (simp add: ser_stty_def)

lemma ser_stty_change:
  assumes "regs_distinct h" "set_while_off h (iolog dev)"
    and "dev' = stty_program hw h (stty_idle hw h dev2)"
    and "dev2 = dev\<lparr>d_baud := t_baud (d_tty dev),
         d_imr := PL011_IMSC_RXIM h OR PL011_IMSC_RTIM h, d_lcr_h := stty_lcr_h h dev, d_ibrd := ibrd,
         d_fbrd := fbrd, d_cr := stty_cr h dev\<rparr>"
  shows "uart_synced h dev'" "set_while_off h (iolog dev')" "d_cr dev' = stty_cr h dev"
    "d_lcr_h dev' = stty_lcr_h h dev" "d_baud dev' = t_baud (d_tty dev)" "d_tty dev' = d_tty dev"
    "d_ibrd dev' = ibrd" "d_fbrd dev' = fbrd" "d_imr dev' = PL011_IMSC_RXIM h OR PL011_IMSC_RTIM h"
    "stty_cr h dev' = stty_cr h dev" "stty_lcr_h h dev' = stty_lcr_h h dev"
proof -
  obtain vs where vs: "stty_idle hw h dev2 = dev2\<lparr>iolog := map (RD (PL011_FR h)) vs @ iolog dev2\<rparr>"
    using stty_idle_polls [where h = h and dev = dev2 and hw = hw] by (auto simp: polls_def)
  note p = stty_program_synced [OF assms(1), where hw = hw and dev = "stty_idle hw h dev2"]
  note q = stty_program_fields [where hw = hw and h = h and dev = "stty_idle hw h dev2"]
  show "uart_synced h dev'" unfolding assms(3) by (rule p(1))
  show "set_while_off h (iolog dev')"
    unfolding assms(3) by (rule p(2)) (unfold vs, simp add: assms(4) set_while_off_polls assms(2))
  have f: "same_fields (stty_idle hw h dev2) dev'" "d_tty dev' = d_tty (stty_idle hw h dev2)"
    using q(1,3) by (simp_all add: assms(3))
  show "d_cr dev' = stty_cr h dev" "d_lcr_h dev' = stty_lcr_h h dev" "d_baud dev' = t_baud (d_tty dev)"
    "d_tty dev' = d_tty dev" "d_ibrd dev' = ibrd" "d_fbrd dev' = fbrd"
    using f unfolding vs same_fields_def by (simp_all add: assms(4))
  show "d_imr dev' = PL011_IMSC_RXIM h OR PL011_IMSC_RTIM h"
    using q(2) unfolding assms(3) vs by (simp add: assms(4))
  show "stty_cr h dev' = stty_cr h dev" "stty_lcr_h h dev' = stty_lcr_h h dev"
    using stty_cr_cong [OF f(2,1)] unfolding vs by (simp_all add: assms(4))
qed

end
