(* ===== verification/Pl011_Serial.thy ===== *)
theory Pl011_Serial
  imports Pl011_Proofs "HOL-Library.Sublist"
begin

text \<open>
  The theorems about the serial driver: output, input, line settings, baud rate, acknowledgement of
  interrupts and the command line.
\<close>

section \<open>Output\<close>

lemma tx_irq_update_simps:
  "d_tty (tx_irq_update h io dev) = d_tty dev"
  "port_size (tx_irq_update h io dev) = port_size dev"
  "same_fields dev (tx_irq_update h io dev)"
  by (simp_all add: tx_irq_update_def Let_def same_fields_def)

lemma and_not_self [simp]: "(x AND NOT b) AND b = (0 :: 'a::len word)" "(x OR b) AND b = b"
  by (rule bit_eqI; auto simp: bit_simps)+

lemma tx_irq_update_mask:
  assumes "PL011_IMSC_TXIM h \<noteq> 0"
  shows "d_imr (tx_irq_update h io dev) AND PL011_IMSC_TXIM h \<noteq> 0 \<longleftrightarrow> 0 < obuf_cnt io (d_tty dev)"
  using assms by (simp add: tx_irq_update_def Let_def)

lemma tx_irq_update_log:
  "iolog (tx_irq_update h io dev) = iolog dev \<or> (\<exists>v. iolog (tx_irq_update h io dev) = WR (PL011_IMSC h) v # iolog dev)"
  by (simp add: tx_irq_update_def Let_def)

text \<open>Claim C15. Output: when output is not suspended, \<open>tto\<close> sends a prefix of the output buffer,
  character by character in order, each after the flags have shown room in the FIFO. It stops when
  everything is sent, when the FIFO is full, after 1024 characters, or after the one character a
  flow-control override allows, and the transmit interrupt is enabled exactly if characters are left.\<close>

theorem tto_sends_output:
  assumes raw: "raw_output io out"
    and regs: "regs_distinct h" "PL011_IMSC_TXIM h \<noteq> 0"
    and go: "t_flags (d_tty dev) AND (OHW_PAGED h OR OSW_PAGED h) = 0 \<or> paged_override h dev"
    and run: "tto hw h io dev TTO_DATA arg = Some (dev', r)"
  shows "\<exists>k \<le> 1024. k \<le> length (out (d_tty dev)) \<and>
           writes_of (PL011_DR h) (iolog dev') =
             writes_of (PL011_DR h) (iolog dev) @ map ucast (take k (out (d_tty dev))) \<and>
           (d_imr dev' AND PL011_IMSC_TXIM h \<noteq> 0 \<longleftrightarrow> k < length (out (d_tty dev))) \<and>
           (dr_guarded h (iolog dev) \<longrightarrow> dr_guarded h (iolog dev')) \<and>
           (k = length (out (d_tty dev)) \<or> k = 1024 \<or> (paged_override h dev \<and> k = 1) \<or>
            full_seen h (iolog dev') \<or> full_seen h (tl (iolog dev')))"
proof -
  let ?d1 = "tx_loop 1024 hw h io dev"
  let ?d2 = "tx_irq_update h io ?d1"
  have dev': "dev' = ?d2\<lparr>d_tty := fst (tto_checkclients io (d_tty ?d2))\<rparr>"
    using run go by (auto simp: tto_def tto_transmit_def Let_def split: if_splits)
  obtain k where k: "k \<le> 1024" "k \<le> length (out (d_tty dev))"
    "writes_of (PL011_DR h) (iolog ?d1) = writes_of (PL011_DR h) (iolog dev) @ map ucast (take k (out (d_tty dev)))"
    "out (d_tty ?d1) = drop k (out (d_tty dev))"
    "dr_guarded h (iolog dev) \<longrightarrow> dr_guarded h (iolog ?d1)"
    "tx_stops h dev 1024 (length (out (d_tty dev))) k ?d1"
    using tx_loop_sends [OF raw, of 1024 dev h hw] by blast
  have m: "d_imr dev' AND PL011_IMSC_TXIM h \<noteq> 0 \<longleftrightarrow> k < length (out (d_tty dev))"
    using tx_irq_update_mask [OF regs(2), of io ?d1] by (simp add: dev' raw_outputD [OF raw] k(4))
  have l: "iolog dev' = iolog ?d1 \<or> (\<exists>v. iolog dev' = WR (PL011_IMSC h) v # iolog ?d1)"
    using tx_irq_update_log [of h io ?d1] by (simp add: dev')
  have ne: "PL011_IMSC h \<noteq> PL011_DR h" using regs_distinctD(7) [OF regs(1)] by simp
  have w: "writes_of (PL011_DR h) (iolog dev') = writes_of (PL011_DR h) (iolog ?d1)" using l ne by auto
  have g: "dr_guarded h (iolog dev') = dr_guarded h (iolog ?d1)" using l ne by auto
  have f: "full_seen h (iolog ?d1) \<Longrightarrow> full_seen h (iolog dev') \<or> full_seen h (tl (iolog dev'))" using l by auto
  show ?thesis using k(1,2) m f k(6) unfolding w g k(3)
    by (intro exI [of _ k] conjI k(5) refl) (auto simp: tx_stops_def)
qed

section \<open>Input\<close>

text \<open>The reference: characters with their error flags are accepted one after the other.\<close>

definition rx_accept :: "serial_h \<Rightarrow> 'q iochar \<Rightarrow> 'q tty \<times> u32 \<Rightarrow> u32 \<Rightarrow> 'q tty \<times> u32" where
  "rx_accept h io ts v =
     (let k = tti io (rx_oband h v (fst ts)) (rx_key h v) in (fst k, snd ts OR snd k))"

text \<open>How many characters have been read from the data register, and a receiver behind the register:
  \<open>S\<close> is everything that arrives on the line, \<open>arrived l\<close> how much of it has arrived at a time.\<close>

definition dr_count :: "serial_h \<Rightarrow> io list \<Rightarrow> nat" where
  "dr_count h l = length (reads_of (PL011_DR h) l)"

definition recv_dev :: "serial_h \<Rightarrow> device \<Rightarrow> u32 \<Rightarrow> u32 list \<Rightarrow> (io list \<Rightarrow> nat) \<Rightarrow> bool" where
  "recv_dev h hw psz S arrived \<longleftrightarrow>
     (\<forall>l. arrived l \<le> length S \<and>
          (port_width psz (hw l (PL011_FR h)) AND PL011_FR_RXFE h = 0 \<longleftrightarrow> dr_count h l < arrived l) \<and>
          (dr_count h l < length S \<longrightarrow> port_width psz (hw l (PL011_DR h)) = S ! dr_count h l))"

lemma dr_count_simps [simp]:
  "dr_count h (WR r v # l) = dr_count h l"
  "dr_count h (RD r v # l) = dr_count h l + (if r = PL011_DR h then 1 else 0)"
  by (simp_all add: dr_count_def)

lemma read_port_value: "snd (read_port hw dev r) = port_width (port_size dev) (hw (iolog dev) r)"
  by (simp add: read_port_def)

lemma rx_char_step:
  assumes "v = port_width (port_size dev) (hw (iolog dev) (PL011_DR h))"
  shows "port_size (fst (rx_char hw h io (dev, st))) = port_size dev"
    and "dr_count h (iolog (fst (rx_char hw h io (dev, st)))) = Suc (dr_count h (iolog dev))"
    and "(d_tty (fst (rx_char hw h io (dev, st))), snd (rx_char hw h io (dev, st))) =
         rx_accept h io (d_tty dev, st) v"
  using assms by (simp_all add: rx_char_def Let_def rx_accept_def read_port_value)

lemma rx_loop_delivers:
  assumes "PL011_FR h \<noteq> PL011_DR h" "recv_dev h hw (port_size dev) S arrived"
    and "length S - dr_count h (iolog dev) < n"
  shows "\<exists>dev' st' m. rx_loop n hw h io (dev, st) = Some (dev', st') \<and>
           dr_count h (iolog dev') = dr_count h (iolog dev) + m \<and>
           (d_tty dev', st') = foldl (rx_accept h io) (d_tty dev, st) (take m (drop (dr_count h (iolog dev)) S)) \<and>
           arrived (tl (iolog dev')) \<le> dr_count h (iolog dev')"
  using assms(2,3)
proof (induction n arbitrary: dev st)
  case (Suc n)
  let ?k = "dr_count h (iolog dev)"
  let ?fr = "port_width (port_size dev) (hw (iolog dev) (PL011_FR h))"
  let ?r = "dev\<lparr>iolog := RD (PL011_FR h) ?fr # iolog dev\<rparr>"
  have kr: "dr_count h (iolog ?r) = ?k" using assms(1) by simp
  have rd: "?fr AND PL011_FR_RXFE h = 0 \<longleftrightarrow> ?k < arrived (iolog dev)" "arrived (iolog dev) \<le> length S"
    using Suc.prems(1) unfolding recv_dev_def by blast+
  show ?case
  proof (cases "?k < arrived (iolog dev)")
    case False
    then have "rx_loop (Suc n) hw h io (dev, st) = Some (?r, st)"
      using rd(1) by (simp add: Let_def read_port_value)
    then show ?thesis using False kr by (intro exI [of _ ?r] exI [of _ st] exI [of _ 0]) simp
  next
    case True
    let ?v = "port_width (port_size ?r) (hw (iolog ?r) (PL011_DR h))"
    let ?c = "rx_char hw h io (?r, st)"
    note c = rx_char_step [of ?v ?r hw h io st, OF refl]
    have lt: "?k < length S" using True rd(2) by simp
    have "dr_count h (iolog ?r) < length S \<longrightarrow> port_width (port_size dev) (hw (iolog ?r) (PL011_DR h)) = S ! dr_count h (iolog ?r)"
      using Suc.prems(1) unfolding recv_dev_def by blast
    then have v: "?v = S ! ?k" unfolding kr using lt by simp
    have eq: "rx_loop (Suc n) hw h io (dev, st) = rx_loop n hw h io (fst ?c, snd ?c)"
      using True rd(1) by (simp add: Let_def read_port_value)
    have "recv_dev h hw (port_size (fst ?c)) S arrived" using Suc.prems(1) by (simp add: c(1))
    moreover have "length S - dr_count h (iolog (fst ?c)) < n" using Suc.prems(2) lt unfolding c(2) kr by simp
    ultimately obtain dev' st' m where ih: "rx_loop n hw h io (fst ?c, snd ?c) = Some (dev', st')"
      "dr_count h (iolog dev') = dr_count h (iolog (fst ?c)) + m"
      "(d_tty dev', st') = foldl (rx_accept h io) (d_tty (fst ?c), snd ?c) (take m (drop (dr_count h (iolog (fst ?c))) S))"
      "arrived (tl (iolog dev')) \<le> dr_count h (iolog dev')"
      using Suc.IH by blast
    have "(d_tty dev', st') = foldl (rx_accept h io) (d_tty dev, st) (take (Suc m) (drop ?k S))"
      using ih(3) lt unfolding c(2,3) kr v by (simp add: Cons_nth_drop_Suc [symmetric])
    then show ?thesis unfolding eq using ih(1,2,4) unfolding c(2) kr
      by (intro exI [of _ dev'] exI [of _ st'] exI [of _ "Suc m"]) simp
  qed
qed simp


section \<open>Line settings\<close>


section \<open>Interrupts keep the registers and their copies together\<close>

lemma uart_synced_access:
  assumes "uart_synced h dev" "same_fields dev dev'" "d_imr dev' = d_imr dev"
    and "\<forall>r \<in> {PL011_CR h, PL011_LCR_H h, PL011_IBRD h, PL011_FBRD h, PL011_IMSC h}.
           last_write r (iolog dev') = last_write r (iolog dev)"
  shows "uart_synced h dev'"
  using assms by (simp add: uart_synced_def same_fields_def Let_def)

text \<open>An operation is called \<open>hush\<close> if it writes none of the registers with a copy.\<close>

definition hush :: "serial_h \<Rightarrow> 'q dev_pl011 \<Rightarrow> 'q dev_pl011 \<Rightarrow> bool" where
  "hush h dev dev' \<longleftrightarrow> same_fields dev dev' \<and> d_imr dev' = d_imr dev \<and>
     (\<forall>r \<in> {PL011_CR h, PL011_LCR_H h, PL011_IBRD h, PL011_FBRD h, PL011_IMSC h}.
        last_write r (iolog dev') = last_write r (iolog dev))"

lemma hush_trans: "hush h a b \<Longrightarrow> hush h b c \<Longrightarrow> hush h a c"
  unfolding hush_def by (auto dest: same_fields_trans)

lemma hush_read: "hush h a b \<Longrightarrow> hush h a (b\<lparr>iolog := RD r v # iolog b\<rparr>)"
  by (simp add: hush_def same_fields_def)

lemma hush_tty: "hush h a b \<Longrightarrow> hush h a (b\<lparr>d_tty := t\<rparr>)"
  by (simp add: hush_def same_fields_def)

lemma hush_write:
  assumes "hush h a b" "r \<notin> {PL011_CR h, PL011_LCR_H h, PL011_IBRD h, PL011_FBRD h, PL011_IMSC h}"
  shows "hush h a (write_port b r v)"
  using assms by (auto simp: hush_def same_fields_def)

lemma hush_refl [simp]: "hush h a a"
  by (simp add: hush_def)

lemma hush_synced: "hush h a b \<Longrightarrow> uart_synced h a \<Longrightarrow> uart_synced h b"
  unfolding hush_def by (blast intro: uart_synced_access)

lemma hush_tx_char:
  assumes "regs_distinct h" "hush h a b"
  shows "hush h a (tx_char h io b)"
  unfolding tx_char_def Let_def
  by (intro hush_write hush_tty assms(2)) (simp add: regs_distinctD [OF assms(1)])

lemma hush_tx_loop:
  assumes "regs_distinct h" "hush h a dev"
  shows "hush h a (tx_loop n hw h io dev)"
  using assms(2)
proof (induction n arbitrary: dev rule: less_induct)
  case (less n)
  have r: "hush h a (dev\<lparr>iolog := RD (PL011_FR h) v # iolog dev\<rparr>)" for v by (rule hush_read [OF less.prems])
  note c = hush_tx_char [OF assms(1) r]
  show ?case
    by (subst tx_loop.simps) (auto simp: Let_def intro!: hush_tty c r less.IH)
qed

lemma hush_rx_char:
  assumes "regs_distinct h" "hush h a (fst ds)"
  shows "hush h a (fst (rx_char hw h io ds))"
  unfolding rx_char_def Let_def fst_conv
  by (intro hush_tty) (auto intro!: hush_write hush_read assms(2) simp: regs_distinctD [OF assms(1)])

lemma hush_rx_loop:
  assumes "regs_distinct h" "hush h a (fst ds)" "rx_loop n hw h io ds = Some ds'"
  shows "hush h a (fst ds')"
  using assms(2,3)
proof (induction n arbitrary: ds)
  case (Suc n)
  then show ?case
    by (auto simp: Let_def intro!: hush_read split: if_splits)
       (metis Suc.IH assms(1) fst_conv hush_read hush_rx_char)
qed simp

lemma tx_irq_update_synced:
  assumes "regs_distinct h" "uart_synced h dev"
  shows "uart_synced h (tx_irq_update h io dev)"
  using assms(2) by (simp add: tx_irq_update_def Let_def uart_synced_def regs_distinctD [OF assms(1)])

lemma uart_synced_tty [simp]: "uart_synced h (dev\<lparr>d_tty := t\<rparr>) = uart_synced h dev"
  by (simp add: uart_synced_def)

lemma tto_transmit_synced:
  assumes "regs_distinct h" "uart_synced h dev"
  shows "uart_synced h (fst (tto_transmit hw h io dev))"
  using tx_irq_update_synced [OF assms(1) hush_synced [OF hush_tx_loop [OF assms(1) hush_refl] assms(2)]] assms(2)
  by (simp add: tto_transmit_def Let_def)

text \<open>Claim C18. The interrupt routine keeps the driver's copies of the control, line, divisor and
  interrupt-mask registers equal to what the device holds.\<close>

theorem do_interrupt_synced:
  assumes regs: "regs_distinct h" and sync: "uart_synced h dev" and run: "do_interrupt n hw h io dev = Some (dev', st)"
  shows "uart_synced h dev'"
proof -
  let ?r = "read_port hw dev (PL011_MIS h)"
  let ?d1 = "write_port (fst ?r) (PL011_ICR h) (snd ?r)"
  have q1: "hush h dev ?d1"
    by (intro hush_write) (auto intro: hush_read simp: regs_distinctD [OF regs])
  obtain d2 s2 where d2: "(if snd ?r AND (PL011_MIS_RTMIS h OR PL011_MIS_RXMIS h) \<noteq> 0
      then rx_interrupt n hw h io ?d1 else Some (?d1, 0)) = Some (d2, s2)"
    using run unfolding do_interrupt_def Let_def by (auto split: option.splits simp del: read_port_simps)
  have "hush h dev d2"
  proof (cases "snd ?r AND (PL011_MIS_RTMIS h OR PL011_MIS_RXMIS h) = 0")
    case False
    then have "rx_loop n hw h io (?d1, 0) = Some (d2, s2)" using d2 by (simp add: rx_interrupt_def)
    from hush_rx_loop [OF regs _ this] q1 show ?thesis by simp
  qed (use d2 q1 in simp)
  then have s: "uart_synced h d2" by (rule hush_synced [OF _ sync])
  have "dev' = d2 \<or> (\<exists>s. tx_interrupt hw h io d2 = Some (dev', s))"
    using run d2 unfolding do_interrupt_def Let_def
    by (auto split: option.splits if_splits simp del: read_port_simps)
  then show ?thesis
  proof
    assume "\<exists>s. tx_interrupt hw h io d2 = Some (dev', s)"
    then have "dev' = fst (tto_transmit hw h io (d2\<lparr>d_tty := (d_tty d2)\<lparr>tx_tmr := 0\<rparr>\<rparr>))"
      by (auto simp: tx_interrupt_def tto_def)
    moreover have "uart_synced h (d2\<lparr>d_tty := (d_tty d2)\<lparr>tx_tmr := 0\<rparr>\<rparr>)" using s by simp
    ultimately show ?thesis by (simp only: tto_transmit_synced [OF regs])
  qed (use s in simp)
qed

section \<open>The baud rate\<close>

lemma unat_half_up: "unat (b :: u32) + 1 < 2 ^ 32 \<Longrightarrow> unat (drop_bit 1 (b + 1)) = (unat b + 1) div 2"
  by (simp add: drop_bit_eq_div unat_div unat_add_u32)

lemma nearest_64th:
  fixes b c i f r :: nat
  assumes "c = b * i + r" "b * f \<le> r * 64 + (b + 1) div 2" "r * 64 + (b + 1) div 2 < b * f + b"
  shows "\<bar>64 * int c - int b * (64 * int i + int f)\<bar> \<le> (int b + 1) div 2"
proof -
  have h: "(int b + 1) div 2 = int ((b + 1) div 2)" by simp
  have "64 * int c - int b * (64 * int i + int f) = int (r * 64) - int (b * f)"
    unfolding assms(1) by (simp add: algebra_simps)
  moreover have "int (b * f) \<le> int (r * 64) + int ((b + 1) div 2)" "int (r * 64) + int ((b + 1) div 2) < int (b * f) + int b"
    using assms(2,3) by linarith+
  ultimately show ?thesis unfolding h by linarith
qed

text \<open>Baud rate: the divisor that \<open>ser_stty\<close> computes, in 64ths, is the exact one
  rounded to the nearest: it differs from the clock divided by the rate by at most half a 64th. Its
  integer part is the exact quotient and the fraction is at most 64.\<close>

theorem baud_divisor_nearest:
  assumes "baud_divisor clk dv baud = Some (ibrd, fbrd)" "unat baud \<le> 66000000"
  shows "\<bar>64 * (int (unat clk) div int (unat dv)) - int (unat baud) * (64 * int (unat ibrd) + int (unat fbrd))\<bar>
           \<le> (int (unat baud) + 1) div 2 \<and>
         unat ibrd = unat clk div unat dv div unat baud \<and> unat fbrd \<le> 64"
proof -
  let ?c = "unat clk div unat dv" and ?b = "unat baud"
  let ?r = "?c mod ?b"
  have nz: "0 < ?b" "0 < unat dv" using assms(1) by (auto simp: baud_divisor_def word_gt0_nat [symmetric] word_neq_0_conv split: if_splits)
  have i: "unat ibrd = ?c div ?b" using assms(1) by (auto simp: baud_divisor_def Let_def unat_div split: if_splits)
  have r: "?r < ?b" using nz by simp
  have m: "unat ((clk div dv mod baud) * 64) = ?r * 64"
  proof -
    have x: "unat (clk div dv mod baud) = ?r" by (simp add: unat_mod unat_div)
    then have "unat (clk div dv mod baud) * unat (64 :: u32) < 2 ^ LENGTH(32)" using r assms(2) by simp
    from unat_mult_lem [THEN iffD1, OF this] show ?thesis by (simp add: x)
  qed
  have h: "unat (drop_bit 1 (baud + 1)) = (?b + 1) div 2" using assms(2) by (intro unat_half_up) simp
  have "?r * 64 + (?b + 1) div 2 < 2 ^ 32" using r assms(2) by simp
  then have s: "unat ((clk div dv mod baud) * 64 + drop_bit 1 (baud + 1)) = ?r * 64 + (?b + 1) div 2"
    using m h by (subst unat_add_u32) auto
  have f: "unat fbrd = (?r * 64 + (?b + 1) div 2) div ?b"
    using assms(1) s by (auto simp: baud_divisor_def Let_def unat_div split: if_splits)
  let ?f = "unat fbrd"
  have f1: "?b * ?f \<le> ?r * 64 + (?b + 1) div 2" unfolding f by simp
  have f2: "?r * 64 + (?b + 1) div 2 < ?b * ?f + ?b" unfolding f
    using nz(1) by (metis add.commute dividend_less_div_times mult.commute)
  have "?r * 64 + (?b + 1) div 2 < ?b * 65" using r nz by linarith
  then have "?b * ?f < ?b * 65" using f1 by linarith
  then have f64: "?f \<le> 64" by simp
  have "?c = ?b * unat ibrd + ?r" unfolding i by (rule mult_div_mod_eq [symmetric])
  from nearest_64th [OF this f1 f2]
  show ?thesis using i f64 by (simp only: zdiv_int simp_thms)
qed

section \<open>Acknowledging interrupts\<close>

lemma handler_requests:
  assumes "interrupt_event_handler n hw h io ss = Some ss'"
  shows "\<exists>ev. ss_reqs ss' = Interrupt_Unmask (d_intr (ss_dev ss')) (iid (ss_dev ss')) #
           (if msix_mapped ss then [Msix_Write (msix_set_reg ss) 4] else []) @ ev @ ss_reqs ss \<and> set ev \<subseteq> {Send_Event}"
proof -
  obtain d st where "do_interrupt n hw h io (ss_dev ss) = Some (d, st)"
    using assms by (auto simp: interrupt_event_handler_def split: option.splits)
  then show ?thesis using assms
    by (intro exI [of _ "if st \<noteq> 0 then [Send_Event] else []"])
       (auto simp: interrupt_event_handler_def Let_def sys_req_add_def variant_intr_unmask_def)
qed

lemma busy_wait_polls: "busy_wait n hw h dev = Some dev' \<Longrightarrow> polls h d dev \<Longrightarrow> polls h d dev'"
  by (induction n hw h dev rule: busy_wait.induct) (auto simp: Let_def split: if_splits dest: polls_read)

lemma attach_static:
  assumes "ser_attach_intr n hw h fdt map_ok pulse_ok attach ss = Some ss'"
  shows "msix_set_reg ss' = msix_reg_of (d_intr (ss_dev ss)) \<and>
         msix_mapped ss' = (if msix_reg_of (d_intr (ss_dev ss)) \<noteq> 0 then map_ok else msix_mapped ss)"
proof -
  obtain dev where dev: "(if d_loopback (ss_dev ss) = 0 then busy_wait n hw h (ss_dev ss) else Some (ss_dev ss)) = Some dev"
    using assms by (auto simp: ser_attach_intr_def split: option.splits)
  then have "polls h (ss_dev ss) dev" using busy_wait_polls [OF _ polls_refl] by (auto split: if_splits)
  then have "d_intr dev = d_intr (ss_dev ss)" by (auto simp: polls_def)
  then show ?thesis using assms dev
    by (auto simp: ser_attach_intr_def Let_def variant_intr_init_def sys_req_add_def split: if_splits)
qed

text \<open>The MSI-X acknowledge register is a static variable that all ports of the driver share:
  once another port has been attached, the interrupt handler of the first port acknowledges the
  other port's interrupt.\<close>

theorem handler_acks_last_attached:
  assumes "ser_attach_intr n hw h fdt True pulse_ok attach (proc_state p devB) = Some ssB"
    and "msix_reg_of (d_intr devB) \<noteq> 0"
    and "interrupt_event_handler m hwA h io (proc_state (proc_static ssB p) devA) = Some ss'"
  shows "\<exists>rest. ss_reqs ss' = Interrupt_Unmask (d_intr (ss_dev ss')) (iid (ss_dev ss')) #
           Msix_Write (msix_reg_of (d_intr devB)) 4 # rest"
  using handler_requests [OF assms(3)] attach_static [OF assms(1)] assms(2)
  by (auto simp: proc_state_def proc_static_def)

section \<open>The command line\<close>

text \<open>Both the scan and the loop over the ports leave a rest of the arguments.\<close>

lemma scan_suffix: "suffix (snd (getopt_scan opts cur args)) args"
proof (induction opts cur args rule: getopt_scan.induct)
  case (1 opts c cs args)
  show ?case
  proof (cases "opt_kind opts c")
    case None
    then show ?thesis using 1(1) by (simp add: Let_def)
  next
    case (Some b)
    show ?thesis
    proof (cases b)
      case True
      show ?thesis
      proof (cases "cs = []")
        case nil: True
        have "suffix (snd (getopt_scan opts [] rest)) rest" if "args = a # rest" for a rest
          using 1(3) [OF Some] True nil that by simp
        then show ?thesis using nil True Some by (cases args) (auto simp: Let_def intro: suffix_ConsI)
      qed (use True Some 1(2) in \<open>simp add: Let_def\<close>)
    next
      case False
      then show ?thesis using Some 1(4) by (simp add: Let_def)
    qed
  qed
qed (auto intro: suffix_ConsI)

lemma scan_progress:
  assumes "args \<noteq> []" "hd args \<noteq> ''-''"
  shows "length (snd (getopt_scan opts [] args)) < length args \<or>
         (snd (getopt_scan opts [] args) = args \<and> (hd args = [] \<or> hd (hd args) \<noteq> CHR ''-''))"
proof (cases args)
  case (Cons a rest)
  then show ?thesis using assms suffix_length_le [OF scan_suffix, of opts "tl a" rest] by auto
qed (use assms in simp)

lemma ports_suffix: "ports_loop e s args = Returned (s2, args2, err) \<Longrightarrow> suffix args2 args"
proof (induction args arbitrary: s)
  case (Cons a args)
  obtain d ok where pp: "parse_port a (devinit s) = (d, ok)" by (cases "parse_port a (devinit s)") auto
  show ?case
    using Cons by (cases "add_port e (s\<lparr>devinit := d\<rparr>)") (auto simp: pp Let_def split: if_splits intro: suffix_ConsI)
qed simp

lemma ports_progress:
  assumes "ports_loop e s args = Returned (s2, args2, False)" "args \<noteq> []" "hd args = [] \<or> hd (hd args) \<noteq> CHR ''-''"
  shows "length args2 < length args"
proof (cases args)
  case (Cons a rest)
  obtain d ok where pp: "parse_port a (devinit s) = (d, ok)" by (cases "parse_port a (devinit s)") auto
  obtain s1 where "ports_loop e s1 rest = Returned (s2, args2, False)"
    using assms Cons by (cases "add_port e (s\<lparr>devinit := d\<rparr>)") (auto simp: pp Let_def split: if_splits)
  then show ?thesis using suffix_length_le [OF ports_suffix] Cons by fastforce
qed (use assms in simp)

definition never_stuck :: "('q, 'f) ser_env \<Rightarrow> bool" where
  "never_stuck e \<longleftrightarrow> (\<forall>d p. create_device e d p \<noteq> Stuck)"

lemma bindo_not_stuck: "m \<noteq> Stuck \<Longrightarrow> (\<And>x. m = Returned x \<Longrightarrow> f x \<noteq> Stuck) \<Longrightarrow> bindo m f \<noteq> Stuck"
  by (cases m) auto

lemma add_port_not_stuck: "never_stuck e \<Longrightarrow> add_port e s \<noteq> Stuck"
  unfolding add_port_def never_stuck_def by (rule bindo_not_stuck) auto

lemma ports_not_stuck: "never_stuck e \<Longrightarrow> ports_loop e s args \<noteq> Stuck"
proof (induction args arbitrary: s)
  case (Cons a args)
  have "bindo (add_port e s1) (\<lambda>s2. ports_loop e s2 args) \<noteq> Stuck" for s1
    by (rule bindo_not_stuck) (simp_all add: Cons add_port_not_stuck)
  then show ?case by (simp add: case_prod_beta Let_def)
qed simp

lemma default_ports_not_stuck: "never_stuck e \<Longrightarrow> default_ports e s \<noteq> Stuck"
  by (simp add: default_ports_def query_default_device_def) (intro bindo_not_stuck add_port_not_stuck; assumption)

lemma options_loop_not_stuck:
  assumes "never_stuck e"
  shows "length args \<le> n \<Longrightarrow> ''-'' \<notin> set args \<Longrightarrow> options_loop n e s args \<noteq> Stuck"
proof (induction n arbitrary: s args)
  case (Suc n)
  show ?case
  proof (cases "args = []")
    case False
    obtain evs args1 where g: "getopt_scan (e_optstring e @ ''t:T:D'') [] args = (evs, args1)" by fastforce
    have suf: "suffix args1 args" using scan_suffix [of "e_optstring e @ ''t:T:D''" "[]" args] g by simp
    have pr: "length args1 < length args \<or> (args1 = args \<and> (hd args = [] \<or> hd (hd args) \<noteq> CHR ''-''))"
    proof -
      have "hd args \<noteq> ''-''" using hd_in_set [OF False] Suc.prems(2) by metis
      then show ?thesis using scan_progress [OF False, of "e_optstring e @ ''t:T:D''"] by (simp add: g)
    qed
    have more: "options_loop n e s2 args2 \<noteq> Stuck"
      if "ports_loop e s1 args1 = Returned (s2, args2, False)" for s1 s2 args2
    proof (rule Suc.IH)
      have "suffix args2 args1" by (rule ports_suffix [OF that])
      then have "length args2 < length args"
        using pr ports_progress [OF that] False by (auto dest!: suffix_length_le)
      then show "length args2 \<le> n" using Suc.prems(1) by simp
      show "''-'' \<notin> set args2" using Suc.prems(2) set_mono_suffix [OF suf] set_mono_suffix [OF ports_suffix [OF that]]
        by blast
    qed
    have "bindo (ports_loop e s1 args1) (\<lambda>(s2, args2, err). if err then Returned s2 else options_loop n e s2 args2) \<noteq> Stuck" for s1
      by (rule bindo_not_stuck) (use more ports_not_stuck [OF assms] in \<open>auto split: prod.splits\<close>)
    then show ?thesis using False by (simp add: g)
  qed simp
qed simp

text \<open>The command line is processed completely: as long as no argument is a single dash and
  creating a device does not hang, as many rounds as there are arguments are enough.\<close>

theorem ser_options_ends:
  assumes "never_stuck e" "''-'' \<notin> set args"
  shows "ser_options (length args) e args \<noteq> Stuck"
  unfolding ser_options_def
  by (intro bindo_not_stuck options_loop_not_stuck [OF assms(1) le_refl assms(2)]) (simp add: default_ports_not_stuck assms(1))

text \<open>An argument that is a single dash is neither an option nor a port: the driver loops
  forever on it, whatever came before.\<close>

theorem ser_options_dash_hangs:
  "ser_options n e (''-'' # args) = Stuck"
proof -
  have "options_loop n e s (''-'' # args) = Stuck" for s :: "'a opt_state"
    by (induction n arbitrary: s) auto
  then show ?thesis by (simp add: ser_options_def)
qed

end
