(* ===== verification/Pl011_Witness.thy ===== *)
theory Pl011_Witness
  imports Pl011_Serial
begin

text \<open>
  The theorems about the serial driver at concrete inputs: the register layout of the PL011, an
  io-char library whose output buffer is a list, and devices with small FIFOs. Also the divisors
  that do not fit the fraction register.
\<close>

definition h0 :: serial_h where
  "h0 = \<lparr>PL011_DR = 0x00, PL011_ECR = 0x04, PL011_FR = 0x18, PL011_IBRD = 0x24, PL011_FBRD = 0x28,
    PL011_LCR_H = 0x2c, PL011_CR = 0x30, PL011_IFLS = 0x34, PL011_IMSC = 0x38, PL011_MIS = 0x40,
    PL011_ICR = 0x44, PL011_DMACR = 0x48, PL011_TIMEOUT = 0x4c,
    PL011_DR_OE = 0x800, PL011_DR_BE = 0x400, PL011_DR_PE = 0x200, PL011_DR_FE = 0x100,
    PL011_FR_TXFE = 0x80, PL011_FR_TXFF = 0x20, PL011_FR_RXFE = 0x10, PL011_FR_BUSY = 0x08,
    PL011_FR_DCD = 0x04, PL011_FR_DSR = 0x02, PL011_FR_CTS = 0x01,
    PL011_LCR_H_BRK = 0x01, PL011_LCR_H_PEN = 0x02, PL011_LCR_H_EPS = 0x04, PL011_LCR_H_STP2 = 0x08,
    PL011_LCR_H_FEN = 0x10, PL011_LCR_H_WLEN5 = 0x00, PL011_LCR_H_WLEN6 = 0x20, PL011_LCR_H_WLEN7 = 0x40,
    PL011_LCR_H_WLEN8 = 0x60,
    PL011_CR_UARTEN = 0x01, PL011_CR_OVSFACT = 0x08, PL011_CR_LBE = 0x80, PL011_CR_TXE = 0x100,
    PL011_CR_RXE = 0x200, PL011_CR_DTR = 0x400, PL011_CR_RTSEn = 0x4000, PL011_CR_CTSEn = 0x8000,
    PL011_IMSC_RXIM = 0x10, PL011_IMSC_TXIM = 0x20, PL011_IMSC_RTIM = 0x40,
    PL011_MIS_RXMIS = 0x10, PL011_MIS_TXMIS = 0x20, PL011_MIS_RTMIS = 0x40, PL011_MIS_TXFES = 0x800,
    OHFLOW = 0x2, IHFLOW = 0x1, CSIZE = 0x30, CS5 = 0x00, CS6 = 0x10, CS7 = 0x20, CS8 = 0x30, CSTOPB = 0x40,
    PARENB = 0x100, PARODD = 0x200,
    SERCTL_BRK_CHG = 0x4, SERCTL_BRK = 0x40000, SERCTL_DTR_CHG = 0x1, SERCTL_DTR = 0x10000,
    LINESTATUS_SER_RTS = 0x1, LINESTATUS_SER_CTS = 0x10, LINESTATUS_SER_CD = 0x40,
    OHW_PAGED = 0x1, OSW_PAGED = 0x2, OSW_PAGED_OVERRIDE = 0x4, OBAND_DATA = 0x8, EDIT_INSERT = 0x10,
    LOSES_TX_INTR = 0x20, TTI_OVERRUN = 0x1000, TTI_BREAK = 0x2000, TTI_PARITY = 0x4000, TTI_FRAME = 0x8000,
    IO_CHAR_DEFAULT_BITSIZE = 10, NTO_INTR_SPARE = 0xffff\<rparr>"

lemma regs0: "regs_distinct h0"
  by (simp add: regs_distinct_def h0_def)

text \<open>The library's part of a terminal: the output buffer and the keys it has been handed.\<close>

type_synonym q0 = "u8 list \<times> u32 list"

definition io0 :: "q0 iochar" where
  "io0 = \<lparr>obuf_cnt = \<lambda>t. length (fst (t_io t)),
          tto_getchar = \<lambda>t. (t\<lparr>t_io := (tl (fst (t_io t)), snd (t_io t))\<rparr>, hd (fst (t_io t))),
          tti = \<lambda>t k. (t\<lparr>t_io := (fst (t_io t), snd (t_io t) @ [k])\<rparr>, 1),
          tto_checkclients = \<lambda>t. (t, 0), tick_cnt_150 = 150\<rparr>"

definition out0 :: "q0 tty \<Rightarrow> u8 list" where
  "out0 t = fst (t_io t)"

lemma raw0: "raw_output io0 out0"
  by (simp add: raw_output_def io0_def out0_def)

definition tty0 :: "q0 tty" where
  "tty0 = \<lparr>t_flags = 0, t_xflags = 0, c_cflag = 0x30, t_baud = 115200, oband_data = 0, tx_tmr = 0, t_isize = 2048,
           t_highwater = 1948, t_fifo = 0x12, t_io = ([65, 66, 67], [])\<rparr>"

definition dev0 :: "u32 \<Rightarrow> q0 dev_pl011" where
  "dev0 irq = \<lparr>iolog = [], d_tty = tty0, d_intr = irq, port_size = 2, iid = 5, fifosize = 32, d_clk = 44236800,
          d_div = 16, d_fifo = 0x12, d_baud = 0, d_lcr_h = 0, d_ibrd = 0, d_fbrd = 0, d_cr = 0, d_imr = 0,
          d_loopback = 0, d_prio = 24, is_debug_console = 0\<rparr>"

text \<open>A transmitter with room for two characters, which also has a transmit interrupt pending, and a
  receiver at which two characters arrive, the second with a framing error.\<close>

definition tx2 :: device where
  "tx2 l r = (if r = 0x18 then (if length (writes_of 0 l) < 2 then 0x10 else 0x30)
              else if r = 0x40 then 0x20 else 0)"

definition line0 :: "u32 list" where
  "line0 = [0x41, 0x142]"

definition rx2 :: device where
  "rx2 l r = (if r = 0x18 then (if length (reads_of 0 l) < 2 then 0 else 0x10)
              else if r = 0 then (if length (reads_of 0 l) < 2 then line0 ! length (reads_of 0 l) else 0)
              else if r = 0x40 then 0x10 else 0)"

lemma h0_regs: "PL011_DR h0 = 0" "PL011_FR h0 = 0x18" "PL011_FR_RXFE h0 = 0x10"
  by (simp_all add: h0_def)

lemma rx2_recv: "recv_dev h0 rx2 2 line0 (\<lambda>l. 2)"
  by (simp add: recv_dev_def h0_regs rx2_def port_width_def dr_count_def line0_def)

theorem tto_sends_output_witness:
  "raw_output io0 out0 \<and> regs_distinct h0 \<and> PL011_IMSC_TXIM h0 \<noteq> 0 \<and>
   tto tx2 h0 io0 (dev0 185) TTO_DATA 0x80 = Some (tto_transmit tx2 h0 io0 (dev0 185)) \<and>
   writes_of (PL011_DR h0) (iolog (fst (tto_transmit tx2 h0 io0 (dev0 185)))) = [65, 66] \<and>
   d_imr (fst (tto_transmit tx2 h0 io0 (dev0 185))) AND PL011_IMSC_TXIM h0 \<noteq> 0 \<and>
   (\<exists>k \<le> 1024. k \<le> length (out0 (d_tty (dev0 185))) \<and>
      writes_of (PL011_DR h0) (iolog (fst (tto_transmit tx2 h0 io0 (dev0 185)))) =
        map ucast (take k (out0 (d_tty (dev0 185)))))"
proof -
  let ?t = "tto_transmit tx2 h0 io0 (dev0 185)"
  have x: "PL011_IMSC_TXIM h0 \<noteq> 0" by (simp add: h0_def)
  have go: "t_flags (d_tty (dev0 185)) AND (OHW_PAGED h0 OR OSW_PAGED h0) = 0 \<or> paged_override h0 (dev0 185)"
    by (simp add: dev0_def tty0_def)
  have run: "tto tx2 h0 io0 (dev0 185) TTO_DATA 0x80 = Some (fst ?t, snd ?t)" by (simp add: tto_def)
  have w: "writes_of (PL011_DR h0) (iolog (fst ?t)) = [65, 66]" by code_simp
  have m: "d_imr (fst ?t) AND PL011_IMSC_TXIM h0 \<noteq> 0" by code_simp
  have "\<exists>k \<le> 1024. k \<le> length (out0 (d_tty (dev0 185))) \<and>
      writes_of (PL011_DR h0) (iolog (fst ?t)) =
        writes_of (PL011_DR h0) (iolog (dev0 185)) @ map ucast (take k (out0 (d_tty (dev0 185))))"
    using tto_sends_output [OF raw0 regs0 x go run] by blast
  then have "\<exists>k \<le> 1024. k \<le> length (out0 (d_tty (dev0 185))) \<and>
      writes_of (PL011_DR h0) (iolog (fst ?t)) = map ucast (take k (out0 (d_tty (dev0 185))))"
    by (simp add: dev0_def)
  then show ?thesis using raw0 regs0 x run w m by simp
qed


text \<open>The device after its settings have been programmed for the first time.\<close>

definition dev1 :: "u32 \<Rightarrow> q0 dev_pl011" where
  "dev1 irq = (case ser_stty tx2 h0 (dev0 irq) of Some d \<Rightarrow> d | None \<Rightarrow> dev0 irq)"

lemma stty0: "ser_stty tx2 h0 (dev0 185) = Some (dev1 185)"
proof -
  have "ser_stty tx2 h0 (dev0 185) \<noteq> None" by code_simp
  then show ?thesis by (auto simp: dev1_def)
qed


theorem do_interrupt_synced_witness:
  "regs_distinct h0 \<and> uart_synced h0 (dev1 185) \<and>
   (\<exists>dev' st. do_interrupt 3 tx2 h0 io0 (dev1 185) = Some (dev', st) \<and> uart_synced h0 dev')"
proof -
  have s: "uart_synced h0 (dev1 185)" by code_simp
  have "do_interrupt 3 tx2 h0 io0 (dev1 185) \<noteq> None" by code_simp
  then obtain dev' st where "do_interrupt 3 tx2 h0 io0 (dev1 185) = Some (dev', st)" by auto
  with do_interrupt_synced [OF regs0 s this] s regs0 show ?thesis by blast
qed

theorem baud_divisor_nearest_witness:
  "baud_divisor 44236800 16 115200 = Some (24, 0) \<and> unat (115200 :: u32) \<le> 66000000 \<and>
   unat (24 :: u32) = unat (44236800 :: u32) div unat (16 :: u32) div unat (115200 :: u32)"
proof -
  have "baud_divisor 44236800 16 115200 = Some (24, 0)" "unat (115200 :: u32) \<le> 66000000" by code_simp+
  then show ?thesis using baud_divisor_nearest [of 44236800 16 115200 24 0] by blast
qed

text \<open>The fraction register of the device has six bits, but the rounded fraction can be 64:
  with a clock of 50 MHz a rate of 1042000 gives the parts 2 and 64, although the exact divisor is
  just below 3. The device then divides by 2.\<close>

lemma baud_fraction_overflows:
  "baud_divisor 50000000 16 1042000 = Some (2, 64)"
  by code_simp

section \<open>Two ports in one driver\<close>

definition fdt0 :: "unit fdt_lib" where
  "fdt0 = \<lparr>fdt_walk = (1, None), fdt_path_offset = \<lambda>_ _. 0, fdt_getprop = \<lambda>_ _ _. None,
           fdt_path_offset_namelen = \<lambda>_ _ _. 0, fdt_get_property = \<lambda>_ _ _. None\<rparr>"

definition proc0 :: "q0 ser_proc" where
  "proc0 = \<lparr>sp_devs = [], sp_msix_mapped = True, sp_msix_set_reg = 0x86c, sp_reqs = []\<rparr>"

definition attached1 :: "q0 ser_state" where
  "attached1 = (case ser_attach_intr 1 tx2 h0 fdt0 True True (\<lambda>i. 7) (proc_state proc0 (dev0 202)) of
     Some ss \<Rightarrow> ss | None \<Rightarrow> proc_state proc0 (dev0 202))"

theorem handler_acks_last_attached_witness:
  "ser_attach_intr 1 tx2 h0 fdt0 True True (\<lambda>i. 7) (proc_state proc0 (dev0 202)) = Some attached1 \<and>
   msix_reg_of (d_intr (dev1 185)) = 0x86c \<and>
   (\<exists>ss' rest. interrupt_event_handler 3 tx2 h0 io0 (proc_state (proc_static attached1 proc0) (dev1 185)) = Some ss' \<and>
      ss_reqs ss' = Interrupt_Unmask (d_intr (ss_dev ss')) (iid (ss_dev ss')) # Msix_Write 0x8b0 4 # rest)"
proof -
  have "ser_attach_intr 1 tx2 h0 fdt0 True True (\<lambda>i. 7) (proc_state proc0 (dev0 202)) \<noteq> None" by code_simp
  then have a: "ser_attach_intr 1 tx2 h0 fdt0 True True (\<lambda>i. 7) (proc_state proc0 (dev0 202)) = Some attached1"
    by (auto simp: attached1_def)
  have "interrupt_event_handler 3 tx2 h0 io0 (proc_state (proc_static attached1 proc0) (dev1 185)) \<noteq> None" by code_simp
  then obtain ss' where s: "interrupt_event_handler 3 tx2 h0 io0 (proc_state (proc_static attached1 proc0) (dev1 185)) = Some ss'"
    by blast
  have m: "msix_reg_of (d_intr (dev0 202)) = 0x8b0" "msix_reg_of (d_intr (dev1 185)) = 0x86c" by code_simp+
  then have nz: "msix_reg_of (d_intr (dev0 202)) \<noteq> 0" by simp
  show ?thesis using handler_acks_last_attached [OF a nz s] a s m by auto
qed

section \<open>A command line\<close>

definition env0 :: "(q0, unit) ser_env" where
  "env0 = \<lparr>e_h = h0, e_hw = \<lambda>_ _ _. 0, e_fdt = fdt0, e_malloc_dev = True, e_malloc = \<lambda>_. True,
           e_map_port = \<lambda>_. True, e_map_msix = True, e_pulse_ok = True, e_attach = \<lambda>i. int (unat i),
           e_new_io = \<lambda>_. ([], []), e_ttc_init = \<lambda>t. t, e_ttc_attach = \<lambda>t. t, e_ttc_raw = \<lambda>d. d,
           e_ttc_option = \<lambda>_ _ d. d, e_optstring = ''b:'', e_patience = 1\<rparr>"

lemma env0_never_stuck: "never_stuck env0"
proof -
  have "busy_wait 1 (\<lambda>_ _. 0) h dev \<noteq> None" for h and dev :: "q0 dev_pl011"
    by (simp add: Let_def read_port_value)
  then have "ser_attach_intr 1 (\<lambda>_ _. 0) h fdt m p a ss \<noteq> None" for h fdt m p a and ss :: "q0 ser_state"
    by (auto simp: ser_attach_intr_def Let_def read_port_value split: option.splits)
  then show ?thesis
    by (auto simp: never_stuck_def create_device_def env0_def Let_def of_wait_def bindo_def
             split: option.splits outcome.splits)
qed

theorem ser_options_ends_witness:
  "never_stuck env0 \<and> ''-'' \<notin> set [''-t'', ''4'', ''1c030000^2,185''] \<and>
   ser_options 3 env0 [''-t'', ''4'', ''1c030000^2,185''] \<noteq> Stuck"
  using env0_never_stuck ser_options_ends [OF env0_never_stuck, of "[''-t'', ''4'', ''1c030000^2,185'']"]
  by (simp add: numeral_3_eq_3)

end
