(* ===== verification/Util.thy ===== *)
theory Util
  imports Prelude
begin

text \<open>
  The startup library's own versions of C library functions and its conversions, \<open>startup/lib\<close>:
  \<open>memcpy.c\<close>, \<open>memmove.c\<close>, \<open>strtoul.c\<close>, \<open>getsize.c\<close>, \<open>ultoa_end.c\<close>, \<open>calc_cksum.c\<close>, \<open>bcd2bin.c\<close>,
  \<open>calc_time_t.c\<close>, \<open>gmtime.c\<close>, \<open>invert_timer_freq.c\<close>, \<open>timer_tick2ns.c\<close> and \<open>timer_ns2tick.c\<close>.
  Memory is a function from addresses to bytes; strings are lists without the terminating zero.
\<close>

type_synonym bytes = "u64 \<Rightarrow> u8"

section \<open>Copying memory\<close>

text \<open>A 32-bit load and the store of its value, and \<open>k\<close> of them with both pointers advancing.\<close>

definition copy_word :: "bytes \<Rightarrow> u64 \<Rightarrow> u64 \<Rightarrow> bytes" where
  "copy_word m d s =
     m(d := m s, d + 1 := m (s + 1), d + 2 := m (s + 2), d + 3 := m (s + 3))"

fun copy_words :: "nat \<Rightarrow> bytes \<times> u64 \<times> u64 \<Rightarrow> bytes \<times> u64 \<times> u64" where
  "copy_words 0 x = x"
| "copy_words (Suc k) x = (case x of (m, d, s) \<Rightarrow> copy_words k (copy_word m d s, d + 4, s + 4))"

text \<open>The unrolled loop: it is entered so that the first pass copies the odd words, and each of the
  remaining passes copies sixteen.\<close>

fun duff_passes :: "nat \<Rightarrow> bytes \<times> u64 \<times> u64 \<Rightarrow> bytes \<times> u64 \<times> u64" where
  "duff_passes 0 x = x"
| "duff_passes (Suc n) x = duff_passes n (copy_words 16 x)"

definition duff_copy :: "u64 \<Rightarrow> bytes \<times> u64 \<times> u64 \<Rightarrow> bytes \<times> u64 \<times> u64" where
  "duff_copy nwords x =
     (let n = ucast ((nwords + 15) div 16) :: u32;
          r = unat (nwords mod 16)
      in duff_passes (unat (n - 1)) (copy_words (if r = 0 then 16 else r) x))"

fun copy_bytes :: "nat \<Rightarrow> bytes \<times> u64 \<times> u64 \<Rightarrow> bytes" where
  "copy_bytes 0 x = fst x"
| "copy_bytes (Suc k) x = (case x of (m, d, s) \<Rightarrow> copy_bytes k (m(d := m s), d + 1, s + 1))"

definition memcpy :: "bytes \<Rightarrow> u64 \<Rightarrow> u64 \<Rightarrow> u64 \<Rightarrow> bytes" where
  "memcpy m dst src nbytes =
     (if nbytes \<ge> 4 \<and> src AND 3 = 0 \<and> dst AND 3 = 0
      then copy_bytes (unat (nbytes AND 3)) (duff_copy (drop_bit 2 nbytes) (m, dst, src))
      else copy_bytes (unat nbytes) (m, dst, src))"

text \<open>The backward loop of \<open>memmove\<close>.\<close>

fun copy_back :: "nat \<Rightarrow> u64 \<Rightarrow> u64 \<Rightarrow> bytes \<Rightarrow> bytes" where
  "copy_back 0 d s m = m"
| "copy_back (Suc k) d s m = copy_back k d s (m(d + of_nat k := m (s + of_nat k)))"

definition memmove :: "bytes \<Rightarrow> u64 \<Rightarrow> u64 \<Rightarrow> u64 \<Rightarrow> bytes" where
  "memmove m d s len =
     (if s < d \<and> s + len > d then copy_back (unat len) d s m else memcpy m d s len)"

section \<open>Numbers and strings\<close>

definition radix_value :: "char \<Rightarrow> nat" where
  "radix_value c =
     (let n = of_char c :: nat
      in if 48 \<le> n \<and> n \<le> 57 then n - 48
         else if 97 \<le> n \<and> n \<le> 102 then n - 97 + 10
         else if 65 \<le> n \<and> n \<le> 70 then n - 65 + 10
         else 37)"

definition hexstr :: "string \<Rightarrow> bool" where
  "hexstr p \<longleftrightarrow> (\<exists>x \<in> {CHR ''x'', CHR ''X''}. take 2 p = [CHR ''0'', x])"

fun radix_digits :: "nat \<Rightarrow> u64 \<Rightarrow> string \<Rightarrow> u64 \<times> string" where
  "radix_digits base v [] = (v, [])"
| "radix_digits base v (c # p) =
     (if radix_value c \<ge> base then (v, c # p)
      else radix_digits base (v * of_nat base + of_nat (radix_value c)) p)"

definition strtopaddr :: "string \<Rightarrow> nat \<Rightarrow> u64 \<times> string" where
  "strtopaddr nptr base0 =
     (let base = (if base0 = 0 then (if hexstr nptr then 16 else if take 1 nptr = [CHR ''0''] then 8 else 10) else base0);
          startp = (if base = 16 \<and> hexstr nptr then drop 2 nptr else nptr);
          (v, p) = radix_digits base 0 startp
      in (v, if p = startp then nptr else p))"

definition getsize :: "string \<Rightarrow> u64 \<times> string" where
  "getsize str0 =
     (let (v, str) = strtopaddr str0 0
      in case str of
           c # rest \<Rightarrow>
             if c \<in> {CHR ''G'', CHR ''g''} then (v * 1024 * 1024 * 1024, rest)
             else if c \<in> {CHR ''M'', CHR ''m''} then (v * 1024 * 1024, rest)
             else if c \<in> {CHR ''K'', CHR ''k''} then (v * 1024, rest)
             else (v, str)
         | [] \<Rightarrow> (v, str))"

definition digit_char :: "nat \<Rightarrow> char" where
  "digit_char d = ''0123456789abcdef'' ! d"

text \<open>The digits of \<open>v\<close>; the bound is the width of \<open>v\<close>, which binary digits need.\<close>

fun ultoa_digits :: "nat \<Rightarrow> u64 \<Rightarrow> u64 \<Rightarrow> string \<Rightarrow> string" where
  "ultoa_digits 0 v radix p = p"
| "ultoa_digits (Suc n) v radix p =
     (let p1 = digit_char (unat (v mod radix)) # p
      in if v div radix = 0 then p1 else ultoa_digits n (v div radix) radix p1)"

text \<open>\<open>ultoa_end\<close>: \<open>None\<close> for a radix without digits, and when the digits do not fit the buffer of 33
  bytes with the terminating zero.\<close>

definition ultoa_end :: "u64 \<Rightarrow> u64 \<Rightarrow> string option" where
  "ultoa_end v radix =
     (if radix < 2 \<or> radix > 16 then None
      else let p = ultoa_digits 64 v radix [] in if length p > 32 then None else Some p)"

definition calc_cksum :: "u8 list \<Rightarrow> u32" where
  "calc_cksum bs = fold (\<lambda>b sum. sum + ucast b) bs 0 AND 0xFF"

definition bcd2bin :: "u32 \<Rightarrow> u32" where
  "bcd2bin a =
     drop_bit 12 (a AND 0xf000) * 1000 + drop_bit 8 (a AND 0xf00) * 100 + drop_bit 4 (a AND 0xf0) * 10 + (a AND 0xf)"

section \<open>Calendar time\<close>

record tm =
  tm_sec :: int
  tm_min :: int
  tm_hour :: int
  tm_mday :: int
  tm_mon :: int
  tm_year :: int
  tm_wday :: int
  tm_yday :: int

definition SEC_PER_DAY :: u64 where
  "SEC_PER_DAY = 86400"

definition month_sec :: "u64 list" where
  "month_sec = [0, 2678400, 5097600, 7776000, 10368000, 13046400, 15638400, 18316800, 20995200, 23587200, 26265600, 28857600]"

definition calc_time_t :: "tm \<Rightarrow> u64 fallible" where
  "calc_time_t tm =
     (let year = of_int (tm_year tm - 70) :: u32;
          sec0 = (ucast year * 365 + ucast (drop_bit 2 (year + 1))) * SEC_PER_DAY
      in if 0 \<le> tm_mon tm \<and> tm_mon tm < 12
         then let sec1 = sec0 + month_sec ! nat (tm_mon tm);
                  y = of_int (tm_year tm + 1900) :: u32;
                  sec2 = (if tm_mon tm \<ge> 2 \<and> y mod 4 = 0 \<and> (y mod 100 \<noteq> 0 \<or> y mod 400 = 0) then sec1 + SEC_PER_DAY else sec1);
                  sec3 = sec2 + of_int (tm_mday tm - 1) * SEC_PER_DAY;
                  sec4 = sec3 + of_int (tm_hour tm) * 3600;
                  sec5 = sec4 + of_int (tm_min tm) * 60
              in Inr (sec5 + of_int (tm_sec tm))
         else Inl ''Month returned by RTC is out of bounds'')"

definition year_days :: "nat \<Rightarrow> nat" where
  "year_days year = 365 + (if (year + 2) mod 4 = 0 then 1 else 0)"

definition mdays :: "bool \<Rightarrow> nat list" where
  "mdays leap = [31, if leap then 29 else 28, 31, 30, 31, 30, 31, 31, 30, 31, 30, 31]"

text \<open>The loops over the years and the months: what is left of the days is below the last one's.\<close>

function year_loop :: "nat \<Rightarrow> nat \<Rightarrow> nat \<times> nat" where
  "year_loop year days =
     (if year_days year > days then (year, days) else year_loop (Suc year) (days - year_days year))"
  by pat_completeness auto
termination by (relation "measure snd") (auto simp: year_days_def)

declare year_loop.simps [simp del]

fun mon_loop :: "nat list \<Rightarrow> nat \<Rightarrow> nat \<Rightarrow> nat \<times> nat" where
  "mon_loop [] mon days = (mon, days)"
| "mon_loop (t # ts) mon days = (if t > days then (mon, days) else mon_loop ts (Suc mon) (days - t))"

text \<open>\<open>_gmtime\<close> for a time that is not negative.\<close>

definition gmtime :: "nat \<Rightarrow> tm" where
  "gmtime timer =
     (let days0 = timer div 86400;
          secs = timer mod 86400;
          (year, yday) = year_loop 0 days0;
          (mon, days) = mon_loop (mdays ((year + 2) mod 4 = 0)) 0 yday
      in \<lparr>tm_sec = int (secs mod 60), tm_min = int ((secs div 60) mod 60), tm_hour = int (secs div 60 div 60),
          tm_mday = int (days + 1), tm_mon = int mon, tm_year = int (year + 70),
          tm_wday = int ((days0 + 4) mod 7), tm_yday = int yday\<rparr>)"

section \<open>Timer frequencies\<close>

definition UINT_MAX :: u32 where
  "UINT_MAX = 0xFFFFFFFF"

text \<open>The long division of \<open>invert_timer_freq\<close>: the period and the decimal scale. The bound on the
  rounds is the first argument; \<open>None\<close> if it is reached.\<close>

fun invert_loop :: "nat \<Rightarrow> u32 \<Rightarrow> u32 \<Rightarrow> u32 \<Rightarrow> int \<Rightarrow> (u32 \<times> int) option" where
  "invert_loop 0 freq quot period scale = None"
| "invert_loop (Suc n) freq quot period scale =
     (let p = period * 10 + quot div freq
      in if p \<ge> UINT_MAX div 10 - 10 then Some (p, scale)
         else if quot mod freq = 0 then Some (p, scale)
         else invert_loop n freq (quot mod freq * 10) p (scale - 1))"

definition invert_timer_freq :: "nat \<Rightarrow> u32 \<Rightarrow> (u32 \<times> int) option fallible" where
  "invert_timer_freq n freq =
     (if freq = 0 then Inl ''Timer frequency is zero''
      else if freq > UINT_MAX div 10 then Inr (invert_loop n (freq div 10) 1 0 (- 1))
      else Inr (invert_loop n freq 1 0 0))"

text \<open>Ticks to nanoseconds: \<open>None\<close> stands for a division by zero.\<close>

fun tick_scale_down :: "nat \<Rightarrow> u64 \<Rightarrow> u64 \<Rightarrow> u64 \<Rightarrow> u64 option" where
  "tick_scale_down pw period ticks ns =
     (if ns = 0 \<and> period = 0 then None
      else let ns1 = (if ns = 0 then (if (period * ticks) div period \<noteq> ticks then 0 else period * ticks) else ns)
           in if pw = 0 then Some ns1 else tick_scale_down (pw - 1) (period div 10) ticks (ns1 div 10))"

declare tick_scale_down.simps [simp del]

definition timer_tick2ns :: "u32 \<Rightarrow> int \<Rightarrow> u64 \<Rightarrow> u64 option" where
  "timer_tick2ns timer_period timer_scale ticks =
     (let pw = - 9 - timer_scale
      in case tick_scale_down (nat pw) (ucast timer_period) ticks 0 of
           None \<Rightarrow> None
         | Some ns \<Rightarrow> Some (if pw < 0 then ns * 10 ^ nat (- pw) else ns))"

definition timer_ns2tick :: "u32 \<Rightarrow> int \<Rightarrow> u64 \<Rightarrow> u64 option" where
  "timer_ns2tick timer_period timer_scale ns =
     (case timer_tick2ns timer_period timer_scale 1 of
        None \<Rightarrow> None
      | Some t \<Rightarrow> Some (if t \<noteq> 0 then ns div t else 0xFFFFFFFF))"

end
