(* ===== verification/Util_Proofs.thy ===== *)
theory Util_Proofs
  imports Util
begin

text \<open>
  Correctness of the startup library's conversions: \<open>memmove\<close> and the unrolled \<open>memcpy\<close> against a
  simultaneous move, printing and reading numbers, calendar time, and the period of a timer.
\<close>

section \<open>Copying memory\<close>

text \<open>The reference: all bytes move at once.\<close>

definition moved :: "bytes \<Rightarrow> u64 \<Rightarrow> u64 \<Rightarrow> nat \<Rightarrow> bytes" where
  "moved m d s k = (\<lambda>a. if unat (a - d) < k then m (s + (a - d)) else m a)"

lemma moved_0 [simp]: "moved m d s 0 = m"
  by (simp add: moved_def)

lemma copy_word_moved: "copy_word m d s = moved m d s 4"
proof
  fix a
  have "unat (a - d) < 4 \<longleftrightarrow> unat (a - d) \<in> {0, 1, 2, 3}" by auto
  also have "\<dots> \<longleftrightarrow> a - d \<in> {0, 1, 2, 3}"
    by (simp add: word_unat_eq_iff)
  also have "\<dots> \<longleftrightarrow> a \<in> {d, d + 1, d + 2, d + 3}" by (auto simp: diff_eq_eq)
  finally show "copy_word m d s a = moved m d s 4 a"
    by (auto simp: copy_word_def moved_def)
qed

lemma byte_moved: "m(d := m s) = moved m d s 1"
  by (auto simp: moved_def fun_eq_iff unat_eq_zero)

text \<open>Moves in sequence are one move if no byte is overwritten before it is read.\<close>

definition unread :: "u64 \<Rightarrow> u64 \<Rightarrow> nat \<Rightarrow> bool" where
  "unread d s n \<longleftrightarrow> (\<forall>k j. k \<le> j \<longrightarrow> j < n \<longrightarrow> k \<le> unat (s + of_nat j - d))"

lemma unat_of_nat_u64: "y < 2 ^ 64 \<Longrightarrow> unat (of_nat y :: u64) = y"
  by (simp add: unat_of_nat)

text \<open>The distance from a later start of the target range.\<close>

lemma unat_offset_ge: "k \<le> unat (e :: u64) \<Longrightarrow> unat (e - of_nat k) = unat e - k"
proof -
  assume le: "k \<le> unat e"
  have "unat (of_nat k :: u64) = k" by (rule unat_of_nat_u64) (rule le_less_trans [OF le unat_u64_bound(1)])
  then show ?thesis using le by (simp add: unat_sub_nat)
qed

lemma unat_offset_lt:
  assumes "unat (e :: u64) < k" "k + c < 2 ^ 64"
  shows "c \<le> unat (e - of_nat k)"
proof -
  have k: "unat (of_nat k :: u64) = k" using assms(2) by (simp add: unat_of_nat_u64)
  have "\<not> (of_nat k \<le> e)" using assms(1) by (simp add: word_le_nat_alt k)
  then have "unat (e - of_nat k) = 2 ^ 64 + unat e - k"
    using unat_sub_if_size [of e "of_nat k"] assms(1) by (simp add: word_size k)
  then show ?thesis using assms(2) by simp
qed

lemma moved_moved:
  assumes "unread d s n" "k + c \<le> n" "n < 2 ^ 64"
  shows "moved (moved m d s k) (d + of_nat k) (s + of_nat k) c = moved m d s (k + c)"
proof
  fix a
  let ?e = "a - d"
  have ak: "a - (d + of_nat k) = ?e - of_nat k" by (simp add: algebra_simps)
  have src: "s + of_nat k + (?e - of_nat k) = s + ?e" by simp
  show "moved (moved m d s k) (d + of_nat k) (s + of_nat k) c a = moved m d s (k + c) a"
  proof (cases "k \<le> unat ?e")
    case True
    have eq: "unat (?e - of_nat k) < c \<longleftrightarrow> unat ?e < k + c" using unat_offset_ge [OF True] True by auto
    have keep: "\<not> unat (s + ?e - d) < k" if "unat ?e < k + c"
    proof -
      have "k \<le> unat (s + of_nat (unat ?e) - d)" using assms(1,2) True that unfolding unread_def by (meson less_le_trans)
      then show ?thesis by simp
    qed
    show ?thesis unfolding moved_def ak src eq using keep True by simp
  next
    case False
    then have "c \<le> unat (?e - of_nat k)" using assms(2,3) by (intro unat_offset_lt) auto
    then show ?thesis unfolding moved_def ak using False by simp
  qed
qed

lemma copy_words_moved:
  assumes "unread d s n" "n < 2 ^ 64" "k + 4 * c \<le> n"
  shows "copy_words c (moved m d s k, d + of_nat k, s + of_nat k) =
         (moved m d s (k + 4 * c), d + of_nat (k + 4 * c), s + of_nat (k + 4 * c))"
  using assms(3)
proof (induction c arbitrary: k)
  case (Suc c)
  have "copy_words c (moved m d s (k + 4), d + of_nat (k + 4), s + of_nat (k + 4)) =
         (moved m d s (k + 4 + 4 * c), d + of_nat (k + 4 + 4 * c), s + of_nat (k + 4 + 4 * c))"
    using Suc by (intro Suc.IH) simp
  moreover have "copy_word (moved m d s k) (d + of_nat k) (s + of_nat k) = moved m d s (k + 4)"
    unfolding copy_word_moved using Suc.prems by (intro moved_moved [OF assms(1) _ assms(2)]) simp
  ultimately show ?case by (simp add: algebra_simps)
qed simp

lemma copy_bytes_moved:
  assumes "unread d s n" "n < 2 ^ 64" "k + c \<le> n"
  shows "copy_bytes c (moved m d s k, d + of_nat k, s + of_nat k) = moved m d s (k + c)"
  using assms(3)
proof (induction c arbitrary: k)
  case (Suc c)
  have "copy_bytes c (moved m d s (k + 1), d + of_nat (k + 1), s + of_nat (k + 1)) = moved m d s (k + 1 + c)"
    using Suc by (intro Suc.IH) simp
  moreover have "(moved m d s k)(d + of_nat k := moved m d s k (s + of_nat k)) = moved m d s (k + 1)"
    unfolding byte_moved using Suc.prems by (intro moved_moved [OF assms(1) _ assms(2)]) simp
  ultimately show ?case by (simp add: algebra_simps)
qed simp

lemma duff_passes_moved:
  assumes "unread d s n" "n < 2 ^ 64" "k + 64 * c \<le> n"
  shows "duff_passes c (moved m d s k, d + of_nat k, s + of_nat k) =
         (moved m d s (k + 64 * c), d + of_nat (k + 64 * c), s + of_nat (k + 64 * c))"
  using assms(3)
proof (induction c arbitrary: k)
  case (Suc c)
  have "copy_words 16 (moved m d s k, d + of_nat k, s + of_nat k) =
      (moved m d s (k + 64), d + of_nat (k + 64), s + of_nat (k + 64))"
    using copy_words_moved [OF assms(1,2), of k 16 m] Suc.prems by simp
  moreover have "duff_passes c (moved m d s (k + 64), d + of_nat (k + 64), s + of_nat (k + 64)) =
      (moved m d s (k + 64 + 64 * c), d + of_nat (k + 64 + 64 * c), s + of_nat (k + 64 + 64 * c))"
    using Suc by (intro Suc.IH) simp
  ultimately show ?case by (simp add: algebra_simps)
qed simp

text \<open>The number of words the unrolled loop copies.\<close>

lemma duff_count:
  fixes w :: nat
  assumes "0 < w"
  shows "(if w mod 16 = 0 then 16 else w mod 16) + 16 * ((w + 15) div 16 - 1) = w"
proof -
  define q r where "q = w div 16" and "r = w mod 16"
  have w: "w = 16 * q + r" "r < 16" by (simp_all add: q_def r_def)
  have d: "(w + 15) div 16 = q + (r + 15) div 16" unfolding w(1) by simp
  show ?thesis
  proof (cases "r = 0")
    case True
    then have "(w + 15) div 16 = q" "0 < q" using d w(1) assms by simp_all
    then show ?thesis using True w(1) by (simp add: r_def [symmetric])
  next
    case False
    then have "(r + 15) div 16 = 1" using w(2) by (intro div_nat_eqI) auto
    then have "(w + 15) div 16 - 1 = q" using d by simp
    then show ?thesis unfolding r_def [symmetric] using False w(1) by simp
  qed
qed

lemma duff_copy_moved:
  assumes "unread d s n" "n < 2 ^ 64" "4 * unat w \<le> n" "0 < unat w" "unat w < 2 ^ 34"
  shows "duff_copy w (m, d, s) = (moved m d s (4 * unat w), d + of_nat (4 * unat w), s + of_nat (4 * unat w))"
proof -
  let ?r = "if unat (w mod 16) = 0 then 16 else unat (w mod 16)"
  let ?p = "(unat w + 15) div 16"
  have r: "unat (w mod 16) = unat w mod 16" by (simp add: unat_mod)
  have p: "unat ((w + 15) div 16) = ?p" using assms(5) by (simp add: unat_div unat_add_u64)
  have "0 < ?p" "?p < 2 ^ 32" using assms(4,5) by (simp_all add: div_greater_zero_iff less_mult_imp_div_less)
  then have n: "unat (ucast ((w + 15) div 16) - 1 :: u32) = ?p - 1"
    using p by (simp add: unat_sub_nat unsigned_ucast_eq take_bit_nat_eq_self)
  have tot: "4 * ?r + 64 * (?p - 1) = 4 * unat w" using duff_count [OF assms(4)] unfolding r by (simp split: if_splits)
  have "copy_words ?r (m, d, s) = (moved m d s (4 * ?r), d + of_nat (4 * ?r), s + of_nat (4 * ?r))"
    using copy_words_moved [OF assms(1,2), of 0 ?r m] tot assms(3) by simp
  moreover have "duff_passes (?p - 1) (moved m d s (4 * ?r), d + of_nat (4 * ?r), s + of_nat (4 * ?r)) =
      (moved m d s (4 * unat w), d + of_nat (4 * unat w), s + of_nat (4 * unat w))"
    using duff_passes_moved [OF assms(1,2), of "4 * ?r" "?p - 1" m] assms(3) unfolding tot by blast
  ultimately show ?thesis unfolding duff_copy_def Let_def n by (simp only:)
qed

text \<open>Forward copying reads every byte before it is overwritten, unless the target starts inside the
  source.\<close>

lemma unread_forward:
  assumes "unat s + n < 2 ^ 64" "unat d + n < 2 ^ 64" "d \<le> s \<or> unat s + n \<le> unat d"
  shows "unread d s n"
  unfolding unread_def
proof (intro allI impI)
  fix k j assume kj: "k \<le> j" "j < n"
  have j: "unat (of_nat j :: u64) = j" using kj assms(1) by (intro unat_of_nat_u64) simp
  have sj: "unat (s + of_nat j) = unat s + j" using kj assms(1) j by (subst unat_add_u64) simp_all
  show "k \<le> unat (s + of_nat j - d)"
  proof (cases "d \<le> s")
    case True
    then have "unat d \<le> unat (s + of_nat j)" using sj by (simp add: word_le_nat_alt)
    then have "unat (s + of_nat j - d) = unat s + j - unat d" using sj by (simp add: unat_sub_nat)
    then show ?thesis using True kj(1) by (simp add: word_le_nat_alt)
  next
    case False
    then have "unat s + n \<le> unat d" using assms(3) by simp
    then have "unat (s + of_nat j) < unat d" using sj kj by simp
    then have "k \<le> unat (s + of_nat j - of_nat (unat d))"
      using kj assms(2) by (intro unat_offset_lt) simp_all
    then show ?thesis by simp
  qed
qed

lemma low_bits_3: "unat (x AND 3 :: u64) = unat x mod 4"
proof -
  have "x AND 3 = take_bit 2 x" by (simp add: take_bit_eq_mask mask_eq_exp_minus_1)
  then show ?thesis by (simp add: take_bit_eq_mod unat_mod)
qed

lemma memcpy_moved:
  assumes "unread d s (unat n)" "unat n < 2 ^ 36"
  shows "memcpy m d s n = moved m d s (unat n)"
proof (cases "n \<ge> 4 \<and> s AND 3 = 0 \<and> d AND 3 = 0")
  case True
  let ?w = "drop_bit 2 n"
  have w: "unat ?w = unat n div 4" by (simp add: drop_bit_eq_div unat_div)
  have n4: "4 \<le> unat n" using True by (simp add: word_le_nat_alt)
  have le: "4 * unat ?w \<le> unat n" "0 < unat ?w" "unat ?w < 2 ^ 34"
    using n4 assms(2) by (simp_all add: w div_greater_zero_iff less_mult_imp_div_less)
  have "duff_copy ?w (m, d, s) = (moved m d s (4 * unat ?w), d + of_nat (4 * unat ?w), s + of_nat (4 * unat ?w))"
    by (rule duff_copy_moved [OF assms(1) unat_u64_bound(1) le])
  moreover have "4 * unat ?w + unat n mod 4 = unat n" by (simp add: w)
  ultimately show ?thesis
    using True copy_bytes_moved [OF assms(1) unat_u64_bound(1), of "4 * unat ?w" "unat n mod 4" m]
    unfolding memcpy_def by (simp only: if_True low_bits_3 le_refl simp_thms)
next
  case False
  then show ?thesis
    using copy_bytes_moved [OF assms(1) unat_u64_bound(1), of 0 "unat n" m] unfolding memcpy_def by auto
qed

lemma copy_back_moved:
  assumes "unat s < unat d" "unat d + n < 2 ^ 64"
  shows "copy_back n d s m = moved m d s n"
  using assms(2)
proof (induction n arbitrary: m)
  case (Suc n)
  let ?m = "m(d + of_nat n := m (s + of_nat n))"
  have n: "unat (of_nat n :: u64) = n" using Suc.prems by (intro unat_of_nat_u64) simp
  show ?case
  proof
    fix a
    have eq: "unat (a - d) = n \<longleftrightarrow> a = d + of_nat n"
      using n by (metis add_diff_cancel_left' diff_add_cancel add.commute word_unat_eq_iff)
    have ne: "s + (a - d) \<noteq> d + of_nat n" if "unat (a - d) < n"
    proof -
      have "unat (s + (a - d)) = unat s + unat (a - d)" using that assms(1) Suc.prems by (subst unat_add_u64) auto
      moreover have "unat (d + of_nat n) = unat d + n" using Suc.prems n by (subst unat_add_u64) auto
      ultimately show ?thesis using that assms(1) by (metis add_less_mono less_irrefl)
    qed
    have "copy_back (Suc n) d s m a = moved ?m d s n a" using Suc by simp
    also have "\<dots> = moved m d s (Suc n) a"
      using ne eq unfolding moved_def less_Suc_eq by auto
    finally show "copy_back (Suc n) d s m a = moved m d s (Suc n) a" .
  qed
qed simp

text \<open>Claim C19. \<open>memmove\<close>, with its backward loop and the unrolled word copy of \<open>memcpy\<close>, is the
  simultaneous move of the range: the target holds what the source held before, however the two
  overlap, and no other byte changes.\<close>

theorem memmove_moves:
  assumes "unat s + unat n < 2 ^ 64" "unat d + unat n < 2 ^ 64" "unat n < 2 ^ 36"
  shows "memmove m d s n = (\<lambda>a. if unat (a - d) < unat n then m (s + (a - d)) else m a)"
proof -
  have sn: "unat (s + n) = unat s + unat n" by (rule unat_add_u64 [OF assms(1)])
  have "memmove m d s n = moved m d s (unat n)"
  proof (cases "s < d \<and> s + n > d")
    case True
    then show ?thesis using assms(2) by (simp add: memmove_def copy_back_moved word_less_nat_alt)
  next
    case False
    then have "d \<le> s \<or> unat s + unat n \<le> unat d" using sn by (auto simp: word_less_nat_alt word_le_nat_alt)
    then have "unread d s (unat n)" by (rule unread_forward [OF assms(1,2)])
    then show ?thesis using False assms(3) by (auto simp: memmove_def memcpy_moved)
  qed
  then show ?thesis by (simp add: moved_def)
qed

section \<open>Printing and reading numbers\<close>

lemma radix_value_digit: "d < 16 \<Longrightarrow> radix_value (digit_char d) = d"
proof -
  have "\<forall>d \<in> set [0..<16]. radix_value (digit_char d) = d" by code_simp
  then show "d < 16 \<Longrightarrow> radix_value (digit_char d) = d" by auto
qed

text \<open>Reading goes on behind the digits of a number: the digits of \<open>v\<close>, read after the value \<open>x\<close>,
  append \<open>v\<close> to it.\<close>

lemma digits_read:
  assumes "2 \<le> radix" "radix \<le> 16" "unat v < unat radix ^ Suc n"
  shows "\<exists>ds. ultoa_digits (Suc n) v radix p = ds @ p \<and> ds \<noteq> [] \<and> (\<forall>c \<in> set ds. radix_value c < unat radix) \<and>
           (\<forall>rest. radix_digits (unat radix) 0 (ds @ rest) = radix_digits (unat radix) v rest)"
  using assms(3)
proof (induction n arbitrary: v p)
  case (0 v p)
  have r: "2 \<le> unat radix" "unat radix \<le> 16" using assms(1,2) by (simp_all add: word_le_nat_alt)
  then have v: "unat v < unat radix" "unat v < 16" using 0 by simp_all
  then have "v div radix = 0" by (simp add: word_unat_eq_iff unat_div)
  moreover have "unat (v mod radix) = unat v" using v by (simp add: unat_mod)
  ultimately show ?case
    using v by (intro exI [of _ "[digit_char (unat v)]"]) (simp add: radix_value_digit)
next
  case (Suc n v p)
  have r: "2 \<le> unat radix" "unat radix \<le> 16" using assms(1,2) by (simp_all add: word_le_nat_alt)
  let ?d = "unat v mod unat radix" and ?p = "digit_char (unat (v mod radix)) # p"
  have d: "unat (v mod radix) = ?d" by (simp add: unat_mod)
  have dl: "?d < unat radix" "?d < 16" using r by (simp_all add: less_le_trans [of _ "unat radix"])
  show ?case
  proof (cases "v div radix = 0")
    case True
    then have "unat v div unat radix = 0" by (simp add: unat_div [symmetric])
    then have "?d = unat v" using r by (simp add: div_eq_0_iff)
    then show ?thesis using True dl by (intro exI [of _ "[digit_char ?d]"]) (simp add: d radix_value_digit)
  next
    case False
    have "unat (v div radix) < unat radix ^ Suc n"
      using Suc.prems r by (simp add: unat_div less_mult_imp_div_less mult.commute)
    then obtain ds where ds: "ultoa_digits (Suc n) (v div radix) radix ?p = ds @ ?p" "ds \<noteq> []"
      "\<forall>c \<in> set ds. radix_value c < unat radix"
      "\<forall>rest. radix_digits (unat radix) 0 (ds @ rest) = radix_digits (unat radix) (v div radix) rest"
      using Suc.IH by blast
    have val: "v div radix * radix + of_nat ?d = v"
      by (simp add: d [symmetric] div_mult_mod_eq)
    show ?thesis
      using False ds dl val by (intro exI [of _ "ds @ [digit_char ?d]"])
        (simp del: ultoa_digits.simps(2) add: ultoa_digits.simps(2) [of "Suc n"] d radix_value_digit Let_def)
  qed
qed

lemma radix_digits_stop: "rest = [] \<or> base \<le> radix_value (hd rest) \<Longrightarrow> radix_digits base v rest = (v, rest)"
  by (cases rest) auto

lemma radix_x: "radix_value CHR ''x'' = 37" "radix_value CHR ''X'' = 37"
  by code_simp+

text \<open>Claim C20. What \<open>ultoa_end\<close> prints is read back by \<open>strtopaddr\<close> in the same radix: the value is
  the one printed, and reading stops behind the digits, whatever follows that is neither a digit
  nor the letter of a hexadecimal prefix.\<close>

theorem strtopaddr_ultoa:
  assumes "ultoa_end v radix = Some ds"
    and "rest = [] \<or> unat radix \<le> radix_value (hd rest) \<and> hd rest \<noteq> CHR ''x'' \<and> hd rest \<noteq> CHR ''X''"
  shows "strtopaddr (ds @ rest) (unat radix) = (v, rest)"
proof -
  have r: "2 \<le> radix" "radix \<le> 16" and ds: "ultoa_digits 64 v radix [] = ds"
    using assms(1) by (auto simp: ultoa_end_def Let_def not_less split: if_splits)
  have r': "2 \<le> unat radix" "unat radix \<le> 16" using r by (simp_all add: word_le_nat_alt)
  have "(2::nat) ^ 64 \<le> unat radix ^ 64" using r' by (intro power_mono) simp_all
  then have "unat v < unat radix ^ 64" by (rule less_le_trans [OF unat_u64_bound(1)])
  then have "unat v < unat radix ^ Suc 63" by (simp only: Suc_numeral semiring_norm)
  from digits_read [OF r this, of "[]"] ds obtain
    d: "ds \<noteq> []" "\<forall>c \<in> set ds. radix_value c < unat radix"
      "radix_digits (unat radix) 0 (ds @ rest) = radix_digits (unat radix) v rest"
    by (auto simp: numeral_eq_Suc)
  have nx: "c \<noteq> CHR ''x''" "c \<noteq> CHR ''X''" if "c \<in> set ds" for c
    using d(2) r'(2) that radix_x by force+
  have nohex: "\<not> hexstr (ds @ rest)"
    using nx assms(2) d(1) by (cases ds; cases "tl ds"; cases rest) (auto simp: hexstr_def)
  have stop: "radix_digits (unat radix) v rest = (v, rest)" using assms(2) by (intro radix_digits_stop) auto
  have ne: "unat radix \<noteq> 0" "rest \<noteq> ds @ rest" using r'(1) d(1) by auto
  show ?thesis using nohex ne stop d(3) by (simp add: strtopaddr_def Let_def)
qed

section \<open>Calendar time\<close>

text \<open>The days before a year, with a leap year every four years.\<close>

definition days_before :: "nat \<Rightarrow> nat" where
  "days_before y = 365 * y + (y + 1) div 4"

lemma days_before_Suc: "days_before (Suc y) = days_before y + year_days y"
  unfolding days_before_def year_days_def by (simp, presburger)

lemma year_loop_spec:
  "year_loop y days = (y', d) \<Longrightarrow> days_before y + days = days_before y' + d \<and> d < year_days y' \<and> y \<le> y'"
proof (induction y days rule: year_loop.induct)
  case (1 y days)
  show ?case
  proof (cases "year_days y > days")
    case False
    then have "year_loop (Suc y) (days - year_days y) = (y', d)" using 1(2) year_loop.simps [of y days] by simp
    from 1(1) [OF False this] show ?thesis using False by (simp add: days_before_Suc)
  qed (use 1(2) year_loop.simps [of y days] in simp)
qed

lemma mon_loop_spec:
  "mon_loop ts m days = (m', d) \<Longrightarrow> days < sum_list ts \<Longrightarrow>
   m \<le> m' \<and> m' < m + length ts \<and> days = sum_list (take (m' - m) ts) + d \<and> d < ts ! (m' - m)"
proof (induction ts arbitrary: m days)
  case (Cons t ts)
  show ?case
  proof (cases "t > days")
    case False
    then have "mon_loop ts (Suc m) (days - t) = (m', d)" "days - t < sum_list ts" using Cons.prems by auto
    note ih = Cons.IH [OF this]
    then have "m' - m = Suc (m' - Suc m)" by linarith
    with ih False show ?thesis by auto
  qed (use Cons.prems in auto)
qed simp

text \<open>The seconds before a month, as \<open>calc_time_t\<close> adds them.\<close>

definition leap_years :: "nat \<Rightarrow> bool" where
  "leap_years y \<longleftrightarrow> (y + 1970) mod 4 = 0 \<and> ((y + 1970) mod 100 \<noteq> 0 \<or> (y + 1970) mod 400 = 0)"

lemma leap_before_2100: "y < 130 \<Longrightarrow> leap_years y \<longleftrightarrow> (y + 2) mod 4 = 0"
proof -
  have "\<forall>y \<in> set [0..<130]. leap_years y \<longleftrightarrow> (y + 2) mod 4 = 0" by code_simp
  then show "y < 130 \<Longrightarrow> leap_years y \<longleftrightarrow> (y + 2) mod 4 = 0" by auto
qed

lemma month_table:
  assumes "m < 12"
  shows "unat (month_sec ! m) + (if 2 \<le> m \<and> leap then 86400 else 0) = 86400 * sum_list (take m (mdays leap))"
proof -
  have "m = 0 \<or> m = 1 \<or> m = 2 \<or> m = 3 \<or> m = 4 \<or> m = 5 \<or> m = 6 \<or> m = 7 \<or> m = 8 \<or> m = 9 \<or> m = 10 \<or> m = 11"
    using assms by presburger
  then show ?thesis by (elim disjE) (simp_all add: month_sec_def mdays_def)
qed

lemma hours_minutes: "(s div 60 div 60) * 3600 + (s div 60 mod 60) * 60 + s mod 60 = (s :: nat)"
  using mult_div_mod_eq [of 60 s] mult_div_mod_eq [of 60 "s div 60"] by linarith

lemma gmtime_parts:
  assumes "t < 4102444800"
  obtains y yd mon d where "year_loop 0 (t div 86400) = (y, yd)" "mon_loop (mdays ((y + 2) mod 4 = 0)) 0 yd = (mon, d)"
    "t div 86400 = days_before y + sum_list (take mon (mdays ((y + 2) mod 4 = 0))) + d" "mon < 12" "y < 130"
proof -
  obtain y yd where y: "year_loop 0 (t div 86400) = (y, yd)" by fastforce
  note ys = year_loop_spec [OF y]
  obtain mon d where m: "mon_loop (mdays ((y + 2) mod 4 = 0)) 0 yd = (mon, d)" by fastforce
  have "yd < sum_list (mdays ((y + 2) mod 4 = 0))" using ys by (auto simp: year_days_def mdays_def split: if_splits)
  note ms = mon_loop_spec [OF m this]
  have "t div 86400 < 47482" using assms by (simp add: less_mult_imp_div_less)
  moreover have "47482 \<le> days_before y" if "130 \<le> y"
    using that unfolding days_before_def by linarith
  ultimately have "y < 130" using ys by (force simp: days_before_def)
  with ys ms y m that show thesis by (auto simp: mdays_def days_before_def)
qed

lemma of_nat_year:
  assumes "y < 130"
  shows "unat (of_int (int (y + 70) - 70) :: u32) = y" "unat (of_int (int (y + 70) + 1900) :: u32) = y + 1970"
proof -
  have "(of_int (int (y + 70) - 70) :: u32) = of_nat y" "(of_int (int (y + 70) + 1900) :: u32) = of_nat (y + 1970)"
    by simp_all
  then show "unat (of_int (int (y + 70) - 70) :: u32) = y" "unat (of_int (int (y + 70) + 1900) :: u32) = y + 1970"
    using assms by (simp_all only: unat_of_nat) simp_all
qed

text \<open>Claim C21. Calendar time: for every time before the year 2100, splitting it with \<open>_gmtime\<close> and
  putting it together again with \<open>calc_time_t\<close> gives the same time.\<close>

theorem calc_time_t_gmtime:
  assumes "t < 4102444800"
  shows "calc_time_t (gmtime t) = Inr (of_nat t)"
proof -
  obtain y yd mon d where p: "year_loop 0 (t div 86400) = (y, yd)" "mon_loop (mdays ((y + 2) mod 4 = 0)) 0 yd = (mon, d)"
    "t div 86400 = days_before y + sum_list (take mon (mdays ((y + 2) mod 4 = 0))) + d" "mon < 12" "y < 130"
    by (rule gmtime_parts [OF assms])
  let ?s = "t mod 86400"
  let ?leap = "(y + 2) mod 4 = 0"
  let ?y = "of_int (int (y + 70) - 70) :: u32" and ?Y = "of_int (int (y + 70) + 1900) :: u32"
  note yr = of_nat_year [OF p(5)]
  have leap: "?Y mod 4 = 0 \<and> (?Y mod 100 \<noteq> 0 \<or> ?Y mod 400 = 0) \<longleftrightarrow> ?leap"
    unfolding word_unat_eq_iff unat_mod yr leap_before_2100 [OF p(5), symmetric] leap_years_def by simp
  have q: "unat (drop_bit 2 (?y + 1)) = (y + 1) div 4"
    using yr(1) p(5) by (simp add: drop_bit_eq_div unat_div unat_add_u32)
  have y: "(ucast ?y :: u64) = of_nat y" "(ucast (drop_bit 2 (?y + 1)) :: u64) = of_nat ((y + 1) div 4)"
    unfolding word_unat_eq_iff unat_ucast_u32_u64 yr q using p(5) by (simp_all add: unat_of_nat_u64)
  have ms: "month_sec ! mon + (if 2 \<le> mon \<and> ?leap then SEC_PER_DAY else 0) =
      of_nat (86400 * sum_list (take mon (mdays ?leap)))"
    unfolding month_table [OF p(4), of ?leap, symmetric] by (simp add: SEC_PER_DAY_def)
  have secs: "(of_nat (?s div 60 div 60) :: u64) * 3600 + of_nat (?s div 60 mod 60) * 60 + of_nat (?s mod 60) = of_nat ?s"
    using arg_cong [OF hours_minutes [of ?s], of "of_nat :: nat \<Rightarrow> u64"] by (simp only: of_nat_add of_nat_mult of_nat_numeral)
  have days: "((of_nat y * 365 + of_nat ((y + 1) div 4)) * 86400 :: u64) + of_nat (86400 * sum_list (take mon (mdays ?leap)))
      + of_nat d * 86400 = of_nat (86400 * (t div 86400))"
    unfolding p(3) days_before_def by (simp add: algebra_simps)
  have tt: "(of_nat (86400 * (t div 86400)) :: u64) + of_nat ?s = of_nat t"
    by (metis mult_div_mod_eq of_nat_add)
  have g: "tm_mon (gmtime t) = int mon" "tm_year (gmtime t) = int (y + 70)" "tm_mday (gmtime t) = int (d + 1)"
    "tm_hour (gmtime t) = int (?s div 60 div 60)" "tm_min (gmtime t) = int (?s div 60 mod 60)" "tm_sec (gmtime t) = int (?s mod 60)"
    unfolding gmtime_def Let_def p(1) prod.case p(2) by simp_all
  have m: "0 \<le> int mon \<and> int mon < 12" "nat (int mon) = mon" "(2 \<le> int mon) = (2 \<le> mon)" using p(4) by simp_all
  have d1: "(of_int (int (d + 1) - 1) :: u64) = of_nat d" by simp
  have cases: "(if 2 \<le> mon \<and> ?leap then a + b else a) = a + (if 2 \<le> mon \<and> ?leap then b else 0)" for a b :: u64 by simp
  have "calc_time_t (gmtime t) = Inr ((of_nat y * 365 + of_nat ((y + 1) div 4)) * SEC_PER_DAY + month_sec ! mon +
      (if 2 \<le> mon \<and> ?leap then SEC_PER_DAY else 0) + of_nat d * SEC_PER_DAY +
      of_nat (?s div 60 div 60) * 3600 + of_nat (?s div 60 mod 60) * 60 + of_nat (?s mod 60))"
    unfolding calc_time_t_def Let_def g if_P [OF m(1)] m(2,3) leap y d1 cases of_int_of_nat_eq ..
  also have "\<dots> = Inr (of_nat t)"
  proof -
    have "a + b + c + e + h + i + s = a + (b + c) + e + (h + i + s)" for a b c e h i s :: u64 by (simp only: add.assoc)
    then show ?thesis by (simp only: ms) (simp only: SEC_PER_DAY_def days secs tt)
  qed
  finally show ?thesis .
qed

section \<open>The period of a timer\<close>

text \<open>One round of the long division, and its invariant: after \<open>k\<close> digits the period so far times the
  frequency, and what is left, make up \<open>10 ^ k\<close>.\<close>

lemma invert_round:
  fixes freq period quot :: u32
  assumes "unat freq \<le> 429496729" "0 < unat freq" "unat period < 429496719" "unat quot < 10 * unat freq"
    and "unat period * 10 * unat freq + unat quot = 10 ^ k"
  shows "unat (period * 10 + quot div freq) = unat period * 10 + unat quot div unat freq"
    and "unat (quot mod freq * 10) = unat quot mod unat freq * 10"
    and "(unat period * 10 + unat quot div unat freq) * unat freq + unat quot mod unat freq = 10 ^ k"
proof -
  have d: "unat quot div unat freq < 10" using assms(2,4) by (simp add: less_mult_imp_div_less mult.commute)
  have p10: "unat (period * 10) = unat period * 10"
    using unat_mult_lem [of period "10 :: u32"] assms(3) by simp
  show "unat (period * 10 + quot div freq) = unat period * 10 + unat quot div unat freq"
    using p10 d assms(3) by (subst unat_add_u32) (simp_all add: unat_div)
  have m: "unat (quot mod freq) < 429496729" "unat (quot mod freq) = unat quot mod unat freq"
    using assms(1,2) by (simp_all add: unat_mod less_le_trans [of _ "unat freq"])
  then show "unat (quot mod freq * 10) = unat quot mod unat freq * 10"
    using unat_mult_lem [of "quot mod freq" "10 :: u32"] by simp
  have "unat quot div unat freq * unat freq + unat quot mod unat freq = unat quot" by (rule div_mult_mod_eq)
  then show "(unat period * 10 + unat quot div unat freq) * unat freq + unat quot mod unat freq = 10 ^ k"
    using assms(5) by (simp add: add_mult_distrib)
qed

lemma euclid_bounds:
  fixes q r f x :: nat
  shows "q * f + r = x \<Longrightarrow> r < f \<Longrightarrow> q * f \<le> x \<and> x < (q + 1) * f"
  by auto

lemma next_digit:
  fixes q r f :: nat
  shows "q * f + r = 10 ^ k \<Longrightarrow> q * 10 * f + r * 10 = 10 ^ Suc k"
  by (simp add: algebra_simps)

text \<open>The rounds end: a period that is still small after \<open>k\<close> digits bounds \<open>k\<close>.\<close>

lemma invert_digits_bound:
  fixes p f :: nat
  assumes "p < 429496719" "f \<le> 429496729" "10 ^ k < (p + 1) * f"
  shows "k < 18"
proof (rule ccontr)
  assume "\<not> k < 18"
  then have "(10::nat) ^ 18 \<le> 10 ^ k" by (intro power_increasing) simp_all
  also have "\<dots> < (p + 1) * f" by (rule assms(3))
  also have "\<dots> \<le> 429496719 * 429496729" using assms(1,2) by (intro mult_le_mono) simp_all
  finally show False by simp
qed

lemma invert_loop_nearest:
  assumes "unat freq \<le> 429496729" "0 < unat freq" "k + n = 19" "unat period < 429496719" "unat quot < 10 * unat freq"
    and "unat period * 10 * unat freq + unat quot = 10 ^ k"
  shows "\<exists>p j. invert_loop n freq quot period (b - int k) = Some (p, b - int j) \<and>
           unat p * unat freq \<le> 10 ^ j \<and> 10 ^ j < (unat p + 1) * unat freq \<and> j < 19"
  using assms(3-6)
proof (induction n arbitrary: k period quot)
  case 0
  have "(10 :: nat) ^ 19 < (429496719 * 10 + 10) * 429496729" if "unat period * 10 * unat freq + unat quot = 10 ^ 19"
  proof -
    have "unat period * 10 * unat freq + unat quot \<le> (unat period * 10 + 10) * unat freq" using 0 by (simp add: add_mult_distrib)
    also have "\<dots> < (429496719 * 10 + 10) * 429496730" using 0 assms(1) by (intro mult_less_le_imp_less) auto
    finally show ?thesis using that by simp
  qed
  then show ?case using 0 by simp
next
  case (Suc n)
  let ?p = "period * 10 + quot div freq"
  note r = invert_round [OF assms(1,2) Suc.prems(2-4)]
  have rem: "unat quot mod unat freq < unat freq" using assms(2) by simp
  have bound: "unat ?p * unat freq \<le> 10 ^ k" "10 ^ k < (unat ?p + 1) * unat freq"
    using euclid_bounds [OF r(3) rem] unfolding r(1) by blast+
  have lim: "UINT_MAX div 10 - 10 = (429496719 :: u32)" by (simp add: UINT_MAX_def)
  show ?case
  proof (cases "?p \<ge> 429496719 \<or> quot mod freq = 0")
    case True
    then have "invert_loop (Suc n) freq quot period (b - int k) = Some (?p, b - int k)" by (auto simp: Let_def lim)
    then show ?thesis using bound Suc.prems(1) by (intro exI [of _ ?p] exI [of _ k]) simp
  next
    case False
    then have small: "unat ?p < 429496719" by (simp add: word_le_nat_alt)
    have "invert_loop (Suc n) freq quot period (b - int k) = invert_loop n freq (quot mod freq * 10) ?p (b - int (Suc k))"
      using False by (simp add: Let_def lim algebra_simps)
    moreover have "unat (quot mod freq * 10) < 10 * unat freq" unfolding r(2) using rem by simp
    moreover have "unat ?p * 10 * unat freq + unat (quot mod freq * 10) = 10 ^ Suc k"
      unfolding r(1,2) by (rule next_digit [OF r(3)])
    ultimately show ?thesis using Suc.IH [of "Suc k" ?p "quot mod freq * 10"] Suc.prems(1) small by simp
  qed
qed

text \<open>The period \<open>invert_timer_freq\<close> computes is exact to its last digit: with the decimal
  scale it is the reciprocal of the frequency (of a tenth of it, above a tenth of the largest word)
  rounded down, and nineteen digits are always enough.\<close>

theorem invert_timer_freq_nearest:
  assumes "freq \<noteq> 0"
  shows "\<exists>p j. j < 19 \<and>
     invert_timer_freq 19 freq = Inr (Some (p, if unat freq > 429496729 then - int j - 1 else - int j)) \<and>
     unat p * (if unat freq > 429496729 then unat freq div 10 else unat freq) \<le> 10 ^ j \<and>
     10 ^ j < (unat p + 1) * (if unat freq > 429496729 then unat freq div 10 else unat freq)"
proof -
  have lim: "freq > UINT_MAX div 10 \<longleftrightarrow> unat freq > 429496729" by (simp add: UINT_MAX_def word_less_nat_alt)
  have f: "0 < unat freq" using assms by (simp add: unat_gt_0)
  show ?thesis
  proof (cases "unat freq > 429496729")
    case True
    have u: "unat (freq div 10) = unat freq div 10" by (simp add: unat_div)
    have "unat freq div 10 \<le> 429496729" "0 < unat freq div 10"
      using True less_mult_imp_div_less [of "unat freq" 429496730 10] unat_u32_bound(2) [of freq]
      by (simp_all add: div_greater_zero_iff)
    then show ?thesis
      using invert_loop_nearest [of "freq div 10" 0 19 0 1 "- 1"] True assms lim
      by (auto simp: invert_timer_freq_def u algebra_simps)
  next
    case False
    then show ?thesis
      using invert_loop_nearest [of freq 0 19 0 1 0] f assms lim by (auto simp: invert_timer_freq_def)
  qed
qed

end
