(* ===== verification/Util_Witness.thy ===== *)
theory Util_Witness
  imports Util_Proofs
begin

text \<open>The theorems about the startup library's conversions at concrete inputs.\<close>

definition mem0 :: bytes where
  "mem0 a = ucast (a * 3)"

theorem memmove_moves_witness:
  "unat (0x1000 :: u64) + unat (70 :: u64) < 2 ^ 64 \<and> unat (0x1008 :: u64) + unat (70 :: u64) < 2 ^ 64 \<and>
   unat (70 :: u64) < 2 ^ 36 \<and>
   memmove mem0 0x1008 0x1000 70 =
     (\<lambda>a. if unat (a - 0x1008) < unat (70 :: u64) then mem0 (0x1000 + (a - 0x1008)) else mem0 a) \<and>
   memmove mem0 0x1000 0x1004 6 0x1001 = mem0 0x1005"
proof -
  have "memmove mem0 0x1000 0x1004 6 0x1001 = mem0 0x1005" by code_simp
  then show ?thesis using memmove_moves [of "0x1000" 70 "0x1008" mem0] by simp
qed

theorem strtopaddr_ultoa_witness:
  "ultoa_end 0xfe201000 16 = Some ''fe201000'' \<and>
   strtopaddr (''fe201000'' @ '',48'') (unat (16 :: u64)) = (0xfe201000, '',48'')"
proof -
  have u: "ultoa_end 0xfe201000 16 = Some ''fe201000''" by code_simp
  have r: "'',48'' = [] \<or> unat (16 :: u64) \<le> radix_value (hd '',48'') \<and> hd '',48'' \<noteq> CHR ''x'' \<and> hd '',48'' \<noteq> CHR ''X''"
    by code_simp
  show ?thesis using u strtopaddr_ultoa [OF u r] by simp
qed

theorem calc_time_t_gmtime_witness:
  "(1709251199 :: nat) < 4102444800 \<and> calc_time_t (gmtime 1709251199) = Inr (of_nat 1709251199) \<and>
   tm_mday (gmtime 1709251199) = 29 \<and> tm_mon (gmtime 1709251199) = 1"
proof -
  have "tm_mday (gmtime 1709251199) = 29 \<and> tm_mon (gmtime 1709251199) = 1" by code_simp
  then show ?thesis using calc_time_t_gmtime [of 1709251199] by simp
qed

text \<open>Behind the year 2100 the two functions differ by a day: one takes 2100 for a leap year.\<close>

lemma calc_time_t_gmtime_2100: "calc_time_t (gmtime 4107628800) = Inr 4107542400"
  by code_simp

theorem invert_timer_freq_nearest_witness:
  "(54000000 :: u32) \<noteq> 0 \<and> invert_timer_freq 19 54000000 = Inr (Some (1851851851, - 17)) \<and>
   (\<exists>p j. invert_timer_freq 19 54000000 = Inr (Some (p, - int j)) \<and> unat p * 54000000 \<le> 10 ^ j)"
proof -
  have "invert_timer_freq 19 54000000 = Inr (Some (1851851851, - 17))" by code_simp
  then show ?thesis using invert_timer_freq_nearest [of 54000000] by auto
qed

end
