(* ===== verification/Sdio_Card.thy ===== *)
theory Sdio_Card
  imports Prelude
begin

text \<open>
  The registers of an SD or MMC card and how \<open>devb/sdmmc/sdiodi\<close> decodes them.

  \<^item> \<open>sdio_extract_bits\<close> of \<open>base.c\<close> cuts a field out of a register held as 32-bit words, most
    significant word first.
  \<^item> \<open>sd_parse_cid\<close>, \<open>sd_parse_csd\<close>, \<open>sd_parse_scr\<close>, \<open>sd_erase_grp_size\<close>, \<open>sd_erase_timeout\<close> of \<open>sd.c\<close>.
  \<^item> \<open>mmc_parse_cid\<close>, \<open>mmc_parse_csd\<close>, \<open>mmc_parse_ext_csd\<close>, \<open>mmc_erase_grp_size\<close>, \<open>mmc_wp_grp_size\<close> of
    \<open>mmc.c\<close>.
  \<^item> The theorems relate them to the card's registers read as one number: \<open>regval\<close> is the register,
    \<open>fld\<close> a field of it.
\<close>

datatype errno =
  EOK | EIO | ENXIO | ENOMEM | EBUSY | ENODEV | EINVAL | ENOTSUP | ETIMEDOUT | EFAULT | EAGAIN | EACCES
| ERRNO int

section \<open>Registers\<close>

record sdio_cid =
  cid_mid :: u32
  cid_oid :: u32
  cid_pnm :: "u8 list"
  cid_prv :: u32
  cid_psn :: u32
  cid_month :: u32
  cid_year :: u32

record sdio_csd =
  csd_structure :: u8
  csd_spec_vers :: u8
  csd_taac :: u8
  csd_nsac :: u8
  csd_tran_speed :: u8
  csd_ccc :: u16
  csd_read_bl_len :: u8
  csd_read_bl_partial :: u8
  csd_write_blk_misalign :: u8
  csd_read_blk_misalign :: u8
  csd_dsr_imp :: u8
  csd_c_size :: u32
  csd_vdd_r_curr_min :: u8
  csd_vdd_r_curr_max :: u8
  csd_vdd_w_curr_min :: u8
  csd_vdd_w_curr_max :: u8
  csd_c_size_mult :: u8
  csd_erase_blk_en :: u8
  csd_erase_grp_size :: u8
  csd_erase_grp_mult :: u8
  csd_sector_size :: u8
  csd_wp_grp_size :: u8
  csd_wp_grp_enable :: u8
  csd_r2w_factor :: u8
  csd_write_bl_len :: u8
  csd_write_bl_partial :: u8
  csd_write_protect :: u8
  csd_dtr_max :: u32
  csd_blksz :: u32
  csd_sectors :: u64

record sdio_ecsd =
  ecsd_blksz :: u32
  ecsd_sectors :: u32
  ecsd_acc_size :: u32
  ecsd_dtr_max_hs :: u32
  ecsd_s_a_timeout :: u32
  ecsd_ext_csd_rev :: u8
  ecsd_card_type :: u8
  ecsd_driver_strength :: u8
  ecsd_erase_grp_def :: u8
  ecsd_hc_erase_group_size :: u8
  ecsd_hc_wp_grp_size :: u8
  ecsd_user_wp :: u8
  ecsd_part_config :: u8
  ecsd_strobe :: u8
  ecsd_bkops_en :: u8

record sd_scr =
  scr_structure :: u8
  scr_sd_spec :: u8
  scr_data_stat_after_erase :: u8
  scr_sd_security :: u8
  scr_sd_bus_widths :: u8
  scr_sd_spec3 :: u8
  scr_sd_spec4 :: u8
  scr_sd_specx :: u8
  scr_ex_security :: u8
  scr_cmd_support :: u8

record sd_sds =
  sds_speed_class :: u32
  sds_uhs_speed_grade :: u32
  sds_au_size :: u32
  sds_erase_timeout :: u32
  sds_erase_offset :: u32
  sds_perf_class :: u32
  sds_perf_enh :: u32

record sd_switch_cap =
  swc_dtr_max_hs :: u32
  swc_bus_mode :: u32
  swc_cmd_sys :: u32
  swc_drv_type :: u32
  swc_curr_limit :: u32

text \<open>\<open>sdio_dev_t\<close>, less a few fields that are kept beside those of the controller.\<close>

record sdio_dev =
  dev_flags :: u32
  dev_caps :: u64
  dev_pactive :: u32
  dev_rel_wr_sec_c :: u32
  dev_cid :: sdio_cid
  dev_csd :: sdio_csd
  dev_ecsd :: sdio_ecsd
  dev_scr :: sd_scr
  dev_sds :: sd_sds
  dev_swcaps :: sd_switch_cap
  dev_rsettle :: u32
  dev_pwd :: "u8 list"
  dev_pwd_len :: u32
  dev_pwr_mgnt_fcn_rsa :: u32
  dev_perf_enh_fcn_rsa :: u32
  dev_wp_size :: u32
  dev_erase_size :: u32
  dev_raw_cid :: "u32 list"
  dev_raw_csd :: "u32 list"
  dev_raw_scr :: "u32 list"
  dev_raw_ecsd :: "u8 list"

definition cid_zero :: sdio_cid where
  "cid_zero = \<lparr>cid_mid = 0, cid_oid = 0, cid_pnm = replicate 8 0, cid_prv = 0, cid_psn = 0,
     cid_month = 0, cid_year = 0\<rparr>"

definition csd_zero :: sdio_csd where
  "csd_zero = \<lparr>csd_structure = 0, csd_spec_vers = 0, csd_taac = 0, csd_nsac = 0, csd_tran_speed = 0,
     csd_ccc = 0, csd_read_bl_len = 0, csd_read_bl_partial = 0, csd_write_blk_misalign = 0,
     csd_read_blk_misalign = 0, csd_dsr_imp = 0, csd_c_size = 0, csd_vdd_r_curr_min = 0,
     csd_vdd_r_curr_max = 0, csd_vdd_w_curr_min = 0, csd_vdd_w_curr_max = 0, csd_c_size_mult = 0,
     csd_erase_blk_en = 0, csd_erase_grp_size = 0, csd_erase_grp_mult = 0, csd_sector_size = 0,
     csd_wp_grp_size = 0, csd_wp_grp_enable = 0, csd_r2w_factor = 0, csd_write_bl_len = 0,
     csd_write_bl_partial = 0, csd_write_protect = 0, csd_dtr_max = 0, csd_blksz = 0, csd_sectors = 0\<rparr>"

definition ecsd_zero :: sdio_ecsd where
  "ecsd_zero = \<lparr>ecsd_blksz = 0, ecsd_sectors = 0, ecsd_acc_size = 0, ecsd_dtr_max_hs = 0,
     ecsd_s_a_timeout = 0, ecsd_ext_csd_rev = 0, ecsd_card_type = 0, ecsd_driver_strength = 0,
     ecsd_erase_grp_def = 0, ecsd_hc_erase_group_size = 0, ecsd_hc_wp_grp_size = 0, ecsd_user_wp = 0,
     ecsd_part_config = 0, ecsd_strobe = 0, ecsd_bkops_en = 0\<rparr>"

definition dev_zero :: sdio_dev where
  "dev_zero = \<lparr>dev_flags = 0, dev_caps = 0, dev_pactive = 0, dev_rel_wr_sec_c = 0, dev_cid = cid_zero,
     dev_csd = csd_zero, dev_ecsd = ecsd_zero,
     dev_scr = \<lparr>scr_structure = 0, scr_sd_spec = 0, scr_data_stat_after_erase = 0, scr_sd_security = 0,
       scr_sd_bus_widths = 0, scr_sd_spec3 = 0, scr_sd_spec4 = 0, scr_sd_specx = 0, scr_ex_security = 0,
       scr_cmd_support = 0\<rparr>,
     dev_sds = \<lparr>sds_speed_class = 0, sds_uhs_speed_grade = 0, sds_au_size = 0, sds_erase_timeout = 0,
       sds_erase_offset = 0, sds_perf_class = 0, sds_perf_enh = 0\<rparr>,
     dev_swcaps = \<lparr>swc_dtr_max_hs = 0, swc_bus_mode = 0, swc_cmd_sys = 0, swc_drv_type = 0, swc_curr_limit = 0\<rparr>,
     dev_rsettle = 0, dev_pwd = replicate 16 0, dev_pwd_len = 0, dev_pwr_mgnt_fcn_rsa = 0, dev_perf_enh_fcn_rsa = 0,
     dev_wp_size = 0, dev_erase_size = 0, dev_raw_cid = replicate 4 0, dev_raw_csd = replicate 4 0,
     dev_raw_scr = replicate 2 0, dev_raw_ecsd = replicate 512 0\<rparr>"

section \<open>Fields of a register\<close>

text \<open>\<open>bits\<close>, \<open>start\<close> and \<open>size\<close> are literals at every call. A field that ends beyond \<open>bits\<close> would read
  the word before the array; no call has one, and the theorems ask for it.\<close>

definition sdio_extract_bits :: "u32 list \<Rightarrow> nat \<Rightarrow> nat \<Rightarrow> nat \<Rightarrow> u32" where
  "sdio_extract_bits data bits start sz =
    (let idx = bits div 32 - start div 32 - 1;
         shift = start mod 32;
         value = drop_bit shift (data ! idx);
         value = (if sz + shift > 32 then value OR push_bit (32 - shift) (data ! (idx - 1)) else value)
     in ucast ((ucast value :: u64) AND (push_bit sz 1 - 1)))"

definition rsp8 :: "u32 list \<Rightarrow> nat \<Rightarrow> nat \<Rightarrow> nat \<Rightarrow> u8" where
  "rsp8 rsp bits start sz = ucast (sdio_extract_bits rsp bits start sz)"

section \<open>SD cards\<close>

definition sd_pnm :: "u32 list \<Rightarrow> nat \<Rightarrow> u8 list \<Rightarrow> u8 list" where
  "sd_pnm rsp n pnm = foldl (\<lambda>p idx. p[idx := rsp8 rsp 128 (96 - idx * 8) 8]) pnm [0 ..< n]"

definition sd_parse_cid :: "u32 list \<Rightarrow> sdio_cid \<times> errno" where
  "sd_parse_cid rsp =
    (cid_zero\<lparr>cid_mid := sdio_extract_bits rsp 128 120 8,
       cid_oid := sdio_extract_bits rsp 128 104 16,
       cid_pnm := sd_pnm rsp 5 (cid_pnm cid_zero),
       cid_psn := sdio_extract_bits rsp 128 24 32,
       cid_prv := sdio_extract_bits rsp 128 56 8,
       cid_month := sdio_extract_bits rsp 128 8 4,
       cid_year := sdio_extract_bits rsp 128 12 8 + 2000\<rparr>, EOK)"

definition SDIO_DFLT_BLKSZ :: u32 where "SDIO_DFLT_BLKSZ = 512"
definition CSD_VER_20_CSIZE_MAX :: u32 where "CSD_VER_20_CSIZE_MAX = 0x3fffff"
definition DEV_CAP_HC :: u64 where "DEV_CAP_HC = 1"
definition DEV_CAP_UC :: u64 where "DEV_CAP_UC = push_bit 20 1"
definition DEV_CAP_CMD23 :: u64 where "DEV_CAP_CMD23 = push_bit 9 1"
definition SCR_CMD23_SUP :: u8 where "SCR_CMD23_SUP = 2"

definition tran_speed_fu :: "u32 list" where
  "tran_speed_fu = [10000, 100000, 1000000, 10000000, 0, 0, 0, 0]"

definition tran_speed_mf :: "u32 list" where
  "tran_speed_mf = [0, 10, 12, 13, 15, 20, 25, 30, 35, 40, 45, 50, 55, 60, 70, 80]"

definition csd_dtr :: "u8 \<Rightarrow> u32" where
  "csd_dtr tran_speed = tran_speed_fu ! unat (tran_speed AND 7) *
     tran_speed_mf ! unat (drop_bit 3 tran_speed AND 15)"

text \<open>The fields that the parsers of both kinds of card read first.\<close>

definition csd_common :: "u32 list \<Rightarrow> sdio_csd \<Rightarrow> sdio_csd" where
  "csd_common rsp csd =
    csd\<lparr>csd_taac := rsp8 rsp 128 112 8,
      csd_nsac := rsp8 rsp 128 104 8,
      csd_tran_speed := rsp8 rsp 128 96 8,
      csd_ccc := ucast (sdio_extract_bits rsp 128 84 12),
      csd_read_bl_len := rsp8 rsp 128 80 4,
      csd_read_bl_partial := rsp8 rsp 128 79 1,
      csd_write_blk_misalign := rsp8 rsp 128 78 1,
      csd_read_blk_misalign := rsp8 rsp 128 77 1,
      csd_dsr_imp := rsp8 rsp 128 76 1\<rparr>"

definition csd_currents :: "u32 list \<Rightarrow> sdio_csd \<Rightarrow> sdio_csd" where
  "csd_currents rsp csd =
    csd\<lparr>csd_c_size := sdio_extract_bits rsp 128 62 12,
      csd_vdd_r_curr_min := rsp8 rsp 128 59 3,
      csd_vdd_r_curr_max := rsp8 rsp 128 56 3,
      csd_vdd_w_curr_min := rsp8 rsp 128 53 3,
      csd_vdd_w_curr_max := rsp8 rsp 128 50 3,
      csd_c_size_mult := rsp8 rsp 128 47 3\<rparr>"

text \<open>The end of both parsers: blocks of more than 512 bytes are counted in units of 512 bytes. The
  products are of 32-bit operands.\<close>

definition csd_capacity :: "u32 \<Rightarrow> u32 \<Rightarrow> u32 \<Rightarrow> sdio_csd \<Rightarrow> sdio_csd" where
  "csd_capacity blksz csize csizem csd =
    (let big = (blksz > SDIO_DFLT_BLKSZ \<and> blksz mod SDIO_DFLT_BLKSZ = 0);
         csize = (if big then csize * (blksz div SDIO_DFLT_BLKSZ) else csize);
         blksz = (if big then SDIO_DFLT_BLKSZ else blksz)
     in csd\<lparr>csd_blksz := blksz, csd_sectors := ucast (csize * csizem),
          csd_dtr_max := csd_dtr (csd_tran_speed csd)\<rparr>)"

definition sd_csd_tail :: "u32 list \<Rightarrow> sdio_csd \<Rightarrow> sdio_csd" where
  "sd_csd_tail rsp csd =
    csd\<lparr>csd_erase_blk_en := rsp8 rsp 128 46 1,
      csd_sector_size := rsp8 rsp 128 39 7,
      csd_wp_grp_size := rsp8 rsp 128 32 7,
      csd_wp_grp_enable := rsp8 rsp 128 31 1,
      csd_r2w_factor := rsp8 rsp 128 26 3,
      csd_write_bl_len := rsp8 rsp 128 22 4,
      csd_write_bl_partial := rsp8 rsp 128 21 1,
      csd_write_protect := rsp8 rsp 128 12 2\<rparr>"

definition sd_parse_csd :: "sdio_dev \<Rightarrow> u32 list \<Rightarrow> sdio_dev \<times> sdio_csd \<times> errno" where
  "sd_parse_csd dev rsp =
    (let csd = csd_common rsp (csd_zero\<lparr>csd_structure := rsp8 rsp 128 126 2\<rparr>) in
     if csd_structure csd = 0 then
       (let csd = csd_currents rsp csd;
            blksz = push_bit (unat (csd_read_bl_len csd)) 1;
            csize = csd_c_size csd + 1;
            csizem = push_bit (unat (csd_c_size_mult csd) + 2) 1
        in (dev, csd_capacity blksz csize csizem (sd_csd_tail rsp csd), EOK))
     else if csd_structure csd = 1 then
       (let csd = csd\<lparr>csd_c_size := sdio_extract_bits rsp 128 48 22\<rparr>
        in (dev\<lparr>dev_caps := dev_caps dev OR DEV_CAP_HC\<rparr>,
            csd_capacity SDIO_DFLT_BLKSZ (csd_c_size csd + 1) 1024 (sd_csd_tail rsp csd), EOK))
     else if csd_structure csd = 2 then
       (let c_size = sdio_extract_bits rsp 128 48 28;
            csd = csd\<lparr>csd_c_size := (if c_size > CSD_VER_20_CSIZE_MAX then CSD_VER_20_CSIZE_MAX
                                     else c_size)\<rparr>
        in (dev\<lparr>dev_caps := dev_caps dev OR (DEV_CAP_HC OR DEV_CAP_UC)\<rparr>,
            csd_capacity SDIO_DFLT_BLKSZ (csd_c_size csd + 1) 1024 (sd_csd_tail rsp csd), EOK))
     else (dev, csd, EINVAL))"

text \<open>\<open>ENDIAN_BE32\<close> on this little-endian machine.\<close>

definition ENDIAN_BE32 :: "u32 \<Rightarrow> u32" where
  "ENDIAN_BE32 x = push_bit 24 x OR push_bit 8 (x AND 0xff00) OR (drop_bit 8 x AND 0xff00) OR drop_bit 24 x"

definition sd_parse_scr :: "sdio_dev \<Rightarrow> u32 list \<Rightarrow> sdio_dev \<times> sd_scr \<times> u32 list \<times> errno" where
  "sd_parse_scr dev rscr =
    (let rscr = rscr[0 := ENDIAN_BE32 (rscr ! 0)];
         rscr = rscr[1 := ENDIAN_BE32 (rscr ! 1)];
         scr = \<lparr>scr_structure = rsp8 rscr 64 60 4,
                scr_sd_spec = rsp8 rscr 64 56 4,
                scr_data_stat_after_erase = rsp8 rscr 64 55 1,
                scr_sd_security = rsp8 rscr 64 52 3,
                scr_sd_bus_widths = rsp8 rscr 64 48 4,
                scr_sd_spec3 = rsp8 rscr 64 47 1,
                scr_sd_spec4 = rsp8 rscr 64 42 1,
                scr_sd_specx = rsp8 rscr 64 38 4,
                scr_ex_security = rsp8 rscr 64 43 4,
                scr_cmd_support = rsp8 rscr 64 32 4\<rparr>
     in (if scr_cmd_support scr AND SCR_CMD23_SUP \<noteq> 0
         then dev\<lparr>dev_caps := dev_caps dev OR DEV_CAP_CMD23\<rparr> else dev, scr, rscr, EOK))"

definition sd_erase_grp_size :: "sdio_dev \<Rightarrow> u64" where
  "sd_erase_grp_size dev =
    (if csd_erase_blk_en (dev_csd dev) \<noteq> 0 then 512
     else ucast ((ucast (csd_sector_size (dev_csd dev)) + 1) *
                 push_bit (unat (csd_write_bl_len (dev_csd dev))) (1 :: u32)))"

definition SD_ERASE_TIMEOUT :: u32 where "SD_ERASE_TIMEOUT = 250"

text \<open>Both products are of 32-bit operands and are widened afterwards.\<close>

definition sd_erase_timeout :: "sdio_dev \<Rightarrow> u32 \<Rightarrow> u32 \<Rightarrow> u64" where
  "sd_erase_timeout dev etype nlba =
    (if sds_erase_timeout (dev_sds dev) \<noteq> 0
     then ucast (sds_erase_timeout (dev_sds dev) * nlba + sds_erase_offset (dev_sds dev))
     else ucast (SD_ERASE_TIMEOUT * nlba))"

section \<open>MMC devices\<close>

definition mmc_parse_cid :: "sdio_dev \<Rightarrow> u32 list \<Rightarrow> sdio_cid \<times> errno" where
  "mmc_parse_cid dev rsp =
    (let v = csd_spec_vers (dev_csd dev) in
     if v = 0 \<or> v = 1 then
       (cid_zero\<lparr>cid_mid := sdio_extract_bits rsp 128 104 24,
          cid_pnm := sd_pnm rsp 7 (cid_pnm cid_zero),
          cid_prv := sdio_extract_bits rsp 128 40 8,
          cid_month := sdio_extract_bits rsp 128 12 4,
          cid_year := sdio_extract_bits rsp 128 8 4 + 1997\<rparr>, EOK)
     else if v = 2 \<or> v = 3 \<or> v = 4 then
       (cid_zero\<lparr>cid_mid := sdio_extract_bits rsp 128 120 8,
          cid_oid := sdio_extract_bits rsp 128 104 8,
          cid_pnm := sd_pnm rsp 6 (cid_pnm cid_zero),
          cid_prv := sdio_extract_bits rsp 128 48 8,
          cid_psn := sdio_extract_bits rsp 128 16 32,
          cid_month := sdio_extract_bits rsp 128 12 4,
          cid_year := sdio_extract_bits rsp 128 8 4 + 1997\<rparr>, EOK)
     else (cid_zero, EINVAL))"

definition mmc_csd_erase :: "u32 list \<Rightarrow> sdio_csd \<Rightarrow> sdio_csd" where
  "mmc_csd_erase rsp csd =
    (if csd_structure csd = 0 \<or> csd_structure csd = 1 then
       csd\<lparr>csd_erase_grp_mult := 1, csd_sector_size := rsp8 rsp 128 42 5,
         csd_erase_grp_size := rsp8 rsp 128 37 5\<rparr>
     else if csd_structure csd = 2 \<or> csd_structure csd = 3 then
       csd\<lparr>csd_erase_grp_mult := rsp8 rsp 128 37 5, csd_erase_grp_size := rsp8 rsp 128 42 5\<rparr>
     else csd)"

definition mmc_csd_tail :: "u32 list \<Rightarrow> sdio_csd \<Rightarrow> sdio_csd" where
  "mmc_csd_tail rsp csd =
    csd\<lparr>csd_wp_grp_size := rsp8 rsp 128 32 5,
      csd_wp_grp_enable := rsp8 rsp 128 31 1,
      csd_r2w_factor := rsp8 rsp 128 26 3,
      csd_write_bl_len := rsp8 rsp 128 22 4,
      csd_write_bl_partial := rsp8 rsp 128 21 1,
      csd_write_protect := rsp8 rsp 128 12 2\<rparr>"

definition mmc_parse_csd :: "u32 list \<Rightarrow> sdio_csd \<times> errno" where
  "mmc_parse_csd rsp =
    (let csd = csd_zero\<lparr>csd_structure := rsp8 rsp 128 126 2, csd_spec_vers := rsp8 rsp 128 122 4\<rparr>;
         csd = mmc_csd_tail rsp (mmc_csd_erase rsp (csd_currents rsp (csd_common rsp csd)))
     in (csd_capacity (push_bit (unat (csd_read_bl_len csd)) 1) (csd_c_size csd + 1)
           (push_bit (unat (csd_c_size_mult csd) + 2) 1) csd, EOK))"

text \<open>The extended CSD is a block of 512 bytes. Its parser works through the revisions of the
  standard in order; each step below is one of its blocks. It reads the host's capabilities and may
  reset the host's driver type.\<close>

definition DEV_CAP_HS :: u64 where "DEV_CAP_HS = push_bit 1 1"
definition DEV_CAP_HS200 :: u64 where "DEV_CAP_HS200 = push_bit 2 1"
definition DEV_CAP_DDR50 :: u64 where "DEV_CAP_DDR50 = push_bit 3 1"
definition DEV_CAP_TRIM :: u64 where "DEV_CAP_TRIM = push_bit 5 1"
definition DEV_CAP_SECURE :: u64 where "DEV_CAP_SECURE = push_bit 6 1"
definition DEV_CAP_SANITIZE :: u64 where "DEV_CAP_SANITIZE = push_bit 7 1"
definition DEV_CAP_BKOPS :: u64 where "DEV_CAP_BKOPS = push_bit 8 1"
definition DEV_CAP_SLEEP :: u64 where "DEV_CAP_SLEEP = push_bit 10 1"
definition DEV_CAP_HPI_CMD12 :: u64 where "DEV_CAP_HPI_CMD12 = push_bit 12 1"
definition DEV_CAP_DISCARD :: u64 where "DEV_CAP_DISCARD = push_bit 14 1"
definition DEV_CAP_CACHE :: u64 where "DEV_CAP_CACHE = push_bit 15 1"
definition DEV_CAP_HS400 :: u64 where "DEV_CAP_HS400 = push_bit 16 1"
definition DEV_CAP_PWROFF_NOTIFY :: u64 where "DEV_CAP_PWROFF_NOTIFY = push_bit 17 1"
definition DEV_CAP_HS400ES :: u64 where "DEV_CAP_HS400ES = push_bit 18 1"
definition DEV_CAP_BKOPS_AUTO :: u64 where "DEV_CAP_BKOPS_AUTO = push_bit 19 1"
definition DEV_CAP_WR_REL :: u64 where "DEV_CAP_WR_REL = push_bit 21 1"
definition DEV_CAP_WR_REL_ENH :: u64 where "DEV_CAP_WR_REL_ENH = push_bit 22 1"
definition DEV_FLAG_BKOPS :: u32 where "DEV_FLAG_BKOPS = 0x1000"

definition HC_CAP_HS :: u64 where "HC_CAP_HS = push_bit 9 1"
definition HC_CAP_DDR50 :: u64 where "HC_CAP_DDR50 = push_bit 14 1"
definition HC_CAP_HS200 :: u64 where "HC_CAP_HS200 = push_bit 15 1"
definition HC_CAP_HS400 :: u64 where "HC_CAP_HS400 = push_bit 16 1"
definition HC_CAP_HS400ES :: u64 where "HC_CAP_HS400ES = push_bit 34 1"
definition HC_CAP_SV_1_2V :: u64 where "HC_CAP_SV_1_2V = push_bit 28 1"
definition HC_CAP_SV_1_8V :: u64 where "HC_CAP_SV_1_8V = push_bit 29 1"
definition HC_CAP_SV_3_0V :: u64 where "HC_CAP_SV_3_0V = push_bit 30 1"

definition add_cap :: "u64 \<Rightarrow> sdio_dev \<Rightarrow> sdio_dev" where
  "add_cap c dev = dev\<lparr>dev_caps := dev_caps dev OR c\<rparr>"

definition add_cap_if :: "bool \<Rightarrow> u64 \<Rightarrow> sdio_dev \<Rightarrow> sdio_dev" where
  "add_cap_if b c dev = (if b then add_cap c dev else dev)"

definition set_ecsd :: "(sdio_ecsd \<Rightarrow> sdio_ecsd) \<Rightarrow> sdio_dev \<Rightarrow> sdio_dev" where
  "set_ecsd f dev = dev\<lparr>dev_ecsd := f (dev_ecsd dev)\<rparr>"

definition ecsd_sec_cnt :: "u8 list \<Rightarrow> u32" where
  "ecsd_sec_cnt raw = ucast (raw ! 212) OR push_bit 8 (ucast (raw ! 213)) OR
     push_bit 16 (ucast (raw ! 214)) OR push_bit 24 (ucast (raw ! 215))"

definition ecsd_v4_2 :: "u8 list \<Rightarrow> sdio_dev \<Rightarrow> sdio_dev" where
  "ecsd_v4_2 raw dev =
    add_cap_if (ecsd_sec_cnt raw > 0x400000) DEV_CAP_HC (set_ecsd (ecsd_sectors_update (\<lambda>_. ecsd_sec_cnt raw)) dev)"

definition ecsd_v4_3 :: "u8 list \<Rightarrow> sdio_dev \<Rightarrow> sdio_dev" where
  "ecsd_v4_3 raw dev =
    (let dev = set_ecsd (ecsd_part_config_update (\<lambda>_. raw ! 179 AND 7)) dev;
         dev = dev\<lparr>dev_pactive := ucast (raw ! 179 AND 7)\<rparr>;
         dev = (if raw ! 225 \<noteq> 0
                then set_ecsd (ecsd_acc_size_update (\<lambda>_. 512 * push_bit (unat (raw ! 225 - 1)) 1)) dev
                else dev);
         dev = dev\<lparr>dev_rel_wr_sec_c := ucast (raw ! 222)\<rparr>;
         dev = add_cap_if (raw ! 166 AND 4 \<noteq> 0) (DEV_CAP_WR_REL OR DEV_CAP_WR_REL_ENH) dev;
         dev = add_cap DEV_CAP_SLEEP dev
     in if raw ! 217 \<noteq> 0 \<and> raw ! 217 \<le> 0x17
        then set_ecsd (ecsd_s_a_timeout_update (\<lambda>_. push_bit (unat (raw ! 217)) 1)) dev else dev)"

definition ecsd_v4_4 :: "u8 list \<Rightarrow> sdio_dev \<Rightarrow> sdio_dev" where
  "ecsd_v4_4 raw dev =
    add_cap_if (raw ! 231 AND 1 \<noteq> 0) DEV_CAP_SECURE (add_cap_if (raw ! 231 AND 0x10 \<noteq> 0) DEV_CAP_TRIM dev)"

definition ecsd_v4_41 :: "u8 list \<Rightarrow> sdio_dev \<Rightarrow> sdio_dev" where
  "ecsd_v4_41 raw dev =
    (let dev = (if raw ! 502 AND 1 \<noteq> 0 then
                  (let dev = set_ecsd (ecsd_bkops_en_update (\<lambda>_. raw ! 163)) (add_cap DEV_CAP_BKOPS dev)
                   in if raw ! 163 AND 1 \<noteq> 0 then dev\<lparr>dev_flags := dev_flags dev OR DEV_FLAG_BKOPS\<rparr> else dev)
                else dev);
         dev = add_cap_if (raw ! 503 AND 2 \<noteq> 0) DEV_CAP_HPI_CMD12 dev
     in if cid_year (dev_cid dev) < 2010
        then dev\<lparr>dev_cid := (dev_cid dev)\<lparr>cid_year := cid_year (dev_cid dev) + (2013 - 1997)\<rparr>\<rparr> else dev)"

text \<open>\<open>None\<close>: the native sector size is invalid. The mask leaves one bit of it, so this cannot happen;
  the branch is in the code.\<close>

definition ecsd_native :: "u8 list \<Rightarrow> sdio_dev \<Rightarrow> sdio_dev option" where
  "ecsd_native raw dev =
    (if raw ! 62 AND 1 \<noteq> 0 then
       (if raw ! 63 AND 1 = 0 then Some (set_ecsd (ecsd_blksz_update (\<lambda>_. 512)) dev)
        else if raw ! 63 AND 1 = 1 then Some (set_ecsd (ecsd_blksz_update (\<lambda>_. 4096)) dev)
        else None)
     else Some dev)"

definition ecsd_v4_5 :: "u8 list \<Rightarrow> sdio_dev \<Rightarrow> u32 \<Rightarrow> sdio_dev \<times> u32" where
  "ecsd_v4_5 raw dev drv_type =
    (let dev = add_cap_if (raw ! 249 \<noteq> 0 \<or> raw ! 250 \<noteq> 0 \<or> raw ! 251 \<noteq> 0 \<or> raw ! 252 \<noteq> 0) DEV_CAP_CACHE dev;
         dev = set_ecsd (ecsd_driver_strength_update (\<lambda>_. raw ! 197)) dev;
         drv_type = (if (ucast (raw ! 197) :: u32) AND push_bit (unat drv_type) 1 = 0 then 0 else drv_type);
         dev = add_cap_if (raw ! 231 AND 0x40 \<noteq> 0) DEV_CAP_SANITIZE dev
     in (add_cap DEV_CAP_PWROFF_NOTIFY (add_cap DEV_CAP_DISCARD dev), drv_type))"

definition ecsd_v5_1 :: "u8 list \<Rightarrow> u64 \<Rightarrow> sdio_dev \<Rightarrow> sdio_dev" where
  "ecsd_v5_1 raw caps dev =
    (let dev = set_ecsd (ecsd_strobe_update (\<lambda>_. raw ! 184)) dev;
         dev = add_cap_if (caps AND HC_CAP_HS400ES \<noteq> 0 \<and> raw ! 184 \<noteq> 0) DEV_CAP_HS400ES dev
     in add_cap_if (dev_caps dev AND DEV_CAP_BKOPS \<noteq> 0) DEV_CAP_BKOPS_AUTO dev)"

text \<open>The speed modes that the card and the host have in common. The arguments are the two bits of
  the card type for 1.8 V and 1.2 V.\<close>

definition sv_match :: "u64 \<Rightarrow> u64 \<Rightarrow> u8 \<Rightarrow> u8 \<Rightarrow> u8 \<Rightarrow> bool" where
  "sv_match caps sv18 ct t18 t12 \<longleftrightarrow>
     caps AND sv18 \<noteq> 0 \<and> ct AND t18 \<noteq> 0 \<or> caps AND HC_CAP_SV_1_2V \<noteq> 0 \<and> ct AND t12 \<noteq> 0"

definition ecsd_speed :: "u8 list \<Rightarrow> u64 \<Rightarrow> sdio_dev \<Rightarrow> sdio_dev" where
  "ecsd_speed raw caps dev =
    (let ct = raw ! 196 AND 0xff;
         dev = set_ecsd (ecsd_card_type_update (\<lambda>_. ct)) dev;
         dev = (if caps AND (HC_CAP_HS400 OR HC_CAP_HS400ES) \<noteq> 0 \<and> ct AND 0xc0 \<noteq> 0 \<and>
                   sv_match caps HC_CAP_SV_1_8V ct 0x40 0x80
                then set_ecsd (ecsd_dtr_max_hs_update (\<lambda>_. 200000000)) (add_cap (DEV_CAP_HS400 OR DEV_CAP_HS) dev)
                else dev);
         dev = (if caps AND HC_CAP_HS200 \<noteq> 0 \<and> ct AND 0x30 \<noteq> 0 \<and> sv_match caps HC_CAP_SV_1_8V ct 0x10 0x20
                then set_ecsd (ecsd_dtr_max_hs_update (\<lambda>_. 200000000)) (add_cap (DEV_CAP_HS200 OR DEV_CAP_HS) dev)
                else dev);
         dev = (if dev_caps dev AND DEV_CAP_HS = 0 \<and> caps AND HC_CAP_HS \<noteq> 0 \<and> ct AND 0x0e \<noteq> 0
                then set_ecsd (ecsd_dtr_max_hs_update (\<lambda>_. 52000000)) (add_cap DEV_CAP_HS dev) else dev);
         dev = (if dev_caps dev AND DEV_CAP_HS = 0
                then set_ecsd (ecsd_dtr_max_hs_update (\<lambda>_. 26000000)) dev else dev)
     in add_cap_if (caps AND HC_CAP_DDR50 \<noteq> 0 \<and> ct AND 0x0c \<noteq> 0 \<and>
          sv_match caps (HC_CAP_SV_3_0V OR HC_CAP_SV_1_8V) ct 0x04 0x08) DEV_CAP_DDR50 dev)"

definition ecsd_times :: "u8 list \<Rightarrow> u8 list" where
  "ecsd_times raw =
    (let raw = (if raw ! 199 = 0 then raw[199 := 100] else raw)
     in if raw ! 198 = 0 then raw[198 := 100] else raw)"

definition ecsd_groups :: "u8 list \<Rightarrow> sdio_ecsd \<Rightarrow> sdio_ecsd" where
  "ecsd_groups raw e =
    e\<lparr>ecsd_erase_grp_def := raw ! 175, ecsd_hc_erase_group_size := raw ! 224,
      ecsd_hc_wp_grp_size := raw ! 221, ecsd_user_wp := raw ! 171\<rparr>"

definition mmc_parse_ext_csd :: "u64 \<Rightarrow> u32 \<Rightarrow> sdio_dev \<Rightarrow> u8 list \<Rightarrow> sdio_dev \<times> u32 \<times> u8 list \<times> errno" where
  "mmc_parse_ext_csd caps drv_type dev raw =
    (let rev = raw ! 192;
         dev = dev\<lparr>dev_ecsd := ecsd_zero\<lparr>ecsd_ext_csd_rev := rev, ecsd_blksz := SDIO_DFLT_BLKSZ\<rparr>, dev_pactive := 0\<rparr>;
         dev = add_cap DEV_CAP_CMD23 dev;
         dev = (if rev \<ge> 2 then ecsd_v4_2 raw dev else dev);
         dev = (if rev \<ge> 3 then ecsd_v4_3 raw dev else dev);
         dev = (if rev \<ge> 4 then ecsd_v4_4 raw dev else dev);
         dev = (if rev \<ge> 5 then ecsd_v4_41 raw dev else dev)
     in case (if rev \<ge> 6 then ecsd_native raw dev else Some dev) of
          None \<Rightarrow> (dev, drv_type, raw, EINVAL)
        | Some dev \<Rightarrow>
            (let (dev, drv_type) = (if rev \<ge> 6 then ecsd_v4_5 raw dev drv_type else (dev, drv_type));
                 dev = (if rev \<ge> 8 then ecsd_v5_1 raw caps dev else dev);
                 dev = ecsd_speed raw caps dev;
                 raw = ecsd_times raw
             in (set_ecsd (ecsd_groups raw) dev, drv_type, raw, EOK)))"

definition MMC_ERASE_GRP_512K :: u64 where "MMC_ERASE_GRP_512K = 0x80000"

definition mmc_wp_grp_size :: "sdio_dev \<Rightarrow> u64" where
  "mmc_wp_grp_size dev =
    (if ecsd_erase_grp_def (dev_ecsd dev) \<noteq> 0
     then ucast (ecsd_hc_wp_grp_size (dev_ecsd dev)) * ucast (ecsd_hc_erase_group_size (dev_ecsd dev)) *
       MMC_ERASE_GRP_512K
     else ucast ((ucast (csd_erase_grp_size (dev_csd dev)) + 1) * (ucast (csd_erase_grp_mult (dev_csd dev)) + 1) *
       (ucast (csd_wp_grp_size (dev_csd dev)) + 1) * 512 :: u32))"

definition mmc_erase_grp_size :: "sdio_dev \<Rightarrow> u64" where
  "mmc_erase_grp_size dev =
    (if ecsd_erase_grp_def (dev_ecsd dev) \<noteq> 0
     then ucast (ecsd_hc_erase_group_size (dev_ecsd dev)) * MMC_ERASE_GRP_512K
     else ucast ((ucast (csd_erase_grp_size (dev_csd dev)) + 1) * (ucast (csd_erase_grp_mult (dev_csd dev)) + 1) *
       512 :: u32))"

end
