(* ===== verification/Sdio_Hc.thy ===== *)
theory Sdio_Hc
  imports Sdio_Card
begin

text \<open>
  The state that the SD/MMC driver keeps per host controller, and the services of \<open>sdiodi/base.c\<close> and
  \<open>sdiodi/card.c\<close> that the controller code calls.

  \<^item> \<open>sdio_hc\<close> is \<open>sdio_hc_t\<close> with its configuration, the work space of the active transfer, the
    chip's own \<open>sdhci_hc_t\<close> and the card. Pointers are addresses; the objects they lead to are kept in
    one store per type: commands, scatter/gather entries, bytes of data.
  \<^item> \<open>hlog\<close> is the log of register accesses and delays, newest first. A device is a function of the
    log, so what a register reads may depend on everything that happened before.
  \<^item> \<open>sdio_env\<close> holds code of other packages: the device, the translation of addresses of \<open>libcam\<close>
    and the numbers of \<open>errno.h\<close>.
  \<^item> The work space that steps through a scatter list (\<open>sdio_sg_start\<close>, \<open>sdio_sg_nxt\<close>), the pool of
    command blocks, completion and the event call-back.
\<close>

section \<open>Register accesses\<close>

datatype width = W8 | W16 | W32

datatype sdio_io = IN width u32 u32 | OUT width u32 u32 | DELAY nat

type_synonym sd_device = "sdio_io list \<Rightarrow> width \<Rightarrow> u32 \<Rightarrow> u32"

definition clip :: "width \<Rightarrow> u32 \<Rightarrow> u32" where
  "clip w v = (case w of W8 \<Rightarrow> v AND 0xff | W16 \<Rightarrow> v AND 0xffff | W32 \<Rightarrow> v)"

section \<open>Data\<close>

record sdio_sge =
  sg_address :: u64
  sg_count :: u32

record sdio_cmd =
  cmd_flags :: u32
  cmd_status :: u32
  cmd_opcode :: u32
  cmd_arg :: u32
  cmd_earg :: u32
  cmd_rsp :: "u32 list"
  cmd_blks :: u32
  cmd_blksz :: u32
  cmd_sgc :: u32
  cmd_sgl :: u64
  cmd_mhdl :: u64

record adma_desc =
  ad_attr :: u16
  ad_len :: u16
  ad_addr_lo :: u32
  ad_addr_hi :: u32
  ad_reserved :: u32

record sdio_wspc =
  wspc_cmd :: u64
  wspc_sge :: u64
  wspc_sga :: u64
  wspc_nsg :: u32
  wspc_sgc :: u32

text \<open>\<open>sdhci_hc_t\<close>. The descriptor table is a store of descriptors by position, so that a position
  outside the table can be told apart: \<open>sdhci_init\<close> allocates positions 0 to \<open>ADMA_DESC_MAX - 1\<close>.
  \<open>sh_base\<close> and \<open>sh_adma_ok\<close> say whether the registers are mapped and the table is allocated.\<close>

record sdhci_hc =
  sh_base :: bool
  sh_flags :: u32
  sh_clk_mul :: u32
  sh_tuning_mode :: u32
  sh_sgl :: "sdio_sge list"
  sh_adma :: "int \<Rightarrow> adma_desc"
  sh_adma_ok :: bool
  sh_admap :: u64

record hc_cfg =
  cfg_caps :: u64
  cfg_bmstr_xlat :: u64
  cfg_sg_max :: u32
  cfg_hsoptions :: string

record sdio_hc =
  hlog :: "sdio_io list"
  hc_cfg :: hc_cfg
  hc_device :: sdio_dev
  hc_flags :: u32
  hc_caps :: u64
  hc_version :: u32
  hc_clk_min :: u32
  hc_clk_max :: u32
  hc_clk_init :: u32
  hc_ocr :: u32
  hc_clk :: u32
  hc_vdd :: u32
  hc_timing :: u32
  hc_drv_type :: u32
  hc_bus_mode :: u32
  hc_bus_width :: u32
  hc_signal_voltage :: u32
  hc_bus_errs :: u32
  hc_tuning_count :: u32
  hc_wspc :: sdio_wspc
  hc_cs_hdl :: bool
  hc_cs_frees :: nat
  hc_cs :: sdhci_hc
  hc_iid :: int
  dev_rca :: u32
  dev_ocr :: u32
  dev_block_length :: u32
  dev_dtype :: u32
  cmd_mem :: "u64 \<Rightarrow> sdio_cmd"
  sge_mem :: "u64 \<Rightarrow> sdio_sge"
  data_mem :: "u64 \<Rightarrow> u8"
  cmd_pool :: "u64 list"
  cmd_fresh :: "u64 list"
  cd_pulses :: nat
  intr_sched :: "nat list"

text \<open>\<open>hc_cs_hdl\<close>: the pointer to \<open>hc_cs\<close> is not \<open>NULL\<close>; \<open>hc_cs_frees\<close> counts the calls of \<open>free\<close> on it since it
  was allocated. The fields from \<open>dev_rca\<close> to \<open>dev_dtype\<close> belong to \<open>sdio_dev_t\<close>. \<open>cmd_pool\<close> is the free list \<open>sdio_ctrl.clist\<close>,
  \<open>cmd_fresh\<close> the addresses that \<open>calloc\<close> will return next (none left: \<open>NULL\<close>), \<open>cd_pulses\<close> the number of
  pulses sent to the card detection thread. \<open>intr_sched\<close> is the schedule: for each wait for a command, how many
  interrupts the controller's thread handles before the wait times out.\<close>

record sdio_env =
  env_hw :: sd_device
  env_vtop_sg :: "u64 \<Rightarrow> sdio_sge list \<Rightarrow> sdio_sge list"
  env_errno :: "errno \<Rightarrow> u32"

definition sdhci_in :: "sdio_env \<Rightarrow> width \<Rightarrow> u32 \<Rightarrow> sdio_hc \<Rightarrow> sdio_hc \<times> u32" where
  "sdhci_in env w r s = (let v = clip w (env_hw env (hlog s) w r) in (s\<lparr>hlog := IN w r v # hlog s\<rparr>, v))"

definition sdhci_out :: "width \<Rightarrow> u32 \<Rightarrow> u32 \<Rightarrow> sdio_hc \<Rightarrow> sdio_hc" where
  "sdhci_out w r v s = s\<lparr>hlog := OUT w r (clip w v) # hlog s\<rparr>"

definition pause :: "nat \<Rightarrow> sdio_hc \<Rightarrow> sdio_hc" where
  "pause usec s = s\<lparr>hlog := DELAY usec # hlog s\<rparr>"

abbreviation "sdhci_in8 env \<equiv> sdhci_in env W8"
abbreviation "sdhci_in16 env \<equiv> sdhci_in env W16"
abbreviation "sdhci_in32 env \<equiv> sdhci_in env W32"
abbreviation "sdhci_out8 \<equiv> sdhci_out W8"
abbreviation "sdhci_out16 \<equiv> sdhci_out W16"
abbreviation "sdhci_out32 \<equiv> sdhci_out W32"

text \<open>The time spent in delays, in microseconds.\<close>

fun waited :: "sdio_io list \<Rightarrow> nat" where
  "waited [] = 0"
| "waited (DELAY n # l) = n + waited l"
| "waited (IN _ _ _ # l) = waited l"
| "waited (OUT _ _ _ # l) = waited l"

section \<open>Command flags and status\<close>

abbreviation (input) SCF_CTYPE_BC :: u32 where "SCF_CTYPE_BC \<equiv> 0x1"
abbreviation (input) SCF_CTYPE_BCR :: u32 where "SCF_CTYPE_BCR \<equiv> 0x2"
abbreviation (input) SCF_CTYPE_AC :: u32 where "SCF_CTYPE_AC \<equiv> 0x4"
abbreviation (input) SCF_CTYPE_ADTC :: u32 where "SCF_CTYPE_ADTC \<equiv> 0x8"
abbreviation (input) SCF_RSP_PRESENT :: u32 where "SCF_RSP_PRESENT \<equiv> 0x10"
abbreviation (input) SCF_RSP_136 :: u32 where "SCF_RSP_136 \<equiv> 0x20"
abbreviation (input) SCF_RSP_CRC :: u32 where "SCF_RSP_CRC \<equiv> 0x40"
abbreviation (input) SCF_RSP_BUSY :: u32 where "SCF_RSP_BUSY \<equiv> 0x80"
abbreviation (input) SCF_RSP_OPCODE :: u32 where "SCF_RSP_OPCODE \<equiv> 0x100"
abbreviation (input) SCF_RSP_NONE :: u32 where "SCF_RSP_NONE \<equiv> 0"
abbreviation (input) SCF_RSP_R1 :: u32 where "SCF_RSP_R1 \<equiv> 0x150"
abbreviation (input) SCF_RSP_R1B :: u32 where "SCF_RSP_R1B \<equiv> 0x1d0"
abbreviation (input) SCF_RSP_R2 :: u32 where "SCF_RSP_R2 \<equiv> 0x70"
abbreviation (input) SCF_DIR_IN :: u32 where "SCF_DIR_IN \<equiv> 0x200"
abbreviation (input) SCF_DIR_OUT :: u32 where "SCF_DIR_OUT \<equiv> 0x400"
abbreviation (input) SCF_DATA_MSK :: u32 where "SCF_DATA_MSK \<equiv> 0x600"
abbreviation (input) SCF_APP_CMD :: u32 where "SCF_APP_CMD \<equiv> 0x800"
abbreviation (input) SCF_SBC :: u32 where "SCF_SBC \<equiv> 0x1000"
abbreviation (input) SCF_WAIT_DRDY :: u32 where "SCF_WAIT_DRDY \<equiv> 0x2000"
abbreviation (input) SCF_SBC_RLW :: u32 where "SCF_SBC_RLW \<equiv> 0x4000"
abbreviation (input) SCF_DATA_PHYS :: u32 where "SCF_DATA_PHYS \<equiv> 0x1000000"

abbreviation (input) CS_CMD_INPROG :: u32 where "CS_CMD_INPROG \<equiv> 0"
abbreviation (input) CS_CMD_CMP :: u32 where "CS_CMD_CMP \<equiv> 1"
abbreviation (input) CS_CMD_CMP_ERR :: u32 where "CS_CMD_CMP_ERR \<equiv> 3"
abbreviation (input) CS_CMD_IDX_ERR :: u32 where "CS_CMD_IDX_ERR \<equiv> 4"
abbreviation (input) CS_CMD_TO_ERR :: u32 where "CS_CMD_TO_ERR \<equiv> 5"
abbreviation (input) CS_CMD_CRC_ERR :: u32 where "CS_CMD_CRC_ERR \<equiv> 6"
abbreviation (input) CS_CMD_END_ERR :: u32 where "CS_CMD_END_ERR \<equiv> 7"
abbreviation (input) CS_DATA_TO_ERR :: u32 where "CS_DATA_TO_ERR \<equiv> 8"
abbreviation (input) CS_DATA_CRC_ERR :: u32 where "CS_DATA_CRC_ERR \<equiv> 9"
abbreviation (input) CS_DATA_END_ERR :: u32 where "CS_DATA_END_ERR \<equiv> 10"
abbreviation (input) CS_CARD_REMOVED :: u32 where "CS_CARD_REMOVED \<equiv> 11"

abbreviation (input) HC_CAP_SLOT_TYPE_EMBEDDED :: u64 where "HC_CAP_SLOT_TYPE_EMBEDDED \<equiv> 1"
abbreviation (input) HC_CAP_DMA :: u64 where "HC_CAP_DMA \<equiv> 4"
abbreviation (input) HC_CAP_ACMD12 :: u64 where "HC_CAP_ACMD12 \<equiv> 0x40"
abbreviation (input) HC_CAP_ACMD23 :: u64 where "HC_CAP_ACMD23 \<equiv> 0x80"
abbreviation (input) HC_CAP_BSY :: u64 where "HC_CAP_BSY \<equiv> 0x200000000"

abbreviation (input) HC_FLAG_RST :: u32 where "HC_FLAG_RST \<equiv> 4"
abbreviation (input) HC_FLAG_TUNE :: u32 where "HC_FLAG_TUNE \<equiv> 8"
abbreviation (input) HC_FLAG_DEV_MMC :: u32 where "HC_FLAG_DEV_MMC \<equiv> 0x20"
abbreviation (input) HC_FLAG_SKIP_PWRUP :: u32 where "HC_FLAG_SKIP_PWRUP \<equiv> 0x80"

abbreviation (input) DEV_FLAG_PRESENT :: u32 where "DEV_FLAG_PRESENT \<equiv> 1"
abbreviation (input) DEV_FLAG_LOCKED :: u32 where "DEV_FLAG_LOCKED \<equiv> 2"
abbreviation (input) DEV_FLAG_MEDIA_CHANGE :: u32 where "DEV_FLAG_MEDIA_CHANGE \<equiv> 8"
abbreviation (input) DEV_FLAG_HS200 :: u32 where "DEV_FLAG_HS200 \<equiv> 0x100"
abbreviation (input) DEV_FLAG_HS400 :: u32 where "DEV_FLAG_HS400 \<equiv> 0x200"
abbreviation (input) DEV_FLAG_DDR :: u32 where "DEV_FLAG_DDR \<equiv> 0x400"
abbreviation (input) DEV_FLAG_UHS :: u32 where "DEV_FLAG_UHS \<equiv> 0x800"
abbreviation (input) DEV_FLAG_HS400ES :: u32 where "DEV_FLAG_HS400ES \<equiv> 0x10000"

section \<open>Helpers of the sources\<close>

definition set_dev_flags :: "u32 \<Rightarrow> sdio_hc \<Rightarrow> sdio_hc" where
  "set_dev_flags f s = s\<lparr>hc_device := (hc_device s)\<lparr>dev_flags := dev_flags (hc_device s) OR f\<rparr>\<rparr>"

definition upd_wspc :: "(sdio_wspc \<Rightarrow> sdio_wspc) \<Rightarrow> sdio_hc \<Rightarrow> sdio_hc" where
  "upd_wspc f s = s\<lparr>hc_wspc := f (hc_wspc s)\<rparr>"

definition upd_cmd :: "u64 \<Rightarrow> (sdio_cmd \<Rightarrow> sdio_cmd) \<Rightarrow> sdio_hc \<Rightarrow> sdio_hc" where
  "upd_cmd p f s = s\<lparr>cmd_mem := (cmd_mem s)(p := f (cmd_mem s p))\<rparr>"

text \<open>Position of the most significant bit, from 1; 0 for no bit.\<close>

fun fls_loop :: "nat \<Rightarrow> u32 \<Rightarrow> nat" where
  "fls_loop 0 val = 0"
| "fls_loop (Suc idx) val =
    (if val = 0 then 0 else if val AND 0x80000000 \<noteq> 0 then Suc idx else fls_loop idx (push_bit 1 val))"

definition fls :: "u32 \<Rightarrow> nat" where
  "fls val = fls_loop 32 val"

definition SGE_SIZE :: u64 where "SGE_SIZE = 16"

text \<open>The entries of a scatter list in memory.\<close>

definition sge_list :: "sdio_hc \<Rightarrow> u64 \<Rightarrow> nat \<Rightarrow> sdio_sge list" where
  "sge_list s p n = map (\<lambda>i. sge_mem s (p + SGE_SIZE * of_nat i)) [0 ..< n]"

definition sdio_sg_start :: "u64 \<Rightarrow> u32 \<Rightarrow> sdio_hc \<Rightarrow> sdio_hc \<times> errno" where
  "sdio_sg_start sge nsg s =
    (if nsg = 0 \<and> sge = 0 then (s, EINVAL)
     else (upd_wspc (\<lambda>w. w\<lparr>wspc_nsg := nsg, wspc_sge := sge, wspc_sgc := sg_count (sge_mem s sge),
              wspc_sga := sg_address (sge_mem s sge)\<rparr>) s, EOK))"

text \<open>\<open>None\<close>: the list is complete. Otherwise the address and the length of the next piece.\<close>

definition sdio_sg_nxt :: "u32 \<Rightarrow> sdio_hc \<Rightarrow> sdio_hc \<times> (u64 \<times> u32) option" where
  "sdio_sg_nxt blksz s =
    (let w = hc_wspc s in
     if wspc_nsg w = 0 \<and> wspc_sgc w = 0 then (s, None)
     else
       (let w = (if wspc_sgc w = 0 then
                   (let e = wspc_sge w + SGE_SIZE in
                    w\<lparr>wspc_sge := e, wspc_nsg := wspc_nsg w - 1, wspc_sgc := sg_count (sge_mem s e),
                      wspc_sga := sg_address (sge_mem s e)\<rparr>)
                 else w);
            addr = wspc_sga w;
            len = min (wspc_sgc w) blksz
        in (s\<lparr>hc_wspc := w\<lparr>wspc_sga := wspc_sga w + ucast len, wspc_sgc := wspc_sgc w - len\<rparr>\<rparr>,
            Some (addr, len))))"

text \<open>The next option of a list separated by colons: the rest of the list, the position of the name
  among the tokens, and the value; without a match the value is the option itself.\<close>

fun tok_index :: "nat \<Rightarrow> string list \<Rightarrow> string \<Rightarrow> nat option" where
  "tok_index i [] name = None"
| "tok_index i (t # ts) name = (if t = name \<and> name \<noteq> [] then Some i else tok_index (i + 1) ts name)"

definition sdio_hc_getsubopt :: "string \<Rightarrow> string list \<Rightarrow> string \<times> nat option \<times> string option" where
  "sdio_hc_getsubopt opt tokens =
    (let name = takeWhile (\<lambda>c. c \<noteq> CHR '':'' \<and> c \<noteq> CHR ''='') opt;
         p = drop (length name) opt;
         (value, p) = (case p of
             c # q \<Rightarrow> if c = CHR ''='' then (Some (takeWhile (\<lambda>c. c \<noteq> CHR '':'') q), dropWhile (\<lambda>c. c \<noteq> CHR '':'') q)
                     else (None, p)
           | [] \<Rightarrow> (None, p));
         rest = tl p
     in case tok_index 0 tokens name of
          Some i \<Rightarrow> (rest, Some i, value)
        | None \<Rightarrow> (rest, None, Some (takeWhile (\<lambda>c. c \<noteq> CHR '':'') opt)))"

section \<open>Command blocks\<close>

definition cmd_zero :: sdio_cmd where
  "cmd_zero = \<lparr>cmd_flags = 0, cmd_status = 0, cmd_opcode = 0, cmd_arg = 0, cmd_earg = 0,
     cmd_rsp = [0, 0, 0, 0], cmd_blks = 0, cmd_blksz = 0, cmd_sgc = 0, cmd_sgl = 0, cmd_mhdl = 0\<rparr>"

definition sdio_alloc_cmd :: "sdio_hc \<Rightarrow> sdio_hc \<times> u64" where
  "sdio_alloc_cmd s =
    (case cmd_pool s of
       p # ps \<Rightarrow> (upd_cmd p (\<lambda>_. cmd_zero) (s\<lparr>cmd_pool := ps\<rparr>), p)
     | [] \<Rightarrow> (case cmd_fresh s of
         p # ps \<Rightarrow> (upd_cmd p (\<lambda>_. cmd_zero) (s\<lparr>cmd_fresh := ps\<rparr>), p)
       | [] \<Rightarrow> (s, 0)))"

definition sdio_free_cmd :: "u64 \<Rightarrow> sdio_hc \<Rightarrow> sdio_hc" where
  "sdio_free_cmd p s = s\<lparr>cmd_pool := cmd_pool s @ [p]\<rparr>"

definition sdio_setup_cmd_ext :: "u64 \<Rightarrow> u32 \<Rightarrow> u32 \<Rightarrow> u32 \<Rightarrow> u32 \<Rightarrow> sdio_hc \<Rightarrow> sdio_hc" where
  "sdio_setup_cmd_ext p flgs opc arg earg s =
    upd_cmd p (\<lambda>c. c\<lparr>cmd_opcode := opc, cmd_arg := arg, cmd_earg := earg, cmd_flags := flgs\<rparr>) s"

definition sdio_setup_cmd :: "u64 \<Rightarrow> u32 \<Rightarrow> u32 \<Rightarrow> u32 \<Rightarrow> sdio_hc \<Rightarrow> sdio_hc" where
  "sdio_setup_cmd p flgs opc arg s = sdio_setup_cmd_ext p flgs opc arg 0 s"

definition sdio_setup_cmd_io :: "u64 \<Rightarrow> u32 \<Rightarrow> u32 \<Rightarrow> u32 \<Rightarrow> u64 \<Rightarrow> u32 \<Rightarrow> u64 \<Rightarrow> sdio_hc \<Rightarrow> sdio_hc" where
  "sdio_setup_cmd_io p flgs blks blksz sgl sgc mhdl s =
    upd_cmd p (\<lambda>c. c\<lparr>cmd_mhdl := mhdl, cmd_flags := cmd_flags c OR flgs, cmd_blks := blks,
      cmd_blksz := blksz, cmd_sgl := sgl, cmd_sgc := sgc\<rparr>) s"

text \<open>The call-backs of the controller code: completion of a command and card detection or
  re-tuning.\<close>

definition sdio_cmd_cmplt :: "u64 \<Rightarrow> u32 \<Rightarrow> sdio_hc \<Rightarrow> sdio_hc" where
  "sdio_cmd_cmplt p status s =
    upd_cmd p (\<lambda>c. c\<lparr>cmd_status := status\<rparr>) (upd_wspc (\<lambda>w. w\<lparr>wspc_cmd := 0\<rparr>) s)"

datatype hc_ev = HC_EV_CD | HC_EV_TUNE | HC_EV_INTR | HC_EV_OTHER

definition sdio_hc_event :: "hc_ev \<Rightarrow> sdio_hc \<Rightarrow> sdio_hc" where
  "sdio_hc_event ev s =
    (case ev of
       HC_EV_CD \<Rightarrow> (set_dev_flags DEV_FLAG_MEDIA_CHANGE s)\<lparr>cd_pulses := cd_pulses s + 1\<rparr>
     | HC_EV_TUNE \<Rightarrow> s\<lparr>hc_flags := hc_flags s OR HC_FLAG_TUNE\<rparr>
     | _ \<Rightarrow> s)"

end
