(* ===== verification/Sdhci.thy ===== *)
theory Sdhci
  imports Sdio_Hc
begin

text \<open>
  The SD host controller, \<open>sdiodi/hc/sdhci.c\<close> with the registers of \<open>sdhci.h\<close>, in the configuration of
  this board (no \<open>BS_EVENT\<close>, no \<open>BS_GPIO_INS_RMV\<close>, none of the other chips' blocks, no debugging).

  \<^item> Every function of the file is one definition. Register offsets are relative to \<open>sdhc->base\<close>.
  \<^item> \<open>sdhci_pio_xfer\<close> runs as long as the controller reports its buffer ready. Its first argument
    bounds the blocks; \<open>None\<close> means that the bound was reached.
  \<^item> \<open>sdhci_tune\<close> takes the function that issues a command as an argument; \<open>Sdio_Cmd\<close> passes
    \<open>sdio_issue_cmd\<close>.
\<close>

section \<open>Registers\<close>

abbreviation (input) SDHCI_SDMA_ARG2 :: u32 where "SDHCI_SDMA_ARG2 \<equiv> 0x00"
abbreviation (input) SDHCI_32BIT_BLK_CNT :: u32 where "SDHCI_32BIT_BLK_CNT \<equiv> 0x00"
abbreviation (input) SDHCI_BLK :: u32 where "SDHCI_BLK \<equiv> 0x04"
abbreviation (input) SDHCI_ARG :: u32 where "SDHCI_ARG \<equiv> 0x08"
abbreviation (input) SDHCI_CMD :: u32 where "SDHCI_CMD \<equiv> 0x0C"
abbreviation (input) SDHCI_RESP0 :: u32 where "SDHCI_RESP0 \<equiv> 0x10"
abbreviation (input) SDHCI_DATA :: u32 where "SDHCI_DATA \<equiv> 0x20"
abbreviation (input) SDHCI_PSTATE :: u32 where "SDHCI_PSTATE \<equiv> 0x24"
abbreviation (input) SDHCI_HCTL :: u32 where "SDHCI_HCTL \<equiv> 0x28"
abbreviation (input) SDHCI_SYSCTL :: u32 where "SDHCI_SYSCTL \<equiv> 0x2C"
abbreviation (input) SDHCI_IS :: u32 where "SDHCI_IS \<equiv> 0x30"
abbreviation (input) SDHCI_IE :: u32 where "SDHCI_IE \<equiv> 0x34"
abbreviation (input) SDHCI_ISE :: u32 where "SDHCI_ISE \<equiv> 0x38"
abbreviation (input) SDHCI_HCTL2 :: u32 where "SDHCI_HCTL2 \<equiv> 0x3E"
abbreviation (input) SDHCI_CAP :: u32 where "SDHCI_CAP \<equiv> 0x40"
abbreviation (input) SDHCI_CAP2 :: u32 where "SDHCI_CAP2 \<equiv> 0x44"
abbreviation (input) SDHCI_MCCAP :: u32 where "SDHCI_MCCAP \<equiv> 0x48"
abbreviation (input) SDHCI_ADMA_ADDRL :: u32 where "SDHCI_ADMA_ADDRL \<equiv> 0x58"
abbreviation (input) SDHCI_ADMA_ADDRH :: u32 where "SDHCI_ADMA_ADDRH \<equiv> 0x5C"
abbreviation (input) SDHCI_HCTL_VERSION :: u32 where "SDHCI_HCTL_VERSION \<equiv> 0xFE"

abbreviation (input) SDHCI_CMD_DE :: u32 where "SDHCI_CMD_DE \<equiv> 0x1"
abbreviation (input) SDHCI_CMD_BCE :: u32 where "SDHCI_CMD_BCE \<equiv> 0x2"
abbreviation (input) SDHCI_CMD_ACMD12 :: u32 where "SDHCI_CMD_ACMD12 \<equiv> 0x4"
abbreviation (input) SDHCI_CMD_ACMD23 :: u32 where "SDHCI_CMD_ACMD23 \<equiv> 0x8"
abbreviation (input) SDHCI_CMD_DDIR :: u32 where "SDHCI_CMD_DDIR \<equiv> 0x10"
abbreviation (input) SDHCI_CMD_MBS :: u32 where "SDHCI_CMD_MBS \<equiv> 0x20"
abbreviation (input) SDHCI_CMD_RSP_TYPE_136 :: u32 where "SDHCI_CMD_RSP_TYPE_136 \<equiv> 0x10000"
abbreviation (input) SDHCI_CMD_RSP_TYPE_48 :: u32 where "SDHCI_CMD_RSP_TYPE_48 \<equiv> 0x20000"
abbreviation (input) SDHCI_CMD_RSP_TYPE_48b :: u32 where "SDHCI_CMD_RSP_TYPE_48b \<equiv> 0x30000"
abbreviation (input) SDHCI_CMD_CCCE :: u32 where "SDHCI_CMD_CCCE \<equiv> 0x80000"
abbreviation (input) SDHCI_CMD_CICE :: u32 where "SDHCI_CMD_CICE \<equiv> 0x100000"
abbreviation (input) SDHCI_CMD_DP :: u32 where "SDHCI_CMD_DP \<equiv> 0x200000"
abbreviation (input) SDHCI_CMD_TYPE_CMD12 :: u32 where "SDHCI_CMD_TYPE_CMD12 \<equiv> 0xC00000"

abbreviation (input) SDHCI_PSTATE_DLSL_MSK :: u32 where "SDHCI_PSTATE_DLSL_MSK \<equiv> 0xF00000"
abbreviation (input) SDHCI_PSTATE_WP :: u32 where "SDHCI_PSTATE_WP \<equiv> 0x80000"
abbreviation (input) SDHCI_PSTATE_CI :: u32 where "SDHCI_PSTATE_CI \<equiv> 0x10000"
abbreviation (input) SDHCI_PSTATE_BRE :: u32 where "SDHCI_PSTATE_BRE \<equiv> 0x800"
abbreviation (input) SDHCI_PSTATE_BWE :: u32 where "SDHCI_PSTATE_BWE \<equiv> 0x400"
abbreviation (input) SDHCI_PSTATE_DATI :: u32 where "SDHCI_PSTATE_DATI \<equiv> 0x2"
abbreviation (input) SDHCI_PSTATE_CMDI :: u32 where "SDHCI_PSTATE_CMDI \<equiv> 0x1"
abbreviation (input) SDHCI_CARD_STABLE :: u32 where "SDHCI_CARD_STABLE \<equiv> 0x70000"

abbreviation (input) SDHCI_HCTL_DTW4 :: u32 where "SDHCI_HCTL_DTW4 \<equiv> 0x2"
abbreviation (input) SDHCI_HCTL_HSE :: u32 where "SDHCI_HCTL_HSE \<equiv> 0x4"
abbreviation (input) SDHCI_HCTL_DMA_MSK :: u32 where "SDHCI_HCTL_DMA_MSK \<equiv> 0x18"
abbreviation (input) SDHCI_HCTL_SDMA :: u32 where "SDHCI_HCTL_SDMA \<equiv> 0"
abbreviation (input) SDHCI_HCTL_ADMA32 :: u32 where "SDHCI_HCTL_ADMA32 \<equiv> 0x10"
abbreviation (input) SDHCI_HCTL_ADMA64 :: u32 where "SDHCI_HCTL_ADMA64 \<equiv> 0x18"
abbreviation (input) SDHCI_HCTL_ADMA2 :: u32 where "SDHCI_HCTL_ADMA2 \<equiv> 0x10"
abbreviation (input) SDHCI_HCTL_MMC8 :: u32 where "SDHCI_HCTL_MMC8 \<equiv> 0x8"
abbreviation (input) SDHCI_HCTL_BW8 :: u32 where "SDHCI_HCTL_BW8 \<equiv> 0x20"
abbreviation (input) SDHCI_HCTL_SDBP :: u32 where "SDHCI_HCTL_SDBP \<equiv> 0x100"
abbreviation (input) SDHCI_HCTL_SDVS1V8 :: u32 where "SDHCI_HCTL_SDVS1V8 \<equiv> 0xA00"
abbreviation (input) SDHCI_HCTL_SDVS3V0 :: u32 where "SDHCI_HCTL_SDVS3V0 \<equiv> 0xC00"
abbreviation (input) SDHCI_HCTL_SDVS3V3 :: u32 where "SDHCI_HCTL_SDVS3V3 \<equiv> 0xE00"
abbreviation (input) SDHCI_HCTL_SDVS_MSK :: u32 where "SDHCI_HCTL_SDVS_MSK \<equiv> 0xE00"

abbreviation (input) SDHCI_SYSCTL_ICE :: u32 where "SDHCI_SYSCTL_ICE \<equiv> 0x1"
abbreviation (input) SDHCI_SYSCTL_ICS :: u32 where "SDHCI_SYSCTL_ICS \<equiv> 0x2"
abbreviation (input) SDHCI_SYSCTL_CEN :: u32 where "SDHCI_SYSCTL_CEN \<equiv> 0x4"
abbreviation (input) SDHCI_SYSCTL_CGS_PROG :: u32 where "SDHCI_SYSCTL_CGS_PROG \<equiv> 0x20"
abbreviation (input) SDHCI_SYSCTL_SDCLKFS_MSK :: u32 where "SDHCI_SYSCTL_SDCLKFS_MSK \<equiv> 0xffc0"
abbreviation (input) SDHCI_SYSCTL_DTO_MSK :: u32 where "SDHCI_SYSCTL_DTO_MSK \<equiv> 0xF0000"
abbreviation (input) SDHCI_SYSCTL_DTO_MAX :: u32 where "SDHCI_SYSCTL_DTO_MAX \<equiv> 0xE0000"
abbreviation (input) SDHCI_SYSCTL_SRA :: u32 where "SDHCI_SYSCTL_SRA \<equiv> 0x1000000"
abbreviation (input) SDHCI_SYSCTL_SRC :: u32 where "SDHCI_SYSCTL_SRC \<equiv> 0x2000000"
abbreviation (input) SDHCI_SYSCTL_SRD :: u32 where "SDHCI_SYSCTL_SRD \<equiv> 0x4000000"

definition SDHCI_SYSCTL_CLK :: "u32 \<Rightarrow> u32" where
  "SDHCI_SYSCTL_CLK c = (push_bit 8 c AND 0xff00) OR (drop_bit 2 c AND 0xc0)"

abbreviation (input) SDHCI_INTR_CC :: u32 where "SDHCI_INTR_CC \<equiv> 0x1"
abbreviation (input) SDHCI_INTR_TC :: u32 where "SDHCI_INTR_TC \<equiv> 0x2"
abbreviation (input) SDHCI_INTR_DMA :: u32 where "SDHCI_INTR_DMA \<equiv> 0x8"
abbreviation (input) SDHCI_INTR_BWR :: u32 where "SDHCI_INTR_BWR \<equiv> 0x10"
abbreviation (input) SDHCI_INTR_BRR :: u32 where "SDHCI_INTR_BRR \<equiv> 0x20"
abbreviation (input) SDHCI_INTR_CINS :: u32 where "SDHCI_INTR_CINS \<equiv> 0x40"
abbreviation (input) SDHCI_INTR_CREM :: u32 where "SDHCI_INTR_CREM \<equiv> 0x80"
abbreviation (input) SDCHI_INTR_RETUNE :: u32 where "SDCHI_INTR_RETUNE \<equiv> 0x1000"
abbreviation (input) SDHCI_INTR_ERRI :: u32 where "SDHCI_INTR_ERRI \<equiv> 0x8000"
abbreviation (input) SDHCI_INTR_CTO :: u32 where "SDHCI_INTR_CTO \<equiv> 0x10000"
abbreviation (input) SDHCI_INTR_CCRC :: u32 where "SDHCI_INTR_CCRC \<equiv> 0x20000"
abbreviation (input) SDHCI_INTR_CEB :: u32 where "SDHCI_INTR_CEB \<equiv> 0x40000"
abbreviation (input) SDHCI_INTR_CIE :: u32 where "SDHCI_INTR_CIE \<equiv> 0x80000"
abbreviation (input) SDHCI_INTR_DTO :: u32 where "SDHCI_INTR_DTO \<equiv> 0x100000"
abbreviation (input) SDHCI_INTR_DCRC :: u32 where "SDHCI_INTR_DCRC \<equiv> 0x200000"
abbreviation (input) SDHCI_INTR_DEB :: u32 where "SDHCI_INTR_DEB \<equiv> 0x400000"
abbreviation (input) SDHCI_INTR_ACE :: u32 where "SDHCI_INTR_ACE \<equiv> 0x1000000"
abbreviation (input) SDHCI_INTR_ADMAE :: u32 where "SDHCI_INTR_ADMAE \<equiv> 0x2000000"
abbreviation (input) SDHCI_INTR_DFLTS :: u32 where "SDHCI_INTR_DFLTS \<equiv> 0x30F8000"
abbreviation (input) SDHCI_INTR_ALL :: u32 where "SDHCI_INTR_ALL \<equiv> 0x33ff87ff"
abbreviation (input) SDHCI_INTR_CLR_MSK :: u32 where "SDHCI_INTR_CLR_MSK \<equiv> 0x117f80f3"

abbreviation (input) SDHCI_HCTL2_PRESET_VAL :: u32 where "SDHCI_HCTL2_PRESET_VAL \<equiv> 0x8000"
abbreviation (input) SDHCI_HCTL2_64BIT_ADDR :: u32 where "SDHCI_HCTL2_64BIT_ADDR \<equiv> 0x2000"
abbreviation (input) SDHCI_HCTL2_V4_MODE :: u32 where "SDHCI_HCTL2_V4_MODE \<equiv> 0x1000"
abbreviation (input) SDHCI_HCTL2_TUNED_CLK :: u32 where "SDHCI_HCTL2_TUNED_CLK \<equiv> 0x80"
abbreviation (input) SDHCI_HCTL2_EXEC_TUNING :: u32 where "SDHCI_HCTL2_EXEC_TUNING \<equiv> 0x40"
abbreviation (input) SDHCI_HCTL2_DRV_TYPE_MSK :: u32 where "SDHCI_HCTL2_DRV_TYPE_MSK \<equiv> 0x30"
abbreviation (input) SDHCI_HCTL2_SIG_1_8V :: u32 where "SDHCI_HCTL2_SIG_1_8V \<equiv> 0x8"
abbreviation (input) SDHCI_HCTL2_MODE_MSK :: u32 where "SDHCI_HCTL2_MODE_MSK \<equiv> 0x7"

abbreviation (input) SDHCI_ADMA2_VALID :: u16 where "SDHCI_ADMA2_VALID \<equiv> 0x1"
abbreviation (input) SDHCI_ADMA2_END :: u16 where "SDHCI_ADMA2_END \<equiv> 0x2"
abbreviation (input) SDHCI_ADMA2_TRAN :: u16 where "SDHCI_ADMA2_TRAN \<equiv> 0x20"
abbreviation (input) SDHCI_ADMA2_MAX_XFER :: u32 where "SDHCI_ADMA2_MAX_XFER \<equiv> 61440"
abbreviation (input) ADMA_DESC_MAX :: nat where "ADMA_DESC_MAX \<equiv> 256"

abbreviation (input) SF_USE_SDMA :: u32 where "SF_USE_SDMA \<equiv> 0x01"
abbreviation (input) SF_USE_ADMA :: u32 where "SF_USE_ADMA \<equiv> 0x02"
abbreviation (input) SF_TUNE_SDR50 :: u32 where "SF_TUNE_SDR50 \<equiv> 0x04"
abbreviation (input) SF_USE_ADMA64 :: u32 where "SF_USE_ADMA64 \<equiv> 0x08"
abbreviation (input) SF_DIS_64BIT :: u32 where "SF_DIS_64BIT \<equiv> 0x10"
abbreviation (input) SF_V4_MODE :: u32 where "SF_V4_MODE \<equiv> 0x20"
abbreviation (input) SF_ICE_PERSIST :: u32 where "SF_ICE_PERSIST \<equiv> 0x40"

abbreviation (input) SDHCI_SPEC_VER_2 :: u32 where "SDHCI_SPEC_VER_2 \<equiv> 1"
abbreviation (input) SDHCI_SPEC_VER_3 :: u32 where "SDHCI_SPEC_VER_3 \<equiv> 2"
abbreviation (input) SDHCI_SPEC_VER_4 :: u32 where "SDHCI_SPEC_VER_4 \<equiv> 3"

section \<open>Waiting and reset\<close>

fun poll :: "sdio_env \<Rightarrow> u32 \<Rightarrow> u32 \<Rightarrow> u32 \<Rightarrow> nat \<Rightarrow> nat \<Rightarrow> sdio_hc \<Rightarrow> sdio_hc \<times> errno" where
  "poll env reg msk val usec 0 s = (s, ETIMEDOUT)"
| "poll env reg msk val usec (Suc cnt) s =
    (let (s, rval) = sdhci_in32 env reg s
     in if rval AND msk = val then (s, EOK) else poll env reg msk val usec cnt (pause usec s))"

definition sdhci_waitmask :: "sdio_env \<Rightarrow> u32 \<Rightarrow> u32 \<Rightarrow> u32 \<Rightarrow> u32 \<Rightarrow> sdio_hc \<Rightarrow> sdio_hc \<times> errno" where
  "sdhci_waitmask env reg msk val usec s =
    (let (s, stat) = poll env reg msk val 1 (unat (min usec 1000)) s
     in if usec > 1000 \<and> stat \<noteq> EOK then poll env reg msk val 1000 (unat (usec div 1000)) s else (s, stat))"

definition sdhci_reset :: "sdio_env \<Rightarrow> u32 \<Rightarrow> sdio_hc \<Rightarrow> sdio_hc \<times> errno" where
  "sdhci_reset env rst s =
    (let (s, sctl) = sdhci_in32 env SDHCI_SYSCTL s;
         s = sdhci_out32 SDHCI_SYSCTL (sctl OR rst) s;
         (s, status) = sdhci_waitmask env SDHCI_SYSCTL rst 0 100000 s;
         s = (if hc_flags s AND SF_ICE_PERSIST \<noteq> 0 \<and> rst AND SDHCI_SYSCTL_SRA \<noteq> 0
              then fst (sdhci_waitmask env SDHCI_SYSCTL SDHCI_SYSCTL_ICS SDHCI_SYSCTL_ICS 20000
                          (sdhci_out32 SDHCI_SYSCTL SDHCI_SYSCTL_ICE (pause 1000 s)))
              else s)
     in (s, status))"

section \<open>Transfer by the processor\<close>

definition store32 :: "u64 \<Rightarrow> u32 \<Rightarrow> sdio_hc \<Rightarrow> sdio_hc" where
  "store32 a v s = s\<lparr>data_mem := (data_mem s)(a := ucast v, a + 1 := ucast (drop_bit 8 v),
     a + 2 := ucast (drop_bit 16 v), a + 3 := ucast (drop_bit 24 v))\<rparr>"

definition load32 :: "u64 \<Rightarrow> sdio_hc \<Rightarrow> u32" where
  "load32 a s = ucast (data_mem s a) OR push_bit 8 (ucast (data_mem s (a + 1))) OR
     push_bit 16 (ucast (data_mem s (a + 2))) OR push_bit 24 (ucast (data_mem s (a + 3)))"

text \<open>\<open>sdhci_out32s\<close> stores each word through a pointer to 16 bits.\<close>

fun sdhci_in32s :: "sdio_env \<Rightarrow> u64 \<Rightarrow> nat \<Rightarrow> sdio_hc \<Rightarrow> sdio_hc" where
  "sdhci_in32s env addr 0 s = s"
| "sdhci_in32s env addr (Suc n) s =
    (let (s, v) = sdhci_in32 env SDHCI_DATA s in sdhci_in32s env (addr + 4) n (store32 addr v s))"

fun sdhci_out32s :: "u64 \<Rightarrow> nat \<Rightarrow> sdio_hc \<Rightarrow> sdio_hc" where
  "sdhci_out32s addr 0 s = s"
| "sdhci_out32s addr (Suc n) s = sdhci_out32s (addr + 4) n (sdhci_out16 SDHCI_DATA (load32 addr s) s)"

text \<open>One block: \<open>while( blksz )\<close>. A piece of length 0 advances the scatter list, so the loop ends.\<close>

function pio_block :: "sdio_env \<Rightarrow> bool \<Rightarrow> u32 \<Rightarrow> sdio_hc \<Rightarrow> sdio_hc" where
  "pio_block env rd blksz s =
    (if blksz = 0 then s
     else case sdio_sg_nxt blksz s of
         (s1, None) \<Rightarrow> s1
       | (s1, Some (addr, len)) \<Rightarrow>
           pio_block env rd (blksz - len)
             (if rd then sdhci_in32s env addr (unat (len div 4)) s1
              else sdhci_out32s addr (unat (len div 4)) s1))"
  by pat_completeness auto

lemma in32s_frame [simp]: "hc_wspc (sdhci_in32s env addr n s) = hc_wspc s"
  by (induction n arbitrary: addr s) (auto simp: sdhci_in_def Let_def store32_def)

lemma out32s_frame [simp]: "hc_wspc (sdhci_out32s addr n s) = hc_wspc s"
  by (induction n arbitrary: addr s) (auto simp: sdhci_out_def)

lemma sg_nxt_progress:
  assumes "sdio_sg_nxt blksz s = (s1, Some (addr, len))" "blksz \<noteq> 0"
  shows "unat (blksz - len) + unat (wspc_nsg (hc_wspc s1)) < unat blksz + unat (wspc_nsg (hc_wspc s))"
proof -
  let ?w = "hc_wspc s"
  have le: "len \<le> blksz" and ne: "\<not> (wspc_nsg ?w = 0 \<and> wspc_sgc ?w = 0)"
    using assms(1) by (auto simp: sdio_sg_nxt_def Let_def split: if_splits)
  have sub: "unat (blksz - len) = unat blksz - unat len" "unat len \<le> unat blksz"
    using le by (simp_all add: unat_sub word_le_nat_alt)
  show ?thesis
  proof (cases "wspc_sgc ?w = 0")
    case True
    then have "wspc_nsg ?w \<noteq> 0" and n: "wspc_nsg (hc_wspc s1) = wspc_nsg ?w - 1"
      using ne assms(1) by (auto simp: sdio_sg_nxt_def Let_def)
    then have "unat (wspc_nsg ?w - 1) = unat (wspc_nsg ?w) - 1" "0 < unat (wspc_nsg ?w)"
      by (simp_all add: unat_minus_one unat_gt_0)
    then show ?thesis using sub n by simp
  next
    case False
    then have "wspc_nsg (hc_wspc s1) = wspc_nsg ?w" "len = min (wspc_sgc ?w) blksz"
      using assms(1) by (auto simp: sdio_sg_nxt_def Let_def)
    moreover have "0 < unat len" using False assms(2) calculation(2) by (simp add: unat_gt_0 min_def)
    ultimately show ?thesis using sub by simp
  qed
qed

termination pio_block
  by (relation "measure (\<lambda>(env, rd, blksz, s). unat blksz + unat (wspc_nsg (hc_wspc s)))")
    (auto dest!: sg_nxt_progress [OF sym])

declare pio_block.simps [simp del]

fun sdhci_pio_xfer :: "nat \<Rightarrow> sdio_env \<Rightarrow> sdio_cmd \<Rightarrow> sdio_hc \<Rightarrow> (sdio_hc \<times> errno) option" where
  "sdhci_pio_xfer 0 env cmd s = None"
| "sdhci_pio_xfer (Suc n) env cmd s =
    (let rd = (cmd_flags cmd AND SCF_DIR_IN \<noteq> 0);
         (s, ps) = sdhci_in32 env SDHCI_PSTATE s
     in if ps AND (if rd then SDHCI_PSTATE_BRE else SDHCI_PSTATE_BWE) \<noteq> 0
        then sdhci_pio_xfer n env cmd (pio_block env rd (cmd_blksz cmd) s)
        else Some (s, EOK))"

section \<open>Interrupts\<close>

text \<open>The status of a command from the error bits: later tests override earlier ones.\<close>

definition intr_error :: "u32 \<Rightarrow> u32" where
  "intr_error sts =
    (let cs = CS_CMD_INPROG;
         cs = (if sts AND SDHCI_INTR_DTO \<noteq> 0 then CS_DATA_TO_ERR else cs);
         cs = (if sts AND SDHCI_INTR_DCRC \<noteq> 0 then CS_DATA_CRC_ERR else cs);
         cs = (if sts AND SDHCI_INTR_DEB \<noteq> 0 then CS_DATA_END_ERR else cs);
         cs = (if sts AND SDHCI_INTR_CTO \<noteq> 0 then CS_CMD_TO_ERR else cs);
         cs = (if sts AND SDHCI_INTR_CCRC \<noteq> 0 then CS_CMD_CRC_ERR else cs);
         cs = (if sts AND SDHCI_INTR_CEB \<noteq> 0 then CS_CMD_END_ERR else cs);
         cs = (if sts AND SDHCI_INTR_CIE \<noteq> 0 then CS_CMD_IDX_ERR else cs);
         cs = (if sts AND SDHCI_INTR_ADMAE \<noteq> 0 then CS_DATA_TO_ERR else cs);
         cs = (if sts AND SDHCI_INTR_ACE \<noteq> 0 then CS_DATA_TO_ERR else cs)
     in if cs = 0 then CS_CMD_CMP_ERR else cs)"

text \<open>The response of 136 bits: the loop over the four response registers.\<close>

fun rsp136 :: "sdio_env \<Rightarrow> u64 \<Rightarrow> nat \<Rightarrow> nat \<Rightarrow> u8 \<Rightarrow> sdio_hc \<Rightarrow> sdio_hc" where
  "rsp136 env p 0 idx rbyte s = s"
| "rsp136 env p (Suc n) idx rbyte s =
    (let (s, r) = sdhci_in32 env (SDHCI_RESP0 + of_nat idx * 4) s;
         s = upd_cmd p (\<lambda>c. c\<lparr>cmd_rsp := (cmd_rsp c)[3 - idx := push_bit 8 r + ucast rbyte]\<rparr>) s
     in rsp136 env p n (idx + 1) (ucast (drop_bit 24 r)) s)"

definition rsp_word0 :: "sdio_env \<Rightarrow> u64 \<Rightarrow> sdio_hc \<Rightarrow> sdio_hc" where
  "rsp_word0 env p s =
    (let (s, r) = sdhci_in32 env SDHCI_RESP0 s in upd_cmd p (\<lambda>c. c\<lparr>cmd_rsp := (cmd_rsp c)[0 := r]\<rparr>) s)"

definition intr_cc :: "sdio_env \<Rightarrow> u64 \<Rightarrow> sdio_hc \<Rightarrow> sdio_hc" where
  "intr_cc env p s =
    (if cmd_flags (cmd_mem s p) AND SCF_RSP_136 \<noteq> 0 then rsp136 env p 4 0 0 s
     else if cmd_flags (cmd_mem s p) AND SCF_RSP_PRESENT \<noteq> 0 then rsp_word0 env p s
     else s)"

abbreviation (input) SD_SEND_TUNING_BLOCK :: u32 where "SD_SEND_TUNING_BLOCK \<equiv> 19"
abbreviation (input) MMC_SEND_TUNING_BLOCK :: u32 where "MMC_SEND_TUNING_BLOCK \<equiv> 21"

text \<open>The branch without errors. \<open>cs = sdhci_pio_xfer( ... )\<close> stores \<open>EOK\<close>, which is 0.\<close>

definition intr_normal :: "nat \<Rightarrow> sdio_env \<Rightarrow> u32 \<Rightarrow> u64 \<Rightarrow> sdio_hc \<Rightarrow> (sdio_hc \<times> u32) option" where
  "intr_normal n env sts p s =
    (let cs = CS_CMD_INPROG;
         (s, cs) = (if sts AND SDHCI_INTR_CC \<noteq> 0 then (intr_cc env p s, CS_CMD_CMP) else (s, cs));
         (s, cs) = (if sts AND SDHCI_INTR_TC \<noteq> 0 then (rsp_word0 env p s, CS_CMD_CMP)
                    else if sts AND SDHCI_INTR_DMA \<noteq> 0
                    then (let (s, a) = sdhci_in32 env SDHCI_SDMA_ARG2 s
                          in (sdhci_out32 SDHCI_SDMA_ARG2 a s, cs))
                    else (s, cs))
     in if sts AND (SDHCI_INTR_BWR OR SDHCI_INTR_BRR) \<noteq> 0 then
          (if cmd_opcode (cmd_mem s p) = SD_SEND_TUNING_BLOCK \<or> cmd_opcode (cmd_mem s p) = MMC_SEND_TUNING_BLOCK
           then Some (s, CS_CMD_CMP)
           else map_option (\<lambda>(s, e). (s, env_errno env e)) (sdhci_pio_xfer n env (cmd_mem s p) s))
        else Some (s, cs))"

definition sdhci_intr_event :: "nat \<Rightarrow> sdio_env \<Rightarrow> sdio_hc \<Rightarrow> sdio_hc option" where
  "sdhci_intr_event n env s =
    (let (s, sts) = sdhci_in32 env SDHCI_IS s in
     if sts = 0 then Some s
     else
       (let (s, ie) = sdhci_in32 env SDHCI_IE s;
            sts = sts AND (ie OR SDHCI_INTR_ERRI);
            s = sdhci_out32 SDHCI_IS sts s;
            s = (if sts AND (SDHCI_INTR_CINS OR SDHCI_INTR_CREM) \<noteq> 0 then sdio_hc_event HC_EV_CD s else s);
            s = (if sts AND SDCHI_INTR_RETUNE \<noteq> 0 then sdio_hc_event HC_EV_TUNE s else s);
            p = wspc_cmd (hc_wspc s)
        in if p = 0 then Some s
           else
             (case (if sts AND SDHCI_INTR_ERRI \<noteq> 0
                    then Some (fst (sdhci_reset env SDHCI_SYSCTL_SRC (fst (sdhci_reset env SDHCI_SYSCTL_SRD s))),
                               intr_error sts)
                    else intr_normal n env sts p s) of
                None \<Rightarrow> None
              | Some (s, cs) \<Rightarrow>
                  (let cs = (if sts AND SDHCI_INTR_CREM \<noteq> 0 then CS_CARD_REMOVED else cs)
                   in Some (if cs \<noteq> CS_CMD_INPROG then sdio_cmd_cmplt p cs s else s)))))"

text \<open>\<open>InterruptUnmask\<close> leaves this state alone.\<close>

definition sdhci_event :: "nat \<Rightarrow> sdio_env \<Rightarrow> hc_ev \<Rightarrow> sdio_hc \<Rightarrow> (sdio_hc \<times> errno) option" where
  "sdhci_event n env ev s =
    (case ev of
       HC_EV_INTR \<Rightarrow> map_option (\<lambda>s. (s, EOK)) (sdhci_intr_event n env s)
     | _ \<Rightarrow> Some (s, ENOTSUP))"

section \<open>DMA\<close>

definition upd_adma :: "int \<Rightarrow> (adma_desc \<Rightarrow> adma_desc) \<Rightarrow> sdio_hc \<Rightarrow> sdio_hc" where
  "upd_adma i f s = s\<lparr>hc_cs := (hc_cs s)\<lparr>sh_adma := (sh_adma (hc_cs s))(i := f (sh_adma (hc_cs s) i))\<rparr>\<rparr>"

definition adma_write :: "int \<Rightarrow> u64 \<Rightarrow> u32 \<Rightarrow> sdio_hc \<Rightarrow> sdio_hc" where
  "adma_write i paddr alen s =
    (let s = upd_adma i (\<lambda>d. d\<lparr>ad_attr := SDHCI_ADMA2_VALID OR SDHCI_ADMA2_TRAN, ad_addr_lo := ucast paddr,
               ad_len := ucast alen\<rparr>) s
     in if sh_flags (hc_cs s) AND SF_USE_ADMA64 \<noteq> 0
        then (let s = upd_adma i (\<lambda>d. d\<lparr>ad_addr_hi := ucast (drop_bit 32 paddr)\<rparr>) s
              in if sh_flags (hc_cs s) AND SF_V4_MODE \<noteq> 0 then upd_adma i (\<lambda>d. d\<lparr>ad_reserved := 0\<rparr>) s else s)
        else s)"

text \<open>\<open>while( sg_count )\<close>: \<open>None\<close> when the count of descriptors exceeds \<open>ADMA_DESC_MAX\<close>, together with the
  state, since the descriptor is written before the test.\<close>

function adma_entry :: "nat \<Rightarrow> u64 \<Rightarrow> u32 \<Rightarrow> sdio_hc \<Rightarrow> sdio_hc \<times> nat option" where
  "adma_entry acnt paddr cnt s =
    (if cnt = 0 then (s, Some acnt)
     else
       (let alen = min cnt SDHCI_ADMA2_MAX_XFER;
            s = adma_write (int acnt) paddr alen s
        in if acnt + 1 > ADMA_DESC_MAX then (s, None)
           else adma_entry (acnt + 1) (paddr + ucast alen) (cnt - alen) s))"
  by pat_completeness auto
termination
proof (relation "measure (\<lambda>(acnt, paddr, cnt, s). unat cnt)")
  fix cnt :: u32 and x
  assume "cnt \<noteq> 0" "x = min cnt SDHCI_ADMA2_MAX_XFER"
  then have "0 < unat x" "unat x \<le> unat cnt" by (auto simp: min_def unat_gt_0 word_le_nat_alt)
  then show "((a, b, cnt - x, c), d, e, cnt, f) \<in> measure (\<lambda>(acnt, paddr, cnt, s). unat cnt)" for a b c d e f
    by (simp add: unat_sub_nat)
qed simp

declare adma_entry.simps [simp del]

fun adma_entries :: "u64 \<Rightarrow> nat \<Rightarrow> sdio_sge list \<Rightarrow> sdio_hc \<Rightarrow> sdio_hc \<times> nat option" where
  "adma_entries xlat acnt [] s = (s, Some acnt)"
| "adma_entries xlat acnt (e # es) s =
    (case adma_entry acnt (sg_address e + xlat) (sg_count e) s of
       (s, None) \<Rightarrow> (s, None)
     | (s, Some acnt) \<Rightarrow> adma_entries xlat acnt es s)"

text \<open>The scatter list that the controller uses: the caller's, or its translation, which the
  controller keeps.\<close>

definition phys_sg :: "sdio_env \<Rightarrow> sdio_cmd \<Rightarrow> sdio_hc \<Rightarrow> sdio_hc \<times> sdio_sge list" where
  "phys_sg env cmd s =
    (let sgp = sge_list s (cmd_sgl cmd) (unat (cmd_sgc cmd)) in
     if cmd_flags cmd AND SCF_DATA_PHYS = 0
     then (let psg = env_vtop_sg env (cmd_mhdl cmd) sgp in (s\<lparr>hc_cs := (hc_cs s)\<lparr>sh_sgl := psg\<rparr>\<rparr>, psg))
     else (s, sgp))"

definition sdhci_adma_setup :: "sdio_env \<Rightarrow> sdio_cmd \<Rightarrow> sdio_hc \<Rightarrow> sdio_hc \<times> errno" where
  "sdhci_adma_setup env cmd s =
    (let (s, sgp) = phys_sg env cmd s;
         xlat = cfg_bmstr_xlat (hc_cfg s)
     in case adma_entries xlat 0 sgp s of
          (s, None) \<Rightarrow> (s, ENOTSUP)
        | (s, Some acnt) \<Rightarrow>
            (let s = upd_adma (int acnt - 1) (\<lambda>d. d\<lparr>ad_attr := ad_attr d OR SDHCI_ADMA2_END\<rparr>) s;
                 a = sh_admap (hc_cs s) + xlat;
                 s = sdhci_out32 SDHCI_ADMA_ADDRL (ucast a) s;
                 s = (if sh_flags (hc_cs s) AND SF_USE_ADMA64 \<noteq> 0
                      then sdhci_out32 SDHCI_ADMA_ADDRH (ucast (drop_bit 32 a)) s else s)
             in (s, EOK)))"

text \<open>The first entry of the list; with no entry the code reads the word behind the pointer. It is
  called only with a list that is not empty.\<close>

definition sdhci_sdma_setup :: "sdio_env \<Rightarrow> sdio_cmd \<Rightarrow> sdio_hc \<Rightarrow> sdio_hc \<times> errno" where
  "sdhci_sdma_setup env cmd s =
    (let (s, sgp) = phys_sg env cmd s
     in (sdhci_out32 SDHCI_SDMA_ARG2 (ucast (sg_address (hd sgp))) s, EOK))"

definition xfer_dma :: "sdio_env \<Rightarrow> sdio_cmd \<Rightarrow> errno \<Rightarrow> u32 \<Rightarrow> u32 \<Rightarrow> u32 \<Rightarrow> sdio_hc \<Rightarrow>
    sdio_hc \<times> errno \<times> u32 \<times> u32 \<times> u32" where
  "xfer_dma env cmd status hctl hctl2 command s =
    (if cmd_sgc cmd \<noteq> 0 \<and> hc_caps s AND HC_CAP_DMA \<noteq> 0 then
       (if sh_flags (hc_cs s) AND SF_USE_ADMA \<noteq> 0 then
          (let (s, status) = sdhci_adma_setup env cmd s; f = sh_flags (hc_cs s) in
           if status = EOK then
             (if f AND SF_V4_MODE \<noteq> 0 then
                (s, status, hctl OR SDHCI_HCTL_ADMA2,
                 (let h = (hctl2 OR SDHCI_HCTL2_V4_MODE) AND NOT SDHCI_HCTL2_64BIT_ADDR
                  in if f AND SF_USE_ADMA64 \<noteq> 0 then h OR SDHCI_HCTL2_64BIT_ADDR else h),
                 command OR SDHCI_CMD_DE)
              else
                (s, status, hctl OR (if f AND SF_USE_ADMA64 \<noteq> 0 then SDHCI_HCTL_ADMA64 else SDHCI_HCTL_ADMA32),
                 hctl2, command OR SDHCI_CMD_DE))
           else (s, status, hctl, hctl2, command))
        else
          (let (s, status) = sdhci_sdma_setup env cmd s in
           if status = EOK then (s, status, hctl OR SDHCI_HCTL_SDMA, hctl2, command OR SDHCI_CMD_DE)
           else (s, status, hctl, hctl2, command)))
     else (s, status, hctl, hctl2, command))"

definition xfer_regs :: "sdio_cmd \<Rightarrow> u32 \<Rightarrow> u32 \<Rightarrow> sdio_hc \<Rightarrow> sdio_hc" where
  "xfer_regs cmd hctl hctl2 s =
    (let s = sdhci_out32 SDHCI_HCTL hctl s in
     if sh_flags (hc_cs s) AND SF_V4_MODE \<noteq> 0
     then sdhci_out32 SDHCI_32BIT_BLK_CNT (cmd_blks cmd)
            (sdhci_out32 SDHCI_BLK (cmd_blksz cmd) (sdhci_out16 SDHCI_HCTL2 hctl2 s))
     else sdhci_out32 SDHCI_BLK (cmd_blksz cmd OR 0x7000 OR push_bit 16 (cmd_blks cmd)) s)"

text \<open>Returns also the updated command word and interrupt mask.\<close>

definition sdhci_xfer_setup :: "sdio_env \<Rightarrow> sdio_cmd \<Rightarrow> u32 \<Rightarrow> u32 \<Rightarrow> sdio_hc \<Rightarrow> sdio_hc \<times> errno \<times> u32 \<times> u32" where
  "sdhci_xfer_setup env cmd command imask s =
    (let (s, h) = sdhci_in32 env SDHCI_HCTL s;
         hctl = h AND NOT SDHCI_HCTL_DMA_MSK;
         (s, hctl2) = sdhci_in16 env SDHCI_HCTL2 s;
         rd = (cmd_flags cmd AND SCF_DIR_IN \<noteq> 0);
         command = command OR (if rd then SDHCI_CMD_DP OR SDHCI_CMD_DDIR else SDHCI_CMD_DP);
         imask = imask OR (SDHCI_INTR_TC OR SDHCI_INTR_DTO OR SDHCI_INTR_DCRC OR SDHCI_INTR_DEB);
         (s, status) = sdio_sg_start (cmd_sgl cmd) (cmd_sgc cmd) s;
         (s, status, hctl, hctl2, command) = xfer_dma env cmd status hctl hctl2 command s;
         pio = (status \<noteq> EOK \<or> hc_caps s AND HC_CAP_DMA = 0)
     in if pio \<and> cmd_flags cmd AND SCF_DATA_PHYS \<noteq> 0 then (s, status, command, imask)
        else
          (let imask = (if pio then imask OR (if rd then SDHCI_INTR_BRR else SDHCI_INTR_BWR) else imask);
               status = (if pio then EOK else status);
               (s, command) =
                 (if cmd_blks cmd > 1 then
                    (let command = command OR SDHCI_CMD_MBS OR SDHCI_CMD_BCE in
                     if hc_caps s AND HC_CAP_ACMD23 \<noteq> 0 \<and> cmd_flags cmd AND SCF_SBC \<noteq> 0
                     then (sdhci_out32 SDHCI_SDMA_ARG2 (cmd_blks cmd) s, command OR SDHCI_CMD_ACMD23)
                     else if hc_caps s AND HC_CAP_ACMD12 \<noteq> 0 then (s, command OR SDHCI_CMD_ACMD12)
                     else (s, command))
                  else (s, command))
           in (xfer_regs cmd hctl hctl2 s, status, command, imask)))"

section \<open>Commands\<close>

abbreviation (input) MMC_STOP_TRANSMISSION :: u32 where "MMC_STOP_TRANSMISSION \<equiv> 12"

definition cmd_rsp_bits :: "u32 \<Rightarrow> u32" where
  "cmd_rsp_bits flags =
    (if flags AND SCF_RSP_PRESENT \<noteq> 0 then
       (if flags AND SCF_RSP_136 \<noteq> 0 then SDHCI_CMD_RSP_TYPE_136
        else if flags AND SCF_RSP_BUSY \<noteq> 0 then SDHCI_CMD_RSP_TYPE_48b
        else SDHCI_CMD_RSP_TYPE_48) OR
       (if flags AND SCF_RSP_OPCODE \<noteq> 0 then SDHCI_CMD_CICE else 0) OR
       (if flags AND SCF_RSP_CRC \<noteq> 0 then SDHCI_CMD_CCCE else 0)
     else 0)"

definition sdhci_cmd :: "sdio_env \<Rightarrow> u64 \<Rightarrow> sdio_hc \<Rightarrow> sdio_hc \<times> errno" where
  "sdhci_cmd env p s =
    (let cmd = cmd_mem s p;
         imask = SDHCI_INTR_DFLTS;
         imask = (if hc_caps s AND HC_CAP_SLOT_TYPE_EMBEDDED = 0
                  then imask OR (SDHCI_INTR_CINS OR SDHCI_INTR_CREM) else imask);
         pmask = SDHCI_PSTATE_CMDI;
         command = push_bit 24 (cmd_opcode cmd);
         s = sdhci_out32 SDHCI_IS SDHCI_INTR_CLR_MSK s;
         command = (if cmd_opcode cmd = MMC_STOP_TRANSMISSION then command OR SDHCI_CMD_TYPE_CMD12 else command);
         (s, status, command, imask, pmask) =
           (if cmd_flags cmd AND SCF_DATA_MSK \<noteq> 0
            then (let (s, status, command, imask) = sdhci_xfer_setup env cmd command imask s
                  in (s, status, command, imask, pmask OR SDHCI_PSTATE_DATI))
            else (s, EOK, command, imask OR SDHCI_INTR_CC, pmask))
     in if status \<noteq> EOK then (s, status)
        else
          (let command = command OR cmd_rsp_bits (cmd_flags cmd);
               (s, status) = sdhci_waitmask env SDHCI_PSTATE pmask 0 100000 s
           in if status \<noteq> EOK then (s, status)
              else (sdhci_out32 SDHCI_CMD command (sdhci_out32 SDHCI_ARG (cmd_arg cmd)
                      (sdhci_out32 SDHCI_IE imask s)), EOK)))"

definition sdhci_abort :: "u64 \<Rightarrow> sdio_hc \<Rightarrow> sdio_hc \<times> errno" where
  "sdhci_abort p s = (s, EOK)"

section \<open>Power, bus and clock\<close>

definition OCR_VDD_17_195 :: u32 where "OCR_VDD_17_195 = 0x80"
definition OCR_VDD_29_30 :: u32 where "OCR_VDD_29_30 = 0x20000"
definition OCR_VDD_30_31 :: u32 where "OCR_VDD_30_31 = 0x40000"
definition OCR_VDD_32_33 :: u32 where "OCR_VDD_32_33 = 0x100000"
definition OCR_VDD_33_34 :: u32 where "OCR_VDD_33_34 = 0x200000"

definition vdd_bits :: "u32 \<Rightarrow> u32 option" where
  "vdd_bits vdd =
    (if vdd = OCR_VDD_17_195 then Some SDHCI_HCTL_SDVS1V8
     else if vdd = OCR_VDD_30_31 \<or> vdd = OCR_VDD_29_30 then Some SDHCI_HCTL_SDVS3V0
     else if vdd = OCR_VDD_33_34 \<or> vdd = OCR_VDD_32_33 then Some SDHCI_HCTL_SDVS3V3
     else None)"

definition pwr_card_ie :: "u32 \<Rightarrow> sdio_hc \<Rightarrow> sdio_hc" where
  "pwr_card_ie vdd s =
    (if hc_caps s AND HC_CAP_SLOT_TYPE_EMBEDDED = 0
     then sdhci_out32 SDHCI_IE (SDHCI_INTR_CINS OR SDHCI_INTR_CREM) s else s)\<lparr>hc_vdd := vdd\<rparr>"

definition sdhci_pwr :: "sdio_env \<Rightarrow> u32 \<Rightarrow> sdio_hc \<Rightarrow> sdio_hc \<times> errno" where
  "sdhci_pwr env vdd s =
    (let s = sdhci_out32 SDHCI_IE 0 s;
         s = (if hc_vdd s = 0 \<or> vdd = 0
              then sdhci_out32 SDHCI_ISE SDHCI_INTR_ALL
                (fst (sdhci_reset env SDHCI_SYSCTL_SRA (fst (sdhci_reset env SDHCI_SYSCTL_SRD
                  (fst (sdhci_reset env SDHCI_SYSCTL_SRC s))))))
              else s)
     in if vdd \<noteq> 0 then
          (let (s, h) = sdhci_in32 env SDHCI_HCTL s; hctl = h AND NOT SDHCI_HCTL_SDVS_MSK
           in case vdd_bits vdd of
                None \<Rightarrow> (s, EINVAL)
              | Some b \<Rightarrow>
                  (let hctl = hctl OR b;
                       s = sdhci_out32 SDHCI_HCTL (hctl OR SDHCI_HCTL_SDBP) (sdhci_out32 SDHCI_HCTL hctl s);
                       s = fst (sdhci_waitmask env SDHCI_HCTL SDHCI_HCTL_SDBP SDHCI_HCTL_SDBP 10000 s)
                   in (pwr_card_ie vdd s, EOK)))
        else (pwr_card_ie vdd (sdhci_out32 SDHCI_HCTL 0 s), EOK))"

definition sdhci_bus_mode :: "u32 \<Rightarrow> sdio_hc \<Rightarrow> sdio_hc \<times> errno" where
  "sdhci_bus_mode mode s = (s\<lparr>hc_bus_mode := mode\<rparr>, EOK)"

definition sdhci_bus_width :: "sdio_env \<Rightarrow> u32 \<Rightarrow> sdio_hc \<Rightarrow> sdio_hc \<times> errno" where
  "sdhci_bus_width env wid s =
    (let (s, h) = sdhci_in8 env SDHCI_HCTL s;
         bw8 = (if hc_version s \<noteq> 0 then SDHCI_HCTL_BW8 else SDHCI_HCTL_MMC8);
         hctl = h AND NOT SDHCI_HCTL_DTW4 AND NOT bw8;
         hctl = (if wid = 8 then hctl OR bw8 else if wid = 4 then hctl OR SDHCI_HCTL_DTW4 else hctl)
     in ((sdhci_out8 SDHCI_HCTL hctl s)\<lparr>hc_bus_width := wid\<rparr>, EOK))"

text \<open>The three searches for a divider: \<open>for( clkd = start; clkd < limit; clkd = next )\<close>. The divider
  is 32 bits wide and the limit at most 2046, so numbers serve; division is that of unsigned words.\<close>

fun div_up :: "nat \<Rightarrow> nat \<Rightarrow> nat \<Rightarrow> nat \<Rightarrow> nat \<Rightarrow> nat \<Rightarrow> nat" where
  "div_up 0 step limit clkd mx clk = clkd"
| "div_up (Suc n) step limit clkd mx clk =
    (if clkd < limit \<and> \<not> mx div clkd \<le> clk then div_up n step limit (clkd + step) mx clk else clkd)"

fun div_double :: "nat \<Rightarrow> nat \<Rightarrow> nat \<Rightarrow> nat \<Rightarrow> nat \<Rightarrow> nat" where
  "div_double 0 limit clkd mx clk = clkd"
| "div_double (Suc n) limit clkd mx clk =
    (if clkd < limit \<and> \<not> mx div clkd \<le> clk then div_double n limit (clkd * 2) mx clk else clkd)"

text \<open>The divider value for the clock register and whether the programmable generator is chosen;
  \<open>hctl2\<close> is read only with a clock multiplier. The first arguments of the searches are their longest
  runs.\<close>

definition clk_divider :: "sdio_env \<Rightarrow> u32 \<Rightarrow> sdio_hc \<Rightarrow> sdio_hc \<times> nat \<times> u32" where
  "clk_divider env clk s =
    (let mx = unat (hc_clk_max s); c = unat clk in
     if hc_version s \<ge> SDHCI_SPEC_VER_3 then
       (if sh_clk_mul (hc_cs s) \<noteq> 0 then
          (let (s, hctl2) = sdhci_in16 env SDHCI_HCTL2 s in
           if hctl2 AND SDHCI_HCTL2_PRESET_VAL = 0
           then (s, div_up 1023 1 1024 1 mx c - 1, SDHCI_SYSCTL_CGS_PROG)
           else (s, 0, 0))
        else
          (let clkd = div_up 1022 2 2046 2 mx c;
               clkd = (if mx \<le> c then 1 else clkd)
           in (s, clkd div 2, 0)))
     else (s, div_double 8 256 1 mx c div 2, 0))"

definition sdhci_clk :: "sdio_env \<Rightarrow> u32 \<Rightarrow> sdio_hc \<Rightarrow> sdio_hc \<times> errno" where
  "sdhci_clk env clk s =
    (let (s, sctl) = sdhci_in32 env SDHCI_SYSCTL s;
         off = SDHCI_SYSCTL_CEN OR SDHCI_SYSCTL_DTO_MSK OR SDHCI_SYSCTL_CGS_PROG OR SDHCI_SYSCTL_SDCLKFS_MSK;
         sctl = sctl AND NOT (if hc_flags s AND SF_ICE_PERSIST \<noteq> 0 then off else SDHCI_SYSCTL_ICE OR off);
         sctl = sctl OR SDHCI_SYSCTL_DTO_MAX;
         s = sdhci_out32 SDHCI_SYSCTL (sctl OR SDHCI_SYSCTL_SRC OR SDHCI_SYSCTL_SRD) s;
         (s, clkd, cgs) = clk_divider env clk s;
         sctl = sctl OR cgs OR (SDHCI_SYSCTL_CLK (of_nat clkd) OR SDHCI_SYSCTL_ICE);
         s = sdhci_out32 SDHCI_SYSCTL sctl s;
         s = fst (sdhci_waitmask env SDHCI_SYSCTL SDHCI_SYSCTL_ICS SDHCI_SYSCTL_ICS 10000 s);
         s = sdhci_out32 SDHCI_SYSCTL (sctl OR SDHCI_SYSCTL_CEN) s
     in (pause 1000 ((pause 1000 s)\<lparr>hc_clk := clk\<rparr>), EOK))"

text \<open>\<open>TIMING_xxx\<close> of \<open>sdiodi.h\<close>: high-speed enable and mode field.\<close>

definition timing_bits :: "u32 \<Rightarrow> u32 \<times> u32" where
  "timing_bits timing =
    (if timing = 9 then (SDHCI_HCTL_HSE, 5)
     else if timing = 8 then (SDHCI_HCTL_HSE, 3)
     else if timing = 7 then (SDHCI_HCTL_HSE, 3)
     else if timing = 6 then (SDHCI_HCTL_HSE, 2)
     else if timing = 5 then (SDHCI_HCTL_HSE, 1)
     else if timing = 4 then (SDHCI_HCTL_HSE, 0)
     else if timing = 3 then (SDHCI_HCTL_HSE, 4)
     else if timing = 2 then (SDHCI_HCTL_HSE, 0)
     else (0, 0))"

definition sdhci_timing :: "sdio_env \<Rightarrow> u32 \<Rightarrow> sdio_hc \<Rightarrow> sdio_hc \<times> errno" where
  "sdhci_timing env timing s =
    (let (s, h) = sdhci_in32 env SDHCI_HCTL s;
         hctl = h AND NOT SDHCI_HCTL_HSE;
         v3 = (hc_version s \<ge> SDHCI_SPEC_VER_3);
         (s, hctl2) = (if v3 then (let (s, h2) = sdhci_in16 env SDHCI_HCTL2 s in (s, h2 AND NOT SDHCI_HCTL2_MODE_MSK))
                       else (s, 0));
         hctl = hctl OR fst (timing_bits timing);
         hctl2 = hctl2 OR snd (timing_bits timing);
         s = (if v3 then
                (let s = (if hctl2 AND SDHCI_HCTL2_PRESET_VAL \<noteq> 0
                          then (let (s, sctl) = sdhci_in32 env SDHCI_SYSCTL s
                                in sdhci_out32 SDHCI_SYSCTL (sctl AND NOT SDHCI_SYSCTL_CEN) s)
                          else s);
                     s = sdhci_out16 SDHCI_HCTL2 hctl2 (sdhci_out32 SDHCI_HCTL hctl s)
                 in if hctl2 AND SDHCI_HCTL2_PRESET_VAL \<noteq> 0 then fst (sdhci_clk env (hc_clk s) s) else s)
              else sdhci_out32 SDHCI_HCTL hctl s)
     in (s\<lparr>hc_timing := timing\<rparr>, EOK))"

abbreviation (input) SIGNAL_VOLTAGE_3_3 :: u32 where "SIGNAL_VOLTAGE_3_3 \<equiv> 1"
abbreviation (input) SIGNAL_VOLTAGE_1_8 :: u32 where "SIGNAL_VOLTAGE_1_8 \<equiv> 3"

definition sv_3_3 :: "sdio_env \<Rightarrow> sdio_hc \<Rightarrow> sdio_hc \<times> errno" where
  "sv_3_3 env s =
    (let (s, h) = sdhci_in16 env SDHCI_HCTL2 s;
         s = pause 5000 (sdhci_out16 SDHCI_HCTL2 (h AND NOT SDHCI_HCTL2_SIG_1_8V) s);
         (s, h) = sdhci_in16 env SDHCI_HCTL2 s
     in if h AND SDHCI_HCTL2_SIG_1_8V \<noteq> 0 then (s, EIO) else (s\<lparr>hc_signal_voltage := SIGNAL_VOLTAGE_3_3\<rparr>, EOK))"

text \<open>The end of a failed switch to 1.8 V: the card's power is cycled.\<close>

definition sv_fail :: "sdio_env \<Rightarrow> sdio_hc \<Rightarrow> sdio_hc \<times> errno" where
  "sv_fail env s =
    (let (s, h) = sdhci_in32 env SDHCI_HCTL s;
         s = pause 1000 (sdhci_out32 SDHCI_HCTL (h AND NOT SDHCI_HCTL_SDBP) s);
         (s, h) = sdhci_in32 env SDHCI_HCTL s
     in (sdhci_out32 SDHCI_HCTL (h OR SDHCI_HCTL_SDBP) s, EIO))"

definition sv_1_8 :: "sdio_env \<Rightarrow> sdio_hc \<Rightarrow> sdio_hc \<times> errno" where
  "sv_1_8 env s =
    (let (s, sctl) = sdhci_in32 env SDHCI_SYSCTL s;
         s = sdhci_out32 SDHCI_SYSCTL (sctl AND NOT SDHCI_SYSCTL_CEN) s;
         (s, h) = sdhci_in16 env SDHCI_HCTL2 s;
         s = pause 5000 (sdhci_out16 SDHCI_HCTL2 (h OR SDHCI_HCTL2_SIG_1_8V) s);
         (s, h) = sdhci_in16 env SDHCI_HCTL2 s
     in if h AND SDHCI_HCTL2_SIG_1_8V \<noteq> 0 then
          (let s = pause 1000 (sdhci_out32 SDHCI_SYSCTL sctl s);
               (s, ps) = sdhci_in32 env SDHCI_PSTATE s
           in if ps AND SDHCI_PSTATE_DLSL_MSK = SDHCI_PSTATE_DLSL_MSK \<or> hc_flags s AND HC_FLAG_DEV_MMC \<noteq> 0
              then (s\<lparr>hc_signal_voltage := SIGNAL_VOLTAGE_1_8\<rparr>, EOK)
              else sv_fail env s)
        else sv_fail env s)"

definition sdhci_signal_voltage :: "sdio_env \<Rightarrow> u32 \<Rightarrow> sdio_hc \<Rightarrow> sdio_hc \<times> errno" where
  "sdhci_signal_voltage env sv s =
    (if hc_version s < SDHCI_SPEC_VER_3 then (s, EOK)
     else if hc_signal_voltage s = sv then (s, EOK)
     else if sv = SIGNAL_VOLTAGE_3_3 then sv_3_3 env s
     else if sv = SIGNAL_VOLTAGE_1_8 then sv_1_8 env s
     else (s\<lparr>hc_signal_voltage := sv\<rparr>, EOK))"

definition sdhci_drv_type :: "sdio_env \<Rightarrow> u32 \<Rightarrow> sdio_hc \<Rightarrow> sdio_hc \<times> errno" where
  "sdhci_drv_type env typ s =
    (if hc_version s < SDHCI_SPEC_VER_3 then (s, EOK)
     else
       (let (s, h) = sdhci_in16 env SDHCI_HCTL2 s;
            hctl2 = h AND NOT SDHCI_HCTL2_DRV_TYPE_MSK;
            s = (if hctl2 AND SDHCI_HCTL2_PRESET_VAL = 0
                 then sdhci_out16 SDHCI_HCTL2
                   (hctl2 OR (if typ = 2 then 0x10 else if typ = 4 then 0x20 else if typ = 8 then 0x30 else 0)) s
                 else s)
        in (s\<lparr>hc_drv_type := typ\<rparr>, EOK)))"

definition sdhci_preset :: "sdio_env \<Rightarrow> u32 \<Rightarrow> sdio_hc \<Rightarrow> sdio_hc \<times> errno" where
  "sdhci_preset env enable s =
    (if hc_version s < SDHCI_SPEC_VER_3 then (s, EOK)
     else
       (let (s, h) = sdhci_in16 env SDHCI_HCTL2 s;
            hctl2 = (h AND NOT SDHCI_HCTL2_PRESET_VAL) OR (if enable = 1 then SDHCI_HCTL2_PRESET_VAL else 0)
        in (sdhci_out16 SDHCI_HCTL2 hctl2 s, EOK)))"

abbreviation (input) CD_RMV :: u32 where "CD_RMV \<equiv> 0"
abbreviation (input) CD_INS :: u32 where "CD_INS \<equiv> 1"
abbreviation (input) CD_WP :: u32 where "CD_WP \<equiv> 0x80"

definition sdhci_cd :: "sdio_env \<Rightarrow> sdio_hc \<Rightarrow> sdio_hc \<times> u32" where
  "sdhci_cd env s =
    (if hc_caps s AND HC_CAP_SLOT_TYPE_EMBEDDED \<noteq> 0 then (s, CD_INS)
     else
       (let (s, ps) = sdhci_in32 env SDHCI_PSTATE s in
        if ps AND SDHCI_PSTATE_CI \<noteq> 0 then
          (let (s, st) = sdhci_waitmask env SDHCI_PSTATE SDHCI_CARD_STABLE SDHCI_CARD_STABLE 100000 s in
           if st = EOK then (s, CD_RMV OR CD_INS OR (if ps AND SDHCI_PSTATE_WP = 0 then CD_WP else 0))
           else (s, CD_RMV))
        else (s, CD_RMV)))"

section \<open>Tuning\<close>

text \<open>\<open>issue p s\<close> is \<open>sdio_issue_cmd\<close>; \<open>None\<close> from it means that a bound was reached. The tuning block
  is read into a buffer on the stack and dropped. The loop returns the last status and the last
  value of \<open>HCTL2\<close>.\<close>

fun in_drop :: "sdio_env \<Rightarrow> nat \<Rightarrow> sdio_hc \<Rightarrow> sdio_hc" where
  "in_drop env 0 s = s"
| "in_drop env (Suc n) s = in_drop env n (fst (sdhci_in32 env SDHCI_DATA s))"

fun tune_loop :: "(u64 \<Rightarrow> sdio_hc \<Rightarrow> (sdio_hc \<times> errno) option) \<Rightarrow> sdio_env \<Rightarrow> u64 \<Rightarrow> u32 \<Rightarrow> u32 \<Rightarrow> nat \<Rightarrow>
    errno \<Rightarrow> u32 \<Rightarrow> sdio_hc \<Rightarrow> (sdio_hc \<times> errno \<times> u32) option" where
  "tune_loop issue env p opc tlen 0 status hctl2 s = Some (s, status, hctl2)"
| "tune_loop issue env p opc tlen (Suc tlc) status hctl2 s =
    (let s = upd_cmd p (\<lambda>c. c\<lparr>cmd_status := CS_CMD_INPROG\<rparr>) s;
         s = sdio_setup_cmd p (SCF_CTYPE_ADTC OR SCF_RSP_R1) opc 0 s;
         s = sdio_setup_cmd_io p SCF_DIR_IN 1 tlen 0 0 0 s
     in case issue p s of
          None \<Rightarrow> None
        | Some (s, status) \<Rightarrow>
            if status \<noteq> EOK then Some (s, status, hctl2)
            else
              (let s = in_drop env (unat (drop_bit 2 tlen)) s;
                   (s, hctl2) = sdhci_in16 env SDHCI_HCTL2 s
               in if hctl2 AND SDHCI_HCTL2_EXEC_TUNING = 0 then Some (s, status, hctl2)
                  else tune_loop issue env p opc tlen tlc status hctl2 s))"

definition sdhci_tune :: "(u64 \<Rightarrow> sdio_hc \<Rightarrow> (sdio_hc \<times> errno) option) \<Rightarrow> sdio_env \<Rightarrow> u32 \<Rightarrow> sdio_hc \<Rightarrow>
    (sdio_hc \<times> errno) option" where
  "sdhci_tune issue env opc s =
    (let tlen = (if hc_bus_width s = 8 then 128 else 64) in
     if hc_version s < SDHCI_SPEC_VER_3 then Some (s, EOK)
     else
       (let (s, hctl2) = sdhci_in16 env SDHCI_HCTL2 s;
            mode = hctl2 AND SDHCI_HCTL2_MODE_MSK
        in if mode \<noteq> 3 \<and> mode \<noteq> 3 \<and> (mode = 2 \<and> sh_flags (hc_cs s) AND SF_TUNE_SDR50 = 0) then Some (s, EOK)
           else
             (let (s, p) = sdio_alloc_cmd s in
              if p = 0 then Some (s, ENOMEM)
              else
                (let hctl2 = hctl2 OR SDHCI_HCTL2_EXEC_TUNING;
                     s = sdhci_out16 SDHCI_HCTL2 hctl2 s
                 in case tune_loop issue env p opc tlen 40 EOK hctl2 s of
                      None \<Rightarrow> None
                    | Some (s, status, hctl2) \<Rightarrow>
                        (let (s, status) =
                           (if status \<noteq> EOK \<or> hctl2 AND SDHCI_HCTL2_EXEC_TUNING \<noteq> 0
                            then (sdhci_out16 SDHCI_HCTL2
                                    (hctl2 AND NOT (SDHCI_HCTL2_TUNED_CLK OR SDHCI_HCTL2_EXEC_TUNING)) s, EIO)
                            else (s, status))
                         in Some (sdio_free_cmd p s, status))))))"

section \<open>Initialisation\<close>

text \<open>What the calls of the system return: the block for \<open>sdhci_hc_t\<close>, the mapping of the registers,
  the descriptor table with its physical address, the interrupt, and \<open>errno\<close> of a failure.\<close>

record init_res =
  res_calloc :: bool
  res_mmap :: bool
  res_adma :: "u64 option"
  res_iid :: int
  res_errno :: errno

definition cs_zero :: "sdhci_hc \<Rightarrow> sdhci_hc" where
  "cs_zero c = c\<lparr>sh_base := False, sh_flags := 0, sh_clk_mul := 0, sh_tuning_mode := 0, sh_sgl := [],
     sh_adma_ok := False, sh_admap := 0\<rparr>"

definition sdhci_dinit :: "sdio_env \<Rightarrow> sdio_hc \<Rightarrow> sdio_hc \<times> errno" where
  "sdhci_dinit env s =
    (if \<not> hc_cs_hdl s then (s, EOK)
     else
       (let s = (if sh_base (hc_cs s)
                 then fst (sdhci_reset env SDHCI_SYSCTL_SRA (fst (sdhci_pwr env 0 s))) else s)
        in (s\<lparr>hc_cs_frees := hc_cs_frees s + 1\<rparr>, EOK)))"

definition hs_tokens :: "string list" where
  "hs_tokens = [''noadma64'', ''hs400es'', ''hs400'', ''hs200'', ''v4'']"

definition upd_cs :: "(sdhci_hc \<Rightarrow> sdhci_hc) \<Rightarrow> sdio_hc \<Rightarrow> sdio_hc" where
  "upd_cs f s = s\<lparr>hc_cs := f (hc_cs s)\<rparr>"

definition add_hc_cap :: "u64 \<Rightarrow> sdio_hc \<Rightarrow> sdio_hc" where
  "add_hc_cap c s = s\<lparr>hc_caps := hc_caps s OR c\<rparr>"

definition hs_apply :: "nat \<Rightarrow> sdio_hc \<Rightarrow> sdio_hc" where
  "hs_apply opt s =
    (if opt = 0 then upd_cs (\<lambda>c. c\<lparr>sh_flags := sh_flags c OR SF_DIS_64BIT\<rparr>) s
     else if opt = 1 then add_hc_cap HC_CAP_HS400ES s
     else if opt = 2 then add_hc_cap HC_CAP_HS400 s
     else if opt = 3 then add_hc_cap HC_CAP_HS200 s
     else if opt = 4 then upd_cs (\<lambda>c. c\<lparr>sh_flags := sh_flags c OR SF_V4_MODE\<rparr>) s
     else s)"

lemma getsubopt_shorter:
  assumes "opt \<noteq> []"
  shows "length (fst (sdio_hc_getsubopt opt ts)) < length opt"
proof -
  define name where "name = takeWhile (\<lambda>c. c \<noteq> CHR '':'' \<and> c \<noteq> CHR ''='') opt"
  have p: "length (drop (length name) opt) \<le> length opt" by simp
  show ?thesis
  proof (cases "drop (length name) opt")
    case Nil
    then show ?thesis using assms
      by (simp add: sdio_hc_getsubopt_def Let_def flip: name_def split: option.split)
  next
    case (Cons c q)
    have "length (tl (dropWhile (\<lambda>c. c \<noteq> CHR '':'') q)) \<le> length q"
      by (metis diff_le_self le_trans length_dropWhile_le length_tl)
    moreover have "length q < length opt" using p Cons by simp
    ultimately show ?thesis using Cons
      by (simp add: sdio_hc_getsubopt_def Let_def flip: name_def split: option.split)
  qed
qed

function hs_args_loop :: "string \<Rightarrow> sdio_hc \<Rightarrow> sdio_hc \<times> errno" where
  "hs_args_loop opts s =
    (if opts = [] then (s, EOK)
     else case sdio_hc_getsubopt opts hs_tokens of
         (rest, None, _) \<Rightarrow> (s, EINVAL)
       | (rest, Some opt, _) \<Rightarrow> hs_args_loop rest (hs_apply opt s))"
  by pat_completeness auto
termination
  by (relation "measure (\<lambda>(opts, s). length opts)") (auto dest!: arg_cong [where f = fst] getsubopt_shorter [of _ hs_tokens])

declare hs_args_loop.simps [simp del]

definition sdhci_hs_args :: "sdio_hc \<Rightarrow> sdio_hc \<times> errno" where
  "sdhci_hs_args s = hs_args_loop (cfg_hsoptions (hc_cfg s)) s"

definition SDHCI_CAP_BASE_CLK :: "u32 \<Rightarrow> u32 \<Rightarrow> u32" where
  "SDHCI_CAP_BASE_CLK c v = (if v \<ge> SDHCI_SPEC_VER_3 then drop_bit 8 c AND 0xff else drop_bit 8 c AND 0x3f) * 1000 * 1000"

definition init_clock :: "u32 \<Rightarrow> u32 \<Rightarrow> sdio_hc \<Rightarrow> sdio_hc" where
  "init_clock cap cap2 s =
    (let s = s\<lparr>hc_clk_max := SDHCI_CAP_BASE_CLK cap (hc_version s)\<rparr>;
         s = s\<lparr>hc_clk_min := hc_clk_max s div 256\<rparr>
     in if hc_version s \<ge> SDHCI_SPEC_VER_3 then
          (let s = s\<lparr>hc_clk_min := hc_clk_max s div 2046\<rparr>;
               s = add_hc_cap 0x20 s;
               mul = drop_bit 16 (cap2 AND 0xff0000);
               s = upd_cs (\<lambda>c. c\<lparr>sh_clk_mul := mul\<rparr>) s
           in if mul \<noteq> 0
              then (let s = s\<lparr>hc_clk_min := hc_clk_max s * mul div 1024\<rparr> in s\<lparr>hc_clk_max := hc_clk_max s * mul\<rparr>)
              else s)
        else s)"

definition cap_if :: "bool \<Rightarrow> u64 \<Rightarrow> sdio_hc \<Rightarrow> sdio_hc" where
  "cap_if b c s = (if b then add_hc_cap c s else s)"

text \<open>The capabilities by their bits in \<open>sdiodi.h\<close>.\<close>

definition init_caps :: "u32 \<Rightarrow> u32 \<Rightarrow> sdio_hc \<Rightarrow> sdio_hc" where
  "init_caps cap cap2 s =
    (let s = add_hc_cap (HC_CAP_BSY OR 0x10 OR 0x800000000) s;
         s = add_hc_cap (HC_CAP_ACMD12 OR 0x100000 OR 0x1000000) s;
         s = cap_if (hc_caps s AND HC_CAP_SLOT_TYPE_EMBEDDED = 0) 0x100000000 s;
         s = cap_if (cap AND 0x200000 \<noteq> 0) HC_CAP_HS s;
         s = cap_if (cap AND 0x400000 \<noteq> 0) HC_CAP_DMA s;
         s = cap_if (cap2 AND 2 \<noteq> 0) 0x2000 s;
         s = cap_if (cap2 AND 1 \<noteq> 0) (0x1000 OR 0x800 OR 0x400) s;
         s = cap_if (cap2 AND 4 \<noteq> 0) HC_CAP_DDR50 s;
         s = (if cap2 AND 0x2000 \<noteq> 0 then upd_cs (\<lambda>c. c\<lparr>sh_flags := sh_flags c OR SF_TUNE_SDR50\<rparr>) s else s);
         s = cap_if (cap2 AND 0x10 \<noteq> 0) 0x2000000 s;
         s = cap_if (cap2 AND 0x20 \<noteq> 0) 0x4000000 s
     in cap_if (cap2 AND 0x40 \<noteq> 0) 0x8000000 s)"

text \<open>Voltages and currents: every later voltage replaces the earlier one.\<close>

definition init_ocr :: "u32 \<Rightarrow> u32 \<Rightarrow> sdio_hc \<Rightarrow> sdio_hc" where
  "init_ocr cap mccap s =
    (let s = (if cap AND 0x4000000 \<noteq> 0 then
                (let s = s\<lparr>hc_ocr := OCR_VDD_17_195\<rparr>;
                     cur = drop_bit 16 (mccap AND 0xff0000) * 4;
                     s = cap_if (cur \<ge> 150) 0x40000 s
                 in add_hc_cap (if cur \<ge> 800 then 0x800000 else if cur \<ge> 600 then 0x400000
                                else if cur \<ge> 400 then 0x200000 else 0x100000) s)
              else s);
         s = (if cap AND 0x2000000 \<noteq> 0 then
                cap_if (drop_bit 8 (mccap AND 0xff00) * 4 > 150) 0x40000 (s\<lparr>hc_ocr := OCR_VDD_30_31 OR OCR_VDD_29_30\<rparr>)
              else s)
     in if cap AND 0x1000000 \<noteq> 0 then
          cap_if ((mccap AND 0xff) * 4 > 150) 0x20000 (s\<lparr>hc_ocr := OCR_VDD_32_33 OR OCR_VDD_33_34\<rparr>)
        else s)"

definition init_tuning :: "u32 \<Rightarrow> sdio_hc \<Rightarrow> sdio_hc" where
  "init_tuning cap2 s =
    (let tc = drop_bit 8 (cap2 AND 0xf00);
         s = (if tc \<noteq> 0 then s\<lparr>hc_tuning_count := push_bit (unat (tc - 1)) 1\<rparr> else s);
         s = upd_cs (\<lambda>c. c\<lparr>sh_tuning_mode := drop_bit 14 (cap2 AND 0xe000)\<rparr>) s;
         s = add_hc_cap 0x80000000 s;
         s = cap_if (hc_version s \<ge> SDHCI_SPEC_VER_3) HC_CAP_SV_1_8V s
     in if hc_version s < SDHCI_SPEC_VER_4
        then upd_cs (\<lambda>c. c\<lparr>sh_flags := sh_flags c AND NOT SF_V4_MODE\<rparr>) s else s)"

text \<open>\<open>None\<close>: the table of descriptors could not be allocated.\<close>

definition init_dma :: "init_res \<Rightarrow> u32 \<Rightarrow> sdio_hc \<Rightarrow> sdio_hc \<times> bool" where
  "init_dma res cap s =
    (if cap AND 0x400000 \<noteq> 0 then
       (if hc_version s \<ge> SDHCI_SPEC_VER_2 then
          (let s = (if hc_version s \<ge> SDHCI_SPEC_VER_3 then
                      (let s = (if cap AND 0x10000000 \<noteq> 0 \<and> sh_flags (hc_cs s) AND SF_DIS_64BIT = 0
                                then add_hc_cap 0xC (upd_cs (\<lambda>c. c\<lparr>sh_flags := sh_flags c OR SF_USE_ADMA64\<rparr>) s)
                                else s)
                       in add_hc_cap HC_CAP_ACMD23 s)
                    else s);
               s = s\<lparr>hc_cfg := (hc_cfg s)\<lparr>cfg_sg_max := of_nat ADMA_DESC_MAX\<rparr>\<rparr>
           in case res_adma res of
                None \<Rightarrow> (s, False)
              | Some pa \<Rightarrow>
                  (cap_if (hc_version s \<ge> SDHCI_SPEC_VER_3) HC_CAP_ACMD23
                     (upd_cs (\<lambda>c. c\<lparr>sh_adma_ok := True, sh_flags := sh_flags c OR SF_USE_ADMA, sh_admap := pa\<rparr>) s),
                   True))
        else (upd_cs (\<lambda>c. c\<lparr>sh_flags := sh_flags c OR SF_USE_SDMA\<rparr>)
                (s\<lparr>hc_cfg := (hc_cfg s)\<lparr>cfg_sg_max := 1\<rparr>\<rparr>), True))
     else (s, True))"

text \<open>What the registers say of the controller: version, capabilities, clocks, voltages, tuning and DMA.\<close>

definition init_probe :: "sdio_env \<Rightarrow> init_res \<Rightarrow> sdio_hc \<Rightarrow> sdio_hc \<times> bool" where
  "init_probe env res s =
    (let s = (if hc_version s = 0
              then (let (s, v) = sdhci_in16 env SDHCI_HCTL_VERSION s in s\<lparr>hc_version := v AND 0xff\<rparr>)
              else s);
         (s, cap) = sdhci_in32 env SDHCI_CAP s;
         (s, cap2) = (if hc_version s \<ge> SDHCI_SPEC_VER_3 then sdhci_in32 env SDHCI_CAP2 s else (s, 0));
         (s, mccap) = sdhci_in32 env SDHCI_MCCAP s;
         s = init_tuning cap2 (init_ocr cap mccap (init_caps cap cap2 (init_clock cap cap2 s)))
     in init_dma res cap s)"

definition sdhci_init :: "sdio_env \<Rightarrow> init_res \<Rightarrow> u64 \<Rightarrow> sdio_hc \<Rightarrow> sdio_hc \<times> errno" where
  "sdhci_init env res base_addr s =
    (let s = s\<lparr>hc_iid := -1\<rparr> in
     if base_addr = 0 then (s, ENODEV)
     else if \<not> res_calloc res then (s, ENOMEM)
     else
       (let s = s\<lparr>hc_cs_hdl := True, hc_cs_frees := 0, hc_cs := cs_zero (hc_cs s)\<rparr> in
        if \<not> res_mmap res then (fst (sdhci_dinit env s), res_errno res)
        else
          (let s = upd_cs (\<lambda>c. c\<lparr>sh_base := True\<rparr>) s;
               (s, status) = sdhci_hs_args s
           in if status \<noteq> EOK then (fst (sdhci_dinit env s), status)
              else
                (let (s, ok) = init_probe env res s
                 in if \<not> ok then (fst (sdhci_dinit env s), res_errno res)
                    else
                      (let s = s\<lparr>hc_caps := hc_caps s AND cfg_caps (hc_cfg s)\<rparr>;
                           s = s\<lparr>hc_iid := res_iid res\<rparr>
                       in if hc_iid s = -1 then (fst (sdhci_dinit env s), res_errno res)
                          else (fst (sdhci_pwr env 0 s), EOK))))))"

end
