(* ===== verification/Sdio_Cmd.thy ===== *)
theory Sdio_Cmd
  imports Sdhci
begin

text \<open>
  The command layer of \<open>sdiodi/base.c\<close>: issuing a command and waiting for it, the retry loop, and the
  services built on it; the calls of the controller's entry table; the board support of
  \<open>aarch64/bcm2712.le/bs.c\<close>.

  \<^item> \<open>sdio_entry\<close> is the table \<open>hc->entry\<close> of function pointers. The controller's \<open>pm\<close> is \<open>NULL\<close>, so
    \<open>_sdio_pwrmgnt\<close> returns at once and is left out.
  \<^item> A wait for a command is shared with the controller's thread. The schedule \<open>intr_sched\<close> says for each
    wait how many interrupts that thread handles before the time is over; the timeout in milliseconds
    appears only through it.
  \<^item> \<open>None\<close> means that a bound on transfers by the processor was reached.
  \<^item> \<open>_sdio_send_cmd\<close> sends further commands for an application command, a block count or the wait for the
    card; these carry none of the three flags, so that the nesting is one deep. Its first argument
    is the depth of nesting allowed.
\<close>

section \<open>The entry table\<close>

record sdio_entry =
  e_cmd :: "u64 \<Rightarrow> sdio_hc \<Rightarrow> sdio_hc \<times> errno"
  e_abort :: "u64 \<Rightarrow> sdio_hc \<Rightarrow> sdio_hc \<times> errno"
  e_cd :: "sdio_hc \<Rightarrow> sdio_hc \<times> u32"
  e_event :: "hc_ev \<Rightarrow> sdio_hc \<Rightarrow> (sdio_hc \<times> errno) option"
  e_pwr :: "u32 \<Rightarrow> sdio_hc \<Rightarrow> sdio_hc \<times> errno"
  e_clk :: "u32 \<Rightarrow> sdio_hc \<Rightarrow> sdio_hc \<times> errno"
  e_bus_mode :: "u32 \<Rightarrow> sdio_hc \<Rightarrow> sdio_hc \<times> errno"
  e_bus_width :: "u32 \<Rightarrow> sdio_hc \<Rightarrow> sdio_hc \<times> errno"
  e_timing :: "u32 \<Rightarrow> sdio_hc \<Rightarrow> sdio_hc \<times> errno"
  e_signal_voltage :: "u32 \<Rightarrow> sdio_hc \<Rightarrow> sdio_hc \<times> errno"
  e_drv_type :: "u32 \<Rightarrow> sdio_hc \<Rightarrow> sdio_hc \<times> errno"
  e_driver_strength :: "(u32 \<Rightarrow> u32 \<Rightarrow> sdio_hc \<Rightarrow> sdio_hc \<times> u32) option"
  e_preset :: "u32 \<Rightarrow> sdio_hc \<Rightarrow> sdio_hc \<times> errno"
  e_tune :: "u32 \<Rightarrow> sdio_hc \<Rightarrow> (sdio_hc \<times> errno) option"

section \<open>Issuing a command\<close>

fun wait_loop :: "sdio_entry \<Rightarrow> nat \<Rightarrow> u64 \<Rightarrow> sdio_hc \<Rightarrow> (sdio_hc \<times> errno) option" where
  "wait_loop ent 0 p s = Some (s, if cmd_status (cmd_mem s p) = CS_CMD_INPROG then ETIMEDOUT else EOK)"
| "wait_loop ent (Suc k) p s =
    (if cmd_status (cmd_mem s p) \<noteq> CS_CMD_INPROG then Some (s, EOK)
     else case e_event ent HC_EV_INTR s of
         None \<Rightarrow> None
       | Some (s, _) \<Rightarrow> wait_loop ent k p s)"

definition sdio_wait_cmd :: "sdio_entry \<Rightarrow> u64 \<Rightarrow> sdio_hc \<Rightarrow> (sdio_hc \<times> errno) option" where
  "sdio_wait_cmd ent p s =
    (case intr_sched s of
       [] \<Rightarrow> wait_loop ent 0 p s
     | k # ks \<Rightarrow> wait_loop ent k p (s\<lparr>intr_sched := ks\<rparr>))"

definition set_active :: "u64 \<Rightarrow> sdio_hc \<Rightarrow> sdio_hc" where
  "set_active p s = upd_wspc (\<lambda>w. w\<lparr>wspc_cmd := p\<rparr>) s"

definition sdio_issue_cmd :: "sdio_entry \<Rightarrow> sdio_env \<Rightarrow> u64 \<Rightarrow> sdio_hc \<Rightarrow> (sdio_hc \<times> errno) option" where
  "sdio_issue_cmd ent env p s =
    (let (s, status) = e_cmd ent p (set_active p s)
     in case (if status = EOK then sdio_wait_cmd ent p s else Some (s, status)) of
          None \<Rightarrow> None
        | Some (s, status) \<Rightarrow>
            (if status \<noteq> EOK
             then Some (upd_cmd p (\<lambda>c. c\<lparr>cmd_status := env_errno env status\<rparr>) (set_active 0 (fst (e_abort ent p s))), status)
             else Some (s, EOK)))"

section \<open>Services on one command\<close>

abbreviation (input) CDS_ERROR_MSK :: u32 where "CDS_ERROR_MSK \<equiv> 0xFFF90080"
abbreviation (input) CDS_CARD_IS_LOCKED :: u32 where "CDS_CARD_IS_LOCKED \<equiv> 0x2000000"
abbreviation (input) CDS_ILLEGAL_COMMAND :: u32 where "CDS_ILLEGAL_COMMAND \<equiv> 0x400000"
abbreviation (input) CDS_CUR_STATE_MSK :: u32 where "CDS_CUR_STATE_MSK \<equiv> 0x1e00"
abbreviation (input) CDS_CUR_STATE_TRAN :: u32 where "CDS_CUR_STATE_TRAN \<equiv> 0x800"
abbreviation (input) CDS_READY_FOR_DATA :: u32 where "CDS_READY_FOR_DATA \<equiv> 0x100"
abbreviation (input) SBC_RL_WRITE :: u32 where "SBC_RL_WRITE \<equiv> 0x80000000"
abbreviation (input) SDIO_TIME_DEFAULT :: u32 where "SDIO_TIME_DEFAULT \<equiv> 1000"
abbreviation (input) SDIO_CMD_RETRIES :: nat where "SDIO_CMD_RETRIES \<equiv> 3"

text \<open>A function that sends a command block: block, timeout, retries.\<close>

type_synonym sender = "u64 \<Rightarrow> u32 \<Rightarrow> nat \<Rightarrow> sdio_hc \<Rightarrow> (sdio_hc \<times> errno) option"

text \<open>The frame that the services share: allocate a block, set it up, send it, look at it, free it.\<close>

definition cmd_call :: "sender \<Rightarrow> u32 \<Rightarrow> u32 \<Rightarrow> u32 \<Rightarrow> nat \<Rightarrow> sdio_hc \<Rightarrow> (sdio_hc \<times> errno \<times> sdio_cmd) option" where
  "cmd_call send flgs opc arg retries s =
    (let (s, p) = sdio_alloc_cmd s in
     if p = 0 then Some (s, ENOMEM, cmd_zero)
     else
       (let s = sdio_setup_cmd p flgs opc arg s
        in case send p SDIO_TIME_DEFAULT retries s of
             None \<Rightarrow> None
           | Some (s, status) \<Rightarrow> Some (sdio_free_cmd p s, status, cmd_mem s p)))"

definition drop_cmd :: "(sdio_hc \<times> errno \<times> sdio_cmd) option \<Rightarrow> (sdio_hc \<times> errno) option" where
  "drop_cmd r = map_option (\<lambda>(s, status, c). (s, status)) r"

definition sd_app_cmd :: "sender \<Rightarrow> sdio_hc \<Rightarrow> (sdio_hc \<times> errno) option" where
  "sd_app_cmd send s =
    drop_cmd (cmd_call send ((if dev_rca s \<noteq> 0 then SCF_CTYPE_BCR else SCF_CTYPE_BC) OR SCF_RSP_R1) 55
      (push_bit 16 (dev_rca s)) 0 s)"

definition sdio_set_block_count :: "sender \<Rightarrow> u32 \<Rightarrow> u32 \<Rightarrow> sdio_hc \<Rightarrow> (sdio_hc \<times> errno) option" where
  "sdio_set_block_count send blkcnt flgs s =
    drop_cmd (cmd_call send (SCF_CTYPE_AC OR SCF_RSP_R1) 23 (blkcnt OR flgs) 0 s)"

definition sdio_set_upper_addr :: "sender \<Rightarrow> u32 \<Rightarrow> sdio_hc \<Rightarrow> (sdio_hc \<times> errno) option" where
  "sdio_set_upper_addr send ua s = drop_cmd (cmd_call send (SCF_CTYPE_AC OR SCF_RSP_R1) 22 ua 0 s)"

text \<open>With the response; all zero unless the command succeeded.\<close>

definition sdio_send_status :: "sender \<Rightarrow> bool \<Rightarrow> sdio_hc \<Rightarrow> (sdio_hc \<times> errno \<times> u32 list) option" where
  "sdio_send_status send hpi s =
    map_option (\<lambda>(s, status, c). (s, status, if status = EOK then cmd_rsp c else [0, 0, 0, 0]))
      (cmd_call send (SCF_CTYPE_AC OR SCF_RSP_R1) 13 (push_bit 16 (dev_rca s) OR (if hpi then 1 else 0)) SDIO_CMD_RETRIES s)"

fun wait_status_loop :: "sender \<Rightarrow> u32 \<Rightarrow> u32 \<Rightarrow> nat \<Rightarrow> u32 list \<Rightarrow> sdio_hc \<Rightarrow> (sdio_hc \<times> errno \<times> u32 list) option" where
  "wait_status_loop send msk val 0 rsp s = Some (s, ETIMEDOUT, rsp)"
| "wait_status_loop send msk val (Suc msec) rsp s =
    (case sdio_send_status send False s of
       None \<Rightarrow> None
     | Some (s, status, rsp) \<Rightarrow>
         (if status \<noteq> EOK then Some (s, status, rsp)
          else if rsp ! 0 AND CDS_ERROR_MSK \<noteq> 0 then Some (s, EIO, rsp)
          else if rsp ! 0 AND msk = val then Some (s, EOK, rsp)
          else wait_status_loop send msk val msec rsp (pause 1000 s)))"

definition sdio_wait_card_status :: "sender \<Rightarrow> u32 \<Rightarrow> u32 \<Rightarrow> u32 \<Rightarrow> sdio_hc \<Rightarrow> (sdio_hc \<times> errno \<times> u32 list) option" where
  "sdio_wait_card_status send msk val msec s = wait_status_loop send msk val (unat (max msec 1)) [] s"

section \<open>Sending with retries\<close>

datatype send_out = Break errno | Again errno | Removed

text \<open>Whether data errors ask for a new tuning.\<close>

definition crc_retunes :: "sdio_hc \<Rightarrow> bool" where
  "crc_retunes s \<longleftrightarrow> dev_flags (hc_device s) AND DEV_FLAG_PRESENT \<noteq> 0 \<and> hc_flags s AND HC_FLAG_RST = 0 \<and>
     dev_flags (hc_device s) AND (DEV_FLAG_UHS OR DEV_FLAG_HS200 OR DEV_FLAG_HS400) \<noteq> 0"

definition send_status_of :: "u64 \<Rightarrow> sdio_hc \<Rightarrow> sdio_hc \<times> send_out" where
  "send_status_of p s =
    (let cs = cmd_status (cmd_mem s p) in
     if cs = CS_CARD_REMOVED then (s, Removed)
     else
       (let s = (if cs = CS_DATA_CRC_ERR \<and> crc_retunes s then s\<lparr>hc_flags := hc_flags s OR HC_FLAG_TUNE\<rparr> else s);
            status = (if cs = CS_CMD_TO_ERR then ETIMEDOUT else EIO)
        in (s, if cmd_rsp (cmd_mem s p) ! 0 AND CDS_ILLEGAL_COMMAND \<noteq> 0 then Break status else Again status)))"

definition send_issue :: "sender \<Rightarrow> sdio_entry \<Rightarrow> sdio_env \<Rightarrow> u64 \<Rightarrow> u32 \<Rightarrow> sdio_hc \<Rightarrow> (sdio_hc \<times> send_out) option" where
  "send_issue send ent env p tmo s =
    (case sdio_issue_cmd ent env p s of
       None \<Rightarrow> None
     | Some (s, status) \<Rightarrow>
         (if status \<noteq> EOK then Some (s, Break status)
          else if cmd_status (cmd_mem s p) = CS_CMD_CMP then
            (if cmd_flags (cmd_mem s p) AND SCF_WAIT_DRDY \<noteq> 0 \<and> hc_caps s AND HC_CAP_BSY = 0
             then map_option (\<lambda>(s, status, rsp). (s, Break status))
                    (sdio_wait_card_status send (CDS_READY_FOR_DATA OR CDS_CUR_STATE_MSK)
                      (CDS_READY_FOR_DATA OR CDS_CUR_STATE_TRAN) tmo s)
             else Some (s, Break EOK))
          else Some (send_status_of p s)))"

definition send_once :: "sender \<Rightarrow> sdio_entry \<Rightarrow> sdio_env \<Rightarrow> u64 \<Rightarrow> u32 \<Rightarrow> sdio_hc \<Rightarrow> (sdio_hc \<times> send_out) option" where
  "send_once send ent env p tmo s =
    (let s = upd_cmd p (\<lambda>c. c\<lparr>cmd_status := CS_CMD_INPROG\<rparr>) s
     in case (if cmd_flags (cmd_mem s p) AND SCF_APP_CMD \<noteq> 0 then sd_app_cmd send s else Some (s, EOK)) of
          None \<Rightarrow> None
        | Some (s, status) \<Rightarrow>
            (if status \<noteq> EOK then Some (s, Break status)
             else case (if cmd_flags (cmd_mem s p) AND SCF_SBC \<noteq> 0 \<and> hc_caps s AND HC_CAP_ACMD23 = 0
                        then sdio_set_block_count send (cmd_blks (cmd_mem s p))
                               (if cmd_flags (cmd_mem s p) AND SCF_SBC_RLW \<noteq> 0 then SBC_RL_WRITE else 0) s
                        else Some (s, EOK)) of
                 None \<Rightarrow> None
               | Some (s, status) \<Rightarrow>
                   (if status \<noteq> EOK then Some (s, Break status) else send_issue send ent env p tmo s)))"

text \<open>\<open>do ... while( retries-- )\<close>; the last component says that the card was removed.\<close>

fun send_loop :: "sender \<Rightarrow> sdio_entry \<Rightarrow> sdio_env \<Rightarrow> u64 \<Rightarrow> u32 \<Rightarrow> nat \<Rightarrow> sdio_hc \<Rightarrow> (sdio_hc \<times> errno \<times> bool) option" where
  "send_loop send ent env p tmo retries s =
    (case send_once send ent env p tmo s of
       None \<Rightarrow> None
     | Some (s, Break st) \<Rightarrow> Some (s, st, False)
     | Some (s, Removed) \<Rightarrow> Some (s, ENXIO, True)
     | Some (s, Again st) \<Rightarrow>
         (case retries of 0 \<Rightarrow> Some (s, st, False) | Suc n \<Rightarrow> send_loop send ent env p tmo n s))"

declare send_loop.simps [simp del]

abbreviation (input) ACMD_MSK :: u64 where "ACMD_MSK \<equiv> 0xC0"

definition send_with :: "sender \<Rightarrow> sdio_entry \<Rightarrow> sdio_env \<Rightarrow> sender" where
  "send_with send ent env p tmo retries s =
    (let rlw = (cmd_flags (cmd_mem s p) AND SCF_SBC_RLW \<noteq> 0);
         acmd_caps = (if rlw then hc_caps s AND ACMD_MSK else 0);
         s = (if rlw then s\<lparr>hc_caps := hc_caps s AND NOT ACMD_MSK\<rparr> else s)
     in case send_loop send ent env p tmo retries s of
          None \<Rightarrow> None
        | Some (s, st, removed) \<Rightarrow>
            (if removed then Some (s, ENXIO)
             else Some (if acmd_caps \<noteq> 0 then s\<lparr>hc_caps := hc_caps s OR acmd_caps\<rparr> else s, st)))"

fun sdio_send_cmd :: "nat \<Rightarrow> sdio_entry \<Rightarrow> sdio_env \<Rightarrow> sender" where
  "sdio_send_cmd 0 ent env = send_with (\<lambda>p tmo retries s. None) ent env"
| "sdio_send_cmd (Suc d) ent env = send_with (sdio_send_cmd d ent env) ent env"

section \<open>Further services\<close>

definition sdio_send_csd :: "sender \<Rightarrow> sdio_hc \<Rightarrow> (sdio_hc \<times> errno \<times> u32 list) option" where
  "sdio_send_csd send s =
    map_option (\<lambda>(s, status, c). (s, status, if status = EOK then take 4 (cmd_rsp c) else []))
      (cmd_call send (SCF_CTYPE_AC OR SCF_RSP_R2) 9 (push_bit 16 (dev_rca s)) SDIO_CMD_RETRIES s)"

definition sdio_all_send_cid :: "sender \<Rightarrow> sdio_hc \<Rightarrow> (sdio_hc \<times> errno \<times> u32 list) option" where
  "sdio_all_send_cid send s =
    map_option (\<lambda>(s, status, c). (s, status, if status = EOK then take 4 (cmd_rsp c) else []))
      (cmd_call send (SCF_CTYPE_BCR OR SCF_RSP_R2) 2 0 SDIO_CMD_RETRIES s)"

text \<open>The block is read before it is freed; without a block the state is left alone.\<close>

definition sdio_select_card :: "sender \<Rightarrow> u32 \<Rightarrow> sdio_hc \<Rightarrow> (sdio_hc \<times> errno) option" where
  "sdio_select_card send rca s =
    map_option (\<lambda>(s, status, c). (if cmd_rsp c ! 0 AND CDS_CARD_IS_LOCKED \<noteq> 0 then set_dev_flags DEV_FLAG_LOCKED s else s, status))
      (cmd_call send (SCF_CTYPE_AC OR (if rca \<noteq> 0 then SCF_RSP_R1 else SCF_RSP_NONE)) 7 (push_bit 16 rca) SDIO_CMD_RETRIES s)"

definition sdio_stop_transmission :: "sender \<Rightarrow> bool \<Rightarrow> sdio_hc \<Rightarrow> (sdio_hc \<times> errno) option" where
  "sdio_stop_transmission send hpi s =
    drop_cmd (cmd_call send (SCF_CTYPE_AC OR SCF_RSP_R1B) MMC_STOP_TRANSMISSION
      (if hpi then push_bit 16 (dev_rca s) OR 1 else 0) 0 s)"

definition sdio_set_block_length :: "sender \<Rightarrow> u32 \<Rightarrow> sdio_hc \<Rightarrow> (sdio_hc \<times> errno) option" where
  "sdio_set_block_length send blklen s =
    (if dev_flags (hc_device s) AND (DEV_FLAG_DDR OR DEV_FLAG_HS400 OR DEV_FLAG_HS400ES) \<noteq> 0 \<and>
        dev_caps (hc_device s) AND DEV_CAP_HC \<noteq> 0 then Some (s, EOK)
     else if dev_block_length s = blklen then Some (s, EOK)
     else map_option (\<lambda>(s, status, c). (if status = EOK then s\<lparr>dev_block_length := blklen\<rparr> else s, status))
            (cmd_call send (SCF_CTYPE_AC OR SCF_RSP_R1) 16 blklen SDIO_CMD_RETRIES s))"

definition sdio_go_idle :: "sender \<Rightarrow> sdio_hc \<Rightarrow> (sdio_hc \<times> errno) option" where
  "sdio_go_idle send s = drop_cmd (cmd_call send (SCF_CTYPE_BC OR SCF_RSP_NONE) 0 0 0 s)"

section \<open>Calls of the controller\<close>

text \<open>The position of the least significant bit, from 1; 0 for no bit (the function of \<open>strings.h\<close>).\<close>

definition ffs :: "u32 \<Rightarrow> nat" where
  "ffs v = (case filter (bit v) [0 ..< 32] of [] \<Rightarrow> 0 | i # _ \<Rightarrow> i + 1)"

definition sdio_pwr :: "sdio_entry \<Rightarrow> u32 \<Rightarrow> sdio_hc \<Rightarrow> sdio_hc \<times> errno" where
  "sdio_pwr ent vdd s = e_pwr ent vdd s"

definition sdio_drv_type :: "sdio_entry \<Rightarrow> u32 \<Rightarrow> sdio_hc \<Rightarrow> sdio_hc \<times> errno" where
  "sdio_drv_type ent typ s = e_drv_type ent typ s"

definition sdio_bus_mode :: "sdio_entry \<Rightarrow> u32 \<Rightarrow> sdio_hc \<Rightarrow> sdio_hc \<times> errno" where
  "sdio_bus_mode ent mode s = e_bus_mode ent mode s"

definition sdio_bus_width :: "sdio_entry \<Rightarrow> u32 \<Rightarrow> sdio_hc \<Rightarrow> sdio_hc \<times> errno" where
  "sdio_bus_width ent wid s = e_bus_width ent wid s"

definition sdio_clock :: "sdio_entry \<Rightarrow> u32 \<Rightarrow> sdio_hc \<Rightarrow> sdio_hc \<times> errno" where
  "sdio_clock ent clk s =
    (if clk < hc_clk_min s then (s, EINVAL)
     else e_clk ent (if clk > hc_clk_max s then hc_clk_max s else clk) s)"

definition sdio_timing :: "sdio_entry \<Rightarrow> u32 \<Rightarrow> sdio_hc \<Rightarrow> sdio_hc \<times> errno" where
  "sdio_timing ent timing s = e_timing ent timing s"

definition sdio_signal_voltage :: "sdio_entry \<Rightarrow> u32 \<Rightarrow> sdio_hc \<Rightarrow> sdio_hc \<times> errno" where
  "sdio_signal_voltage ent voltage s = e_signal_voltage ent voltage s"

definition sdio_tune :: "sdio_entry \<Rightarrow> u32 \<Rightarrow> sdio_hc \<Rightarrow> (sdio_hc \<times> errno) option" where
  "sdio_tune ent opc s = e_tune ent opc s"

definition sdio_preset :: "sdio_entry \<Rightarrow> u32 \<Rightarrow> sdio_hc \<Rightarrow> sdio_hc \<times> errno" where
  "sdio_preset ent state s = e_preset ent state s"

definition sdio_select_voltage :: "sdio_entry \<Rightarrow> u32 \<Rightarrow> sdio_hc \<Rightarrow> sdio_hc \<times> errno" where
  "sdio_select_voltage ent ocr s =
    (let ocr = ocr AND hc_ocr s; bpos = ffs ocr in
     if bpos \<noteq> 0
     then (let ocr = push_bit (bpos - 1) 1; (s, status) = sdio_pwr ent ocr s in (s\<lparr>dev_ocr := ocr\<rparr>, status))
     else (s\<lparr>dev_ocr := 0\<rparr>, EINVAL))"

abbreviation (input) SDIO_PWR_ON :: u32 where "SDIO_PWR_ON \<equiv> 1"

text \<open>With no voltage in \<open>hc->ocr\<close> the C code shifts by a negative amount; a controller always has one.\<close>

definition sdio_power :: "sdio_entry \<Rightarrow> u32 \<Rightarrow> sdio_hc \<Rightarrow> sdio_hc \<times> errno" where
  "sdio_power ent pwr s =
    (if pwr = SDIO_PWR_ON then
       (let s = s\<lparr>hc_clk := hc_clk_init s, hc_timing := 1, hc_bus_width := 1, hc_bus_mode := 0,
                  hc_signal_voltage := SIGNAL_VOLTAGE_3_3\<rparr>;
            s = fst (sdio_pwr ent (push_bit (fls (hc_ocr s) - 1) 1) s);
            s = fst (sdio_clock ent (hc_clk_init s) s);
            s = fst (sdio_bus_width ent 1 s);
            s = fst (sdio_preset ent 0 s);
            s = fst (sdio_timing ent 1 s);
            s = fst (sdio_bus_mode ent 0 s);
            s = fst (sdio_signal_voltage ent SIGNAL_VOLTAGE_3_3 s)
        in (pause 10000 s, EOK))
     else (fst (sdio_pwr ent 0 s), EOK))"

section \<open>The entry table of the host controller\<close>

text \<open>\<open>n\<close> bounds the blocks of one transfer by the processor. Tuning issues its commands through the same
  table, of which issuing uses \<open>cmd\<close>, \<open>event\<close> and \<open>abort\<close> only; \<open>sdhci_core\<close> is the table before \<open>tune\<close> is set.\<close>

definition sdhci_core :: "nat \<Rightarrow> sdio_env \<Rightarrow> sdio_entry" where
  "sdhci_core n env = \<lparr>e_cmd = sdhci_cmd env, e_abort = sdhci_abort, e_cd = sdhci_cd env, e_event = sdhci_event n env, e_pwr = sdhci_pwr env,
     e_clk = sdhci_clk env, e_bus_mode = sdhci_bus_mode, e_bus_width = sdhci_bus_width env, e_timing = sdhci_timing env,
     e_signal_voltage = sdhci_signal_voltage env, e_drv_type = sdhci_drv_type env,
     e_driver_strength = None, e_preset = sdhci_preset env,
     e_tune = (\<lambda>opc s. Some (s, EOK))\<rparr>"

definition sdhci_entry :: "nat \<Rightarrow> sdio_env \<Rightarrow> sdio_entry" where
  "sdhci_entry n env =
    (sdhci_core n env)\<lparr>e_tune := (\<lambda>opc s. sdhci_tune (sdio_issue_cmd (sdhci_core n env) env) env opc s)\<rparr>"

section \<open>The board\<close>

text \<open>The voltage of the card's signals is selected by a GPIO line. Its registers are logged behind those of
  the controller, from \<open>AON_GPIO\<close> on; \<open>ok\<close> says whether they can be mapped.\<close>

definition AON_GPIO :: u32 where "AON_GPIO = 0x10000"

text \<open>The result \<open>-1\<close> is \<open>None\<close>; otherwise the state read, or the one set.\<close>

definition gpio_state :: "bool \<Rightarrow> sdio_env \<Rightarrow> u32 \<Rightarrow> u32 \<Rightarrow> bool \<Rightarrow> sdio_hc \<Rightarrow> sdio_hc \<times> u32 option" where
  "gpio_state ok env gpio state set_it s =
    (let bank = gpio div 0x20; offset = unat (gpio mod 0x20); reg = AON_GPIO + bank * 0x20 + 0x04 in
     if \<not> ok then (s, None)
     else
       (let (s, v) = sdhci_in32 env reg s in
        if \<not> set_it then (s, Some (if v AND push_bit offset 1 \<noteq> 0 then 1 else 0))
        else (sdhci_out32 reg ((v AND NOT (push_bit offset 1)) OR push_bit offset state) s, Some state)))"

definition get_vdd_sd_io_state :: "bool \<Rightarrow> sdio_env \<Rightarrow> sdio_hc \<Rightarrow> sdio_hc \<times> u32 option" where
  "get_vdd_sd_io_state ok env s = gpio_state ok env 3 0 False s"

definition set_vdd_sd_io_state :: "bool \<Rightarrow> sdio_env \<Rightarrow> u32 \<Rightarrow> sdio_hc \<Rightarrow> sdio_hc \<times> u32 option" where
  "set_vdd_sd_io_state ok env state s = gpio_state ok env 3 state True s"

definition bcm2712_signal_voltage :: "bool \<Rightarrow> sdio_env \<Rightarrow> (u32 \<Rightarrow> sdio_hc \<Rightarrow> sdio_hc \<times> errno) \<Rightarrow> u32 \<Rightarrow> sdio_hc \<Rightarrow> sdio_hc \<times> errno" where
  "bcm2712_signal_voltage ok env ext sv s =
    (let (s, st) = get_vdd_sd_io_state ok env s;
         want = (if sv = SIGNAL_VOLTAGE_3_3 then Some 0 else if sv = SIGNAL_VOLTAGE_1_8 then Some 1 else None);
         s = (case want of
                Some v \<Rightarrow> (if st \<noteq> Some v
                           then (pause 5000 (fst (set_vdd_sd_io_state ok env v s)))\<lparr>hc_signal_voltage := 0\<rparr> else s)
              | None \<Rightarrow> s)
     in ext sv s)"

definition bcm2712_sdhci_tune :: "(u32 \<Rightarrow> sdio_hc \<Rightarrow> (sdio_hc \<times> errno) option) \<Rightarrow> u32 \<Rightarrow> sdio_hc \<Rightarrow> (sdio_hc \<times> errno) option" where
  "bcm2712_sdhci_tune ext opc s = ext opc s"

function bcm2712_bs_args :: "string \<Rightarrow> errno" where
  "bcm2712_bs_args options =
    (if options = [] then EOK
     else case sdio_hc_getsubopt options [] of
         (rest, None, _) \<Rightarrow> EINVAL
       | (rest, Some opt, _) \<Rightarrow> bcm2712_bs_args rest)"
  by pat_completeness auto
termination
  by (relation "measure length") (auto dest!: arg_cong [where f = fst] getsubopt_shorter [of _ "[]"])

declare bcm2712_bs_args.simps [simp del]

definition bcm2712_bs_cfg_init :: "sdio_env \<Rightarrow> sdio_hc \<Rightarrow> sdio_hc \<times> errno" where
  "bcm2712_bs_cfg_init env s =
    (if \<not> hc_cs_hdl s then (s, EFAULT)
     else if \<not> sh_base (hc_cs s) then (s, ENOMEM)
     else
       (let (s, v) = sdhci_in32 env (0x400 + 0x44) s;
            s = sdhci_out32 (0x400 + 0x44) (v OR 2) s;
            (s, v) = sdhci_in32 env (0x400 + 0x1ac) s
        in (sdhci_out32 (0x400 + 0x1ac) ((v AND NOT 1) OR 0x80000000) s, EOK)))"

text \<open>The last result is the entry table, as far as it has been set. \<open>HC_CAP_CD_INTR\<close> is bit 32.\<close>

definition bcm2712_bs_init :: "nat \<Rightarrow> bool \<Rightarrow> sdio_env \<Rightarrow> init_res \<Rightarrow> u64 \<Rightarrow> string \<Rightarrow> sdio_hc \<Rightarrow>
    sdio_hc \<times> errno \<times> sdio_entry option" where
  "bcm2712_bs_init n ok env res base_addr options s =
    (let ent = sdhci_entry n env in
     if bcm2712_bs_args options \<noteq> EOK then (s, EINVAL, None)
     else
       (let (s, status) = sdhci_init env res base_addr s in
        if status \<noteq> EOK then (s, status, Some ent)
        else
          (let (s, status) = bcm2712_bs_cfg_init env s in
           if status \<noteq> EOK then (s, status, Some ent)
           else (if hc_caps s AND HC_CAP_SLOT_TYPE_EMBEDDED = 0 then s\<lparr>hc_caps := hc_caps s AND NOT 0x100000000\<rparr> else s,
                 EOK,
                 Some (ent\<lparr>e_signal_voltage := bcm2712_signal_voltage ok env (e_signal_voltage ent),
                           e_tune := bcm2712_sdhci_tune (e_tune ent)\<rparr>)))))"

end
