(* ===== verification/Sdio_Card_Proofs.thy ===== *)
theory Sdio_Card_Proofs
  imports Sdio_Card
begin

text \<open>
  Theorems on the card registers: a field cut out of the response words is the field of the register
  as one number, and the capacity that the CSD parsers compute is the one the register encodes.
\<close>

section \<open>A register as one number\<close>

text \<open>Most significant word first, as the driver keeps CID, CSD, SCR and SD status.\<close>

fun regval :: "u32 list \<Rightarrow> nat" where
  "regval [] = 0"
| "regval (w # ws) = unat w * 2 ^ (32 * length ws) + regval ws"

definition fld :: "u32 list \<Rightarrow> nat \<Rightarrow> nat \<Rightarrow> nat" where
  "fld rsp start sz = regval rsp div 2 ^ start mod 2 ^ sz"

lemma regval_less: "regval ws < 2 ^ (32 * length ws)"
proof (induction ws)
  case (Cons w ws)
  have "unat w + 1 \<le> 2 ^ 32" using unat_u32_bound(1) [of w] by linarith
  then have "(unat w + 1) * 2 ^ (32 * length ws) \<le> 2 ^ 32 * 2 ^ (32 * length ws)"
    by (rule mult_le_mono1)
  also have "\<dots> = 2 ^ (32 * length (w # ws))" by (simp add: power_add)
  finally show ?case using Cons.IH by (simp add: distrib_right)
qed simp

lemma regval_or: "regval (w # ws) = push_bit (32 * length ws) (unat w) OR regval ws"
proof -
  have "regval ws = take_bit (32 * length ws) (regval ws)"
    using regval_less by (simp add: take_bit_nat_eq_self)
  moreover have "push_bit n a AND take_bit n b = 0" for n and a b :: nat
    by (rule bit_eqI) (auto simp: bit_simps)
  ultimately have "push_bit (32 * length ws) (unat w) AND regval ws = 0" by metis
  then show ?thesis by (simp add: disjunctive_add_eq_or push_bit_eq_mult)
qed

lemma bit_regval:
  "bit (regval ws) k \<longleftrightarrow> k < 32 * length ws \<and> bit (ws ! (length ws - 1 - k div 32)) (k mod 32)"
proof (induction ws)
  case (Cons w ws)
  show ?case
  proof (cases "k < 32 * length ws")
    case True
    then have "k div 32 < length ws" by (simp add: less_mult_imp_div_less mult.commute)
    then have "length (w # ws) - 1 - k div 32 = Suc (length ws - 1 - k div 32)" by simp
    then show ?thesis using True Cons.IH unfolding regval_or by (simp add: bit_simps)
  next
    case False
    then have lo: "\<not> bit (regval ws) k" using Cons.IH by simp
    have "bit (unat w) (k - 32 * length ws) \<longleftrightarrow> k < 32 * length (w # ws) \<and> bit w (k - 32 * length ws)"
      using False by (auto simp: bit_unsigned_iff dest: bit_imp_le_length)
    moreover have "k div 32 = length ws \<and> k mod 32 = k - 32 * length ws" if "k < 32 * length (w # ws)"
    proof -
      from that False obtain r where "k = r + 32 * length ws" "r < 32"
        by (metis add_diff_inverse_nat add.commute length_Cons less_diff_conv2 mult_Suc_right
            leI nat_add_left_cancel_less)
      then show ?thesis by simp
    qed
    ultimately show ?thesis using lo False unfolding regval_or by (auto simp: bit_simps)
  qed
qed simp

lemma block_div_mod: "r < 32 \<Longrightarrow> (32 * q + r) div 32 = q \<and> (32 * q + r) mod 32 = (r :: nat)"
  by simp

lemma extract_field:
  assumes "start + sz \<le> 32 * length data" "sz \<le> 32"
  shows "unat (sdio_extract_bits data (32 * length data) start sz) = fld data start sz"
proof (rule bit_eqI)
  fix k
  let ?n = "length data" and ?s = "start mod 32" and ?i = "length data - start div 32 - 1"
  have m: "(push_bit sz 1 - 1 :: u64) = mask sz" by (simp add: mask_eq_exp_minus_1 push_bit_eq_mult)
  have f: "fld data start sz = take_bit sz (drop_bit start (regval data))"
    by (simp add: fld_def take_bit_eq_mod drop_bit_eq_div)
  have "bit (unat (sdio_extract_bits data (32 * ?n) start sz)) k \<longleftrightarrow> k < sz \<and>
      (if k + ?s < 32 then bit (data ! ?i) (k + ?s)
       else bit (data ! (?i - 1)) (k + ?s - 32))"
    using assms(2) unfolding sdio_extract_bits_def Let_def m
    by (auto simp: bit_simps add.commute diff_diff_left dest: bit_imp_le_length)
  also have "\<dots> \<longleftrightarrow> bit (fld data start sz) k"
  proof (cases "k < sz")
    case True
    have e: "start + k = 32 * (start div 32) + (k + ?s)" by simp
    show ?thesis
    proof (cases "k + ?s < 32")
      case lt: True
      have "(start + k) div 32 = start div 32" "(start + k) mod 32 = k + ?s"
        using block_div_mod [OF lt, of "start div 32"] unfolding e [symmetric] by blast+
      then show ?thesis using True lt assms by (simp add: f bit_simps bit_regval add.commute)
    next
      case ge: False
      then obtain r where r: "k + ?s = r + 32" by (metis add.commute le_Suc_ex not_less)
      have "r < 32" using True assms(2) r by (simp add: trans_less_add2)
      have e': "start + k = 32 * (start div 32 + 1) + r" using e r by (simp add: algebra_simps)
      have d: "(start + k) div 32 = start div 32 + 1" "(start + k) mod 32 = r"
        using block_div_mod [OF \<open>r < 32\<close>, of "start div 32 + 1"] unfolding e' [symmetric] by blast+
      have "?i - 1 = ?n - 1 - (start + k) div 32" unfolding d by simp
      then show ?thesis using True ge assms r d by (simp add: f bit_simps bit_regval add.commute)
    qed
  qed (simp add: f bit_simps)
  finally show "bit (unat (sdio_extract_bits data (32 * ?n) start sz)) k = bit (fld data start sz) k" .
qed

lemma fld_less: "fld rsp start sz < 2 ^ sz"
  by (simp add: fld_def)

lemma extract_field128:
  assumes "length rsp = 4" "start + sz \<le> 128" "sz \<le> 32"
  shows "unat (sdio_extract_bits rsp 128 start sz) = fld rsp start sz"
  using extract_field [of start sz rsp] assms by simp

lemma rsp8_field:
  assumes "length rsp = 4" "start + sz \<le> 128" "sz \<le> 8"
  shows "unat (rsp8 rsp 128 start sz) = fld rsp start sz"
proof -
  have "fld rsp start sz < 2 ^ 8"
    using fld_less [of rsp start sz] power_increasing [of sz 8 "2::nat"] assms(3) by linarith
  then show ?thesis
    using assms extract_field128 [of rsp start sz] by (simp add: rsp8_def unsigned_ucast_eq take_bit_nat_eq_self)
qed

section \<open>Capacity\<close>

lemma unat_mult_u32: "unat (x::u32) * unat y < 2 ^ 32 \<Longrightarrow> unat (x * y) = unat x * unat y"
  by (rule unat_mult_lem [THEN iffD1]) simp

lemma unat_pow2_u32:
  assumes "k < 32"
  shows "unat ((2::u32) ^ k) = 2 ^ k"
proof -
  have "unat (of_nat (2 ^ k) :: u32) = 2 ^ k mod 2 ^ 32" by (simp only: unat_of_nat) simp
  moreover have "(2::nat) ^ k < 2 ^ 32" using assms by (intro power_strict_increasing) auto
  ultimately show ?thesis by simp
qed

lemma capacity_bytes:
  fixes csd :: sdio_csd
  assumes "l < 16" "m < 10" "unat csize \<le> 4096"
  shows "unat (csd_sectors (csd_capacity (2 ^ l) csize (2 ^ m) csd)) *
    unat (csd_blksz (csd_capacity (2 ^ l) csize (2 ^ m) csd)) = unat csize * 2 ^ m * 2 ^ l"
proof -
  let ?b = "2 ^ l :: u32" and ?m = "2 ^ m :: u32"
  have ub: "unat ?b = 2 ^ l" and um: "unat ?m = 2 ^ m" using assms by (simp_all add: unat_pow2_u32)
  have m9: "(2::nat) ^ m \<le> 512" using power_increasing [of m 9 "2::nat"] assms(2) by simp
  show ?thesis
  proof (cases "l \<le> 9")
    case True
    then have "(2::nat) ^ l \<le> 2 ^ 9" by (intro power_increasing) auto
    then have "\<not> ?b > SDIO_DFLT_BLKSZ" by (simp add: word_less_nat_alt ub SDIO_DFLT_BLKSZ_def)
    moreover have "unat csize * 2 ^ m \<le> 4096 * 512" using assms(3) m9 by (rule mult_le_mono)
    ultimately show ?thesis
      by (simp add: csd_capacity_def Let_def ub um unat_mult_u32)
  next
    case False
    then obtain d where d: "l = 9 + d" "0 < d" by (metis add_diff_inverse_nat le_add_diff_inverse
        linorder_not_le nat_le_linear zero_less_diff)
    have d6: "(2::nat) ^ d \<le> 64" using power_increasing [of d 6 "2::nat"] assms(1) d by simp
    have d1: "1 < (2::nat) ^ d" using one_less_power [of "2::nat" d] d(2) by simp
    have "unat ?b = 512 * 2 ^ d" unfolding ub by (simp add: d power_add)
    then have "?b > SDIO_DFLT_BLKSZ" "unat (?b mod SDIO_DFLT_BLKSZ) = 0"
      and q: "unat (?b div SDIO_DFLT_BLKSZ) = 2 ^ d"
      using d1 by (simp_all add: word_less_nat_alt unat_mod unat_div SDIO_DFLT_BLKSZ_def)
    then have big: "?b > SDIO_DFLT_BLKSZ \<and> ?b mod SDIO_DFLT_BLKSZ = 0" by (simp add: unat_eq_0)
    have p1: "unat csize * 2 ^ d \<le> 4096 * 64" using assms(3) d6 by (rule mult_le_mono)
    then have c1: "unat (csize * (?b div SDIO_DFLT_BLKSZ)) = unat csize * 2 ^ d"
      by (subst unat_mult_u32) (simp_all add: q)
    have "unat csize * 2 ^ d * 2 ^ m \<le> 4096 * 64 * 512" using p1 m9 by (rule mult_le_mono)
    then have "unat (csize * (?b div SDIO_DFLT_BLKSZ) * ?m) = unat csize * 2 ^ d * 2 ^ m"
      by (subst unat_mult_u32) (simp_all add: c1 um)
    then show ?thesis using big
      by (simp add: csd_capacity_def Let_def d power_add SDIO_DFLT_BLKSZ_def)
  qed
qed

text \<open>The capacity in bytes as the SD standard defines it for the three structure versions.\<close>

definition card_bytes :: "u32 list \<Rightarrow> nat option" where
  "card_bytes rsp =
    (if fld rsp 126 2 = 0 then Some ((fld rsp 62 12 + 1) * 2 ^ (fld rsp 47 3 + 2) * 2 ^ fld rsp 80 4)
     else if fld rsp 126 2 = 1 then Some ((fld rsp 48 22 + 1) * 2 ^ 19)
     else if fld rsp 126 2 = 2 then Some ((fld rsp 48 28 + 1) * 2 ^ 19)
     else None)"

lemma csd_capacity_tail [simp]:
  "csd_sectors (csd_capacity b c m (sd_csd_tail rsp d)) = csd_sectors (csd_capacity b c m d)"
  "csd_blksz (csd_capacity b c m (sd_csd_tail rsp d)) = csd_blksz (csd_capacity b c m d)"
  by (simp_all add: csd_capacity_def sd_csd_tail_def Let_def)

lemma csd_fields:
  assumes "length rsp = 4"
  shows "unat (csd_read_bl_len (csd_common rsp d)) = fld rsp 80 4"
    "unat (csd_c_size_mult (csd_currents rsp d)) = fld rsp 47 3"
    "unat (csd_c_size (csd_currents rsp d)) = fld rsp 62 12"
    "csd_read_bl_len (csd_currents rsp d) = csd_read_bl_len d"
    "csd_structure (csd_common rsp d) = csd_structure d"
  using assms by (simp_all add: csd_common_def csd_currents_def rsp8_field extract_field128)

lemma unat_u32_Suc: "unat (x::u32) + 1 < 2 ^ 32 \<Longrightarrow> unat (x + 1) = unat x + 1"
  by (simp add: unat_add_u32)

lemma csd_v1_capacity:
  fixes csd0 d' :: sdio_csd
  assumes "length rsp = 4"
  defines "d \<equiv> csd_currents rsp (csd_common rsp csd0)"
  defines "c \<equiv> csd_capacity (push_bit (unat (csd_read_bl_len d)) 1) (csd_c_size d + 1)
                  (push_bit (unat (csd_c_size_mult d) + 2) 1) d'"
  shows "unat (csd_sectors c) * unat (csd_blksz c) =
    (fld rsp 62 12 + 1) * 2 ^ (fld rsp 47 3 + 2) * 2 ^ fld rsp 80 4"
proof -
  have "fld rsp 80 4 < 16" "fld rsp 47 3 < 8" "fld rsp 62 12 < 4096"
    using fld_less [of rsp 80 4] fld_less [of rsp 47 3] fld_less [of rsp 62 12] by simp_all
  moreover from this(3) have "unat (csd_c_size d + 1) = fld rsp 62 12 + 1"
    using assms(1) by (simp add: d_def csd_fields unat_u32_Suc)
  ultimately show ?thesis
    using assms(1) capacity_bytes [of "fld rsp 80 4" "fld rsp 47 3 + 2" "csd_c_size d + 1" d']
    by (simp add: c_def d_def csd_fields push_bit_eq_mult)
qed

lemma csd_v2_capacity:
  "unat (csd_sectors (csd_capacity SDIO_DFLT_BLKSZ (x + 1) 1024 d)) = (unat x * 1024 + 1024) mod 2 ^ 32"
  "csd_blksz (csd_capacity SDIO_DFLT_BLKSZ (x + 1) 1024 d) = 512"
  by (simp_all add: csd_capacity_def SDIO_DFLT_BLKSZ_def unat_word_ariths mod_simps)

lemma fld_version:
  assumes "length rsp = 4"
  shows "rsp8 rsp 128 126 2 = v \<longleftrightarrow> fld rsp 126 2 = unat v"
  using rsp8_field [OF assms, of 126 2] by (simp add: word_unat_eq_iff)

lemma sd_parse_csd_cases:
  assumes "length rsp = 4" "sd_parse_csd dev rsp = (dev', csd, st)" "card_bytes rsp = Some n"
  shows "st = EOK" "n < 2 ^ 41 \<Longrightarrow> unat (csd_sectors csd) * unat (csd_blksz csd) = n"
    "n \<ge> 2 ^ 41 \<Longrightarrow> csd_sectors csd = 0"
proof -
  note ver = fld_version [OF assms(1)]
  let ?d = "csd_common rsp (csd_zero\<lparr>csd_structure := rsp8 rsp 128 126 2\<rparr>)"
  have str: "csd_structure ?d = rsp8 rsp 128 126 2" by (simp add: csd_common_def)
  have big: "csd_sectors csd = 0 \<longleftrightarrow> unat (csd_sectors csd) = 0" by (simp add: unat_eq_0)
  consider (v1) "fld rsp 126 2 = 0" | (v2) "fld rsp 126 2 = 1" | (v3) "fld rsp 126 2 = 2"
    using assms(3) by (auto simp: card_bytes_def split: if_splits)
  then have "st = EOK \<and> (n < 2 ^ 41 \<longrightarrow> unat (csd_sectors csd) * unat (csd_blksz csd) = n) \<and>
    (n \<ge> 2 ^ 41 \<longrightarrow> unat (csd_sectors csd) = 0)"
  proof cases
    case v1
    have "(fld rsp 62 12 + 1) * 2 ^ (fld rsp 47 3 + 2) * 2 ^ fld rsp 80 4 \<le> 2 ^ 12 * 2 ^ 9 * (2::nat) ^ 15"
      using fld_less [of rsp 80 4] fld_less [of rsp 47 3] fld_less [of rsp 62 12]
      by (intro mult_le_mono power_increasing) simp_all
    then show ?thesis
      using v1 assms ver [of 0] csd_v1_capacity [OF assms(1)]
      by (auto simp: sd_parse_csd_def Let_def str card_bytes_def)
  next
    case v2
    have f: "unat (sdio_extract_bits rsp 128 48 22) = fld rsp 48 22" using assms(1) by (simp add: extract_field128)
    have top: "(x * 1024 + 1024) mod 4294967296 = 0" if "4194303 \<le> x" "x < 4194304" for x :: nat
    proof -
      from that have "x = 4194303" by simp
      then show ?thesis by simp
    qed
    show ?thesis
      using v2 assms ver [of 0] ver [of 1] fld_less [of rsp 48 22] f
      by (auto simp: sd_parse_csd_def Let_def str card_bytes_def csd_v2_capacity top)
  next
    case v3
    have f: "unat (sdio_extract_bits rsp 128 48 28) = fld rsp 48 28" using assms(1) by (simp add: extract_field128)
    show ?thesis
      using v3 assms ver [of 0] ver [of 1] ver [of 2] fld_less [of rsp 48 28] f
      by (auto simp: sd_parse_csd_def Let_def str card_bytes_def csd_v2_capacity csd_v2_capacity [of 4194303, simplified] CSD_VER_20_CSIZE_MAX_def
          word_less_nat_alt split: if_splits)
  qed
  then show "st = EOK" "n < 2 ^ 41 \<Longrightarrow> unat (csd_sectors csd) * unat (csd_blksz csd) = n"
    "n \<ge> 2 ^ 41 \<Longrightarrow> csd_sectors csd = 0" by (auto simp: big)
qed

lemma mmc_parse_csd_capacity:
  assumes "length rsp = 4" "mmc_parse_csd rsp = (csd, st)"
  shows "st = EOK" "unat (csd_sectors csd) * unat (csd_blksz csd) =
    (fld rsp 62 12 + 1) * 2 ^ (fld rsp 47 3 + 2) * 2 ^ fld rsp 80 4"
proof -
  let ?c = "csd_currents rsp (csd_common rsp (csd_zero\<lparr>csd_structure := rsp8 rsp 128 126 2, csd_spec_vers := rsp8 rsp 128 122 4\<rparr>))"
  let ?t = "mmc_csd_tail rsp (mmc_csd_erase rsp ?c)"
  have "csd_read_bl_len ?t = csd_read_bl_len ?c" "csd_c_size ?t = csd_c_size ?c"
    "csd_c_size_mult ?t = csd_c_size_mult ?c"
    by (simp_all add: mmc_csd_tail_def mmc_csd_erase_def)
  then show "st = EOK" "unat (csd_sectors csd) * unat (csd_blksz csd) =
    (fld rsp 62 12 + 1) * 2 ^ (fld rsp 47 3 + 2) * 2 ^ fld rsp 80 4"
    using assms(2) csd_v1_capacity [OF assms(1)] by (auto simp: mmc_parse_csd_def Let_def)
qed

section \<open>Speed modes of an MMC device\<close>

lemma and_push_bit: "(x AND push_bit k 1 \<noteq> 0) \<longleftrightarrow> bit x k" for x :: "'a::len word"
proof -
  have "x AND push_bit k 1 = (if bit x k then push_bit k 1 else 0)"
    by (rule bit_eqI) (auto simp: bit_simps)
  moreover have "bit x k \<Longrightarrow> push_bit k (1 :: 'a word) \<noteq> 0"
    using bit_imp_le_length [of x k] by (metis bit_0_eq bit_push_bit_iff bit_1_0 bot_apply bot_bool_def
        diff_self_eq_0 order_refl possible_bit_word)
  ultimately show ?thesis by simp
qed

lemmas cap_bit = and_push_bit [where 'a = 64]

lemma bit_caps [simp]:
  "bit (dev_caps (add_cap c dev)) k \<longleftrightarrow> bit (dev_caps dev) k \<or> bit c k"
  "bit (dev_caps (add_cap_if b c dev)) k \<longleftrightarrow> bit (dev_caps dev) k \<or> b \<and> bit c k"
  "dev_caps (set_ecsd f dev) = dev_caps dev"
  by (auto simp: add_cap_def add_cap_if_def set_ecsd_def bit_simps)

definition has :: "'a::len word \<Rightarrow> 'a word \<Rightarrow> bool" where
  "has x c \<longleftrightarrow> x AND c \<noteq> 0"

lemma has_or: "has x (a OR b) \<longleftrightarrow> has x a \<or> has x b" for x :: "'a::len word"
  by (auto simp: has_def bit.conj_disj_distrib or_eq_0_iff)

lemmas hc_caps = HC_CAP_HS_def HC_CAP_DDR50_def HC_CAP_HS200_def HC_CAP_HS400_def HC_CAP_HS400ES_def
  HC_CAP_SV_1_2V_def HC_CAP_SV_1_8V_def HC_CAP_SV_3_0V_def

lemmas dev_cap_defs = DEV_CAP_HC_def DEV_CAP_CMD23_def DEV_CAP_HS_def DEV_CAP_HS200_def DEV_CAP_DDR50_def
  DEV_CAP_TRIM_def DEV_CAP_SECURE_def DEV_CAP_SANITIZE_def DEV_CAP_BKOPS_def DEV_CAP_SLEEP_def
  DEV_CAP_HPI_CMD12_def DEV_CAP_DISCARD_def DEV_CAP_CACHE_def DEV_CAP_HS400_def DEV_CAP_PWROFF_NOTIFY_def
  DEV_CAP_HS400ES_def DEV_CAP_BKOPS_AUTO_def DEV_CAP_WR_REL_def DEV_CAP_WR_REL_ENH_def

lemma has_mode:
  "has (x::u64) DEV_CAP_HS \<longleftrightarrow> bit x 1" "has (x::u64) DEV_CAP_HS200 \<longleftrightarrow> bit x 2"
  "has (x::u64) DEV_CAP_DDR50 \<longleftrightarrow> bit x 3" "has (x::u64) DEV_CAP_HS400 \<longleftrightarrow> bit x 16"
  unfolding has_def dev_cap_defs by (rule cap_bit)+

text \<open>A mode of the card that both sides support at a common signal voltage.\<close>

definition mode_common :: "u64 \<Rightarrow> u64 \<Rightarrow> u64 \<Rightarrow> u8 \<Rightarrow> u8 \<Rightarrow> u8 \<Rightarrow> bool" where
  "mode_common caps m sv18 ct t18 t12 \<longleftrightarrow>
     has caps m \<and> (has caps sv18 \<and> has ct t18 \<or> has caps HC_CAP_SV_1_2V \<and> has ct t12)"

lemma ct_mask: "has (ct::u8) 0xc0 \<longleftrightarrow> has ct 0x40 \<or> has ct 0x80" "has ct 0x30 \<longleftrightarrow> has ct 0x10 \<or> has ct 0x20"
  "has ct 0x0c \<longleftrightarrow> has ct 0x04 \<or> has ct 0x08" "has ct 0x0e \<longleftrightarrow> has ct 0x02 \<or> has ct 0x04 \<or> has ct 0x08"
  by (simp_all flip: has_or)

lemma bit_cap_consts:
  assumes "k \<in> {1, 2, 3, 16}"
  shows "\<not> bit DEV_CAP_HC k" "\<not> bit DEV_CAP_CMD23 k" "\<not> bit DEV_CAP_WR_REL k" "\<not> bit DEV_CAP_WR_REL_ENH k"
    "\<not> bit DEV_CAP_SLEEP k" "\<not> bit DEV_CAP_SECURE k" "\<not> bit DEV_CAP_TRIM k" "\<not> bit DEV_CAP_BKOPS k"
    "\<not> bit DEV_CAP_HPI_CMD12 k" "\<not> bit DEV_CAP_CACHE k" "\<not> bit DEV_CAP_SANITIZE k"
    "\<not> bit DEV_CAP_PWROFF_NOTIFY k" "\<not> bit DEV_CAP_DISCARD k" "\<not> bit DEV_CAP_HS400ES k" "\<not> bit DEV_CAP_BKOPS_AUTO k"
  using assms by (auto simp: dev_cap_defs bit_push_bit_iff bit_1_iff)

lemma ecsd_steps_modes:
  assumes "k \<in> {1, 2, 3, 16}"
  shows "bit (dev_caps (ecsd_v4_2 raw dev)) k = bit (dev_caps dev) k"
    "bit (dev_caps (ecsd_v4_3 raw dev)) k = bit (dev_caps dev) k"
    "bit (dev_caps (ecsd_v4_4 raw dev)) k = bit (dev_caps dev) k"
    "bit (dev_caps (ecsd_v4_41 raw dev)) k = bit (dev_caps dev) k"
    "bit (dev_caps (fst (ecsd_v4_5 raw dev drv))) k = bit (dev_caps dev) k"
    "bit (dev_caps (ecsd_v5_1 raw caps dev)) k = bit (dev_caps dev) k"
    "ecsd_native raw dev = Some dev1 \<Longrightarrow> dev_caps dev1 = dev_caps dev"
  using bit_cap_consts [OF assms]
  by (auto simp: ecsd_v4_2_def ecsd_v4_3_def ecsd_v4_4_def ecsd_v4_41_def ecsd_v4_5_def ecsd_v5_1_def
      ecsd_native_def Let_def bit_or_iff split: if_splits)

lemma ecsd_speed_modes:
  fixes raw dev caps
  defines "ct \<equiv> raw ! 196" and "d \<equiv> ecsd_speed raw caps dev"
  assumes "\<not> bit (dev_caps dev) 1" "\<not> bit (dev_caps dev) 2" "\<not> bit (dev_caps dev) 3" "\<not> bit (dev_caps dev) 16"
  defines "h4 \<equiv> mode_common caps (HC_CAP_HS400 OR HC_CAP_HS400ES) HC_CAP_SV_1_8V ct 0x40 0x80"
    and "h2 \<equiv> mode_common caps HC_CAP_HS200 HC_CAP_SV_1_8V ct 0x10 0x20"
    and "dd \<equiv> mode_common caps HC_CAP_DDR50 (HC_CAP_SV_3_0V OR HC_CAP_SV_1_8V) ct 0x04 0x08"
    and "hs \<equiv> has caps HC_CAP_HS \<and> has ct 0x0e"
  shows "has (dev_caps d) DEV_CAP_HS400 \<longleftrightarrow> h4" "has (dev_caps d) DEV_CAP_HS200 \<longleftrightarrow> h2"
    "has (dev_caps d) DEV_CAP_DDR50 \<longleftrightarrow> dd" "has (dev_caps d) DEV_CAP_HS \<longleftrightarrow> h4 \<or> h2 \<or> hs"
    "ecsd_dtr_max_hs (dev_ecsd d) = (if h4 \<or> h2 then 200000000 else if hs then 52000000 else 26000000)"
proof -
  have "(0xff :: u8) = - 1" by simp
  then have ff: "ct AND 0xff = ct" by (simp only: and.right_neutral)
  have b: "bit DEV_CAP_HS 1" "bit DEV_CAP_HS200 2" "bit DEV_CAP_DDR50 3" "bit DEV_CAP_HS400 16"
    "\<not> bit DEV_CAP_HS 2" "\<not> bit DEV_CAP_HS 3" "\<not> bit DEV_CAP_HS 16" "\<not> bit DEV_CAP_HS200 1" "\<not> bit DEV_CAP_HS200 3"
    "\<not> bit DEV_CAP_HS200 16" "\<not> bit DEV_CAP_DDR50 1" "\<not> bit DEV_CAP_DDR50 2" "\<not> bit DEV_CAP_DDR50 16"
    "\<not> bit DEV_CAP_HS400 1" "\<not> bit DEV_CAP_HS400 2" "\<not> bit DEV_CAP_HS400 3"
    by (simp_all add: dev_cap_defs bit_push_bit_iff bit_1_iff)
  have hs_bit: "(dev_caps e AND DEV_CAP_HS = 0) = (\<not> bit (dev_caps e) 1)" for e
    using has_mode(1) [of "dev_caps e"] unfolding has_def by blast
  have sv: "sv_match caps v ct a c \<longleftrightarrow> has caps v \<and> has ct a \<or> has caps HC_CAP_SV_1_2V \<and> has ct c" for v a c
    by (simp add: sv_match_def has_def)
  define d0 where "d0 = set_ecsd (ecsd_card_type_update (\<lambda>_. ct)) dev"
  define d1 where "d1 = (if h4 then set_ecsd (ecsd_dtr_max_hs_update (\<lambda>_. 200000000))
    (add_cap (DEV_CAP_HS400 OR DEV_CAP_HS) d0) else d0)"
  define d2 where "d2 = (if h2 then set_ecsd (ecsd_dtr_max_hs_update (\<lambda>_. 200000000))
    (add_cap (DEV_CAP_HS200 OR DEV_CAP_HS) d1) else d1)"
  define d3 where "d3 = (if \<not> bit (dev_caps d2) 1 \<and> hs then set_ecsd (ecsd_dtr_max_hs_update (\<lambda>_. 52000000))
    (add_cap DEV_CAP_HS d2) else d2)"
  define d4 where "d4 = (if \<not> bit (dev_caps d3) 1 then set_ecsd (ecsd_dtr_max_hs_update (\<lambda>_. 26000000)) d3 else d3)"
  have c: "(caps AND (HC_CAP_HS400 OR HC_CAP_HS400ES) \<noteq> 0 \<and> ct AND 0xc0 \<noteq> 0 \<and> sv_match caps HC_CAP_SV_1_8V ct 0x40 0x80) = h4"
    "(caps AND HC_CAP_HS200 \<noteq> 0 \<and> ct AND 0x30 \<noteq> 0 \<and> sv_match caps HC_CAP_SV_1_8V ct 0x10 0x20) = h2"
    "(caps AND HC_CAP_HS \<noteq> 0 \<and> ct AND 0x0e \<noteq> 0) = hs"
    "(caps AND HC_CAP_DDR50 \<noteq> 0 \<and> ct AND 0x0c \<noteq> 0 \<and> sv_match caps (HC_CAP_SV_3_0V OR HC_CAP_SV_1_8V) ct 0x04 0x08) = dd"
    using ct_mask [of ct] unfolding sv h4_def h2_def hs_def dd_def mode_common_def has_def by blast+
  have d: "d = add_cap_if dd DEV_CAP_DDR50 d4"
    unfolding d_def ecsd_speed_def Let_def ct_def [symmetric] ff c hs_bit d4_def d3_def d2_def d1_def d0_def
    by (rule refl)
  have s1: "bit (dev_caps d1) 16 = h4" "bit (dev_caps d1) 1 = h4" "\<not> bit (dev_caps d1) 2" "\<not> bit (dev_caps d1) 3"
    using assms(3-6) b by (auto simp: d1_def d0_def bit_or_iff)
  then have s2: "bit (dev_caps d2) 16 = h4" "bit (dev_caps d2) 1 = (h4 \<or> h2)" "bit (dev_caps d2) 2 = h2" "\<not> bit (dev_caps d2) 3"
    using b by (auto simp: d2_def bit_or_iff)
  have "bit (dev_caps d4) 16 = h4" "bit (dev_caps d4) 1 = (h4 \<or> h2 \<or> hs)" "bit (dev_caps d4) 2 = h2" "\<not> bit (dev_caps d4) 3"
    using s2 b by (auto simp: d4_def d3_def)
  then show "has (dev_caps d) DEV_CAP_HS400 \<longleftrightarrow> h4" "has (dev_caps d) DEV_CAP_HS200 \<longleftrightarrow> h2"
    "has (dev_caps d) DEV_CAP_DDR50 \<longleftrightarrow> dd" "has (dev_caps d) DEV_CAP_HS \<longleftrightarrow> h4 \<or> h2 \<or> hs"
    using b by (auto simp: d has_mode)
  have "dev_ecsd d = dev_ecsd d4" by (simp add: d add_cap_if_def add_cap_def)
  then show "ecsd_dtr_max_hs (dev_ecsd d) = (if h4 \<or> h2 then 200000000 else if hs then 52000000 else 26000000)"
    using s2 b by (auto simp: d4_def d3_def d2_def d1_def set_ecsd_def)
qed

section \<open>Theorems\<close>

text \<open>\<open>sdio_extract_bits\<close> returns the field of the register: the words taken as one number,
  most significant word first, shifted and masked, also where a field crosses a word boundary.\<close>

theorem extract_bits_field:
  assumes "start + sz \<le> 32 * length data" "sz \<le> 32"
  shows "unat (sdio_extract_bits data (32 * length data) start sz) = regval data div 2 ^ start mod 2 ^ sz"
  using extract_field [OF assms] by (simp add: fld_def)

theorem extract_bits_field_witness:
  "unat (sdio_extract_bits [0x400E0032, 0x5B590000, 0xEDC87F80, 0x0A4040DF] 128 48 22) =
     regval [0x400E0032, 0x5B590000, 0xEDC87F80, 0x0A4040DF] div 2 ^ 48 mod 2 ^ 22"
  using extract_bits_field [of 48 22 "[0x400E0032, 0x5B590000, 0xEDC87F80, 0x0A4040DF]"] by simp

text \<open>Claim C36. The capacity of an SD card: for every CSD the parser returns an error exactly when the
  structure version is unknown, and below 2 TB the number of sectors times their size is the number
  of bytes the register encodes, for all versions, with block lengths other than 512 counted in
  sectors of 512 bytes. A card of 2 TB or more is accepted with no sectors at all: its size is limited to the
  largest 22-bit value, and the product of 32-bit operands then wraps to zero.\<close>

theorem sd_csd_capacity:
  assumes "length rsp = 4" "sd_parse_csd dev rsp = (dev', csd, st)"
  shows "case card_bytes rsp of None \<Rightarrow> st = EINVAL
    | Some n \<Rightarrow> st = EOK \<and>
        (if n < 2 ^ 41 then unat (csd_sectors csd) * unat (csd_blksz csd) = n else csd_sectors csd = 0)"
proof (cases "card_bytes rsp")
  case None
  then have "rsp8 rsp 128 126 2 \<notin> {0, 1, 2}"
    using fld_version [OF assms(1)] by (auto simp: card_bytes_def split: if_splits)
  then show ?thesis using None assms(2) by (auto simp: sd_parse_csd_def Let_def csd_common_def)
next
  case (Some n)
  then show ?thesis using sd_parse_csd_cases [OF assms Some] by simp
qed


end
