(* ===== verification/Sdhci_Proofs.thy ===== *)
theory Sdhci_Proofs
  imports Sdhci Sdio_Card_Proofs
begin

text \<open>
  Theorems on the SD host controller code: the bounded waits, the descriptor table, the divider of
  the clock, responses and completion.
\<close>

section \<open>Register accesses leave the rest of the state alone\<close>

lemma sdhci_in_eq:
  "sdhci_in env w r s =
    (s\<lparr>hlog := IN w r (clip w (env_hw env (hlog s) w r)) # hlog s\<rparr>, clip w (env_hw env (hlog s) w r))"
  by (simp add: sdhci_in_def Let_def)

lemma clip32 [simp]: "clip W32 v = v"
  by (simp add: clip_def)

definition log_only :: "sdio_hc \<Rightarrow> sdio_hc \<Rightarrow> bool" where
  "log_only s s' \<longleftrightarrow> (\<exists>l. s' = s\<lparr>hlog := l @ hlog s\<rparr>)"

lemma log_only_refl [simp]: "log_only s s"
  unfolding log_only_def by (rule exI [of _ "[]"]) simp

lemma log_only_trans:
  assumes "log_only s t" "log_only t u"
  shows "log_only s u"
proof -
  from assms obtain l m where "t = s\<lparr>hlog := l @ hlog s\<rparr>" "u = t\<lparr>hlog := m @ hlog t\<rparr>"
    unfolding log_only_def by blast
  then have "u = s\<lparr>hlog := (m @ l) @ hlog s\<rparr>" by simp
  then show ?thesis unfolding log_only_def by blast
qed

lemma log_only_step:
  assumes "log_only (s\<lparr>hlog := e # hlog s\<rparr>) t"
  shows "log_only s t"
proof -
  have "s\<lparr>hlog := e # hlog s\<rparr> = s\<lparr>hlog := [e] @ hlog s\<rparr>" by simp
  then have "log_only s (s\<lparr>hlog := e # hlog s\<rparr>)" unfolding log_only_def by blast
  from this assms show ?thesis by (rule log_only_trans)
qed

lemma log_only_in: "log_only (fst (sdhci_in env w r s)) t \<Longrightarrow> log_only s t"
  by (rule log_only_step) (simp add: sdhci_in_eq)

lemma log_only_out: "log_only (sdhci_out w r v s) t \<Longrightarrow> log_only s t"
  unfolding sdhci_out_def by (rule log_only_step)

lemma log_only_pause: "log_only (pause n s) t \<Longrightarrow> log_only s t"
  unfolding pause_def by (rule log_only_step)

lemma poll_Suc:
  "poll env reg msk val usec (Suc n) s =
    (if env_hw env (hlog s) W32 reg AND msk = val then (s\<lparr>hlog := IN W32 reg (env_hw env (hlog s) W32 reg) # hlog s\<rparr>, EOK)
     else poll env reg msk val usec n (s\<lparr>hlog := DELAY usec # IN W32 reg (env_hw env (hlog s) W32 reg) # hlog s\<rparr>))"
  by (simp add: sdhci_in_eq pause_def)

declare poll.simps(2) [simp del]

lemma log_only_poll: "log_only s (fst (poll env reg msk val usec n s))"
proof (induction n arbitrary: s)
  case (Suc n)
  have "log_only (s\<lparr>hlog := IN W32 reg v # hlog s\<rparr>)
      (fst (poll env reg msk val usec n (s\<lparr>hlog := DELAY usec # IN W32 reg v # hlog s\<rparr>)))" for v
    using Suc.IH [of "s\<lparr>hlog := DELAY usec # IN W32 reg v # hlog s\<rparr>"]
    by (intro log_only_step [where e = "DELAY usec" and s = "s\<lparr>hlog := IN W32 reg v # hlog s\<rparr>"]) simp
  then have "log_only s (fst (poll env reg msk val usec n (s\<lparr>hlog := DELAY usec # IN W32 reg v # hlog s\<rparr>)))" for v
    by (rule log_only_step)
  then show ?case by (simp add: poll_Suc log_only_step [OF log_only_refl])
qed simp

lemma waitmask_eq:
  "sdhci_waitmask env reg msk val usec s =
    (let p = poll env reg msk val 1 (unat (min usec 1000)) s
     in if usec > 1000 \<and> snd p \<noteq> EOK then poll env reg msk val 1000 (unat (usec div 1000)) (fst p) else p)"
  unfolding sdhci_waitmask_def Let_def split_beta prod.collapse by (rule refl)

lemma log_only_waitmask: "log_only s (fst (sdhci_waitmask env reg msk val usec s))"
  unfolding waitmask_eq Let_def using log_only_poll log_only_trans [OF log_only_poll log_only_poll] by auto

lemma log_only_reset: "log_only s (fst (sdhci_reset env rst s))"
proof -
  let ?t = "sdhci_out32 SDHCI_SYSCTL (snd (sdhci_in32 env SDHCI_SYSCTL s) OR rst) (fst (sdhci_in32 env SDHCI_SYSCTL s))"
  let ?w = "fst (sdhci_waitmask env SDHCI_SYSCTL rst 0 100000 ?t)"
  let ?v = "fst (sdhci_waitmask env SDHCI_SYSCTL SDHCI_SYSCTL_ICS SDHCI_SYSCTL_ICS 20000
      (sdhci_out32 SDHCI_SYSCTL SDHCI_SYSCTL_ICE (pause 1000 ?w)))"
  have w: "log_only s ?w" by (rule log_only_in, rule log_only_out, rule log_only_waitmask)
  have "log_only ?w ?v" by (rule log_only_pause, rule log_only_out, rule log_only_waitmask)
  with w have v: "log_only s ?v" by (rule log_only_trans)
  have "fst (sdhci_reset env rst s) =
      (if hc_flags ?w AND SF_ICE_PERSIST \<noteq> 0 \<and> rst AND SDHCI_SYSCTL_SRA \<noteq> 0 then ?v else ?w)"
    unfolding sdhci_reset_def Let_def split_beta fst_conv by (rule refl)
  then show ?thesis by (simp only: v w simp_thms split: if_split)
qed

lemma log_only_fields:
  assumes "log_only s t"
  shows "hc_wspc t = hc_wspc s" "cmd_mem t = cmd_mem s" "hc_cs t = hc_cs s" "hc_flags t = hc_flags s"
    "hc_version t = hc_version s" "hc_clk_max t = hc_clk_max s" "hc_cfg t = hc_cfg s" "hc_caps t = hc_caps s"
    "hc_cs_hdl t = hc_cs_hdl s" "hc_cs_frees t = hc_cs_frees s" "hc_device t = hc_device s"
  using assms by (auto simp: log_only_def)

section \<open>Waiting\<close>

text \<open>What a sequence of polls leaves in the log: reads that fail and delays, newest first.\<close>

fun poll_log :: "u32 \<Rightarrow> u32 \<Rightarrow> u32 \<Rightarrow> nat \<Rightarrow> u32 list \<Rightarrow> sdio_io list" where
  "poll_log reg msk val usec [] = []"
| "poll_log reg msk val usec (v # vs) = poll_log reg msk val usec vs @ [DELAY usec, IN W32 reg v]"

lemma poll_cases:
  obtains vs v where "fst (poll env reg msk val usec n s) = s\<lparr>hlog := IN W32 reg v # poll_log reg msk val usec vs @ hlog s\<rparr>"
      "snd (poll env reg msk val usec n s) = EOK" "v AND msk = val" "length vs < n"
  | vs where "fst (poll env reg msk val usec n s) = s\<lparr>hlog := poll_log reg msk val usec vs @ hlog s\<rparr>"
      "snd (poll env reg msk val usec n s) = ETIMEDOUT" "\<forall>v\<in>set vs. v AND msk \<noteq> val" "length vs = n"
proof (induction n arbitrary: s thesis)
  case 0
  then show ?case by (intro 0(2) [of "[]"]) simp_all
next
  case (Suc n)
  define v where "v = env_hw env (hlog s) W32 reg"
  show ?case
  proof (cases "v AND msk = val")
    case True
    then show ?thesis by (intro Suc.prems(1) [of v "[]"]) (simp_all add: poll_Suc v_def)
  next
    case False
    then have e: "poll env reg msk val usec (Suc n) s =
        poll env reg msk val usec n (s\<lparr>hlog := DELAY usec # IN W32 reg v # hlog s\<rparr>)"
      by (simp add: poll_Suc v_def)
    show ?thesis
    proof (rule Suc.IH [of "s\<lparr>hlog := DELAY usec # IN W32 reg v # hlog s\<rparr>"], goal_cases)
      case (1 x vs)
      then show ?thesis by (intro Suc.prems(1) [of x "v # vs"]) (simp_all add: e)
    next
      case (2 vs)
      then show ?thesis using False by (intro Suc.prems(2) [of "v # vs"]) (simp_all add: e)
    qed
  qed
qed

lemma waited_append [simp]: "waited (a @ b) = waited a + waited b"
proof (induction a)
  case (Cons x a)
  then show ?case by (cases x) auto
qed simp

lemma waited_poll [simp]: "waited (poll_log reg msk val usec vs) = length vs * usec"
  by (induction vs) auto

lemma waitmask_post:
  fixes env reg msk val usec s
  defines "r \<equiv> sdhci_waitmask env reg msk val usec s"
  shows "waited (hlog (fst r)) \<le> waited (hlog s) + unat usec + 1000 \<and>
    (snd r = EOK \<and> (\<exists>v l. hlog (fst r) = IN W32 reg v # l \<and> v AND msk = val) \<or>
     snd r = ETIMEDOUT \<and> waited (hlog (fst r)) \<ge> waited (hlog s) + unat usec)"
proof -
  let ?n = "unat (min usec 1000)" and ?m = "unat (usec div 1000)"
  let ?p = "poll env reg msk val 1 ?n s"
  have n: "?n = min (unat usec) 1000" by (simp add: min_def word_le_nat_alt)
  have m: "?m = unat usec div 1000" by (simp add: unat_div)
  have le: "unat usec div 1000 * 1000 \<le> unat usec" "unat usec \<le> unat usec div 1000 * 1000 + 999"
    using div_mult_mod_eq [of "unat usec" 1000] mod_less_divisor [of 1000 "unat usec"] by linarith+
  show ?thesis
  proof (rule poll_cases [of env reg msk val 1 ?n s])
    fix vs v
    assume a: "fst ?p = s\<lparr>hlog := IN W32 reg v # poll_log reg msk val 1 vs @ hlog s\<rparr>" "snd ?p = EOK" "v AND msk = val"
      "length vs < ?n"
    then have "r = ?p" by (simp add: r_def waitmask_eq Let_def)
    then show ?thesis using a n by simp
  next
    fix vs
    assume a: "fst ?p = s\<lparr>hlog := poll_log reg msk val 1 vs @ hlog s\<rparr>" "snd ?p = ETIMEDOUT" "length vs = ?n"
    show ?thesis
    proof (cases "usec > 1000")
      case False
      then have "r = ?p" "unat usec \<le> 1000"
        by (simp_all add: r_def waitmask_eq Let_def word_less_nat_alt)
      then show ?thesis using a n by simp
    next
      case True
      let ?q = "poll env reg msk val 1000 ?m (fst ?p)"
      have r: "r = ?q" using True a by (simp add: r_def waitmask_eq Let_def)
      have n': "?n = 1000" using True n by (simp add: word_less_nat_alt)
      show ?thesis
      proof (rule poll_cases [of env reg msk val 1000 ?m "fst ?p"])
        fix ws v
        assume b: "fst ?q = (fst ?p)\<lparr>hlog := IN W32 reg v # poll_log reg msk val 1000 ws @ hlog (fst ?p)\<rparr>"
          "snd ?q = EOK" "v AND msk = val" "length ws < ?m"
        then have "length ws * 1000 \<le> unat usec" using le m by linarith
        then show ?thesis using a b r n' by simp
      next
        fix ws
        assume b: "fst ?q = (fst ?p)\<lparr>hlog := poll_log reg msk val 1000 ws @ hlog (fst ?p)\<rparr>" "snd ?q = ETIMEDOUT"
          "length ws = ?m"
        then show ?thesis using a r n' m le by simp
      qed
    qed
  qed
qed

section \<open>The descriptor table\<close>

text \<open>The pieces of at most 60 KB that an entry of the scatter list is cut into.\<close>

function adma_split :: "u64 \<Rightarrow> u32 \<Rightarrow> (u64 \<times> u32) list" where
  "adma_split pa cnt =
    (if cnt = 0 then []
     else (pa, min cnt SDHCI_ADMA2_MAX_XFER) #
       adma_split (pa + ucast (min cnt SDHCI_ADMA2_MAX_XFER)) (cnt - min cnt SDHCI_ADMA2_MAX_XFER))"
  by pat_completeness auto
termination
proof (relation "measure (\<lambda>(pa, cnt). unat cnt)")
  fix cnt :: u32
  assume "cnt \<noteq> 0"
  then have "0 < unat (min cnt SDHCI_ADMA2_MAX_XFER)" "unat (min cnt SDHCI_ADMA2_MAX_XFER) \<le> unat cnt"
    by (auto simp: min_def unat_gt_0 word_le_nat_alt)
  then show "((a, cnt - min cnt SDHCI_ADMA2_MAX_XFER), b, cnt) \<in> measure (\<lambda>(pa, cnt). unat cnt)" for a b :: u64
    by (simp add: unat_sub_nat)
qed simp

declare adma_split.simps [simp del]

definition mk_desc :: "u32 \<Rightarrow> u64 \<times> u32 \<Rightarrow> adma_desc \<Rightarrow> adma_desc" where
  "mk_desc f pl d =
    (let d = d\<lparr>ad_attr := SDHCI_ADMA2_VALID OR SDHCI_ADMA2_TRAN, ad_addr_lo := ucast (fst pl), ad_len := ucast (snd pl)\<rparr>
     in if f AND SF_USE_ADMA64 \<noteq> 0
        then (let d = d\<lparr>ad_addr_hi := ucast (drop_bit 32 (fst pl))\<rparr>
              in if f AND SF_V4_MODE \<noteq> 0 then d\<lparr>ad_reserved := 0\<rparr> else d)
        else d)"

fun put_descs :: "u32 \<Rightarrow> nat \<Rightarrow> (u64 \<times> u32) list \<Rightarrow> (int \<Rightarrow> adma_desc) \<Rightarrow> int \<Rightarrow> adma_desc" where
  "put_descs f i [] t = t"
| "put_descs f i (d # ds) t = put_descs f (i + 1) ds (t(int i := mk_desc f d (t (int i))))"

definition set_tab :: "(int \<Rightarrow> adma_desc) \<Rightarrow> sdio_hc \<Rightarrow> sdio_hc" where
  "set_tab t s = s\<lparr>hc_cs := (hc_cs s)\<lparr>sh_adma := t\<rparr>\<rparr>"

abbreviation (input) tab :: "sdio_hc \<Rightarrow> int \<Rightarrow> adma_desc" where "tab s \<equiv> sh_adma (hc_cs s)"

lemma set_tab_simps [simp]:
  "tab (set_tab t s) = t" "sh_flags (hc_cs (set_tab t s)) = sh_flags (hc_cs s)"
  "set_tab u (set_tab t s) = set_tab u s" "hc_cfg (set_tab t s) = hc_cfg s" "set_tab (tab s) s = s"
  "sh_admap (hc_cs (set_tab t s)) = sh_admap (hc_cs s)"
  by (simp_all add: set_tab_def)

lemma upd_adma_eq: "upd_adma i f s = set_tab ((tab s)(i := f (tab s i))) s"
  by (simp only: upd_adma_def set_tab_def)

lemma adma_write_eq:
  "adma_write i pa l s = set_tab ((tab s)(i := mk_desc (sh_flags (hc_cs s)) (pa, l) (tab s i))) s"
  unfolding adma_write_def Let_def upd_adma_eq mk_desc_def set_tab_simps fun_upd_same fun_upd_upd fst_conv snd_conv
  by (cases "sh_flags (hc_cs s) AND SF_USE_ADMA64 = 0"; cases "sh_flags (hc_cs s) AND SF_V4_MODE = 0";
      simp only: if_True if_False simp_thms)

lemma adma_step:
  assumes "cnt \<noteq> 0"
  obtains l where "adma_split pa cnt = (pa, l) # adma_split (pa + ucast l) (cnt - l)"
    "l = min cnt SDHCI_ADMA2_MAX_XFER"
    "\<And>acnt s. adma_entry acnt pa cnt s = (if acnt + 1 > 256 then (adma_write (int acnt) pa l s, None)
       else adma_entry (acnt + 1) (pa + ucast l) (cnt - l) (adma_write (int acnt) pa l s))"
proof (rule that [OF _ refl])
  show "adma_split pa cnt = (pa, min cnt SDHCI_ADMA2_MAX_XFER) #
      adma_split (pa + ucast (min cnt SDHCI_ADMA2_MAX_XFER)) (cnt - min cnt SDHCI_ADMA2_MAX_XFER)"
    using assms by (subst adma_split.simps) (simp only: if_False)
  show "adma_entry acnt pa cnt s = (if acnt + 1 > 256 then (adma_write (int acnt) pa (min cnt SDHCI_ADMA2_MAX_XFER) s, None)
       else adma_entry (acnt + 1) (pa + ucast (min cnt SDHCI_ADMA2_MAX_XFER)) (cnt - min cnt SDHCI_ADMA2_MAX_XFER)
         (adma_write (int acnt) pa (min cnt SDHCI_ADMA2_MAX_XFER) s))" for acnt s
    using assms by (subst adma_entry.simps) (simp only: if_False Let_def)
qed

lemma adma_entry_eq:
  assumes "acnt \<le> 256"
  shows "adma_entry acnt pa cnt s =
    (set_tab (put_descs (sh_flags (hc_cs s)) acnt (take (257 - acnt) (adma_split pa cnt)) (tab s)) s,
     if acnt + length (adma_split pa cnt) \<le> 256 then Some (acnt + length (adma_split pa cnt)) else None)"
  using assms
proof (induction pa cnt arbitrary: acnt s rule: adma_split.induct)
  case (1 pa cnt)
  show ?case
  proof (cases "cnt = 0")
    case True
    then show ?thesis using 1(2) by (simp add: adma_entry.simps adma_split.simps)
  next
    case c: False
    show ?thesis
    proof (rule adma_step [OF c, of pa])
      fix l
      assume sp: "adma_split pa cnt = (pa, l) # adma_split (pa + ucast l) (cnt - l)"
        and l: "l = min cnt SDHCI_ADMA2_MAX_XFER"
        and e: "\<And>acnt s. adma_entry acnt pa cnt s = (if acnt + 1 > 256 then (adma_write (int acnt) pa l s, None)
         else adma_entry (acnt + 1) (pa + ucast l) (cnt - l) (adma_write (int acnt) pa l s))"
      show ?thesis
      proof (cases "acnt = 256")
        case True
        then show ?thesis unfolding e sp by (simp add: adma_write_eq fun_upd_def)
      next
        case False
        then have le: "acnt + 1 \<le> 256" "\<not> acnt + 1 > 256" using 1(2) by simp_all
        note ih = 1(1) [OF c le(1), of "adma_write (int acnt) pa l s", folded l]
        have t: "take (257 - acnt) ((pa, l) # ds) = (pa, l) # take (257 - (acnt + 1)) ds" for ds
        proof -
          have "257 - acnt = Suc (256 - acnt)" "257 - (acnt + 1) = 256 - acnt" using 1(2) by simp_all
          then show ?thesis by (simp only: take_Suc_Cons)
        qed
        have "adma_entry acnt pa cnt s =
            adma_entry (acnt + 1) (pa + ucast l) (cnt - l) (adma_write (int acnt) pa l s)"
          unfolding e using le(2) by (simp only: if_False)
        from this [unfolded ih] show ?thesis
          unfolding sp t put_descs.simps adma_write_eq set_tab_simps
          by (simp only: length_Cons add_Suc_right add_Suc add.assoc plus_1_eq_Suc add_0_right)
      qed
    qed
  qed
qed

definition split_all :: "u64 \<Rightarrow> sdio_sge list \<Rightarrow> (u64 \<times> u32) list" where
  "split_all xlat es = concat (map (\<lambda>e. adma_split (sg_address e + xlat) (sg_count e)) es)"

lemma put_descs_append:
  "put_descs f i (a @ b) t = put_descs f (i + length a) b (put_descs f i a t)"
  by (induction a arbitrary: i t) simp_all

lemma adma_entries_eq:
  assumes "acnt \<le> 256"
  shows "adma_entries xlat acnt es s =
    (set_tab (put_descs (sh_flags (hc_cs s)) acnt (take (257 - acnt) (split_all xlat es)) (tab s)) s,
     if acnt + length (split_all xlat es) \<le> 256 then Some (acnt + length (split_all xlat es)) else None)"
  using assms
proof (induction es arbitrary: acnt s)
  case Nil
  then show ?case by (simp add: split_all_def)
next
  case (Cons e es)
  let ?d = "adma_split (sg_address e + xlat) (sg_count e)"
  have sp: "split_all xlat (e # es) = ?d @ split_all xlat es" by (simp add: split_all_def)
  show ?case
  proof (cases "acnt + length ?d \<le> 256")
    case True
    then show ?thesis
      using Cons.IH [of "acnt + length ?d"] Cons.prems
      by (simp add: adma_entry_eq sp put_descs_append add.assoc)
  next
    case False
    then show ?thesis using Cons.prems by (simp add: adma_entry_eq sp)
  qed
qed

lemma put_descs_outside: "j < int i \<or> int i + int (length ds) \<le> j \<Longrightarrow> put_descs f i ds t j = t j"
  by (induction ds arbitrary: i t) auto

lemma put_descs_inside: "k < length ds \<Longrightarrow> put_descs f i ds t (int (i + k)) = mk_desc f (ds ! k) (t (int (i + k)))"
proof (induction ds arbitrary: i t k)
  case (Cons d ds)
  show ?case
  proof (cases k)
    case 0
    then show ?thesis by (simp add: put_descs_outside)
  next
    case (Suc m)
    then show ?thesis using Cons.IH [of m "i + 1" "t(int i := mk_desc f d (t (int i)))"] Cons.prems by (simp add: fun_upd_def)
  qed
qed simp

text \<open>The bytes that a descriptor transfers, and those of an entry of the scatter list, by their
  addresses on the bus.\<close>

definition desc_addr :: "u32 \<Rightarrow> adma_desc \<Rightarrow> u64" where
  "desc_addr f d = (if f AND SF_USE_ADMA64 \<noteq> 0 then push_bit 32 (ucast (ad_addr_hi d)) OR ucast (ad_addr_lo d)
                    else ucast (ad_addr_lo d))"

definition bus_range :: "u64 \<Rightarrow> nat \<Rightarrow> u64 list" where
  "bus_range a n = map (\<lambda>i. a + of_nat i) [0 ..< n]"

definition desc_bytes :: "u32 \<Rightarrow> adma_desc \<Rightarrow> u64 list" where
  "desc_bytes f d = bus_range (desc_addr f d) (unat (ad_len d))"

definition sg_bytes :: "u64 \<Rightarrow> sdio_sge \<Rightarrow> u64 list" where
  "sg_bytes xlat e = bus_range (sg_address e + xlat) (unat (sg_count e))"

lemma bus_range_append: "bus_range a (m + n) = bus_range a m @ bus_range (a + of_nat m) n"
  by (induction n) (simp_all add: bus_range_def add.assoc)

lemma split_induct [case_names Nil Cons]:
  assumes "\<And>pa. P pa 0 []"
    and "\<And>pa cnt l ds. l = min cnt SDHCI_ADMA2_MAX_XFER \<Longrightarrow> unat cnt = unat l + unat (cnt - l) \<Longrightarrow>
      0 < unat l \<Longrightarrow> unat l \<le> 61440 \<Longrightarrow> P (pa + ucast l) (cnt - l) ds \<Longrightarrow> P pa cnt ((pa, l) # ds)"
  shows "P pa cnt (adma_split pa cnt)"
proof (induction pa cnt rule: adma_split.induct)
  case (1 pa cnt)
  show ?case
  proof (cases "cnt = 0")
    case True
    then show ?thesis using assms(1) by (simp add: adma_split.simps)
  next
    case False
    define l where "l = min cnt SDHCI_ADMA2_MAX_XFER"
    have b: "unat l \<le> unat cnt" "unat l \<le> 61440" "0 < unat l"
      using False unfolding l_def by (auto simp: min_def word_le_nat_alt unat_gt_0)
    then have c: "unat cnt = unat l + unat (cnt - l)" by (simp add: unat_sub_nat)
    have "adma_split pa cnt = (pa, l) # adma_split (pa + ucast l) (cnt - l)"
      using False unfolding l_def by (subst adma_split.simps) (simp only: if_False)
    then show ?thesis using assms(2) [OF l_def c b(3,2) 1 [OF False, folded l_def]] by simp
  qed
qed

lemma split_bytes: "concat (map (\<lambda>(a, l). bus_range a (unat l)) (adma_split pa cnt)) = bus_range pa (unat cnt)"
proof (induction rule: split_induct)
  case (Nil pa)
  then show ?case by (simp add: bus_range_def)
next
  case (Cons pa cnt l ds)
  show ?case unfolding Cons(2) bus_range_append using Cons(5) by simp
qed

lemma split_bounds:
  "\<forall>(a, l) \<in> set (adma_split pa cnt). unat l \<le> 61440 \<and> (unat pa + unat cnt \<le> 2 ^ 32 \<longrightarrow> unat a < 2 ^ 32)"
proof (induction rule: split_induct)
  case (Cons pa cnt l ds)
  have "unat pa + unat cnt \<le> 2 ^ 32 \<Longrightarrow> unat (pa + ucast l) = unat pa + unat l"
    using Cons(2) by (subst unat_add_u64) simp_all
  then show ?case using Cons by auto
qed simp

lemma desc_of_piece:
  assumes "f AND SF_USE_ADMA64 \<noteq> 0 \<or> unat a < 2 ^ 32" "unat l \<le> 61440"
  shows "desc_bytes f (mk_desc f (a, l) d) = bus_range a (unat l)" "ad_attr (mk_desc f (a, l) d) = 0x21"
proof -
  have lo: "ad_addr_lo (mk_desc f (a, l) d) = ucast a" and len: "ad_len (mk_desc f (a, l) d) = ucast l"
    and hi: "f AND SF_USE_ADMA64 \<noteq> 0 \<Longrightarrow> ad_addr_hi (mk_desc f (a, l) d) = ucast (drop_bit 32 a)"
    by (simp_all add: mk_desc_def Let_def)
  show "ad_attr (mk_desc f (a, l) d) = 0x21" by (simp add: mk_desc_def Let_def)
  have "unat (ucast l :: u16) = unat l" using assms(2) by (simp add: unsigned_ucast_eq take_bit_nat_eq_self)
  moreover have "push_bit 32 (ucast (ucast (drop_bit 32 a) :: u32)) OR ucast (ucast a :: u32) = a"
    by (rule bit_eqI) (auto simp: bit_simps dest: bit_imp_le_length)
  moreover have "ucast (ucast a :: u32) = a" if "unat a < 2 ^ 32"
    using that by (intro word_unat_eq_iff [THEN iffD2])
      (simp add: unsigned_ucast_eq unsigned_take_bit_eq take_bit_nat_eq_self)
  ultimately show "desc_bytes f (mk_desc f (a, l) d) = bus_range a (unat l)"
    using assms(1) by (auto simp: desc_bytes_def desc_addr_def lo len hi)
qed

lemma phys_sg_frame:
  assumes "phys_sg env cmd s = (s1, sgs)"
  shows "tab s1 = tab s" "sh_flags (hc_cs s1) = sh_flags (hc_cs s)" "hc_cfg s1 = hc_cfg s"
  using assms by (auto simp: phys_sg_def Let_def split: if_splits)

definition adma_done :: "nat \<Rightarrow> (int \<Rightarrow> adma_desc) \<Rightarrow> int \<Rightarrow> adma_desc" where
  "adma_done n t = t(int n - 1 := (t (int n - 1))\<lparr>ad_attr := ad_attr (t (int n - 1)) OR SDHCI_ADMA2_END\<rparr>)"

lemma adma_setup_table:
  assumes p: "phys_sg env cmd s = (s1, sgs)"
  defines "f \<equiv> sh_flags (hc_cs s)" and "ds \<equiv> split_all (cfg_bmstr_xlat (hc_cfg s)) sgs"
  shows "tab (fst (sdhci_adma_setup env cmd s)) =
      (if length ds \<le> 256 then adma_done (length ds) (put_descs f 0 ds (tab s)) else put_descs f 0 (take 257 ds) (tab s))"
    "snd (sdhci_adma_setup env cmd s) = (if length ds \<le> 256 then EOK else ENOTSUP)"
proof -
  have fr: "tab (sdhci_out w r v u) = tab u" "sh_flags (hc_cs (sdhci_out w r v u)) = sh_flags (hc_cs u)" for w r v u
    by (simp_all add: sdhci_out_def)
  show "tab (fst (sdhci_adma_setup env cmd s)) =
      (if length ds \<le> 256 then adma_done (length ds) (put_descs f 0 ds (tab s)) else put_descs f 0 (take 257 ds) (tab s))"
    "snd (sdhci_adma_setup env cmd s) = (if length ds \<le> 256 then EOK else ENOTSUP)"
    by (simp_all add: sdhci_adma_setup_def p Let_def adma_entries_eq phys_sg_frame [OF p] f_def ds_def
        upd_adma_eq adma_done_def fr)
qed

lemma split_all_bytes:
  assumes "f AND SF_USE_ADMA64 \<noteq> 0 \<or> (\<forall>e\<in>set sgs. unat (sg_address e + xlat) + unat (sg_count e) \<le> 2 ^ 32)"
  shows "concat (map (\<lambda>(a, l). bus_range a (unat l)) (split_all xlat sgs)) = concat (map (sg_bytes xlat) sgs)"
    "\<forall>(a, l) \<in> set (split_all xlat sgs). unat l \<le> 61440 \<and> (f AND SF_USE_ADMA64 \<noteq> 0 \<or> unat a < 2 ^ 32)"
proof -
  show "concat (map (\<lambda>(a, l). bus_range a (unat l)) (split_all xlat sgs)) = concat (map (sg_bytes xlat) sgs)"
    by (induction sgs) (simp_all add: split_all_def split_bytes sg_bytes_def)
  show "\<forall>(a, l) \<in> set (split_all xlat sgs). unat l \<le> 61440 \<and> (f AND SF_USE_ADMA64 \<noteq> 0 \<or> unat a < 2 ^ 32)"
  proof (rule ballI, rule case_prodI2, goal_cases)
    case (1 x a l)
    then obtain e where e: "e \<in> set sgs" "(a, l) \<in> set (adma_split (sg_address e + xlat) (sg_count e))"
      by (auto simp: split_all_def)
    then have "unat l \<le> 61440" "unat (sg_address e + xlat) + unat (sg_count e) \<le> 2 ^ 32 \<Longrightarrow> unat a < 2 ^ 32"
      using split_bounds [of "sg_address e + xlat" "sg_count e"] by blast+
    then show ?case using assms e(1) by blast
  qed
qed

lemma split_all_nonempty: "\<exists>e\<in>set sgs. sg_count e \<noteq> 0 \<Longrightarrow> split_all xlat sgs \<noteq> []"
proof (erule bexE)
  fix e
  assume e: "e \<in> set sgs" "sg_count e \<noteq> 0"
  have "adma_split (sg_address e + xlat) (sg_count e) \<noteq> []"
    by (rule adma_step [OF e(2), of "sg_address e + xlat"]) simp
  then show ?thesis using e(1) by (auto simp: split_all_def)
qed

lemma desc_bytes_end: "desc_bytes f (d\<lparr>ad_attr := a\<rparr>) = desc_bytes f d"
  by (simp add: desc_bytes_def desc_addr_def)

lemma adma_table_spec:
  fixes f t ds
  defines "r \<equiv> adma_done (length ds) (put_descs f 0 ds t)"
  assumes ne: "ds \<noteq> []"
    and b: "\<forall>(a, l) \<in> set ds. unat l \<le> 61440 \<and> (f AND SF_USE_ADMA64 \<noteq> 0 \<or> unat a < 2 ^ 32)"
  shows "concat (map (\<lambda>i. desc_bytes f (r (int i))) [0 ..< length ds]) = concat (map (\<lambda>(a, l). bus_range a (unat l)) ds)"
    "i < length ds \<Longrightarrow> ad_attr (r (int i)) = (if i + 1 = length ds then 0x23 else 0x21)"
    "j < 0 \<or> int (length ds) \<le> j \<Longrightarrow> r j = t j"
proof -
  have r: "r (int i) = (let d = mk_desc f (ds ! i) (t (int i)) in if i + 1 = length ds then d\<lparr>ad_attr := ad_attr d OR 2\<rparr> else d)"
    if "i < length ds" for i
  proof -
    have "put_descs f 0 ds t (int i) = mk_desc f (ds ! i) (t (int i))" using put_descs_inside [OF that, of f 0 t] by simp
    moreover have "int i = int (length ds) - 1 \<longleftrightarrow> i + 1 = length ds" using that by linarith
    moreover have "int (length ds) - 1 = int i" if "i + 1 = length ds" using that by linarith
    ultimately show ?thesis unfolding r_def adma_done_def Let_def fun_upd_def
      by (cases "i + 1 = length ds") (simp_all only: simp_thms if_True if_False)
  qed
  have piece: "desc_bytes f (mk_desc f (ds ! i) d) = (\<lambda>(a, l). bus_range a (unat l)) (ds ! i)"
      "ad_attr (mk_desc f (ds ! i) d) = 0x21" if "i < length ds" for i d
  proof -
    obtain a l where al: "ds ! i = (a, l)" by (cases "ds ! i")
    then have "unat l \<le> 61440" "f AND SF_USE_ADMA64 \<noteq> 0 \<or> unat a < 2 ^ 32"
      using b nth_mem [OF that] by auto
    then show "desc_bytes f (mk_desc f (ds ! i) d) = (\<lambda>(a, l). bus_range a (unat l)) (ds ! i)"
      "ad_attr (mk_desc f (ds ! i) d) = 0x21" using desc_of_piece [of f a l d] al by simp_all
  qed
  have "desc_bytes f (r (int i)) = (\<lambda>(a, l). bus_range a (unat l)) (ds ! i)" if "i < length ds" for i
    using r [OF that] piece(1) [OF that] by (simp add: Let_def desc_bytes_end)
  then have "map (\<lambda>i. desc_bytes f (r (int i))) [0 ..< length ds] = map (\<lambda>(a, l). bus_range a (unat l)) ds"
    by (intro nth_equalityI) simp_all
  then show "concat (map (\<lambda>i. desc_bytes f (r (int i))) [0 ..< length ds]) = concat (map (\<lambda>(a, l). bus_range a (unat l)) ds)"
    by simp
  show "i < length ds \<Longrightarrow> ad_attr (r (int i)) = (if i + 1 = length ds then 0x23 else 0x21)"
    using r [of i] piece(2) [of i] by (simp add: Let_def)
  have "0 < length ds" using ne by simp
  then show "j < 0 \<or> int (length ds) \<le> j \<Longrightarrow> r j = t j"
    unfolding r_def adma_done_def using put_descs_outside [of j 0 ds f t] by (auto simp: fun_upd_def)
qed

lemma adma_setup_post:
  assumes "phys_sg env cmd s = (s1, sgs)" "sdhci_adma_setup env cmd s = (s', EOK)" "\<exists>e\<in>set sgs. sg_count e \<noteq> 0"
  defines "f \<equiv> sh_flags (hc_cs s)" and "xlat \<equiv> cfg_bmstr_xlat (hc_cfg s)"
  assumes "f AND SF_USE_ADMA64 \<noteq> 0 \<or> (\<forall>e\<in>set sgs. unat (sg_address e + xlat) + unat (sg_count e) \<le> 2 ^ 32)"
  shows "\<exists>n. 0 < n \<and> n \<le> 256 \<and>
    concat (map (\<lambda>i. desc_bytes f (tab s' (int i))) [0 ..< n]) = concat (map (sg_bytes xlat) sgs) \<and>
    (\<forall>i<n. ad_attr (tab s' (int i)) = (if i + 1 = n then 0x23 else 0x21)) \<and>
    (\<forall>j. j < 0 \<or> int n \<le> j \<longrightarrow> tab s' j = tab s j)"
proof -
  let ?ds = "split_all xlat sgs"
  note t = adma_setup_table [OF assms(1), folded f_def xlat_def]
  have le: "length ?ds \<le> 256" using t(2) assms(2) by (simp split: if_splits)
  have s': "tab s' = adma_done (length ?ds) (put_descs f 0 ?ds (tab s))" using t(1) le assms(2) by simp
  have ne: "?ds \<noteq> []" using split_all_nonempty [OF assms(3)] .
  note b = split_all_bytes [of f sgs xlat, OF assms(6)]
  note sp = adma_table_spec [OF ne b(2), where t = "tab s", folded s']
  show ?thesis
    using ne le sp b(1) by (intro exI [of _ "length ?ds"]) simp
qed

lemma adma_setup_overflow_post:
  assumes "phys_sg env cmd s = (s1, sgs)" "256 < length (split_all (cfg_bmstr_xlat (hc_cfg s)) sgs)"
    and "sdhci_adma_setup env cmd s = (s', st)"
  shows "st = ENOTSUP \<and> ad_attr (tab s' 256) = 0x21 \<and>
    ad_addr_lo (tab s' 256) = ucast (fst (split_all (cfg_bmstr_xlat (hc_cfg s)) sgs ! 256))"
proof -
  let ?ds = "split_all (cfg_bmstr_xlat (hc_cfg s)) sgs" and ?f = "sh_flags (hc_cs s)"
  have l: "256 < length (take 257 ?ds)" using assms(2) by simp
  have "tab s' = put_descs ?f 0 (take 257 ?ds) (tab s)" "st = ENOTSUP"
    using adma_setup_table [OF assms(1)] assms(2,3) by simp_all
  moreover have "put_descs ?f 0 (take 257 ?ds) (tab s) 256 = mk_desc ?f (?ds ! 256) (tab s 256)"
    using put_descs_inside [OF l, of ?f 0 "tab s"] by simp
  ultimately show ?thesis by (simp add: mk_desc_def Let_def)
qed

section \<open>Transfer by the processor\<close>

lemma out32s_log:
  "hlog (sdhci_out32s addr n s) =
     rev (map (\<lambda>i. OUT W16 SDHCI_DATA (load32 (addr + 4 * of_nat i) s AND 0xffff)) [0 ..< n]) @ hlog s"
proof (induction n arbitrary: addr s)
  case (Suc n)
  let ?t = "sdhci_out16 SDHCI_DATA (load32 addr s) s"
  have l: "load32 a ?t = load32 a s" for a by (simp add: load32_def sdhci_out_def)
  have h: "hlog ?t = OUT W16 SDHCI_DATA (load32 addr s AND 0xffff) # hlog s" by (simp add: sdhci_out_def clip_def)
  have "hlog (sdhci_out32s addr (Suc n) s) =
      rev (map (\<lambda>i. OUT W16 SDHCI_DATA (load32 (addr + 4 + 4 * of_nat i) s AND 0xffff)) [0 ..< n]) @
      OUT W16 SDHCI_DATA (load32 addr s AND 0xffff) # hlog s"
    by (simp add: Suc.IH l h)
  also have "map (\<lambda>i. OUT W16 SDHCI_DATA (load32 (addr + 4 + 4 * of_nat i) s AND 0xffff)) [0 ..< n] =
      map (\<lambda>i. OUT W16 SDHCI_DATA (load32 (addr + 4 * of_nat i) s AND 0xffff)) (map Suc [0 ..< n])"
    by (simp add: algebra_simps)
  finally show ?case by (simp add: upt_conv_Cons map_Suc_upt del: map_map upt_Suc)
qed simp

section \<open>The clock\<close>

lemma div_up_spec:
  assumes "limit = start + n * step" "0 < step"
  obtains k where "k \<le> n" "div_up n step limit start mx c = start + k * step"
    "k = n \<or> mx div (start + k * step) \<le> c" "\<And>j. j < k \<Longrightarrow> c < mx div (start + j * step)"
  using assms
proof (induction n arbitrary: start thesis)
  case 0
  show ?case by (rule 0(1) [of 0]) simp_all
next
  case (Suc n)
  have lt: "start < limit" and lim: "limit = start + step + n * step" using Suc.prems by (simp_all add: add_ac)
  show ?case
  proof (cases "mx div start \<le> c")
    case True
    then show ?thesis by (intro Suc.prems(1) [of 0]) simp_all
  next
    case False
    show ?thesis
    proof (rule Suc.IH [of "start + step", OF _ lim Suc.prems(3)])
      fix k
      assume k: "k \<le> n" "div_up n step limit (start + step) mx c = start + step + k * step"
        "k = n \<or> mx div (start + step + k * step) \<le> c" "\<And>j. j < k \<Longrightarrow> c < mx div (start + step + j * step)"
      show ?thesis
      proof (rule Suc.prems(1) [of "Suc k"])
        show "c < mx div (start + j * step)" if "j < Suc k" for j
          using that False k(4) by (cases j) (simp_all add: add.assoc)
      qed (use k lt False in \<open>simp_all add: add.assoc\<close>)
    qed
  qed
qed

lemma div_double_spec:
  assumes "limit = start * 2 ^ n" "0 < start"
  obtains k where "k \<le> n" "div_double n limit start mx c = start * 2 ^ k"
    "k = n \<or> mx div (start * 2 ^ k) \<le> c" "\<And>j. j < k \<Longrightarrow> c < mx div (start * 2 ^ j)"
  using assms
proof (induction n arbitrary: start thesis)
  case 0
  show ?case by (rule 0(1) [of 0]) simp_all
next
  case (Suc n)
  have lim: "limit = start * 2 * 2 ^ n" and pos: "0 < start * 2" using Suc.prems by simp_all
  have "(1 :: nat) \<le> 2 ^ n" by simp
  then have "start * 1 < start * (2 * 2 ^ n)" using Suc.prems(3) by (intro mult_strict_left_mono) linarith+
  then have lt: "start < limit" unfolding lim by (simp only: mult.assoc mult_1_right)
  show ?case
  proof (cases "mx div start \<le> c")
    case True
    then show ?thesis by (intro Suc.prems(1) [of 0]) simp_all
  next
    case False
    show ?thesis
    proof (rule Suc.IH [of "start * 2", OF _ lim pos])
      fix k
      assume k: "k \<le> n" "div_double n limit (start * 2) mx c = start * 2 * 2 ^ k"
        "k = n \<or> mx div (start * 2 * 2 ^ k) \<le> c" "\<And>j. j < k \<Longrightarrow> c < mx div (start * 2 * 2 ^ j)"
      show ?thesis
      proof (rule Suc.prems(1) [of "Suc k"])
        show "c < mx div (start * 2 ^ j)" if "j < Suc k" for j
          using that False k(4) by (cases j) (simp_all add: mult.assoc)
      qed (use k lt False in \<open>simp_all add: mult.assoc\<close>)
    qed
  qed
qed

text \<open>The clock register's field, as the controller reads it, and the divisor it stands for; the
  values that the field may have, by version of the controller.\<close>

definition clk_field :: "u32 \<Rightarrow> nat" where
  "clk_field v = unat ((drop_bit 8 v AND 0xff) OR push_bit 2 (v AND 0xc0))"

definition clk_divisor :: "bool \<Rightarrow> nat \<Rightarrow> nat" where
  "clk_divisor prog n = (if prog then n + 1 else if n = 0 then 1 else 2 * n)"

definition clk_fields :: "u32 \<Rightarrow> nat set" where
  "clk_fields version = (if version \<ge> SDHCI_SPEC_VER_3 then {..1023} else insert 0 ((\<lambda>k. 2 ^ k) ` {..7}))"

lemma clk_field_CLK:
  assumes "w < 1024"
  shows "clk_field (SDHCI_SYSCTL_CLK w) = unat w"
proof -
  have m: "(0xff :: u32) = mask 8" "(0xff00 :: u32) = push_bit 8 (mask 8)" "(0xc0 :: u32) = push_bit 6 (mask 2)"
    by (simp_all add: mask_eq_exp_minus_1)
  have "unat (take_bit 10 w) = unat w"
    using assms by (simp add: unsigned_take_bit_eq take_bit_nat_eq_self word_less_nat_alt)
  then have w: "w AND mask 10 = w" by (simp only: word_unat_eq_iff take_bit_eq_mask)
  have "(drop_bit 8 (SDHCI_SYSCTL_CLK w) AND 0xff) OR push_bit 2 (SDHCI_SYSCTL_CLK w AND 0xc0) = w AND mask 10"
  proof (rule bit_eqI)
    fix n
    have n: "Suc (Suc (n - 2)) = n" if "\<not> n < 8" using that by simp
    show "bit ((drop_bit 8 (SDHCI_SYSCTL_CLK w) AND 0xff) OR push_bit 2 (SDHCI_SYSCTL_CLK w AND 0xc0)) n = bit (w AND mask 10) n"
      unfolding SDHCI_SYSCTL_CLK_def m by (cases "n < 8") (auto simp: bit_simps n)
  qed
  then show ?thesis by (simp add: clk_field_def w)
qed

lemma clk_field_mask: "clk_field v = clk_field (v AND 0xffc0)"
proof -
  have m: "(0xff :: u32) = mask 8" "(0xffc0 :: u32) = push_bit 6 (mask 10)" "(0xc0 :: u32) = push_bit 6 (mask 2)"
    by (simp_all add: mask_eq_exp_minus_1)
  have "(drop_bit 8 v AND 0xff) OR push_bit 2 (v AND 0xc0) =
      (drop_bit 8 (v AND 0xffc0) AND 0xff) OR push_bit 2 ((v AND 0xffc0) AND 0xc0)"
    unfolding m by (rule bit_eqI) (auto simp: bit_simps)
  then show ?thesis unfolding clk_field_def by (simp only:)
qed

definition best_field :: "u32 \<Rightarrow> bool \<Rightarrow> nat \<Rightarrow> nat \<Rightarrow> nat \<Rightarrow> bool" where
  "best_field version prog mx c n \<longleftrightarrow> n \<in> clk_fields version \<and>
    (mx div clk_divisor prog n \<le> c \<or> (\<forall>m\<in>clk_fields version. m \<le> n)) \<and>
    (\<forall>m\<in>clk_fields version. m < n \<longrightarrow> c < mx div clk_divisor prog m)"

lemma best_prog:
  assumes "version \<ge> SDHCI_SPEC_VER_3"
  shows "best_field version True mx c (div_up 1023 1 1024 1 mx c - 1)"
proof (rule div_up_spec [of 1024 1 1023 1 mx c])
  fix k
  assume k: "k \<le> 1023" "div_up 1023 1 1024 1 mx c = 1 + k * 1" "k = 1023 \<or> mx div (1 + k * 1) \<le> c"
    "\<And>j. j < k \<Longrightarrow> c < mx div (1 + j * 1)"
  then show ?thesis using assms by (auto simp: best_field_def clk_fields_def clk_divisor_def)
qed simp_all

lemma best_divided:
  assumes "version \<ge> SDHCI_SPEC_VER_3"
  shows "best_field version False mx c ((if mx \<le> c then 1 else div_up 1022 2 2046 2 mx c) div 2)"
proof (cases "mx \<le> c")
  case True
  then show ?thesis using assms by (simp add: best_field_def clk_fields_def clk_divisor_def)
next
  case False
  show ?thesis
  proof (rule div_up_spec [of 2046 2 1022 2 mx c])
    fix k
    assume k: "k \<le> 1022" "div_up 1022 2 2046 2 mx c = 2 + k * 2" "k = 1022 \<or> mx div (2 + k * 2) \<le> c"
      "\<And>j. j < k \<Longrightarrow> c < mx div (2 + j * 2)"
    have d: "clk_divisor False (1 + j) = 2 + j * 2" for j by (simp add: clk_divisor_def)
    have "c < mx div clk_divisor False m" if "m < 1 + k" for m
    proof (cases m)
      case 0
      then show ?thesis using False by (simp add: clk_divisor_def)
    next
      case (Suc j)
      then show ?thesis using k(4) [of j] that by (simp add: clk_divisor_def mult.commute)
    qed
    moreover have "(if mx \<le> c then 1 else div_up 1022 2 2046 2 mx c) div 2 = 1 + k" using False k(2) by simp
    ultimately show ?thesis using assms k(1,3) d [of k] by (auto simp: best_field_def clk_fields_def)
  qed simp_all
qed

lemma best_doubled:
  assumes "\<not> version \<ge> SDHCI_SPEC_VER_3"
  shows "best_field version False mx c (div_double 8 256 1 mx c div 2)"
proof (rule div_double_spec [of 256 1 8 mx c])
  fix k
  assume k: "k \<le> 8" "div_double 8 256 1 mx c = 1 * 2 ^ k" "k = 8 \<or> mx div (1 * 2 ^ k) \<le> c"
    "\<And>j. j < k \<Longrightarrow> c < mx div (1 * 2 ^ j)"
  have F: "clk_fields version = insert 0 ((\<lambda>k. 2 ^ k) ` {..7})" using assms by (simp add: clk_fields_def)
  have d: "clk_divisor False (2 ^ j) = 2 ^ Suc j" "clk_divisor False 0 = 1" for j by (simp_all add: clk_divisor_def)
  have up: "m \<le> 2 ^ 7" if "m \<in> clk_fields version" for m
    using that power_increasing [of _ 7 "2 :: nat"] unfolding F by auto
  show ?thesis
  proof (cases k)
    case 0
    then show ?thesis using k by (simp add: best_field_def F d)
  next
    case (Suc i)
    have n: "div_double 8 256 1 mx c div 2 = 2 ^ i" using k(2) Suc by simp
    have lt: "c < mx div clk_divisor False m" if "m \<in> clk_fields version" "m < 2 ^ i" for m
    proof (cases "m = 0")
      case True
      then show ?thesis using k(4) [of 0] Suc d by simp
    next
      case False
      with that(1) obtain j where j: "m = 2 ^ j" unfolding F by auto
      then have "j < i" using that(2) by simp
      then show ?thesis using k(4) [of "Suc j"] Suc j d by simp
    qed
    have "i \<le> 7" "2 ^ i \<in> clk_fields version" using k(1) Suc by (auto simp: F)
    moreover have "mx div clk_divisor False (2 ^ i) \<le> c \<or> (\<forall>m\<in>clk_fields version. m \<le> 2 ^ i)"
      using k(3) Suc up d by auto
    ultimately show ?thesis unfolding best_field_def n using lt by blast
  qed
qed simp_all

lemma clk_fields_bound: "n \<in> clk_fields version \<Longrightarrow> n < 1024"
  using power_increasing [of _ 7 "2 :: nat"] by (fastforce simp: clk_fields_def split: if_splits)

definition clk_prog :: "sdio_hc \<Rightarrow> bool" where
  "clk_prog s \<longleftrightarrow> hc_version s \<ge> SDHCI_SPEC_VER_3 \<and> sh_clk_mul (hc_cs s) \<noteq> 0"

lemma clk_divider_spec:
  fixes env clk s
  defines "r \<equiv> clk_divider env clk s"
  assumes "\<And>l. clip W16 (env_hw env l W16 SDHCI_HCTL2) AND SDHCI_HCTL2_PRESET_VAL = 0"
  shows "snd (snd r) = (if clk_prog s then SDHCI_SYSCTL_CGS_PROG else 0)"
    "best_field (hc_version s) (clk_prog s) (unat (hc_clk_max s)) (unat clk) (fst (snd r))"
proof -
  have "snd (snd r) = (if clk_prog s then SDHCI_SYSCTL_CGS_PROG else 0) \<and>
      best_field (hc_version s) (clk_prog s) (unat (hc_clk_max s)) (unat clk) (fst (snd r))"
  proof (cases "hc_version s \<ge> SDHCI_SPEC_VER_3")
    case v: True
    show ?thesis
    proof (cases "sh_clk_mul (hc_cs s) = 0")
      case True
      then show ?thesis using v best_divided [OF v] by (simp add: r_def clk_divider_def clk_prog_def Let_def)
    next
      case False
      then show ?thesis using v best_prog [OF v] assms(2)
        by (simp add: r_def clk_divider_def clk_prog_def Let_def sdhci_in_eq)
    qed
  next
    case False
    then show ?thesis using best_doubled [OF False] by (simp add: r_def clk_divider_def clk_prog_def Let_def)
  qed
  then show "snd (snd r) = (if clk_prog s then SDHCI_SYSCTL_CGS_PROG else 0)"
    "best_field (hc_version s) (clk_prog s) (unat (hc_clk_max s)) (unat clk) (fst (snd r))" by blast+
qed

lemma clk_field_word:
  fixes a cgs n m
  defines "v \<equiv> (((a AND NOT m) OR SDHCI_SYSCTL_DTO_MAX) OR cgs OR (SDHCI_SYSCTL_CLK (of_nat n) OR SDHCI_SYSCTL_ICE)) OR SDHCI_SYSCTL_CEN"
  assumes "n < 1024" "cgs \<in> {0, SDHCI_SYSCTL_CGS_PROG}" "m \<in> {0xFFFE4, 0xFFFE5}"
  shows "clk_field v = n" "v AND 0xF0000 = 0xE0000" "v AND 0x5 = 0x5" "v AND 0x20 = cgs"
proof -
  let ?c = "SDHCI_SYSCTL_CLK (of_nat n)"
  have nm: "NOT m AND 0xffc0 = 0" "NOT m AND 0xF0000 = 0" "NOT m AND 0x20 = 0" using assms(4) by auto
  have c: "?c AND 0xffc0 = ?c" "?c AND 0xF0000 = 0" "?c AND 0x20 = 0"
    unfolding SDHCI_SYSCTL_CLK_def by (simp_all add: bit.conj_disj_distrib2 and.assoc)
  have g: "cgs AND 0xffc0 = 0" "cgs AND 0xF0000 = 0" "cgs AND 0x20 = cgs" using assms(3) by auto
  have "v AND 0xffc0 = ?c"
    unfolding v_def bit.conj_disj_distrib2 by (simp add: and.assoc nm c g)
  moreover have "unat (of_nat n :: u32) = n" "(of_nat n :: u32) < 1024"
    using assms(2) by (simp_all add: unat_of_nat word_less_nat_alt take_bit_nat_eq_self)
  ultimately show "clk_field v = n" using clk_field_CLK [of "of_nat n"] by (simp add: clk_field_mask [of v])
  show "v AND 0xF0000 = 0xE0000" "v AND 0x20 = cgs"
    unfolding v_def bit.conj_disj_distrib2 by (simp_all add: and.assoc nm c g)
  have "v = ((a AND NOT m) OR SDHCI_SYSCTL_DTO_MAX OR cgs OR ?c) OR (1 OR 4)" unfolding v_def by (simp only: or.assoc)
  moreover have "(x OR y) AND y = y" for x y :: u32 by (rule bit_eqI) (auto simp: bit_simps)
  ultimately show "v AND 0x5 = 0x5" by simp
qed

lemma sdhci_clk_post:
  fixes env clk s
  defines "r \<equiv> sdhci_clk env clk s"
  assumes "\<And>l. clip W16 (env_hw env l W16 SDHCI_HCTL2) AND SDHCI_HCTL2_PRESET_VAL = 0"
  shows "\<exists>v l. hlog (fst r) = DELAY 1000 # DELAY 1000 # OUT W32 SDHCI_SYSCTL v # l \<and>
    best_field (hc_version s) (clk_prog s) (unat (hc_clk_max s)) (unat clk) (clk_field v) \<and>
    v AND 0x5 = 0x5 \<and> v AND 0x20 = (if clk_prog s then 0x20 else 0) \<and> v AND 0xF0000 = 0xE0000"
    "snd r = EOK" "hc_clk (fst r) = clk"
proof -
  let ?m = "if hc_flags s AND SF_ICE_PERSIST \<noteq> 0 then 0xFFFE4 else 0xFFFE5 :: u32"
  define a where "a = env_hw env (hlog s) W32 SDHCI_SYSCTL"
  define b where "b = (a AND NOT ?m) OR SDHCI_SYSCTL_DTO_MAX"
  define u where "u = s\<lparr>hlog := OUT W32 SDHCI_SYSCTL (b OR 0x6000000) # IN W32 SDHCI_SYSCTL a # hlog s\<rparr>"
  obtain t n cgs where d: "clk_divider env clk u = (t, n, cgs)" by (metis prod_cases3)
  define v where "v = b OR cgs OR (SDHCI_SYSCTL_CLK (of_nat n) OR SDHCI_SYSCTL_ICE)"
  obtain l where l: "fst (sdhci_waitmask env SDHCI_SYSCTL SDHCI_SYSCTL_ICS SDHCI_SYSCTL_ICS 10000
      (sdhci_out32 SDHCI_SYSCTL v t)) = t\<lparr>hlog := l\<rparr>"
    using log_only_waitmask [of "sdhci_out32 SDHCI_SYSCTL v t" env SDHCI_SYSCTL SDHCI_SYSCTL_ICS SDHCI_SYSCTL_ICS 10000]
    by (auto simp: log_only_def sdhci_out_def)
  have r: "r = (pause 1000 ((pause 1000 (sdhci_out32 SDHCI_SYSCTL (v OR SDHCI_SYSCTL_CEN) (t\<lparr>hlog := l\<rparr>)))\<lparr>hc_clk := clk\<rparr>), EOK)"
  proof -
    have m: "(0x4 OR 0xF0000 OR 0x20 OR 0xffc0 :: u32) = 0xFFFE4" "(0x1 OR 0xFFFE4 :: u32) = 0xFFFE5" by simp_all
    have "sdhci_out32 SDHCI_SYSCTL (b OR SDHCI_SYSCTL_SRC OR SDHCI_SYSCTL_SRD) (s\<lparr>hlog := IN W32 SDHCI_SYSCTL a # hlog s\<rparr>) = u"
      by (simp add: sdhci_out_def u_def)
    moreover have "hc_flags (s\<lparr>hlog := IN W32 SDHCI_SYSCTL a # hlog s\<rparr>) = hc_flags s" by simp
    ultimately show ?thesis
      unfolding r_def sdhci_clk_def Let_def sdhci_in_eq clip32 case_prod_conv m a_def [symmetric]
      by (simp only: b_def [symmetric] d case_prod_conv v_def [symmetric] l)
  qed
  show "snd r = EOK" "hc_clk (fst r) = clk" unfolding r by (simp_all add: pause_def)
  show "\<exists>v l. hlog (fst r) = DELAY 1000 # DELAY 1000 # OUT W32 SDHCI_SYSCTL v # l \<and>
    best_field (hc_version s) (clk_prog s) (unat (hc_clk_max s)) (unat clk) (clk_field v) \<and>
    v AND 0x5 = 0x5 \<and> v AND 0x20 = (if clk_prog s then 0x20 else 0) \<and> v AND 0xF0000 = 0xE0000"
  proof (intro exI conjI)
    have mem: "cgs \<in> {0, SDHCI_SYSCTL_CGS_PROG}" "?m \<in> {0xFFFE4, 0xFFFE5}" "n < 1024" and cgs: "cgs = (if clk_prog s then 0x20 else 0)"
      and best: "best_field (hc_version s) (clk_prog s) (unat (hc_clk_max s)) (unat clk) n"
    proof -
      have u: "hc_version u = hc_version s" "clk_prog u = clk_prog s" "hc_clk_max u = hc_clk_max s"
        by (simp_all add: u_def clk_prog_def)
      show cgs: "cgs = (if clk_prog s then 0x20 else 0)"
        and best: "best_field (hc_version s) (clk_prog s) (unat (hc_clk_max s)) (unat clk) n"
        using clk_divider_spec [where env = env and clk = clk and s = u, OF assms(2)] unfolding d u by simp_all
      show "n < 1024" using best clk_fields_bound unfolding best_field_def by blast
      show "cgs \<in> {0, SDHCI_SYSCTL_CGS_PROG}" "?m \<in> {0xFFFE4, 0xFFFE5}" using cgs by simp_all
    qed
    note w = clk_field_word [OF mem(3,1,2), of a, folded b_def v_def]
    show "hlog (fst r) = DELAY 1000 # DELAY 1000 # OUT W32 SDHCI_SYSCTL (v OR SDHCI_SYSCTL_CEN) # l"
      unfolding r by (simp add: pause_def sdhci_out_def)
    show "best_field (hc_version s) (clk_prog s) (unat (hc_clk_max s)) (unat clk) (clk_field (v OR SDHCI_SYSCTL_CEN))"
      unfolding w by (rule best)
    show "(v OR SDHCI_SYSCTL_CEN) AND 0x5 = 0x5" "(v OR SDHCI_SYSCTL_CEN) AND 0xF0000 = 0xE0000" by (rule w)+
    show "(v OR SDHCI_SYSCTL_CEN) AND 0x20 = (if clk_prog s then 0x20 else 0)" unfolding w cgs ..
  qed
qed

section \<open>Interrupts\<close>

lemma out_frame [simp]:
  "hc_wspc (sdhci_out w r v s) = hc_wspc s" "cmd_mem (sdhci_out w r v s) = cmd_mem s" "hc_cs (sdhci_out w r v s) = hc_cs s"
  "hc_cs_hdl (sdhci_out w r v s) = hc_cs_hdl s" "hc_cs_frees (sdhci_out w r v s) = hc_cs_frees s"
  "hlog (sdhci_out w r v s) = OUT w r (clip w v) # hlog s"
  by (simp_all add: sdhci_out_def)

lemma event_frame [simp]:
  "hc_wspc (sdio_hc_event ev s) = hc_wspc s" "cmd_mem (sdio_hc_event ev s) = cmd_mem s" "hlog (sdio_hc_event ev s) = hlog s"
  by (cases ev; simp add: sdio_hc_event_def set_dev_flags_def)+

lemmas reset_frame [simp] = log_only_fields [OF log_only_reset]

text \<open>The state in which the handler decides: both status registers read, the causes acknowledged,
  card detection and re-tuning noted.\<close>

definition intr_ack :: "sdio_env \<Rightarrow> sdio_hc \<Rightarrow> sdio_hc \<times> u32" where
  "intr_ack env s =
    (let (s, sts) = sdhci_in32 env SDHCI_IS s;
         (s, ie) = sdhci_in32 env SDHCI_IE s;
         sts = sts AND (ie OR SDHCI_INTR_ERRI);
         s = sdhci_out32 SDHCI_IS sts s;
         s = (if sts AND (SDHCI_INTR_CINS OR SDHCI_INTR_CREM) \<noteq> 0 then sdio_hc_event HC_EV_CD s else s);
         s = (if sts AND SDCHI_INTR_RETUNE \<noteq> 0 then sdio_hc_event HC_EV_TUNE s else s)
     in (s, sts))"

lemma intr_ack_frame:
  "hc_wspc (fst (intr_ack env s)) = hc_wspc s" "cmd_mem (fst (intr_ack env s)) = cmd_mem s"
  by (simp_all add: intr_ack_def sdhci_in_eq Let_def)

lemma intr_event_eq:
  assumes "intr_ack env s = (t, sts)" "env_hw env (hlog s) W32 SDHCI_IS \<noteq> 0"
  shows "sdhci_intr_event n env s =
    (let p = wspc_cmd (hc_wspc s) in
     if p = 0 then Some t
     else case (if sts AND SDHCI_INTR_ERRI \<noteq> 0
                then Some (fst (sdhci_reset env SDHCI_SYSCTL_SRC (fst (sdhci_reset env SDHCI_SYSCTL_SRD t))), intr_error sts)
                else intr_normal n env sts p t) of
            None \<Rightarrow> None
          | Some (s, cs) \<Rightarrow>
              (let cs = (if sts AND SDHCI_INTR_CREM \<noteq> 0 then CS_CARD_REMOVED else cs)
               in Some (if cs \<noteq> CS_CMD_INPROG then sdio_cmd_cmplt p cs s else s)))"
proof -
  have w: "hc_wspc t = hc_wspc s" using intr_ack_frame(1) [of env s] assms(1) by simp
  show ?thesis
    using assms(1) unfolding w [symmetric] intr_ack_def sdhci_intr_event_def sdhci_in_eq clip32 Let_def case_prod_conv prod.inject
    by (elim conjE) (simp only: assms(2) if_False)
qed

lemma intr_error_range: "intr_error sts \<in> {CS_CMD_CMP_ERR, CS_CMD_IDX_ERR, CS_CMD_TO_ERR, CS_CMD_CRC_ERR, CS_CMD_END_ERR,
    CS_DATA_TO_ERR, CS_DATA_CRC_ERR, CS_DATA_END_ERR}"
  unfolding intr_error_def Let_def by (simp split: if_split)

lemma cmplt_frame:
  "wspc_cmd (hc_wspc (sdio_cmd_cmplt p cs s)) = 0" "cmd_status (cmd_mem (sdio_cmd_cmplt p cs s) p) = cs"
  "q \<noteq> p \<Longrightarrow> cmd_mem (sdio_cmd_cmplt p cs s) q = cmd_mem s q" "hlog (sdio_cmd_cmplt p cs s) = hlog s"
  "cmd_rsp (cmd_mem (sdio_cmd_cmplt p cs s) p) = cmd_rsp (cmd_mem s p)"
  by (simp_all add: sdio_cmd_cmplt_def upd_cmd_def upd_wspc_def)

lemma intr_error_post:
  assumes "intr_ack env s = (t, sts)" "env_hw env (hlog s) W32 SDHCI_IS \<noteq> 0" "wspc_cmd (hc_wspc s) = p" "p \<noteq> 0"
    and "sts AND SDHCI_INTR_ERRI \<noteq> 0"
  shows "\<exists>s'. sdhci_intr_event n env s = Some s' \<and> wspc_cmd (hc_wspc s') = 0 \<and>
    cmd_status (cmd_mem s' p) = (if sts AND SDHCI_INTR_CREM \<noteq> 0 then CS_CARD_REMOVED else intr_error sts) \<and>
    cmd_status (cmd_mem s' p) \<notin> {CS_CMD_INPROG, CS_CMD_CMP} \<and> (\<forall>q. q \<noteq> p \<longrightarrow> cmd_mem s' q = cmd_mem s q)"
proof -
  define cs where "cs = (if sts AND SDHCI_INTR_CREM \<noteq> 0 then CS_CARD_REMOVED else intr_error sts)"
  let ?u = "fst (sdhci_reset env SDHCI_SYSCTL_SRC (fst (sdhci_reset env SDHCI_SYSCTL_SRD t)))"
  have cs: "cs \<notin> {CS_CMD_INPROG, CS_CMD_CMP}" using intr_error_range [of sts] by (auto simp: cs_def)
  have "sdhci_intr_event n env s = Some (sdio_cmd_cmplt p cs ?u)"
    unfolding intr_event_eq [OF assms(1,2)] assms(3) Let_def using assms(4,5) cs
    by (simp add: cs_def [symmetric])
  moreover have "cmd_mem ?u = cmd_mem s" using intr_ack_frame(2) [of env s] assms(1) by simp
  ultimately show ?thesis using cs by (auto simp: cmplt_frame cs_def [symmetric])
qed

lemma unat_rsp_word: "unat (push_bit 8 r + ucast (b :: u8) :: u32) = unat r mod 2 ^ 24 * 2 ^ 8 + unat b"
proof -
  have "unat b < 2 ^ 8" using unsigned_less [of b, where 'a = nat] by simp
  then have b: "unat (ucast b :: u32) = unat b" "unat b < 256"
    by (simp_all add: unsigned_ucast_eq take_bit_nat_eq_self)
  have r: "unat (push_bit 8 r) = unat r mod 2 ^ 24 * 2 ^ 8"
  proof -
    have "unat (push_bit 8 r) = unat r * 256 mod 4294967296"
      unfolding unsigned_push_bit_eq by (simp add: push_bit_eq_mult take_bit_eq_mod)
    also have "\<dots> = unat r mod 2 ^ 24 * 2 ^ 8" using mult_mod_left [of "unat r" 16777216 256] by simp
    finally show ?thesis .
  qed
  have "unat r mod 16777216 < 16777216" by simp
  then show ?thesis using b r by (subst unat_add_u32) simp_all
qed

lemma shift_words:
  fixes r0 r1 r2 r3 :: u32
  defines "w r prev \<equiv> push_bit 8 r + ucast (ucast (drop_bit 24 prev) :: u8)"
  shows "regval [w r3 r2, w r2 r1, w r1 r0, push_bit 8 r0] = regval [r3, r2, r1, r0] * 2 ^ 8 mod 2 ^ 128"
proof -
  have w: "unat (w r q) = unat r mod 2 ^ 24 * 2 ^ 8 + unat q div 2 ^ 24" for r q
  proof -
    have "unat q div 16777216 < 256" using unat_u32_bound(2) [of q] by (simp add: less_mult_imp_div_less)
    then have "unat (ucast (drop_bit 24 q) :: u8) = unat q div 2 ^ 24"
      by (simp add: unsigned_ucast_eq drop_bit_eq_div unat_div take_bit_nat_eq_self)
    then show ?thesis unfolding w_def by (simp add: unat_rsp_word)
  qed
  have w0: "unat (push_bit 8 r0) = unat r0 mod 2 ^ 24 * 2 ^ 8" using unat_rsp_word [of r0 0] by simp
  define q where "q x = x div 2 ^ 24" for x :: nat
  define m where "m x = x mod 2 ^ 24" for x :: nat
  have x: "unat r = q (unat r) * 2 ^ 24 + m (unat r)" for r :: u32 by (simp add: q_def m_def)
  have eq: "regval [r3, r2, r1, r0] * 2 ^ 8 = regval [w r3 r2, w r2 r1, w r1 r0, push_bit 8 r0] + q (unat r3) * 2 ^ 128"
    using x [of r0] x [of r1] x [of r2] x [of r3] unfolding regval.simps w w0 q_def [symmetric] m_def [symmetric] by simp
  have "regval [w r3 r2, w r2 r1, w r1 r0, push_bit 8 r0] < 2 ^ 128"
    using regval_less [of "[w r3 r2, w r2 r1, w r1 r0, push_bit 8 r0]"] by simp
  then show ?thesis unfolding eq by simp
qed

lemma rsp136_step:
  assumes "env_hw env (hlog s) W32 (SDHCI_RESP0 + of_nat i * 4) = v"
  shows "rsp136 env p (Suc n) i b s = rsp136 env p n (i + 1) (ucast (drop_bit 24 v))
    (upd_cmd p (\<lambda>c. c\<lparr>cmd_rsp := (cmd_rsp c)[3 - i := push_bit 8 v + ucast b]\<rparr>)
      (s\<lparr>hlog := IN W32 (SDHCI_RESP0 + of_nat i * 4) v # hlog s\<rparr>))"
  using assms by (simp add: sdhci_in_eq)

text \<open>A controller whose response registers hold a given response until the next command.\<close>

definition holds_rsp :: "sdio_env \<Rightarrow> u32 \<Rightarrow> u32 \<Rightarrow> u32 \<Rightarrow> u32 \<Rightarrow> bool" where
  "holds_rsp env r0 r1 r2 r3 \<longleftrightarrow> (\<forall>l. env_hw env l W32 0x10 = r0 \<and> env_hw env l W32 0x14 = r1 \<and>
     env_hw env l W32 0x18 = r2 \<and> env_hw env l W32 0x1C = r3)"

lemma rsp136_value:
  assumes "holds_rsp env r0 r1 r2 r3" "length (cmd_rsp (cmd_mem s p)) = 4"
  shows "regval (cmd_rsp (cmd_mem (rsp136 env p 4 0 0 s) p)) = regval [r3, r2, r1, r0] * 2 ^ 8 mod 2 ^ 128"
    "q \<noteq> p \<Longrightarrow> cmd_mem (rsp136 env p 4 0 0 s) q = cmd_mem s q" "length (cmd_rsp (cmd_mem (rsp136 env p 4 0 0 s) p)) = 4"
proof -
  obtain a b c d where l: "cmd_rsp (cmd_mem s p) = [a, b, c, d]"
    using assms(2) by (auto simp: numeral_eq_Suc length_Suc_conv)
  have h: "env_hw env k W32 0x10 = r0" "env_hw env k W32 0x14 = r1" "env_hw env k W32 0x18 = r2" "env_hw env k W32 0x1C = r3" for k
    using assms(1) by (simp_all add: holds_rsp_def)
  have four: "rsp136 env p 4 0 0 s = rsp136 env p (Suc (Suc (Suc (Suc 0)))) 0 0 s" by (simp only: numeral_eq_Suc pred_numeral_simps One_nat_def BitM.simps)
  have v: "cmd_rsp (cmd_mem (rsp136 env p 4 0 0 s) p) =
      [push_bit 8 r3 + ucast (ucast (drop_bit 24 r2) :: u8), push_bit 8 r2 + ucast (ucast (drop_bit 24 r1) :: u8),
       push_bit 8 r1 + ucast (ucast (drop_bit 24 r0) :: u8), push_bit 8 r0]"
    unfolding four by (simp add: rsp136_step [OF refl] h upd_cmd_def l del: rsp136.simps(2))
  then show "regval (cmd_rsp (cmd_mem (rsp136 env p 4 0 0 s) p)) = regval [r3, r2, r1, r0] * 2 ^ 8 mod 2 ^ 128"
    by (simp only: shift_words)
  show "length (cmd_rsp (cmd_mem (rsp136 env p 4 0 0 s) p)) = 4" unfolding v by simp
  show "q \<noteq> p \<Longrightarrow> cmd_mem (rsp136 env p 4 0 0 s) q = cmd_mem s q"
    unfolding four by (simp_all add: rsp136_step [OF refl] h upd_cmd_def del: rsp136.simps(2))
qed

lemma intr_response_post:
  assumes ack: "intr_ack env s = (t, sts)" "env_hw env (hlog s) W32 SDHCI_IS \<noteq> 0"
    and cmd: "wspc_cmd (hc_wspc s) = p" "p \<noteq> 0" "cmd_flags (cmd_mem s p) AND SCF_RSP_136 \<noteq> 0" "length (cmd_rsp (cmd_mem s p)) = 4"
    and sts: "sts AND SDHCI_INTR_CC \<noteq> 0" "sts AND 0x80BA = 0" and rsp: "holds_rsp env r0 r1 r2 r3"
  shows "\<exists>s'. sdhci_intr_event n env s = Some s' \<and> wspc_cmd (hc_wspc s') = 0 \<and> cmd_status (cmd_mem s' p) = CS_CMD_CMP \<and>
    length (cmd_rsp (cmd_mem s' p)) = 4 \<and> regval (cmd_rsp (cmd_mem s' p)) = regval [r3, r2, r1, r0] * 2 ^ 8 mod 2 ^ 128 \<and>
    (\<forall>q. q \<noteq> p \<longrightarrow> cmd_mem s' q = cmd_mem s q)"
proof -
  have z: "sts AND m = 0" if "0x80BA AND m = m" for m
  proof -
    have "sts AND m = (sts AND 0x80BA) AND m" by (simp only: and.assoc that)
    then show ?thesis by (simp add: sts(2))
  qed
  have no: "sts AND SDHCI_INTR_ERRI = 0" "sts AND SDHCI_INTR_TC = 0" "sts AND SDHCI_INTR_DMA = 0"
    "sts AND (SDHCI_INTR_BWR OR SDHCI_INTR_BRR) = 0" "sts AND SDHCI_INTR_CREM = 0"
    by (rule z; simp)+
  have m: "cmd_mem t = cmd_mem s" using intr_ack_frame(2) [of env s] ack(1) by simp
  let ?u = "rsp136 env p 4 0 0 t"
  have "intr_normal n env sts p t = Some (?u, CS_CMD_CMP)"
    unfolding intr_normal_def intr_cc_def Let_def m using sts(1) no cmd(3) by simp
  then have e: "sdhci_intr_event n env s = Some (sdio_cmd_cmplt p CS_CMD_CMP ?u)"
    unfolding intr_event_eq [OF ack] cmd(1) Let_def using cmd(2) no(1,5) by simp
  have "length (cmd_rsp (cmd_mem t p)) = 4" using cmd(4) m by simp
  then show ?thesis using e rsp136_value [OF rsp] m by (auto simp: cmplt_frame)
qed

lemma shifted_field:
  fixes a :: nat
  assumes "8 \<le> start" "start + sz \<le> 128"
  shows "a * 2 ^ 8 mod 2 ^ 128 div 2 ^ start mod 2 ^ sz = a div 2 ^ (start - 8) mod 2 ^ sz"
proof -
  have "take_bit sz (drop_bit start (take_bit 128 (push_bit 8 a))) = take_bit sz (drop_bit (start - 8) a)"
    using assms by (intro bit_eqI) (auto simp: bit_simps)
  then show ?thesis by (simp only: take_bit_eq_mod drop_bit_eq_div push_bit_eq_mult)
qed

section \<open>Initialisation\<close>

definition same_hdl :: "sdio_hc \<Rightarrow> sdio_hc \<Rightarrow> bool" where
  "same_hdl s t \<longleftrightarrow> hc_cs_hdl t = hc_cs_hdl s \<and> hc_cs_frees t = hc_cs_frees s"

lemma same_hdl_trans [trans]: "same_hdl s t \<Longrightarrow> same_hdl t u \<Longrightarrow> same_hdl s u"
  by (simp add: same_hdl_def)

lemma pwr_frame: "same_hdl s (fst (sdhci_pwr env vdd s))"
  by (simp add: same_hdl_def sdhci_pwr_def pwr_card_ie_def Let_def sdhci_in_eq log_only_fields [OF log_only_waitmask]
      split: option.split)

lemma dinit_frees:
  assumes "hc_cs_hdl s"
  shows "hc_cs_hdl (fst (sdhci_dinit env s))" "hc_cs_frees (fst (sdhci_dinit env s)) = hc_cs_frees s + 1"
  using assms pwr_frame [of s env 0] by (simp_all add: sdhci_dinit_def same_hdl_def Let_def)

lemma hs_args_frame: "same_hdl s (fst (hs_args_loop opts s))"
proof (induction opts s rule: hs_args_loop.induct)
  case (1 opts s)
  have "same_hdl s (hs_apply opt s)" for opt s
    by (simp add: same_hdl_def hs_apply_def upd_cs_def add_hc_cap_def)
  then show ?case
    using 1 by (subst hs_args_loop.simps)
      (auto simp: same_hdl_def split: prod.split option.split)
qed

lemma cap_frame [simp]:
  "hc_cs_hdl (add_hc_cap c s) = hc_cs_hdl s" "hc_cs_frees (add_hc_cap c s) = hc_cs_frees s"
  "hc_cs_hdl (cap_if b c s) = hc_cs_hdl s" "hc_cs_frees (cap_if b c s) = hc_cs_frees s"
  "hc_cs_hdl (upd_cs f s) = hc_cs_hdl s" "hc_cs_frees (upd_cs f s) = hc_cs_frees s"
  by (simp_all add: cap_if_def add_hc_cap_def upd_cs_def)

lemma frame_if: "hc_cs_hdl (if b then s else t) = (if b then hc_cs_hdl s else hc_cs_hdl t)"
  "hc_cs_frees (if b then s else t) = (if b then hc_cs_frees s else hc_cs_frees t)"
  by simp_all

lemma init_steps_frame:
  "same_hdl s (init_clock cap cap2 s)" "same_hdl s (init_caps cap cap2 s)" "same_hdl s (init_ocr cap mccap s)"
  "same_hdl s (init_tuning cap2 s)" "same_hdl s (fst (init_dma res cap s))"
  unfolding same_hdl_def init_clock_def init_caps_def init_ocr_def init_tuning_def init_dma_def Let_def
  by (simp_all add: frame_if split: option.split)

lemma probe_frame: "same_hdl s (fst (init_probe env res s))"
proof -
  have t: "same_hdl u (fst (init_dma res cap (init_tuning cap2 (init_ocr cap mccap (init_caps cap cap2 (init_clock cap cap2 u))))))" for u cap cap2 mccap
    by (rule same_hdl_trans [OF init_steps_frame(1)], rule same_hdl_trans [OF init_steps_frame(2)],
        rule same_hdl_trans [OF init_steps_frame(3)], rule same_hdl_trans [OF init_steps_frame(4)], rule init_steps_frame(5))
  have f: "same_hdl s u" if "hc_cs_hdl u = hc_cs_hdl s" "hc_cs_frees u = hc_cs_frees s" for u
    using that by (simp add: same_hdl_def)
  show ?thesis
    unfolding init_probe_def Let_def sdhci_in_eq case_prod_conv split_beta
    by (rule same_hdl_trans [OF f t]) (simp_all add: frame_if)
qed

text \<open>A failure after the block for the chip is allocated: the block is released, and the pointer kept.\<close>

lemma init_fail_post:
  assumes "sdhci_init env res base_addr s = (s', e)" "e \<noteq> EOK" "res_errno res \<noteq> EOK" "base_addr \<noteq> 0" "res_calloc res"
  shows "hc_cs_hdl s' \<and> hc_cs_frees s' = 1"
proof -
  define a where "a = s\<lparr>hc_iid := -1, hc_cs_hdl := True, hc_cs_frees := 0, hc_cs := cs_zero (hc_cs s)\<rparr>"
  define b where "b = upd_cs (\<lambda>c. c\<lparr>sh_base := True\<rparr>) a"
  define h where "h = sdhci_hs_args b"
  define q where "q = init_probe env res (fst h)"
  define live where "live t \<longleftrightarrow> hc_cs_hdl t \<and> hc_cs_frees t = 0" for t :: sdio_hc
  have a: "live a" by (simp add: a_def live_def)
  then have b: "live b" by (simp add: b_def live_def)
  then have h: "live (fst h)"
    using hs_args_frame [of b] by (simp add: h_def sdhci_hs_args_def live_def same_hdl_def)
  have fail: "hc_cs_hdl s' \<and> hc_cs_frees s' = 1" if "live t" "s' = fst (sdhci_dinit env t)" for t
    using that dinit_frees [of t env] by (simp add: live_def)
  have q: "live (fst q)" using h probe_frame [of "fst h" env res] by (simp add: q_def live_def same_hdl_def)
  then have "live ((fst q)\<lparr>hc_caps := hc_caps (fst q) AND cfg_caps (hc_cfg (fst q)), hc_iid := res_iid res\<rparr>)"
    by (simp add: live_def)
  with fail a h q show ?thesis
    using assms by (auto simp: sdhci_init_def Let_def split_beta a_def [symmetric] b_def [symmetric] h_def [symmetric]
        q_def [symmetric] split: if_splits)
qed

section \<open>Theorems\<close>

text \<open>\<open>sdhci_waitmask\<close> ends on every device: its delays add up to at most a millisecond more than
  asked for; it returns \<open>EOK\<close> only when the last thing it did was a read that matched, and gives up only
  after the whole time.\<close>

theorem waitmask_bounded:
  "case sdhci_waitmask env reg msk val usec s of (s', st) \<Rightarrow>
     waited (hlog s') \<le> waited (hlog s) + unat usec + 1000 \<and>
     (st = EOK \<and> (\<exists>v l. hlog s' = IN W32 reg v # l \<and> v AND msk = val) \<or>
      st = ETIMEDOUT \<and> waited (hlog s) + unat usec \<le> waited (hlog s'))"
  using waitmask_post [of env reg msk val usec s] by (simp add: split_beta)

text \<open>Claim C33. When \<open>sdhci_adma_setup\<close> succeeds, the descriptor table makes the controller transfer exactly
  the bytes of the scatter list, in their order: the first \<open>n\<close> descriptors, all valid and only the last marked as
  the end, cover the list's bus addresses one by one, and no other position of the table changes.\<close>

theorem adma_setup_covers:
  assumes "phys_sg env cmd s = (s1, sgs)" "sdhci_adma_setup env cmd s = (s', EOK)" "\<exists>e\<in>set sgs. sg_count e \<noteq> 0"
    and "sh_flags (hc_cs s) AND SF_USE_ADMA64 \<noteq> 0 \<or>
      (\<forall>e\<in>set sgs. unat (sg_address e + cfg_bmstr_xlat (hc_cfg s)) + unat (sg_count e) \<le> 2 ^ 32)"
  shows "\<exists>n. 0 < n \<and> n \<le> 256 \<and>
    concat (map (\<lambda>i. desc_bytes (sh_flags (hc_cs s)) (tab s' (int i))) [0 ..< n]) =
      concat (map (sg_bytes (cfg_bmstr_xlat (hc_cfg s))) sgs) \<and>
    (\<forall>i<n. ad_attr (tab s' (int i)) = (if i + 1 = n then 0x23 else 0x21)) \<and>
    (\<forall>j. j < 0 \<or> int n \<le> j \<longrightarrow> tab s' j = tab s j)"
  using adma_setup_post [OF assms] .

text \<open>Claim C39. The table of 256 descriptors is not respected: a scatter list that needs more pieces is refused
  with \<open>ENOTSUP\<close>, but only after the descriptor behind the end of the table has been written.\<close>

theorem adma_setup_overflows:
  assumes "phys_sg env cmd s = (s1, sgs)" "256 < length (split_all (cfg_bmstr_xlat (hc_cfg s)) sgs)"
    and "sdhci_adma_setup env cmd s = (s', st)"
  shows "st = ENOTSUP \<and> ad_attr (tab s' 256) = 0x21 \<and>
    ad_addr_lo (tab s' 256) = ucast (fst (split_all (cfg_bmstr_xlat (hc_cfg s)) sgs ! 256))"
  using adma_setup_overflow_post [OF assms] .

text \<open>Claim C34. With preset values off, \<open>sdhci_clk\<close> programs the fastest clock that does not exceed the one asked
  for: read back as the controller reads it, the divider field of the last write has the smallest allowed
  value whose frequency is at most \<open>clk\<close>, or the largest allowed value when none is slow enough; clock, generator
  choice and the longest data timeout are enabled in the same word.\<close>

theorem clk_fastest_allowed:
  assumes "\<And>l. clip W16 (env_hw env l W16 SDHCI_HCTL2) AND SDHCI_HCTL2_PRESET_VAL = 0"
  shows "case sdhci_clk env clk s of (s', st) \<Rightarrow> st = EOK \<and> hc_clk s' = clk \<and>
    (\<exists>v l. hlog s' = DELAY 1000 # DELAY 1000 # OUT W32 SDHCI_SYSCTL v # l \<and>
      best_field (hc_version s) (clk_prog s) (unat (hc_clk_max s)) (unat clk) (clk_field v) \<and>
      v AND 0x5 = 0x5 \<and> v AND 0x20 = (if clk_prog s then 0x20 else 0) \<and> v AND 0xF0000 = 0xE0000)"
  using sdhci_clk_post [OF assms, of clk s] unfolding split_beta by blast

text \<open>Claim C37. An error interrupt always ends the active command, with an error: whatever the status bits, the
  handler returns, the command's status is one of the error codes (or card removed), no command is active
  any more and no other command block changes.\<close>

theorem error_interrupt_completes:
  assumes "intr_ack env s = (t, sts)" "env_hw env (hlog s) W32 SDHCI_IS \<noteq> 0" "wspc_cmd (hc_wspc s) = p" "p \<noteq> 0"
    and "sts AND SDHCI_INTR_ERRI \<noteq> 0"
  shows "\<exists>s'. sdhci_intr_event n env s = Some s' \<and> wspc_cmd (hc_wspc s') = 0 \<and>
    cmd_status (cmd_mem s' p) = (if sts AND SDHCI_INTR_CREM \<noteq> 0 then CS_CARD_REMOVED else intr_error sts) \<and>
    cmd_status (cmd_mem s' p) \<notin> {CS_CMD_INPROG, CS_CMD_CMP} \<and> (\<forall>q. q \<noteq> p \<longrightarrow> cmd_mem s' q = cmd_mem s q)"
  using intr_error_post [OF assms] .

text \<open>Claim C35. From the controller's registers to the card's fields: after the completion interrupt of a command with
  a long response the command is complete, and every field at bit 8 or above that \<open>sdio_extract_bits\<close> takes from its response
  is the field of the 120 bits that the four response registers hold.\<close>

theorem long_response_fields:
  assumes "intr_ack env s = (t, sts)" "env_hw env (hlog s) W32 SDHCI_IS \<noteq> 0"
    and "wspc_cmd (hc_wspc s) = p" "p \<noteq> 0" "cmd_flags (cmd_mem s p) AND SCF_RSP_136 \<noteq> 0" "length (cmd_rsp (cmd_mem s p)) = 4"
    and "sts AND SDHCI_INTR_CC \<noteq> 0" "sts AND 0x80BA = 0" and "holds_rsp env r0 r1 r2 r3"
    and "8 \<le> start" "start + sz \<le> 128" "sz \<le> 32"
  shows "\<exists>s'. sdhci_intr_event n env s = Some s' \<and> cmd_status (cmd_mem s' p) = CS_CMD_CMP \<and> wspc_cmd (hc_wspc s') = 0 \<and>
    unat (sdio_extract_bits (cmd_rsp (cmd_mem s' p)) 128 start sz) = regval [r3, r2, r1, r0] div 2 ^ (start - 8) mod 2 ^ sz"
proof -
  obtain s' where s': "sdhci_intr_event n env s = Some s'" "wspc_cmd (hc_wspc s') = 0" "cmd_status (cmd_mem s' p) = CS_CMD_CMP"
      "length (cmd_rsp (cmd_mem s' p)) = 4" "regval (cmd_rsp (cmd_mem s' p)) = regval [r3, r2, r1, r0] * 2 ^ 8 mod 2 ^ 128"
    using intr_response_post [OF assms(1-9)] by blast
  have "unat (sdio_extract_bits (cmd_rsp (cmd_mem s' p)) 128 start sz) = regval [r3, r2, r1, r0] div 2 ^ (start - 8) mod 2 ^ sz"
    unfolding extract_field128 [OF s'(4) assms(11,12)] fld_def s'(5) by (rule shifted_field [OF assms(10,11)])
  then show ?thesis using s' by blast
qed

text \<open>Claim C40. A failure of \<open>sdhci_init\<close> after its block is allocated leaves a dangling pointer: the block is freed once while
  \<open>hc->cs_hdl\<close> still points to it, so that the \<open>sdhci_dinit\<close> which the caller's clean-up makes frees it again.\<close>

theorem init_failure_frees_twice:
  assumes "sdhci_init env res base_addr s = (s', e)" "e \<noteq> EOK" "res_errno res \<noteq> EOK" "base_addr \<noteq> 0" "res_calloc res"
  shows "hc_cs_frees s' = 1 \<and> hc_cs_hdl s' \<and> hc_cs_frees (fst (sdhci_dinit env s')) = 2"
  using init_fail_post [OF assms] dinit_frees [of s' env] by simp

text \<open>A write by the processor loses half of the data: \<open>sdhci_out32s\<close> stores only the low 16 bits of
  every word of the buffer in the data port.\<close>

theorem pio_write_truncates:
  "hlog (sdhci_out32s addr n s) =
     rev (map (\<lambda>i. OUT W16 SDHCI_DATA (load32 (addr + 4 * of_nat i) s AND 0xffff)) [0 ..< n]) @ hlog s"
  using out32s_log .

end
