(* ===== verification/Sdio_Cmd_Proofs.thy ===== *)
theory Sdio_Cmd_Proofs
  imports Sdio_Cmd Sdhci_Proofs "HOL-Library.Multiset"
begin

text \<open>
  Theorems on the command layer. The interface to the controller is the locale \<open>hc_driver\<close>: what its
  entry table may do to the state that the layer above owns. The command layer's lemmas are proved in it
  once; \<open>sdhci_entry\<close> is shown to be such a table.
\<close>

section \<open>The interface of a controller\<close>

text \<open>Command blocks that are free, in the pool or not yet allocated.\<close>

definition blocks :: "sdio_hc \<Rightarrow> u64 multiset" where
  "blocks s = mset (cmd_pool s) + mset (cmd_fresh s)"

definition pool_ok :: "sdio_hc \<Rightarrow> bool" where
  "pool_ok s \<longleftrightarrow> distinct (cmd_pool s @ cmd_fresh s) \<and> 0 \<notin># blocks s"

abbreviation active :: "sdio_hc \<Rightarrow> u64" where "active s \<equiv> wspc_cmd (hc_wspc s)"

definition hc_keeps :: "sdio_hc \<Rightarrow> sdio_hc \<Rightarrow> bool" where
  "hc_keeps s t \<longleftrightarrow> hc_caps t = hc_caps s \<and> active t = active s \<and> cmd_mem t = cmd_mem s \<and>
     cmd_pool t = cmd_pool s \<and> cmd_fresh t = cmd_fresh s"

text \<open>An interrupt leaves the active command alone or completes it, and touches no other.\<close>

definition hc_step :: "sdio_hc \<Rightarrow> sdio_hc \<Rightarrow> bool" where
  "hc_step s t \<longleftrightarrow> hc_caps t = hc_caps s \<and> cmd_pool t = cmd_pool s \<and> cmd_fresh t = cmd_fresh s \<and>
     (\<forall>q. q \<noteq> active s \<or> q = 0 \<longrightarrow> cmd_mem t q = cmd_mem s q) \<and>
     (\<forall>q. cmd_flags (cmd_mem t q) = cmd_flags (cmd_mem s q)) \<and>
     (active t = active s \<and> (\<forall>q. cmd_status (cmd_mem t q) = cmd_status (cmd_mem s q)) \<or>
      active s \<noteq> 0 \<and> active t = 0 \<and> cmd_status (cmd_mem t (active s)) \<noteq> CS_CMD_INPROG)"

locale hc_driver =
  fixes ent :: sdio_entry
  assumes cmd_keeps: "hc_keeps s (fst (e_cmd ent p s))"
    and abort_keeps: "hc_keeps s (fst (e_abort ent p s))"
    and event_steps: "e_event ent HC_EV_INTR s = Some (t, st) \<Longrightarrow> hc_step s t"

text \<open>What a service that works on the block \<open>p\<close> may change, the capabilities apart.\<close>

definition hc_rel :: "u64 \<Rightarrow> sdio_hc \<Rightarrow> sdio_hc \<Rightarrow> bool" where
  "hc_rel p s t \<longleftrightarrow> blocks t = blocks s \<and> (\<forall>q. q \<noteq> p \<and> q \<notin># blocks s \<longrightarrow> cmd_mem t q = cmd_mem s q) \<and>
     cmd_flags (cmd_mem t p) = cmd_flags (cmd_mem s p)"

lemma hc_rel_refl [simp]: "hc_rel p s s"
  by (simp add: hc_rel_def)

lemma hc_rel_trans [trans]: "hc_rel p s t \<Longrightarrow> hc_rel p t u \<Longrightarrow> hc_rel p s u"
  by (simp add: hc_rel_def)

lemma pool_ok_cong: "blocks t = blocks s \<Longrightarrow> pool_ok t \<longleftrightarrow> pool_ok s"
  using mset_eq_imp_distinct_iff [of "cmd_pool t @ cmd_fresh t" "cmd_pool s @ cmd_fresh s"]
  by (simp only: pool_ok_def blocks_def mset_append)

lemma hc_rel_upd:
  "hc_rel p s (upd_cmd p (\<lambda>c. c\<lparr>cmd_status := v\<rparr>) s)" "hc_rel p s (set_active q s)" "hc_rel p s (s\<lparr>intr_sched := ks\<rparr>)"
  "hc_rel p s (s\<lparr>hc_caps := c\<rparr>)" "hc_rel p s (s\<lparr>hc_flags := f\<rparr>)" "hc_rel p s (pause m s)" "hc_rel p s (s\<lparr>dev_block_length := f\<rparr>)"
  by (simp_all add: hc_rel_def upd_cmd_def blocks_def set_active_def upd_wspc_def pause_def)

lemma keeps_rel: "hc_keeps s t \<Longrightarrow> hc_rel p s t"
  by (simp add: hc_keeps_def hc_rel_def blocks_def)

lemma step_rel: "hc_step s t \<Longrightarrow> active s \<in> {0, p} \<Longrightarrow> hc_rel p s t"
  by (auto simp: hc_step_def hc_rel_def blocks_def)

section \<open>Commands over any controller\<close>

context hc_driver
begin

lemma wait_loop_post:
  assumes "wait_loop ent k p s = Some (t, st)" "p \<noteq> 0"
    and "active s = p \<and> cmd_status (cmd_mem s p) = CS_CMD_INPROG \<or> active s = 0 \<and> cmd_status (cmd_mem s p) \<noteq> CS_CMD_INPROG"
  shows "hc_rel p s t \<and> hc_caps t = hc_caps s \<and> (st = EOK \<and> active t = 0 \<and> cmd_status (cmd_mem t p) \<noteq> CS_CMD_INPROG \<or> st = ETIMEDOUT)"
  using assms
proof (induction k arbitrary: s)
  case 0
  then show ?case by (auto split: if_splits)
next
  case (Suc k)
  show ?case
  proof (cases "cmd_status (cmd_mem s p) = CS_CMD_INPROG")
    case False
    then show ?thesis using Suc.prems by auto
  next
    case True
    then obtain u x where u: "e_event ent HC_EV_INTR s = Some (u, x)" "wait_loop ent k p u = Some (t, st)"
      using Suc.prems(1) by (auto split: option.splits)
    have a: "active s = p" using True Suc.prems(3) by blast
    note step = event_steps [OF u(1)]
    have "active u = p \<and> cmd_status (cmd_mem u p) = CS_CMD_INPROG \<or> active u = 0 \<and> cmd_status (cmd_mem u p) \<noteq> CS_CMD_INPROG"
      using step True a by (auto simp: hc_step_def)
    from Suc.IH [OF u(2) assms(2) this]
    have "hc_rel p u t" "hc_caps t = hc_caps u" "st = EOK \<and> active t = 0 \<and> cmd_status (cmd_mem t p) \<noteq> CS_CMD_INPROG \<or> st = ETIMEDOUT"
      by blast+
    moreover have "hc_rel p s u" "hc_caps u = hc_caps s" using step step_rel [OF step, of p] a by (simp_all add: hc_step_def)
    ultimately show ?thesis using hc_rel_trans by simp
  qed
qed

lemma issue_post:
  assumes "sdio_issue_cmd ent env p s = Some (t, st)" "p \<noteq> 0" "cmd_status (cmd_mem s p) = CS_CMD_INPROG"
  shows "hc_rel p s t \<and> hc_caps t = hc_caps s \<and> active t = 0 \<and> (st = EOK \<longrightarrow> cmd_status (cmd_mem t p) \<noteq> CS_CMD_INPROG)"
proof -
  obtain u x where u: "e_cmd ent p (set_active p s) = (u, x)" by (metis surj_pair)
  have k: "hc_keeps (set_active p s) u" using cmd_keeps [of "set_active p s" p] u by simp
  then have u': "active u = p" "cmd_status (cmd_mem u p) = CS_CMD_INPROG" "hc_caps u = hc_caps s"
    using assms(3) by (simp_all add: hc_keeps_def set_active_def upd_wspc_def)
  have su: "hc_rel p s u" by (rule hc_rel_trans [OF hc_rel_upd(2) keeps_rel [OF k]])
  have wait: "hc_rel p u v \<and> hc_caps v = hc_caps u \<and> (y = EOK \<and> active v = 0 \<and> cmd_status (cmd_mem v p) \<noteq> CS_CMD_INPROG \<or> y = ETIMEDOUT)"
    if "sdio_wait_cmd ent p u = Some (v, y)" for v y
  proof (cases "intr_sched u")
    case Nil
    then show ?thesis using that wait_loop_post [of 0 p u v y] assms(2) u' by (simp add: sdio_wait_cmd_def)
  next
    case (Cons j js)
    let ?u = "u\<lparr>intr_sched := js\<rparr>"
    have "wait_loop ent j p ?u = Some (v, y)" using that Cons by (simp add: sdio_wait_cmd_def)
    from wait_loop_post [OF this assms(2)] u'
    have "hc_rel p ?u v" "hc_caps v = hc_caps u" "y = EOK \<and> active v = 0 \<and> cmd_status (cmd_mem v p) \<noteq> CS_CMD_INPROG \<or> y = ETIMEDOUT"
      by simp_all
    then show ?thesis using hc_rel_trans [OF hc_rel_upd(3)] by blast
  qed
  obtain v y where v: "(if x = EOK then sdio_wait_cmd ent p u else Some (u, x)) = Some (v, y)"
    and t: "(t, st) = (if y \<noteq> EOK then (upd_cmd p (\<lambda>c. c\<lparr>cmd_status := env_errno env y\<rparr>) (set_active 0 (fst (e_abort ent p v))), y)
      else (v, EOK))"
    using assms(1) u unfolding sdio_issue_cmd_def Let_def by (auto split: option.splits if_splits)
  have v': "hc_rel p u v" "hc_caps v = hc_caps u" "y = EOK \<Longrightarrow> active v = 0 \<and> cmd_status (cmd_mem v p) \<noteq> CS_CMD_INPROG"
    using v wait by (auto split: if_splits)
  show ?thesis
  proof (cases "y = EOK")
    case True
    then show ?thesis using t v' u' hc_rel_trans [OF su v'(1)] by simp
  next
    case False
    let ?w = "set_active 0 (fst (e_abort ent p v))"
    have "hc_rel p v ?w" using hc_rel_trans [OF keeps_rel [OF abort_keeps] hc_rel_upd(2)] .
    from hc_rel_trans [OF su hc_rel_trans [OF v'(1) hc_rel_trans [OF this hc_rel_upd(1)]]]
    have "hc_rel p s t" using False t by simp
    moreover have "hc_caps ?w = hc_caps s" "active ?w = 0"
      using abort_keeps [of v p] v' u' by (simp_all add: hc_keeps_def set_active_def upd_wspc_def)
    ultimately show ?thesis using False t by (simp add: upd_cmd_def)
  qed
qed

end

section \<open>Command blocks\<close>

lemma pool_ok_iff: "pool_ok s \<longleftrightarrow> distinct (cmd_pool s @ cmd_fresh s) \<and> 0 \<notin> set (cmd_pool s) \<union> set (cmd_fresh s)"
  by (simp add: pool_ok_def blocks_def)

lemma alloc_post:
  assumes "sdio_alloc_cmd s = (t, p)" "pool_ok s"
  shows "if p = 0 then t = s
    else blocks s = add_mset p (blocks t) \<and> p \<notin># blocks t \<and> pool_ok t \<and> hc_caps t = hc_caps s \<and>
      (\<forall>q. q \<noteq> p \<longrightarrow> cmd_mem t q = cmd_mem s q)"
proof (cases "cmd_pool s")
  case pool: Nil
  show ?thesis
  proof (cases "cmd_fresh s")
    case Nil
    then show ?thesis using assms(1) pool by (simp add: sdio_alloc_cmd_def)
  next
    case (Cons a ps)
    then have r: "t = upd_cmd a (\<lambda>_. cmd_zero) (s\<lparr>cmd_fresh := ps\<rparr>)" "p = a" using assms(1) pool by (auto simp: sdio_alloc_cmd_def)
    show ?thesis using assms(2) pool Cons unfolding r pool_ok_iff by (simp add: blocks_def upd_cmd_def)
  qed
next
  case (Cons a ps)
  then have r: "t = upd_cmd a (\<lambda>_. cmd_zero) (s\<lparr>cmd_pool := ps\<rparr>)" "p = a" using assms(1) by (auto simp: sdio_alloc_cmd_def)
  show ?thesis using assms(2) Cons unfolding r pool_ok_iff by (auto simp: blocks_def upd_cmd_def)
qed

text \<open>Nothing changes but free blocks, the log and the controller.\<close>

definition calm :: "sdio_hc \<Rightarrow> sdio_hc \<Rightarrow> bool" where
  "calm s t \<longleftrightarrow> hc_caps t = hc_caps s \<and> blocks t = blocks s \<and> (\<forall>q. q \<notin># blocks s \<longrightarrow> cmd_mem t q = cmd_mem s q)"

lemma calm_refl [simp]: "calm s s"
  by (simp add: calm_def)

lemma calm_trans [trans]: "calm s t \<Longrightarrow> calm t u \<Longrightarrow> calm s u"
  by (simp add: calm_def)

lemma calm_rel: "calm s t \<Longrightarrow> p \<notin># blocks s \<Longrightarrow> hc_rel p s t \<and> hc_caps t = hc_caps s \<and> cmd_mem t p = cmd_mem s p"
  by (simp add: calm_def hc_rel_def)

lemma calm_pool: "calm s t \<Longrightarrow> pool_ok s \<Longrightarrow> pool_ok t"
  using pool_ok_cong [of t s] by (simp add: calm_def)

definition sender_ok :: "sender \<Rightarrow> bool" where
  "sender_ok send \<longleftrightarrow> (\<forall>p tmo r s t st. send p tmo r s = Some (t, st) \<and> p \<noteq> 0 \<and> pool_ok s \<and> p \<notin># blocks s \<and>
     cmd_flags (cmd_mem s p) AND SCF_SBC_RLW = 0 \<longrightarrow> hc_rel p s t \<and> hc_caps t = hc_caps s)"

lemma cmd_call_post:
  assumes "sender_ok send" "pool_ok s" "flgs AND SCF_SBC_RLW = 0" "cmd_call send flgs opc arg r s = Some (t, st, c)"
  shows "calm s t"
proof -
  obtain s1 p where a: "sdio_alloc_cmd s = (s1, p)" by (metis surj_pair)
  show ?thesis
  proof (cases "p = 0")
    case True
    have "s1 = s" using alloc_post [OF a assms(2)] True by simp
    moreover have "cmd_call send flgs opc arg r s = Some (s1, ENOMEM, cmd_zero)"
      unfolding cmd_call_def a Let_def case_prod_conv by (simp only: True simp_thms if_True)
    ultimately show ?thesis using assms(4) by simp
  next
    case False
    let ?s2 = "sdio_setup_cmd p flgs opc arg s1"
    note al = alloc_post [OF a assms(2), unfolded if_not_P [OF False]]
    have call: "cmd_call send flgs opc arg r s = (case send p SDIO_TIME_DEFAULT r ?s2 of None \<Rightarrow> None
        | Some (s, status) \<Rightarrow> Some (sdio_free_cmd p s, status, cmd_mem s p))"
      unfolding cmd_call_def a Let_def case_prod_conv by (simp only: False if_False)
    obtain u where u: "send p SDIO_TIME_DEFAULT r ?s2 = Some (u, st)" and t: "t = sdio_free_cmd p u"
    proof (cases "send p SDIO_TIME_DEFAULT r ?s2")
      case None
      then show ?thesis using assms(4) call by simp
    next
      case (Some x)
      then show ?thesis using assms(4) call that [of "fst x"] by (cases x) simp
    qed
    have s2: "blocks ?s2 = blocks s1" "hc_caps ?s2 = hc_caps s1" "cmd_flags (cmd_mem ?s2 p) = flgs"
        "q \<noteq> p \<Longrightarrow> cmd_mem ?s2 q = cmd_mem s1 q" for q
      by (simp_all add: sdio_setup_cmd_def sdio_setup_cmd_ext_def upd_cmd_def blocks_def)
    have "pool_ok ?s2" using pool_ok_cong [OF s2(1)] al by blast
    moreover have "p \<notin># blocks ?s2" "cmd_flags (cmd_mem ?s2 p) AND SCF_SBC_RLW = 0" unfolding s2 using al assms(3) by blast+
    ultimately have "hc_rel p ?s2 u" and caps: "hc_caps u = hc_caps ?s2"
      using assms(1) u False unfolding sender_ok_def by blast+
    then have b: "blocks u = blocks s1" and m: "q \<noteq> p \<Longrightarrow> q \<notin># blocks s1 \<Longrightarrow> cmd_mem u q = cmd_mem s1 q" for q
      unfolding hc_rel_def s2 using s2(4) by simp_all
    have "blocks t = add_mset p (blocks u)" "hc_caps t = hc_caps u" "cmd_mem t = cmd_mem u"
      unfolding t by (simp_all add: blocks_def sdio_free_cmd_def)
    then show ?thesis unfolding calm_def using b m caps s2(2) al by simp
  qed
qed

lemma drop_cmd_post:
  assumes "sender_ok send" "pool_ok s" "flgs AND SCF_SBC_RLW = 0" "drop_cmd (cmd_call send flgs opc arg r s) = Some (t, st)"
  shows "calm s t"
  using assms(4) cmd_call_post [OF assms(1-3)] by (auto simp: drop_cmd_def)

lemma app_cmd_calm: "sender_ok send \<Longrightarrow> pool_ok s \<Longrightarrow> sd_app_cmd send s = Some (t, st) \<Longrightarrow> calm s t"
  unfolding sd_app_cmd_def by (rule drop_cmd_post) simp_all

lemma block_count_calm: "sender_ok send \<Longrightarrow> pool_ok s \<Longrightarrow> sdio_set_block_count send n f s = Some (t, st) \<Longrightarrow> calm s t"
  unfolding sdio_set_block_count_def by (rule drop_cmd_post) simp_all

lemma send_status_calm:
  assumes "sender_ok send" "pool_ok s" "sdio_send_status send hpi s = Some (t, st, rsp)"
  shows "calm s t"
proof -
  obtain arg c where "cmd_call send (SCF_CTYPE_AC OR SCF_RSP_R1) 13 arg SDIO_CMD_RETRIES s = Some (t, st, c)"
    using assms(3) by (auto simp: sdio_send_status_def)
  from cmd_call_post [OF assms(1,2) _ this] show ?thesis by simp
qed

lemma pause_calm: "calm s (pause n s)"
  by (simp add: calm_def pause_def blocks_def)

lemma wait_status_post:
  assumes "sender_ok send" "pool_ok s" "wait_status_loop send msk val n r0 s = Some (t, st, rsp)"
  shows "calm s t \<and> (st = EOK \<longrightarrow> rsp ! 0 AND msk = val \<and> rsp ! 0 AND CDS_ERROR_MSK = 0)"
  using assms(2,3)
proof (induction n arbitrary: s r0)
  case (Suc n)
  from Suc.prems(2) obtain u x r where u: "sdio_send_status send False s = Some (u, x, r)" by (auto split: option.splits)
  note c = send_status_calm [OF assms(1) Suc.prems(1) u]
  show ?case
  proof (cases "x \<noteq> EOK \<or> r ! 0 AND CDS_ERROR_MSK \<noteq> 0 \<or> r ! 0 AND msk = val")
    case True
    then show ?thesis using Suc.prems(2) u c by (auto split: if_splits)
  next
    case False
    then have w: "wait_status_loop send msk val n r (pause 1000 u) = Some (t, st, rsp)" using Suc.prems(2) u by simp
    have "pool_ok (pause 1000 u)" using calm_pool [OF pause_calm calm_pool [OF c Suc.prems(1)]] .
    from Suc.IH [OF this w] show ?thesis using calm_trans [OF c calm_trans [OF pause_calm]] by blast
  qed
qed simp

section \<open>Sending over any controller\<close>

text \<open>A block that is in use: not \<open>NULL\<close> and not among the free ones.\<close>

definition in_use :: "u64 \<Rightarrow> sdio_hc \<Rightarrow> bool" where
  "in_use p s \<longleftrightarrow> p \<noteq> 0 \<and> p \<notin># blocks s \<and> pool_ok s"

lemma in_use_rel: "hc_rel p s t \<Longrightarrow> in_use p s \<Longrightarrow> in_use p t"
  using pool_ok_cong [of t s] by (simp add: hc_rel_def in_use_def)

definition same_caps :: "u64 \<Rightarrow> sdio_hc \<Rightarrow> sdio_hc \<Rightarrow> bool" where
  "same_caps p s t \<longleftrightarrow> hc_rel p s t \<and> hc_caps t = hc_caps s"

lemma same_caps_refl [simp]: "same_caps p s s"
  by (simp add: same_caps_def)

lemma same_caps_trans [trans]: "same_caps p s t \<Longrightarrow> same_caps p t u \<Longrightarrow> same_caps p s u"
  using hc_rel_trans [of p s t u] by (simp add: same_caps_def)

lemma calm_same: "calm s t \<Longrightarrow> in_use p s \<Longrightarrow> same_caps p s t \<and> cmd_mem t p = cmd_mem s p"
  using calm_rel [of s t p] by (simp add: same_caps_def in_use_def)

lemma sender_okD:
  "sender_ok send \<Longrightarrow> send p tmo r s = Some (t, st) \<Longrightarrow> in_use p s \<Longrightarrow> cmd_flags (cmd_mem s p) AND SCF_SBC_RLW = 0 \<Longrightarrow>
    same_caps p s t"
  unfolding sender_ok_def in_use_def same_caps_def by blast

lemma sender_okI:
  assumes "\<And>p tmo r s t st. send p tmo r s = Some (t, st) \<Longrightarrow> in_use p s \<Longrightarrow> cmd_flags (cmd_mem s p) AND SCF_SBC_RLW = 0 \<Longrightarrow>
    same_caps p s t"
  shows "sender_ok send"
  using assms unfolding sender_ok_def in_use_def same_caps_def by blast

lemma status_of_same: "same_caps p s (fst (send_status_of p s))"
  by (simp add: send_status_of_def Let_def same_caps_def hc_rel_upd)

context hc_driver
begin

lemma send_issue_same:
  assumes "sender_ok send" "in_use p s" "cmd_status (cmd_mem s p) = CS_CMD_INPROG" "send_issue send ent env p tmo s = Some (t, out)"
  shows "same_caps p s t"
proof (cases "sdio_issue_cmd ent env p s")
  case None
  then show ?thesis using assms(4) by (simp add: send_issue_def)
next
  case (Some x)
  then obtain u st where u: "sdio_issue_cmd ent env p s = Some (u, st)" by (cases x) simp
  have "same_caps p s u" using issue_post [OF u] assms(2,3) by (simp add: same_caps_def in_use_def)
  moreover have "same_caps p u t"
  proof -
    have iu: "in_use p u" using in_use_rel [of p s u] calculation assms(2) by (simp add: same_caps_def)
    let ?w = "sdio_wait_card_status send (CDS_READY_FOR_DATA OR CDS_CUR_STATE_MSK) (CDS_READY_FOR_DATA OR CDS_CUR_STATE_TRAN) tmo u"
    consider "t = u" | "t = fst (send_status_of p u)" | x y where "?w = Some (t, x, y)"
      using assms(4) unfolding send_issue_def u option.case case_prod_conv by (auto split: if_splits)
    then show ?thesis
    proof cases
      case 3
      then have "calm u t"
        using wait_status_post [OF assms(1)] iu by (auto simp: sdio_wait_card_status_def in_use_def)
      then show ?thesis using calm_same iu by blast
    qed (simp_all add: status_of_same)
  qed
  ultimately show ?thesis by (rule same_caps_trans)
qed

lemma send_once_same:
  assumes "sender_ok send" "in_use p s" "send_once send ent env p tmo s = Some (t, out)"
  shows "same_caps p s t"
proof -
  let ?a = "upd_cmd p (\<lambda>c. c\<lparr>cmd_status := CS_CMD_INPROG\<rparr>) s"
  let ?A = "if cmd_flags (cmd_mem ?a p) AND SCF_APP_CMD \<noteq> 0 then sd_app_cmd send ?a else Some (?a, EOK)"
  let ?B = "\<lambda>b. if cmd_flags (cmd_mem b p) AND SCF_SBC \<noteq> 0 \<and> hc_caps b AND HC_CAP_ACMD23 = 0
    then sdio_set_block_count send (cmd_blks (cmd_mem b p)) (if cmd_flags (cmd_mem b p) AND SCF_SBC_RLW \<noteq> 0 then SBC_RL_WRITE else 0) b
    else Some (b, EOK)"
  have sa: "same_caps p s ?a" by (simp add: same_caps_def hc_rel_upd) (simp add: upd_cmd_def)
  have ia: "in_use p ?a" using in_use_rel [OF hc_rel_upd(1) assms(2)] .
  have pool: "pool_ok x" if "in_use p x" for x using that by (simp add: in_use_def)
  have e: "send_once send ent env p tmo s = (case ?A of None \<Rightarrow> None | Some (b, st) \<Rightarrow> if st \<noteq> EOK then Some (b, Break st)
      else case ?B b of None \<Rightarrow> None | Some (c, st) \<Rightarrow> if st \<noteq> EOK then Some (c, Break st) else send_issue send ent env p tmo c)"
    unfolding send_once_def Let_def ..
  obtain b st where A: "?A = Some (b, st)" using assms(3) unfolding e by (cases ?A) auto
  have cb: "calm ?a b" using A app_cmd_calm [OF assms(1) pool [OF ia]] by (auto split: if_splits)
  note sb = calm_same [OF cb ia]
  have ib: "in_use p b" using in_use_rel [of p ?a b] sb ia by (simp add: same_caps_def)
  show ?thesis
  proof (cases "st = EOK")
    case False
    then have "t = b" using assms(3) unfolding e A by simp
    then show ?thesis using same_caps_trans [OF sa] sb by blast
  next
    case True
    then obtain c st' where B: "?B b = Some (c, st')" using assms(3) unfolding e A by (cases "?B b") auto
    have cc: "calm b c" using B block_count_calm [OF assms(1) pool [OF ib]] by (auto split: if_splits)
    note sc = calm_same [OF cc ib]
    have ic: "in_use p c" using in_use_rel [of p b c] sc ib by (simp add: same_caps_def)
    have stat: "cmd_status (cmd_mem c p) = CS_CMD_INPROG" using sb sc by (simp add: upd_cmd_def)
    have "same_caps p c t"
    proof (cases "st' = EOK")
      case False
      then show ?thesis using assms(3) True B unfolding e A by simp
    next
      case st': True
      then show ?thesis using assms(3) True B unfolding e A by (auto intro: send_issue_same [OF assms(1) ic stat])
    qed
    then show ?thesis using same_caps_trans [OF sa same_caps_trans [OF _ same_caps_trans]] sb sc by blast
  qed
qed

lemma send_loop_same:
  assumes "sender_ok send" "in_use p s" "send_loop send ent env p tmo r s = Some (t, st, rem)"
  shows "same_caps p s t \<and> (rem \<longrightarrow> st = ENXIO)"
  using assms(2,3)
proof (induction r arbitrary: s)
  case 0
  then show ?case using send_once_same [OF assms(1) 0(1), of env tmo]
    by (subst (asm) send_loop.simps) (auto split: option.splits send_out.splits)
next
  case (Suc r)
  obtain u out where u: "send_once send ent env p tmo s = Some (u, out)"
    using Suc.prems(2) by (subst (asm) send_loop.simps) (auto split: option.splits)
  note su = send_once_same [OF assms(1) Suc.prems(1) u]
  have iu: "in_use p u" using in_use_rel [of p s u] su Suc.prems(1) by (simp add: same_caps_def)
  show ?case
  proof (cases out)
    case (Again x)
    then have "send_loop send ent env p tmo r u = Some (t, st, rem)"
      using Suc.prems(2) u by (subst (asm) send_loop.simps) simp
    from Suc.IH [OF iu this] show ?thesis using same_caps_trans [OF su] by blast
  qed (use Suc.prems(2) u su in \<open>(subst (asm) send_loop.simps, simp)+\<close>)
qed

lemma send_with_post:
  assumes "sender_ok send" "in_use p s" "send_with send ent env p tmo r s = Some (t, st)"
  shows "hc_rel p s t \<and> (hc_caps t = hc_caps s \<or>
    cmd_flags (cmd_mem s p) AND SCF_SBC_RLW \<noteq> 0 \<and> st = ENXIO \<and> hc_caps t = hc_caps s AND NOT ACMD_MSK)"
proof -
  let ?rlw = "cmd_flags (cmd_mem s p) AND SCF_SBC_RLW \<noteq> 0"
  define a where "a = (if ?rlw then s\<lparr>hc_caps := hc_caps s AND NOT ACMD_MSK\<rparr> else s)"
  have ra: "hc_rel p s a" by (simp add: a_def hc_rel_upd)
  obtain u x rem where u: "send_loop send ent env p tmo r a = Some (u, x, rem)"
    and t: "(t, st) = (if rem then (u, ENXIO) else (if (if ?rlw then hc_caps s AND ACMD_MSK else 0) \<noteq> 0
      then u\<lparr>hc_caps := hc_caps u OR (if ?rlw then hc_caps s AND ACMD_MSK else 0)\<rparr> else u, x))"
    using assms(3) unfolding send_with_def Let_def a_def [symmetric] by (auto split: option.splits if_splits)
  note l = send_loop_same [OF assms(1) in_use_rel [OF ra assms(2)] u]
  have ru: "hc_rel p s u" using hc_rel_trans [OF ra] l by (simp add: same_caps_def)
  have cu: "hc_caps u = (if ?rlw then hc_caps s AND NOT ACMD_MSK else hc_caps s)" using l by (simp add: same_caps_def a_def)
  have b: "(x AND NOT m) OR (x AND m) = x" for x m :: u64 by (rule bit_eqI) (auto simp: bit_simps)
  have "hc_caps s AND NOT ACMD_MSK = hc_caps s" if "hc_caps s AND ACMD_MSK = 0"
    using b [of "hc_caps s" ACMD_MSK] unfolding that by simp
  then show ?thesis
    using t cu ru hc_rel_trans [OF ru hc_rel_upd(4)] b [of "hc_caps s" ACMD_MSK] by (auto split: if_splits)
qed

lemma send_cmd_ok: "sender_ok (sdio_send_cmd d ent env)"
proof (induction d)
  case 0
  have "sender_ok (\<lambda>p tmo retries s. None)" by (rule sender_okI) simp
  then show ?case using send_with_post by (intro sender_okI) (fastforce simp: same_caps_def)
next
  case (Suc d)
  then show ?case using send_with_post by (intro sender_okI) (fastforce simp: same_caps_def)
qed

lemma send_cmd_post:
  assumes "in_use p s" "sdio_send_cmd d ent env p tmo r s = Some (t, st)"
  shows "hc_rel p s t \<and> (hc_caps t = hc_caps s \<or>
    cmd_flags (cmd_mem s p) AND SCF_SBC_RLW \<noteq> 0 \<and> st = ENXIO \<and> hc_caps t = hc_caps s AND NOT ACMD_MSK)"
proof (cases d)
  case 0
  have "sender_ok (\<lambda>p tmo retries s. None)" by (rule sender_okI) simp
  from send_with_post [OF this assms(1)] show ?thesis using assms(2) 0 by simp
next
  case (Suc e)
  from send_with_post [OF send_cmd_ok assms(1)] show ?thesis using assms(2) Suc by simp
qed

end

section \<open>The SD host controller is such a controller\<close>

lemma keeps_refl [simp]: "hc_keeps s s"
  by (simp add: hc_keeps_def)

lemma keeps_trans [trans]: "hc_keeps s t \<Longrightarrow> hc_keeps t u \<Longrightarrow> hc_keeps s u"
  by (simp add: hc_keeps_def)

lemma keeps_log: "log_only s t \<Longrightarrow> hc_keeps s t"
  by (auto simp: log_only_def hc_keeps_def)

lemma keeps_out: "hc_keeps s (sdhci_out w r v s)"
  by (simp add: hc_keeps_def sdhci_out_def)

lemma keeps_in: "hc_keeps s (fst (sdhci_in env w r s))"
  by (simp add: hc_keeps_def sdhci_in_eq)

lemma keeps_log_upd: "hc_keeps s (s\<lparr>hlog := l\<rparr>)"
  by (simp add: hc_keeps_def)

lemma keeps_cs: "hc_keeps s (s\<lparr>hc_cs := c\<rparr>)" "hc_keeps s (set_tab d s)" "hc_keeps s (upd_adma i f s)"
  by (simp_all add: hc_keeps_def set_tab_def upd_adma_def)

lemma keeps_sg_start: "hc_keeps s (fst (sdio_sg_start p n s))"
  by (simp add: hc_keeps_def sdio_sg_start_def upd_wspc_def)

lemma keeps_sg_nxt: "hc_keeps s (fst (sdio_sg_nxt n s))"
  by (simp add: hc_keeps_def sdio_sg_nxt_def Let_def)

lemma keeps_phys: "hc_keeps s (fst (phys_sg env cmd s))"
  by (simp add: phys_sg_def Let_def keeps_cs)

lemma keeps_adma: "hc_keeps s (fst (sdhci_adma_setup env cmd s))"
proof -
  obtain u sg where p: "phys_sg env cmd s = (u, sg)" by (metis surj_pair)
  obtain v n where e: "adma_entries (cfg_bmstr_xlat (hc_cfg u)) 0 sg u = (v, n)" by (metis surj_pair)
  have "hc_keeps s u" using keeps_phys [of s env cmd] p by simp
  moreover have "hc_keeps u v" using e by (simp add: adma_entries_eq keeps_cs) (metis keeps_cs(2))
  ultimately have sv: "hc_keeps s v" by (rule keeps_trans)
  show ?thesis
  proof (cases n)
    case None
    then show ?thesis using sv by (simp add: sdhci_adma_setup_def p e Let_def)
  next
    case (Some k)
    have "hc_keeps v (sdhci_out w r x (sdhci_out w' r' x' (upd_adma i f v)))"
         "hc_keeps v (sdhci_out w' r' x' (upd_adma i f v))" for w r x w' r' x' i f
      using keeps_trans [OF keeps_cs(3) keeps_trans [OF keeps_out keeps_out]] keeps_trans [OF keeps_cs(3) keeps_out] .
    then show ?thesis using Some keeps_trans [OF sv] by (simp add: sdhci_adma_setup_def p e Let_def)
  qed
qed

lemma keeps_sdma: "hc_keeps s (fst (sdhci_sdma_setup env cmd s))"
  using keeps_trans [OF keeps_phys keeps_out] by (simp add: sdhci_sdma_setup_def split_beta)

lemma keeps_dma: "hc_keeps s (fst (xfer_dma env cmd st h h2 c s))"
  using keeps_adma [of s env cmd] keeps_sdma [of s env cmd] by (simp add: xfer_dma_def split_beta Let_def)

lemma keeps_regs: "hc_keeps s (xfer_regs cmd h h2 s)"
  using keeps_trans [OF keeps_out keeps_trans [OF keeps_out keeps_trans [OF keeps_out keeps_out]]]
    keeps_trans [OF keeps_out keeps_out]
  by (simp add: xfer_regs_def Let_def)

lemma keeps_xfer: "hc_keeps s (fst (sdhci_xfer_setup env cmd c m s))"
proof -
  let ?a = "fst (sdhci_in16 env SDHCI_HCTL2 (fst (sdhci_in32 env SDHCI_HCTL s)))"
  let ?b = "fst (sdio_sg_start (cmd_sgl cmd) (cmd_sgc cmd) ?a)"
  have b: "hc_keeps s ?b"
    by (rule keeps_trans [OF keeps_in], rule keeps_trans [OF keeps_in], rule keeps_sg_start)
  have d: "hc_keeps s (fst (xfer_dma env cmd st h h2 k ?b))" for st h h2 k by (rule keeps_trans [OF b keeps_dma])
  have "hc_keeps s (xfer_regs cmd h' h2' (fst (xfer_dma env cmd st h h2 k ?b)))"
    "hc_keeps s (xfer_regs cmd h' h2' (sdhci_out w r v (fst (xfer_dma env cmd st h h2 k ?b))))" for st h h2 k h' h2' w r v
    using keeps_trans [OF d keeps_regs] keeps_trans [OF d keeps_trans [OF keeps_out keeps_regs]] .
  then show ?thesis using d unfolding sdhci_xfer_setup_def Let_def split_beta by (simp split: if_split)
qed

lemma keeps_cmd: "hc_keeps s (fst (sdhci_cmd env p s))"
proof -
  let ?a = "sdhci_out32 SDHCI_IS SDHCI_INTR_CLR_MSK s"
  have x: "hc_keeps s (fst (sdhci_xfer_setup env c k m ?a))" for c k m by (rule keeps_trans [OF keeps_out keeps_xfer])
  have w: "hc_keeps t (fst (sdhci_waitmask env r m v n t))" for t r m v n by (rule keeps_log [OF log_only_waitmask])
  have o: "hc_keeps t (sdhci_out32 r v (sdhci_out32 r' v' (sdhci_out32 r'' v'' t)))" for t r v r' v' r'' v''
    by (rule keeps_trans [OF keeps_out keeps_trans [OF keeps_out keeps_out]])
  note xw = keeps_trans [OF x w] and aw = keeps_trans [OF keeps_out w]
  note k = keeps_out x xw keeps_trans [OF xw o] aw keeps_trans [OF aw o]
  show ?thesis unfolding sdhci_cmd_def Let_def split_beta by (simp add: k split: if_split)
qed

text \<open>What reading a response or moving data may do: the response of \<open>p\<close> only.\<close>

definition rsp_only :: "u64 \<Rightarrow> sdio_hc \<Rightarrow> sdio_hc \<Rightarrow> bool" where
  "rsp_only p s t \<longleftrightarrow> hc_caps t = hc_caps s \<and> active t = active s \<and> cmd_pool t = cmd_pool s \<and> cmd_fresh t = cmd_fresh s \<and>
     (\<forall>q. q \<noteq> p \<longrightarrow> cmd_mem t q = cmd_mem s q) \<and> cmd_flags (cmd_mem t p) = cmd_flags (cmd_mem s p) \<and>
     cmd_status (cmd_mem t p) = cmd_status (cmd_mem s p)"

lemma rsp_only_refl [simp]: "rsp_only p s s"
  by (simp add: rsp_only_def)

lemma rsp_only_trans [trans]: "rsp_only p s t \<Longrightarrow> rsp_only p t u \<Longrightarrow> rsp_only p s u"
  by (simp add: rsp_only_def)

lemma keeps_rsp_only: "hc_keeps s t \<Longrightarrow> rsp_only p s t"
  by (simp add: hc_keeps_def rsp_only_def)

lemma upd_rsp_only: "rsp_only p s (upd_cmd p (\<lambda>c. c\<lparr>cmd_rsp := f c\<rparr>) s)"
  by (simp add: rsp_only_def upd_cmd_def)

lemma rsp136_only: "rsp_only p s (rsp136 env p n i b s)"
proof (induction n arbitrary: i b s)
  case (Suc n)
  show ?case
    unfolding rsp136.simps Let_def split_beta
    by (rule rsp_only_trans [OF keeps_rsp_only [OF keeps_in]], rule rsp_only_trans [OF upd_rsp_only], rule Suc.IH)
qed simp

lemma rsp_word0_only: "rsp_only p s (rsp_word0 env p s)"
  unfolding rsp_word0_def Let_def split_beta by (rule rsp_only_trans [OF keeps_rsp_only [OF keeps_in] upd_rsp_only])

lemma keeps_in32s: "hc_keeps s (sdhci_in32s env a n s)"
proof (induction n arbitrary: a s)
  case (Suc n)
  have "hc_keeps t (store32 a v t)" for v t by (simp add: hc_keeps_def store32_def)
  from keeps_trans [OF keeps_in keeps_trans [OF this Suc.IH]] show ?case by (simp add: split_beta)
qed simp

lemma keeps_out32s: "hc_keeps s (sdhci_out32s a n s)"
proof (induction n arbitrary: a s)
  case (Suc n)
  from keeps_trans [OF keeps_out Suc.IH] show ?case by simp
qed simp

lemma keeps_pio_block: "hc_keeps s (pio_block env rd n s)"
proof (induction env rd n s rule: pio_block.induct)
  case (1 env rd n s)
  obtain u x where u: "sdio_sg_nxt n s = (u, x)" by (metis surj_pair)
  have k: "hc_keeps s u" using keeps_sg_nxt [of s n] u by simp
  show ?case
  proof (cases "n = 0 \<or> x = None")
    case True
    then show ?thesis using k u by (subst pio_block.simps) auto
  next
    case False
    then obtain a l where x: "x = Some (a, l)" by (cases x) auto
    let ?v = "if rd then sdhci_in32s env a (unat (l div 4)) u else sdhci_out32s a (unat (l div 4)) u"
    have "hc_keeps u ?v" by (simp add: keeps_in32s keeps_out32s)
    moreover have "hc_keeps ?v (pio_block env rd (n - l) ?v)" using 1 [of u x "(a, l)" a l] False u x by simp
    moreover have "pio_block env rd n s = pio_block env rd (n - l) ?v" using False u x by (subst pio_block.simps) simp
    ultimately show ?thesis using keeps_trans [OF k keeps_trans] by metis
  qed
qed

lemma keeps_pio: "sdhci_pio_xfer n env c s = Some (t, e) \<Longrightarrow> hc_keeps s t"
proof (induction n arbitrary: s)
  case (Suc n)
  let ?u = "fst (sdhci_in32 env SDHCI_PSTATE s)"
  have u: "hc_keeps s ?u" by (rule keeps_in)
  show ?case
  proof (cases "snd (sdhci_in32 env SDHCI_PSTATE s) AND (if cmd_flags c AND SCF_DIR_IN \<noteq> 0 then SDHCI_PSTATE_BRE else SDHCI_PSTATE_BWE) = 0")
    case True
    then have "t = ?u" using Suc.prems by (simp add: split_beta)
    then show ?thesis using u by simp
  next
    case False
    then have "sdhci_pio_xfer n env c (pio_block env (cmd_flags c AND SCF_DIR_IN \<noteq> 0) (cmd_blksz c) ?u) = Some (t, e)"
      using Suc.prems by (simp add: split_beta)
    from keeps_trans [OF u keeps_trans [OF keeps_pio_block Suc.IH [OF this]]] show ?thesis .
  qed
qed simp

lemma intr_normal_only:
  assumes "intr_normal n env sts p s = Some (t, cs)"
  shows "rsp_only p s t"
proof -
  define a where "a = (if sts AND SDHCI_INTR_CC \<noteq> 0 then intr_cc env p s else s)"
  define b where "b = (if sts AND SDHCI_INTR_TC \<noteq> 0 then rsp_word0 env p a
    else if sts AND SDHCI_INTR_DMA \<noteq> 0 then sdhci_out32 SDHCI_SDMA_ARG2 (snd (sdhci_in32 env SDHCI_SDMA_ARG2 a)) (fst (sdhci_in32 env SDHCI_SDMA_ARG2 a))
    else a)"
  have a: "rsp_only p s a" by (simp add: a_def intr_cc_def rsp136_only rsp_word0_only)
  have "rsp_only p a b"
    using rsp_only_trans [OF keeps_rsp_only [OF keeps_in] keeps_rsp_only [OF keeps_out]]
    by (simp add: b_def rsp_word0_only)
  with a have sb: "rsp_only p s b" by (rule rsp_only_trans)
  have "t = b \<or> (\<exists>e. sdhci_pio_xfer n env (cmd_mem b p) b = Some (t, e))"
    using assms unfolding intr_normal_def Let_def a_def b_def by (auto simp: split_beta split: if_splits)
  then show ?thesis using sb rsp_only_trans [OF sb keeps_rsp_only [OF keeps_pio]] by blast
qed

lemma keeps_ack: "hc_keeps s (fst (intr_ack env s))"
proof -
  have ev: "hc_keeps t (sdio_hc_event ev t)" for ev t
    by (cases ev) (simp_all add: hc_keeps_def sdio_hc_event_def set_dev_flags_def)
  have o: "hc_keeps s (sdhci_out w r v (fst (sdhci_in env w' r' (fst (sdhci_in env w'' r'' s)))))" for w r v w' r' w'' r''
    by (rule keeps_trans [OF keeps_in keeps_trans [OF keeps_in keeps_out]])
  show ?thesis unfolding intr_ack_def Let_def split_beta
    by (simp add: o keeps_trans [OF o ev] keeps_trans [OF keeps_trans [OF o ev] ev] split: if_split)
qed

lemma step_complete:
  assumes "rsp_only p s t" "active s = p" "p \<noteq> 0" "cs \<noteq> CS_CMD_INPROG"
  shows "hc_step s (sdio_cmd_cmplt p cs t)"
  using assms by (auto simp: rsp_only_def hc_step_def sdio_cmd_cmplt_def upd_cmd_def upd_wspc_def)

lemma rsp_only_step: "rsp_only p s t \<Longrightarrow> active s = p \<Longrightarrow> p \<noteq> 0 \<Longrightarrow> hc_step s t"
  unfolding rsp_only_def hc_step_def by metis

lemma keeps_step: "hc_keeps s t \<Longrightarrow> hc_step s t"
  by (simp add: hc_keeps_def hc_step_def)

lemma intr_step:
  assumes "sdhci_intr_event n env s = Some t"
  shows "hc_step s t"
proof (cases "env_hw env (hlog s) W32 SDHCI_IS = 0")
  case True
  then have "t = s\<lparr>hlog := IN W32 SDHCI_IS 0 # hlog s\<rparr>" using assms by (simp add: sdhci_intr_event_def sdhci_in_eq)
  then show ?thesis by (simp add: keeps_step keeps_log_upd)
next
  case False
  obtain u sts where u: "intr_ack env s = (u, sts)" by (metis surj_pair)
  have k: "hc_keeps s u" using keeps_ack [of s env] u by simp
  define p where "p = active s"
  show ?thesis
  proof (cases "p = 0")
    case True
    then show ?thesis using assms k unfolding intr_event_eq [OF u False] p_def [symmetric] by (simp add: keeps_step)
  next
    case p: False
    let ?r = "if sts AND SDHCI_INTR_ERRI \<noteq> 0
      then Some (fst (sdhci_reset env SDHCI_SYSCTL_SRC (fst (sdhci_reset env SDHCI_SYSCTL_SRD u))), intr_error sts)
      else intr_normal n env sts p u"
    obtain v cs where v: "?r = Some (v, cs)" using assms p unfolding intr_event_eq [OF u False] p_def [symmetric] Let_def
      by (cases ?r) auto
    define cs' where "cs' = (if sts AND SDHCI_INTR_CREM \<noteq> 0 then CS_CARD_REMOVED else cs)"
    have "rsp_only p u v"
      using v intr_normal_only keeps_rsp_only [OF keeps_trans [OF keeps_log [OF log_only_reset] keeps_log [OF log_only_reset]]]
      by (auto split: if_splits)
    then have sv: "rsp_only p s v" using rsp_only_trans [OF keeps_rsp_only [OF k]] by blast
    have "t = (if cs' \<noteq> CS_CMD_INPROG then sdio_cmd_cmplt p cs' v else v)"
      using assms p v unfolding intr_event_eq [OF u False] p_def [symmetric] Let_def cs'_def by simp
    then show ?thesis using step_complete [OF sv _ p] rsp_only_step [OF sv _ p] by (simp add: p_def)
  qed
qed

interpretation sdhc: hc_driver "sdhci_entry n env" for n env
proof unfold_locales
  show "hc_keeps s (fst (e_cmd (sdhci_entry n env) p s))" for s p by (simp add: sdhci_entry_def sdhci_core_def keeps_cmd)
  show "hc_keeps s (fst (e_abort (sdhci_entry n env) p s))" for s p
    by (simp add: sdhci_entry_def sdhci_core_def sdhci_abort_def)
  show "hc_step s t" if "e_event (sdhci_entry n env) HC_EV_INTR s = Some (t, st)" for s t st
    using that intr_step by (auto simp: sdhci_entry_def sdhci_core_def sdhci_event_def)
qed

section \<open>Sequences of services\<close>

text \<open>One call of a service that sends a command of its own, over the controller's entry table.\<close>

inductive service :: "sender \<Rightarrow> sdio_hc \<Rightarrow> sdio_hc \<Rightarrow> bool" for send where
  status: "sdio_send_status send hpi s = Some (t, st, rsp) \<Longrightarrow> service send s t"
| wait: "sdio_wait_card_status send msk val ms s = Some (t, st, rsp) \<Longrightarrow> service send s t"
| csd: "sdio_send_csd send s = Some (t, st, rsp) \<Longrightarrow> service send s t"
| cid: "sdio_all_send_cid send s = Some (t, st, rsp) \<Longrightarrow> service send s t"
| select: "sdio_select_card send rca s = Some (t, st) \<Longrightarrow> service send s t"
| stop: "sdio_stop_transmission send hpi s = Some (t, st) \<Longrightarrow> service send s t"
| blklen: "sdio_set_block_length send len s = Some (t, st) \<Longrightarrow> service send s t"
| blkcnt: "sdio_set_block_count send cnt flgs s = Some (t, st) \<Longrightarrow> service send s t"
| upper: "sdio_set_upper_addr send ua s = Some (t, st) \<Longrightarrow> service send s t"
| idle: "sdio_go_idle send s = Some (t, st) \<Longrightarrow> service send s t"
| app: "sd_app_cmd send s = Some (t, st) \<Longrightarrow> service send s t"

lemma calm_upd: "calm s t \<Longrightarrow> calm s (set_dev_flags f t)" "calm s t \<Longrightarrow> calm s (t\<lparr>dev_block_length := b\<rparr>)"
  by (simp_all add: calm_def set_dev_flags_def blocks_def)

lemma service_calm:
  assumes "service send s t" "sender_ok send" "pool_ok s"
  shows "calm s t"
  using assms(1)
proof cases
  case (status hpi st rsp)
  then show ?thesis using send_status_calm [OF assms(2,3)] by blast
next
  case (wait msk val ms st rsp)
  then show ?thesis using wait_status_post [OF assms(2,3)] by (auto simp: sdio_wait_card_status_def)
next
  case (csd st rsp)
  then obtain c where "cmd_call send (SCF_CTYPE_AC OR SCF_RSP_R2) 9 (push_bit 16 (dev_rca s)) SDIO_CMD_RETRIES s = Some (t, st, c)"
    by (auto simp: sdio_send_csd_def)
  from cmd_call_post [OF assms(2,3) _ this] show ?thesis by simp
next
  case (cid st rsp)
  then obtain c where "cmd_call send (SCF_CTYPE_BCR OR SCF_RSP_R2) 2 0 SDIO_CMD_RETRIES s = Some (t, st, c)"
    by (auto simp: sdio_all_send_cid_def)
  from cmd_call_post [OF assms(2,3) _ this] show ?thesis by simp
next
  case (select rca st)
  then obtain u c where u: "cmd_call send (SCF_CTYPE_AC OR (if rca \<noteq> 0 then SCF_RSP_R1 else SCF_RSP_NONE)) 7 (push_bit 16 rca)
      SDIO_CMD_RETRIES s = Some (u, st, c)" and t: "t = u \<or> t = set_dev_flags DEV_FLAG_LOCKED u"
    by (auto simp: sdio_select_card_def split: if_splits)
  have "calm s u" using cmd_call_post [OF assms(2,3) _ u] by simp
  then show ?thesis using t calm_upd by blast
next
  case (stop hpi st)
  then show ?thesis unfolding sdio_stop_transmission_def by (rule drop_cmd_post [OF assms(2,3), rotated]) simp
next
  case (blklen len st)
  show ?thesis
  proof (cases "t = s")
    case False
    then obtain u c where u: "cmd_call send (SCF_CTYPE_AC OR SCF_RSP_R1) 16 len SDIO_CMD_RETRIES s = Some (u, st, c)"
      and t: "t = u \<or> t = u\<lparr>dev_block_length := len\<rparr>"
      using blklen by (auto simp: sdio_set_block_length_def split: if_splits)
    have "calm s u" using cmd_call_post [OF assms(2,3) _ u] by simp
    then show ?thesis using t calm_upd by blast
  qed simp
next
  case (blkcnt cnt flgs st)
  then show ?thesis using block_count_calm [OF assms(2,3)] by blast
next
  case (upper ua st)
  then show ?thesis unfolding sdio_set_upper_addr_def by (rule drop_cmd_post [OF assms(2,3), rotated]) simp
next
  case (idle st)
  then show ?thesis unfolding sdio_go_idle_def by (rule drop_cmd_post [OF assms(2,3), rotated]) simp
next
  case (app st)
  then show ?thesis using app_cmd_calm [OF assms(2,3)] by blast
qed

lemma services_calm:
  assumes "(service send)\<^sup>*\<^sup>* s t" "sender_ok send" "pool_ok s"
  shows "calm s t"
  using assms(1)
proof (induction rule: rtranclp_induct)
  case (step t u)
  then show ?case using calm_trans service_calm [OF step(2) assms(2)] calm_pool [OF step.IH assms(3)] by blast
qed simp

section \<open>The depth of nesting\<close>

text \<open>A command that needs no other command.\<close>

definition plain :: "u32 \<Rightarrow> bool" where
  "plain flgs \<longleftrightarrow> flgs AND SCF_APP_CMD = 0 \<and> flgs AND SCF_SBC = 0 \<and> flgs AND SCF_WAIT_DRDY = 0"

definition agree :: "sender \<Rightarrow> sender \<Rightarrow> bool" where
  "agree A B \<longleftrightarrow> (\<forall>p tmo r s. in_use p s \<and> plain (cmd_flags (cmd_mem s p)) \<longrightarrow> A p tmo r s = B p tmo r s)"

lemma cmd_call_agree:
  assumes "agree A B" "pool_ok s" "plain flgs"
  shows "cmd_call A flgs opc arg r s = cmd_call B flgs opc arg r s"
proof -
  obtain u p where a: "sdio_alloc_cmd s = (u, p)" by (metis surj_pair)
  show ?thesis
  proof (cases "p = 0")
    case True
    then show ?thesis by (simp add: cmd_call_def a)
  next
    case False
    let ?v = "sdio_setup_cmd p flgs opc arg u"
    have v: "blocks ?v = blocks u" "cmd_flags (cmd_mem ?v p) = flgs"
      by (simp_all add: sdio_setup_cmd_def sdio_setup_cmd_ext_def upd_cmd_def blocks_def)
    have "in_use p ?v" using alloc_post [OF a assms(2)] False pool_ok_cong [OF v(1)] v(1) by (simp add: in_use_def)
    then have "A p SDIO_TIME_DEFAULT r ?v = B p SDIO_TIME_DEFAULT r ?v"
      using assms(1,3) v(2) by (simp add: agree_def)
    then show ?thesis unfolding cmd_call_def a Let_def case_prod_conv by (simp only:)
  qed
qed

lemma plain_consts: "plain (SCF_CTYPE_AC OR SCF_RSP_R1)" "plain ((if b then SCF_CTYPE_BCR else SCF_CTYPE_BC) OR SCF_RSP_R1)"
  by (simp_all add: plain_def)

lemma services_agree:
  assumes "agree A B" "pool_ok s"
  shows "sd_app_cmd A s = sd_app_cmd B s" "sdio_set_block_count A n f s = sdio_set_block_count B n f s"
    "sdio_send_status A hpi s = sdio_send_status B hpi s"
  unfolding sd_app_cmd_def sdio_set_block_count_def sdio_send_status_def
  using cmd_call_agree [OF assms plain_consts(1)] cmd_call_agree [OF assms plain_consts(2)] by simp_all

lemma wait_status_agree:
  assumes "agree A B" "sender_ok A" "pool_ok s"
  shows "wait_status_loop A msk val n r s = wait_status_loop B msk val n r s"
  using assms(3)
proof (induction n arbitrary: r s)
  case (Suc n)
  note e = services_agree(3) [OF assms(1) Suc.prems, of False]
  show ?case
  proof (cases "sdio_send_status B False s")
    case None
    then show ?thesis by (simp add: e)
  next
    case (Some x)
    then obtain u st q where u: "sdio_send_status B False s = Some (u, st, q)" by (cases x) simp
    have "calm s u" using send_status_calm [OF assms(2) Suc.prems, of False u st q] u e by simp
    then have "pool_ok (pause 1000 u)" using calm_pool [OF pause_calm] calm_pool Suc.prems by blast
    then show ?thesis using Suc.IH [of "pause 1000 u"] by (simp add: e u)
  qed
qed simp

context hc_driver
begin

lemma send_issue_agree:
  assumes "in_use p s" "cmd_status (cmd_mem s p) = CS_CMD_INPROG"
    and "plain (cmd_flags (cmd_mem s p)) \<or> agree A B \<and> sender_ok A"
  shows "send_issue A ent env p tmo s = send_issue B ent env p tmo s"
proof (cases "sdio_issue_cmd ent env p s")
  case None
  then show ?thesis by (simp add: send_issue_def)
next
  case (Some x)
  then obtain u st where u: "sdio_issue_cmd ent env p s = Some (u, st)" by (cases x) simp
  have r: "hc_rel p s u" using issue_post [OF u] assms(1,2) by (simp add: in_use_def)
  then have f: "cmd_flags (cmd_mem u p) = cmd_flags (cmd_mem s p)" by (simp add: hc_rel_def)
  have "pool_ok u" using in_use_rel [OF r assms(1)] by (simp add: in_use_def)
  then have "agree A B \<and> sender_ok A \<Longrightarrow> sdio_wait_card_status A msk val ms u = sdio_wait_card_status B msk val ms u" for msk val ms
    using wait_status_agree by (simp add: sdio_wait_card_status_def)
  then show ?thesis using assms(3) f unfolding send_issue_def u option.case case_prod_conv plain_def by auto
qed

lemma send_once_agree:
  assumes "in_use p s" "sender_ok A"
    and "plain (cmd_flags (cmd_mem s p)) \<or> agree A B"
  shows "send_once A ent env p tmo s = send_once B ent env p tmo s"
proof -
  let ?a = "upd_cmd p (\<lambda>c. c\<lparr>cmd_status := CS_CMD_INPROG\<rparr>) s"
  have f: "cmd_flags (cmd_mem ?a p) = cmd_flags (cmd_mem s p)" "cmd_status (cmd_mem ?a p) = CS_CMD_INPROG" by (simp_all add: upd_cmd_def)
  have ia: "in_use p ?a" using in_use_rel [OF hc_rel_upd(1) assms(1)] .
  show ?thesis
  proof (cases "plain (cmd_flags (cmd_mem s p))")
    case True
    then have n: "cmd_flags (cmd_mem ?a p) AND SCF_APP_CMD = 0" "cmd_flags (cmd_mem ?a p) AND SCF_SBC = 0"
      unfolding f plain_def by blast+
    have "plain (cmd_flags (cmd_mem ?a p))" using True f by simp
    from send_issue_agree [OF ia f(2) disjI1 [OF this]] show ?thesis
      unfolding send_once_def Let_def by (simp add: n)
  next
    case False
    then have ag: "agree A B" using assms(3) by blast
    have pool: "pool_ok ?a" using ia by (simp add: in_use_def)
    show ?thesis
    proof (cases "if cmd_flags (cmd_mem ?a p) AND SCF_APP_CMD \<noteq> 0 then sd_app_cmd A ?a else Some (?a, EOK)")
      case None
      then show ?thesis unfolding send_once_def Let_def services_agree(1) [OF ag pool, symmetric] by (simp only: option.case)
    next
      case (Some x)
      obtain b st where x: "x = (b, st)" by (cases x)
      note A1 = Some [unfolded x]
      have cb: "calm ?a b" using A1 app_cmd_calm [OF assms(2) pool] by (auto split: if_splits)
      note sb = calm_same [OF cb ia]
      have ib: "in_use p b" using in_use_rel [of p ?a b] sb ia by (simp add: same_caps_def)
      have poolb: "pool_ok b" using ib by (simp add: in_use_def)
      let ?B = "if cmd_flags (cmd_mem b p) AND SCF_SBC \<noteq> 0 \<and> hc_caps b AND HC_CAP_ACMD23 = 0
        then sdio_set_block_count A (cmd_blks (cmd_mem b p)) (if cmd_flags (cmd_mem b p) AND SCF_SBC_RLW \<noteq> 0 then SBC_RL_WRITE else 0) b
        else Some (b, EOK)"
      have last: "send_issue A ent env p tmo c = send_issue B ent env p tmo c" if "?B = Some (c, st')" for c st'
      proof -
        have cc: "calm b c" using that block_count_calm [OF assms(2) poolb] by (auto split: if_splits)
        note sc = calm_same [OF cc ib]
        have "in_use p c" using in_use_rel [of p b c] sc ib by (simp add: same_caps_def)
        moreover have "cmd_status (cmd_mem c p) = CS_CMD_INPROG" using sb sc by (simp add: upd_cmd_def)
        ultimately show ?thesis using send_issue_agree ag assms(2) by blast
      qed
      show ?thesis
        unfolding send_once_def Let_def services_agree(1) [OF ag pool, symmetric] A1 option.case case_prod_conv
          services_agree(2) [OF ag poolb, symmetric]
        using last by (cases ?B) (auto split: prod.split)
    qed
  qed
qed

lemma send_loop_agree:
  assumes "in_use p s" "sender_ok A" "plain (cmd_flags (cmd_mem s p)) \<or> agree A B"
  shows "send_loop A ent env p tmo r s = send_loop B ent env p tmo r s"
  using assms(1,3)
proof (induction r arbitrary: s)
  case 0
  then show ?case
    unfolding send_loop.simps [of A ent env p tmo 0 s] send_loop.simps [of B ent env p tmo 0 s]
      send_once_agree [OF 0(1) assms(2) 0(2)]
    by (auto split: option.split send_out.split)
next
  case (Suc r)
  have same: "same_caps p s u" if "send_once B ent env p tmo s = Some (u, x)" for u x
    using send_once_same [OF assms(2) Suc.prems(1)] send_once_agree [OF Suc.prems(1) assms(2) Suc.prems(2)] that by simp
  have "send_loop A ent env p tmo r u = send_loop B ent env p tmo r u" if "send_once B ent env p tmo s = Some (u, x)" for u x
  proof (rule Suc.IH)
    show "in_use p u" using same [OF that] in_use_rel [of p s u] Suc.prems(1) by (simp add: same_caps_def)
    show "plain (cmd_flags (cmd_mem u p)) \<or> agree A B" using same [OF that] Suc.prems(2) by (simp add: same_caps_def hc_rel_def)
  qed
  then show ?case
    unfolding send_loop.simps [of A ent env p tmo "Suc r" s] send_loop.simps [of B ent env p tmo "Suc r" s]
      send_once_agree [OF Suc.prems(1) assms(2) Suc.prems(2)]
    by (auto split: option.split send_out.split)
qed

lemma send_with_agree:
  assumes "in_use p s" "sender_ok A" "plain (cmd_flags (cmd_mem s p)) \<or> agree A B"
  shows "send_with A ent env p tmo r s = send_with B ent env p tmo r s"
proof -
  let ?a = "if cmd_flags (cmd_mem s p) AND SCF_SBC_RLW \<noteq> 0 then s\<lparr>hc_caps := hc_caps s AND NOT ACMD_MSK\<rparr> else s"
  have "hc_rel p s ?a" "cmd_mem ?a = cmd_mem s" by (simp_all add: hc_rel_upd)
  then have "send_loop A ent env p tmo r ?a = send_loop B ent env p tmo r ?a"
    using assms(3) by (intro send_loop_agree in_use_rel [OF _ assms(1)] assms(2)) simp_all
  then show ?thesis unfolding send_with_def Let_def by (simp only:)
qed

lemma send_cmd_unfold: "\<exists>A. sender_ok A \<and> sdio_send_cmd d ent env = send_with A ent env"
proof (cases d)
  case 0
  have "sender_ok (\<lambda>p tmo retries s. None)" by (rule sender_okI) simp
  then show ?thesis using 0 by auto
next
  case (Suc e)
  then show ?thesis using send_cmd_ok [of e env] by auto
qed

lemma send_cmd_depth:
  assumes "in_use p s"
  shows "sdio_send_cmd (Suc d) ent env p tmo r s = sdio_send_cmd 1 ent env p tmo r s"
proof -
  obtain A B where A: "sender_ok A" "sdio_send_cmd d ent env = send_with A ent env"
    and B: "sdio_send_cmd 0 ent env = send_with B ent env"
    using send_cmd_unfold [of d env] send_cmd_unfold [of 0 env] by blast
  have "agree (sdio_send_cmd d ent env) (sdio_send_cmd 0 ent env)"
    unfolding agree_def A(2) B using send_with_agree [OF _ A(1)] by blast
  from send_with_agree [OF assms send_cmd_ok disjI2 [OF this]] show ?thesis by simp
qed

end

section \<open>The command layer over the host controller\<close>

text \<open>Claim C31. A command that is issued is over when \<open>_sdio_issue_cmd\<close> returns, whatever the device does and
  however many interrupts arrive in time: no command is active any more, so that a late interrupt cannot
  touch the block; success means that the block has a final status; every other block in use, the list of
  free blocks and the capabilities of the controller are as before.\<close>

theorem issue_cmd_finishes:
  assumes "sdio_issue_cmd (sdhci_entry n env) env p s = Some (t, st)" "p \<noteq> 0" "cmd_status (cmd_mem s p) = CS_CMD_INPROG"
  shows "wspc_cmd (hc_wspc t) = 0 \<and> (st = EOK \<longrightarrow> cmd_status (cmd_mem t p) \<noteq> CS_CMD_INPROG) \<and>
    hc_caps t = hc_caps s \<and> blocks t = blocks s \<and> (\<forall>q. q \<noteq> p \<and> q \<notin># blocks s \<longrightarrow> cmd_mem t q = cmd_mem s q)"
  using sdhc.issue_post [OF assms] by (simp add: hc_rel_def)

text \<open>Claim C32. \<open>_sdio_send_cmd\<close> with all its retries and the commands it sends before and after gives back every
  block it takes and leaves the controller's capabilities as they were, with one exception: a reliable write
  that ends because the card was removed leaves automatic stop and automatic block count switched off for
  good.\<close>

theorem send_cmd_caps:
  assumes "in_use p s" "sdio_send_cmd d (sdhci_entry n env) env p tmo r s = Some (t, st)"
  shows "blocks t = blocks s \<and> (hc_caps t = hc_caps s \<or>
    cmd_flags (cmd_mem s p) AND SCF_SBC_RLW \<noteq> 0 \<and> st = ENXIO \<and> hc_caps t = hc_caps s AND NOT ACMD_MSK)"
  using sdhc.send_cmd_post [OF assms] by (simp add: hc_rel_def)

text \<open>Any sequence of services, on any device, keeps the list of free command blocks: no block is lost,
  none is freed twice, and no block in use is written.\<close>

theorem services_return_blocks:
  assumes "(service (sdio_send_cmd d (sdhci_entry n env) env))\<^sup>*\<^sup>* s t" "pool_ok s"
  shows "pool_ok t \<and> blocks t = blocks s \<and> hc_caps t = hc_caps s \<and> (\<forall>q. q \<notin># blocks s \<longrightarrow> cmd_mem t q = cmd_mem s q)"
  using services_calm [OF assms(1) sdhc.send_cmd_ok assms(2)] calm_pool [OF _ assms(2)] by (simp add: calm_def)

text \<open>The recursion of \<open>_sdio_send_cmd\<close> is one deep: with any greater depth allowed the result is the
  same, so the commands sent on behalf of a command never need others.\<close>

theorem send_cmd_one_deep:
  assumes "in_use p s"
  shows "sdio_send_cmd (Suc d) (sdhci_entry n env) env p tmo r s = sdio_send_cmd 1 (sdhci_entry n env) env p tmo r s"
  by (rule sdhc.send_cmd_depth [OF assms])

text \<open>When the wait for the card succeeds, the last status word read from the card has the bits asked
  for and no error bit.\<close>

theorem wait_card_status_ready:
  assumes "sdio_wait_card_status (sdio_send_cmd d (sdhci_entry n env) env) msk val msec s = Some (t, EOK, rsp)" "pool_ok s"
  shows "rsp ! 0 AND msk = val \<and> rsp ! 0 AND CDS_ERROR_MSK = 0 \<and> blocks t = blocks s"
  using wait_status_post [OF sdhc.send_cmd_ok assms(2) assms(1) [unfolded sdio_wait_card_status_def]] by (simp add: calm_def)

end
