(* ===== verification/Sdio_Witness.thy ===== *)
theory Sdio_Witness
  imports Sdio_Cmd_Proofs
begin

text \<open>
  The theorems on the SD/MMC driver at concrete inputs: an SDHC card of 32 GB, an SDUC card, an
  MMC device of revision 5.1, and a controller with a clock of 200 MHz.
\<close>

section \<open>Cards\<close>

definition demo_card :: sdio_dev where
  "demo_card = dev_zero"

definition sdhc_csd :: "u32 list" where
  "sdhc_csd = [0x400E0032, 0x5B590000, 0xEDC87F80, 0x0A4040DF]"

definition sduc_csd :: "u32 list" where
  "sduc_csd = [0x800E0032, 0x5B590040, 0x00007F80, 0x0A4040DF]"

theorem sd_csd_capacity_witness:
  "(\<exists>dev' csd. sd_parse_csd demo_card sdhc_csd = (dev', csd, EOK) \<and>
      unat (csd_sectors csd) * unat (csd_blksz csd) = 31914983424) \<and>
   (\<exists>dev' csd. sd_parse_csd demo_card sduc_csd = (dev', csd, EOK) \<and> csd_sectors csd = 0)"
proof
  obtain dev' csd st where p: "sd_parse_csd demo_card sdhc_csd = (dev', csd, st)" by (metis prod_cases3)
  have "card_bytes sdhc_csd = Some 31914983424" by (simp add: card_bytes_def fld_def sdhc_csd_def)
  then show "\<exists>dev' csd. sd_parse_csd demo_card sdhc_csd = (dev', csd, EOK) \<and>
      unat (csd_sectors csd) * unat (csd_blksz csd) = 31914983424"
    using sd_csd_capacity [OF _ p] p by (simp add: sdhc_csd_def)
next
  obtain dev' csd st where p: "sd_parse_csd demo_card sduc_csd = (dev', csd, st)" by (metis prod_cases3)
  have "card_bytes sduc_csd = Some 2199023779840" by (simp add: card_bytes_def fld_def sduc_csd_def)
  then show "\<exists>dev' csd. sd_parse_csd demo_card sduc_csd = (dev', csd, EOK) \<and> csd_sectors csd = 0"
    using sd_csd_capacity [OF _ p] p by (simp add: sduc_csd_def)
qed

definition emmc_ecsd :: "u8 list" where
  "emmc_ecsd = (replicate 512 0)[192 := 8, 196 := 0x57]"

definition demo_caps :: u64 where
  "demo_caps = HC_CAP_HS OR HC_CAP_HS200 OR HC_CAP_SV_1_8V"


section \<open>Host controller\<close>

text \<open>A controller with a command of long response at address \<open>0x1000\<close>; every scatter entry holds 64 KB.\<close>

definition demo_desc :: adma_desc where
  "demo_desc = \<lparr>ad_attr = 0, ad_len = 0, ad_addr_lo = 0, ad_addr_hi = 0, ad_reserved = 0\<rparr>"

definition demo_cs :: sdhci_hc where
  "demo_cs = \<lparr>sh_base = True, sh_flags = SF_USE_ADMA OR SF_USE_ADMA64, sh_clk_mul = 0, sh_tuning_mode = 0, sh_sgl = [],
     sh_adma = (\<lambda>_. demo_desc), sh_adma_ok = True, sh_admap = 0x80000\<rparr>"

definition demo_hc :: sdio_hc where
  "demo_hc = \<lparr>hlog = [],
     hc_cfg = \<lparr>cfg_caps = -1, cfg_bmstr_xlat = 0, cfg_sg_max = 256, cfg_hsoptions = []\<rparr>,
     hc_device = demo_card, hc_flags = 0, hc_caps = 0, hc_version = 3, hc_clk_min = 0, hc_clk_max = 200000000,
     hc_clk_init = 0, hc_ocr = 0, hc_clk = 0, hc_vdd = 0, hc_timing = 0, hc_drv_type = 0, hc_bus_mode = 0,
     hc_bus_width = 0, hc_signal_voltage = 0, hc_bus_errs = 0, hc_tuning_count = 0,
     hc_wspc = \<lparr>wspc_cmd = 0x1000, wspc_sge = 0, wspc_sga = 0, wspc_nsg = 0, wspc_sgc = 0\<rparr>,
     hc_cs_hdl = True, hc_cs_frees = 0, hc_cs = demo_cs, hc_iid = 0, dev_rca = 0, dev_ocr = 0,
     dev_block_length = 0, dev_dtype = 0, cmd_mem = (\<lambda>_. cmd_zero\<lparr>cmd_flags := SCF_RSP_R2\<rparr>),
     sge_mem = (\<lambda>_. \<lparr>sg_address = 0x100000000, sg_count = 0x10000\<rparr>), data_mem = (\<lambda>_. 0), cmd_pool = [], cmd_fresh = [],
     cd_pulses = 0, intr_sched = []\<rparr>"

text \<open>A device whose registers read a fixed value each.\<close>

definition demo_env :: "(u32 \<Rightarrow> u32) \<Rightarrow> sdio_env" where
  "demo_env regs = \<lparr>env_hw = (\<lambda>l w r. regs r), env_vtop_sg = (\<lambda>h sg. sg), env_errno = (\<lambda>e. if e = EOK then 0 else 5)\<rparr>"

definition demo_xfer :: "u32 \<Rightarrow> sdio_cmd" where
  "demo_xfer n = cmd_zero\<lparr>cmd_flags := SCF_DATA_PHYS, cmd_sgc := n, cmd_sgl := 0x2000\<rparr>"

lemma demo_split: "adma_split 0x100000000 0x10000 = [(0x100000000, 61440), (0x10000F000, 4096)]"
  by (simp add: adma_split.simps)

lemma demo_phys:
  "phys_sg env (demo_xfer n) demo_hc = (demo_hc, replicate (unat n) \<lparr>sg_address = 0x100000000, sg_count = 0x10000\<rparr>)"
  by (simp add: phys_sg_def demo_xfer_def sge_list_def demo_hc_def map_replicate_const)

lemma demo_pieces:
  "split_all 0 (replicate n \<lparr>sg_address = 0x100000000, sg_count = 0x10000\<rparr>) =
    concat (replicate n [(0x100000000, 61440), (0x10000F000, 4096)])"
  by (simp add: split_all_def demo_split)

lemma demo_fields: "cfg_bmstr_xlat (hc_cfg demo_hc) = 0" "sh_flags (hc_cs demo_hc) = SF_USE_ADMA OR SF_USE_ADMA64"
  "sh_adma (hc_cs demo_hc) = (\<lambda>_. demo_desc)" "hlog demo_hc = []" "wspc_cmd (hc_wspc demo_hc) = 0x1000"
  by (simp_all add: demo_hc_def demo_cs_def)

theorem adma_setup_covers_witness:
  "\<exists>n. 0 < n \<and> n \<le> 256 \<and>
     concat (map (\<lambda>i. desc_bytes 0xA (tab (fst (sdhci_adma_setup (demo_env (\<lambda>_. 0)) (demo_xfer 2) demo_hc)) (int i))) [0 ..< n]) =
       bus_range 0x100000000 0x10000 @ bus_range 0x100000000 0x10000"
proof -
  obtain s' st where r: "sdhci_adma_setup (demo_env (\<lambda>_. 0)) (demo_xfer 2) demo_hc = (s', st)" by (metis surj_pair)
  let ?e = "\<lparr>sg_address = 0x100000000, sg_count = 0x10000\<rparr> :: sdio_sge"
  have two: "replicate (unat (2 :: u32)) ?e = [?e, ?e]" "replicate 2 ?e = [?e, ?e]"
  proof -
    have "unat (2 :: u32) = Suc (Suc 0)" by simp
    then show "replicate (unat (2 :: u32)) ?e = [?e, ?e]" "replicate 2 ?e = [?e, ?e]" by (simp_all add: numeral_2_eq_2)
  qed
  have "length (split_all 0 [?e, ?e]) = 4" using demo_pieces [of 2] two(2) by (simp add: numeral_2_eq_2)
  then have st: "st = EOK"
    using adma_setup_table(2) [OF demo_phys, of "demo_env (\<lambda>_. 0)" 2] unfolding r demo_fields two by simp
  from adma_setup_covers [OF demo_phys r [unfolded st]]
  obtain n where "0 < n" "n \<le> 256" "concat (map (\<lambda>i. desc_bytes 0xA (tab s' (int i))) [0 ..< n]) = concat (map (sg_bytes 0) [?e, ?e])"
    unfolding two demo_fields by auto
  then show ?thesis using r by (intro exI [of _ n]) (simp add: sg_bytes_def)
qed

theorem adma_setup_overflows_witness:
  "\<exists>s'. sdhci_adma_setup (demo_env (\<lambda>_. 0)) (demo_xfer 200) demo_hc = (s', ENOTSUP) \<and> ad_attr (tab s' 256) = 0x21 \<and>
     ad_attr (tab demo_hc 256) = 0"
proof -
  obtain s' st where r: "sdhci_adma_setup (demo_env (\<lambda>_. 0)) (demo_xfer 200) demo_hc = (s', st)" by (metis surj_pair)
  have "256 < length (split_all 0 (replicate (unat (200 :: u32)) \<lparr>sg_address = 0x100000000, sg_count = 0x10000\<rparr>))"
    unfolding demo_pieces by (simp add: length_concat sum_list_replicate)
  then show ?thesis
    using adma_setup_overflows [OF demo_phys _ r] r unfolding demo_fields by (simp add: demo_desc_def)
qed

theorem clk_fastest_allowed_witness:
  "\<exists>v l. hlog (fst (sdhci_clk (demo_env (\<lambda>_. 0)) 400000 demo_hc)) = DELAY 1000 # DELAY 1000 # OUT W32 SDHCI_SYSCTL v # l \<and>
     best_field 3 False 200000000 400000 (clk_field v)"
proof -
  have "clip W16 (env_hw (demo_env (\<lambda>_. 0)) l W16 SDHCI_HCTL2) AND SDHCI_HCTL2_PRESET_VAL = 0" for l
    by (simp add: demo_env_def clip_def)
  moreover have "\<not> clk_prog demo_hc" "hc_version demo_hc = 3" "unat (hc_clk_max demo_hc) = 200000000"
    by (simp_all add: clk_prog_def demo_hc_def demo_cs_def)
  ultimately show ?thesis using clk_fastest_allowed [of "demo_env (\<lambda>_. 0)" 400000 demo_hc] unfolding split_beta by auto
qed

text \<open>A command timeout, and the response of an SDHC card to the request for its CSD.\<close>

definition regs_timeout :: "u32 \<Rightarrow> u32" where
  "regs_timeout r = (if r = SDHCI_IS then 0x18000 else if r = SDHCI_IE then 0x30F8001 else 0)"

definition regs_csd :: "u32 \<Rightarrow> u32" where
  "regs_csd r = (if r = SDHCI_IS then SDHCI_INTR_CC else if r = SDHCI_IE then 0x30F8001
     else if r = 0x10 then 0x800A4040 else if r = 0x14 then 0x00EDC87F else if r = 0x18 then 0x325B5900
     else if r = 0x1C then 0x00400E00 else 0)"

lemma demo_ack:
  "snd (intr_ack (demo_env regs_timeout) demo_hc) = 0x18000" "snd (intr_ack (demo_env regs_csd) demo_hc) = SDHCI_INTR_CC"
  by (simp_all add: intr_ack_def sdhci_in_eq Let_def demo_env_def regs_timeout_def regs_csd_def)

theorem error_interrupt_completes_witness:
  "\<exists>s'. sdhci_intr_event 0 (demo_env regs_timeout) demo_hc = Some s' \<and> cmd_status (cmd_mem s' 0x1000) = CS_CMD_TO_ERR"
proof -
  obtain t sts where a: "intr_ack (demo_env regs_timeout) demo_hc = (t, sts)" by (metis surj_pair)
  then have sts: "sts = 0x18000" using demo_ack(1) by simp
  have "env_hw (demo_env regs_timeout) (hlog demo_hc) W32 SDHCI_IS \<noteq> 0" by (simp add: demo_env_def regs_timeout_def)
  from error_interrupt_completes [OF a this demo_fields(5), of 0] show ?thesis
    by (auto simp: sts intr_error_def)
qed

theorem long_response_fields_witness:
  "\<exists>s'. sdhci_intr_event 0 (demo_env regs_csd) demo_hc = Some s' \<and>
     unat (sdio_extract_bits (cmd_rsp (cmd_mem s' 0x1000)) 128 48 22) = 0xEDC8"
proof -
  obtain t sts where a: "intr_ack (demo_env regs_csd) demo_hc = (t, sts)" by (metis surj_pair)
  then have sts: "sts = SDHCI_INTR_CC" using demo_ack(2) by simp
  have i: "env_hw (demo_env regs_csd) (hlog demo_hc) W32 SDHCI_IS \<noteq> 0" by (simp add: demo_env_def regs_csd_def)
  have h: "holds_rsp (demo_env regs_csd) 0x800A4040 0x00EDC87F 0x325B5900 0x00400E00"
    by (simp add: holds_rsp_def demo_env_def regs_csd_def)
  have c: "cmd_flags (cmd_mem demo_hc 0x1000) AND SCF_RSP_136 \<noteq> 0" "length (cmd_rsp (cmd_mem demo_hc 0x1000)) = 4"
    by (simp_all add: demo_hc_def cmd_zero_def)
  from long_response_fields [OF a i demo_fields(5) _ c _ _ h, of 48 22 0] show ?thesis by (auto simp: sts)
qed

definition demo_res :: init_res where
  "demo_res = \<lparr>res_calloc = True, res_mmap = False, res_adma = None, res_iid = 0, res_errno = ENOMEM\<rparr>"

theorem init_failure_frees_twice_witness:
  "\<exists>s'. sdhci_init (demo_env (\<lambda>_. 0)) demo_res 0x1000fff000 demo_hc = (s', ENOMEM) \<and>
     hc_cs_frees (fst (sdhci_dinit (demo_env (\<lambda>_. 0)) s')) = 2"
proof -
  obtain s' e where r: "sdhci_init (demo_env (\<lambda>_. 0)) demo_res 0x1000fff000 demo_hc = (s', e)" by (metis surj_pair)
  have e: "e = ENOMEM" using r by (simp add: sdhci_init_def demo_res_def Let_def)
  from init_failure_frees_twice [OF r] show ?thesis using r e by (simp add: demo_res_def)
qed

end
