(* ===== verification/Sdio_Cmd_Witness.thy ===== *)
theory Sdio_Cmd_Witness
  imports Sdio_Witness
begin

text \<open>
  The theorems on the command layer at concrete inputs: a command that times out, a reliable write whose
  card is removed, and services on a device that answers.
\<close>

text \<open>A controller with two free command blocks and one in use; a device whose card is being removed, and one
  that completes every command with the response \<open>0x900\<close> (ready for data, in the transfer state).\<close>

definition regs_gone :: "u32 \<Rightarrow> u32" where
  "regs_gone r = (if r = SDHCI_IS then SDHCI_INTR_CREM else if r = SDHCI_IE then 0x30F80C3 else 0)"

definition regs_ready :: "u32 \<Rightarrow> u32" where
  "regs_ready r = (if r = SDHCI_IS then SDHCI_INTR_CC else if r = SDHCI_IE then 0x30F8001 else if r = 0x10 then 0x900 else 0)"

definition cmd_hc :: "nat list \<Rightarrow> u32 \<Rightarrow> sdio_hc" where
  "cmd_hc ks flgs = demo_hc\<lparr>cmd_mem := (\<lambda>_. cmd_zero)(0x1000 := cmd_zero\<lparr>cmd_flags := flgs\<rparr>), hc_caps := 0xC1, cmd_pool := [0x3000],
     cmd_fresh := [0x4000], intr_sched := ks\<rparr>"

lemma cmd_hc_fields [simp]: "blocks (cmd_hc ks f) = {#0x3000, 0x4000#}" "pool_ok (cmd_hc ks f)" "in_use 0x1000 (cmd_hc ks f)"
  "cmd_flags (cmd_mem (cmd_hc ks f) 0x1000) = f" "cmd_status (cmd_mem (cmd_hc ks f) 0x1000) = 0" "hc_caps (cmd_hc ks f) = 0xC1"
  by (simp_all add: cmd_hc_def in_use_def pool_ok_def blocks_def cmd_zero_def)

lemma some_snd: "map_option snd x = Some y \<Longrightarrow> \<exists>t. x = Some (t, y)"
  by (cases x) auto

lemma some_pair: "map_option (\<lambda>(s, st). (st, f s)) x = Some (y, z) \<Longrightarrow> \<exists>t. x = Some (t, y) \<and> f t = z"
  by (cases x) auto

theorem issue_cmd_finishes_witness:
  "\<exists>t. sdio_issue_cmd (sdhci_entry 0 (demo_env regs_timeout)) (demo_env regs_timeout) 0x1000 (cmd_hc [1] 0) = Some (t, EOK) \<and>
     wspc_cmd (hc_wspc t) = 0 \<and> cmd_status (cmd_mem t 0x1000) \<noteq> 0"
proof -
  have "map_option snd (sdio_issue_cmd (sdhci_entry 0 (demo_env regs_timeout)) (demo_env regs_timeout) 0x1000 (cmd_hc [1] 0)) = Some EOK"
    by code_simp
  from some_snd [OF this]
  obtain t where t: "sdio_issue_cmd (sdhci_entry 0 (demo_env regs_timeout)) (demo_env regs_timeout) 0x1000 (cmd_hc [1] 0) = Some (t, EOK)" ..
  from issue_cmd_finishes [OF t] have "wspc_cmd (hc_wspc t) = 0 \<and> cmd_status (cmd_mem t 0x1000) \<noteq> 0" by simp
  with t show ?thesis by blast
qed

theorem send_cmd_caps_witness:
  "\<exists>t. sdio_send_cmd 1 (sdhci_entry 0 (demo_env regs_gone)) (demo_env regs_gone) 0x1000 1000 3 (cmd_hc [1] SCF_SBC_RLW) =
      Some (t, ENXIO) \<and> hc_caps t = 1 \<and> hc_caps (cmd_hc [1] SCF_SBC_RLW) = 0xC1 \<and> blocks t = {#0x3000, 0x4000#}"
proof -
  let ?r = "sdio_send_cmd 1 (sdhci_entry 0 (demo_env regs_gone)) (demo_env regs_gone) 0x1000 1000 3 (cmd_hc [1] SCF_SBC_RLW)"
  have "map_option (\<lambda>(s, st). (st, hc_caps s)) ?r = Some (ENXIO, 1)" by code_simp
  from some_pair [OF this] obtain t where t: "?r = Some (t, ENXIO)" "hc_caps t = 1" by blast
  from send_cmd_caps [OF cmd_hc_fields(3) t(1)] have "blocks t = {#0x3000, 0x4000#}" unfolding cmd_hc_fields ..
  with t show ?thesis unfolding cmd_hc_fields by blast
qed

definition ready_send :: sender where
  "ready_send = sdio_send_cmd 0 (sdhci_entry 0 (demo_env regs_ready)) (demo_env regs_ready)"

theorem services_return_blocks_witness:
  "\<exists>t. (service ready_send)\<^sup>*\<^sup>* (cmd_hc [1] 0) t \<and> dev_block_length t = 512 \<and> pool_ok t \<and> blocks t = {#0x3000, 0x4000#}"
proof -
  have "map_option (\<lambda>(s, st). (st, dev_block_length s)) (sdio_set_block_length ready_send 512 (cmd_hc [1] 0)) = Some (EOK, 512)"
    by code_simp
  from some_pair [OF this]
  obtain t where t: "sdio_set_block_length ready_send 512 (cmd_hc [1] 0) = Some (t, EOK)" "dev_block_length t = 512" by blast
  have r: "(service ready_send)\<^sup>*\<^sup>* (cmd_hc [1] 0) t" using service.blklen [OF t(1)] by (rule r_into_rtranclp)
  from services_return_blocks [OF this [unfolded ready_send_def] cmd_hc_fields(2)]
  show ?thesis unfolding cmd_hc_fields using r t(2) by blast
qed

theorem send_cmd_one_deep_witness:
  "\<exists>t. sdio_send_cmd 5 (sdhci_entry 0 (demo_env regs_ready)) (demo_env regs_ready) 0x1000 1000 3 (cmd_hc [1] 0) = Some (t, EOK)"
proof -
  have "map_option snd (sdio_send_cmd 1 (sdhci_entry 0 (demo_env regs_ready)) (demo_env regs_ready) 0x1000 1000 3 (cmd_hc [1] 0)) = Some EOK"
    by code_simp
  from some_snd [OF this] show ?thesis
    using send_cmd_one_deep [OF cmd_hc_fields(3), of 4 0 "demo_env regs_ready" 1000 3 "[1]" 0] by simp
qed

theorem wait_card_status_ready_witness:
  "\<exists>t rsp. sdio_wait_card_status ready_send 0x1F00 0x900 5 (cmd_hc [1] 0) = Some (t, EOK, rsp) \<and> rsp ! 0 AND 0x1F00 = 0x900 \<and>
     blocks t = {#0x3000, 0x4000#}"
proof -
  have "map_option (fst \<circ> snd) (sdio_wait_card_status ready_send 0x1F00 0x900 5 (cmd_hc [1] 0)) = Some EOK" by code_simp
  then obtain t rsp where r: "sdio_wait_card_status ready_send 0x1F00 0x900 5 (cmd_hc [1] 0) = Some (t, EOK, rsp)"
    unfolding map_option_eq_Some by (metis comp_apply prod.collapse)
  from wait_card_status_ready [OF this [unfolded ready_send_def] cmd_hc_fields(2)]
  show ?thesis unfolding cmd_hc_fields using r by blast
qed

end
