(* ===== verification/Sd.thy ===== *)
theory Sd
  imports Sdio_Cmd "HOL-Library.Monad_Syntax"
begin

text \<open>
  SD cards, \<open>sdiodi/sd.c\<close>: the commands with data, identification, bus set-up and the reaction to bus
  errors; from \<open>sdiodi/base.c\<close> what they call: errata, time to erase, lock and unlock.

  \<^item> A function returns the state and its result; \<open>None\<close> means that a bound was reached, in a transfer by
    the processor or in the loop of \<open>sd_init_device\<close> that asks for the operating conditions.
  \<^item> \<open>send\<close> is \<open>_sdio_send_cmd\<close>, \<open>ent\<close> the controller's entry table.
  \<^item> \<open>sd_os\<close> holds what is outside the driver: the allocator for buffers, the place of a scatter entry on
    the stack, and what the processor reads from a buffer. The controller may have written to the buffer, so
    the latter is a function of everything that happened.
\<close>

section \<open>Buffers\<close>

record sd_os =
  os_alloc :: "sdio_io list \<Rightarrow> u32 \<Rightarrow> u64"
  os_sge :: u64
  os_read :: "sdio_io list \<Rightarrow> (u64 \<Rightarrow> u8) \<Rightarrow> u64 \<Rightarrow> u8"

fun put_bytes :: "u64 \<Rightarrow> u8 list \<Rightarrow> (u64 \<Rightarrow> u8) \<Rightarrow> (u64 \<Rightarrow> u8)" where
  "put_bytes a [] m = m"
| "put_bytes a (b # bs) m = put_bytes (a + 1) bs (m(a := b))"

definition get_bytes :: "sd_os \<Rightarrow> u64 \<Rightarrow> nat \<Rightarrow> sdio_hc \<Rightarrow> u8 list" where
  "get_bytes os a n s = map (\<lambda>i. os_read os (hlog s) (data_mem s) (a + of_nat i)) [0 ..< n]"

definition le32 :: "u8 list \<Rightarrow> u32" where
  "le32 bs = ucast (bs ! 0) OR push_bit 8 (ucast (bs ! 1)) OR push_bit 16 (ucast (bs ! 2)) OR push_bit 24 (ucast (bs ! 3))"

definition le_words :: "nat \<Rightarrow> u8 list \<Rightarrow> u32 list" where
  "le_words n bs = map (\<lambda>i. le32 (take 4 (drop (4 * i) bs))) [0 ..< n]"

definition upd_dev :: "(sdio_dev \<Rightarrow> sdio_dev) \<Rightarrow> sdio_hc \<Rightarrow> sdio_hc" where
  "upd_dev f s = s\<lparr>hc_device := f (hc_device s)\<rparr>"

text \<open>\<open>if( status != EOK ) return( status );\<close>\<close>

definition ok_then :: "(sdio_hc \<times> errno) option \<Rightarrow> (sdio_hc \<Rightarrow> (sdio_hc \<times> errno) option) \<Rightarrow> (sdio_hc \<times> errno) option" where
  "ok_then r f = do { (s, st) \<leftarrow> r; if st \<noteq> EOK then Some (s, st) else f s }"

text \<open>The frame of a command with a buffer of its own: \<open>out\<close> is stored in the buffer first; the result has
  the bytes of the buffer when the command succeeded.\<close>

definition set_sge :: "u64 \<Rightarrow> u64 \<Rightarrow> u32 \<Rightarrow> sdio_hc \<Rightarrow> sdio_hc" where
  "set_sge sge a n s = s\<lparr>sge_mem := (sge_mem s)(sge := \<lparr>sg_address = a, sg_count = n\<rparr>)\<rparr>"

definition data_call :: "sender \<Rightarrow> sd_os \<Rightarrow> u32 \<Rightarrow> u32 \<Rightarrow> u32 \<Rightarrow> u32 \<Rightarrow> u32 \<Rightarrow> u8 list \<Rightarrow> sdio_hc \<Rightarrow>
    (sdio_hc \<times> errno \<times> u8 list) option" where
  "data_call send os flgs opc arg dir len out s =
    (let (s, p) = sdio_alloc_cmd s in
     if p = 0 then Some (s, ENOMEM, [])
     else
       (let buf = os_alloc os (hlog s) len in
        if buf = 0 then Some (sdio_free_cmd p s, ENOMEM, [])
        else
          (let s = s\<lparr>data_mem := put_bytes buf out (data_mem s)\<rparr>;
               s = set_sge (os_sge os) buf len (sdio_setup_cmd p flgs opc arg s);
               s = sdio_setup_cmd_io p dir 1 len (os_sge os) 1 0 s
           in do {
             (s, status) \<leftarrow> send p SDIO_TIME_DEFAULT 0 s;
             Some (sdio_free_cmd p s, status, if status = EOK then get_bytes os buf (unat len) s else [])
           })))"

section \<open>Commands of a card\<close>

abbreviation (input) SCF_RSP_R3 :: u32 where "SCF_RSP_R3 \<equiv> 0x10"
abbreviation (input) SCF_RSP_R6 :: u32 where "SCF_RSP_R6 \<equiv> 0x150"
abbreviation (input) SCF_RSP_R7 :: u32 where "SCF_RSP_R7 \<equiv> 0x150"
abbreviation (input) DEV_FLAG_HS :: u32 where "DEV_FLAG_HS \<equiv> 0x80"
abbreviation (input) DEV_FLAG_SIG_ERR :: u32 where "DEV_FLAG_SIG_ERR \<equiv> 0x2000"
abbreviation (input) DEV_FLAG_WCE :: u32 where "DEV_FLAG_WCE \<equiv> 0x8000"
abbreviation (input) DEV_CAP_UHS :: u64 where "DEV_CAP_UHS \<equiv> 0x10"
abbreviation (input) DEV_CAP_ASSD :: u64 where "DEV_CAP_ASSD \<equiv> 0x800"
abbreviation (input) HC_CAP_BW4 :: u64 where "HC_CAP_BW4 \<equiv> 0x10"
abbreviation (input) HC_CAP_SDR25 :: u64 where "HC_CAP_SDR25 \<equiv> 0x800"
abbreviation (input) HC_CAP_SDR50 :: u64 where "HC_CAP_SDR50 \<equiv> 0x1000"
abbreviation (input) HC_CAP_SDR104 :: u64 where "HC_CAP_SDR104 \<equiv> 0x2000"
abbreviation (input) HC_CAP_UHS_MSK :: u64 where "HC_CAP_UHS_MSK \<equiv> 0x7C00"
abbreviation (input) OCR_S18R :: u32 where "OCR_S18R \<equiv> 0x1000000"
abbreviation (input) OCR_XPC :: u32 where "OCR_XPC \<equiv> 0x10000000"
abbreviation (input) OCR_HCS :: u32 where "OCR_HCS \<equiv> 0x40000000"
abbreviation (input) OCR_PWRUP_CMP :: u32 where "OCR_PWRUP_CMP \<equiv> 0x80000000"
abbreviation (input) CCC_APP_SPEC :: u16 where "CCC_APP_SPEC \<equiv> 0x100"
abbreviation (input) CCC_SWITCH :: u16 where "CCC_SWITCH \<equiv> 0x400"

text \<open>Argument of an access to an extension register.\<close>

definition extr_arg :: "u32 \<Rightarrow> u32 \<Rightarrow> u32 \<Rightarrow> u32 \<Rightarrow> u32 \<Rightarrow> u32" where
  "extr_arg mio fno mw addr len_msk =
    (mio AND 0x80000000) OR push_bit 27 (fno AND 0xf) OR (mw AND 0x4000000) OR push_bit 9 (addr AND 0x1ffff) OR
    (if mw \<noteq> 0 then len_msk AND 0xff else (len_msk - 1) AND 0x1ff)"

definition sd_rw_extr :: "sender \<Rightarrow> sd_os \<Rightarrow> u32 \<Rightarrow> u32 \<Rightarrow> u32 \<Rightarrow> u32 \<Rightarrow> u32 \<Rightarrow> u32 \<Rightarrow> u8 list \<Rightarrow> sdio_hc \<Rightarrow>
    (sdio_hc \<times> errno \<times> u8 list) option" where
  "sd_rw_extr send os dir mio fno mw addr len_msk extr s =
    (let n = (if mw \<noteq> 0 then 1 else unat len_msk);
         out = (if dir AND SCF_DIR_OUT \<noteq> 0 then take n extr @ replicate (512 - n) 0 else replicate 512 0)
     in do {
       (s, status, bytes) \<leftarrow> data_call send os (SCF_CTYPE_ADTC OR SCF_RSP_R1)
         (if dir AND SCF_DIR_OUT \<noteq> 0 then 49 else 48) (extr_arg mio fno mw addr len_msk) dir 512 out s;
       Some (s, status, if status = EOK \<and> dir AND SCF_DIR_IN \<noteq> 0 then take n bytes else extr)
     })"

definition sd_extr_wr :: "sender \<Rightarrow> sd_os \<Rightarrow> u32 \<Rightarrow> u32 \<Rightarrow> u8 \<Rightarrow> sdio_hc \<Rightarrow> (sdio_hc \<times> errno) option" where
  "sd_extr_wr send os rsa reg wval s =
    do { (s, st, _) \<leftarrow> sd_rw_extr send os SCF_DIR_OUT 0 (drop_bit 18 rsa AND 0xf) 0 ((rsa AND 0x1ffff) + reg) 1 [wval] s;
         Some (s, st) }"

text \<open>\<open>v\<close> is the byte of the caller, which stays as it is unless the read succeeds.\<close>

definition sd_extr_rd :: "sender \<Rightarrow> sd_os \<Rightarrow> u32 \<Rightarrow> u32 \<Rightarrow> u8 \<Rightarrow> sdio_hc \<Rightarrow> (sdio_hc \<times> errno \<times> u8) option" where
  "sd_extr_rd send os rsa reg v s =
    do { (s, st, bs) \<leftarrow> sd_rw_extr send os SCF_DIR_IN 0 (drop_bit 18 rsa AND 0xf) 0 ((rsa AND 0x1ffff) + reg) 1 [v] s;
         Some (s, st, hd bs) }"

text \<open>The address goes to \<open>dev->rca\<close>, where the caller's pointer leads.\<close>

fun rca_loop :: "sender \<Rightarrow> u64 \<Rightarrow> nat \<Rightarrow> sdio_hc \<Rightarrow> (sdio_hc \<times> errno) option" where
  "rca_loop send p n s =
    do {
      (s, status) \<leftarrow> send p SDIO_TIME_DEFAULT SDIO_CMD_RETRIES (sdio_setup_cmd p (SCF_CTYPE_BCR OR SCF_RSP_R6) 3 0 s);
      if status \<noteq> EOK then Some (s, status)
      else
        (let s = s\<lparr>dev_rca := drop_bit 16 (cmd_rsp (cmd_mem s p) ! 0)\<rparr> in
         if dev_rca s \<noteq> 0 then Some (s, EOK)
         else case n of 0 \<Rightarrow> Some (s, EOK) | Suc n \<Rightarrow> rca_loop send p n s)
    }"

declare rca_loop.simps [simp del]

definition sdio_send_relative_addr :: "sender \<Rightarrow> sdio_hc \<Rightarrow> (sdio_hc \<times> errno) option" where
  "sdio_send_relative_addr send s =
    (let (s, p) = sdio_alloc_cmd s in
     if p = 0 then Some (s, ENOMEM)
     else do {
       (s, status) \<leftarrow> rca_loop send p 255 (s\<lparr>dev_rca := 0\<rparr>);
       Some (sdio_free_cmd p s, if dev_rca s = 0 then EIO else status)
     })"

text \<open>Polling a register of the card for up to a second: the pause is left out after a failed read unless \<open>always\<close>.\<close>

fun extr_poll :: "sender \<Rightarrow> sd_os \<Rightarrow> u32 \<Rightarrow> u32 \<Rightarrow> (u8 \<Rightarrow> bool) \<Rightarrow> bool \<Rightarrow> nat \<Rightarrow> u8 \<Rightarrow> sdio_hc \<Rightarrow> (sdio_hc \<times> errno) option" where
  "extr_poll send os rsa reg ready always 0 v s = Some (s, ETIMEDOUT)"
| "extr_poll send os rsa reg ready always (Suc n) v s =
    do {
      (s, status, v) \<leftarrow> sd_extr_rd send os rsa reg v s;
      if status = EOK \<and> ready v then Some (s, EOK)
      else extr_poll send os rsa reg ready always n v (if always \<or> status = EOK then pause 1000 s else s)
    }"

definition sd_pwroff_notify :: "sender \<Rightarrow> sd_os \<Rightarrow> int \<Rightarrow> sdio_hc \<Rightarrow> (sdio_hc \<times> errno) option" where
  "sd_pwroff_notify send os op s =
    (if op < 2 then Some (s, EOK)
     else ok_then (sd_extr_wr send os (dev_pwr_mgnt_fcn_rsa (hc_device s)) 2 1 s)
       (\<lambda>s. extr_poll send os (dev_pwr_mgnt_fcn_rsa (hc_device s)) 1 (\<lambda>v. v AND 1 \<noteq> 0) True 1000 0 s))"

definition sd_cache :: "sender \<Rightarrow> sd_os \<Rightarrow> int \<Rightarrow> sdio_hc \<Rightarrow> (sdio_hc \<times> errno) option" where
  "sd_cache send os op s =
    (let rsa = dev_perf_enh_fcn_rsa (hc_device s) in
     if op = 0 then
       ok_then (sd_extr_wr send os rsa 260 0 s)
         (\<lambda>s. Some (upd_dev (\<lambda>d. d\<lparr>dev_flags := dev_flags d AND NOT DEV_FLAG_WCE\<rparr>) s, EOK))
     else if op = 1 then
       ok_then (sd_extr_wr send os rsa 260 1 s)
         (\<lambda>s. Some (upd_dev (\<lambda>d. d\<lparr>dev_flags := dev_flags d OR DEV_FLAG_WCE\<rparr>) s, EOK))
     else if op = 2 then
       (if dev_flags (hc_device s) AND DEV_FLAG_WCE \<noteq> 0
        then ok_then (sd_extr_wr send os rsa 261 1 s)
               (\<lambda>s. extr_poll send os rsa 261 (\<lambda>v. v AND 1 = 0) False 1000 0 s)
        else Some (s, EOK))
     else Some (s, EINVAL))"

definition sd_voltage_switch :: "sender \<Rightarrow> sdio_hc \<Rightarrow> (sdio_hc \<times> errno) option" where
  "sd_voltage_switch send s = drop_cmd (cmd_call send (SCF_CTYPE_AC OR SCF_RSP_R1) 11 0 0 s)"

text \<open>Argument of the switch command: function \<open>val\<close> in group \<open>grp\<close>, no change (\<open>0xf\<close>) in the others.\<close>

definition switch_arg :: "u32 \<Rightarrow> nat \<Rightarrow> u8 \<Rightarrow> u32" where
  "switch_arg mode grp val =
    (((push_bit 31 mode OR 0x00ffffff) AND NOT (push_bit (grp * 4) 0xf)) OR push_bit (grp * 4) (ucast val))"

text \<open>With the 64 bytes of status; \<open>ss\<close> is the caller's array.\<close>

definition sd_switch :: "sender \<Rightarrow> sd_os \<Rightarrow> u32 \<Rightarrow> nat \<Rightarrow> u8 \<Rightarrow> u8 list \<Rightarrow> sdio_hc \<Rightarrow> (sdio_hc \<times> errno \<times> u8 list) option" where
  "sd_switch send os mode grp val ss s =
    do {
      (s, status, bytes) \<leftarrow> data_call send os (SCF_CTYPE_ADTC OR SCF_RSP_R1) 6 (switch_arg mode grp val) SCF_DIR_IN 64 [] s;
      if status \<noteq> EOK then Some (s, status, ss)
      else
        (let sw = (ucast (bytes ! (29 - grp * 2)) OR push_bit 8 (ucast (bytes ! (28 - grp * 2)))) :: u32
         in Some (s, if mode = 1 \<and> sw AND push_bit (unat val) 1 \<noteq> 0 then EBUSY else EOK, bytes))
    }"

definition sd_app_send_scr :: "sender \<Rightarrow> sd_os \<Rightarrow> sdio_hc \<Rightarrow> (sdio_hc \<times> errno \<times> u32 list) option" where
  "sd_app_send_scr send os s =
    do { (s, st, bs) \<leftarrow> data_call send os (SCF_CTYPE_ADTC OR SCF_RSP_R1 OR SCF_APP_CMD) 51 0 SCF_DIR_IN 8 [] s;
         Some (s, st, if st = EOK then le_words 2 bs else []) }"

definition sd_app_sd_status :: "sender \<Rightarrow> sd_os \<Rightarrow> sdio_hc \<Rightarrow> (sdio_hc \<times> errno \<times> u32 list) option" where
  "sd_app_sd_status send os s =
    do { (s, st, bs) \<leftarrow> data_call send os (SCF_CTYPE_ADTC OR SCF_RSP_R1 OR SCF_APP_CMD) 13 0 SCF_DIR_IN 64 [] s;
         Some (s, st, if st = EOK then le_words 16 bs else []) }"

section \<open>Erasing\<close>

definition blk_addr :: "sdio_hc \<Rightarrow> u64 \<Rightarrow> u64" where
  "blk_addr s lba =
    (if dev_caps (hc_device s) AND DEV_CAP_HC \<noteq> 0 then lba else lba * ucast (csd_blksz (dev_csd (hc_device s))))"

text \<open>The three commands that select a range and erase it; \<open>more\<close> is what follows in the loop.\<close>

definition erase_range :: "sender \<Rightarrow> u64 \<Rightarrow> u32 \<Rightarrow> u32 \<Rightarrow> u32 \<Rightarrow> u32 \<Rightarrow> u64 \<Rightarrow> u32 \<Rightarrow> sdio_hc \<Rightarrow> (sdio_hc \<times> errno) option" where
  "erase_range send p start_op end_op flgs tmo lba nlba s =
    ok_then (send p SDIO_TIME_DEFAULT 0 (sdio_setup_cmd p (SCF_CTYPE_AC OR SCF_RSP_R1) start_op (ucast (blk_addr s lba)) s))
      (\<lambda>s. ok_then (send p SDIO_TIME_DEFAULT 0
                     (sdio_setup_cmd p (SCF_CTYPE_AC OR SCF_RSP_R1) end_op (ucast (blk_addr s (lba + ucast nlba - 1))) s))
        (\<lambda>s. send p tmo 0 (sdio_setup_cmd p (SCF_CTYPE_AC OR SCF_RSP_R1B OR SCF_WAIT_DRDY) 38 flgs s)))"

text \<open>The loop subtracts all that is left from \<open>nlba\<close>, so it is run once or not at all.\<close>

definition sd_erase :: "sender \<Rightarrow> u32 \<Rightarrow> u64 \<Rightarrow> u32 \<Rightarrow> sdio_hc \<Rightarrow> (sdio_hc \<times> errno) option" where
  "sd_erase send flgs lba nlba s =
    (let (s, p) = sdio_alloc_cmd s in
     if p = 0 then Some (s, ENOMEM)
     else do {
       (s, status) \<leftarrow> (if nlba = 0 then Some (s, EOK)
         else erase_range send p 32 33 flgs (ucast (sd_erase_timeout (hc_device s) flgs nlba)) lba nlba s);
       Some (sdio_free_cmd p s, status)
     })"

section \<open>Operating conditions\<close>

definition sd_send_if_cond :: "sender \<Rightarrow> u32 \<Rightarrow> sdio_hc \<Rightarrow> (sdio_hc \<times> errno) option" where
  "sd_send_if_cond send vhs s =
    (let (s, p) = sdio_alloc_cmd s in
     if p = 0 then Some (s, ENOMEM)
     else do {
       (s, status) \<leftarrow> send p SDIO_TIME_DEFAULT 0
         (sdio_setup_cmd p (SCF_CTYPE_BCR OR SCF_RSP_R7) 8 (push_bit 8 vhs OR 0xaa) s);
       Some (sdio_free_cmd p s,
         if status = EOK then (if cmd_rsp (cmd_mem s p) ! 0 AND 0xff \<noteq> 0xaa then EIO else EOK)
         else if cmd_status (cmd_mem s p) = CS_CMD_TO_ERR then ETIMEDOUT else EIO)
     })"

text \<open>The loop asks until the card is ready; with \<open>ocr = 0\<close> the card is only asked once.\<close>

fun op_cond_loop :: "sender \<Rightarrow> u64 \<Rightarrow> nat \<Rightarrow> u32 \<Rightarrow> nat \<Rightarrow> sdio_hc \<Rightarrow> (sdio_hc \<times> errno) option" where
  "op_cond_loop send p retries ocr 0 s = Some (s, ETIMEDOUT)"
| "op_cond_loop send p retries ocr (Suc n) s =
    do {
      (s, status) \<leftarrow> send p SDIO_TIME_DEFAULT retries s;
      if status \<noteq> EOK \<or> ocr = 0 \<or> cmd_rsp (cmd_mem s p) ! 0 AND OCR_PWRUP_CMP \<noteq> 0 then Some (s, status)
      else op_cond_loop send p retries ocr n (pause 10000 s)
    }"

definition op_cond :: "sender \<Rightarrow> u32 \<Rightarrow> u32 \<Rightarrow> nat \<Rightarrow> nat \<Rightarrow> u32 \<Rightarrow> sdio_hc \<Rightarrow> (sdio_hc \<times> errno \<times> u32) option" where
  "op_cond send flgs opc retries n ocr s =
    (let (s, p) = sdio_alloc_cmd s in
     if p = 0 then Some (s, ENOMEM, 0)
     else do {
       (s, status) \<leftarrow> op_cond_loop send p retries ocr n (sdio_setup_cmd p flgs opc ocr s);
       Some (sdio_free_cmd p s, status, cmd_rsp (cmd_mem s p) ! 0)
     })"

definition sd_app_send_op_cond :: "sender \<Rightarrow> u32 \<Rightarrow> sdio_hc \<Rightarrow> (sdio_hc \<times> errno \<times> u32) option" where
  "sd_app_send_op_cond send ocr s =
    op_cond send (SCF_CTYPE_BCR OR SCF_RSP_R3 OR SCF_APP_CMD) 41 SDIO_CMD_RETRIES 500 ocr s"

section \<open>What the card can do\<close>

definition upd_swcaps :: "(sd_switch_cap \<Rightarrow> sd_switch_cap) \<Rightarrow> sdio_dev \<Rightarrow> sdio_dev" where
  "upd_swcaps f d = d\<lparr>dev_swcaps := f (dev_swcaps d)\<rparr>"

definition or_caps :: "u64 \<Rightarrow> sdio_dev \<Rightarrow> sdio_dev" where
  "or_caps c d = d\<lparr>dev_caps := dev_caps d OR c\<rparr>"

text \<open>The switch status \<open>ss\<close>: bus speeds in byte 13, command systems in 11, drivers in 9, currents in 7.\<close>

definition switch_caps :: "u64 \<Rightarrow> u8 list \<Rightarrow> sdio_dev \<Rightarrow> sdio_dev" where
  "switch_caps caps ss d =
    (let d = (if ss ! 13 AND 2 \<noteq> 0
              then (let d = upd_swcaps (\<lambda>w. w\<lparr>swc_dtr_max_hs := 50000000\<rparr>) d
                    in if caps AND HC_CAP_HS \<noteq> 0 then or_caps DEV_CAP_HS d else d)
              else d);
         d = (if scr_sd_spec3 (dev_scr d) \<noteq> 0
              then (let d = upd_swcaps (\<lambda>w. w\<lparr>swc_bus_mode := ucast (ss ! 13) AND 0x1f, swc_drv_type := ucast (ss ! 9) AND 0xf,
                              swc_curr_limit := ucast (ss ! 7) AND 0xf\<rparr>) d
                    in if swc_bus_mode (dev_swcaps d) AND 0x1c \<noteq> 0 then or_caps DEV_CAP_UHS d else d)
              else d);
         d = upd_swcaps (\<lambda>w. w\<lparr>swc_cmd_sys := ucast (ss ! 11)\<rparr>) d
     in if ss ! 11 AND 2 \<noteq> 0 \<or> ss ! 11 AND 0x10 \<noteq> 0 then or_caps DEV_CAP_ASSD d else d)"

definition sd_read_switch :: "sender \<Rightarrow> sd_os \<Rightarrow> sdio_hc \<Rightarrow> (sdio_hc \<times> errno) option" where
  "sd_read_switch send os s =
    (if csd_ccc (dev_csd (hc_device s)) AND CCC_SWITCH = 0 then Some (s, EOK)
     else do {
       (s, status, ss) \<leftarrow> sd_switch send os 0 0 0xf [] s;
       if status \<noteq> EOK then Some (s, status) else Some (upd_dev (switch_caps (hc_caps s) ss) s, EOK)
     })"

definition status_sds :: "u32 list \<Rightarrow> sd_sds \<Rightarrow> sd_sds" where
  "status_sds sds d =
    (let au = sdio_extract_bits sds 512 428 4;
         e_size = sdio_extract_bits sds 512 408 16;
         e_offset = sdio_extract_bits sds 512 400 2;
         e_timeout = sdio_extract_bits sds 512 402 6;
         d = (if au \<noteq> 0
              then (let d = d\<lparr>sds_au_size := push_bit (unat au + 4) 1\<rparr>
                    in if e_size \<noteq> 0 \<and> e_timeout \<noteq> 0
                       then d\<lparr>sds_erase_offset := e_offset * 1000, sds_erase_timeout := e_timeout * 1000 div e_size\<rparr> else d)
              else d)
     in d\<lparr>sds_perf_class := sdio_extract_bits sds 512 336 4, sds_perf_enh := sdio_extract_bits sds 512 328 8,
          sds_speed_class := sdio_extract_bits sds 512 440 8, sds_uhs_speed_grade := sdio_extract_bits sds 512 396 4\<rparr>)"

definition sd_read_status :: "sender \<Rightarrow> sd_os \<Rightarrow> sdio_hc \<Rightarrow> (sdio_hc \<times> errno) option" where
  "sd_read_status send os s =
    (if csd_ccc (dev_csd (hc_device s)) AND CCC_APP_SPEC = 0 then Some (s, EOK)
     else do {
       (s, status, sds) \<leftarrow> sd_app_sd_status send os s;
       if status \<noteq> EOK then Some (s, status)
       else Some (upd_dev (\<lambda>d. d\<lparr>dev_sds := status_sds (map ENDIAN_BE32 sds) (dev_sds d)\<rparr>) s, EOK)
     })"

text \<open>\<open>SDIO_APP_SPEC_FCN_EXT\<close> is not defined.\<close>

definition sd_capabilities :: "sender \<Rightarrow> sd_os \<Rightarrow> sdio_hc \<Rightarrow> (sdio_hc \<times> errno) option" where
  "sd_capabilities send os s =
    do {
      (s, status, scr) \<leftarrow> sd_app_send_scr send os s;
      if status \<noteq> EOK then Some (s, status)
      else
        (let (d, sc, raw, st) = sd_parse_scr (hc_device s) scr;
             s = s\<lparr>hc_device := d\<lparr>dev_scr := sc, dev_raw_scr := raw\<rparr>\<rparr>
         in ok_then (Some (s, st)) (\<lambda>s.
            ok_then (sd_read_status send os s) (\<lambda>s.
            ok_then (sd_read_switch send os s) (\<lambda>s.
              Some (upd_dev (\<lambda>d. d\<lparr>dev_erase_size := ucast (sd_erase_grp_size d)\<rparr>) s, EOK)))))
    }"

section \<open>Bus width, speed and current\<close>

definition zeros64 :: "u8 list" where "zeros64 = replicate 64 0"

definition sd_switch_hs :: "sender \<Rightarrow> sd_os \<Rightarrow> sdio_hc \<Rightarrow> (sdio_hc \<times> errno) option" where
  "sd_switch_hs send os s =
    do { (s, status, ss) \<leftarrow> sd_switch send os 1 0 1 zeros64 s;
         Some (s, if status = EOK \<and> ss ! 16 AND 0xf \<noteq> 1 then EIO else status) }"

definition sd_app_set_bus_width :: "sender \<Rightarrow> u32 \<Rightarrow> sdio_hc \<Rightarrow> (sdio_hc \<times> errno) option" where
  "sd_app_set_bus_width send wid s =
    drop_cmd (cmd_call send (SCF_CTYPE_AC OR SCF_APP_CMD OR SCF_RSP_R1) 6 wid SDIO_CMD_RETRIES s)"

definition sd_set_bus_width :: "sender \<Rightarrow> sdio_entry \<Rightarrow> u32 \<Rightarrow> sdio_hc \<Rightarrow> (sdio_hc \<times> errno) option" where
  "sd_set_bus_width send ent wid s =
    (let bw = (if wid = 1 then Some 0
               else if wid = 4 \<and> hc_caps s AND HC_CAP_BW4 \<noteq> 0 \<and> scr_sd_bus_widths (dev_scr (hc_device s)) AND 4 \<noteq> 0
                 then Some 2 else None)
     in case bw of
          None \<Rightarrow> Some (s, EINVAL)
        | Some w \<Rightarrow> ok_then (sd_app_set_bus_width send w s) (\<lambda>s. Some (fst (sdio_bus_width ent 4 s), EOK)))"

abbreviation (input) sd_timings :: "u32 list" where "sd_timings \<equiv> [4, 5, 6, 7, 3]"
abbreviation (input) sd_dtrs :: "u32 list" where "sd_dtrs \<equiv> [25000000, 50000000, 100000000, 208000000, 50000000]"

definition sd_set_drv_type :: "sender \<Rightarrow> sd_os \<Rightarrow> sdio_entry \<Rightarrow> u32 \<Rightarrow> u32 \<Rightarrow> sdio_hc \<Rightarrow> (sdio_hc \<times> errno) option" where
  "sd_set_drv_type send os ent bus_spd drv_type s =
    (case e_driver_strength ent of
       None \<Rightarrow> Some (s, EOK)
     | Some driver_strength \<Rightarrow>
         (if drop_bit 24 (hc_caps s) AND 0xf = 0 then Some (s, EOK)
          else
            (let idx = (if bus_spd \<noteq> 0 then fls bus_spd - 1 else 0) in
             if idx \<ge> 5 then Some (s, EINVAL)
             else
               (let (s, drv_type) = driver_strength (sd_timings ! idx) (drv_type OR 1) s;
                    strength = of_nat (fls drv_type) - 1 :: u32
                in do {
                  (s, status, ss) \<leftarrow> sd_switch send os 1 2 (ucast strength) zeros64 s;
                  if status \<noteq> EOK then Some (s, status)
                  else if ucast (ss ! 15) AND 0xf = strength then Some (fst (sdio_drv_type ent drv_type s), EOK)
                  else Some (s, EIO)
                }))))"

definition sd_set_bus_speed_mode :: "sender \<Rightarrow> sd_os \<Rightarrow> sdio_entry \<Rightarrow> u32 \<Rightarrow> sdio_hc \<Rightarrow> (sdio_hc \<times> errno) option" where
  "sd_set_bus_speed_mode send os ent bus_spd s =
    (if bus_spd = 0 then Some (s, EOK)
     else
       (let idx = fls bus_spd - 1 in
        if idx \<ge> 5 then Some (s, EINVAL)
        else do {
          (s, status, ss) \<leftarrow> sd_switch send os 1 0 (of_nat idx) zeros64 s;
          if status \<noteq> EOK then Some (s, status)
          else if ss ! 16 AND 0xf = of_nat idx
          then Some (fst (sdio_clock ent (sd_dtrs ! idx) (fst (sdio_timing ent (sd_timings ! idx) s))), EOK)
          else Some (s, EIO)
        }))"

definition sd_set_current_limit :: "sender \<Rightarrow> sd_os \<Rightarrow> u32 \<Rightarrow> u32 \<Rightarrow> sdio_hc \<Rightarrow> (sdio_hc \<times> errno) option" where
  "sd_set_current_limit send os bus_spd curr_limit s =
    (let lim = ucast (drop_bit 20 (hc_caps s) AND 0xf) AND curr_limit;
         idx = (if lim \<noteq> 0 \<and> bus_spd AND 0x1c \<noteq> 0 then fls lim - 1 else 0)
     in do {
       (s, status, ss) \<leftarrow> sd_switch send os 1 3 (of_nat idx) zeros64 s;
       Some (s, if status = EOK \<and> drop_bit 4 (ss ! 15) AND 0xf \<noteq> of_nat idx then EIO else status)
     })"

definition sd_init_assd :: "sender \<Rightarrow> sd_os \<Rightarrow> sdio_hc \<Rightarrow> (sdio_hc \<times> errno) option" where
  "sd_init_assd send os s =
    (let idx = of_nat (ffs (swc_cmd_sys (dev_swcaps (hc_device s)) AND 0x12)) - 1 :: u32
     in do {
       (s, status, ss) \<leftarrow> sd_switch send os 1 1 (ucast idx) zeros64 s;
       if status \<noteq> EOK then Some (s, status)
       else if drop_bit 4 (ucast (ss ! 16)) AND 0xf \<noteq> idx then Some (s, EIO)
       else Some (if dev_rsettle (hc_device s) \<noteq> 0 then pause (unat (dev_rsettle (hc_device s)) * 1000) s else s, EOK)
     })"

definition sd_select_bus_mode :: "u64 \<Rightarrow> u32 \<Rightarrow> u32" where
  "sd_select_bus_mode caps bus_mode =
    (if bus_mode AND 8 \<noteq> 0 \<and> caps AND HC_CAP_SDR104 \<noteq> 0 then 8
     else if bus_mode AND 0x10 \<noteq> 0 \<and> caps AND HC_CAP_DDR50 \<noteq> 0 then 0x10
     else if bus_mode AND 4 \<noteq> 0 \<and> caps AND HC_CAP_SDR50 \<noteq> 0 then 4
     else if bus_mode AND 2 \<noteq> 0 \<and> caps AND HC_CAP_SDR25 \<noteq> 0 then 2
     else 1)"

definition sd_init_uhs :: "sender \<Rightarrow> sd_os \<Rightarrow> sdio_entry \<Rightarrow> sdio_hc \<Rightarrow> (sdio_hc \<times> errno) option" where
  "sd_init_uhs send os ent s =
    ok_then (sd_set_bus_width send ent 4 s) (\<lambda>s.
      let w = dev_swcaps (hc_device s); mode = sd_select_bus_mode (hc_caps s) (swc_bus_mode w) in
      ok_then (sd_set_drv_type send os ent mode (swc_drv_type w) s) (\<lambda>s.
      ok_then (sd_set_current_limit send os mode (swc_curr_limit w) s) (\<lambda>s.
      ok_then (sd_set_bus_speed_mode send os ent mode s) (\<lambda>s.
        do { (s, _) \<leftarrow> sdio_tune ent SD_SEND_TUNING_BLOCK (fst (sdio_preset ent 1 s));
             Some (set_dev_flags DEV_FLAG_UHS s, EOK) }))))"

text \<open>A card that signals at 3.3 V: high speed when both sides have it, then four lines, timing and clock.\<close>

definition sd_init_hs :: "sender \<Rightarrow> sd_os \<Rightarrow> sdio_entry \<Rightarrow> sdio_hc \<Rightarrow> (sdio_hc \<times> errno) option" where
  "sd_init_hs send os ent s =
    (let hs = dev_caps (hc_device s) AND DEV_CAP_HS \<noteq> 0 in
     ok_then (if hs then sd_switch_hs send os s else Some (s, EOK)) (\<lambda>s.
       let timing = (if hs then 2 else 1);
           dtr = (if hs then swc_dtr_max_hs (dev_swcaps (hc_device s)) else csd_dtr_max (dev_csd (hc_device s)));
           s = (if hs then set_dev_flags DEV_FLAG_HS s else s)
       in ok_then (if hc_caps s AND HC_CAP_BW4 \<noteq> 0 \<and> scr_sd_bus_widths (dev_scr (hc_device s)) AND 4 \<noteq> 0
                   then sd_set_bus_width send ent 4 s else Some (s, EOK)) (\<lambda>s.
            sdio_set_block_length send 512 (fst (sdio_clock ent dtr (fst (sdio_timing ent timing s)))))))"

definition sd_init_bus :: "sender \<Rightarrow> sd_os \<Rightarrow> sdio_entry \<Rightarrow> sdio_hc \<Rightarrow> (sdio_hc \<times> errno) option" where
  "sd_init_bus send os ent s =
    ok_then (if hc_signal_voltage s = SIGNAL_VOLTAGE_1_8 then sd_init_uhs send os ent s else sd_init_hs send os ent s) (\<lambda>s.
      if dev_caps (hc_device s) AND DEV_CAP_ASSD \<noteq> 0 then sd_init_assd send os s else Some (s, EOK))"

section \<open>Errata\<close>

record sdio_errata =
  er_pnm :: string
  er_mid :: u32
  er_oid :: u32
  er_prv_s :: u32
  er_prv_e :: u32
  er_erev :: u32
  er_errata :: u32
  er_rsettle :: u32

abbreviation (input) DEV_ERRATA_WILDCARD :: u32 where "DEV_ERRATA_WILDCARD \<equiv> 0xffffffff"

definition errata_match :: "sdio_dev \<Rightarrow> sdio_errata \<Rightarrow> bool" where
  "errata_match dev e \<longleftrightarrow>
    take (length (er_pnm e)) (cid_pnm (dev_cid dev)) = map (\<lambda>c. of_nat (of_char c)) (er_pnm e) \<and>
    (cid_mid (dev_cid dev) = er_mid e \<or> er_mid e = DEV_ERRATA_WILDCARD) \<and>
    (cid_oid (dev_cid dev) = er_oid e \<or> er_oid e = DEV_ERRATA_WILDCARD) \<and>
    (ucast (ecsd_ext_csd_rev (dev_ecsd dev)) = er_erev e \<or> er_erev e = DEV_ERRATA_WILDCARD) \<and>
    cid_prv (dev_cid dev) \<ge> er_prv_s e \<and> cid_prv (dev_cid dev) \<le> er_prv_e e"

definition sdio_device_errata :: "sdio_dev \<Rightarrow> sdio_errata list \<Rightarrow> sdio_errata option" where
  "sdio_device_errata dev erratas = find (errata_match dev) erratas"

definition sdio_reconcile_errata :: "sdio_errata \<Rightarrow> sdio_hc \<Rightarrow> sdio_hc" where
  "sdio_reconcile_errata e s =
    (if er_errata e AND 1 \<noteq> 0 then s\<lparr>hc_caps := hc_caps s AND NOT HC_CAP_ACMD12\<rparr> else s)"

definition sd_errata :: "sdio_errata list" where
  "sd_errata = [\<lparr>er_pnm = ''SD0'', er_mid = 0x27, er_oid = DEV_ERRATA_WILDCARD, er_prv_s = 0, er_prv_e = DEV_ERRATA_WILDCARD,
     er_erev = DEV_ERRATA_WILDCARD, er_errata = 0, er_rsettle = 50\<rparr>]"

section \<open>Lock and unlock\<close>

text \<open>A group size of zero, by which the C code divides, gives zero groups here.\<close>

definition mmc_erase_timeout :: "sdio_dev \<Rightarrow> u32 \<Rightarrow> u64 \<Rightarrow> u64" where
  "mmc_erase_timeout dev etype nlba =
    (let ecsd = (\<lambda>i. ucast (dev_raw_ecsd dev ! i) :: u32);
         grp = mmc_erase_grp_size dev div 512;
         tmult = (if ecsd_erase_grp_def (dev_ecsd dev) = 0 then 300
                  else if etype = 1 \<or> etype = 3 then 300 * ecsd 232
                  else if etype = 0x80000000 then 300 * ecsd 223 * ecsd 230
                  else if etype = 0x80000001 \<or> etype = 0x80008000 then 300 * ecsd 223 * ecsd 229
                  else 300 * ecsd 223)
     in max (ucast tmult * (nlba div grp + 2)) 2000)"

abbreviation (input) DEV_TYPE_MMC :: u32 where "DEV_TYPE_MMC \<equiv> 1"
abbreviation (input) DEV_TYPE_SD :: u32 where "DEV_TYPE_SD \<equiv> 2"

definition sdio_erase_timeout :: "sdio_hc \<Rightarrow> u32 \<Rightarrow> u32 \<Rightarrow> u64" where
  "sdio_erase_timeout s etype nlba =
    max (if dev_dtype s = DEV_TYPE_MMC then mmc_erase_timeout (hc_device s) etype (ucast nlba)
         else sd_erase_timeout (hc_device s) etype nlba) 1000"

definition lock_status :: "u32 \<Rightarrow> sdio_dev \<Rightarrow> sdio_dev" where
  "lock_status rsp d =
    d\<lparr>dev_flags := (if rsp AND CDS_CARD_IS_LOCKED \<noteq> 0 then dev_flags d OR DEV_FLAG_LOCKED
                   else dev_flags d AND NOT DEV_FLAG_LOCKED)\<rparr>"

definition sdio_lock_unlock :: "sender \<Rightarrow> sd_os \<Rightarrow> u32 \<Rightarrow> u8 list \<Rightarrow> u32 \<Rightarrow> sdio_hc \<Rightarrow> (sdio_hc \<times> errno) option" where
  "sdio_lock_unlock send os op pwd pwd_len s =
    (let len = pwd_len + 2;
         len = (if len AND 1 \<noteq> 0 then len + 1 else len);
         tmo = (if op AND 8 \<noteq> 0 then ucast (sdio_erase_timeout s 0 (ucast (csd_sectors (dev_csd (hc_device s))))) else SDIO_TIME_DEFAULT);
         (s, p) = sdio_alloc_cmd s
     in if p = 0 then Some (s, ENOMEM)
        else
          (let ld = os_alloc os (hlog s) len in
           if ld = 0 then Some (sdio_free_cmd p s, ENOMEM)
           else
             (let s = s\<lparr>data_mem := put_bytes ld (ucast op # ucast pwd_len # take (unat pwd_len) pwd) (data_mem s)\<rparr>
              in do {
                (s, status) \<leftarrow> do {
                  (s, status) \<leftarrow> sdio_set_block_length send len s;
                  if status \<noteq> EOK then Some (s, status)
                  else
                    (let s = set_sge (os_sge os) ld len (sdio_setup_cmd p (SCF_CTYPE_ADTC OR SCF_RSP_R1) 42 0 s);
                         s = sdio_setup_cmd_io p SCF_DIR_OUT 1 len (os_sge os) 1 0 s
                     in do {
                       (s, status) \<leftarrow> send p tmo SDIO_CMD_RETRIES s;
                       (s, _) \<leftarrow> sdio_set_block_length send 512 s;
                       Some (s, status)
                     })
                };
                (s, status) \<leftarrow> (if status \<noteq> EOK then Some (s, status)
                  else do {
                    (s, status, rsp) \<leftarrow> sdio_send_status send False s;
                    Some (if status = EOK then upd_dev (lock_status (rsp ! 0)) s else s, status)
                  });
                Some (sdio_free_cmd p s, status)
              })))"

text \<open>The copy of the password is not limited to the array's 16 bytes.\<close>

definition sd_lock_unlock :: "sender \<Rightarrow> sd_os \<Rightarrow> sdio_entry \<Rightarrow> u32 \<Rightarrow> u8 list \<Rightarrow> u32 \<Rightarrow> sdio_hc \<Rightarrow> (sdio_hc \<times> errno) option" where
  "sd_lock_unlock send os ent action pwd pwd_len s =
    (let oflags = dev_flags (hc_device s);
         n = unat pwd_len;
         s = (if pwd_len \<noteq> 0
              then upd_dev (\<lambda>d. d\<lparr>dev_pwd := take n pwd @ drop n (dev_pwd d), dev_pwd_len := pwd_len\<rparr>) s else s)
     in do {
       (s, status) \<leftarrow> sdio_lock_unlock send os action pwd pwd_len s;
       if dev_flags (hc_device s) AND DEV_FLAG_LOCKED \<noteq> 0
       then Some (s, if action = 0 then EACCES else status)
       else if oflags AND DEV_FLAG_LOCKED \<noteq> 0
       then ok_then (sd_capabilities send os s) (sd_init_bus send os ent)
       else Some (s, status)
     })"

definition sd_unlock :: "sender \<Rightarrow> sd_os \<Rightarrow> sdio_hc \<Rightarrow> (sdio_hc \<times> errno) option" where
  "sd_unlock send os s =
    (let d = hc_device s in
     if dev_flags d AND DEV_FLAG_LOCKED \<noteq> 0 \<and> dev_pwd_len d \<noteq> 0
     then sdio_lock_unlock send os 0 (dev_pwd d) (dev_pwd_len d) s
     else Some (s, EOK))"

section \<open>Identification\<close>

text \<open>The loop around the operating conditions: \<open>n\<close> bounds its rounds. A second round is made when the card
  has accepted 1.8 V but the command to switch fails.\<close>

fun ocr_loop :: "sender \<Rightarrow> sdio_entry \<Rightarrow> nat \<Rightarrow> u32 \<Rightarrow> sdio_hc \<Rightarrow> (sdio_hc \<times> errno) option" where
  "ocr_loop send ent 0 ocr s = None"
| "ocr_loop send ent (Suc n) ocr s =
    do {
      (s, status, rocr) \<leftarrow> sd_app_send_op_cond send ocr s;
      if status \<noteq> EOK then Some (s, status)
      else if rocr AND (OCR_HCS OR OCR_S18R) = OCR_HCS OR OCR_S18R then do {
        (s, status) \<leftarrow> sd_voltage_switch send s;
        if status \<noteq> EOK then ocr_loop send ent n (ocr AND NOT OCR_S18R) s
        else
          (let (s, status) = sdio_signal_voltage ent SIGNAL_VOLTAGE_1_8 s
           in Some (if status \<noteq> EOK then set_dev_flags DEV_FLAG_SIG_ERR s else s, status))
      }
      else Some (s, EOK)
    }"

text \<open>What the driver asks for: the card's own voltage, high capacity when the card knows CMD8 (\<open>v2\<close>), 1.8 V
  signalling and more than 150 mA when the controller has them.\<close>

definition ocr_request :: "bool \<Rightarrow> bool \<Rightarrow> u32 \<Rightarrow> sdio_hc \<Rightarrow> u32" where
  "ocr_request v2 again ocr s =
    (let ocr = (if v2 then ocr OR OCR_HCS else ocr);
         ocr = (if dev_flags (hc_device s) AND DEV_FLAG_SIG_ERR = 0 \<and> hc_caps s AND HC_CAP_UHS_MSK \<noteq> 0 \<and>
                   hc_caps s AND HC_CAP_SV_1_8V \<noteq> 0 \<and> (\<not> again \<or> swc_bus_mode (dev_swcaps (hc_device s)) \<noteq> 0)
                then ocr OR OCR_S18R else ocr)
     in if drop_bit 17 (hc_caps s) AND 7 \<noteq> 0 then ocr OR OCR_XPC else ocr)"

text \<open>Registers of a new card: CID, CSD and errata.\<close>

definition sd_read_regs :: "sender \<Rightarrow> sdio_hc \<Rightarrow> (sdio_hc \<times> errno) option" where
  "sd_read_regs send s =
    (let (cid, st) = sd_parse_cid (dev_raw_cid (hc_device s));
         s = upd_dev (\<lambda>d. d\<lparr>dev_cid := cid\<rparr>) s
     in if st \<noteq> EOK then Some (s, st)
        else do {
          (s, status, csd) \<leftarrow> sdio_send_csd send s;
          if status \<noteq> EOK then Some (s, status)
          else
            (let (d, csd', st) = sd_parse_csd (hc_device s) csd;
                 s = s\<lparr>hc_device := d\<lparr>dev_csd := csd', dev_raw_csd := csd\<rparr>\<rparr>
             in if st \<noteq> EOK then Some (s, st)
                else Some (case sdio_device_errata (hc_device s) sd_errata of
                       None \<Rightarrow> s
                     | Some e \<Rightarrow> upd_dev (\<lambda>d. d\<lparr>dev_rsettle := er_rsettle e\<rparr>) (sdio_reconcile_errata e s), EOK))
        })"

text \<open>A card that still signals at 1.8 V although the controller has been reset.\<close>

definition sd_still_1_8 :: "sender \<Rightarrow> sd_os \<Rightarrow> sdio_entry \<Rightarrow> sdio_hc \<Rightarrow> sdio_hc option" where
  "sd_still_1_8 send os ent s =
    (if hc_caps s AND HC_CAP_SV_1_8V \<noteq> 0 \<and> hc_signal_voltage s \<noteq> SIGNAL_VOLTAGE_1_8
     then do {
       (s, status) \<leftarrow> sd_read_switch send os s;
       Some (if status = EOK \<and> swc_bus_mode (dev_swcaps (hc_device s)) AND 0x1c \<noteq> 0
             then fst (sdio_signal_voltage ent SIGNAL_VOLTAGE_1_8 s) else s)
     }
     else Some s)"

text \<open>From the selected card to the end: unlock, capabilities, bus.\<close>

definition sd_start_card :: "sender \<Rightarrow> sd_os \<Rightarrow> sdio_entry \<Rightarrow> bool \<Rightarrow> sdio_hc \<Rightarrow> (sdio_hc \<times> errno) option" where
  "sd_start_card send os ent again s =
    ok_then (sdio_select_card send (dev_rca s) s) (\<lambda>s.
    ok_then (sd_unlock send os s) (\<lambda>s.
      if dev_flags (hc_device s) AND DEV_FLAG_LOCKED \<noteq> 0 then Some (s, EOK)
      else ok_then (if again then Some (s, EOK) else sd_capabilities send os s) (\<lambda>s.
        do { s \<leftarrow> sd_still_1_8 send os ent s; sd_init_bus send os ent s })))"

text \<open>From the identified card on: address, registers, start.\<close>

definition sd_name_card :: "sender \<Rightarrow> sd_os \<Rightarrow> sdio_entry \<Rightarrow> bool \<Rightarrow> sdio_hc \<Rightarrow> (sdio_hc \<times> errno) option" where
  "sd_name_card send os ent again s =
    do {
      (s, status, cid) \<leftarrow> sdio_all_send_cid send s;
      if status \<noteq> EOK then Some (s, status)
      else if again \<and> dev_raw_cid (hc_device s) \<noteq> cid then Some (s, ENXIO)
      else
        (let s = upd_dev (\<lambda>d. d\<lparr>dev_raw_cid := cid\<rparr>) s
         in ok_then (sdio_send_relative_addr send s) (\<lambda>s.
              let s = fst (sdio_bus_mode ent 1 s) in
              ok_then (if again then Some (s, EOK) else sd_read_regs send s) (sd_start_card send os ent again)))
    }"

definition sd_init_device :: "sender \<Rightarrow> sd_os \<Rightarrow> sdio_entry \<Rightarrow> nat \<Rightarrow> u32 \<Rightarrow> bool \<Rightarrow> sdio_hc \<Rightarrow> (sdio_hc \<times> errno) option" where
  "sd_init_device send os ent n ocr again s =
    do {
      (s, _) \<leftarrow> sd_send_if_cond send 1 (s\<lparr>dev_rca := 0\<rparr>);
      (s, _) \<leftarrow> sdio_go_idle send s;
      (s, status) \<leftarrow> sd_send_if_cond send 1 s;
      if status \<noteq> EOK \<and> status \<noteq> ETIMEDOUT then Some (s, EIO)
      else ok_then (ocr_loop send ent n (ocr_request (status = EOK) again ocr s) s) (sd_name_card send os ent again)
    }"

definition sd_ident :: "sender \<Rightarrow> sd_os \<Rightarrow> sdio_entry \<Rightarrow> nat \<Rightarrow> sdio_hc \<Rightarrow> (sdio_hc \<times> errno) option" where
  "sd_ident send os ent n s =
    do {
      (s, _) \<leftarrow> sdio_go_idle send (s\<lparr>dev_rca := 0\<rparr>);
      (s, _) \<leftarrow> sd_send_if_cond send 1 s;
      (s, status, ocr) \<leftarrow> sd_app_send_op_cond send 0 s;
      if status \<noteq> EOK then Some (s, status)
      else ok_then (Some (sdio_select_voltage ent ocr s)) (\<lambda>s. sd_init_device send os ent n (dev_ocr s) False s)
    }"

section \<open>Bus errors\<close>

abbreviation (input) DTR_MAX_HS26 :: u32 where "DTR_MAX_HS26 \<equiv> 26000000"
abbreviation (input) DTR_MIN_LS :: u32 where "DTR_MIN_LS \<equiv> 100000"

definition sd_slower :: "u64 \<Rightarrow> sdio_dev \<Rightarrow> sdio_dev" where
  "sd_slower caps d =
    (if dev_flags d AND DEV_FLAG_UHS \<noteq> 0 then
       upd_swcaps (\<lambda>w. w\<lparr>swc_bus_mode := swc_bus_mode w AND NOT (sd_select_bus_mode caps (swc_bus_mode w))\<rparr>)
         (d\<lparr>dev_flags := dev_flags d AND NOT DEV_FLAG_UHS\<rparr>)
     else if dev_flags d AND DEV_FLAG_HS \<noteq> 0 then
       upd_swcaps (\<lambda>w. w\<lparr>swc_dtr_max_hs := max DTR_MAX_HS26 (swc_dtr_max_hs w - 5000000)\<rparr>)
         (d\<lparr>dev_flags := dev_flags d AND NOT DEV_FLAG_HS\<rparr>)
     else
       (let dtr = csd_dtr_max (dev_csd d) - (csd_dtr_max (dev_csd d) + 9) div 10
        in d\<lparr>dev_csd := (dev_csd d)\<lparr>csd_dtr_max := (if dtr < DTR_MIN_LS then DTR_MIN_LS else dtr)\<rparr>\<rparr>))"

definition sd_bus_error :: "sender \<Rightarrow> sd_os \<Rightarrow> sdio_entry \<Rightarrow> sdio_hc \<Rightarrow> (sdio_hc \<times> errno) option" where
  "sd_bus_error send os ent s = sd_init_bus send os ent (upd_dev (sd_slower (hc_caps s)) s)"

end
