(* ===== verification/Mmc.thy ===== *)
theory Mmc
  imports Sd
begin

text \<open>
  MMC devices, \<open>sdiodi/mmc.c\<close>: switching fields of EXT_CSD, partitions, sleep, cache, erase, identification, the
  bus modes in order of speed, re-tuning and the reaction to bus errors. The conventions are those of \<open>Sd\<close>.
\<close>

section \<open>Commands of a device\<close>

definition mmc_switch_rdy :: "sender \<Rightarrow> bool \<Rightarrow> u32 \<Rightarrow> u32 \<Rightarrow> u32 \<Rightarrow> u32 \<Rightarrow> u32 \<Rightarrow> sdio_hc \<Rightarrow> (sdio_hc \<times> errno) option" where
  "mmc_switch_rdy send wrdy cmdset mode idx val tmo s =
    (let (s, p) = sdio_alloc_cmd s in
     if p = 0 then Some (s, ENOMEM)
     else do {
       (s, status) \<leftarrow> send p tmo SDIO_CMD_RETRIES
         (sdio_setup_cmd p (SCF_CTYPE_AC OR (if tmo \<noteq> 0 then SCF_RSP_R1B else SCF_RSP_R1)) 6
           (push_bit 24 mode OR push_bit 16 idx OR push_bit 8 val OR cmdset) s);
       (s, status) \<leftarrow> (if status \<noteq> EOK then Some (s, status)
         else
           (let s = pause 1000 s in
            if wrdy then do {
              (s, status, _) \<leftarrow> sdio_wait_card_status send CDS_READY_FOR_DATA CDS_READY_FOR_DATA tmo s;
              Some (s, status)
            }
            else Some (s, EOK)));
       Some (sdio_free_cmd p s, status)
     })"

definition mmc_switch :: "sender \<Rightarrow> u32 \<Rightarrow> u32 \<Rightarrow> u32 \<Rightarrow> u32 \<Rightarrow> u32 \<Rightarrow> sdio_hc \<Rightarrow> (sdio_hc \<times> errno) option" where
  "mmc_switch send cmdset mode idx val tmo s = mmc_switch_rdy send True cmdset mode idx val tmo s"

text \<open>Writing a field of EXT_CSD with the default command set and timeout.\<close>

abbreviation (input) mmc_write :: "sender \<Rightarrow> u32 \<Rightarrow> u32 \<Rightarrow> sdio_hc \<Rightarrow> (sdio_hc \<times> errno) option" where
  "mmc_write send idx val s \<equiv> mmc_switch send 1 3 idx val SDIO_TIME_DEFAULT s"

abbreviation (input) ECSD_BUS_WIDTH :: u32 where "ECSD_BUS_WIDTH \<equiv> 183"
abbreviation (input) ECSD_HS_TIMING :: u32 where "ECSD_HS_TIMING \<equiv> 185"

text \<open>\<open>frame\<close> is \<open>RPMB_FRAME_SIZE\<close>, a constant of the system's \<open>rpmb.h\<close>; \<open>pf\<close> holds the caller's frames.\<close>

definition mmc_rpmb_rw :: "sender \<Rightarrow> sd_os \<Rightarrow> u32 \<Rightarrow> u8 list \<Rightarrow> u32 \<Rightarrow> u32 \<Rightarrow> sdio_hc \<Rightarrow> (sdio_hc \<times> errno \<times> u8 list) option" where
  "mmc_rpmb_rw send os frame pf nf flgs s =
    (let (s, p) = sdio_alloc_cmd s; len = frame * nf; rd = (flgs = SCF_DIR_IN) in
     if p = 0 then Some (s, ENOMEM, pf)
     else
       (let buf = os_alloc os (hlog s) len in
        if buf = 0 then Some (sdio_free_cmd p s, ENOMEM, pf)
        else
          (let sbcflg = (if \<not> rd \<and> flgs AND SCF_SBC_RLW \<noteq> 0 then SBC_RL_WRITE else 0);
               flags = (if rd then SCF_CTYPE_ADTC OR SCF_DIR_IN OR SCF_RSP_R1
                        else SCF_CTYPE_ADTC OR SCF_DIR_OUT OR SCF_RSP_BUSY OR SCF_RSP_R1);
               s = (if rd then s else s\<lparr>data_mem := put_bytes buf (take (unat len) pf) (data_mem s)\<rparr>)
           in do {
             (s, status) \<leftarrow> sdio_set_block_count send nf sbcflg s;
             if status \<noteq> EOK then Some (sdio_free_cmd p s, status, pf)
             else
               (let acmd_caps = hc_caps s AND ACMD_MSK;
                    s = s\<lparr>hc_caps := hc_caps s AND NOT ACMD_MSK\<rparr>;
                    s = sdio_setup_cmd p flags (if rd then 18 else 25) 0 (set_sge (os_sge os) buf len s);
                    s = sdio_setup_cmd_io p flags nf frame (os_sge os) 1 0 s
                in do {
                  (s, status) \<leftarrow> send p (SDIO_TIME_DEFAULT * 5) 0 s;
                  (let s = s\<lparr>hc_caps := hc_caps s OR acmd_caps\<rparr>
                   in Some (sdio_free_cmd p s, status, if status = EOK \<and> rd then get_bytes os buf (unat len) s else pf))
                })
           })))"

text \<open>A generic or manufacturer command with at most one block of data. The last status is that of
  setting the block length back.\<close>

definition mmc_gen_man_cmd :: "sender \<Rightarrow> sd_os \<Rightarrow> u8 \<Rightarrow> u8 list \<Rightarrow> u32 \<Rightarrow> u32 \<Rightarrow> u32 \<Rightarrow> u32 \<Rightarrow> sdio_hc \<Rightarrow>
    (sdio_hc \<times> errno \<times> u8 list) option" where
  "mmc_gen_man_cmd send os op buf blklen blkcnt arg flgs s =
    (if blkcnt > 1 then Some (s, ENOTSUP, buf)
     else
       (let (s, p) = sdio_alloc_cmd s; adtc = (flgs AND SCF_CTYPE_ADTC \<noteq> 0); len = blklen * blkcnt in
        if p = 0 then Some (s, ENOMEM, buf)
        else
          (let s = sdio_setup_cmd p (flgs AND NOT SCF_DATA_MSK) (ucast op) arg s in
           if \<not> adtc then do {
             (s, status) \<leftarrow> send p (SDIO_TIME_DEFAULT * 5) 0 s;
             Some (sdio_free_cmd p s, status, buf)
           }
           else do {
             (s, status) \<leftarrow> (if blklen \<noteq> 512 then sdio_set_block_length send blklen s else Some (s, EOK));
             if status \<noteq> EOK then Some (sdio_free_cmd p s, status, buf)
             else
               (let dbuf = os_alloc os (hlog s) len in
                if dbuf = 0 then Some (sdio_free_cmd p s, ENOMEM, buf)
                else
                  (let s = (if flgs AND SCF_DIR_IN = 0
                            then s\<lparr>data_mem := put_bytes dbuf (take (unat len) buf) (data_mem s)\<rparr> else s);
                       s = sdio_setup_cmd_io p (flgs AND SCF_DATA_MSK) blkcnt blklen (os_sge os) 1 0
                             (set_sge (os_sge os) dbuf len s)
                   in do {
                     (s, status) \<leftarrow> send p (SDIO_TIME_DEFAULT * 5) 0 s;
                     (let buf = (if status = EOK \<and> flgs AND SCF_DIR_IN \<noteq> 0 then get_bytes os dbuf (unat len) s else buf)
                      in do {
                        (s, status) \<leftarrow> (if blklen \<noteq> 512 then sdio_set_block_length send 512 s else Some (s, status));
                        Some (sdio_free_cmd p s, status, buf)
                      })
                   }))
           })))"

definition mmc_set_partition :: "sender \<Rightarrow> u32 \<Rightarrow> sdio_hc \<Rightarrow> (sdio_hc \<times> errno) option" where
  "mmc_set_partition send part s =
    (if dev_pactive (hc_device s) = part then Some (s, EOK)
     else ok_then (mmc_switch send 1 3 179 part (10 * ucast (dev_raw_ecsd (hc_device s) ! 199)) s)
       (\<lambda>s. Some (upd_dev (\<lambda>d. d\<lparr>dev_pactive := part\<rparr>) s, EOK)))"

definition mmc_sleep_awake :: "sender \<Rightarrow> bool \<Rightarrow> sdio_hc \<Rightarrow> (sdio_hc \<times> errno) option" where
  "mmc_sleep_awake send slp s =
    (let (s, p) = sdio_alloc_cmd s in
     if p = 0 then Some (s, ENOMEM)
     else do {
       (s, status) \<leftarrow> send p SDIO_TIME_DEFAULT 0 (sdio_setup_cmd p (SCF_CTYPE_AC OR SCF_RSP_R1B) 5
         (push_bit 16 (dev_rca s) OR (if slp then 0x8000 else 0)) s);
       (let s = (if status = EOK \<and> hc_caps s AND HC_CAP_BSY = 0
                 then pause (unat ((ecsd_s_a_timeout (dev_ecsd (hc_device s)) + 10000 - 1) div 10000) * 1000) s else s)
        in Some (sdio_free_cmd p s, status))
     })"

definition mmc_cache :: "sender \<Rightarrow> int \<Rightarrow> u32 \<Rightarrow> sdio_hc \<Rightarrow> (sdio_hc \<times> errno) option" where
  "mmc_cache send op tmo s =
    (if op = 0 then
       ok_then (mmc_switch send 1 3 33 0 tmo s)
         (\<lambda>s. Some (upd_dev (\<lambda>d. d\<lparr>dev_flags := dev_flags d AND NOT DEV_FLAG_WCE\<rparr>) s, EOK))
     else if op = 1 then
       ok_then (mmc_switch send 1 3 33 1 tmo s) (\<lambda>s. Some (set_dev_flags DEV_FLAG_WCE s, EOK))
     else if op = 2 then
       (if dev_flags (hc_device s) AND DEV_FLAG_WCE \<noteq> 0 then mmc_switch send 1 3 32 1 tmo s else Some (s, EOK))
     else Some (s, EINVAL))"

definition mmc_pwroff_notify :: "sender \<Rightarrow> int \<Rightarrow> u32 \<Rightarrow> sdio_hc \<Rightarrow> (sdio_hc \<times> errno) option" where
  "mmc_pwroff_notify send op tmo s =
    do {
      (s, status) \<leftarrow> mmc_switch send 1 3 34 (of_int op) tmo s;
      Some (if status = ETIMEDOUT \<and> op = 3 then pause (10 * unat (dev_raw_ecsd (hc_device s) ! 247) * 1000) s else s, status)
    }"

definition mmc_erase :: "sender \<Rightarrow> u32 \<Rightarrow> u32 \<Rightarrow> u64 \<Rightarrow> u32 \<Rightarrow> sdio_hc \<Rightarrow> (sdio_hc \<times> errno) option" where
  "mmc_erase send part flgs lba nlba s =
    ok_then (mmc_set_partition send part s) (\<lambda>s.
      let (s, p) = sdio_alloc_cmd s in
      if p = 0 then Some (s, ENOMEM)
      else do {
        (s, status) \<leftarrow> (if nlba = 0 then Some (s, EOK)
          else
            (let tmo = ucast (mmc_erase_timeout (hc_device s) flgs (ucast nlba)) in
             ok_then (erase_range send p 35 36 flgs tmo lba nlba s) (\<lambda>s. do {
               (s, status, _) \<leftarrow> sdio_wait_card_status send (CDS_READY_FOR_DATA OR CDS_CUR_STATE_MSK)
                 (CDS_READY_FOR_DATA OR CDS_CUR_STATE_TRAN) tmo s;
               Some (s, status) })));
        Some (sdio_free_cmd p s, status)
      })"

definition mmc_send_ext_csd :: "sender \<Rightarrow> sd_os \<Rightarrow> sdio_hc \<Rightarrow> (sdio_hc \<times> errno \<times> u8 list) option" where
  "mmc_send_ext_csd send os s = data_call send os (SCF_CTYPE_ADTC OR SCF_RSP_R1) 8 0 SCF_DIR_IN 512 [] s"

definition mmc_set_relative_addr :: "sender \<Rightarrow> u32 \<Rightarrow> sdio_hc \<Rightarrow> (sdio_hc \<times> errno) option" where
  "mmc_set_relative_addr send addr s =
    drop_cmd (cmd_call send (SCF_CTYPE_AC OR SCF_RSP_R1) 3 (push_bit 16 addr) SDIO_CMD_RETRIES s)"

definition mmc_send_op_cond :: "sender \<Rightarrow> u32 \<Rightarrow> sdio_hc \<Rightarrow> (sdio_hc \<times> errno \<times> u32) option" where
  "mmc_send_op_cond send ocr s = op_cond send (SCF_CTYPE_BCR OR SCF_RSP_R3) 1 0 100 ocr s"

section \<open>Bus width\<close>

definition test_pattern :: "u32 \<Rightarrow> u8 list" where
  "test_pattern wid = (if wid = 8 then [0x55, 0xaa, 0, 0, 0, 0, 0, 0] else [0x5a, 0, 0, 0])"

definition mmc_bus_test :: "sender \<Rightarrow> sd_os \<Rightarrow> u32 \<Rightarrow> sdio_hc \<Rightarrow> (sdio_hc \<times> errno) option" where
  "mmc_bus_test send os wid s =
    (let (s, p) = sdio_alloc_cmd s in
     if p = 0 then Some (s, ENOMEM)
     else
       (let buf = os_alloc os (hlog s) wid in
        if buf = 0 then Some (sdio_free_cmd p s, ENOMEM)
        else
          (let s = set_sge (os_sge os) buf wid (s\<lparr>data_mem := put_bytes buf (test_pattern wid) (data_mem s)\<rparr>)
           in do {
             (s, _) \<leftarrow> send p SDIO_TIME_DEFAULT 0 (sdio_setup_cmd_io p SCF_DIR_OUT 1 wid (os_sge os) 1 0
               (sdio_setup_cmd p (SCF_CTYPE_ADTC OR SCF_RSP_R1) 19 0 s));
             (s, status) \<leftarrow> send p SDIO_TIME_DEFAULT 0 (sdio_setup_cmd_io p SCF_DIR_IN 1 wid (os_sge os) 1 0
               (sdio_setup_cmd p (SCF_CTYPE_ADTC OR SCF_RSP_R1) 14 0 s));
             Some (sdio_free_cmd p s,
               if status = EOK \<and> list_ex (\<lambda>i. test_pattern wid ! i XOR get_bytes os buf (unat wid) s ! i \<noteq> 0xff) [0 ..< unat wid div 4]
               then EIO else status)
           })))"

fun width_loop :: "sender \<Rightarrow> sd_os \<Rightarrow> sdio_entry \<Rightarrow> u32 list \<Rightarrow> sdio_hc \<Rightarrow> (sdio_hc \<times> u32) option" where
  "width_loop send os ent [] s = Some (s, 1)"
| "width_loop send os ent (w # ws) s =
    do {
      (s, status) \<leftarrow> mmc_write send ECSD_BUS_WIDTH (w div 4) s;
      if status \<noteq> EOK then width_loop send os ent ws s
      else do {
        (s, status) \<leftarrow> mmc_bus_test send os w (fst (sdio_bus_width ent w s));
        if status = EOK then Some (s, w) else width_loop send os ent ws s
      }
    }"

abbreviation (input) HC_CAP_BW8 :: u64 where "HC_CAP_BW8 \<equiv> 0x20"

definition mmc_bus_width :: "sender \<Rightarrow> sd_os \<Rightarrow> sdio_entry \<Rightarrow> bool \<Rightarrow> sdio_hc \<Rightarrow> (sdio_hc \<times> u32) option" where
  "mmc_bus_width send os ent flg s =
    (let wid = (if hc_caps s AND HC_CAP_BW8 \<noteq> 0 then 8 else if hc_caps s AND HC_CAP_BW4 \<noteq> 0 then 4 else 1 :: u32)
     in if wid = 1 \<or> \<not> flg then Some (s, wid)
        else width_loop send os ent (if wid = 8 then [8, 4] else [4]) s)"

section \<open>Bus modes\<close>

abbreviation (input) TIMING_LS :: u32 where "TIMING_LS \<equiv> 1"
abbreviation (input) TIMING_HS :: u32 where "TIMING_HS \<equiv> 2"
abbreviation (input) TIMING_DDR50 :: u32 where "TIMING_DDR50 \<equiv> 3"
abbreviation (input) TIMING_HS200 :: u32 where "TIMING_HS200 \<equiv> 8"
abbreviation (input) TIMING_HS400 :: u32 where "TIMING_HS400 \<equiv> 9"
abbreviation (input) TIMING_HS400ES :: u32 where "TIMING_HS400ES \<equiv> 10"
abbreviation (input) SIGNAL_VOLTAGE_1_2 :: u32 where "SIGNAL_VOLTAGE_1_2 \<equiv> 4"
abbreviation (input) DTR_MAX_HS52 :: u32 where "DTR_MAX_HS52 \<equiv> 52000000"

definition clr_dev_flags :: "u32 \<Rightarrow> sdio_hc \<Rightarrow> sdio_hc" where
  "clr_dev_flags f s = upd_dev (\<lambda>d. d\<lparr>dev_flags := dev_flags d AND NOT f\<rparr>) s"

abbreviation (input) dtr_hs :: "sdio_hc \<Rightarrow> u32" where "dtr_hs s \<equiv> ecsd_dtr_max_hs (dev_ecsd (hc_device s))"
abbreviation (input) card_type :: "sdio_hc \<Rightarrow> u8" where "card_type s \<equiv> ecsd_card_type (dev_ecsd (hc_device s))"
abbreviation (input) hs_timing :: "u32 \<Rightarrow> sdio_hc \<Rightarrow> u32" where "hs_timing v s \<equiv> push_bit 4 (hc_drv_type s) OR v"

definition mmc_init_hs :: "sender \<Rightarrow> sdio_entry \<Rightarrow> sdio_hc \<Rightarrow> (sdio_hc \<times> errno) option" where
  "mmc_init_hs send ent s =
    (let s = (if dtr_hs s > DTR_MAX_HS52 then upd_dev (set_ecsd (ecsd_dtr_max_hs_update (\<lambda>_. DTR_MAX_HS52))) s else s)
     in ok_then (mmc_write send ECSD_HS_TIMING 1 s) (\<lambda>s.
        ok_then (Some (sdio_timing ent TIMING_HS s)) (\<lambda>s.
          Some (set_dev_flags DEV_FLAG_HS (fst (sdio_clock ent (dtr_hs s) s)), EOK))))"

text \<open>\<open>_mmc_init_hs200\<close>.\<close>

definition mmc_enter_hs200 :: "sender \<Rightarrow> sdio_entry \<Rightarrow> u32 \<Rightarrow> sdio_hc \<Rightarrow> (sdio_hc \<times> errno) option" where
  "mmc_enter_hs200 send ent wid s =
    ok_then (mmc_write send ECSD_BUS_WIDTH (wid div 4) s) (\<lambda>s.
      let s = fst (sdio_bus_width ent wid s) in
      ok_then (mmc_write send ECSD_HS_TIMING (hs_timing 2 s) s) (\<lambda>s.
      ok_then (Some (sdio_timing ent TIMING_HS200 s)) (\<lambda>s.
        sdio_tune ent MMC_SEND_TUNING_BLOCK (fst (sdio_clock ent (dtr_hs s) s)))))"

text \<open>1.2 V when device and controller have it, else or after a failure 1.8 V.\<close>

definition low_voltage :: "sdio_entry \<Rightarrow> u8 \<Rightarrow> u8 \<Rightarrow> sdio_hc \<Rightarrow> sdio_hc \<times> errno" where
  "low_voltage ent t12 t18 s =
    (let (s, status) = (if card_type s AND t12 = t12 \<and> hc_caps s AND HC_CAP_SV_1_2V \<noteq> 0
                        then sdio_signal_voltage ent SIGNAL_VOLTAGE_1_2 s else (s, EINVAL))
     in if status \<noteq> EOK \<and> card_type s AND t18 = t18 \<and> hc_caps s AND HC_CAP_SV_1_8V \<noteq> 0
        then sdio_signal_voltage ent SIGNAL_VOLTAGE_1_8 s else (s, status))"

definition mmc_init_hs200 :: "sender \<Rightarrow> sdio_entry \<Rightarrow> u32 \<Rightarrow> sdio_hc \<Rightarrow> (sdio_hc \<times> errno) option" where
  "mmc_init_hs200 send ent wid s =
    ok_then (Some (low_voltage ent 0x20 0x10 s)) (\<lambda>s.
    ok_then (mmc_enter_hs200 send ent wid s) (\<lambda>s. Some (set_dev_flags DEV_FLAG_HS200 s, EOK)))"

definition mmc_init_hs400es :: "sender \<Rightarrow> sdio_entry \<Rightarrow> u32 \<Rightarrow> sdio_hc \<Rightarrow> (sdio_hc \<times> errno) option" where
  "mmc_init_hs400es send ent wid s =
    ok_then (Some (low_voltage ent 0x80 0x40 s)) (\<lambda>s.
    ok_then (mmc_write send ECSD_BUS_WIDTH (wid div 4) s) (\<lambda>s.
    ok_then (mmc_write send ECSD_HS_TIMING 1 (fst (sdio_bus_width ent wid s))) (\<lambda>s.
    ok_then (Some (sdio_timing ent TIMING_HS s)) (\<lambda>s.
    ok_then (mmc_write send ECSD_BUS_WIDTH (0x80 OR 2 OR 4) (fst (sdio_clock ent DTR_MAX_HS52 s))) (\<lambda>s.
    ok_then (mmc_write send ECSD_HS_TIMING (hs_timing 3 s) s) (\<lambda>s.
    ok_then (Some (sdio_timing ent TIMING_HS400ES s)) (\<lambda>s.
      Some (set_dev_flags DEV_FLAG_HS400ES (fst (sdio_clock ent (dtr_hs s) s)), EOK))))))))"

definition wait_ready :: "sender \<Rightarrow> sdio_hc \<Rightarrow> (sdio_hc \<times> errno) option" where
  "wait_ready send s =
    do { (s, status, _) \<leftarrow> sdio_wait_card_status send CDS_READY_FOR_DATA CDS_READY_FOR_DATA SDIO_TIME_DEFAULT s;
         Some (s, status) }"

text \<open>The result of the first wait is only reported.\<close>

definition mmc_hs200_to_hs400 :: "sender \<Rightarrow> sdio_entry \<Rightarrow> sdio_hc \<Rightarrow> (sdio_hc \<times> errno) option" where
  "mmc_hs200_to_hs400 send ent s =
    ok_then (mmc_switch_rdy send False 1 3 ECSD_HS_TIMING 1 SDIO_TIME_DEFAULT s) (\<lambda>s.
    ok_then (Some (sdio_timing ent TIMING_HS s)) (\<lambda>s.
      do {
        (s, _) \<leftarrow> wait_ready send (fst (sdio_clock ent DTR_MAX_HS52 s));
        ok_then (mmc_write send ECSD_BUS_WIDTH (2 OR 4) s) (\<lambda>s.
        ok_then (mmc_write send ECSD_HS_TIMING (hs_timing 3 s) s) (\<lambda>s.
        ok_then (Some (sdio_timing ent TIMING_HS400 s)) (\<lambda>s.
        ok_then (wait_ready send (fst (sdio_clock ent (dtr_hs s) s))) (\<lambda>s.
          Some (set_dev_flags DEV_FLAG_HS400 (clr_dev_flags DEV_FLAG_HS200 s), EOK)))))
      }))"

text \<open>A failure of the step to HS200 is not looked at.\<close>

definition mmc_init_hs400 :: "sender \<Rightarrow> sdio_entry \<Rightarrow> u32 \<Rightarrow> sdio_hc \<Rightarrow> (sdio_hc \<times> errno) option" where
  "mmc_init_hs400 send ent wid s =
    ok_then (Some (low_voltage ent 0xa0 0x50 s)) (\<lambda>s.
      do {
        (s, status) \<leftarrow> mmc_enter_hs200 send ent wid s;
        mmc_hs200_to_hs400 send ent (if status = EOK then set_dev_flags DEV_FLAG_HS200 s else s)
      })"

definition mmc_hs400_to_hs200 :: "sender \<Rightarrow> sdio_entry \<Rightarrow> sdio_hc \<Rightarrow> (sdio_hc \<times> errno) option" where
  "mmc_hs400_to_hs200 send ent s =
    ok_then (mmc_switch_rdy send False 1 3 ECSD_HS_TIMING 1 SDIO_TIME_DEFAULT (fst (sdio_clock ent DTR_MAX_HS52 s))) (\<lambda>s.
    ok_then (wait_ready send (fst (sdio_timing ent TIMING_DDR50 s))) (\<lambda>s.
    ok_then (mmc_write send ECSD_BUS_WIDTH 2 s) (\<lambda>s.
    ok_then (wait_ready send s) (\<lambda>s.
    ok_then (Some (sdio_timing ent TIMING_HS s)) (\<lambda>s.
    ok_then (mmc_write send ECSD_HS_TIMING (hs_timing 2 s) s) (\<lambda>s.
    ok_then (Some (sdio_timing ent TIMING_HS200 s)) (\<lambda>s.
    ok_then (wait_ready send s) (\<lambda>s.
      Some (clr_dev_flags DEV_FLAG_HS400 (set_dev_flags DEV_FLAG_HS200 (fst (sdio_clock ent (dtr_hs s) s))), EOK)))))))))"

definition mmc_retune :: "sender \<Rightarrow> sdio_entry \<Rightarrow> sdio_hc \<Rightarrow> (sdio_hc \<times> errno) option" where
  "mmc_retune send ent s =
    (let hs400 = dev_flags (hc_device s) AND DEV_FLAG_HS400 \<noteq> 0 in
     ok_then (if hs400 then mmc_hs400_to_hs200 send ent s else Some (s, EOK)) (\<lambda>s.
     ok_then (sdio_tune ent MMC_SEND_TUNING_BLOCK s) (\<lambda>s.
       if hs400 then mmc_hs200_to_hs400 send ent s else Some (s, EOK))))"

definition mmc_init_ddr :: "sender \<Rightarrow> sdio_entry \<Rightarrow> u32 \<Rightarrow> sdio_hc \<Rightarrow> (sdio_hc \<times> errno) option" where
  "mmc_init_ddr send ent wid s =
    ok_then (Some (if card_type s AND 8 \<noteq> 0 \<and> hc_caps s AND HC_CAP_SV_1_2V \<noteq> 0
                   then sdio_signal_voltage ent SIGNAL_VOLTAGE_1_2 s else (s, EOK))) (\<lambda>s.
    ok_then (mmc_write send ECSD_BUS_WIDTH (wid div 4 OR 4) s) (\<lambda>s.
      Some (set_dev_flags DEV_FLAG_DDR (fst (sdio_timing ent TIMING_DDR50 (fst (sdio_bus_width ent wid s)))), EOK)))"

text \<open>One step of \<open>mmc_init_bus\<close>: try \<open>f\<close> when \<open>c\<close> holds; its result is not looked at.\<close>

definition try_mode :: "(sdio_hc \<Rightarrow> bool) \<Rightarrow> (sdio_hc \<Rightarrow> (sdio_hc \<times> errno) option) \<Rightarrow> sdio_hc \<Rightarrow> sdio_hc option" where
  "try_mode c f s = (if c s then map_option fst (f s) else Some s)"

abbreviation (input) has_flag :: "u32 \<Rightarrow> sdio_hc \<Rightarrow> bool" where "has_flag f s \<equiv> dev_flags (hc_device s) AND f \<noteq> 0"
abbreviation (input) has_cap :: "u64 \<Rightarrow> sdio_hc \<Rightarrow> bool" where "has_cap c s \<equiv> dev_caps (hc_device s) AND c \<noteq> 0"

definition mmc_try_modes :: "sender \<Rightarrow> sdio_entry \<Rightarrow> u32 \<Rightarrow> sdio_hc \<Rightarrow> sdio_hc option" where
  "mmc_try_modes send ent wid s =
    do {
      s \<leftarrow> try_mode (\<lambda>s. has_cap DEV_CAP_HS400ES s \<and> dtr_hs s > DTR_MAX_HS52 \<and> wid \<ge> 8) (mmc_init_hs400es send ent wid) s;
      s \<leftarrow> try_mode (\<lambda>s. \<not> has_flag DEV_FLAG_HS400ES s \<and> has_cap DEV_CAP_HS400 s \<and> dtr_hs s > DTR_MAX_HS52 \<and> wid \<ge> 8)
        (mmc_init_hs400 send ent wid) s;
      s \<leftarrow> try_mode (\<lambda>s. \<not> has_flag (DEV_FLAG_HS400 OR DEV_FLAG_HS400ES) s \<and> has_cap DEV_CAP_HS200 s \<and>
                       dtr_hs s > DTR_MAX_HS52 \<and> wid \<ge> 4) (mmc_init_hs200 send ent wid) s;
      s \<leftarrow> try_mode (\<lambda>s. \<not> has_flag (DEV_FLAG_HS200 OR DEV_FLAG_HS400 OR DEV_FLAG_HS400ES) s \<and> has_cap DEV_CAP_HS s)
        (mmc_init_hs send ent) s;
      s \<leftarrow> try_mode (\<lambda>s. has_flag DEV_FLAG_HS s \<and> wid \<ge> 4 \<and> has_cap DEV_CAP_DDR50 s) (mmc_init_ddr send ent wid) s;
      try_mode (\<lambda>s. has_flag DEV_FLAG_HS s \<and> wid \<ge> 4 \<and> \<not> has_flag DEV_FLAG_DDR s)
        (\<lambda>s. ok_then (mmc_write send ECSD_BUS_WIDTH (wid div 4) s) (\<lambda>s. Some (fst (sdio_bus_width ent wid s), EOK))) s
    }"

definition mmc_init_bus :: "sender \<Rightarrow> sd_os \<Rightarrow> sdio_entry \<Rightarrow> sdio_hc \<Rightarrow> (sdio_hc \<times> errno) option" where
  "mmc_init_bus send os ent s =
    do {
      (s, wid) \<leftarrow> mmc_bus_width send os ent False s;
      s \<leftarrow> mmc_try_modes send ent wid s;
      (let s = (if \<not> has_flag (DEV_FLAG_HS400ES OR DEV_FLAG_HS400 OR DEV_FLAG_HS200 OR DEV_FLAG_HS) s
                then fst (sdio_clock ent (csd_dtr_max (dev_csd (hc_device s))) (fst (sdio_timing ent TIMING_LS s))) else s)
       in sdio_set_block_length send 512 s)
    }"

section \<open>Identification\<close>

definition mmc_errata :: "sdio_errata list" where
  "mmc_errata =
    (let e = (\<lambda>pnm mid prv_e erev errata. \<lparr>er_pnm = pnm, er_mid = mid, er_oid = 0, er_prv_s = 0, er_prv_e = prv_e,
               er_erev = erev, er_errata = errata, er_rsettle = 0\<rparr>)
     in [e ''MAG2GA'' 0x15 6 5 3, e ''MAG2GA'' 0x15 DEV_ERRATA_WILDCARD 5 2, e ''MBG4GA'' 0x15 6 5 3,
         e ''MBG4GA'' 0x15 DEV_ERRATA_WILDCARD 5 2, e ''MCG8GA'' 0x15 DEV_ERRATA_WILDCARD 5 2,
         e ''SEM08G'' 0x45 DEV_ERRATA_WILDCARD DEV_ERRATA_WILDCARD 2])"

text \<open>CSD and CID of a new device.\<close>

definition mmc_read_regs :: "sender \<Rightarrow> sdio_hc \<Rightarrow> (sdio_hc \<times> errno) option" where
  "mmc_read_regs send s =
    do {
      (s, status, csd) \<leftarrow> sdio_send_csd send s;
      if status \<noteq> EOK then Some (s, status)
      else
        (let (csd', st) = mmc_parse_csd csd;
             s = upd_dev (\<lambda>d. d\<lparr>dev_csd := csd', dev_raw_csd := csd\<rparr>) s
         in if st \<noteq> EOK then Some (s, st)
            else
              (let (cid, st) = mmc_parse_cid (hc_device s) (dev_raw_cid (hc_device s))
               in Some (upd_dev (\<lambda>d. d\<lparr>dev_cid := cid\<rparr>) s, st)))
    }"

text \<open>EXT_CSD of a new device: read and decoded.\<close>

definition mmc_read_ecsd :: "sender \<Rightarrow> sd_os \<Rightarrow> sdio_hc \<Rightarrow> (sdio_hc \<times> errno) option" where
  "mmc_read_ecsd send os s =
    do {
      (s, status, raw) \<leftarrow> mmc_send_ext_csd send os s;
      if status \<noteq> EOK then Some (s, status)
      else
        (let (d, drv, raw, st) = mmc_parse_ext_csd (hc_caps s) (hc_drv_type s) (hc_device s) raw
         in Some (s\<lparr>hc_device := d\<lparr>dev_raw_ecsd := raw\<rparr>, hc_drv_type := drv\<rparr>, st))
    }"

definition mmc_set_features :: "sender \<Rightarrow> u32 \<Rightarrow> sdio_hc \<Rightarrow> (sdio_hc \<times> errno) option" where
  "mmc_set_features send rocr s =
    ok_then (if dev_raw_ecsd (hc_device s) ! 224 \<noteq> 0 \<and> dev_raw_ecsd (hc_device s) ! 223 \<noteq> 0
             then ok_then (mmc_write send 175 1 s)
                    (\<lambda>s. Some (upd_dev (set_ecsd (ecsd_erase_grp_def_update (\<lambda>_. 1))) s, EOK))
             else Some (s, EOK)) (\<lambda>s.
      let s = (if rocr AND OCR_HCS \<noteq> 0 then upd_dev (or_caps DEV_CAP_HC) s else s)
      in if dev_raw_ecsd (hc_device s) ! 503 AND 1 \<noteq> 0 then mmc_write send 161 1 s else Some (s, EOK))"

definition mmc_apply_errata :: "sdio_hc \<Rightarrow> sdio_hc" where
  "mmc_apply_errata s =
    (case sdio_device_errata (hc_device s) mmc_errata of
       None \<Rightarrow> s
     | Some e \<Rightarrow>
         (let s = sdio_reconcile_errata e s
          in if er_errata e AND 2 \<noteq> 0 then upd_dev (or_caps DEV_CAP_DISCARD) s else s))"

text \<open>From the selected device to the end.\<close>

definition mmc_start_device :: "sender \<Rightarrow> sd_os \<Rightarrow> sdio_entry \<Rightarrow> u32 \<Rightarrow> bool \<Rightarrow> sdio_hc \<Rightarrow> (sdio_hc \<times> errno) option" where
  "mmc_start_device send os ent rocr again s =
    ok_then (sdio_select_card send (dev_rca s) s) (\<lambda>s.
      if has_flag DEV_FLAG_LOCKED s then Some (s, EOK)
      else
        ok_then (if csd_spec_vers (dev_csd (hc_device s)) \<ge> 4
                 then ok_then (if again then Some (s, EOK) else mmc_read_ecsd send os s) (mmc_set_features send rocr)
                 else Some (s, EOK)) (\<lambda>s.
          let s = (if again then s else mmc_apply_errata s);
              s = upd_dev (\<lambda>d. d\<lparr>dev_wp_size := ucast (mmc_wp_grp_size d)\<rparr>) s;
              s = upd_dev (\<lambda>d. d\<lparr>dev_erase_size := ucast (mmc_erase_grp_size d)\<rparr>) s
          in mmc_init_bus send os ent s))"

definition mmc_init_device :: "sender \<Rightarrow> sd_os \<Rightarrow> sdio_entry \<Rightarrow> u32 \<Rightarrow> bool \<Rightarrow> sdio_hc \<Rightarrow> (sdio_hc \<times> errno) option" where
  "mmc_init_device send os ent ocr again s =
    ok_then (if hc_flags s AND HC_FLAG_SKIP_PWRUP = 0 then sdio_go_idle send s else Some (s, EOK)) (\<lambda>s.
      do {
        (s, status, rocr) \<leftarrow> mmc_send_op_cond send (ocr OR OCR_HCS) s;
        if status \<noteq> EOK then Some (s, status)
        else do {
          (s, status, cid) \<leftarrow> sdio_all_send_cid send s;
          if status \<noteq> EOK then Some (s, status)
          else if again \<and> dev_raw_cid (hc_device s) \<noteq> cid then Some (s, ENXIO)
          else
            (let s = (upd_dev (\<lambda>d. d\<lparr>dev_raw_cid := cid\<rparr>) s)\<lparr>dev_rca := 1\<rparr>
             in ok_then (mmc_set_relative_addr send (dev_rca s) s) (\<lambda>s.
                  let s = fst (sdio_bus_mode ent 1 s) in
                  ok_then (if again then Some (s, EOK) else mmc_read_regs send s) (mmc_start_device send os ent rocr again)))
        }
      })"

definition mmc_ident :: "sender \<Rightarrow> sd_os \<Rightarrow> sdio_entry \<Rightarrow> sdio_hc \<Rightarrow> (sdio_hc \<times> errno) option" where
  "mmc_ident send os ent s =
    do {
      (s, status) \<leftarrow> (if hc_flags s AND HC_FLAG_SKIP_PWRUP \<noteq> 0
        then mmc_init_device send os ent (dev_ocr s) False s else Some (s, ENODEV));
      if status = EOK then Some (s, EOK)
      else ok_then (sdio_go_idle send s) (\<lambda>s.
        do {
          (s, status, ocr) \<leftarrow> mmc_send_op_cond send 0 s;
          if status \<noteq> EOK then Some (s, status)
          else ok_then (Some (sdio_select_voltage ent ocr s)) (\<lambda>s. mmc_init_device send os ent (dev_ocr s) False s)
        })
    }"

section \<open>Bus errors\<close>

definition clr_caps :: "u64 \<Rightarrow> u32 \<Rightarrow> sdio_dev \<Rightarrow> sdio_dev" where
  "clr_caps c f d = d\<lparr>dev_caps := dev_caps d AND NOT c, dev_flags := dev_flags d AND NOT f\<rparr>"

definition mmc_slower :: "sdio_dev \<Rightarrow> sdio_dev" where
  "mmc_slower d =
    (if dev_flags d AND DEV_FLAG_HS400ES \<noteq> 0 then clr_caps DEV_CAP_HS400ES DEV_FLAG_HS400ES d
     else if dev_flags d AND DEV_FLAG_HS400 \<noteq> 0 then clr_caps DEV_CAP_HS400 DEV_FLAG_HS400 d
     else if dev_flags d AND DEV_FLAG_HS200 \<noteq> 0 then
       set_ecsd (ecsd_dtr_max_hs_update (\<lambda>_. DTR_MAX_HS52)) (clr_caps DEV_CAP_HS200 DEV_FLAG_HS200 d)
     else if dev_flags d AND DEV_FLAG_DDR \<noteq> 0 then clr_caps DEV_CAP_DDR50 DEV_FLAG_DDR d
     else if dev_flags d AND DEV_FLAG_HS \<noteq> 0 then
       (let d = d\<lparr>dev_flags := dev_flags d AND NOT DEV_FLAG_HS\<rparr>
        in if ecsd_dtr_max_hs (dev_ecsd d) = DTR_MAX_HS26 then d
           else set_ecsd (ecsd_dtr_max_hs_update (\<lambda>v. max DTR_MAX_HS26 (v - 5000000))) d)
     else d\<lparr>dev_csd := (dev_csd d)\<lparr>csd_dtr_max := max DTR_MIN_LS (csd_dtr_max (dev_csd d) - 50000)\<rparr>\<rparr>)"

definition mmc_bus_error :: "sender \<Rightarrow> sd_os \<Rightarrow> sdio_entry \<Rightarrow> sdio_hc \<Rightarrow> (sdio_hc \<times> errno) option" where
  "mmc_bus_error send os ent s = mmc_init_bus send os ent (upd_dev mmc_slower s)"

end
