(* ===== verification/Sdio_Dev.thy ===== *)
theory Sdio_Dev
  imports Mmc
begin

text \<open>
  The driver's view of a device, from \<open>sdiodi/base.c\<close>: reset, re-tuning, bus errors, attaching, card
  detection; and the interface for clients of \<open>sdiodi/card.c\<close>, in which every call is counted so that a card
  is not taken away while a call is under way.

  \<open>n\<close> bounds the rounds of \<open>sd_init_device\<close>; the other conventions are those of \<open>Sd\<close>. Timers are calls of the
  system and are left out.
\<close>

section \<open>Reset, re-tuning, bus errors\<close>

abbreviation (input) SDIO_PWR_OFF :: u32 where "SDIO_PWR_OFF \<equiv> 0"
abbreviation (input) SDIO_MAX_BUS_ERRS :: u32 where "SDIO_MAX_BUS_ERRS \<equiv> 2"

definition sdio_cache :: "sender \<Rightarrow> sd_os \<Rightarrow> int \<Rightarrow> u32 \<Rightarrow> sdio_hc \<Rightarrow> (sdio_hc \<times> errno) option" where
  "sdio_cache send os op tmo s = (if dev_dtype s = DEV_TYPE_MMC then mmc_cache send op tmo s else sd_cache send os op s)"

text \<open>\<open>do ... while( --retry && ( status != EOK ) )\<close>.\<close>

fun dev_reset_loop :: "sender \<Rightarrow> sd_os \<Rightarrow> sdio_entry \<Rightarrow> nat \<Rightarrow> nat \<Rightarrow> sdio_hc \<Rightarrow> (sdio_hc \<times> errno) option" where
  "dev_reset_loop send os ent n retry s =
    (let s = fst (sdio_power ent SDIO_PWR_ON (fst (sdio_power ent SDIO_PWR_OFF s)))
     in do {
       (s, status) \<leftarrow> (if dev_dtype s = DEV_TYPE_MMC then mmc_init_device send os ent (dev_ocr s) True s
         else if dev_dtype s = DEV_TYPE_SD then sd_init_device send os ent n (dev_ocr s) True s
         else Some (s, ENXIO));
       if status = ENXIO then Some (sdio_hc_event HC_EV_CD s, ENXIO)
       else if status = EOK then Some (s, EOK)
       else case retry of Suc (Suc r) \<Rightarrow> dev_reset_loop send os ent n (Suc r) s | _ \<Rightarrow> Some (s, status)
     })"

declare dev_reset_loop.simps [simp del]

definition sdio_reset :: "sender \<Rightarrow> sd_os \<Rightarrow> sdio_entry \<Rightarrow> nat \<Rightarrow> sdio_hc \<Rightarrow> (sdio_hc \<times> errno) option" where
  "sdio_reset send os ent n s =
    (if hc_flags s AND HC_FLAG_RST \<noteq> 0 then Some (s, EBUSY)
     else
       (let s = s\<lparr>hc_flags := (hc_flags s OR HC_FLAG_RST) AND NOT HC_FLAG_SKIP_PWRUP, dev_rca := 0\<rparr>;
            s = upd_dev (\<lambda>d. d\<lparr>dev_pactive := 0, dev_flags := dev_flags d AND NOT DEV_FLAG_WCE\<rparr>) s
        in do {
          (s, status) \<leftarrow> dev_reset_loop send os ent n 3 s;
          Some (s\<lparr>hc_flags := hc_flags s AND NOT HC_FLAG_RST\<rparr>, status)
        }))"

definition sdio_retune :: "sender \<Rightarrow> sdio_entry \<Rightarrow> sdio_hc \<Rightarrow> (sdio_hc \<times> errno) option" where
  "sdio_retune send ent s =
    do {
      (s, status) \<leftarrow> (if dev_dtype s = DEV_TYPE_MMC then mmc_retune send ent s else sdio_tune ent SD_SEND_TUNING_BLOCK s);
      Some (s\<lparr>hc_flags := hc_flags s AND NOT HC_FLAG_TUNE\<rparr>, status)
    }"

definition sdio_bus_error :: "sender \<Rightarrow> sd_os \<Rightarrow> sdio_entry \<Rightarrow> sdio_hc \<Rightarrow> (sdio_hc \<times> errno) option" where
  "sdio_bus_error send os ent s =
    (let s = s\<lparr>hc_bus_errs := hc_bus_errs s + 1\<rparr> in
     if hc_bus_errs s > SDIO_MAX_BUS_ERRS then do {
       (s, status) \<leftarrow> (if dev_dtype s = DEV_TYPE_MMC then mmc_bus_error send os ent s
         else if dev_dtype s = DEV_TYPE_SD then sd_bus_error send os ent s
         else Some (s, ENODEV));
       Some (s\<lparr>hc_bus_errs := 0\<rparr>, status)
     }
     else Some (s, EOK))"

section \<open>Attaching a card\<close>

abbreviation (input) HC_FLAG_DEV_SD :: u32 where "HC_FLAG_DEV_SD \<equiv> 0x10"
abbreviation (input) HC_FLAG_DEV_TYPE :: u32 where "HC_FLAG_DEV_TYPE \<equiv> 0x70"

definition attached :: "u32 \<Rightarrow> sdio_hc \<Rightarrow> sdio_hc" where
  "attached dtype s = (set_dev_flags DEV_FLAG_PRESENT s)\<lparr>dev_dtype := dtype\<rparr>"

fun attach_loop :: "sender \<Rightarrow> sd_os \<Rightarrow> sdio_entry \<Rightarrow> nat \<Rightarrow> u32 \<Rightarrow> u32 list \<Rightarrow> errno \<Rightarrow> sdio_hc \<Rightarrow> (sdio_hc \<times> errno) option" where
  "attach_loop send os ent n dtype [] status s = Some (s, status)"
| "attach_loop send os ent n dtype (clk # clks) status s =
    (let s = s\<lparr>hc_clk_init := max clk (hc_clk_min s)\<rparr>;
         s = (if hc_flags s AND HC_FLAG_SKIP_PWRUP = 0 then fst (sdio_power ent SDIO_PWR_ON s) else s)
     in do {
       (s, sd, status) \<leftarrow> (if dtype = 0 \<or> dtype AND HC_FLAG_DEV_SD \<noteq> 0
         then do { (s, st) \<leftarrow> sd_ident send os ent n s; Some (s, st = EOK, st) } else Some (s, False, status));
       if sd then Some (attached DEV_TYPE_SD s, EOK)
       else do {
         (s, mmc, status) \<leftarrow> (if dtype = 0 \<or> dtype AND HC_FLAG_DEV_MMC \<noteq> 0
           then do { (s, st) \<leftarrow> mmc_ident send os ent s; Some (s, st = EOK, st) } else Some (s, False, status));
         if mmc then Some (attached DEV_TYPE_MMC s, EOK)
         else attach_loop send os ent n dtype clks status
           (fst (sdio_power ent SDIO_PWR_OFF (s\<lparr>hc_flags := hc_flags s AND NOT HC_FLAG_SKIP_PWRUP\<rparr>)))
       }
     })"

definition sdio_attach :: "sender \<Rightarrow> sd_os \<Rightarrow> sdio_entry \<Rightarrow> nat \<Rightarrow> sdio_hc \<Rightarrow> (sdio_hc \<times> errno) option" where
  "sdio_attach send os ent n s =
    (let s = s\<lparr>hc_device := dev_zero, dev_rca := 0, dev_ocr := 0, dev_block_length := 0, dev_dtype := 0, hc_bus_errs := 0\<rparr>;
         dtype = hc_flags s AND HC_FLAG_DEV_TYPE;
         s = (if hc_flags s AND HC_FLAG_SKIP_PWRUP = 0 then fst (sdio_power ent SDIO_PWR_OFF s) else s)
     in attach_loop send os ent n dtype [400000, 300000, 200000, 100000] ENODEV s)"

section \<open>Card detection\<close>

abbreviation (input) DEV_FLAG_INVALID_CARD :: u32 where "DEV_FLAG_INVALID_CARD \<equiv> 4"
abbreviation (input) DEV_FLAG_WRITE_PROTECT :: u32 where "DEV_FLAG_WRITE_PROTECT \<equiv> 0x4000"
abbreviation (input) HC_CAP_CD_WP :: u64 where "HC_CAP_CD_WP \<equiv> 0x800000000"

text \<open>\<open>sdio_cd\<close> up to the wait for the calls under way; \<open>cd\<close> is what the controller has detected. The second
  result says that a card was present, so that its removal is reported.\<close>

definition cd_notice :: "u32 \<Rightarrow> sdio_hc \<Rightarrow> sdio_hc \<times> bool" where
  "cd_notice cd s =
    (if has_flag DEV_FLAG_MEDIA_CHANGE s \<or> cd AND CD_INS = 0 then
       (let s = clr_dev_flags (DEV_FLAG_MEDIA_CHANGE OR DEV_FLAG_INVALID_CARD OR DEV_FLAG_WRITE_PROTECT) s
        in if has_flag DEV_FLAG_PRESENT s then (clr_dev_flags DEV_FLAG_PRESENT s, True) else (s, False))
     else (s, False))"

text \<open>The end of \<open>sdio_cd\<close>; the second result says that a card's insertion is reported.\<close>

definition cd_insert :: "sender \<Rightarrow> sd_os \<Rightarrow> sdio_entry \<Rightarrow> nat \<Rightarrow> u32 \<Rightarrow> sdio_hc \<Rightarrow> (sdio_hc \<times> bool) option" where
  "cd_insert send os ent n cd s =
    (if cd AND CD_INS \<noteq> 0 \<and> \<not> has_flag (DEV_FLAG_PRESENT OR DEV_FLAG_INVALID_CARD) s
     then do {
       (s, status) \<leftarrow> sdio_attach send os ent n s;
       if status = EOK
       then Some (if cd AND CD_WP \<noteq> 0 \<and> hc_caps s AND HC_CAP_CD_WP \<noteq> 0 then set_dev_flags DEV_FLAG_WRITE_PROTECT s else s, True)
       else Some (set_dev_flags DEV_FLAG_INVALID_CARD s, False)
     }
     else Some (s, False))"

text \<open>The whole, when no call is under way; the wait is the subject of \<open>Sdio_Removal\<close>.\<close>

definition sdio_cd :: "sender \<Rightarrow> sd_os \<Rightarrow> sdio_entry \<Rightarrow> nat \<Rightarrow> sdio_hc \<Rightarrow> (sdio_hc \<times> bool \<times> bool) option" where
  "sdio_cd send os ent n s =
    (let (s, cd) = e_cd ent s; (s, gone) = cd_notice cd s;
         s = (if gone \<and> cd = 0 then fst (sdio_power ent SDIO_PWR_OFF s) else s)
     in do { (s, new) \<leftarrow> cd_insert send os ent n cd s; Some (s, gone, new) })"

section \<open>Calls of a client\<close>

text \<open>\<open>struct sdio_device\<close>: its flags and the number of calls under way.\<close>

record sdio_handle =
  dh_flags :: u32
  dh_usage :: u32

abbreviation (input) DEV_FLAG_RMV_PENDING :: u32 where "DEV_FLAG_RMV_PENDING \<equiv> 1"

text \<open>\<open>mc\<close>: the medium has been changed. The last result says that \<open>cd_cond\<close> is signalled.\<close>

definition sdio_synchronize :: "bool \<Rightarrow> bool \<Rightarrow> int \<Rightarrow> sdio_handle \<Rightarrow> sdio_handle \<times> errno \<times> bool" where
  "sdio_synchronize mc io ncmds h =
    (if \<not> io then
       (let h = h\<lparr>dh_flags := dh_flags h OR DEV_FLAG_RMV_PENDING\<rparr> in (h, if dh_usage h \<noteq> 0 then EBUSY else EOK, False))
     else if ncmds \<ge> 0 then
       (if dh_flags h AND DEV_FLAG_RMV_PENDING \<noteq> 0 \<or> mc then (h, ENXIO, False)
        else (h\<lparr>dh_usage := dh_usage h + of_int ncmds\<rparr>, EOK, False))
     else
       (let h = h\<lparr>dh_usage := dh_usage h + of_int ncmds\<rparr>
        in (h, EOK, dh_usage h = 0 \<and> dh_flags h AND DEV_FLAG_RMV_PENDING \<noteq> 0)))"

type_synonym 'a call = "sdio_handle \<times> sdio_hc \<Rightarrow> ((sdio_handle \<times> sdio_hc) \<times> errno \<times> 'a) option"

text \<open>The frame of a call: count it, run \<open>f\<close>, count it out again. Without leave to run the result is \<open>a\<close>.\<close>

definition counted :: "'a \<Rightarrow> (sdio_hc \<Rightarrow> (sdio_hc \<times> errno \<times> 'a) option) \<Rightarrow> 'a call" where
  "counted a f = (\<lambda>(h, s).
    let (h, status, _) = sdio_synchronize (dev_flags (hc_device s) AND DEV_FLAG_MEDIA_CHANGE \<noteq> 0) True 1 h in
    if status \<noteq> EOK then Some ((h, s), status, a)
    else do {
      (s, status, a) \<leftarrow> f s;
      (let (h, _, _) = sdio_synchronize (dev_flags (hc_device s) AND DEV_FLAG_MEDIA_CHANGE \<noteq> 0) True (-1) h
       in Some ((h, s), status, a))
    })"

definition plain_call :: "(sdio_hc \<Rightarrow> (sdio_hc \<times> errno) option) \<Rightarrow> unit call" where
  "plain_call f = counted () (\<lambda>s. do { (s, st) \<leftarrow> f s; Some (s, st, ()) })"

definition api_send_cmd :: "sender \<Rightarrow> u64 \<Rightarrow> u32 \<Rightarrow> nat \<Rightarrow> unit call" where
  "api_send_cmd send p tmo retries = plain_call (send p tmo retries)"

definition api_stop_transmission :: "sender \<Rightarrow> bool \<Rightarrow> unit call" where
  "api_stop_transmission send hpi = plain_call (sdio_stop_transmission send hpi)"

definition api_set_partition :: "sender \<Rightarrow> u32 \<Rightarrow> unit call" where
  "api_set_partition send part =
    plain_call (\<lambda>s. if dev_dtype s = DEV_TYPE_MMC then mmc_set_partition send part s else Some (s, EOK))"

definition api_set_block_count :: "sender \<Rightarrow> u32 \<Rightarrow> u32 \<Rightarrow> unit call" where
  "api_set_block_count send blkcnt flgs = plain_call (sdio_set_block_count send blkcnt flgs)"

definition api_set_block_length :: "sender \<Rightarrow> u32 \<Rightarrow> unit call" where
  "api_set_block_length send blklen = plain_call (sdio_set_block_length send blklen)"

definition api_sd_switch :: "sender \<Rightarrow> sd_os \<Rightarrow> u32 \<Rightarrow> nat \<Rightarrow> u8 \<Rightarrow> u8 list \<Rightarrow> u8 list call" where
  "api_sd_switch send os mode grp val ss = counted ss (sd_switch send os mode grp val ss)"

definition api_mmc_switch :: "sender \<Rightarrow> u32 \<Rightarrow> u32 \<Rightarrow> u32 \<Rightarrow> u32 \<Rightarrow> u32 \<Rightarrow> unit call" where
  "api_mmc_switch send cmdset mode idx val tmo = plain_call (mmc_switch send cmdset mode idx val tmo)"

definition api_mmc_rpmb_rw :: "sender \<Rightarrow> sd_os \<Rightarrow> u32 \<Rightarrow> u8 list \<Rightarrow> u32 \<Rightarrow> u32 \<Rightarrow> u8 list call" where
  "api_mmc_rpmb_rw send os frame pf nf flgs = counted pf (mmc_rpmb_rw send os frame pf nf flgs)"

definition api_mmc_gen_man :: "sender \<Rightarrow> sd_os \<Rightarrow> u8 \<Rightarrow> u8 list \<Rightarrow> u32 \<Rightarrow> u32 \<Rightarrow> u32 \<Rightarrow> u32 \<Rightarrow> u8 list call" where
  "api_mmc_gen_man send os op buf blklen blkcnt arg flgs = counted buf (mmc_gen_man_cmd send os op buf blklen blkcnt arg flgs)"

definition api_send_ext_csd :: "sender \<Rightarrow> sd_os \<Rightarrow> u8 list call" where
  "api_send_ext_csd send os = counted [] (mmc_send_ext_csd send os)"

definition api_wait_card_status :: "sender \<Rightarrow> u32 \<Rightarrow> u32 \<Rightarrow> u32 \<Rightarrow> u32 list call" where
  "api_wait_card_status send msk val msec = counted [] (sdio_wait_card_status send msk val msec)"

definition api_send_status :: "sender \<Rightarrow> bool \<Rightarrow> u32 list call" where
  "api_send_status send hpi = counted [] (sdio_send_status send hpi)"

definition api_retune :: "sender \<Rightarrow> sdio_entry \<Rightarrow> unit call" where
  "api_retune send ent = (\<lambda>(h, s).
    if hc_flags s AND HC_FLAG_TUNE = 0 then Some ((h, s), EOK, ())
    else if dev_flags (hc_device s) AND DEV_FLAG_PRESENT = 0 \<or> hc_flags s AND HC_FLAG_RST \<noteq> 0
    then Some ((h, s\<lparr>hc_flags := hc_flags s AND NOT HC_FLAG_TUNE\<rparr>), EOK, ())
    else plain_call (sdio_retune send ent) (h, s))"

definition api_hpi :: "sender \<Rightarrow> u32 \<Rightarrow> u32 list call" where
  "api_hpi send tmo x =
    (let rdy = CDS_READY_FOR_DATA OR CDS_CUR_STATE_MSK; tran = CDS_READY_FOR_DATA OR CDS_CUR_STATE_TRAN in
     do {
       (x, status, rsp) \<leftarrow> api_wait_card_status send rdy tran tmo x;
       if status \<noteq> ETIMEDOUT then Some (x, status, rsp)
       else do {
         (x, status, rsp) \<leftarrow> (if dev_caps (hc_device (snd x)) AND DEV_CAP_HPI_CMD12 \<noteq> 0
           then do { (x, st, _) \<leftarrow> api_stop_transmission send True x; Some (x, st, rsp) }
           else api_send_status send True x);
         if status \<noteq> EOK then Some (x, status, rsp)
         else api_wait_card_status send rdy tran (10 * ucast (dev_raw_ecsd (hc_device (snd x)) ! 198)) x
       }
     })"

definition api_cache :: "sender \<Rightarrow> sd_os \<Rightarrow> int \<Rightarrow> u32 \<Rightarrow> unit call" where
  "api_cache send os op tmo = (\<lambda>(h, s).
    if dev_caps (hc_device s) AND DEV_CAP_CACHE = 0 then Some ((h, s), ENOTSUP, ())
    else plain_call (sdio_cache send os op tmo) (h, s))"

definition api_pwroff_notify :: "sender \<Rightarrow> sd_os \<Rightarrow> int \<Rightarrow> u32 \<Rightarrow> unit call" where
  "api_pwroff_notify send os op tmo = (\<lambda>(h, s).
    if dev_caps (hc_device s) AND DEV_CAP_PWROFF_NOTIFY = 0 then Some ((h, s), EOK, ())
    else plain_call (\<lambda>s. if dev_dtype s = DEV_TYPE_MMC then mmc_pwroff_notify send op tmo s
                         else sd_pwroff_notify send os op s) (h, s))"

definition api_erase :: "sender \<Rightarrow> u32 \<Rightarrow> u32 \<Rightarrow> u64 \<Rightarrow> u32 \<Rightarrow> unit call" where
  "api_erase send part flgs lba nlba =
    plain_call (\<lambda>s. if dev_dtype s = DEV_TYPE_MMC then mmc_erase send part flgs lba nlba s else sd_erase send flgs lba nlba s)"

definition api_lock_unlock :: "sender \<Rightarrow> sd_os \<Rightarrow> sdio_entry \<Rightarrow> u32 \<Rightarrow> u8 list \<Rightarrow> u32 \<Rightarrow> unit call" where
  "api_lock_unlock send os ent action pwd pwd_len =
    plain_call (\<lambda>s. if dev_dtype s = DEV_TYPE_MMC then Some (s, EINVAL) else sd_lock_unlock send os ent action pwd pwd_len s)"

text \<open>These two drop the result of the work.\<close>

definition api_bus_error :: "sender \<Rightarrow> sd_os \<Rightarrow> sdio_entry \<Rightarrow> unit call" where
  "api_bus_error send os ent = plain_call (\<lambda>s. do { (s, _) \<leftarrow> sdio_bus_error send os ent s; Some (s, EOK) })"

definition api_reset :: "sender \<Rightarrow> sd_os \<Rightarrow> sdio_entry \<Rightarrow> nat \<Rightarrow> unit call" where
  "api_reset send os ent n = plain_call (\<lambda>s. do { (s, _) \<leftarrow> sdio_reset send os ent n s; Some (s, EOK) })"

definition api_idle :: "unit call" where
  "api_idle = plain_call (\<lambda>s. Some (s, EOK))"

text \<open>\<open>_sdio_pwrmgnt\<close> returns at once, for the controller has no \<open>pm\<close>.\<close>

definition api_pwrmgnt :: "unit call" where
  "api_pwrmgnt = plain_call (\<lambda>s. Some (s, EOK))"

definition api_app_read_status :: "sender \<Rightarrow> sd_os \<Rightarrow> u32 list call" where
  "api_app_read_status send os =
    counted [] (\<lambda>s. do { (s, st, sds) \<leftarrow> sd_app_sd_status send os s; Some (s, st, map ENDIAN_BE32 sds) })"

section \<open>Information on a device\<close>

record sdio_dev_info =
  di_dtype :: u32
  di_rca :: u32
  di_flags :: u32
  di_mid :: u32
  di_oid :: u32
  di_prv :: u32
  di_psn :: u32
  di_month :: u32
  di_year :: u32
  di_pnm :: "u8 list"
  di_caps :: u64
  di_sector_size :: u32
  di_native_sector_size :: u32
  di_sectors :: u64
  di_super_page_size :: u32
  di_spec_vers :: u32
  di_spec_rev :: u32
  di_security :: u32
  di_speed_class :: u32
  di_wp_size :: u32
  di_erase_size :: u32
  di_rel_wr_sec_c :: u32
  di_optimal_size :: u32
  di_dtr :: u32
  di_timing :: u32
  di_bus_width :: u32

text \<open>\<open>di_optimal_size\<close> stands for the sizes for trim, read and write, which are the same.\<close>

definition api_dev_info :: "sdio_hc \<Rightarrow> sdio_dev_info" where
  "api_dev_info s =
    (let d = hc_device s; cid = dev_cid d; csd = dev_csd d; e = dev_ecsd d;
         mmc = (dev_dtype s = DEV_TYPE_MMC);
         ext = (mmc \<and> csd_spec_vers csd \<ge> 4 \<and> ecsd_sectors e \<noteq> 0);
         wp = (if csd_write_protect csd \<noteq> 0 \<or> csd_ccc csd AND 0x10 = 0 \<or> dev_flags d AND 0x4000 \<noteq> 0 then 1 else 0);
         locked = (if dev_flags d AND DEV_FLAG_LOCKED \<noteq> 0 then 2 else 0);
         page = (if ext then ecsd_acc_size e else 4096)
     in \<lparr>di_dtype = dev_dtype s, di_rca = dev_rca s, di_flags = wp OR locked, di_mid = cid_mid cid, di_oid = cid_oid cid,
         di_prv = cid_prv cid, di_psn = cid_psn cid, di_month = cid_month cid, di_year = cid_year cid, di_pnm = cid_pnm cid,
         di_caps = dev_caps d, di_sector_size = (if ext then ecsd_blksz e else csd_blksz csd), di_native_sector_size = 4096,
         di_sectors = (if ext then ucast (ecsd_sectors e) else csd_sectors csd), di_super_page_size = page,
         di_spec_vers = (if mmc then ucast (csd_spec_vers csd) else ucast (scr_sd_spec (dev_scr d))),
         di_spec_rev = (if mmc then ucast (ecsd_ext_csd_rev e) else 0),
         di_security = (if mmc then 0 else ucast (scr_sd_security (dev_scr d))),
         di_speed_class = (if mmc then 0 else sds_speed_class (dev_sds d)),
         di_wp_size = dev_wp_size d, di_erase_size = dev_erase_size d, di_rel_wr_sec_c = dev_rel_wr_sec_c d,
         di_optimal_size = page, di_dtr = hc_clk s, di_timing = hc_timing s, di_bus_width = hc_bus_width s\<rparr>)"

end
