(* ===== verification/Sd_Proofs.thy ===== *)
theory Sd_Proofs
  imports Sdio_Dev Sdio_Cmd_Proofs
begin

text \<open>
  What the identification of cards and the calls of clients leave behind. The relation \<open>tidy\<close> says that
  every command block taken has been given back and that no other block was written; the locale \<open>card_bus\<close>
  is the interface to the layers below. Its lemmas go through the functions of \<open>Sd\<close>, \<open>Mmc\<close> and \<open>Sdio_Dev\<close> by
  rules for the shapes of their bodies.
\<close>

section \<open>Tidy functions\<close>

definition tidy :: "sdio_hc \<Rightarrow> sdio_hc \<Rightarrow> bool" where
  "tidy s t \<longleftrightarrow> blocks t = blocks s \<and> (\<forall>q. q \<notin># blocks s \<longrightarrow> cmd_mem t q = cmd_mem s q)"

text \<open>Tidy so far, and block \<open>p\<close> held.\<close>

definition good :: "sdio_hc \<Rightarrow> sdio_hc \<Rightarrow> bool" where
  "good s0 s \<longleftrightarrow> pool_ok s0 \<and> tidy s0 s"

definition held :: "u64 \<Rightarrow> sdio_hc \<Rightarrow> sdio_hc \<Rightarrow> bool" where
  "held p s0 s \<longleftrightarrow> pool_ok s0 \<and> p \<in># blocks s0 \<and> blocks s = blocks s0 - {#p#} \<and>
     (\<forall>q. q \<notin># blocks s0 \<longrightarrow> cmd_mem s q = cmd_mem s0 q)"

text \<open>A property of the state that a function returns, if it returns.\<close>

definition post :: "(sdio_hc \<Rightarrow> bool) \<Rightarrow> (sdio_hc \<times> 'a) option \<Rightarrow> bool" where
  "post P r \<longleftrightarrow> (\<forall>t x. r = Some (t, x) \<longrightarrow> P t)"

definition post1 :: "(sdio_hc \<Rightarrow> bool) \<Rightarrow> sdio_hc option \<Rightarrow> bool" where
  "post1 P r \<longleftrightarrow> (\<forall>t. r = Some t \<longrightarrow> P t)"

lemma good_refl: "pool_ok s \<Longrightarrow> good s s"
  by (simp add: good_def tidy_def)

lemma good_pool: "good s0 s \<Longrightarrow> pool_ok s"
  using pool_ok_cong [of s s0] by (simp add: good_def tidy_def)

lemma held_pool:
  assumes "held p s0 s"
  shows "pool_ok s \<and> p \<noteq> 0 \<and> p \<notin># blocks s"
proof -
  let ?l = "cmd_pool s0 @ cmd_fresh s0"
  have b: "blocks s0 = mset ?l" "blocks s = mset (cmd_pool s @ cmd_fresh s)" by (simp_all add: blocks_def)
  have d: "distinct ?l" "0 \<notin># blocks s0" "p \<in># blocks s0" "blocks s = blocks s0 - {#p#}"
    using assms by (simp_all add: held_def pool_ok_def)
  have "mset (cmd_pool s @ cmd_fresh s) = mset (remove1 p ?l)" using d(4) b by simp
  then have "distinct (cmd_pool s @ cmd_fresh s)" using mset_eq_imp_distinct_iff distinct_remove1 [OF d(1)] by metis
  moreover have "0 \<notin># blocks s" using d(2,4) by (metis in_diffD)
  moreover have "p \<notin># blocks s" using d(1,4) b(1) by (metis distinct_count_atmost_1 count_diff count_single in_multiset_in_set
    d(3) diff_self_eq_0 not_in_iff)
  moreover have "p \<noteq> 0" using d by metis
  ultimately show ?thesis by (simp add: pool_ok_def)
qed

text \<open>Rules for the shapes of bodies. \<open>P\<close> is \<open>good s0\<close> or \<open>held p s0\<close>.\<close>

lemma post_some: "P t \<Longrightarrow> post P (Some (t, x))"
  by (simp add: post_def)

lemma post_none: "post P None"
  by (simp add: post_def)

lemma post_pair: "P (fst r) \<Longrightarrow> post P (Some r)"
  by (cases r) (simp add: post_def)

lemma post_bind:
  assumes "post P r" "\<And>t x. P t \<Longrightarrow> post Q (f t x)"
  shows "post Q (Option.bind r (\<lambda>(t, x). f t x))"
  using assms by (cases r) (fastforce simp: post_def)+

lemma post_bind1:
  assumes "post1 P r" "\<And>t. P t \<Longrightarrow> post Q (g t)"
  shows "post Q (Option.bind r g)"
  using assms by (cases r) (auto simp: post_def post1_def)

lemma post1_bind:
  assumes "post P r" "\<And>t x. P t \<Longrightarrow> post1 Q (f t x)"
  shows "post1 Q (Option.bind r (\<lambda>(t, x). f t x))"
  using assms by (cases r) (fastforce simp: post_def post1_def)+

lemma post1_bind1:
  assumes "post1 P r" "\<And>t. P t \<Longrightarrow> post1 Q (g t)"
  shows "post1 Q (Option.bind r g)"
  using assms by (cases r) (auto simp: post1_def)

lemma post1_some: "P t \<Longrightarrow> post1 P (Some t)"
  by (simp add: post1_def)

lemma post_ok_then:
  assumes "post P r" "\<And>t. P t \<Longrightarrow> post P (f t)"
  shows "post P (ok_then r f)"
  unfolding ok_then_def using assms by (cases r) (fastforce simp: post_def split: if_splits)+

lemma post_map: "post P r \<Longrightarrow> (\<And>t x. P t \<Longrightarrow> P (fst (f (t, x)))) \<Longrightarrow> post P (map_option f r)"
  unfolding post_def by (cases r) (auto, metis fst_conv)

lemma post1_map_fst: "post P r \<Longrightarrow> post1 P (map_option fst r)"
  by (cases r) (auto simp: post_def post1_def)

lemma post_drop_cmd: "post P r \<Longrightarrow> post P (drop_cmd r)"
  unfolding drop_cmd_def by (erule post_map) (simp split: prod.split)

lemma post_if: "(b \<Longrightarrow> post P x) \<Longrightarrow> (\<not> b \<Longrightarrow> post P y) \<Longrightarrow> post P (if b then x else y)"
  by simp

lemma post1_if: "(b \<Longrightarrow> post1 P x) \<Longrightarrow> (\<not> b \<Longrightarrow> post1 P y) \<Longrightarrow> post1 P (if b then x else y)"
  by simp

lemma post_state: "Q (fst r) \<Longrightarrow> (\<And>t x. Q t \<Longrightarrow> post P (f t x)) \<Longrightarrow> post P (case r of (t, x) \<Rightarrow> f t x)"
  for r :: "sdio_hc \<times> 'a"
  by (cases r) simp

lemma post1_state: "Q (fst r) \<Longrightarrow> (\<And>t x. Q t \<Longrightarrow> post1 P (f t x)) \<Longrightarrow> post1 P (case r of (t, x) \<Rightarrow> f t x)"
  for r :: "sdio_hc \<times> 'a"
  by (cases r) simp

lemma post_prod: "(\<And>a b. r = (a, b) \<Longrightarrow> post P (f a b)) \<Longrightarrow> post P (case r of (a, b) \<Rightarrow> f a b)"
  by (cases r) simp

lemma post_option: "(r = None \<Longrightarrow> post P x) \<Longrightarrow> (\<And>y. r = Some y \<Longrightarrow> post P (f y)) \<Longrightarrow> post P (case r of None \<Rightarrow> x | Some y \<Rightarrow> f y)"
  by (cases r) simp_all

lemma post_case:
  assumes "post Q r" "\<And>t x. Q t \<Longrightarrow> post P (f t x)"
  shows "post P (case r of None \<Rightarrow> None | Some y \<Rightarrow> (case y of (t, x) \<Rightarrow> f t x))"
  using assms by (cases r) (fastforce simp: post_def)+

lemma post_let: "post P (f x) \<Longrightarrow> post P (let y = x in f y)"
  by (simp add: Let_def)

lemmas post_rules = post_none post_some post_pair post_ok_then post_drop_cmd post_bind post_bind1 post1_bind post1_bind1 post1_some
  post_if post1_if post_option

text \<open>Updates of the state that keep \<open>good\<close> and \<open>held\<close>.\<close>

lemma keeps_good: "hc_keeps s t \<Longrightarrow> good s0 t \<longleftrightarrow> good s0 s" "hc_keeps s t \<Longrightarrow> held p s0 t \<longleftrightarrow> held p s0 s"
  by (simp_all add: hc_keeps_def good_def tidy_def held_def blocks_def)

lemma good_upd [simp]:
  "good s0 (upd_dev f s) = good s0 s" "good s0 (set_dev_flags c s) = good s0 s" "good s0 (clr_dev_flags c s) = good s0 s"
  "good s0 (pause n s) = good s0 s" "good s0 (s\<lparr>dev_rca := r\<rparr>) = good s0 s" "good s0 (s\<lparr>hc_device := d\<rparr>) = good s0 s"
  "good s0 (s\<lparr>dev_block_length := b\<rparr>) = good s0 s" "good s0 (s\<lparr>hc_flags := g\<rparr>) = good s0 s" "good s0 (s\<lparr>hc_caps := c'\<rparr>) = good s0 s"
  "good s0 (s\<lparr>dev_ocr := o'\<rparr>) = good s0 s" "good s0 (s\<lparr>hc_bus_errs := e\<rparr>) = good s0 s" "good s0 (s\<lparr>hc_clk_init := k\<rparr>) = good s0 s"
  "good s0 (s\<lparr>dev_dtype := y\<rparr>) = good s0 s" "good s0 (s\<lparr>hc_drv_type := v\<rparr>) = good s0 s" "good s0 (s\<lparr>data_mem := m\<rparr>) = good s0 s"
  "good s0 (s\<lparr>hc_device := d, dev_rca := r, dev_ocr := o', dev_block_length := b, dev_dtype := y, hc_bus_errs := e\<rparr>) = good s0 s"
  "good s0 (sdio_hc_event ev s) = good s0 s" "good s0 (sdio_reconcile_errata er s) = good s0 s"
  by (simp_all add: good_def tidy_def blocks_def upd_dev_def set_dev_flags_def clr_dev_flags_def pause_def sdio_hc_event_def
    sdio_reconcile_errata_def split: hc_ev.split)

lemma held_upd [simp]:
  "held p s0 (upd_dev f s) = held p s0 s" "held p s0 (pause k s) = held p s0 s" "held p s0 (s\<lparr>dev_rca := r\<rparr>) = held p s0 s"
  "held p s0 (s\<lparr>hc_caps := c'\<rparr>) = held p s0 s" "held p s0 (s\<lparr>data_mem := m\<rparr>) = held p s0 s" "held p s0 (set_sge a b n s) = held p s0 s"
  by (simp_all add: held_def blocks_def upd_dev_def pause_def set_sge_def)

lemma held_setup [simp]:
  "held p s0 (sdio_setup_cmd p flgs opc arg s) = held p s0 s" "held p s0 (sdio_setup_cmd_io p flgs b n l c m s) = held p s0 s"
  "held p s0 (upd_cmd p g s) = held p s0 s"
  by (auto simp: held_def blocks_def upd_cmd_def sdio_setup_cmd_def sdio_setup_cmd_ext_def sdio_setup_cmd_io_def)

lemma held_free: "held p s0 s \<Longrightarrow> good s0 (sdio_free_cmd p s)"
proof -
  assume h: "held p s0 s"
  have "blocks (sdio_free_cmd p s) = blocks s + {#p#}" by (simp add: blocks_def sdio_free_cmd_def)
  then show ?thesis using h by (simp add: held_def good_def tidy_def sdio_free_cmd_def insert_DiffM2)
qed

text \<open>A function that is tidy by itself is so while a block is held.\<close>

lemma tidy_good: "good s0 s \<Longrightarrow> tidy s t \<Longrightarrow> good s0 t"
  by (simp add: good_def tidy_def)

lemma tidy_held: "held p s0 s \<Longrightarrow> tidy s t \<Longrightarrow> held p s0 t"
  unfolding held_def tidy_def by (metis in_diffD)

lemma post_held:
  assumes "held p s0 s" "\<And>s1. good s1 s \<Longrightarrow> post (good s1) r"
  shows "post (held p s0) r"
proof -
  have "post (good s) r" using assms good_refl held_pool by blast
  then show ?thesis using tidy_held [OF assms(1)] by (auto simp: post_def good_def)
qed

lemma alloc_held:
  assumes "good s0 s" "sdio_alloc_cmd s = (t, p)"
  shows "if p = 0 then good s0 t else held p s0 t"
proof -
  note a = alloc_post [OF assms(2) good_pool [OF assms(1)]]
  show ?thesis
  proof (cases "p = 0")
    case False
    then have b: "blocks s = add_mset p (blocks t)" "\<forall>q. q \<noteq> p \<longrightarrow> cmd_mem t q = cmd_mem s q" using a by simp_all
    have "blocks s0 = add_mset p (blocks t)" using assms(1) b(1) by (simp add: good_def tidy_def)
    then show ?thesis using False assms(1) b(2) by (simp add: good_def tidy_def held_def)
  qed (use a assms(1) in simp)
qed

lemma post_alloc:
  assumes "good s0 s" "\<And>t. good s0 t \<Longrightarrow> post (good s0) (f t 0)" "\<And>t p. p \<noteq> 0 \<Longrightarrow> held p s0 t \<Longrightarrow> post (good s0) (f t p)"
  shows "post (good s0) (case sdio_alloc_cmd s of (t, p) \<Rightarrow> f t p)"
proof (cases "sdio_alloc_cmd s")
  case (Pair t p)
  then show ?thesis using alloc_held [OF assms(1) Pair] assms(2,3) by (cases "p = 0") simp_all
qed

section \<open>The interface to the command layer and the controller\<close>

text \<open>What the code for cards relies on: the function that sends commands writes only the block it is given;
  the controller's calls leave blocks and command memory alone, and tuning is tidy.\<close>

locale card_bus =
  fixes send :: sender and ent :: sdio_entry
  assumes send_rel: "in_use p s \<Longrightarrow> send p tmo r s = Some (t, st) \<Longrightarrow> hc_rel p s t"
    and pwr_keeps: "hc_keeps s (fst (e_pwr ent v s))"
    and clk_keeps: "hc_keeps s (fst (e_clk ent v s))"
    and bus_mode_keeps: "hc_keeps s (fst (e_bus_mode ent v s))"
    and bus_width_keeps: "hc_keeps s (fst (e_bus_width ent v s))"
    and timing_keeps: "hc_keeps s (fst (e_timing ent v s))"
    and signal_voltage_keeps: "hc_keeps s (fst (e_signal_voltage ent v s))"
    and drv_type_keeps: "hc_keeps s (fst (e_drv_type ent v s))"
    and preset_keeps: "hc_keeps s (fst (e_preset ent v s))"
    and cd_keeps: "hc_keeps s (fst (e_cd ent s))"
    and strength_keeps: "e_driver_strength ent = Some f \<Longrightarrow> hc_keeps s (fst (f v w s))"
    and tune_tidy: "good s0 s \<Longrightarrow> post (good s0) (e_tune ent v s)"
begin

lemma good_entry [simp]:
  "good s0 (fst (sdio_bus_mode ent v s)) = good s0 s" "good s0 (fst (sdio_bus_width ent v s)) = good s0 s"
  "good s0 (fst (sdio_timing ent v s)) = good s0 s" "good s0 (fst (sdio_signal_voltage ent v s)) = good s0 s"
  "good s0 (fst (sdio_drv_type ent v s)) = good s0 s" "good s0 (fst (sdio_preset ent v s)) = good s0 s"
  "good s0 (fst (sdio_pwr ent v s)) = good s0 s" "good s0 (fst (e_cd ent s)) = good s0 s"
  by (simp_all add: sdio_bus_mode_def sdio_bus_width_def sdio_timing_def sdio_signal_voltage_def sdio_drv_type_def sdio_preset_def
    sdio_pwr_def keeps_good(1) [OF bus_mode_keeps] keeps_good(1) [OF bus_width_keeps] keeps_good(1) [OF timing_keeps]
    keeps_good(1) [OF signal_voltage_keeps] keeps_good(1) [OF drv_type_keeps] keeps_good(1) [OF preset_keeps]
    keeps_good(1) [OF pwr_keeps] keeps_good(1) [OF cd_keeps])

lemma good_clock [simp]: "good s0 (fst (sdio_clock ent v s)) = good s0 s"
  by (simp add: sdio_clock_def keeps_good(1) [OF clk_keeps])

lemma good_select_voltage [simp]: "good s0 s \<Longrightarrow> good s0 (fst (sdio_select_voltage ent ocr s))"
  by (simp add: sdio_select_voltage_def Let_def split_beta)

lemma good_power [simp]: "good s0 s \<Longrightarrow> good s0 (fst (sdio_power ent v s))"
proof -
  have k: "good s0 (s\<lparr>hc_clk := a, hc_timing := b, hc_bus_width := c, hc_bus_mode := d, hc_signal_voltage := e\<rparr>) = good s0 s" for a b c d e
    by (simp add: good_def tidy_def blocks_def)
  assume "good s0 s"
  then show ?thesis by (simp add: sdio_power_def Let_def k)
qed

lemma send_held: "held p s0 s \<Longrightarrow> post (held p s0) (send p tmo r s)"
proof -
  assume h: "held p s0 s"
  have "held p s0 t" if "send p tmo r s = Some (t, x)" for t x
  proof -
    have "hc_rel p s t" using send_rel that held_pool [OF h] by (simp add: in_use_def)
    then show ?thesis using h by (auto simp: held_def hc_rel_def dest: in_diffD)
  qed
  then show ?thesis by (simp add: post_def)
qed

lemma send_bind:
  assumes "held p s0 s" "\<And>t x. held p s0 t \<Longrightarrow> post P (f t x)"
  shows "post P (Option.bind (send p tmo r s) (\<lambda>(t, x). f t x))"
  using post_bind [OF send_held [OF assms(1)]] assms(2) by blast

lemma send_bind_good:
  assumes "held p s0 s" "\<And>t x. held p s0 t \<Longrightarrow> post (good s0) (f t x)"
  shows "post (good s0) (Option.bind (send p tmo r s) (\<lambda>(t, x). f t x))"
  using send_bind assms by blast

lemma send_bind_held:
  assumes "held p s0 s" "\<And>t x. held p s0 t \<Longrightarrow> post (held p s0) (f t x)"
  shows "post (held p s0) (Option.bind (send p tmo r s) (\<lambda>(t, x). f t x))"
  using send_bind assms by blast

lemma cmd_call_good: "good s0 s \<Longrightarrow> post (good s0) (cmd_call send flgs opc arg r s)"
  unfolding cmd_call_def Let_def
  by (intro post_alloc post_if post_case [where Q = "held p s0" for p] post_some post_none held_free) (auto intro: send_held)

lemma post_tune: "good s0 s \<Longrightarrow> post (good s0) (sdio_tune ent v s)"
  unfolding sdio_tune_def by (rule tune_tidy)

lemmas card_rules = post_alloc send_bind_good send_bind_held post_ok_then post_bind [where P = "good s0" and Q = "good s0" for s0]
  post_drop_cmd post_if post_option post_some post_none post_pair post_state [where Q = "good s0" and P = "good s0" for s0] post_prod
  cmd_call_good post_tune held_free

lemma data_call_good: "good s0 s \<Longrightarrow> post (good s0) (data_call send os flgs opc arg dir len out s)"
  unfolding data_call_def Let_def by (intro card_rules) simp_all

lemma status_good: "good s0 s \<Longrightarrow> post (good s0) (sdio_send_status send hpi s)"
  unfolding sdio_send_status_def by (intro post_map [OF cmd_call_good]) (auto split: prod.split)

lemma wait_loop_good: "good s0 s \<Longrightarrow> post (good s0) (wait_status_loop send msk val n r s)"
proof (induction n arbitrary: r s)
  case 0
  then show ?case by (simp add: post_some)
next
  case (Suc n)
  show ?case unfolding wait_status_loop.simps
    by (intro post_case [where Q = "good s0"] status_good [OF Suc.prems] post_prod post_if post_some) (simp_all add: Suc.IH)
qed

lemma wait_good: "good s0 s \<Longrightarrow> post (good s0) (sdio_wait_card_status send msk val ms s)"
  unfolding sdio_wait_card_status_def by (rule wait_loop_good)

lemma services_good:
  assumes "good s0 s"
  shows "post (good s0) (sdio_send_csd send s)" "post (good s0) (sdio_all_send_cid send s)"
    "post (good s0) (sdio_select_card send rca s)" "post (good s0) (sdio_stop_transmission send hpi s)"
    "post (good s0) (sdio_set_block_length send len s)" "post (good s0) (sdio_set_block_count send cnt flgs s)"
    "post (good s0) (sdio_go_idle send s)"
proof -
  note c = cmd_call_good [OF assms]
  show "post (good s0) (sdio_send_csd send s)" "post (good s0) (sdio_all_send_cid send s)" "post (good s0) (sdio_select_card send rca s)"
    unfolding sdio_send_csd_def sdio_all_send_cid_def sdio_select_card_def by (intro post_map [OF c]; auto split: prod.split)+
  show "post (good s0) (sdio_stop_transmission send hpi s)" "post (good s0) (sdio_set_block_count send cnt flgs s)"
    "post (good s0) (sdio_go_idle send s)"
    unfolding sdio_stop_transmission_def sdio_set_block_count_def sdio_go_idle_def by (intro post_drop_cmd c)+
  show "post (good s0) (sdio_set_block_length send len s)"
    unfolding sdio_set_block_length_def by (intro post_if post_some assms post_map [OF c]) (auto split: prod.split)
qed

section \<open>SD cards\<close>

lemmas base_rules = card_rules data_call_good status_good wait_good services_good

lemma rw_extr_good: "good s0 s \<Longrightarrow> post (good s0) (sd_rw_extr send os dir mio fno mw addr len extr s)"
  unfolding sd_rw_extr_def Let_def by (intro base_rules) simp_all

lemma extr_good:
  assumes "good s0 s"
  shows "post (good s0) (sd_extr_wr send os rsa reg v s)" "post (good s0) (sd_extr_rd send os rsa reg v s)"
  unfolding sd_extr_wr_def sd_extr_rd_def by (intro base_rules rw_extr_good assms; simp)+

lemma extr_poll_good: "good s0 s \<Longrightarrow> post (good s0) (extr_poll send os rsa reg ready always n v s)"
proof (induction n arbitrary: v s)
  case (Suc n)
  show ?case unfolding extr_poll.simps
    by (intro base_rules extr_good(2) [OF Suc.prems]) (simp_all add: Suc.IH)
qed (simp add: post_some)

lemma rca_loop_held: "held p s0 s \<Longrightarrow> post (held p s0) (rca_loop send p n s)"
proof (induction n arbitrary: s)
  case 0
  then show ?case by (subst rca_loop.simps) (intro send_bind_held post_if post_some; simp add: post_some Let_def)
next
  case (Suc n)
  then show ?case by (subst rca_loop.simps) (intro send_bind_held post_if post_some; simp add: post_some Let_def)
qed

lemma relative_addr_good: "good s0 s \<Longrightarrow> post (good s0) (sdio_send_relative_addr send s)"
  unfolding sdio_send_relative_addr_def Let_def
  by (intro post_alloc post_if post_bind [where P = "held p s0" for p] rca_loop_held post_some held_free) (simp_all add: rca_loop_held)

lemmas sd_rules = base_rules rw_extr_good extr_good extr_poll_good relative_addr_good

lemma notify_good: "good s0 s \<Longrightarrow> post (good s0) (sd_pwroff_notify send os op s)"
  unfolding sd_pwroff_notify_def by (intro sd_rules) simp_all

lemma sd_cache_good: "good s0 s \<Longrightarrow> post (good s0) (sd_cache send os op s)"
  unfolding sd_cache_def Let_def by (intro sd_rules) simp_all

lemma voltage_switch_good: "good s0 s \<Longrightarrow> post (good s0) (sd_voltage_switch send s)"
  unfolding sd_voltage_switch_def by (intro sd_rules) simp_all

lemma sd_switch_good: "good s0 s \<Longrightarrow> post (good s0) (sd_switch send os mode grp val ss s)"
  unfolding sd_switch_def Let_def by (intro sd_rules) simp_all

lemma app_data_good:
  assumes "good s0 s"
  shows "post (good s0) (sd_app_send_scr send os s)" "post (good s0) (sd_app_sd_status send os s)"
  unfolding sd_app_send_scr_def sd_app_sd_status_def by (intro sd_rules assms; simp)+

lemma erase_range_held: "held p s0 s \<Longrightarrow> post (held p s0) (erase_range send p a b flgs tmo lba nlba s)"
  unfolding erase_range_def by (intro post_ok_then send_held) simp_all

lemma sd_erase_good: "good s0 s \<Longrightarrow> post (good s0) (sd_erase send flgs lba nlba s)"
  unfolding sd_erase_def Let_def
  by (intro post_alloc post_if post_bind [where P = "held p s0" for p] post_some held_free) (simp_all add: erase_range_held post_some)

lemma if_cond_good: "good s0 s \<Longrightarrow> post (good s0) (sd_send_if_cond send vhs s)"
  unfolding sd_send_if_cond_def Let_def by (intro sd_rules) simp_all

lemma op_cond_loop_held: "held p s0 s \<Longrightarrow> post (held p s0) (op_cond_loop send p retries ocr n s)"
proof (induction n arbitrary: s)
  case (Suc n)
  show ?case unfolding op_cond_loop.simps by (intro send_bind_held post_if post_some Suc) simp_all
qed (simp add: post_some)

lemma op_cond_good: "good s0 s \<Longrightarrow> post (good s0) (op_cond send flgs opc retries n ocr s)"
  unfolding op_cond_def Let_def
  by (intro post_alloc post_if post_bind [where P = "held p s0" for p] post_some held_free) (simp_all add: op_cond_loop_held)

lemma app_op_cond_good: "good s0 s \<Longrightarrow> post (good s0) (sd_app_send_op_cond send ocr s)"
  unfolding sd_app_send_op_cond_def by (rule op_cond_good)

lemmas sd_rules2 = sd_rules voltage_switch_good sd_switch_good app_data_good if_cond_good app_op_cond_good

lemma read_switch_good: "good s0 s \<Longrightarrow> post (good s0) (sd_read_switch send os s)"
  unfolding sd_read_switch_def by (intro sd_rules2) simp_all

lemma read_status_good: "good s0 s \<Longrightarrow> post (good s0) (sd_read_status send os s)"
  unfolding sd_read_status_def by (intro sd_rules2) simp_all

lemma capabilities_good: "good s0 s \<Longrightarrow> post (good s0) (sd_capabilities send os s)"
  unfolding sd_capabilities_def Let_def by (intro sd_rules2 read_status_good read_switch_good) simp_all

lemma bus_set_good:
  assumes "good s0 s"
  shows "post (good s0) (sd_switch_hs send os s)" "post (good s0) (sd_app_set_bus_width send w s)"
    "post (good s0) (sd_set_current_limit send os b c s)" "post (good s0) (sd_init_assd send os s)"
    "post (good s0) (sd_set_bus_speed_mode send os ent b s)"
  unfolding sd_switch_hs_def sd_app_set_bus_width_def sd_set_current_limit_def sd_init_assd_def sd_set_bus_speed_mode_def Let_def
  by (intro sd_rules2 assms; simp)+

lemma bus_width_good: "good s0 s \<Longrightarrow> post (good s0) (sd_set_bus_width send ent wid s)"
  unfolding sd_set_bus_width_def Let_def by (intro sd_rules2 bus_set_good) simp_all

lemma good_strength:
  assumes "good s0 s" "e_driver_strength ent = Some f"
  shows "good s0 (fst (f v w s))"
  using keeps_good(1) [OF strength_keeps [OF assms(2)]] assms(1) by simp

lemma drv_type_good: "good s0 s \<Longrightarrow> post (good s0) (sd_set_drv_type send os ent b d s)"
  unfolding sd_set_drv_type_def Let_def by (intro sd_rules2) (simp_all add: good_strength)

lemma init_uhs_good: "good s0 s \<Longrightarrow> post (good s0) (sd_init_uhs send os ent s)"
  unfolding sd_init_uhs_def Let_def by (intro sd_rules2 bus_width_good drv_type_good bus_set_good) simp_all

lemma init_hs_good: "good s0 s \<Longrightarrow> post (good s0) (sd_init_hs send os ent s)"
  unfolding sd_init_hs_def Let_def by (intro sd_rules2 bus_width_good bus_set_good) simp_all

lemma init_bus_good: "good s0 s \<Longrightarrow> post (good s0) (sd_init_bus send os ent s)"
  unfolding sd_init_bus_def by (intro sd_rules2 init_uhs_good init_hs_good bus_set_good)

text \<open>The block for the command to lock is held while the block length is set and the status read.\<close>

lemma held_calls:
  assumes "held p s0 s"
  shows "post (held p s0) (sdio_set_block_length send len s)" "post (held p s0) (sdio_send_status send hpi s)"
    "post (held p s0) (sdio_set_block_count send cnt flgs s)" "post (held p s0) (sdio_wait_card_status send msk val tmo s)"
  by (rule post_held [OF assms]; intro services_good status_good wait_good; assumption)+

lemmas held_bind = post_bind [where P = "held p s0" and Q = "held p s0" for p s0]

lemma lock_unlock_good: "good s0 s \<Longrightarrow> post (good s0) (sdio_lock_unlock send os op pwd len s)"
  unfolding sdio_lock_unlock_def Let_def
  by (intro post_alloc post_if post_bind [where P = "held p s0" and Q = "good s0" for p] send_bind_held held_bind post_some held_free
      held_calls send_held post_prod) (simp_all add: held_calls send_held)

lemma sd_lock_good: "good s0 s \<Longrightarrow> post (good s0) (sd_lock_unlock send os ent action pwd len s)"
  unfolding sd_lock_unlock_def Let_def by (intro sd_rules2 lock_unlock_good capabilities_good init_bus_good) simp_all

lemma unlock_good: "good s0 s \<Longrightarrow> post (good s0) (sd_unlock send os s)"
  unfolding sd_unlock_def Let_def by (intro sd_rules2 lock_unlock_good) simp_all

lemma ocr_loop_good: "good s0 s \<Longrightarrow> post (good s0) (ocr_loop send ent n ocr s)"
proof (induction n arbitrary: ocr s)
  case (Suc n)
  show ?case unfolding ocr_loop.simps Let_def by (intro sd_rules2 Suc) simp_all
qed (simp add: post_none)

lemma read_regs_good: "good s0 s \<Longrightarrow> post (good s0) (sd_read_regs send s)"
  unfolding sd_read_regs_def Let_def by (intro sd_rules2) (simp_all split: option.split)

lemma still_good: "good s0 s \<Longrightarrow> post1 (good s0) (sd_still_1_8 send os ent s)"
  unfolding sd_still_1_8_def by (intro post1_if post1_bind [where P = "good s0"] read_switch_good post1_some) simp_all

lemmas good_bind1 = post_bind1 [where P = "good s0" and Q = "good s0" for s0]

lemma start_card_good: "good s0 s \<Longrightarrow> post (good s0) (sd_start_card send os ent again s)"
  unfolding sd_start_card_def by (intro sd_rules2 unlock_good capabilities_good good_bind1 still_good init_bus_good) simp_all

lemma name_card_good: "good s0 s \<Longrightarrow> post (good s0) (sd_name_card send os ent again s)"
  unfolding sd_name_card_def Let_def by (intro sd_rules2 read_regs_good start_card_good) simp_all

lemma sd_init_good: "good s0 s \<Longrightarrow> post (good s0) (sd_init_device send os ent n ocr again s)"
  unfolding sd_init_device_def by (intro sd_rules2 ocr_loop_good name_card_good) simp_all

lemma sd_ident_good: "good s0 s \<Longrightarrow> post (good s0) (sd_ident send os ent n s)"
  unfolding sd_ident_def by (intro sd_rules2 sd_init_good) simp_all

lemma sd_bus_error_good: "good s0 s \<Longrightarrow> post (good s0) (sd_bus_error send os ent s)"
  unfolding sd_bus_error_def by (intro init_bus_good) simp

section \<open>MMC devices\<close>

lemma switch_rdy_good: "good s0 s \<Longrightarrow> post (good s0) (mmc_switch_rdy send w c m i v tmo s)"
  unfolding mmc_switch_rdy_def Let_def
  by (intro post_alloc post_if send_bind_good post_bind [where P = "held p s0" and Q = "good s0" for p] held_bind post_some held_free
      held_calls post_prod) (simp_all add: held_calls)

lemma mmc_switch_good: "good s0 s \<Longrightarrow> post (good s0) (mmc_switch send c m i v tmo s)"
  unfolding mmc_switch_def by (rule switch_rdy_good)

lemmas mmc_rules = sd_rules2 switch_rdy_good mmc_switch_good

lemma rpmb_good: "good s0 s \<Longrightarrow> post (good s0) (mmc_rpmb_rw send os fr pf nf flgs s)"
  unfolding mmc_rpmb_rw_def Let_def
  by (intro post_alloc post_if send_bind_good post_bind [where P = "held p s0" and Q = "good s0" for p] post_some held_free held_calls)
    (simp_all add: held_calls)

lemma gen_man_good: "good s0 s \<Longrightarrow> post (good s0) (mmc_gen_man_cmd send os op buf bl bc arg flgs s)"
  unfolding mmc_gen_man_cmd_def Let_def
  by (intro post_alloc post_if send_bind_good post_bind [where P = "held p s0" and Q = "good s0" for p] post_some held_free held_calls)
    (simp_all add: held_calls post_some)

lemma set_partition_good: "good s0 s \<Longrightarrow> post (good s0) (mmc_set_partition send part s)"
  unfolding mmc_set_partition_def by (intro mmc_rules) simp_all

lemma sleep_good: "good s0 s \<Longrightarrow> post (good s0) (mmc_sleep_awake send slp s)"
  unfolding mmc_sleep_awake_def Let_def by (intro mmc_rules) simp_all

lemma mmc_cache_good: "good s0 s \<Longrightarrow> post (good s0) (mmc_cache send op tmo s)"
  unfolding mmc_cache_def by (intro mmc_rules) simp_all

lemma mmc_notify_good: "good s0 s \<Longrightarrow> post (good s0) (mmc_pwroff_notify send op tmo s)"
  unfolding mmc_pwroff_notify_def by (intro mmc_rules) simp_all

lemma wait_held:
  assumes "held p s0 s"
  shows "post (held p s0) (Option.bind (sdio_wait_card_status send msk val tmo s) (\<lambda>(s, status, x). Some (s, status)))"
  by (intro held_bind held_calls assms post_prod post_some)

lemma mmc_erase_good: "good s0 s \<Longrightarrow> post (good s0) (mmc_erase send part flgs lba nlba s)"
  unfolding mmc_erase_def Let_def
  by (intro post_ok_then set_partition_good post_alloc post_if post_bind [where P = "held p s0" and Q = "good s0" for p] post_some
      held_free) (simp_all add: erase_range_held wait_held)

lemma mmc_ext_csd_good: "good s0 s \<Longrightarrow> post (good s0) (mmc_send_ext_csd send os s)"
  unfolding mmc_send_ext_csd_def by (rule data_call_good)

lemma set_rca_good: "good s0 s \<Longrightarrow> post (good s0) (mmc_set_relative_addr send a s)"
  unfolding mmc_set_relative_addr_def by (intro mmc_rules)

lemma mmc_op_cond_good: "good s0 s \<Longrightarrow> post (good s0) (mmc_send_op_cond send ocr s)"
  unfolding mmc_send_op_cond_def by (rule op_cond_good)

lemma bus_test_good: "good s0 s \<Longrightarrow> post (good s0) (mmc_bus_test send os wid s)"
  unfolding mmc_bus_test_def Let_def by (intro mmc_rules) simp_all

lemma width_loop_good: "good s0 s \<Longrightarrow> post (good s0) (width_loop send os ent ws s)"
proof (induction ws arbitrary: s)
  case (Cons w ws)
  show ?case unfolding width_loop.simps by (intro mmc_rules bus_test_good Cons) (simp_all add: Cons.prems)
qed (simp add: post_some)

lemma mmc_width_good: "good s0 s \<Longrightarrow> post (good s0) (mmc_bus_width send os ent flg s)"
  unfolding mmc_bus_width_def Let_def by (intro mmc_rules width_loop_good)

lemma init_hs_mmc_good: "good s0 s \<Longrightarrow> post (good s0) (mmc_init_hs send ent s)"
  unfolding mmc_init_hs_def Let_def by (intro mmc_rules) simp_all

lemma enter_hs200_good: "good s0 s \<Longrightarrow> post (good s0) (mmc_enter_hs200 send ent wid s)"
  unfolding mmc_enter_hs200_def Let_def by (intro mmc_rules) simp_all

lemma low_voltage_good [simp]: "good s0 s \<Longrightarrow> good s0 (fst (low_voltage ent a b s))"
  by (simp add: low_voltage_def split_beta Let_def)

lemma hs200_good: "good s0 s \<Longrightarrow> post (good s0) (mmc_init_hs200 send ent wid s)"
  unfolding mmc_init_hs200_def by (intro mmc_rules enter_hs200_good) simp_all

lemma hs400es_good: "good s0 s \<Longrightarrow> post (good s0) (mmc_init_hs400es send ent wid s)"
  unfolding mmc_init_hs400es_def by (intro mmc_rules) simp_all

lemma wait_ready_good: "good s0 s \<Longrightarrow> post (good s0) (wait_ready send s)"
  unfolding wait_ready_def by (intro mmc_rules)

lemma to_hs400_good: "good s0 s \<Longrightarrow> post (good s0) (mmc_hs200_to_hs400 send ent s)"
  unfolding mmc_hs200_to_hs400_def by (intro mmc_rules wait_ready_good) simp_all

lemma hs400_good: "good s0 s \<Longrightarrow> post (good s0) (mmc_init_hs400 send ent wid s)"
  unfolding mmc_init_hs400_def by (intro mmc_rules enter_hs200_good to_hs400_good) simp_all

lemma to_hs200_good: "good s0 s \<Longrightarrow> post (good s0) (mmc_hs400_to_hs200 send ent s)"
  unfolding mmc_hs400_to_hs200_def by (intro mmc_rules wait_ready_good) simp_all

lemma mmc_retune_good: "good s0 s \<Longrightarrow> post (good s0) (mmc_retune send ent s)"
  unfolding mmc_retune_def Let_def by (intro mmc_rules to_hs400_good to_hs200_good)

lemma init_ddr_good: "good s0 s \<Longrightarrow> post (good s0) (mmc_init_ddr send ent wid s)"
  unfolding mmc_init_ddr_def by (intro mmc_rules) simp_all

lemma try_good:
  assumes "good s0 s" "\<And>s. good s0 s \<Longrightarrow> post (good s0) (f s)"
  shows "post1 (good s0) (try_mode c f s)"
  unfolding try_mode_def by (intro post1_if post1_map_fst post1_some assms)

lemmas good1_bind1 = post1_bind1 [where P = "good s0" and Q = "good s0" for s0]

lemma try_modes_good: "good s0 s \<Longrightarrow> post1 (good s0) (mmc_try_modes send ent wid s)"
  unfolding mmc_try_modes_def
  by (intro good1_bind1 try_good hs400es_good hs400_good hs200_good init_hs_mmc_good init_ddr_good mmc_rules) simp_all

lemma mmc_init_bus_good: "good s0 s \<Longrightarrow> post (good s0) (mmc_init_bus send os ent s)"
  unfolding mmc_init_bus_def Let_def by (intro mmc_rules good_bind1 mmc_width_good try_modes_good) simp_all

lemma mmc_regs_good: "good s0 s \<Longrightarrow> post (good s0) (mmc_read_regs send s)"
  unfolding mmc_read_regs_def Let_def by (intro mmc_rules) simp_all

lemma mmc_ecsd_good: "good s0 s \<Longrightarrow> post (good s0) (mmc_read_ecsd send os s)"
proof -
  have k: "good s0 (t\<lparr>hc_device := d, hc_drv_type := v\<rparr>) = good s0 t" for t d v by (simp add: good_def tidy_def blocks_def)
  assume "good s0 s"
  then show ?thesis unfolding mmc_read_ecsd_def Let_def by (intro mmc_rules mmc_ext_csd_good) (simp_all add: k)
qed

lemma features_good: "good s0 s \<Longrightarrow> post (good s0) (mmc_set_features send rocr s)"
  unfolding mmc_set_features_def Let_def by (intro mmc_rules) simp_all

lemma apply_errata_good [simp]: "good s0 (mmc_apply_errata s) = good s0 s"
  by (simp add: mmc_apply_errata_def Let_def split: option.split)

lemma mmc_start_good: "good s0 s \<Longrightarrow> post (good s0) (mmc_start_device send os ent rocr again s)"
  unfolding mmc_start_device_def Let_def by (intro mmc_rules mmc_ecsd_good features_good mmc_init_bus_good) simp_all

lemma mmc_init_good: "good s0 s \<Longrightarrow> post (good s0) (mmc_init_device send os ent ocr again s)"
  unfolding mmc_init_device_def Let_def
  by (intro mmc_rules mmc_op_cond_good set_rca_good mmc_regs_good mmc_start_good) simp_all

lemma mmc_ident_good: "good s0 s \<Longrightarrow> post (good s0) (mmc_ident send os ent s)"
  unfolding mmc_ident_def by (intro mmc_rules mmc_init_good mmc_op_cond_good) simp_all

lemma mmc_bus_error_good: "good s0 s \<Longrightarrow> post (good s0) (mmc_bus_error send os ent s)"
  unfolding mmc_bus_error_def by (intro mmc_init_bus_good) simp

section \<open>The device and its clients\<close>

lemma cache_good: "good s0 s \<Longrightarrow> post (good s0) (sdio_cache send os op tmo s)"
  unfolding sdio_cache_def by (intro post_if sd_cache_good mmc_cache_good)

lemma reset_loop_good: "good s0 s \<Longrightarrow> post (good s0) (dev_reset_loop send os ent n retry s)"
proof (induction retry arbitrary: s rule: less_induct)
  case (less retry)
  have c: "post (good s0) (case retry of Suc (Suc r) \<Rightarrow> dev_reset_loop send os ent n (Suc r) t | _ \<Rightarrow> Some (t, st))" if "good s0 t" for t st
    using less.IH that by (auto simp: post_some split: nat.split)
  show ?case by (subst dev_reset_loop.simps, unfold Let_def)
    (intro mmc_rules mmc_init_good sd_init_good c; simp add: less.prems)
qed

lemma reset_good: "good s0 s \<Longrightarrow> post (good s0) (sdio_reset send os ent n s)"
proof -
  have k: "good s0 (t\<lparr>hc_flags := g, dev_rca := r\<rparr>) = good s0 t" for t g r by (simp add: good_def tidy_def blocks_def)
  assume "good s0 s"
  then show ?thesis unfolding sdio_reset_def Let_def by (intro mmc_rules reset_loop_good) (simp_all add: k)
qed

lemma retune_good: "good s0 s \<Longrightarrow> post (good s0) (sdio_retune send ent s)"
  unfolding sdio_retune_def by (intro mmc_rules mmc_retune_good) simp_all

lemma bus_error_good: "good s0 s \<Longrightarrow> post (good s0) (sdio_bus_error send os ent s)"
  unfolding sdio_bus_error_def Let_def by (intro mmc_rules mmc_bus_error_good sd_bus_error_good) simp_all

lemma attached_good [simp]: "good s0 (attached t s) = good s0 s"
  by (simp add: attached_def)

lemma attach_loop_good: "good s0 s \<Longrightarrow> post (good s0) (attach_loop send os ent n dtype clks st s)"
proof (induction clks arbitrary: st s)
  case (Cons c clks)
  show ?case unfolding attach_loop.simps Let_def
    by (intro mmc_rules sd_ident_good mmc_ident_good Cons.IH) (simp_all add: Cons.prems)
qed (simp add: post_some)

lemma attach_good: "good s0 s \<Longrightarrow> post (good s0) (sdio_attach send os ent n s)"
  unfolding sdio_attach_def Let_def by (intro attach_loop_good) simp

lemma notice_good [simp]: "good s0 (fst (cd_notice cd s)) = good s0 s"
  by (simp add: cd_notice_def Let_def)

lemma insert_good: "good s0 s \<Longrightarrow> post (good s0) (cd_insert send os ent n cd s)"
  unfolding cd_insert_def by (intro mmc_rules attach_good) simp_all

lemma cd_good: "good s0 s \<Longrightarrow> post (good s0) (sdio_cd send os ent n s)"
  unfolding sdio_cd_def Let_def by (intro mmc_rules insert_good) simp_all

end

end
