(* ===== verification/Sdio_Board.thy ===== *)
theory Sdio_Board
  imports Sd_Proofs
begin

text \<open>
  Identification, errors and calls of clients on the board: the locale \<open>card_bus\<close> for the entry table that
  \<open>bcm2712_bs_init\<close> sets up, and the properties that follow from it.
\<close>

section \<open>The controller's calls keep command blocks\<close>

text \<open>Rewriting of the relation: each step of a call keeps what the state before it kept.\<close>

lemma keeps_left: "hc_keeps s t \<Longrightarrow> hc_keeps r t \<longleftrightarrow> hc_keeps r s"
  by (auto simp: hc_keeps_def)

lemma keeps_upd [simp]:
  "hc_keeps r (s\<lparr>hc_vdd := a\<rparr>) = hc_keeps r s" "hc_keeps r (s\<lparr>hc_bus_mode := a\<rparr>) = hc_keeps r s"
  "hc_keeps r (s\<lparr>hc_bus_width := a\<rparr>) = hc_keeps r s" "hc_keeps r (s\<lparr>hc_clk := a\<rparr>) = hc_keeps r s"
  "hc_keeps r (s\<lparr>hc_timing := a\<rparr>) = hc_keeps r s" "hc_keeps r (s\<lparr>hc_signal_voltage := a\<rparr>) = hc_keeps r s"
  "hc_keeps r (s\<lparr>hc_drv_type := a\<rparr>) = hc_keeps r s" "hc_keeps r (pause n s) = hc_keeps r s"
  by (auto simp: hc_keeps_def pause_def)

lemmas keeps_calls = keeps_left [OF keeps_out] keeps_left [OF keeps_in] keeps_left [OF keeps_log [OF log_only_reset]]
  keeps_left [OF keeps_log [OF log_only_waitmask]]

lemma keeps_pwr: "hc_keeps r (fst (sdhci_pwr env v s)) = hc_keeps r s"
  by (simp add: sdhci_pwr_def pwr_card_ie_def Let_def split_beta keeps_calls split: option.split)

lemma keeps_clk: "hc_keeps r (fst (sdhci_clk env v s)) = hc_keeps r s"
  by (simp add: sdhci_clk_def clk_divider_def Let_def split_beta keeps_calls)

lemma keeps_timing: "hc_keeps r (fst (sdhci_timing env v s)) = hc_keeps r s"
  by (simp add: sdhci_timing_def Let_def split_beta keeps_calls keeps_clk)

lemma keeps_voltage: "hc_keeps r (fst (sdhci_signal_voltage env v s)) = hc_keeps r s"
  by (simp add: sdhci_signal_voltage_def sv_3_3_def sv_1_8_def sv_fail_def Let_def split_beta keeps_calls)

lemma keeps_sets:
  "hc_keeps r (fst (sdhci_bus_mode v s)) = hc_keeps r s" "hc_keeps r (fst (sdhci_bus_width env v s)) = hc_keeps r s"
  "hc_keeps r (fst (sdhci_drv_type env v s)) = hc_keeps r s" "hc_keeps r (fst (sdhci_preset env v s)) = hc_keeps r s"
  "hc_keeps r (fst (sdhci_cd env s)) = hc_keeps r s"
  by (simp_all add: sdhci_bus_mode_def sdhci_bus_width_def sdhci_drv_type_def sdhci_preset_def sdhci_cd_def Let_def split_beta keeps_calls)

lemma keeps_board_voltage: "hc_keeps r (fst (bcm2712_signal_voltage ok env (sdhci_signal_voltage env) v s)) = hc_keeps r s"
  by (simp add: bcm2712_signal_voltage_def get_vdd_sd_io_state_def set_vdd_sd_io_state_def gpio_state_def Let_def split_beta keeps_calls
    keeps_voltage)

section \<open>Tuning is tidy\<close>

interpretation sdcore: hc_driver "sdhci_core n env" for n env
  using sdhc.hc_driver_axioms [of n env] by (simp add: hc_driver_def sdhci_entry_def)

lemma issue_held:
  assumes "held p s0 s" "cmd_status (cmd_mem s p) = CS_CMD_INPROG"
  shows "post (held p s0) (sdio_issue_cmd (sdhci_core n env) env p s)"
proof -
  have "held p s0 t" if "sdio_issue_cmd (sdhci_core n env) env p s = Some (t, x)" for t x
  proof -
    have "hc_rel p s t" using sdcore.issue_post [OF that _ assms(2)] held_pool [OF assms(1)] by blast
    then show ?thesis using assms(1) by (auto simp: held_def hc_rel_def dest: in_diffD)
  qed
  then show ?thesis by (simp add: post_def)
qed

lemma held_log [simp]: "held p s0 (in_drop env n s) = held p s0 s" "held p s0 (fst (sdhci_in env w r s)) = held p s0 s"
  "held p s0 (sdhci_out w r v s) = held p s0 s"
proof -
  show i: "held p s0 (fst (sdhci_in env w r s)) = held p s0 s" for w r s by (rule keeps_good(2) [OF keeps_in])
  show "held p s0 (sdhci_out w r v s) = held p s0 s" by (rule keeps_good(2) [OF keeps_out])
  show "held p s0 (in_drop env n s) = held p s0 s" by (induction n arbitrary: s) (simp_all add: i)
qed

lemma good_log [simp]: "good s0 (fst (sdhci_in env w r s)) = good s0 s" "good s0 (sdhci_out w r v s) = good s0 s"
  by (rule keeps_good(1) [OF keeps_in], rule keeps_good(1) [OF keeps_out])

lemma tune_loop_held:
  "held p s0 s \<Longrightarrow> post (held p s0) (tune_loop (sdio_issue_cmd (sdhci_core n env) env) env p opc tlen k st h s)"
proof (induction k arbitrary: st h s)
  case 0
  then show ?case by (simp add: post_some)
next
  case (Suc k)
  let ?s = "sdio_setup_cmd_io p SCF_DIR_IN 1 tlen 0 0 0 (sdio_setup_cmd p (SCF_CTYPE_ADTC OR SCF_RSP_R1) opc 0
    (upd_cmd p (\<lambda>c. c\<lparr>cmd_status := CS_CMD_INPROG\<rparr>) s))"
  have "held p s0 ?s" "cmd_status (cmd_mem ?s p) = CS_CMD_INPROG"
    using Suc.prems by (simp, simp add: sdio_setup_cmd_io_def sdio_setup_cmd_def sdio_setup_cmd_ext_def upd_cmd_def)
  from issue_held [OF this] show ?case unfolding tune_loop.simps Let_def
    by (intro post_case [where Q = "held p s0"] post_if post_some post_state [where Q = "held p s0"] Suc.IH) simp_all
qed

lemma tune_case:
  assumes "held p s0 s" "\<And>t x. held p s0 t \<Longrightarrow> post P (f t x)"
  shows "post P (case tune_loop (sdio_issue_cmd (sdhci_core n env) env) env p opc tlen k st h s of
    None \<Rightarrow> None | Some y \<Rightarrow> (case y of (t, x) \<Rightarrow> f t x))"
  using post_case [OF tune_loop_held [OF assms(1)]] assms(2) by blast

lemma tune_good: "good s0 s \<Longrightarrow> post (good s0) (sdhci_tune (sdio_issue_cmd (sdhci_core n env) env) env opc s)"
  unfolding sdhci_tune_def Let_def
  by (intro post_if post_some post_alloc post_state [where Q = "good s0" and r = "sdhci_in a b c d" for a b c d]
      tune_case post_prod)
    (auto simp: held_free split: if_splits)

section \<open>The board's table\<close>

definition board_entry :: "nat \<Rightarrow> bool \<Rightarrow> sdio_env \<Rightarrow> sdio_entry" where
  "board_entry n ok env =
    (sdhci_entry n env)\<lparr>e_signal_voltage := bcm2712_signal_voltage ok env (e_signal_voltage (sdhci_entry n env)),
      e_tune := bcm2712_sdhci_tune (e_tune (sdhci_entry n env))\<rparr>"

text \<open>It is the table that the driver has after a successful initialisation.\<close>

lemma board_entry_init:
  "bcm2712_bs_init n ok env res base options s = (t, EOK, Some ent) \<Longrightarrow> ent = board_entry n ok env"
  by (auto simp: bcm2712_bs_init_def board_entry_def Let_def split: prod.splits if_splits)

interpretation bdhc: hc_driver "board_entry n ok env" for n ok env
  using sdhc.hc_driver_axioms [of n env] by (simp add: hc_driver_def board_entry_def)

text \<open>\<open>_sdio_send_cmd\<close> over this table.\<close>

definition board_send :: "nat \<Rightarrow> bool \<Rightarrow> sdio_env \<Rightarrow> sender" where
  "board_send n ok env = sdio_send_cmd 1 (board_entry n ok env) env"

interpretation board: card_bus "board_send n ok env" "board_entry n ok env" for n ok env
proof unfold_locales
  show "hc_rel p s t" if "in_use p s" "board_send n ok env p tmo r s = Some (t, st)" for p s tmo r t st
    using bdhc.send_cmd_post [OF that(1) that(2) [unfolded board_send_def]] ..
  show "post (good s0) (e_tune (board_entry n ok env) v s)" if "good s0 s" for s0 v s
    using tune_good [OF that] by (simp add: board_entry_def sdhci_entry_def bcm2712_sdhci_tune_def)
qed (simp_all add: board_entry_def sdhci_entry_def sdhci_core_def keeps_pwr keeps_clk keeps_timing keeps_sets keeps_board_voltage)

section \<open>Calls of clients\<close>

text \<open>A call that counts itself out again and is tidy.\<close>

definition fair_call :: "'a call \<Rightarrow> bool" where
  "fair_call c \<longleftrightarrow> (\<forall>h s h' t r. pool_ok s \<longrightarrow> c (h, s) = Some ((h', t), r) \<longrightarrow> h' = h \<and> tidy s t)"

lemma fair_callD: "fair_call c \<Longrightarrow> c (h, s) = Some ((h', t), r) \<Longrightarrow> pool_ok s \<Longrightarrow> h' = h \<and> tidy s t"
  unfolding fair_call_def by blast

lemma post_tidy: "(\<And>s0. good s0 s \<Longrightarrow> post (good s0) r) \<Longrightarrow> pool_ok s \<Longrightarrow> r = Some (t, x) \<Longrightarrow> tidy s t"
  unfolding post_def using good_refl [of s] by (simp add: good_def)

text \<open>Counting in and out.\<close>

lemma counted_cases:
  assumes "counted a f (h, s) = Some ((h', t), st, b)"
  shows "h' = h \<and> ((t = s \<and> st = ENXIO \<and> b = a) \<or>
    dh_flags h AND DEV_FLAG_RMV_PENDING = 0 \<and> dev_flags (hc_device s) AND DEV_FLAG_MEDIA_CHANGE = 0 \<and> f s = Some (t, st, b))"
  using assms
  by (auto simp: counted_def sdio_synchronize_def Let_def split: prod.splits if_splits option.splits bind_splits)

lemma fair_counted:
  assumes "\<And>s0 s. good s0 s \<Longrightarrow> post (good s0) (f s)"
  shows "fair_call (counted a f)"
  unfolding fair_call_def
proof (intro allI impI)
  fix h s h' t r
  assume s: "pool_ok s" "counted a f (h, s) = Some ((h', t), r)"
  obtain st b where r: "r = (st, b)" by (cases r)
  have "tidy s s" by (simp add: tidy_def)
  then show "h' = h \<and> tidy s t" using counted_cases [OF s(2) [unfolded r]] post_tidy [OF assms s(1)] by blast
qed

lemma fair_plain:
  assumes "\<And>s0 s. good s0 s \<Longrightarrow> post (good s0) (f s)"
  shows "fair_call (plain_call f)"
  unfolding plain_call_def
  by (intro fair_counted post_bind [where P = "good s0" for s0]) (auto intro: assms post_some)

lemma fair_if: "fair_call c \<Longrightarrow> fair_call d \<Longrightarrow> fair_call (\<lambda>x. if P x then c x else d x)"
  by (simp add: fair_call_def)

lemma fair_return:
  assumes "\<And>s. tidy s (f s)"
  shows "fair_call (\<lambda>(h, s). Some ((h, f s), r))"
  using assms by (auto simp: fair_call_def)

text \<open>One call after another.\<close>

lemma fair_bind:
  assumes "fair_call c" "\<And>r. fair_call (d r)"
  shows "fair_call (\<lambda>x. Option.bind (c x) (\<lambda>(x, r). d r x))"
  unfolding fair_call_def
proof (intro allI impI)
  fix h s h' t r
  assume s: "pool_ok s" "Option.bind (c (h, s)) (\<lambda>(x, r). d r x) = Some ((h', t), r)"
  then obtain g u q where u: "c (h, s) = Some ((g, u), q)" "d q (g, u) = Some ((h', t), r)"
    by (auto split: bind_splits)
  have a: "g = h" "tidy s u" using fair_callD [OF assms(1) u(1) s(1)] by simp_all
  then have "pool_ok u" using s(1) pool_ok_cong [of u s] by (simp add: tidy_def)
  from fair_callD [OF assms(2) u(2) this] a show "h' = h \<and> tidy s t" by (auto simp: tidy_def)
qed

lemma fair_guard:
  assumes "fair_call c" "\<And>s. tidy s (f s)"
  shows "fair_call (\<lambda>(h, s). if P s then Some ((h, f s), r) else c (h, s))"
  using assms by (auto simp: fair_call_def)

section \<open>The calls of \<open>card.c\<close> on the board\<close>

context card_bus
begin

lemma fair_calls:
  "fair_call (api_stop_transmission send hpi)" "fair_call (api_set_block_count send cnt flgs)" "fair_call (api_set_block_length send len)"
  "fair_call (api_mmc_switch send cs m i v tmo)" "fair_call (api_bus_error send os ent)" "fair_call (api_reset send os ent n)"
  unfolding api_stop_transmission_def api_set_block_count_def api_set_block_length_def api_mmc_switch_def api_bus_error_def
    api_reset_def
  by (intro fair_plain base_rules services_good mmc_switch_good bus_error_good reset_good; assumption)+

lemma fair_data_calls:
  "fair_call (api_sd_switch send os mode grp fn ss)" "fair_call (api_mmc_rpmb_rw send os fr pf nf flgs)"
  "fair_call (api_mmc_gen_man send os op buf bl bc arg flgs)" "fair_call (api_send_ext_csd send os)"
  "fair_call (api_wait_card_status send msk val ms)" "fair_call (api_send_status send hpi)" "fair_call (api_app_read_status send os)"
  unfolding api_sd_switch_def api_mmc_rpmb_rw_def api_mmc_gen_man_def api_send_ext_csd_def api_wait_card_status_def
    api_send_status_def api_app_read_status_def
  by (intro fair_counted base_rules sd_switch_good rpmb_good gen_man_good mmc_ext_csd_good wait_good status_good app_data_good; assumption)+

lemma fair_typed_calls:
  "fair_call (api_set_partition send part)" "fair_call (api_erase send part flgs lba nlba)"
  "fair_call (api_lock_unlock send os ent action pwd len)" "fair_call api_idle" "fair_call api_pwrmgnt"
  unfolding api_set_partition_def api_erase_def api_lock_unlock_def api_idle_def api_pwrmgnt_def
  by (intro fair_plain post_if post_some set_partition_good mmc_erase_good sd_erase_good sd_lock_good; assumption)+

lemma fair_guarded_calls:
  "fair_call (api_cache send os op tmo)" "fair_call (api_pwroff_notify send os op tmo)" "fair_call (api_retune send ent)"
proof -
  have t: "tidy s s" "tidy s (s\<lparr>hc_flags := f\<rparr>)" for s f by (simp_all add: tidy_def blocks_def)
  show "fair_call (api_cache send os op tmo)" "fair_call (api_pwroff_notify send os op tmo)"
    unfolding api_cache_def api_pwroff_notify_def
    by (intro fair_guard [where f = "\<lambda>s. s"] fair_plain cache_good post_if mmc_notify_good notify_good t; assumption)+
  have "fair_call (plain_call (sdio_retune send ent))" by (intro fair_plain retune_good)
  then show "fair_call (api_retune send ent)" unfolding api_retune_def using t by (auto simp: fair_call_def)
qed

lemma fair_hpi: "fair_call (api_hpi send tmo)"
proof -
  let ?rdy = "CDS_READY_FOR_DATA OR CDS_CUR_STATE_MSK" and ?tran = "CDS_READY_FOR_DATA OR CDS_CUR_STATE_TRAN"
  define stop where "stop = (\<lambda>rsp :: u32 list. \<lambda>x. if dev_caps (hc_device (snd x)) AND DEV_CAP_HPI_CMD12 \<noteq> 0
    then Option.bind (api_stop_transmission send True x) (\<lambda>(x, st, _). Some (x, st, rsp)) else api_send_status send True x)"
  define again where "again = (\<lambda>(status, rsp :: u32 list) x. if status \<noteq> EOK then Some (x, status, rsp)
    else api_wait_card_status send ?rdy ?tran (10 * ucast (dev_raw_ecsd (hc_device (snd x)) ! 198)) x)"
  define rest where "rest = (\<lambda>(status, rsp) x. if status \<noteq> ETIMEDOUT then Some (x, status, rsp)
    else Option.bind (stop rsp x) (\<lambda>(x, r). again r x))"
  have w: "fair_call (\<lambda>x. api_wait_card_status send msk val (m x) x)" for msk val m
    using fair_data_calls(5) by (simp add: fair_call_def)
  have k: "fair_call (\<lambda>x. Some (x, q))" for q :: "errno \<times> u32 list" by (simp add: fair_call_def tidy_def)
  have "fair_call (\<lambda>x. Option.bind (api_stop_transmission send True x) (\<lambda>(x, st, _). Some (x, st, rsp)))" for rsp :: "u32 list"
    using fair_calls(1) by (fastforce simp: fair_call_def split: bind_splits)
  then have "fair_call (stop rsp)" for rsp unfolding stop_def by (intro fair_if fair_data_calls(6))
  moreover have "fair_call (again r)" for r unfolding again_def by (cases r, simp only: prod.case, intro fair_if w k)
  ultimately have "fair_call (rest r)" for r unfolding rest_def by (cases r, simp only: prod.case, intro fair_if fair_bind k)
  moreover have "api_hpi send tmo = (\<lambda>x. Option.bind (api_wait_card_status send ?rdy ?tran tmo x) (\<lambda>(x, r). rest r x))"
    unfolding api_hpi_def Let_def rest_def again_def stop_def split_def by simp
  ultimately show ?thesis using fair_bind [OF fair_data_calls(5), of rest] by (simp only:)
qed

end

section \<open>Everything that happens to a card\<close>

text \<open>One call of a client, or one round of the detection thread. \<open>Q\<close> holds the command blocks that clients
  have allocated for themselves.\<close>

inductive driver_step :: "u64 set \<Rightarrow> sender \<Rightarrow> sd_os \<Rightarrow> sdio_entry \<Rightarrow> nat \<Rightarrow> sdio_handle \<times> sdio_hc \<Rightarrow> sdio_handle \<times> sdio_hc \<Rightarrow> bool"
  for Q send os ent n where
  cd: "sdio_cd send os ent n s = Some (t, r) \<Longrightarrow> driver_step Q send os ent n (h, s) (h, t)"
| cmd: "p \<in> Q \<Longrightarrow> in_use p (snd x) \<Longrightarrow> api_send_cmd send p tmo retries x = Some (y, r) \<Longrightarrow> driver_step Q send os ent n x y"
| stop: "api_stop_transmission send hpi x = Some (y, r) \<Longrightarrow> driver_step Q send os ent n x y"
| part: "api_set_partition send part x = Some (y, r) \<Longrightarrow> driver_step Q send os ent n x y"
| blkcnt: "api_set_block_count send cnt flgs x = Some (y, r) \<Longrightarrow> driver_step Q send os ent n x y"
| blklen: "api_set_block_length send len x = Some (y, r) \<Longrightarrow> driver_step Q send os ent n x y"
| sdsw: "api_sd_switch send os mode grp fn ss x = Some (y, r') \<Longrightarrow> driver_step Q send os ent n x y"
| mmcsw: "api_mmc_switch send cs m i v tmo x = Some (y, r) \<Longrightarrow> driver_step Q send os ent n x y"
| rpmb: "api_mmc_rpmb_rw send os fr pf nf flgs x = Some (y, r') \<Longrightarrow> driver_step Q send os ent n x y"
| gen: "api_mmc_gen_man send os op buf bl bc arg flgs x = Some (y, r') \<Longrightarrow> driver_step Q send os ent n x y"
| ecsd: "api_send_ext_csd send os x = Some (y, r') \<Longrightarrow> driver_step Q send os ent n x y"
| wait: "api_wait_card_status send msk val ms x = Some (y, r'') \<Longrightarrow> driver_step Q send os ent n x y"
| status: "api_send_status send hpi x = Some (y, r'') \<Longrightarrow> driver_step Q send os ent n x y"
| retune: "api_retune send ent x = Some (y, r) \<Longrightarrow> driver_step Q send os ent n x y"
| hpi: "api_hpi send tmo x = Some (y, r'') \<Longrightarrow> driver_step Q send os ent n x y"
| cache: "api_cache send os iop tmo x = Some (y, r) \<Longrightarrow> driver_step Q send os ent n x y"
| pwroff: "api_pwroff_notify send os iop tmo x = Some (y, r) \<Longrightarrow> driver_step Q send os ent n x y"
| erase: "api_erase send part flgs lba nlba x = Some (y, r) \<Longrightarrow> driver_step Q send os ent n x y"
| lock: "api_lock_unlock send os ent action pwd len x = Some (y, r) \<Longrightarrow> driver_step Q send os ent n x y"
| error: "api_bus_error send os ent x = Some (y, r) \<Longrightarrow> driver_step Q send os ent n x y"
| reset: "api_reset send os ent n x = Some (y, r) \<Longrightarrow> driver_step Q send os ent n x y"
| idle: "api_idle x = Some (y, r) \<Longrightarrow> driver_step Q send os ent n x y"
| pm: "api_pwrmgnt x = Some (y, r) \<Longrightarrow> driver_step Q send os ent n x y"
| app: "api_app_read_status send os x = Some (y, r'') \<Longrightarrow> driver_step Q send os ent n x y"

definition neat :: "u64 set \<Rightarrow> sdio_handle \<times> sdio_hc \<Rightarrow> sdio_handle \<times> sdio_hc \<Rightarrow> bool" where
  "neat Q x y \<longleftrightarrow> fst y = fst x \<and> blocks (snd y) = blocks (snd x) \<and>
     (\<forall>q. q \<notin># blocks (snd x) \<and> q \<notin> Q \<longrightarrow> cmd_mem (snd y) q = cmd_mem (snd x) q)"

lemma neat_pool: "neat Q x y \<Longrightarrow> pool_ok (snd x) \<Longrightarrow> pool_ok (snd y)"
  using pool_ok_cong [of "snd y" "snd x"] by (simp add: neat_def)

lemma fair_neat:
  assumes "fair_call c" "c x = Some (y, r)" "pool_ok (snd x)"
  shows "neat Q x y"
  using fair_callD [of c "fst x" "snd x" "fst y" "snd y"] assms by (simp add: neat_def tidy_def)

context card_bus
begin

lemma send_neat:
  assumes "p \<in> Q" "in_use p (snd x)" "api_send_cmd send p tmo retries x = Some (y, r)"
  shows "neat Q x y"
proof -
  obtain st where r: "r = (st, ())" by (cases r) simp
  have "plain_call (send p tmo retries) (fst x, snd x) = Some ((fst y, snd y), st, ())"
    using assms(3) r by (simp add: api_send_cmd_def)
  from counted_cases [OF this [unfolded plain_call_def]]
  have y: "fst y = fst x" "snd y = snd x \<or> send p tmo retries (snd x) = Some (snd y, st)" by (auto split: bind_splits)
  show ?thesis
  proof (cases "snd y = snd x")
    case False
    then have "hc_rel p (snd x) (snd y)" using y(2) send_rel assms(2) by blast
    then show ?thesis using y(1) assms(1) by (auto simp: neat_def hc_rel_def)
  qed (use y(1) in \<open>simp add: neat_def\<close>)
qed

lemma step_neat:
  assumes "driver_step Q send os ent n x y" "pool_ok (snd x)"
  shows "neat Q x y"
  using assms(1)
proof cases
  case (cd s t r h)
  then have "tidy s t" using post_tidy [OF cd_good _ cd(3)] assms(2) by simp
  then show ?thesis using cd by (simp add: neat_def tidy_def)
next
  case (cmd p tmo retries r)
  then show ?thesis using send_neat by blast
qed (erule fair_calls [THEN fair_neat, OF _ assms(2)] fair_data_calls [THEN fair_neat, OF _ assms(2)]
  fair_typed_calls [THEN fair_neat, OF _ assms(2)] fair_guarded_calls [THEN fair_neat, OF _ assms(2)]
  fair_hpi [THEN fair_neat, OF _ assms(2)])+

lemma run_neat:
  assumes "(driver_step Q send os ent n)\<^sup>*\<^sup>* x y" "pool_ok (snd x)"
  shows "neat Q x y"
  using assms(1)
proof (induction rule: rtranclp_induct)
  case (step y z)
  have "neat Q y z" by (rule step_neat [OF step(2) neat_pool [OF step.IH assms(2)]])
  then show ?case using step.IH by (simp add: neat_def)
qed (simp add: neat_def)

end

section \<open>Properties\<close>



end
