(* ===== verification/Sdio_Removal.thy ===== *)
theory Sdio_Removal
  imports Sdio_Dev
begin

text \<open>
  Calls of clients against the removal of the card: the sections under \<open>sdio_ctrl.mutex\<close> in
  \<open>_sdio_synchronize\<close> (\<open>sdiodi/card.c\<close>) and \<open>sdio_cd\<close> (\<open>sdiodi/base.c\<close>) as the steps of a machine, in any
  order that the threads may take.

  \<^item> \<open>rm_calls\<close> counts the calls that have been let in and not yet out; it is not a variable of the driver,
    which keeps \<open>usage\<close>, 32 bits wide. \<open>N\<close> is the number of threads of the clients.
  \<^item> \<open>rm_pc\<close> is the place of the detection thread, of which there is one. \<open>pthread_cond_wait\<close> may return without a
    signal; the code then looks again.
\<close>

section \<open>The machine\<close>

datatype cd_pc = Idle | Noticed | Waiting | Woken | Gone

record rm =
  rm_h :: sdio_handle
  rm_mc :: bool
  rm_calls :: nat
  rm_pc :: cd_pc

definition rm_start :: rm where
  "rm_start = \<lparr>rm_h = \<lparr>dh_flags = 0, dh_usage = 0\<rparr>, rm_mc = False, rm_calls = 0, rm_pc = Idle\<rparr>"

text \<open>\<open>sdio_cd\<close> with the mutex held: the mark, and the head of the loop.\<close>

definition cd_mark :: "sdio_handle \<Rightarrow> sdio_handle" where
  "cd_mark h = h\<lparr>dh_flags := dh_flags h OR DEV_FLAG_RMV_PENDING\<rparr>"

definition cd_check :: "rm \<Rightarrow> rm" where
  "cd_check x = x\<lparr>rm_pc := if dh_usage (rm_h x) \<noteq> 0 then Waiting else Gone\<rparr>"

inductive rm_step :: "nat \<Rightarrow> rm \<Rightarrow> rm \<Rightarrow> bool" for N where
  enter: "rm_calls x < N \<Longrightarrow> sdio_synchronize (rm_mc x) True 1 (rm_h x) = (h, EOK, sig) \<Longrightarrow>
    rm_step N x (x\<lparr>rm_h := h, rm_calls := rm_calls x + 1\<rparr>)"
| refused: "sdio_synchronize (rm_mc x) True 1 (rm_h x) = (h, ENXIO, sig) \<Longrightarrow> rm_step N x (x\<lparr>rm_h := h\<rparr>)"
| leave: "0 < rm_calls x \<Longrightarrow> sdio_synchronize (rm_mc x) True (-1) (rm_h x) = (h, st, sig) \<Longrightarrow>
    rm_step N x (x\<lparr>rm_h := h, rm_calls := rm_calls x - 1, rm_pc := if sig \<and> rm_pc x = Waiting then Woken else rm_pc x\<rparr>)"
| change: "rm_step N x (x\<lparr>rm_mc := True\<rparr>)"
| notice: "rm_pc x = Idle \<Longrightarrow> rm_step N x (x\<lparr>rm_mc := False, rm_pc := Noticed\<rparr>)"
| mark: "rm_pc x = Noticed \<Longrightarrow> rm_step N x (cd_check (x\<lparr>rm_h := cd_mark (rm_h x)\<rparr>))"
| spurious: "rm_pc x = Waiting \<Longrightarrow> rm_step N x (x\<lparr>rm_pc := Woken\<rparr>)"
| wake: "rm_pc x = Woken \<Longrightarrow> rm_step N x (cd_check x)"

section \<open>The invariant\<close>

abbreviation rmv :: "rm \<Rightarrow> bool" where "rmv x \<equiv> dh_flags (rm_h x) AND DEV_FLAG_RMV_PENDING \<noteq> 0"

definition rm_inv :: "nat \<Rightarrow> rm \<Rightarrow> bool" where
  "rm_inv N x \<longleftrightarrow> rm_calls x \<le> N \<and> dh_usage (rm_h x) = of_nat (rm_calls x) \<and> (rm_pc x \<in> {Waiting, Woken, Gone} \<longrightarrow> rmv x) \<and>
     (rm_pc x = Waiting \<longrightarrow> 0 < rm_calls x) \<and> (rm_pc x = Gone \<longrightarrow> rm_calls x = 0)"

lemma small_count: "n \<le> N \<Longrightarrow> N < 2 ^ 32 \<Longrightarrow> unat (of_nat n :: u32) = n"
  by (simp add: unsigned_of_nat take_bit_nat_eq_self)

lemma small_count_eq:
  assumes "n \<le> N" "N < 2 ^ 32" "k < 2 ^ 32"
  shows "(of_nat n :: u32) = of_nat k \<longleftrightarrow> n = k"
proof
  assume "(of_nat n :: u32) = of_nat k"
  from arg_cong [OF this, of unat] show "n = k"
    unfolding small_count [OF assms(1,2)] small_count [OF order_refl assms(3)] .
qed simp

lemma usage_zero: "n \<le> N \<Longrightarrow> N < 2 ^ 32 \<Longrightarrow> (of_nat n :: u32) = 0 \<longleftrightarrow> n = 0"
  using small_count_eq [of n N 0] by simp

lemma one_left: "n \<le> N \<Longrightarrow> N < 2 ^ 32 \<Longrightarrow> (of_nat n :: u32) = 1 \<longleftrightarrow> n = 1"
  using small_count_eq [of n N 1] by simp

lemma sync_enter: "sdio_synchronize mc True 1 h = (h', st, sig) \<Longrightarrow>
    (st = EOK \<and> dh_flags h AND DEV_FLAG_RMV_PENDING = 0 \<and> h' = h\<lparr>dh_usage := dh_usage h + 1\<rparr> \<or> st = ENXIO \<and> h' = h)"
  by (auto simp: sdio_synchronize_def split: if_splits)

lemma sync_leave: "sdio_synchronize mc True (-1) h = (h', st, sig) \<Longrightarrow>
    h' = h\<lparr>dh_usage := dh_usage h - 1\<rparr> \<and> st = EOK \<and> (sig \<longleftrightarrow> dh_usage h = 1 \<and> dh_flags h AND DEV_FLAG_RMV_PENDING \<noteq> 0)"
  by (auto simp: sdio_synchronize_def Let_def)

lemma mark_flag: "dh_flags (cd_mark h) AND DEV_FLAG_RMV_PENDING \<noteq> 0" "dh_usage (cd_mark h) = dh_usage h"
proof -
  have "bit (dh_flags (cd_mark h) AND DEV_FLAG_RMV_PENDING) 0" by (simp add: cd_mark_def bit_simps)
  then show "dh_flags (cd_mark h) AND DEV_FLAG_RMV_PENDING \<noteq> 0" by (metis bit_0_eq bot_apply bot_boolE)
qed (simp add: cd_mark_def)

lemma rm_inv_step:
  assumes "rm_step N x y" "rm_inv N x" "N < 2 ^ 32"
  shows "rm_inv N y"
  using assms(1)
proof cases
  case (enter h sig)
  from sync_enter [OF enter(3)] enter assms(2) show ?thesis by (auto simp: rm_inv_def)
next
  case (refused h sig)
  from sync_enter [OF refused(2)] refused assms(2) show ?thesis by simp
next
  case (leave h st sig)
  have z: "dh_usage (rm_h x) = 1 \<longleftrightarrow> rm_calls x = 1" using assms(2,3) one_left [of _ N] by (simp add: rm_inv_def)
  have "of_nat (rm_calls x) - 1 = (of_nat (rm_calls x - 1) :: u32)" using leave(2) by (simp add: of_nat_diff)
  then show ?thesis using sync_leave [OF leave(3)] leave(1,2) z assms(2) by (auto simp: rm_inv_def)
next
  case mark
  then show ?thesis using assms(2,3) usage_zero by (auto simp: rm_inv_def cd_check_def mark_flag)
next
  case wake
  then show ?thesis using assms(2,3) usage_zero by (auto simp: rm_inv_def cd_check_def)
qed (use assms(2) in \<open>auto simp: rm_inv_def\<close>)

lemma rm_reachable_inv:
  assumes "(rm_step N)\<^sup>*\<^sup>* rm_start x" "N < 2 ^ 32"
  shows "rm_inv N x"
  using assms(1)
proof (induction rule: rtranclp_induct)
  case base
  show ?case by (simp add: rm_inv_def rm_start_def)
qed (use rm_inv_step assms(2) in blast)

section \<open>The end of the wait\<close>

text \<open>What is left to do: calls to end, and a look at the counter after a wake-up.\<close>

definition rm_work :: "rm \<Rightarrow> nat" where
  "rm_work x = 2 * rm_calls x + (if rm_pc x = Woken then 1 else 0)"

lemma work_step:
  assumes "rm_step N x y" "rm_inv N x" "rm_pc x \<in> {Waiting, Woken}"
  shows "rm_work y < rm_work x \<or> rm_calls y = rm_calls x \<and> rm_pc y = rm_pc x \<or> y = x\<lparr>rm_pc := Woken\<rparr>"
  using assms(1)
proof cases
  case (enter h sig)
  from sync_enter [OF enter(3)] assms(2,3) show ?thesis by (auto simp: rm_inv_def)
qed (use assms(3) in \<open>auto simp: rm_work_def cd_check_def\<close>)

lemma work_progress:
  assumes "rm_inv N x" "rm_pc x \<in> {Waiting, Woken}"
  shows "\<exists>y. rm_step N x y \<and> rm_work y < rm_work x \<and> rm_pc y \<in> {Waiting, Woken, Gone}"
proof (cases "rm_pc x = Woken")
  case True
  then show ?thesis using wake [of x N] by (intro exI [of _ "cd_check x"]) (simp add: rm_work_def cd_check_def)
next
  case False
  then have w: "rm_pc x = Waiting" "0 < rm_calls x" using assms by (auto simp: rm_inv_def)
  obtain h st sig where "sdio_synchronize (rm_mc x) True (-1) (rm_h x) = (h, st, sig)" by (metis prod_cases3)
  from leave [OF w(2) this, of N] w show ?thesis
    by (intro exI [of _ "x\<lparr>rm_h := h, rm_calls := rm_calls x - 1, rm_pc := if sig \<and> rm_pc x = Waiting then Woken else rm_pc x\<rparr>"])
      (auto simp: rm_work_def)
qed

lemma work_ends:
  assumes "rm_inv N x" "rm_pc x \<in> {Waiting, Woken}" "N < 2 ^ 32"
  shows "\<exists>y. (rm_step N)\<^sup>*\<^sup>* x y \<and> rm_pc y = Gone"
  using assms(1,2)
proof (induction "rm_work x" arbitrary: x rule: less_induct)
  case less
  obtain y where y: "rm_step N x y" "rm_work y < rm_work x" "rm_pc y \<in> {Waiting, Woken, Gone}"
    using work_progress less.prems by blast
  show ?case
  proof (cases "rm_pc y = Gone")
    case False
    then obtain z where "(rm_step N)\<^sup>*\<^sup>* y z" "rm_pc z = Gone"
      using less.hyps [OF y(2) rm_inv_step [OF y(1) less.prems(1) assms(3)]] y(3) by blast
    then show ?thesis using y(1) by (meson converse_rtranclp_into_rtranclp)
  qed (use y(1) in blast)
qed

lemma gone_stays:
  assumes "(rm_step N)\<^sup>*\<^sup>* x y" "rm_inv N x" "rm_pc x = Gone" "N < 2 ^ 32"
  shows "rm_inv N y \<and> rm_pc y = Gone"
  using assms(1)
proof (induction rule: rtranclp_induct)
  case (step y z)
  have "rm_pc z = Gone" using step(2) by cases (use step.IH in auto)
  then show ?case using rm_inv_step [OF step(2) _ assms(4)] step.IH by blast
qed (use assms in simp)

section \<open>Properties\<close>

text \<open>Claim C24. However calls of clients and the detection thread interleave, the card is reported as removed
  only when no call is under way, and none is let in afterwards; up to the number of threads that 32 bits can
  count.\<close>

theorem removal_excludes_calls:
  assumes "(rm_step N)\<^sup>*\<^sup>* rm_start x" "rm_pc x = Gone" "(rm_step N)\<^sup>*\<^sup>* x y" "N < 2 ^ 32"
  shows "rm_calls x = 0 \<and> rm_calls y = 0 \<and> rm_pc y = Gone"
  using rm_reachable_inv [OF assms(1,4)] gone_stays [OF assms(3) _ assms(2,4)] assms(2) by (auto simp: rm_inv_def)

text \<open>Claim C25. The detection thread does not miss the end of the last call: while it waits, calls are under way,
  the removal can be reached, and no step but a wake-up without a signal adds to the work that is left.\<close>

theorem removal_not_stuck:
  assumes "(rm_step N)\<^sup>*\<^sup>* rm_start x" "rm_pc x \<in> {Waiting, Woken}" "N < 2 ^ 32"
  shows "(rm_pc x = Waiting \<longrightarrow> 0 < rm_calls x) \<and> (\<exists>y. (rm_step N)\<^sup>*\<^sup>* x y \<and> rm_pc y = Gone) \<and>
    (\<forall>y. rm_step N x y \<longrightarrow> rm_work y \<le> rm_work x \<or> y = x\<lparr>rm_pc := Woken\<rparr>)"
proof -
  have i: "rm_inv N x" by (rule rm_reachable_inv [OF assms(1,3)])
  then have "rm_pc x = Waiting \<longrightarrow> 0 < rm_calls x" by (simp add: rm_inv_def)
  moreover have "rm_work y \<le> rm_work x \<or> y = x\<lparr>rm_pc := Woken\<rparr>" if "rm_step N x y" for y
    using work_step [OF that i assms(2)] by (auto simp: rm_work_def)
  ultimately show ?thesis using work_ends [OF i assms(2,3)] by blast
qed

end
