(* ===== verification/Sdio_Speed.thy ===== *)
theory Sdio_Speed
  imports Sdio_Dev
begin

text \<open>
  The choice of a bus mode for a card and the reaction to bus errors: what \<open>sd_select_bus_mode\<close> selects, and
  how \<open>sd_bus_error\<close> and \<open>mmc_bus_error\<close> slow a card down.
\<close>

section \<open>Modes of an SD card\<close>

text \<open>Modes in the order of preference, with the capability that the controller needs; every controller
  has the slowest.\<close>

definition uhs_modes :: "(u32 \<times> u64) list" where
  "uhs_modes = [(8, HC_CAP_SDR104), (0x10, HC_CAP_DDR50), (4, HC_CAP_SDR50), (2, HC_CAP_SDR25)]"

definition common_mode :: "u64 \<Rightarrow> u32 \<Rightarrow> u32 \<times> u64 \<Rightarrow> bool" where
  "common_mode caps modes x \<longleftrightarrow> modes AND fst x \<noteq> 0 \<and> caps AND snd x \<noteq> 0"

definition uhs_rank :: "u32 \<Rightarrow> nat" where
  "uhs_rank m = (if m = 8 then 4 else if m = 0x10 then 3 else if m = 4 then 2 else if m = 2 then 1 else 0)"

lemma mode_bits:
  fixes x :: u32
  shows "x AND 2 = 0 \<longleftrightarrow> \<not> bit x 1" "x AND 4 = 0 \<longleftrightarrow> \<not> bit x 2" "x AND 8 = 0 \<longleftrightarrow> \<not> bit x 3" "x AND 0x10 = 0 \<longleftrightarrow> \<not> bit x 4"
  using and_exp_eq_0_iff_not_bit [of x 1] and_exp_eq_0_iff_not_bit [of x 2] and_exp_eq_0_iff_not_bit [of x 3]
    and_exp_eq_0_iff_not_bit [of x 4] by simp_all

lemma drop_mode:
  fixes x :: u32
  shows "bit (x AND NOT 1) n \<longleftrightarrow> bit x n \<and> n \<noteq> 0" "bit (x AND NOT 2) n \<longleftrightarrow> bit x n \<and> n \<noteq> 1" "bit (x AND NOT 4) n \<longleftrightarrow> bit x n \<and> n \<noteq> 2"
    "bit (x AND NOT 8) n \<longleftrightarrow> bit x n \<and> n \<noteq> 3" "bit (x AND NOT 0x10) n \<longleftrightarrow> bit x n \<and> n \<noteq> 4"
proof -
  have d: "bit (x AND NOT (2 ^ k)) n \<longleftrightarrow> bit x n \<and> n \<noteq> k" for k
    using bit_imp_le_length [of x n] by (auto simp: bit_and_iff bit_not_iff bit_exp_iff possible_bit_word)
  show "bit (x AND NOT 1) n \<longleftrightarrow> bit x n \<and> n \<noteq> 0" "bit (x AND NOT 2) n \<longleftrightarrow> bit x n \<and> n \<noteq> 1" "bit (x AND NOT 4) n \<longleftrightarrow> bit x n \<and> n \<noteq> 2"
    "bit (x AND NOT 8) n \<longleftrightarrow> bit x n \<and> n \<noteq> 3" "bit (x AND NOT 0x10) n \<longleftrightarrow> bit x n \<and> n \<noteq> 4"
    using d [of 0] d [of 1] d [of 2] d [of 3] d [of 4] by simp_all
qed

text \<open>Dropping the selected mode leaves a mode that is further down the list, or the slowest.\<close>

lemma select_drops:
  "uhs_rank (sd_select_bus_mode caps (modes AND NOT (sd_select_bus_mode caps modes))) < uhs_rank (sd_select_bus_mode caps modes) \<or>
   sd_select_bus_mode caps modes = 1"
proof -
  let ?c = "\<lambda>k. caps AND k \<noteq> 0"
  note s = sd_select_bus_mode_def mode_bits drop_mode uhs_rank_def
  consider "bit modes 3 \<and> ?c HC_CAP_SDR104" | "\<not> (bit modes 3 \<and> ?c HC_CAP_SDR104)" "bit modes 4 \<and> ?c HC_CAP_DDR50"
    | "\<not> (bit modes 3 \<and> ?c HC_CAP_SDR104)" "\<not> (bit modes 4 \<and> ?c HC_CAP_DDR50)" "bit modes 2 \<and> ?c HC_CAP_SDR50"
    | "\<not> (bit modes 3 \<and> ?c HC_CAP_SDR104)" "\<not> (bit modes 4 \<and> ?c HC_CAP_DDR50)" "\<not> (bit modes 2 \<and> ?c HC_CAP_SDR50)"
    by blast
  then show ?thesis
  proof cases
    case 1
    then have "sd_select_bus_mode caps modes = 8" by (simp add: s)
    then show ?thesis by (simp only: s) simp
  next
    case 2
    then have "sd_select_bus_mode caps modes = 0x10" by (auto simp: s)
    then show ?thesis using 2 by (simp only: s) auto
  next
    case 3
    then have "sd_select_bus_mode caps modes = 4" by (auto simp: s)
    then show ?thesis using 3 by (simp only: s) auto
  next
    case 4
    show ?thesis
    proof (cases "bit modes 1 \<and> ?c HC_CAP_SDR25")
      case True
      then have "sd_select_bus_mode caps modes = 2" using 4 by (auto simp: s)
      then show ?thesis using 4 by (simp only: s) auto
    next
      case False
      then have "sd_select_bus_mode caps modes = 1" using 4 by (auto simp: s)
      then show ?thesis by simp
    qed
  qed
qed

lemma select_best:
  assumes "(m, c) \<in> set uhs_modes" "common_mode caps modes (m, c)"
  shows "uhs_rank m \<le> uhs_rank (sd_select_bus_mode caps modes)"
  using assms by (auto simp: uhs_modes_def common_mode_def sd_select_bus_mode_def uhs_rank_def)

section \<open>Slower after bus errors\<close>

lemma hs_slower:
  fixes v :: u32
  assumes "26000000 < v"
  shows "26000000 \<le> max 26000000 (v - 5000000) \<and> max 26000000 (v - 5000000) < v"
proof -
  have "unat (v - 5000000) = unat v - 5000000"
    using assms by (simp add: unat_sub word_le_nat_alt word_less_nat_alt)
  then show ?thesis using assms by (simp add: word_less_nat_alt word_le_nat_alt max_def)
qed

lemma ls_slower:
  fixes v :: u32
  assumes "100000 < v" "v \<le> 0xFFFFFFF6"
  shows "v - (v + 9) div 10 < v \<and> (v + 9) div 10 < v"
proof -
  have u: "100000 < unat v" "unat v \<le> 4294967286" using assms by (simp_all add: word_less_nat_alt word_le_nat_alt)
  have s: "unat (v + 9) = unat v + 9" using u by (subst unat_add_lem [THEN iffD1]) simp_all
  have q: "unat ((v + 9) div 10) = (unat v + 9) div 10" by (simp add: unat_div s)
  have "(unat v + 9) div 10 < unat v" "0 < (unat v + 9) div 10" using u by simp_all
  then have l: "(v + 9) div 10 < v" "0 < unat ((v + 9) div 10)" using q by (simp_all add: word_less_nat_alt)
  have "unat (v - (v + 9) div 10) = unat v - unat ((v + 9) div 10)" using l(1) by (intro unat_sub) simp
  then show ?thesis using l u by (simp add: word_less_nat_alt)
qed

abbreviation (input) uhs_mode :: "u64 \<Rightarrow> sdio_dev \<Rightarrow> u32" where
  "uhs_mode caps d \<equiv> sd_select_bus_mode caps (swc_bus_mode (dev_swcaps d))"

lemma slower_uhs:
  "dev_flags d AND DEV_FLAG_UHS \<noteq> 0 \<Longrightarrow>
    uhs_rank (uhs_mode caps (sd_slower caps d)) < uhs_rank (uhs_mode caps d) \<or> uhs_mode caps d = 1"
  using select_drops [of caps "swc_bus_mode (dev_swcaps d)"] by (simp add: sd_slower_def upd_swcaps_def)

lemma slower_hs:
  assumes "dev_flags d AND DEV_FLAG_UHS = 0" "dev_flags d AND DEV_FLAG_HS \<noteq> 0" "DTR_MAX_HS26 < swc_dtr_max_hs (dev_swcaps d)"
  shows "DTR_MAX_HS26 \<le> swc_dtr_max_hs (dev_swcaps (sd_slower caps d)) \<and>
    swc_dtr_max_hs (dev_swcaps (sd_slower caps d)) < swc_dtr_max_hs (dev_swcaps d)"
  using hs_slower [OF assms(3)] assms(1,2) by (simp add: sd_slower_def upd_swcaps_def)

lemma slower_ls:
  assumes "dev_flags d AND DEV_FLAG_UHS = 0" "dev_flags d AND DEV_FLAG_HS = 0" "DTR_MIN_LS < csd_dtr_max (dev_csd d)"
    "csd_dtr_max (dev_csd d) \<le> 0xFFFFFFF6"
  shows "DTR_MIN_LS \<le> csd_dtr_max (dev_csd (sd_slower caps d)) \<and> csd_dtr_max (dev_csd (sd_slower caps d)) < csd_dtr_max (dev_csd d)"
  using ls_slower [OF assms(3,4)] assms(1-3) by (simp add: sd_slower_def Let_def not_less)

section \<open>Properties\<close>



end
