(* ===== verification/Sdio_Ident.thy ===== *)
theory Sdio_Ident
  imports Sdio_Dev Sdio_Cmd_Proofs
begin

text \<open>
  Whether identification comes to an end. The loops of the code are bounded by counters, but for the one of
  \<open>sd_init_device\<close> that asks for the operating conditions again when the switch to 1.8 V has failed: it ends
  when the card keeps to the rule that it accepts 1.8 V only if asked for it, and need not end otherwise.
\<close>

section \<open>Functions that return\<close>

definition ends :: "'a option \<Rightarrow> bool" where
  "ends r \<longleftrightarrow> r \<noteq> None"

lemma ends_some: "ends (Some x)"
  by (simp add: ends_def)

lemma ends_bind: "ends r \<Longrightarrow> (\<And>x. ends (f x)) \<Longrightarrow> ends (Option.bind r f)"
  by (cases r) (simp_all add: ends_def)

lemma ends_if: "ends x \<Longrightarrow> ends y \<Longrightarrow> ends (if b then x else y)"
  by simp

lemma ends_prod: "(\<And>a b. ends (f a b)) \<Longrightarrow> ends (case r of (a, b) \<Rightarrow> f a b)"
  by (cases r) simp

lemma ends_option: "ends x \<Longrightarrow> (\<And>y. ends (f y)) \<Longrightarrow> ends (case r of None \<Rightarrow> x | Some y \<Rightarrow> f y)"
  by (cases r) simp_all

lemma ends_case: "ends r \<Longrightarrow> (\<And>y. ends (f y)) \<Longrightarrow> ends (case r of None \<Rightarrow> None | Some y \<Rightarrow> f y)"
  by (cases r) (simp_all add: ends_def)

lemma ends_map: "ends r \<Longrightarrow> ends (map_option f r)"
  by (simp add: ends_def)

lemma ends_drop: "ends r \<Longrightarrow> ends (drop_cmd r)"
  unfolding drop_cmd_def by (rule ends_map)

lemma ends_ok_then: "ends r \<Longrightarrow> (\<And>t. ends (f t)) \<Longrightarrow> ends (ok_then r f)"
  unfolding ok_then_def by (intro ends_bind ends_prod ends_if ends_some)

lemmas ends_rules = ends_some ends_ok_then ends_bind ends_if ends_drop ends_map ends_case ends_prod ends_option

text \<open>Commands and tuning return, and the card does not accept 1.8 V unless asked.\<close>

definition answers :: "sender \<Rightarrow> sdio_entry \<Rightarrow> bool" where
  "answers send ent \<longleftrightarrow> (\<forall>p tmo r s. ends (send p tmo r s)) \<and> (\<forall>v s. ends (e_tune ent v s))"

definition polite :: "sender \<Rightarrow> bool" where
  "polite send \<longleftrightarrow> (\<forall>ocr s t rocr. ocr AND OCR_S18R = 0 \<longrightarrow> sd_app_send_op_cond send ocr s = Some (t, EOK, rocr) \<longrightarrow> rocr AND OCR_S18R = 0)"

lemma send_ends:
  assumes "answers send ent"
  shows "ends (send p tmo r s)"
  using assms by (simp add: answers_def)

lemma tune_ends:
  assumes "answers send ent"
  shows "ends (sdio_tune ent v s)"
  using assms by (simp add: answers_def sdio_tune_def)

lemma call_ends:
  assumes "answers send ent"
  shows "ends (cmd_call send flgs opc arg r s)"
  unfolding cmd_call_def Let_def by (intro ends_rules send_ends [OF assms])

lemma simple_ends:
  assumes "answers send ent"
  shows "ends (sdio_send_status send hpi s)" "ends (sdio_send_csd send s)" "ends (sdio_all_send_cid send s)"
    "ends (sdio_select_card send rca s)" "ends (sdio_set_block_length send len s)" "ends (sdio_set_block_count send cnt f s)"
    "ends (sdio_go_idle send s)" "ends (sd_voltage_switch send s)" "ends (sd_app_set_bus_width send w s)"
    "ends (mmc_set_relative_addr send a s)"
  unfolding sdio_send_status_def sdio_send_csd_def sdio_all_send_cid_def sdio_select_card_def sdio_set_block_length_def
    sdio_set_block_count_def sdio_go_idle_def sd_voltage_switch_def sd_app_set_bus_width_def mmc_set_relative_addr_def
  by (intro ends_rules call_ends [OF assms])+

lemma wait_ends: "answers send ent \<Longrightarrow> ends (sdio_wait_card_status send msk val ms s)"
proof -
  assume a: "answers send ent"
  have "ends (wait_status_loop send msk val n r s)" for n r s
  proof (induction n arbitrary: r s)
    case (Suc n)
    show ?case unfolding wait_status_loop.simps by (intro ends_case ends_prod ends_if ends_some simple_ends(1) [OF a] Suc.IH)
  qed (simp add: ends_some)
  then show ?thesis by (simp add: sdio_wait_card_status_def)
qed

lemma data_ends:
  assumes "answers send ent"
  shows "ends (data_call send os flgs opc arg dir len out s)"
  unfolding data_call_def Let_def by (intro ends_rules send_ends [OF assms])

lemmas base_ends = send_ends tune_ends call_ends simple_ends wait_ends data_ends

section \<open>SD cards\<close>

lemma rca_ends: "answers send ent \<Longrightarrow> ends (sdio_send_relative_addr send s)"
proof -
  assume a: "answers send ent"
  have "ends (rca_loop send p n s)" for p n s
  proof (induction n arbitrary: s)
    case 0
    show ?case by (subst rca_loop.simps, unfold Let_def nat.case) (intro ends_rules send_ends [OF a])
  next
    case (Suc n)
    show ?case by (subst rca_loop.simps, unfold Let_def nat.case) (intro ends_rules send_ends [OF a] Suc)
  qed
  then show ?thesis unfolding sdio_send_relative_addr_def Let_def by (intro ends_rules)
qed

lemma sd_switch_ends:
  assumes "answers send ent"
  shows "ends (sd_switch send os mode grp val ss s)"
  unfolding sd_switch_def Let_def by (intro ends_rules base_ends [OF assms])

lemma if_cond_ends:
  assumes "answers send ent"
  shows "ends (sd_send_if_cond send vhs s)"
  unfolding sd_send_if_cond_def Let_def by (intro ends_rules base_ends [OF assms])

lemma op_cond_ends: "answers send ent \<Longrightarrow> ends (op_cond send flgs opc retries n ocr s)"
proof -
  assume a: "answers send ent"
  have "ends (op_cond_loop send p retries ocr n s)" for p s
  proof (induction n arbitrary: s)
    case (Suc n)
    show ?case unfolding op_cond_loop.simps by (intro ends_rules send_ends [OF a] Suc)
  qed (simp add: ends_some)
  then show ?thesis unfolding op_cond_def Let_def by (intro ends_rules)
qed

lemma sd_op_cond_ends:
  assumes "answers send ent"
  shows "ends (sd_app_send_op_cond send ocr s)"
  unfolding sd_app_send_op_cond_def by (rule op_cond_ends [OF assms])

lemma sd_read_ends:
  assumes "answers send ent"
  shows "ends (sd_read_switch send os s)" "ends (sd_capabilities send os s)"
proof -
  have st: "ends (sd_read_status send os s)" for s
    unfolding sd_read_status_def sd_app_sd_status_def by (intro ends_rules data_ends [OF assms])
  show sw: "ends (sd_read_switch send os s)" for s unfolding sd_read_switch_def by (intro ends_rules sd_switch_ends [OF assms])
  show "ends (sd_capabilities send os s)"
    unfolding sd_capabilities_def Let_def sd_app_send_scr_def by (intro ends_rules data_ends [OF assms] st sw)
qed

lemma sd_bus_ends:
  assumes "answers send ent"
  shows "ends (sd_init_bus send os ent s)"
  unfolding sd_init_bus_def sd_init_uhs_def sd_init_hs_def sd_init_assd_def sd_set_bus_width_def sd_set_drv_type_def
    sd_set_current_limit_def sd_set_bus_speed_mode_def sd_switch_hs_def Let_def
  by (intro ends_rules base_ends [OF assms] sd_switch_ends [OF assms])

lemma lock_ends:
  assumes "answers send ent"
  shows "ends (sdio_lock_unlock send os op pwd len s)"
  unfolding sdio_lock_unlock_def Let_def by (intro ends_rules base_ends [OF assms])

lemma sd_start_ends:
  assumes "answers send ent"
  shows "ends (sd_start_card send os ent again s)"
  unfolding sd_start_card_def sd_unlock_def sd_still_1_8_def Let_def
  by (intro ends_rules base_ends [OF assms] lock_ends [OF assms] sd_read_ends [OF assms] sd_bus_ends [OF assms])

lemma sd_name_ends:
  assumes "answers send ent"
  shows "ends (sd_name_card send os ent again s)"
  unfolding sd_name_card_def sd_read_regs_def Let_def by (intro ends_rules base_ends [OF assms] rca_ends [OF assms] sd_start_ends [OF assms])

text \<open>Two rounds are enough: the second asks without 1.8 V.\<close>

lemma s18_cleared: "(ocr AND NOT OCR_S18R) AND OCR_S18R = 0" for ocr :: u32
  by (rule bit_word_eqI) (auto simp: bit_simps)

lemma ocr_round:
  assumes "answers send ent" "polite send" "ocr AND OCR_S18R = 0"
  shows "ends (ocr_loop send ent (Suc n) ocr s)"
proof -
  obtain t st rocr where r: "sd_app_send_op_cond send ocr s = Some (t, st, rocr)"
    using sd_op_cond_ends [OF assms(1)] unfolding ends_def by (metis not_None_eq prod_cases3)
  have "rocr AND (OCR_HCS OR OCR_S18R) \<noteq> OCR_HCS OR OCR_S18R" if "st = EOK"
  proof
    assume e: "rocr AND (OCR_HCS OR OCR_S18R) = OCR_HCS OR OCR_S18R"
    have "rocr AND OCR_S18R = 0" using assms(2,3) r that unfolding polite_def by blast
    then have "\<not> bit rocr 24" using and_exp_eq_0_iff_not_bit [of rocr 24] by simp
    moreover have "bit (rocr AND (OCR_HCS OR OCR_S18R)) 24" unfolding e by (simp add: bit_simps)
    ultimately show False by (simp add: bit_simps)
  qed
  then show ?thesis unfolding ocr_loop.simps r by (simp add: ends_def)
qed

lemma ocr_loop_ends:
  assumes "answers send ent" "polite send"
  shows "ends (ocr_loop send ent (Suc (Suc n)) ocr s)"
  by (subst ocr_loop.simps, unfold Let_def)
    (intro ends_rules sd_op_cond_ends [OF assms(1)] base_ends [OF assms(1)] ocr_round [OF assms] s18_cleared)

lemma sd_init_ends:
  assumes "answers send ent" "polite send"
  shows "ends (sd_init_device send os ent (Suc (Suc n)) ocr again s)"
  unfolding sd_init_device_def
  by (intro ends_rules base_ends [OF assms(1)] if_cond_ends [OF assms(1)] ocr_loop_ends [OF assms] sd_name_ends [OF assms(1)])

lemma sd_ident_ends:
  assumes "answers send ent" "polite send"
  shows "ends (sd_ident send os ent (Suc (Suc n)) s)"
  unfolding sd_ident_def
  by (intro ends_rules base_ends [OF assms(1)] if_cond_ends [OF assms(1)] sd_op_cond_ends [OF assms(1)] sd_init_ends [OF assms])

section \<open>MMC devices\<close>

lemma mmc_switch_ends:
  assumes "answers send ent"
  shows "ends (mmc_switch_rdy send w c m i v tmo s)" "ends (mmc_switch send c m i v tmo s)"
proof -
  show r: "ends (mmc_switch_rdy send w c m i v tmo s)" for w
    unfolding mmc_switch_rdy_def Let_def by (intro ends_rules base_ends [OF assms])
  show "ends (mmc_switch send c m i v tmo s)" unfolding mmc_switch_def by (rule r)
qed

lemmas mmc_base_ends = base_ends mmc_switch_ends

lemma mmc_width_ends:
  assumes "answers send ent"
  shows "ends (mmc_bus_width send os ent flg s)"
proof -
  have t: "ends (mmc_bus_test send os w s)" for w s unfolding mmc_bus_test_def Let_def by (intro ends_rules send_ends [OF assms])
  have "ends (width_loop send os ent ws s)" for ws s
  proof (induction ws arbitrary: s)
    case (Cons w ws)
    show ?case unfolding width_loop.simps by (intro ends_rules mmc_base_ends [OF assms] t Cons)
  qed (simp add: ends_some)
  then show ?thesis unfolding mmc_bus_width_def Let_def by (intro ends_rules)
qed

lemma mmc_modes_ends:
  assumes "answers send ent"
  shows "ends (mmc_init_hs send ent s)" "ends (mmc_enter_hs200 send ent wid s)" "ends (mmc_init_hs400es send ent wid s)"
    "ends (wait_ready send s)" "ends (mmc_init_ddr send ent wid s)"
  unfolding mmc_init_hs_def mmc_enter_hs200_def mmc_init_hs400es_def wait_ready_def mmc_init_ddr_def Let_def
  by (intro ends_rules mmc_base_ends [OF assms])+

lemma mmc_hs400_ends:
  assumes "answers send ent"
  shows "ends (mmc_init_hs200 send ent wid s)" "ends (mmc_init_hs400 send ent wid s)" "ends (mmc_retune send ent s)"
  unfolding mmc_init_hs200_def mmc_init_hs400_def mmc_retune_def mmc_hs200_to_hs400_def mmc_hs400_to_hs200_def Let_def
  by (intro ends_rules mmc_base_ends [OF assms] mmc_modes_ends [OF assms])+

lemma mmc_bus_ends:
  assumes "answers send ent"
  shows "ends (mmc_init_bus send os ent s)"
  unfolding mmc_init_bus_def mmc_try_modes_def try_mode_def Let_def
  by (intro ends_rules mmc_base_ends [OF assms] mmc_width_ends [OF assms] mmc_modes_ends [OF assms] mmc_hs400_ends [OF assms])

lemma mmc_init_ends:
  assumes "answers send ent"
  shows "ends (mmc_init_device send os ent ocr again s)"
  unfolding mmc_init_device_def mmc_start_device_def mmc_read_regs_def mmc_read_ecsd_def mmc_set_features_def mmc_send_ext_csd_def
    mmc_send_op_cond_def Let_def
  by (intro ends_rules mmc_base_ends [OF assms] op_cond_ends [OF assms] mmc_bus_ends [OF assms])

lemma mmc_ident_ends:
  assumes "answers send ent"
  shows "ends (mmc_ident send os ent s)"
  unfolding mmc_ident_def mmc_send_op_cond_def
  by (intro ends_rules mmc_base_ends [OF assms] op_cond_ends [OF assms] mmc_init_ends [OF assms])

section \<open>Attaching and reset\<close>

lemma attach_loop_ends:
  assumes "answers send ent" "polite send"
  shows "ends (attach_loop send os ent (Suc (Suc n)) dtype clks st s)"
proof (induction clks arbitrary: st s)
  case (Cons c clks)
  show ?case unfolding attach_loop.simps Let_def
    by (intro ends_rules sd_ident_ends [OF assms] mmc_ident_ends [OF assms(1)] Cons)
qed (simp add: ends_some)

lemma dev_reset_loop_ends:
  assumes "answers send ent" "polite send"
  shows "ends (dev_reset_loop send os ent (Suc (Suc n)) retry s)"
proof (induction retry arbitrary: s rule: less_induct)
  case (less retry)
  have c: "ends (case retry of Suc (Suc r) \<Rightarrow> dev_reset_loop send os ent (Suc (Suc n)) (Suc r) t | _ \<Rightarrow> Some (t, st))" for t st
    using less.IH by (auto simp: ends_some split: nat.split)
  show ?case by (subst dev_reset_loop.simps, unfold Let_def) (intro ends_rules mmc_init_ends [OF assms(1)] sd_init_ends [OF assms] c)
qed

lemma cd_ends:
  assumes "answers send ent" "polite send"
  shows "ends (sdio_cd send os ent (Suc (Suc n)) s)" "ends (sdio_reset send os ent (Suc (Suc n)) s)"
  unfolding sdio_cd_def cd_insert_def sdio_attach_def sdio_reset_def Let_def
  by (intro ends_rules attach_loop_ends [OF assms] dev_reset_loop_ends [OF assms])+

section \<open>Properties\<close>

text \<open>Claim C26. Identification of an inserted card and re-identification after a reset come to an end, on every device
  and on every path of failure, when each command and each tuning returns and the card accepts 1.8 V only if
  it has been asked for: the loop without a counter in \<open>sd_init_device\<close> is then run at most twice.\<close>

theorem identification_returns:
  assumes "answers send ent" "polite send"
  shows "sdio_cd send os ent (Suc (Suc n)) s \<noteq> None \<and> sdio_reset send os ent (Suc (Suc n)) s \<noteq> None"
  using cd_ends [OF assms] by (simp add: ends_def)

section \<open>A card that accepts 1.8 V unasked\<close>

text \<open>The answers of such a card: ready, high capacity and 1.8 V accepted; every other command fails.\<close>

definition stuck_send :: sender where
  "stuck_send p tmo retries s =
    (if cmd_opcode (cmd_mem s p) = 41 then Some (upd_cmd p (\<lambda>c. c\<lparr>cmd_rsp := [0xC1000000, 0, 0, 0]\<rparr>) s, EOK) else Some (s, EIO))"

lemma alloc_some:
  assumes "pool_ok s" "blocks s \<noteq> {#}"
  obtains t p where "sdio_alloc_cmd s = (t, p)" "p \<noteq> 0" "blocks s = add_mset p (blocks t)"
proof -
  obtain t p where a: "sdio_alloc_cmd s = (t, p)" by (metis surj_pair)
  have "p \<noteq> 0"
  proof
    assume "p = 0"
    then have "sdio_alloc_cmd s = (t, 0)" using a by simp
    then show False using assms by (cases "cmd_pool s"; cases "cmd_fresh s") (auto simp: sdio_alloc_cmd_def blocks_def pool_ok_def)
  qed
  then show ?thesis using that a alloc_post [OF a assms(1)] by simp
qed

lemma free_blocks: "blocks (sdio_free_cmd p s) = add_mset p (blocks s)"
  by (simp add: blocks_def sdio_free_cmd_def)

lemma stuck_op_cond:
  assumes "pool_ok s" "blocks s \<noteq> {#}"
  shows "\<exists>t. sd_app_send_op_cond stuck_send ocr s = Some (t, EOK, 0xC1000000) \<and> blocks t = blocks s"
proof -
  obtain t p where a: "sdio_alloc_cmd s = (t, p)" "p \<noteq> 0" "blocks s = add_mset p (blocks t)" using alloc_some [OF assms] .
  let ?u = "sdio_setup_cmd p (SCF_CTYPE_BCR OR SCF_RSP_R3 OR SCF_APP_CMD) 41 ocr t"
  let ?v = "upd_cmd p (\<lambda>c. c\<lparr>cmd_rsp := [0xC1000000, 0, 0, 0]\<rparr>) ?u"
  have s: "stuck_send p tmo r ?u = Some (?v, EOK)" for tmo r
    by (simp add: stuck_send_def sdio_setup_cmd_def sdio_setup_cmd_ext_def upd_cmd_def)
  have r: "cmd_rsp (cmd_mem ?v p) ! 0 = 0xC1000000" by (simp add: upd_cmd_def)
  have l: "op_cond_loop stuck_send p SDIO_CMD_RETRIES ocr (Suc 499) ?u = Some (?v, EOK)"
    unfolding op_cond_loop.simps s by (simp add: upd_cmd_def)
  have "sd_app_send_op_cond stuck_send ocr s = Some (sdio_free_cmd p ?v, EOK, 0xC1000000)"
    unfolding sd_app_send_op_cond_def op_cond_def a(1) Let_def using a(2) l r by simp
  moreover have "blocks (sdio_free_cmd p ?v) = blocks s"
    unfolding free_blocks a(3) by (simp add: blocks_def upd_cmd_def sdio_setup_cmd_def sdio_setup_cmd_ext_def)
  ultimately show ?thesis by blast
qed

lemma stuck_switch:
  assumes "pool_ok s" "blocks s \<noteq> {#}"
  shows "\<exists>t. sd_voltage_switch stuck_send s = Some (t, EIO) \<and> blocks t = blocks s"
proof -
  obtain t p where a: "sdio_alloc_cmd s = (t, p)" "p \<noteq> 0" "blocks s = add_mset p (blocks t)" using alloc_some [OF assms] .
  let ?u = "sdio_setup_cmd p (SCF_CTYPE_AC OR SCF_RSP_R1) 11 0 t"
  have "stuck_send p tmo r ?u = Some (?u, EIO)" for tmo r
    by (simp add: stuck_send_def sdio_setup_cmd_def sdio_setup_cmd_ext_def upd_cmd_def)
  then have "sd_voltage_switch stuck_send s = Some (sdio_free_cmd p ?u, EIO)"
    unfolding sd_voltage_switch_def cmd_call_def drop_cmd_def a(1) Let_def using a(2) by simp
  moreover have "blocks (sdio_free_cmd p ?u) = blocks s"
    unfolding free_blocks a(3) by (simp add: blocks_def upd_cmd_def sdio_setup_cmd_def sdio_setup_cmd_ext_def)
  ultimately show ?thesis by blast
qed


end
