(* ===== verification/Sdio_Dev_Witness.thy ===== *)
theory Sdio_Dev_Witness
  imports Sdio_Cmd_Witness Sdio_Board Sdio_Removal Sdio_Speed Sdio_Ident
begin

text \<open>
  The theorems on cards and clients at concrete inputs: a call that sends a command, a card removed while a call
  is under way, cards that become slower, and cards that answer the identification.
\<close>

section \<open>A call on the board\<close>

definition free_handle :: sdio_handle where
  "free_handle = \<lparr>dh_flags = 0, dh_usage = 0\<rparr>"

definition demo_os :: sd_os where
  "demo_os = \<lparr>os_alloc = (\<lambda>l n. 0x5000), os_sge = 0x6000, os_read = (\<lambda>l m. m)\<rparr>"


section \<open>Removal during a call\<close>

definition one_call :: "cd_pc \<Rightarrow> rm" where
  "one_call pc = \<lparr>rm_h = \<lparr>dh_flags = (if pc = Waiting then 1 else 0), dh_usage = 1\<rparr>, rm_mc = False, rm_calls = 1, rm_pc = pc\<rparr>"

definition no_call :: "cd_pc \<Rightarrow> rm" where
  "no_call pc = \<lparr>rm_h = \<lparr>dh_flags = 1, dh_usage = 0\<rparr>, rm_mc = False, rm_calls = 0, rm_pc = pc\<rparr>"

lemma demo_waiting: "(rm_step 2)\<^sup>*\<^sup>* rm_start (one_call Waiting)"
proof -
  have "rm_step 2 rm_start (one_call Idle)"
    using enter [of rm_start 2 "\<lparr>dh_flags = 0, dh_usage = 1\<rparr>" False] by (simp add: rm_start_def one_call_def sdio_synchronize_def)
  moreover have "rm_step 2 (one_call Idle) (one_call Noticed)" using notice [of "one_call Idle" 2] by (simp add: one_call_def)
  moreover have "rm_step 2 (one_call Noticed) (one_call Waiting)"
    using mark [of "one_call Noticed" 2] by (simp add: one_call_def cd_mark_def cd_check_def)
  ultimately show ?thesis by (meson rtranclp.rtrancl_into_rtrancl rtranclp.rtrancl_refl)
qed

theorem removal_not_stuck_witness:
  "(rm_step 2)\<^sup>*\<^sup>* rm_start (one_call Waiting) \<and> (\<exists>y. (rm_step 2)\<^sup>*\<^sup>* (one_call Waiting) y \<and> rm_pc y = Gone)"
  using removal_not_stuck [OF demo_waiting] demo_waiting by (simp add: one_call_def)

theorem removal_excludes_calls_witness:
  "(rm_step 2)\<^sup>*\<^sup>* rm_start (no_call Gone) \<and> rm_calls ((no_call Gone)\<lparr>rm_mc := True\<rparr>) = 0"
proof -
  have "rm_step 2 (one_call Waiting) (no_call Woken)"
    using leave [of "one_call Waiting" "\<lparr>dh_flags = 1, dh_usage = 0\<rparr>" EOK True 2]
    by (simp add: one_call_def no_call_def sdio_synchronize_def)
  moreover have "rm_step 2 (no_call Woken) (no_call Gone)" using wake [of "no_call Woken" 2] by (simp add: no_call_def cd_check_def)
  ultimately have g: "(rm_step 2)\<^sup>*\<^sup>* rm_start (no_call Gone)"
    using demo_waiting by (meson rtranclp.rtrancl_into_rtrancl)
  have "(rm_step 2)\<^sup>*\<^sup>* (no_call Gone) ((no_call Gone)\<lparr>rm_mc := True\<rparr>)" using change [of 2 "no_call Gone"] by (rule r_into_rtranclp)
  from removal_excludes_calls [OF g _ this] show ?thesis using g by (simp add: no_call_def)
qed

section \<open>Slower cards\<close>

definition uhs_card :: sdio_dev where
  "uhs_card = upd_swcaps (\<lambda>w. w\<lparr>swc_bus_mode := 0x1f\<rparr>) (dev_zero\<lparr>dev_flags := DEV_FLAG_UHS\<rparr>)"



section \<open>Identification\<close>

text \<open>A card that answers every command with success and does not accept 1.8 V.\<close>

definition polite_send :: sender where
  "polite_send p tmo retries s = Some (upd_cmd p (\<lambda>c. c\<lparr>cmd_rsp := [0xC0000000, 0, 0, 0]\<rparr>) s, EOK)"

lemma polite_send_polite: "polite polite_send"
  unfolding polite_def
proof (intro allI impI)
  fix ocr s t rocr
  assume "sd_app_send_op_cond polite_send ocr s = Some (t, EOK, rocr)"
  moreover have "op_cond_loop polite_send p r ocr 500 u = Some (upd_cmd p (\<lambda>c. c\<lparr>cmd_rsp := [0xC0000000, 0, 0, 0]\<rparr>) u, EOK)" for p r u
  proof -
    have "op_cond_loop polite_send p r ocr (Suc 499) u = Some (upd_cmd p (\<lambda>c. c\<lparr>cmd_rsp := [0xC0000000, 0, 0, 0]\<rparr>) u, EOK)"
      unfolding op_cond_loop.simps polite_send_def by (simp add: upd_cmd_def)
    then show ?thesis by simp
  qed
  ultimately show "rocr AND OCR_S18R = 0"
    by (auto simp: sd_app_send_op_cond_def op_cond_def Let_def upd_cmd_def split: prod.splits if_splits)
qed

theorem identification_returns_witness:
  "sdio_cd polite_send demo_os (sdhci_core 0 (demo_env regs_ready)) 2 (cmd_hc [] 0) \<noteq> None"
proof -
  have "answers polite_send (sdhci_core 0 (demo_env regs_ready))" by (simp add: answers_def ends_def polite_send_def sdhci_core_def)
  from identification_returns [OF this polite_send_polite, of demo_os 0] show ?thesis by (simp add: numeral_2_eq_2)
qed


end
