(* ===== verification/Spec2Isabelle.thy ===== *)
theory Spec2Isabelle
  imports Ram_Witness I2c_Witness Spi_Witness Mmu_Witness Pl011_Witness Util_Witness Sdio_Dev_Witness
begin

text \<open>
  Verification of the board support package for the Raspberry Pi 5 (BCM2712): the startup program
  that prepares memory for the kernel, and the drivers for serial port, I2C, SPI and SD card. All paths
  below are relative to \<open>src/src/hardware\<close>.

  \<^bold>\<open>The parts and how they work together.\<close> The startup program (\<open>startup\<close>) finds the memory of the board,
  keeps a list of free memory, builds the system page (a block of sections that the kernel reads: names,
  address spaces, callouts) and the page tables. Its memory manager calls the address-space list for every
  range that it adds, that list calls the string table for names, and the table is a section of the system
  page; the page tables take their memory from the memory manager. The drivers run later, on their own, each
  over the registers of one controller: they answer interrupts and share their state between an interrupt
  routine and the caller.

  \<^bold>\<open>Theories and sources.\<close>
  \<^item> \<open>Prelude\<close>: C integers, results of code that may stop, the interface of an allocator.
  \<^item> \<open>Ram_List\<close>, \<open>Ram\<close>: \<open>startup/lib/ram.c\<close> and the memory of the board
    (\<open>startup/boards/bcm/bcm2712/bcm2712_init_raminfo.c\<close>, \<open>init_board_type.c\<close>).
  \<^item> \<open>Syspage\<close>, \<open>Strings\<close>, \<open>Asinfo\<close>: \<open>startup/lib/syspage_memory.c\<close>, \<open>callouts.c\<close>, \<open>strings.c\<close>, \<open>hwi_alloc.c\<close>,
    \<open>as_*.c\<close>.
  \<^item> \<open>Mmu\<close>, \<open>Mmu_Proofs\<close>, \<open>Mmu_Map\<close>: \<open>startup/lib/aarch64/aarch64_map.c\<close>, \<open>elf_map.c\<close>, \<open>map_callout_*.c\<close>.
  \<^item> \<open>Util\<close>, \<open>Util_Proofs\<close>: the startup library's own \<open>memcpy.c\<close>, \<open>memmove.c\<close>, \<open>strtoul.c\<close>, \<open>getsize.c\<close>, \<open>ultoa_end.c\<close>,
    \<open>calc_time_t.c\<close>, \<open>gmtime.c\<close> and the conversions of timer ticks.
  \<^item> \<open>Mmio\<close>, \<open>Clib\<close>: register access as a log of reads and writes; \<open>strtoul\<close> and \<open>getsubopt\<close> of the C library.
  \<^item> \<open>I2c\<close>, \<open>I2c_Proofs\<close>: \<open>i2c/dwc\<close>. \<open>Spi\<close>, \<open>Spi_Proofs\<close>, \<open>Spi_Config\<close>: \<open>spi/dwc\<close>.
  \<^item> \<open>Pl011\<close>, \<open>Pl011_Init\<close>, \<open>Pl011_Proofs\<close>, \<open>Pl011_Serial\<close>: \<open>devc/serpl011\<close>.
  \<^item> \<open>Sdio_Card\<close>, \<open>Sdio_Card_Proofs\<close>: the card registers, decoded in \<open>devb/sdmmc/sdiodi/sd.c\<close> and \<open>mmc.c\<close>.
  \<^item> \<open>Sdio_Hc\<close>, \<open>Sdio_Cmd\<close>, \<open>Sdio_Cmd_Proofs\<close>: the command layer of \<open>sdiodi/base.c\<close> and \<open>card.c\<close>, the board's
    \<open>aarch64/bcm2712.le/bs.c\<close>. \<open>Sdhci\<close>, \<open>Sdhci_Proofs\<close>: the controller, \<open>sdiodi/hc/sdhci.c\<close>.
  \<^item> \<open>Sd\<close>, \<open>Mmc\<close>: commands, identification, bus set-up and bus errors of SD cards (\<open>sdiodi/sd.c\<close>) and MMC devices
    (\<open>sdiodi/mmc.c\<close>). \<open>Sdio_Dev\<close>: reset, attaching and card detection of \<open>base.c\<close>, the calls of \<open>card.c\<close>.
    \<open>Sd_Proofs\<close>, \<open>Sdio_Board\<close>: what they leave behind, over any controller and on the board. \<open>Sdio_Ident\<close>: that they
    end. \<open>Sdio_Speed\<close>: choice of the bus mode and reaction to errors. \<open>Sdio_Removal\<close>: client calls against the
    detection thread.
  \<^item> \<open>*_Witness\<close>: the theorems applied at concrete inputs.

  \<^bold>\<open>How code becomes definitions.\<close> A structure is a record with the fields' names, an enumeration a datatype, a
  C integer a word of its width; a function takes the state and returns it changed, with its result. Code that
  may end in \<open>crash()\<close> returns a sum whose left side is the message. A device is a function from the log of all
  accesses to the value read: nothing is assumed of it unless a theorem says so, and every theorem on a driver
  holds for any device behaviour that its hypotheses allow. Memory that the code reaches by pointers is a map
  from addresses. Code outside the sources (the io-char library, the system's headers, the C library's allocator)
  is an argument, collected in records such as \<open>sdio_env\<close>.

  \<^bold>\<open>What the lemmas show.\<close>
  \<^item> Memory: the invariant of the free list; blocks taken in any sequence are disjoint and inside free memory;
    what is free after the board's ranges, the boot image and the firmware's part have been entered.
  \<^item> System page: growing and moving sections keeps every byte; names are read back at their offsets; new
    address-space entries cover the requested range exactly.
  \<^item> Page tables: a mapping is found by a walk of the tables as the hardware does it, other translations stay.
  \<^item> Drivers: the traffic on the bus is a prefix of a reference sequence and all of it on success; buffers are
    never left; the driver's copy of registers agrees with the device; loops end.
  \<^item> SD/MMC: fields of card registers as numbers; descriptors of a DMA transfer cover exactly the scatter list;
    the fastest clock allowed; interrupts complete the active command and touch no other; whatever clients and
    the detection thread do, in any sequence and on any device, command blocks are given back and calls counted
    out; a card is not taken away during a call, and the wait for the calls is not missed; identification ends
    for a card that keeps to the rule on 1.8 V, and need not end for another; bus errors make an SD card slower.

  \<^bold>\<open>Interfaces.\<close> \<open>block_allocator\<close> (what a client may rely on after a sequence of allocations) is interpreted on
  \<open>alloc_ram\<close>; \<open>section_store\<close> (growing and writing sections) on the system page, and gives the string
  table and the address-space list their round trips; \<open>hc_driver\<close> (what a controller's entry table may change)
  on the SD host controller's table and the board's, and gives the command layer its theorems; \<open>card_bus\<close> (what the
  code for cards relies on: the sending of commands, the controller's settings and tuning) on the board's table
  with \<open>_sdio_send_cmd\<close>, and gives identification and the client calls theirs.

  \<^bold>\<open>Bounds and fuel.\<close> Loops over lists and counters are structural or have a measure. The loop of \<open>alloc_ram\<close> over
  the system's list, which appends to the list that it walks, has fuel that is proved to be enough. Loops whose
  end depends on the device (the serial input loop, a transfer by the processor, the waits of the I2C driver)
  return \<open>None\<close> when a given number of rounds is over, and theorems that they return say for which
  devices. The wait for an SD command follows a schedule of interrupts, so that a timeout may come at any
  moment. The depth of recursion in \<open>sdio_send_cmd\<close> is an argument; depth one is proved to be enough. The rounds of
  the loop in \<open>sd_init_device\<close> that asks for 1.8 V are an argument; two are enough for a card that keeps to the rule.

  \<^bold>\<open>Not modelled.\<close> The CAM interface of the SD driver (\<open>sim_sdmmc.c\<close>, \<open>sim_assd.c\<close>) and its bus glue
  (\<open>pci.c\<close>, \<open>soc.c\<close>), which are written against libraries that the sources do not contain; the start of
  threads, the timers and the options of \<open>base.c\<close>, and its power management, for which the controller has no
  function; attaching of clients in \<open>card.c\<close>; interrupt controller, callouts and entry code, which are
  assembler or work on system registers; boot image loading; device tree,
  UEFI and ACPI access through libraries; tables of constants for hardware information and GPIO; the command
  line tools under \<open>support\<close>.
\<close>

end
